(* ===== verification/Prelude.thy ===== *)
theory Prelude
  imports Complex_Main "HOL-Library.Signed_Division" "HOL-Library.Multiset"
begin

text \<open>
  The vocabulary shared by every component of the development: Go's integer division, the
  string functions of the \<^verbatim>\<open>strings\<close> package the sources use, results that may be an
  error or a panic, and generic lemmas on lists, sorting and finite maps.

  Conventions. A Go \<^verbatim>\<open>string\<close> is a \<^typ>\<open>string\<close> (a list of bytes). A Go pointer that may be
  nil is an \<open>option\<close>. A call that may return an error is a value of a sum type, \<open>Inl\<close> the
  error. A run-time panic (index out of range, slice bounds out of range) is \<open>None\<close> in the
  functions that can panic. A Go map whose iteration order is visible is an association list
  in the order of the iteration, and the theorems quantify over every such list; a Go map that
  is only looked up and updated is a HOL map.
\<close>

named_theorems row_simps \<open>how the statements on a table read and change its rows\<close>
named_theorems keeps \<open>invariants kept by an operation\<close>

subsection \<open>Integers\<close>

text \<open>
  \<^verbatim>\<open>timeseries.Time\<close> and \<^verbatim>\<open>timeseries.Duration\<close> are int64 counts of seconds. The
  values of the program are seconds since 1970 and lengths of windows, far below \<open>2 ^ 63\<close>,
  so they are unbounded integers here. Go's \<^verbatim>\<open>/\<close> and \<^verbatim>\<open>%\<close> truncate towards zero:
  they are \<open>sdiv\<close> and \<open>smod\<close>.
\<close>

type_synonym Time = int
type_synonym Duration = int

lemma sdiv_nonneg: "0 \<le> a \<Longrightarrow> 0 < b \<Longrightarrow> a sdiv b = a div (b::int)"
  by (cases "a = 0") (auto simp: signed_divide_int_def sgn_if)

lemma smod_nonneg: "0 \<le> a \<Longrightarrow> 0 < b \<Longrightarrow> a smod b = a mod (b::int)"
  by (cases "a = 0") (auto simp: signed_modulo_int_def sgn_if)

lemma dvd_smod: "b dvd a \<Longrightarrow> a smod b = (0::int)"
  by (simp add: signed_modulo_int_def)

subsection \<open>Strings\<close>

text \<open>\<^verbatim>\<open>strings.Join\<close>\<close>

fun strings_Join :: "string list \<Rightarrow> string \<Rightarrow> string" where
  "strings_Join [] sep = []"
| "strings_Join [x] sep = x"
| "strings_Join (x # xs) sep = x @ sep @ strings_Join xs sep"

text \<open>\<^verbatim>\<open>strings.Split\<close> and \<^verbatim>\<open>strings.SplitN\<close> with a separator of one character.\<close>

fun strings_Split :: "string \<Rightarrow> char \<Rightarrow> string list" where
  "strings_Split [] sep = [[]]"
| "strings_Split (c # s) sep =
     (if c = sep then [] # strings_Split s sep
      else (case strings_Split s sep of [] \<Rightarrow> [[c]] | p # ps \<Rightarrow> (c # p) # ps))"

fun strings_SplitN :: "string \<Rightarrow> char \<Rightarrow> nat \<Rightarrow> string list" where
  "strings_SplitN s sep 0 = []"
| "strings_SplitN s sep (Suc 0) = [s]"
| "strings_SplitN s sep (Suc (Suc n)) =
     (if sep \<in> set s
      then takeWhile (\<lambda>c. c \<noteq> sep) s
             # strings_SplitN (tl (dropWhile (\<lambda>c. c \<noteq> sep) s)) sep (Suc n)
      else [s])"

lemma strings_Split_not_Nil [simp]: "strings_Split s sep \<noteq> []"
  by (induction s sep rule: strings_Split.induct) (auto split: list.splits)

lemma strings_Split_no_sep: "sep \<notin> set s \<Longrightarrow> strings_Split s sep = [s]"
  by (induction s sep rule: strings_Split.induct) auto

lemma strings_Split_append:
  "sep \<notin> set a \<Longrightarrow> strings_Split (a @ sep # s) sep = a # strings_Split s sep"
  by (induction a) auto

lemma strings_SplitN_append:
  "sep \<notin> set a \<Longrightarrow>
   strings_SplitN (a @ sep # s) sep (Suc (Suc n)) = a # strings_SplitN s sep (Suc n)"
  by (induction a) auto

text \<open>A byte-wise order on strings: \<^verbatim>\<open>sort.Strings\<close> sorts by it.\<close>

fun string_le :: "string \<Rightarrow> string \<Rightarrow> bool" where
  "string_le [] t = True"
| "string_le (c # s) [] = False"
| "string_le (c # s) (d # t) =
     (if c = d then string_le s t else (of_char c :: nat) < of_char d)"

fun insert_string :: "string \<Rightarrow> string list \<Rightarrow> string list" where
  "insert_string x [] = [x]"
| "insert_string x (y # ys) = (if string_le x y then x # y # ys else y # insert_string x ys)"

definition sort_Strings :: "string list \<Rightarrow> string list" where
  "sort_Strings xs = foldr insert_string xs []"

lemma string_le_refl [simp]: "string_le s s"
  by (induction s) auto

lemma string_le_antisym: "string_le s t \<Longrightarrow> string_le t s \<Longrightarrow> s = t"
  by (induction s t rule: string_le.induct) (auto split: if_splits elim: string_le.elims)

lemma string_le_total: "string_le s t \<or> string_le t s"
proof (induction s t rule: string_le.induct)
  case (3 c s d t)
  have "c = d \<or> (of_char c :: nat) < of_char d \<or> (of_char d :: nat) < of_char c"
    by (metis linorder_neqE_nat of_char_eq_iff)
  with 3 show ?case by auto
qed auto

lemma string_le_trans: "string_le s t \<Longrightarrow> string_le t u \<Longrightarrow> string_le s u"
proof (induction s t arbitrary: u rule: string_le.induct)
  case (3 c s d t)
  then show ?case by (cases u) (auto split: if_splits)
qed auto

lemma insert_string_comm: "insert_string x (insert_string y zs) = insert_string y (insert_string x zs)"
proof (induction zs)
  case Nil
  then show ?case using string_le_total [of x y] by (auto dest: string_le_antisym)
next
  case (Cons z zs)
  then show ?case
    using string_le_total [of x y] string_le_total [of y z] string_le_total [of x z]
    by (auto dest: string_le_antisym string_le_trans)
qed

lemma sort_Strings_perm: "mset xs = mset ys \<Longrightarrow> sort_Strings xs = sort_Strings ys"
proof -
  assume "mset xs = mset ys"
  then show ?thesis
    unfolding sort_Strings_def
  proof (induction xs arbitrary: ys)
    case Nil
    then show ?case by simp
  next
    case (Cons x xs)
    then have "x \<in> set ys" by (metis list.set_intros(1) mset_eq_setD)
    then obtain as bs where ys: "ys = as @ x # bs" by (auto simp: in_set_conv_decomp)
    with Cons.prems have "mset xs = mset (as @ bs)" by simp
    then have "foldr insert_string xs [] = foldr insert_string (as @ bs) []" by (rule Cons.IH)
    moreover have "insert_string x (foldr insert_string as zs) = foldr insert_string as (insert_string x zs)" for zs
      by (induction as) (auto simp: insert_string_comm)
    ultimately show ?case using ys by simp
  qed
qed

lemma set_insert_string [simp]: "set (insert_string x xs) = insert x (set xs)"
  by (induction xs) auto

lemma set_sort_Strings [simp]: "set (sort_Strings xs) = set xs"
  by (induction xs) (auto simp: sort_Strings_def)

lemma distinct_sort_Strings: "distinct xs \<Longrightarrow> distinct (sort_Strings xs)"
proof -
  have "mset (insert_string x ys) = add_mset x (mset ys)" for x ys by (induction ys) auto
  then have "mset (foldr insert_string xs []) = mset xs" by (induction xs) auto
  then show "distinct xs \<Longrightarrow> distinct (sort_Strings xs)"
    unfolding sort_Strings_def by (metis mset_eq_imp_distinct_iff)
qed

subsection \<open>Decimal numbers\<close>

text \<open>
  \<^verbatim>\<open>strconv.Itoa\<close> and the verb \<^verbatim>\<open>%d\<close>, and the parsers \<^verbatim>\<open>strconv.ParseUint(s, 10, 64)\<close>
  and \<^verbatim>\<open>strconv.Atoi\<close>. The latter answers the nearest int64 when the number is out of range and
  zero when the text is not a number.
\<close>

definition digit :: "nat \<Rightarrow> char" where
  "digit n = char_of (48 + n)"

definition is_digit :: "char \<Rightarrow> bool" where
  "is_digit c \<longleftrightarrow> 48 \<le> (of_char c :: nat) \<and> (of_char c :: nat) \<le> 57"

fun nat_string :: "nat \<Rightarrow> string" where
  "nat_string n = (if n < 10 then [digit n] else nat_string (n div 10) @ [digit (n mod 10)])"

declare nat_string.simps [simp del]

definition Itoa :: "int \<Rightarrow> string" where
  "Itoa i = (if i < 0 then CHR ''-'' # nat_string (nat (- i)) else nat_string (nat i))"

definition digits_value :: "string \<Rightarrow> nat" where
  "digits_value s = foldl (\<lambda>n c. 10 * n + (of_char c - 48)) 0 s"

definition parse_digits :: "string \<Rightarrow> nat option" where
  "parse_digits s = (if s \<noteq> [] \<and> list_all is_digit s then Some (digits_value s) else None)"

definition ParseUint :: "string \<Rightarrow> nat option" where
  "ParseUint s = (case parse_digits s of None \<Rightarrow> None | Some n \<Rightarrow> if n < 2 ^ 64 then Some n else None)"

definition clamp64 :: "int \<Rightarrow> int" where
  "clamp64 i = max (- (2 ^ 63)) (min (2 ^ 63 - 1) i)"

definition Atoi :: "string \<Rightarrow> int" where
  "Atoi s =
     (let (neg, body) = (if s \<noteq> [] \<and> hd s = CHR ''-'' then (True, tl s)
                         else if s \<noteq> [] \<and> hd s = CHR ''+'' then (False, tl s) else (False, s))
      in case parse_digits body of None \<Rightarrow> 0
         | Some n \<Rightarrow> clamp64 (if neg then - int n else int n))"

lemma of_char_digit [simp]: "n < 10 \<Longrightarrow> of_char (digit n) = 48 + n"
  by (simp add: digit_def)

lemma is_digit_digit [simp]: "n < 10 \<Longrightarrow> is_digit (digit n)"
  by (simp add: is_digit_def)

lemma digits_nat_string: "list_all is_digit (nat_string n) \<and> nat_string n \<noteq> [] \<and> digits_value (nat_string n) = n"
proof (induction n rule: nat_string.induct)
  case (1 n)
  then show ?case
    by (cases "n < 10") (simp_all add: nat_string.simps [of n] digits_value_def)
qed

lemma parse_digits_nat_string [simp]: "parse_digits (nat_string n) = Some n"
  using digits_nat_string [of n] by (simp add: parse_digits_def)

lemma nat_string_not_Nil [simp]: "nat_string n \<noteq> []"
  using digits_nat_string [of n] by simp

lemma hd_nat_string: "is_digit (hd (nat_string n))"
  using digits_nat_string [of n] by (cases "nat_string n") auto

lemma Atoi_Itoa: "- (2 ^ 63) \<le> i \<Longrightarrow> i < 2 ^ 63 \<Longrightarrow> Atoi (Itoa i) = i"
proof -
  assume r: "- (2 ^ 63) \<le> i" "i < 2 ^ 63"
  have "hd (nat_string (nat i)) \<noteq> CHR ''-''" "hd (nat_string (nat i)) \<noteq> CHR ''+''"
    using hd_nat_string [of "nat i"] by (auto simp: is_digit_def)
  with r show ?thesis by (auto simp: Itoa_def Atoi_def clamp64_def Let_def)
qed

definition has_prefix :: "string \<Rightarrow> string \<Rightarrow> bool" where
  "has_prefix s p \<longleftrightarrow> take (length p) s = p"

definition TrimPrefix :: "string \<Rightarrow> string \<Rightarrow> string" where
  "TrimPrefix s p = (if has_prefix s p then drop (length p) s else s)"

subsection \<open>Stable sorting by a comparison\<close>

fun insert_by :: "('a \<Rightarrow> 'a \<Rightarrow> bool) \<Rightarrow> 'a \<Rightarrow> 'a list \<Rightarrow> 'a list" where
  "insert_by le x [] = [x]"
| "insert_by le x (y # ys) = (if le x y then x # y # ys else y # insert_by le x ys)"

definition sort_by :: "('a \<Rightarrow> 'a \<Rightarrow> bool) \<Rightarrow> 'a list \<Rightarrow> 'a list" where
  "sort_by le xs = foldr (insert_by le) xs []"

lemma set_insert_by [simp]: "set (insert_by le x ys) = insert x (set ys)"
  by (induction ys) auto

lemma set_sort_by [simp]: "set (sort_by le xs) = set xs"
  by (induction xs) (auto simp: sort_by_def)

lemma length_insert_by [simp]: "length (insert_by le x ys) = Suc (length ys)"
  by (induction ys) auto

lemma length_sort_by [simp]: "length (sort_by le xs) = length xs"
  by (induction xs) (auto simp: sort_by_def)

lemma mset_insert_by [simp]: "mset (insert_by le x ys) = add_mset x (mset ys)"
  by (induction ys) auto

lemma mset_sort_by [simp]: "mset (sort_by le xs) = mset xs"
  by (induction xs) (auto simp: sort_by_def)

lemma sort_by_Nil [simp]: "sort_by le [] = []"
  by (simp add: sort_by_def)

lemma sort_by_eq_Nil [simp]: "sort_by le xs = [] \<longleftrightarrow> xs = []"
  by (metis length_0_conv length_sort_by)

subsection \<open>Tables\<close>

text \<open>\<open>UPDATE \<dots> SET \<dots> WHERE \<dots>\<close> on a table, and reading rows that may fail to decode.\<close>

definition update_rows :: "('r \<Rightarrow> bool) \<Rightarrow> ('r \<Rightarrow> 'r) \<Rightarrow> 'r list \<Rightarrow> 'r list" where
  "update_rows P f rows = map (\<lambda>r. if P r then f r else r) rows"

definition count_rows :: "('r \<Rightarrow> bool) \<Rightarrow> 'r list \<Rightarrow> nat" where
  "count_rows P rows = length (filter P rows)"

lemma length_update_rows [simp]: "length (update_rows P f rows) = length rows"
  by (simp add: update_rows_def)

lemma set_update_rows: "set (update_rows P f rows) = (\<lambda>r. if P r then f r else r) ` set rows"
  by (simp add: update_rows_def)

text \<open>An update whose results satisfy \<open>Q\<close> only where the row did does not increase the count.\<close>

lemma count_rows_update_le [keeps]:
  assumes "\<And>r. P r \<Longrightarrow> Q (f r) \<Longrightarrow> Q r"
  shows "count_rows Q (update_rows P f rows) \<le> count_rows Q rows"
  using assms by (induction rows) (auto simp: count_rows_def update_rows_def)

lemma count_rows_delete_le [keeps]: "count_rows Q (filter P rows) \<le> count_rows Q rows"
  by (induction rows) (auto simp: count_rows_def)

lemma count_rows_append [simp]: "count_rows Q (xs @ ys) = count_rows Q xs + count_rows Q ys"
  by (simp add: count_rows_def)

lemma count_rows_single [simp]: "count_rows Q [r] = (if Q r then 1 else 0)"
  by (simp add: count_rows_def)

lemma count_rows_0_iff: "count_rows Q rows = 0 \<longleftrightarrow> (\<forall>r\<in>set rows. \<not> Q r)"
  by (auto simp: count_rows_def filter_empty_conv)

lemma those_Some: "those xs = Some ys \<Longrightarrow> xs = map Some ys"
  by (induction xs arbitrary: ys) (auto split: option.splits)

lemma those_map_Some [simp]: "those (map (\<lambda>x. Some (f x)) xs) = Some (map f xs)"
  by (induction xs) auto

lemma update_rows_twice:
  "(\<And>r. P (g r) = P r) \<Longrightarrow> (\<And>r. g (g r) = g r) \<Longrightarrow>
     update_rows P g (update_rows Q g rows) = update_rows (\<lambda>r. P r \<or> Q r) g rows"
  by (simp add: update_rows_def)

lemma update_rowsE:
  assumes "s \<in> set (update_rows P g rows)"
  obtains r where "r \<in> set rows" "s = (if P r then g r else r)"
  using assms unfolding update_rows_def by auto

lemma count_rows_unique: "count_rows P xs \<le> 1 \<Longrightarrow> x \<in> set xs \<Longrightarrow> y \<in> set xs \<Longrightarrow> P x \<Longrightarrow> P y \<Longrightarrow> x = y"
  by (induction xs) (auto simp: count_rows_def filter_empty_conv split: if_splits)

text \<open>A property kept by the body of a loop is kept by the loop.\<close>

lemma fold_ok: "(\<And>x s. P s \<Longrightarrow> P (f x s)) \<Longrightarrow> P s \<Longrightarrow> P (fold f xs s)"
  by (induction xs arbitrary: s) auto

lemma fold_ok_set: "(\<And>x s. x \<in> set xs \<Longrightarrow> P s \<Longrightarrow> P (f x s)) \<Longrightarrow> P s \<Longrightarrow> P (fold f xs s)"
  by (induction xs arbitrary: s) auto

end
