(* ===== verification/Float32.thy ===== *)
theory Float32
  imports Prelude
begin

text \<open>
  Go's float32, the type of every sample of a time series: the values of IEEE 754 binary32 with
  round-to-nearest-even arithmetic. \<open>Fin q\<close> is a finite value that is not negative zero (so
  \<open>Fin 0\<close> is positive zero), \<open>NegZero\<close> is negative zero. The payload and the sign of a NaN are
  not observable in the sources, so there is one NaN.
\<close>

datatype f32 = NaN | PInf | NInf | NegZero | Fin rat

fun IsNaN :: "f32 \<Rightarrow> bool" where
  "IsNaN NaN = True"
| "IsNaN _ = False"

lemma IsNaN_iff [simp]: "IsNaN v \<longleftrightarrow> v = NaN"
  by (cases v) auto

text \<open>
  The exponent of a positive rational (\<open>2 ^ e \<le> q < 2 ^ (e + 1)\<close>), from the bit lengths of its
  numerator and its denominator, and rounding to the nearest value with 24 bits of precision,
  ties to even. Below the exponent \<open>-126\<close> the unit in the last place stays at
  \<open>2 ^ -149\<close> (subnormal values); from \<open>2 ^ 128\<close> on the value is infinite.
\<close>

definition two_powi :: "int \<Rightarrow> rat" where
  "two_powi e = (if 0 \<le> e then 2 ^ nat e else 1 / 2 ^ nat (- e))"

fun ilog2 :: "nat \<Rightarrow> nat" where
  "ilog2 n = (if n < 2 then 0 else Suc (ilog2 (n div 2)))"

declare ilog2.simps [simp del]

definition exponent :: "rat \<Rightarrow> int" where
  "exponent q =
     (let (n, d) = quotient_of q;
          e = int (ilog2 (nat n)) - int (ilog2 (nat d))
      in if two_powi e \<le> q then e else e - 1)"

text \<open>The same on integers, whose binary representation evaluates in the kernel.\<close>

fun ilog2_int :: "int \<Rightarrow> int" where
  "ilog2_int n = (if n < 2 then 0 else 1 + ilog2_int (n div 2))"

declare ilog2_int.simps [simp del]

lemma ilog2_int_nat: "int (ilog2 (nat n)) = ilog2_int n"
proof (induction n rule: ilog2_int.induct)
  case (1 n)
  then show ?case
    by (subst ilog2.simps, subst ilog2_int.simps) (auto simp: nat_div_distrib)
qed

lemma exponent_code [code]:
  "exponent q =
     (let (n, d) = quotient_of q; e = ilog2_int n - ilog2_int d
      in if two_powi e \<le> q then e else e - 1)"
  by (simp add: exponent_def ilog2_int_nat)

definition round_half_even :: "rat \<Rightarrow> int" where
  "round_half_even q =
     (let k = \<lfloor>q\<rfloor>; r = q - of_int k
      in if r < 1/2 then k
         else if r > 1/2 then k + 1
         else if even k then k else k + 1)"

definition round32 :: "bool \<Rightarrow> rat \<Rightarrow> f32" where
  "round32 neg q =
     (if q = 0 then (if neg then NegZero else Fin 0)
      else
        (let a = \<bar>q\<bar>;
             u = two_powi (max (exponent a) (-126) - 23);
             r = of_int (round_half_even (a / u)) * u
         in if r \<ge> 2 ^ 128 then (if q < 0 then NInf else PInf)
            else if r = 0 then (if q < 0 then NegZero else Fin 0)
            else Fin (if q < 0 then - r else r)))"

text \<open>The sign bit, and the rational a finite value stands for.\<close>

fun negative :: "f32 \<Rightarrow> bool" where
  "negative NInf = True"
| "negative NegZero = True"
| "negative (Fin q) = (q < 0)"
| "negative _ = False"

fun rat_of :: "f32 \<Rightarrow> rat" where
  "rat_of (Fin q) = q"
| "rat_of _ = 0"

fun finite32 :: "f32 \<Rightarrow> bool" where
  "finite32 (Fin q) = True"
| "finite32 NegZero = True"
| "finite32 _ = False"

fun f32_neg :: "f32 \<Rightarrow> f32" where
  "f32_neg NaN = NaN"
| "f32_neg PInf = NInf"
| "f32_neg NInf = PInf"
| "f32_neg NegZero = Fin 0"
| "f32_neg (Fin q) = (if q = 0 then NegZero else Fin (- q))"

definition f32_add :: "f32 \<Rightarrow> f32 \<Rightarrow> f32" where
  "f32_add x y =
     (if x = NaN \<or> y = NaN then NaN
      else if x = PInf then (if y = NInf then NaN else PInf)
      else if x = NInf then (if y = PInf then NaN else NInf)
      else if y = PInf \<or> y = NInf then y
      else round32 (x = NegZero \<and> y = NegZero) (rat_of x + rat_of y))"

definition f32_sub :: "f32 \<Rightarrow> f32 \<Rightarrow> f32" where
  "f32_sub x y = f32_add x (f32_neg y)"

definition f32_is_zero :: "f32 \<Rightarrow> bool" where
  "f32_is_zero x \<longleftrightarrow> x = NegZero \<or> x = Fin 0"

definition signed_inf :: "bool \<Rightarrow> f32" where
  "signed_inf neg = (if neg then NInf else PInf)"

definition signed_zero :: "bool \<Rightarrow> f32" where
  "signed_zero neg = (if neg then NegZero else Fin 0)"

definition f32_mul :: "f32 \<Rightarrow> f32 \<Rightarrow> f32" where
  "f32_mul x y =
     (let neg = (negative x \<noteq> negative y) in
      if x = NaN \<or> y = NaN then NaN
      else if \<not> finite32 x \<or> \<not> finite32 y
        then (if f32_is_zero x \<or> f32_is_zero y then NaN else signed_inf neg)
      else round32 neg (rat_of x * rat_of y))"

definition f32_div :: "f32 \<Rightarrow> f32 \<Rightarrow> f32" where
  "f32_div x y =
     (let neg = (negative x \<noteq> negative y) in
      if x = NaN \<or> y = NaN then NaN
      else if \<not> finite32 x then (if finite32 y then signed_inf neg else NaN)
      else if \<not> finite32 y then signed_zero neg
      else if f32_is_zero y then (if f32_is_zero x then NaN else signed_inf neg)
      else round32 neg (rat_of x / rat_of y))"

text \<open>
  The order of the values other than NaN. Every comparison with NaN is false, and the two
  zeros are equal.
\<close>

fun rank :: "f32 \<Rightarrow> int" where
  "rank NInf = -1"
| "rank PInf = 1"
| "rank _ = 0"

definition f32_lt :: "f32 \<Rightarrow> f32 \<Rightarrow> bool" where
  "f32_lt x y \<longleftrightarrow> x \<noteq> NaN \<and> y \<noteq> NaN \<and>
     (rank x < rank y \<or> (rank x = rank y \<and> rat_of x < rat_of y))"

definition f32_le :: "f32 \<Rightarrow> f32 \<Rightarrow> bool" where
  "f32_le x y \<longleftrightarrow> x \<noteq> NaN \<and> y \<noteq> NaN \<and>
     (rank x < rank y \<or> (rank x = rank y \<and> rat_of x \<le> rat_of y))"

definition f32_eq :: "f32 \<Rightarrow> f32 \<Rightarrow> bool" where
  "f32_eq x y \<longleftrightarrow> f32_le x y \<and> f32_le y x"

abbreviation f32_gt :: "f32 \<Rightarrow> f32 \<Rightarrow> bool" where
  "f32_gt x y \<equiv> f32_lt y x"

abbreviation f32_ge :: "f32 \<Rightarrow> f32 \<Rightarrow> bool" where
  "f32_ge x y \<equiv> f32_le y x"

text \<open>A conversion \<^verbatim>\<open>float32(n)\<close> of an integer.\<close>

definition f32_of_int :: "int \<Rightarrow> f32" where
  "f32_of_int n = round32 False (of_int n)"

lemma round32_zero [simp]: "round32 False 0 = Fin 0" "round32 True 0 = NegZero"
  by (simp_all add: round32_def)

lemma round32_not_NaN [simp]: "round32 b q \<noteq> NaN"
  by (simp add: round32_def Let_def)

lemma f32_of_int_0 [simp]: "f32_of_int 0 = Fin 0"
  by (simp add: f32_of_int_def)

lemma f32_not_le_NaN [simp]: "\<not> f32_le x NaN" "\<not> f32_le NaN x" "\<not> f32_lt x NaN" "\<not> f32_lt NaN x"
  by (simp_all add: f32_le_def f32_lt_def)

lemma f32_le_refl [simp]: "x \<noteq> NaN \<Longrightarrow> f32_le x x"
  by (simp add: f32_le_def)

lemma f32_le_trans: "f32_le x y \<Longrightarrow> f32_le y z \<Longrightarrow> f32_le x z"
  by (auto simp: f32_le_def)

lemma f32_not_lt: "x \<noteq> NaN \<Longrightarrow> y \<noteq> NaN \<Longrightarrow> \<not> f32_lt x y \<longleftrightarrow> f32_le y x"
  by (auto simp: f32_lt_def f32_le_def)

lemma f32_lt_le: "f32_lt x y \<Longrightarrow> f32_le x y"
  by (auto simp: f32_lt_def f32_le_def)

lemma f32_lt_le_trans: "f32_lt x y \<Longrightarrow> f32_le y z \<Longrightarrow> f32_lt x z"
  by (auto simp: f32_lt_def f32_le_def)

lemma f32_le_lt_trans: "f32_le x y \<Longrightarrow> f32_lt y z \<Longrightarrow> f32_lt x z"
  by (auto simp: f32_lt_def f32_le_def)

lemma f32_lt_irrefl [simp]: "\<not> f32_lt x x"
  by (simp add: f32_lt_def)

lemma f32_add_NaN [simp]: "f32_add NaN y = NaN" "f32_add x NaN = NaN"
  by (simp_all add: f32_add_def)

lemma f32_add_comm: "f32_add x y = f32_add y x"
  by (auto simp: f32_add_def add.commute conj_commute)

subsection \<open>Integers up to 2 ^ 24 are exact\<close>

lemma two_powi_pos [simp]: "0 < two_powi e"
  by (simp add: two_powi_def)

lemma two_powi_neg: "0 \<le> e \<Longrightarrow> two_powi (- e) = 1 / 2 ^ nat e"
  by (simp add: two_powi_def)

lemma round_half_even_int [simp]: "round_half_even (of_int k) = k"
  by (simp add: round_half_even_def Let_def)

lemma ilog2_exp2_le: "0 < n \<Longrightarrow> 2 ^ ilog2 n \<le> n"
proof (induction n rule: ilog2.induct)
  case (1 n)
  show ?case
  proof (cases "n < 2")
    case False
    with 1 have "2 ^ ilog2 (n div 2) \<le> n div 2" by simp
    with False show ?thesis by (simp add: ilog2.simps [of n])
  qed (use 1 in \<open>simp add: ilog2.simps [of n]\<close>)
qed

lemma ilog2_1 [simp]: "ilog2 (Suc 0) = 0"
  by (simp add: ilog2.simps [of "Suc 0"])

lemma exponent_of_nat: "0 < n \<Longrightarrow> exponent (of_nat n) = int (ilog2 n)"
proof -
  assume n: "0 < n"
  have q: "quotient_of (of_nat n) = (int n, 1)"
    using quotient_of_int [of "int n"] by simp
  have "2 ^ ilog2 n \<le> n" using n by (rule ilog2_exp2_le)
  then have "(2::rat) ^ ilog2 n \<le> of_nat n"
    by (metis of_nat_le_iff of_nat_numeral of_nat_power)
  then show ?thesis by (simp add: exponent_def q two_powi_def)
qed

lemma ilog2_le_23: "0 < n \<Longrightarrow> n < 2 ^ 24 \<Longrightarrow> ilog2 n \<le> 23"
proof (rule ccontr)
  assume n: "0 < n" "n < 2 ^ 24" and "\<not> ilog2 n \<le> 23"
  then have "(2::nat) ^ 24 \<le> 2 ^ ilog2 n" by (intro power_increasing) auto
  also have "\<dots> \<le> n" using n(1) by (rule ilog2_exp2_le)
  finally show False using n(2) by simp
qed

lemma round32_multiple:
  assumes "0 < q" and "q < 2 ^ 128"
    and "q / two_powi (max (exponent q) (-126) - 23) = of_int k"
  shows "round32 b q = Fin q"
proof -
  let ?u = "two_powi (max (exponent q) (-126) - 23)"
  have "of_int (round_half_even (q / ?u)) * ?u = q"
    using assms(3) two_powi_pos [of "max (exponent q) (-126) - 23"]
    by (metis assms(3) nonzero_eq_divide_eq less_irrefl round_half_even_int)
  then show ?thesis using assms(1,2) by (simp add: round32_def Let_def)
qed

lemma round32_of_nat: "n < 2 ^ 24 \<Longrightarrow> round32 False (of_nat n) = Fin (of_nat n)"
proof (cases "n = 0")
  case False
  assume small: "n < 2 ^ 24"
  let ?l = "ilog2 n"
  have le: "?l \<le> 23" using False small by (simp add: ilog2_le_23)
  have u: "two_powi (int ?l - 23) = 1 / 2 ^ (23 - ?l)"
    using le two_powi_neg [of "23 - int ?l"] by (simp add: nat_diff_distrib)
  have k: "of_nat n / two_powi (max (exponent (of_nat n)) (-126) - 23)
      = (of_int (int n * 2 ^ (23 - ?l)) :: rat)"
    using False by (simp add: exponent_of_nat u)
  have "n < 2 ^ 128" using small by simp
  then have "(of_nat n :: rat) < 2 ^ 128"
    by (metis of_nat_less_iff of_nat_numeral of_nat_power)
  then show ?thesis using False by (intro round32_multiple [OF _ _ k]) auto
qed simp

lemma f32_of_int_exact: "0 \<le> n \<Longrightarrow> n < 2 ^ 24 \<Longrightarrow> f32_of_int n = Fin (of_int n)"
  using round32_of_nat [of "nat n"] by (simp add: f32_of_int_def nat_less_iff)

end
