(* ===== verification/TimeSeries.thy ===== *)
theory TimeSeries
  imports Float32
begin

text \<open>
  The package \<^verbatim>\<open>timeseries\<close>: times and durations in seconds (\<^verbatim>\<open>time.go\<close>), series of float32
  samples at a fixed step (\<^verbatim>\<open>timeseries.go\<close>), iterators over them (\<^verbatim>\<open>iterator.go\<close>), the
  functions that combine two samples (\<^verbatim>\<open>funcs.go\<close>) and the aggregation of several series
  (\<^verbatim>\<open>aggregate.go\<close>). A nil series is \<open>None\<close>. The functions that can panic (an index out
  of range) return an option, \<open>None\<close> for the panic.
\<close>

subsection \<open>Times and durations (time.go)\<close>

definition Second :: Duration where "Second = 1"
definition Minute :: Duration where "Minute = Second * 60"
definition Hour :: Duration where "Hour = Minute * 60"
definition Day :: Duration where "Day = Hour * 24"
definition Month :: Duration where "Month = Day * 30"

lemmas duration_defs = Second_def Minute_def Hour_def Day_def Month_def

record Context =
  ctx_From :: Time
  ctx_To :: Time
  ctx_Step :: Duration
  ctx_RawStep :: Duration
  ctx_Truncated :: bool

definition NewContext :: "Time \<Rightarrow> Time \<Rightarrow> Duration \<Rightarrow> Context" where
  "NewContext f t s = \<lparr>ctx_From = f, ctx_To = t, ctx_Step = s, ctx_RawStep = s, ctx_Truncated = False\<rparr>"

definition PointsCount :: "Context \<Rightarrow> int option" where
  "PointsCount c = (if ctx_Step c = 0 then None else Some ((ctx_To c - ctx_From c) sdiv ctx_Step c))"

definition Duration_Truncate :: "Duration \<Rightarrow> Duration \<Rightarrow> Duration" where
  "Duration_Truncate d m = (if m \<le> 0 then d else d - d smod m)"

text \<open>\<^verbatim>\<open>Time.Truncate\<close>; the steps of the program are positive, a zero step would panic in Go.\<close>

definition Time_Truncate :: "Time \<Rightarrow> Duration \<Rightarrow> Time" where
  "Time_Truncate t d = t - t smod d"

definition Time_Ceil :: "Time \<Rightarrow> Duration \<Rightarrow> Time" where
  "Time_Ceil t d = Time_Truncate (t + (d - 1)) d"

text \<open>
  JSON: a duration is a number of milliseconds, a time is one or null when it is zero; null
  decodes to the zero value. The multiplication by 1000 wraps around at 64 bits.
\<close>

definition int64 :: "int \<Rightarrow> int" where
  "int64 n = (n + 2 ^ 63) mod 2 ^ 64 - 2 ^ 63"

definition Time_MarshalJSON :: "Time \<Rightarrow> int option" where
  "Time_MarshalJSON t = (if t = 0 then None else Some (int64 (t * 1000)))"

definition Time_UnmarshalJSON :: "int option \<Rightarrow> Time" where
  "Time_UnmarshalJSON j = (case j of None \<Rightarrow> 0 | Some i \<Rightarrow> i sdiv 1000)"

definition Duration_MarshalJSON :: "Duration \<Rightarrow> int" where
  "Duration_MarshalJSON d = int64 (d * 1000)"

definition Duration_UnmarshalJSON :: "int \<Rightarrow> Duration" where
  "Duration_UnmarshalJSON i = i sdiv 1000"

subsection \<open>Series and iterators (timeseries.go, iterator.go)\<close>

record TimeSeries =
  ts_from :: Time
  ts_step :: Duration
  ts_data :: "f32 list"

definition NewWithData :: "Time \<Rightarrow> Duration \<Rightarrow> f32 list \<Rightarrow> TimeSeries" where
  "NewWithData f s d = \<lparr>ts_from = f, ts_step = s, ts_data = d\<rparr>"

definition New :: "Time \<Rightarrow> nat \<Rightarrow> Duration \<Rightarrow> TimeSeries" where
  "New f n s = NewWithData f s (replicate n NaN)"

definition Len :: "TimeSeries option \<Rightarrow> nat" where
  "Len ts = (case ts of None \<Rightarrow> 0 | Some s \<Rightarrow> length (ts_data s))"

record Iterator =
  it_step :: Duration
  it_data :: "f32 list"
  it_idx :: int
  it_t :: Time
  it_v :: f32

text \<open>\<^verbatim>\<open>Iterator.Next\<close>: the answer and the iterator after the call.\<close>

definition Iterator_Next :: "Iterator \<Rightarrow> bool \<times> Iterator" where
  "Iterator_Next i =
     (if it_data i = [] then (False, i)
      else
        (let i' = i\<lparr>it_idx := it_idx i + 1, it_t := it_t i + it_step i\<rparr>
         in if it_idx i' \<ge> int (length (it_data i)) then (False, i')
            else (True, i'\<lparr>it_v := it_data i ! nat (it_idx i')\<rparr>)))"

definition Iterator_Value :: "Iterator \<Rightarrow> Time \<times> f32" where
  "Iterator_Value i = (it_t i, it_v i)"

definition nil_iterator :: Iterator where
  "nil_iterator = \<lparr>it_step = 0, it_data = [], it_idx = 0, it_t = 0, it_v = Fin 0\<rparr>"

definition Iter :: "TimeSeries option \<Rightarrow> Iterator" where
  "Iter ts = (case ts of None \<Rightarrow> nil_iterator
     | Some s \<Rightarrow> \<lparr>it_step = ts_step s, it_data = ts_data s, it_idx = -1,
                  it_t = ts_from s - ts_step s, it_v = Fin 0\<rparr>)"

definition IterFrom :: "TimeSeries option \<Rightarrow> Time \<Rightarrow> Iterator" where
  "IterFrom ts f = (case ts of None \<Rightarrow> nil_iterator
     | Some s \<Rightarrow>
        (let f1 = (if f < ts_from s then ts_from s else f);
             t = ts_from s + ts_step s * (int (length (ts_data s)) - 1)
         in if f1 > t then nil_iterator
            else
              (let f2 = Time_Truncate f1 (ts_step s)
               in \<lparr>it_step = ts_step s, it_data = ts_data s,
                   it_idx = (f2 - ts_from s) sdiv ts_step s - 1,
                   it_t = f2 - ts_step s, it_v = Fin 0\<rparr>)))"

text \<open>
  The pairs a loop \<^verbatim>\<open>for iter.Next() { t, v := iter.Value() ... }\<close> sees, in its order. The
  loops below are folds over them.
\<close>

function iter_points :: "Iterator \<Rightarrow> (Time \<times> f32) list" where
  "iter_points i =
     (let (ok, i') = Iterator_Next i in if ok then Iterator_Value i' # iter_points i' else [])"
  by pat_completeness auto
termination
  by (relation "measure (\<lambda>i. nat (int (length (it_data i)) - it_idx i))")
     (auto simp: Iterator_Next_def Let_def split: if_splits)

declare iter_points.simps [simp del]

type_synonym F = "Time \<Rightarrow> f32 \<Rightarrow> f32 \<Rightarrow> f32"

definition Reduce :: "TimeSeries option \<Rightarrow> F \<Rightarrow> f32" where
  "Reduce ts f = (case ts of None \<Rightarrow> NaN
     | Some _ \<Rightarrow> foldl (\<lambda>acc (t, v). f t acc v) NaN (iter_points (Iter ts)))"

definition Map :: "TimeSeries option \<Rightarrow> (Time \<Rightarrow> f32 \<Rightarrow> f32) \<Rightarrow> TimeSeries option" where
  "Map ts f = (case ts of None \<Rightarrow> None
     | Some s \<Rightarrow> Some (NewWithData (ts_from s) (ts_step s) (map (\<lambda>(t, v). f t v) (iter_points (Iter ts)))))"

fun map_in_place :: "(Time \<Rightarrow> f32 \<Rightarrow> f32) \<Rightarrow> Duration \<Rightarrow> Time \<Rightarrow> f32 list \<Rightarrow> f32 list" where
  "map_in_place f s t [] = []"
| "map_in_place f s t (v # vs) = f t v # map_in_place f s (t + s) vs"

definition MapInPlace :: "TimeSeries option \<Rightarrow> (Time \<Rightarrow> f32 \<Rightarrow> f32) \<Rightarrow> TimeSeries option" where
  "MapInPlace ts f = map_option (\<lambda>s. s\<lparr>ts_data := map_in_place f (ts_step s) (ts_from s) (ts_data s)\<rparr>) ts"

definition WithNewValue :: "TimeSeries option \<Rightarrow> f32 \<Rightarrow> TimeSeries option" where
  "WithNewValue ts v = map_option (\<lambda>s. NewWithData (ts_from s) (ts_step s) (replicate (Len ts) v)) ts"

text \<open>\<^verbatim>\<open>TimeSeries.Set\<close>: a sample outside of the series is dropped.\<close>

definition Set :: "TimeSeries \<Rightarrow> Time \<Rightarrow> f32 \<Rightarrow> TimeSeries" where
  "Set s t v =
     (let t' = Time_Truncate t (ts_step s) in
      if t' < ts_from s then s
      else
        (let idx = (t' - ts_from s) sdiv ts_step s
         in if idx < int (length (ts_data s)) then s\<lparr>ts_data := (ts_data s)[nat idx := v]\<rparr> else s))"

definition Last :: "TimeSeries option \<Rightarrow> f32" where
  "Last ts = (case ts of None \<Rightarrow> NaN
     | Some s \<Rightarrow> if length (ts_data s) = 0 then NaN else ts_data s ! (length (ts_data s) - 1))"

definition TailIsEmpty :: "TimeSeries option \<Rightarrow> bool" where
  "TailIsEmpty ts = (case ts of None \<Rightarrow> True
     | Some s \<Rightarrow>
        (let d = ts_data s; l = length d
         in if l \<ge> 1 \<and> \<not> IsNaN (d ! (l - 1)) then False
            else if l \<ge> 2 \<and> \<not> IsNaN (d ! (l - 2)) then False
            else if l \<ge> 3 \<and> \<not> IsNaN (d ! (l - 3)) then False
            else True))"

definition LastNotNull :: "TimeSeries option \<Rightarrow> Time \<times> f32" where
  "LastNotNull ts = (case ts of None \<Rightarrow> (0, NaN)
     | Some _ \<Rightarrow> foldl (\<lambda>(tt, vv) (t, v). if \<not> IsNaN v then (t, v) else (tt, vv)) (0, Fin 0)
                  (iter_points (Iter ts)))"

fun sum_count :: "f32 \<times> int \<Rightarrow> f32 list \<Rightarrow> f32 \<times> int" where
  "sum_count acc [] = acc"
| "sum_count (s, c) (v # vs) = sum_count (if \<not> IsNaN v then (f32_add s v, c + 1) else (s, c)) vs"

definition LastNAvg :: "TimeSeries option \<Rightarrow> nat \<Rightarrow> f32 \<Rightarrow> f32" where
  "LastNAvg ts n def = (case ts of None \<Rightarrow> def
     | Some s \<Rightarrow>
        if length (ts_data s) < n then def
        else
          (let (sum, count) = sum_count (Fin 0, 0) (drop (length (ts_data s) - n) (ts_data s))
           in if count > 0 then f32_div sum (f32_of_int count) else def))"

definition Average :: "TimeSeries option \<Rightarrow> f32" where
  "Average ts = (case ts of None \<Rightarrow> NaN
     | Some _ \<Rightarrow>
        (let (sum, count) = sum_count (Fin 0, 0) (map snd (iter_points (Iter ts)))
         in if count = 0 then NaN else f32_div sum (f32_of_int count)))"

text \<open>
  \<^verbatim>\<open>Increase\<close>: the growth of a counter between consecutive samples, with resets. \<open>status\<close>
  tells whether the target was scraped: a counter that appears on a live target grew from zero.
\<close>

fun increase_loop :: "f32 \<Rightarrow> f32 \<Rightarrow> f32 list \<Rightarrow> f32 list \<Rightarrow> f32 list" where
  "increase_loop prev prevStatus (v # vs) (st # sts) =
     (let d = (if \<not> IsNaN v \<and> \<not> IsNaN prev
               then (if f32_ge (f32_sub v prev) (Fin 0) then f32_sub v prev else v)
               else if IsNaN prev \<and> f32_eq prevStatus (Fin 1) then v
               else NaN)
      in d # increase_loop v st vs sts)"
| "increase_loop prev prevStatus _ _ = []"

definition Increase :: "TimeSeries option \<Rightarrow> TimeSeries option \<Rightarrow> TimeSeries option" where
  "Increase x status = (case x of None \<Rightarrow> None | Some sx \<Rightarrow> (case status of None \<Rightarrow> None
     | Some _ \<Rightarrow> Some (NewWithData (ts_from sx) (ts_step sx)
         (increase_loop NaN NaN (map snd (iter_points (Iter x))) (map snd (iter_points (Iter status)))))))"

text \<open>
  \<^verbatim>\<open>Aggregate2\<close>: the result has the length of the first series; where the second one is
  shorter the tail keeps the zero value of \<^verbatim>\<open>make\<close>.
\<close>

definition Aggregate2 :: "TimeSeries option \<Rightarrow> TimeSeries option \<Rightarrow> (f32 \<Rightarrow> f32 \<Rightarrow> f32) \<Rightarrow> TimeSeries option" where
  "Aggregate2 x y f = (case x of None \<Rightarrow> None | Some sx \<Rightarrow> (case y of None \<Rightarrow> None
     | Some _ \<Rightarrow>
        (let vs = map (\<lambda>(xv, yv). f xv yv)
                    (zip (map snd (iter_points (Iter x))) (map snd (iter_points (Iter y))))
         in Some (NewWithData (ts_from sx) (ts_step sx) (vs @ replicate (Len x - length vs) (Fin 0))))))"

definition ts_Mul :: "TimeSeries option \<Rightarrow> TimeSeries option \<Rightarrow> TimeSeries option" where
  "ts_Mul x y = Aggregate2 x y f32_mul"
definition ts_Div :: "TimeSeries option \<Rightarrow> TimeSeries option \<Rightarrow> TimeSeries option" where
  "ts_Div x y = Aggregate2 x y f32_div"
definition ts_Sub :: "TimeSeries option \<Rightarrow> TimeSeries option \<Rightarrow> TimeSeries option" where
  "ts_Sub x y = Aggregate2 x y f32_sub"
definition ts_Sum :: "TimeSeries option \<Rightarrow> TimeSeries option \<Rightarrow> TimeSeries option" where
  "ts_Sum x y = Aggregate2 x y f32_add"

text \<open>JSON of a series: null, or a list of numbers with null for NaN and the infinities.\<close>

definition Value_MarshalJSON :: "f32 \<Rightarrow> f32 option" where
  "Value_MarshalJSON v = (if IsNaN v \<or> v = PInf \<or> v = NInf then None else Some v)"

definition MarshalJSON :: "TimeSeries option \<Rightarrow> f32 option list option" where
  "MarshalJSON ts = (case ts of None \<Rightarrow> None
     | Some _ \<Rightarrow>
        (let vs = map snd (iter_points (Iter ts))
         in if length vs = 0 then None else Some (map Value_MarshalJSON vs)))"

definition UnmarshalJSON :: "TimeSeries \<Rightarrow> f32 option list option \<Rightarrow> TimeSeries" where
  "UnmarshalJSON s j = (case j of None \<Rightarrow> s\<lparr>ts_data := []\<rparr>
     | Some raw \<Rightarrow> s\<lparr>ts_data := map (\<lambda>v. case v of None \<Rightarrow> NaN | Some x \<Rightarrow> x) raw\<rparr>)"

subsection \<open>Filling a series from samples at a finer step (timeseries.go)\<close>

text \<open>
  \<^verbatim>\<open>FillAny\<close>, \<^verbatim>\<open>FillMax\<close>, \<^verbatim>\<open>FillSum\<close> and \<^verbatim>\<open>FillAvg\<close> are four copies of one
  loop. They differ in the accumulator of a bucket: its empty value, what a sample that is not NaN
  adds to it, and what is stored in the bucket when the loop leaves it. \<open>fill_start\<close> is their common
  prologue: the first source sample used (time and index) and the first bucket written (time and
  index). A \<open>None\<close> is a panic: a slice or an index out of range.
\<close>

record 'a filler =
  fl_empty :: 'a
  fl_add :: "'a \<Rightarrow> f32 \<Rightarrow> 'a"
  fl_out :: "'a \<Rightarrow> f32 \<Rightarrow> f32"

definition fill_src :: "TimeSeries \<Rightarrow> Time \<Rightarrow> Duration \<Rightarrow> Time \<times> int" where
  "fill_src ts f s =
     (if ts_from ts - f \<ge> ts_step ts
      then (let t1 = f + Duration_Truncate (ts_from ts - Time_Truncate f (ts_step ts)) (ts_step ts);
                t2 = (if t1 > ts_from ts then t1 - ts_step ts else t1)
            in (t2, (t2 - f) sdiv s))
      else (f, 0))"

definition fill_dst :: "TimeSeries \<Rightarrow> Time \<Rightarrow> Time \<times> int" where
  "fill_dst ts tSrc =
     (if tSrc > ts_from ts
      then (let t1 = Time_Truncate tSrc (ts_step ts);
                t2 = (if t1 < tSrc then t1 + ts_step ts else t1)
            in (t2, (t2 - ts_from ts) sdiv ts_step ts))
      else (ts_from ts, 0))"

definition fill_start :: "TimeSeries \<Rightarrow> Time \<Rightarrow> Duration \<Rightarrow> Time \<times> int \<times> Time \<times> int" where
  "fill_start ts f s =
     (let (tSrc, iSrc) = fill_src ts f s; (tDst, iDst) = fill_dst ts tSrc
      in (tSrc, iSrc, tDst, iDst))"

definition in_range :: "int \<Rightarrow> 'a list \<Rightarrow> bool" where
  "in_range i xs \<longleftrightarrow> 0 \<le> i \<and> i < int (length xs)"

text \<open>The loop over \<^verbatim>\<open>data[iSrc:]\<close>, with the store after it: the answer and the new data.\<close>

fun fill_loop :: "'a filler \<Rightarrow> Duration \<Rightarrow> Duration \<Rightarrow> Time \<Rightarrow> Time \<Rightarrow> int \<Rightarrow> 'a \<Rightarrow> bool
    \<Rightarrow> f32 list \<Rightarrow> f32 list \<Rightarrow> (bool \<times> f32 list) option" where
  "fill_loop fl st s tSrc tDst iDst vv changed buf [] =
     (if iDst \<le> int (length buf) - 1
      then (if in_range iDst buf
            then Some (changed, buf[nat iDst := fl_out fl vv (buf ! nat iDst)])
            else None)
      else Some (changed, buf))"
| "fill_loop fl st s tSrc tDst iDst vv changed buf (v # vs) =
     (if tSrc > tDst
      then
        (if \<not> in_range iDst buf then None
         else
           (let buf' = buf[nat iDst := fl_out fl vv (buf ! nat iDst)]
            in if iDst + 1 > int (length buf) - 1 then Some (changed, buf')
               else fill_loop fl st s (tSrc + s) (tDst + st) (iDst + 1)
                      (if \<not> IsNaN v then fl_add fl (fl_empty fl) v else fl_empty fl)
                      (changed \<or> \<not> IsNaN v) buf' vs))
      else fill_loop fl st s (tSrc + s) tDst iDst
             (if \<not> IsNaN v then fl_add fl vv v else vv) (changed \<or> \<not> IsNaN v) buf vs)"

definition fill_run :: "'a filler \<Rightarrow> 'a \<Rightarrow> TimeSeries \<Rightarrow> Time \<Rightarrow> Duration \<Rightarrow> f32 list
    \<Rightarrow> (bool \<times> TimeSeries) option" where
  "fill_run fl init ts f s data =
     (let (tSrc, iSrc, tDst, iDst) = fill_start ts f s
      in if iSrc < 0 \<or> iSrc > int (length data) then None
         else map_option (\<lambda>(c, d). (c, ts\<lparr>ts_data := d\<rparr>))
                (fill_loop fl (ts_step ts) s tSrc tDst iDst init False (ts_data ts) (drop (nat iSrc) data)))"

definition any_filler :: "f32 filler" where
  "any_filler = \<lparr>fl_empty = NaN, fl_add = (\<lambda>vv v. v), fl_out = (\<lambda>vv old. vv)\<rparr>"

definition FillAny :: "TimeSeries \<Rightarrow> Time \<Rightarrow> Duration \<Rightarrow> f32 list \<Rightarrow> (bool \<times> TimeSeries) option" where
  "FillAny ts f s data = fill_run any_filler NaN ts f s data"

definition max_filler :: "f32 filler" where
  "max_filler = \<lparr>fl_empty = NaN, fl_add = (\<lambda>vv v. if IsNaN vv \<or> f32_gt v vv then v else vv),
                 fl_out = (\<lambda>vv old. vv)\<rparr>"

definition FillMax :: "TimeSeries \<Rightarrow> Time \<Rightarrow> Duration \<Rightarrow> f32 list \<Rightarrow> (bool \<times> TimeSeries) option" where
  "FillMax ts f s data = fill_run max_filler NaN ts f s data"

text \<open>
  \<^verbatim>\<open>FillSum\<close> and \<^verbatim>\<open>FillAvg\<close> start from the value already in the first bucket, which they
  read before the loop.
\<close>

definition sum_filler :: "f32 filler" where
  "sum_filler = \<lparr>fl_empty = Fin 0, fl_add = f32_add, fl_out = (\<lambda>vv old. vv)\<rparr>"

definition first_bucket :: "TimeSeries \<Rightarrow> Time \<Rightarrow> Duration \<Rightarrow> f32 option" where
  "first_bucket ts f s =
     (let (tSrc, iSrc, tDst, iDst) = fill_start ts f s
      in if in_range iDst (ts_data ts) then Some (ts_data ts ! nat iDst) else None)"

definition FillSum :: "TimeSeries \<Rightarrow> Time \<Rightarrow> Duration \<Rightarrow> f32 list \<Rightarrow> (bool \<times> TimeSeries) option" where
  "FillSum ts f s data =
     (case first_bucket ts f s of None \<Rightarrow> None
      | Some b \<Rightarrow> fill_run sum_filler (if \<not> IsNaN b then b else Fin 0) ts f s data)"

definition avg_filler :: "(f32 \<times> f32) filler" where
  "avg_filler = \<lparr>fl_empty = (Fin 0, Fin 0),
                 fl_add = (\<lambda>(vv, cc) v. (f32_add vv v, f32_add cc (Fin 1))),
                 fl_out = (\<lambda>(vv, cc) old. if f32_gt cc (Fin 0) then f32_div vv cc else old)\<rparr>"

definition FillAvg :: "TimeSeries \<Rightarrow> Time \<Rightarrow> Duration \<Rightarrow> f32 list \<Rightarrow> (bool \<times> TimeSeries) option" where
  "FillAvg ts f s data =
     (case first_bucket ts f s of None \<Rightarrow> None
      | Some b \<Rightarrow> fill_run avg_filler (if \<not> IsNaN b then (b, Fin 1) else (Fin 0, Fin 0)) ts f s data)"

subsection \<open>Combining samples (funcs.go)\<close>

definition Any :: F where
  "Any t v1 v2 = (if \<not> IsNaN v1 then v1 else v2)"

definition LastNotNaN :: F where
  "LastNotNaN t v1 v2 = (if \<not> IsNaN v2 then v2 else v1)"

definition NanSum :: F where
  "NanSum t s v =
     (let s' = (if IsNaN s then Fin 0 else s)
      in if \<not> IsNaN v then f32_add s' v else s')"

definition NanCount :: F where
  "NanCount t n v =
     (let c = (if IsNaN n then Fin 0 else n)
      in if \<not> IsNaN v then f32_add c (Fin 1) else c)"

definition Max :: F where
  "Max t m v = (if IsNaN m then v else if IsNaN v then m else if f32_gt v m then v else m)"

definition Min :: F where
  "Min t m v = (if IsNaN m then v else if IsNaN v then m else if f32_lt v m then v else m)"

definition Defined :: "Time \<Rightarrow> f32 \<Rightarrow> f32" where
  "Defined t v = (if IsNaN v then Fin 0 else Fin 1)"

definition NanToZero :: "Time \<Rightarrow> f32 \<Rightarrow> f32" where
  "NanToZero t v = (if IsNaN v then Fin 0 else v)"

definition ZeroToNan :: "Time \<Rightarrow> f32 \<Rightarrow> f32" where
  "ZeroToNan t v = (if f32_eq v (Fin 0) then NaN else v)"

subsection \<open>Aggregates (aggregate.go)\<close>

record Aggregate =
  agg_f :: F
  agg_input :: "TimeSeries list"

definition NewAggregate :: "F \<Rightarrow> Aggregate" where
  "NewAggregate f = \<lparr>agg_f = f, agg_input = []\<rparr>"

definition Aggregate_Add :: "Aggregate \<Rightarrow> TimeSeries option list \<Rightarrow> Aggregate" where
  "Aggregate_Add a tss = a\<lparr>agg_input := agg_input a @ concat (map (\<lambda>ts. case ts of None \<Rightarrow> [] | Some s \<Rightarrow> [s]) tss)\<rparr>"

text \<open>One source into the accumulated data; writing past its end is a panic.\<close>

fun agg_step :: "F \<Rightarrow> f32 list \<Rightarrow> (Time \<times> f32) list \<Rightarrow> f32 list option" where
  "agg_step f data [] = Some data"
| "agg_step f [] (p # ps) = None"
| "agg_step f (d # ds) ((t, v) # ps) = map_option (Cons (f t d v)) (agg_step f ds ps)"

fun agg_loop :: "F \<Rightarrow> f32 list \<Rightarrow> TimeSeries list \<Rightarrow> f32 list option" where
  "agg_loop f data [] = Some data"
| "agg_loop f data (s # ss) =
     (case agg_step f data (iter_points (Iter (Some s))) of None \<Rightarrow> None | Some d \<Rightarrow> agg_loop f d ss)"

definition Aggregate_Get :: "Aggregate option \<Rightarrow> TimeSeries option option" where
  "Aggregate_Get ao = (case ao of None \<Rightarrow> Some None | Some a \<Rightarrow>
     (case agg_input a of
        [] \<Rightarrow> Some None
      | [s] \<Rightarrow> Some (Some s)
      | s # ss \<Rightarrow>
          map_option (\<lambda>d. Some (NewWithData (ts_from s) (ts_step s) d))
            (agg_loop (agg_f a) (replicate (Len (Some s)) NaN) (s # ss))))"

definition Aggregate_IsEmpty :: "Aggregate \<Rightarrow> bool" where
  "Aggregate_IsEmpty a = (length (agg_input a) = 0)"

definition Aggregate_Reduce :: "Aggregate option \<Rightarrow> F \<Rightarrow> f32 option" where
  "Aggregate_Reduce a f = map_option (\<lambda>ts. Reduce ts f) (Aggregate_Get a)"

subsection \<open>What an iterator visits\<close>

text \<open>The samples of a series with their times: the specification of the iterators.\<close>

definition samples :: "TimeSeries \<Rightarrow> (Time \<times> f32) list" where
  "samples s = map (\<lambda>i. (ts_from s + int i * ts_step s, ts_data s ! i)) [0..<length (ts_data s)]"

lemma iter_points_from:
  assumes "-1 \<le> it_idx i" and "it_t i = T + it_idx i * it_step i"
  shows "iter_points i =
    map (\<lambda>k. (T + int k * it_step i, it_data i ! k)) [nat (it_idx i + 1)..<length (it_data i)]"
  using assms
proof (induction i rule: iter_points.induct)
  case (1 i)
  let ?i = "i\<lparr>it_idx := it_idx i + 1, it_t := it_t i + it_step i\<rparr>"
  show ?case
  proof (cases "it_idx i + 1 < int (length (it_data i))")
    case True
    let ?i' = "?i\<lparr>it_v := it_data i ! nat (it_idx i + 1)\<rparr>"
    have nx: "Iterator_Next i = (True, ?i')"
      using True "1.prems" by (auto simp: Iterator_Next_def Let_def)
    have IH: "iter_points ?i' = map (\<lambda>k. (T + int k * it_step i, it_data i ! k))
        [nat (it_idx i + 2)..<length (it_data i)]"
      using "1.IH" [OF nx [symmetric] refl] "1.prems" by (simp add: algebra_simps)
    have up: "[nat (it_idx i + 1)..<length (it_data i)]
        = nat (it_idx i + 1) # [nat (it_idx i + 2)..<length (it_data i)]"
      using True "1.prems" by (subst upt_conv_Cons) (auto simp: nat_less_iff Suc_nat_eq_nat_zadd1 add.commute)
    show ?thesis
      unfolding iter_points.simps [of i] nx up
      using "1.prems" by (simp add: IH [unfolded "1.prems"(2)] Iterator_Value_def distrib_right)
  next
    case False
    then have "fst (Iterator_Next i) = False"
      by (auto simp: Iterator_Next_def Let_def)
    then show ?thesis
      using False "1.prems" by (auto simp: iter_points.simps [of i] case_prod_beta)
  qed
qed

lemma iter_points_nil [simp]: "iter_points nil_iterator = []"
  by (simp add: iter_points.simps Iterator_Next_def nil_iterator_def)

lemma iter_points_Iter [simp]: "iter_points (Iter (Some s)) = samples s"
  using iter_points_from [of "Iter (Some s)" "ts_from s"] by (simp add: Iter_def samples_def)

lemma iter_points_Iter_None [simp]: "iter_points (Iter None) = []"
  by (simp add: Iter_def)

lemma length_samples [simp]: "length (samples s) = length (ts_data s)"
  by (simp add: samples_def)

lemma values_samples [simp]: "map snd (samples s) = ts_data s"
  by (simp add: samples_def comp_def map_nth)

lemma set_values_samples [simp]: "snd ` set (samples s) = set (ts_data s)"
  by (metis image_set values_samples)

text \<open>Series whose first sample lies on a step: every series the program builds.\<close>

definition aligned :: "TimeSeries \<Rightarrow> bool" where
  "aligned s \<longleftrightarrow> 0 < ts_step s \<and> 0 \<le> ts_from s \<and> ts_step s dvd ts_from s"

lemma Time_Truncate_nonneg:
  "0 \<le> t \<Longrightarrow> 0 < d \<Longrightarrow> Time_Truncate t d = t - t mod d"
  by (simp add: Time_Truncate_def smod_nonneg)

lemma Time_Truncate_le: "0 \<le> t \<Longrightarrow> 0 < d \<Longrightarrow> Time_Truncate t d \<le> t"
  by (simp add: Time_Truncate_nonneg)

lemma Time_Truncate_gt: "0 \<le> t \<Longrightarrow> 0 < d \<Longrightarrow> t - d < Time_Truncate t d"
  by (simp add: Time_Truncate_nonneg)

lemma Time_Truncate_dvd: "0 \<le> t \<Longrightarrow> 0 < d \<Longrightarrow> d dvd Time_Truncate t d"
  by (simp add: Time_Truncate_nonneg dvd_minus_mod)

lemma Time_Truncate_ge:
  assumes "0 \<le> a" "0 < d" "d dvd a" "a \<le> t"
  shows "a \<le> Time_Truncate t d"
proof -
  have "a = d * (a div d)" using assms by simp
  also have "\<dots> \<le> d * (t div d)" using assms by (intro mult_left_mono zdiv_mono1) auto
  also have "\<dots> = Time_Truncate t d" using assms by (simp add: Time_Truncate_nonneg minus_mod_eq_mult_div)
  finally show ?thesis .
qed

text \<open>
  An iterator from a time visits exactly the samples at or after the start of the step that holds
  that time: all of them when the time is before the series, none when it is after its last sample.
\<close>

lemma iter_points_IterFrom:
  assumes "aligned s"
  shows "iter_points (IterFrom (Some s) f) =
    (if f > ts_from s + ts_step s * (int (length (ts_data s)) - 1) \<or> ts_data s = [] then []
     else filter (\<lambda>(t, v). Time_Truncate (max f (ts_from s)) (ts_step s) \<le> t) (samples s))"
proof -
  let ?d = "ts_step s" let ?n = "length (ts_data s)" let ?f = "max f (ts_from s)"
  have d: "0 < ?d" "0 \<le> ts_from s" "?d dvd ts_from s" using assms by (auto simp: aligned_def)
  have f1: "(if f < ts_from s then ts_from s else f) = ?f" by auto
  have "?d dvd Time_Truncate ?f ?d - ts_from s" using d by (intro dvd_diff Time_Truncate_dvd) auto
  then obtain k where k: "Time_Truncate ?f ?d - ts_from s = ?d * k" by (elim dvdE)
  have "ts_from s \<le> Time_Truncate ?f ?d" using d by (intro Time_Truncate_ge) auto
  with k d have k0: "0 \<le> k" by (metis diff_ge_0_iff_ge zero_le_mult_iff not_le)
  have sel: "Time_Truncate ?f ?d \<le> ts_from s + int i * ?d \<longleftrightarrow> nat k \<le> i" for i
  proof -
    have "Time_Truncate ?f ?d \<le> ts_from s + int i * ?d \<longleftrightarrow> ?d * k \<le> ?d * int i"
      using k by (simp add: mult.commute) linarith
    then show ?thesis using d k0 by (simp add: nat_le_iff)
  qed
  have "filter (\<lambda>i. nat k \<le> i) [0..<n] = [nat k..<n]" for n
    by (induction n) auto
  then have flt: "filter (\<lambda>(t, v). Time_Truncate ?f ?d \<le> t) (samples s)
      = map (\<lambda>i. (ts_from s + int i * ?d, ts_data s ! i)) [nat k..<?n]"
    by (simp add: samples_def filter_map comp_def sel)
  show ?thesis
  proof (cases "?f > ts_from s + ?d * (int ?n - 1)")
    case True
    then have "f > ts_from s + ?d * (int ?n - 1) \<or> ?n = 0"
      using d by (cases "?n = 0") (auto simp: max_def mult_less_0_iff not_less split: if_splits)
    with True show ?thesis by (simp add: IterFrom_def Let_def f1)
  next
    case False
    then have c: "\<not> (f > ts_from s + ?d * (int ?n - 1) \<or> ?n = 0)"
      using d by (auto simp: max_def split: if_splits)
    have "IterFrom (Some s) f = \<lparr>it_step = ?d, it_data = ts_data s, it_idx = k - 1,
        it_t = ts_from s + (k - 1) * ?d, it_v = Fin 0\<rparr>"
      using False d k k0 by (simp add: IterFrom_def Let_def f1 sdiv_nonneg algebra_simps)
    then have "iter_points (IterFrom (Some s) f) =
        map (\<lambda>i. (ts_from s + int i * ?d, ts_data s ! i)) [nat k..<?n]"
      using k0 by (subst iter_points_from [where T = "ts_from s"]) auto
    with c show ?thesis by (simp add: flt)
  qed
qed

subsection \<open>Filling buckets\<close>

text \<open>
  The specification of the fill loops. The samples of a source are at \<open>t, t + s, \<dots>\<close>; the bucket
  that ends at \<open>T\<close> collects the defined ones in \<open>(T - st, T]\<close>.
\<close>

fun src_samples :: "Time \<Rightarrow> Duration \<Rightarrow> f32 list \<Rightarrow> (Time \<times> f32) list" where
  "src_samples t s [] = []"
| "src_samples t s (v # vs) = (t, v) # src_samples (t + s) s vs"

definition bucket_values :: "Time \<Rightarrow> Duration \<Rightarrow> (Time \<times> f32) list \<Rightarrow> f32 list" where
  "bucket_values T st ps = map snd (filter (\<lambda>(t, v). T - st < t \<and> t \<le> T \<and> \<not> IsNaN v) ps)"

definition bucket_reached :: "Time \<Rightarrow> Duration \<Rightarrow> (Time \<times> f32) list \<Rightarrow> bool" where
  "bucket_reached T st ps \<longleftrightarrow> list_ex (\<lambda>(t, v). T - st < t) ps"

lemma src_samples_ge: "0 < s \<Longrightarrow> (t', v) \<in> set (src_samples t s vs) \<Longrightarrow> t \<le> t'"
  by (induction vs arbitrary: t) force+

lemma bucket_values_src_none:
  "0 < s \<Longrightarrow> T < t \<Longrightarrow> bucket_values T st (src_samples t s vs) = []"
  by (auto simp: bucket_values_def filter_empty_conv dest: src_samples_ge)

lemma bucket_values_Cons:
  "bucket_values T st ((t, v) # ps) =
     (if T - st < t \<and> t \<le> T \<and> \<not> IsNaN v then v # bucket_values T st ps else bucket_values T st ps)"
  by (simp add: bucket_values_def)

lemma bucket_reached_Cons:
  "bucket_reached T st ((t, v) # ps) \<longleftrightarrow> T - st < t \<or> bucket_reached T st ps"
  by (simp add: bucket_reached_def)

lemma bucket_values_wider:
  assumes "0 < s" "T - st < t" "T - st' < t"
  shows "bucket_values T st (src_samples t s vs) = bucket_values T st' (src_samples t s vs)"
  using assms unfolding bucket_values_def
  by (intro arg_cong [where f = "map snd"] filter_cong refl) (auto dest: src_samples_ge)

text \<open>The state of the loop after the samples: the bucket it is in, and those it has left.\<close>

definition filled :: "'a filler \<Rightarrow> Duration \<Rightarrow> Time \<Rightarrow> nat \<Rightarrow> 'a \<Rightarrow> f32 list \<Rightarrow> (Time \<times> f32) list
    \<Rightarrow> nat \<Rightarrow> f32" where
  "filled fl st tDst iDst vv buf ps j =
     (let T = tDst + (int j - int iDst) * st
      in if j < iDst then buf ! j
         else if j = iDst
           then fl_out fl (foldl (fl_add fl) vv (map snd (filter (\<lambda>(t, v). t \<le> T \<and> \<not> IsNaN v) ps))) (buf ! j)
         else if bucket_reached T st ps
           then fl_out fl (foldl (fl_add fl) (fl_empty fl) (bucket_values T st ps)) (buf ! j)
         else buf ! j)"

lemma fill_loop_filled:
  assumes "0 < s" "s \<le> st" "tSrc \<le> tDst + st" "i < length buf"
  shows "\<exists>c buf'. fill_loop fl st s tSrc tDst (int i) vv ch buf vs = Some (c, buf') \<and>
           length buf' = length buf \<and>
           (\<forall>j<length buf. buf' ! j = filled fl st tDst i vv buf (src_samples tSrc s vs) j)"
  using assms
proof (induction vs arbitrary: tSrc tDst i vv ch buf)
  case Nil
  then show ?case
    by (auto simp: in_range_def filled_def Let_def bucket_reached_def nth_list_update)
next
  case (Cons v vs)
  let ?buf = "buf[i := fl_out fl vv (buf ! i)]"
  have none: "filter (\<lambda>(t, x). t \<le> tDst \<and> x \<noteq> NaN) (src_samples t s vs) = []" if "tDst < t" for t
    using that Cons.prems(1) by (auto simp: filter_empty_conv dest: src_samples_ge)
  consider (stay) "tSrc \<le> tDst" | (last) "tDst < tSrc" "Suc i \<ge> length buf"
    | (move) "tDst < tSrc" "Suc i < length buf" by linarith
  then show ?case
  proof cases
    case stay
    have "\<exists>c buf'. fill_loop fl st s (tSrc + s) tDst (int i) (if \<not> IsNaN v then fl_add fl vv v else vv)
          (ch \<or> \<not> IsNaN v) buf vs = Some (c, buf') \<and> length buf' = length buf \<and>
        (\<forall>j<length buf. buf' ! j = filled fl st tDst i (if \<not> IsNaN v then fl_add fl vv v else vv) buf
            (src_samples (tSrc + s) s vs) j)"
      using stay Cons.prems by (intro Cons.IH) auto
    moreover have "filled fl st tDst i (if \<not> IsNaN v then fl_add fl vv v else vv) buf
            (src_samples (tSrc + s) s vs) j = filled fl st tDst i vv buf (src_samples tSrc s (v # vs)) j" for j
    proof (cases "i < j")
      case True
      then have "st \<le> (int j - int i) * st"
        using Cons.prems mult_right_mono [of 1 "int j - int i" st] by auto
      then show ?thesis
        using stay True by (auto simp: filled_def Let_def bucket_reached_Cons bucket_values_Cons)
    qed (use stay in \<open>auto simp: filled_def Let_def\<close>)
    ultimately show ?thesis using stay by auto
  next
    case last
    then have "i = length buf - 1" using Cons.prems by simp
    with last Cons.prems none [of "tSrc + s"] show ?thesis
      by (auto simp: in_range_def Let_def filled_def nth_list_update)
  next
    case move
    let ?vv = "if \<not> IsNaN v then fl_add fl (fl_empty fl) v else fl_empty fl"
    have "\<exists>c buf'. fill_loop fl st s (tSrc + s) (tDst + st) (int (Suc i)) ?vv
          (ch \<or> \<not> IsNaN v) ?buf vs = Some (c, buf') \<and> length buf' = length ?buf \<and>
        (\<forall>j<length ?buf. buf' ! j = filled fl st (tDst + st) (Suc i) ?vv ?buf (src_samples (tSrc + s) s vs) j)"
      using move Cons.prems by (intro Cons.IH) auto
    moreover have "filled fl st (tDst + st) (Suc i) ?vv ?buf (src_samples (tSrc + s) s vs) j
        = filled fl st tDst i vv buf (src_samples tSrc s (v # vs)) j" if "j < length buf" for j
    proof -
      have T: "tDst + st + (int j - int (Suc i)) * st = tDst + (int j - int i) * st"
        by (simp add: algebra_simps)
      consider "j \<le> i" | "j = Suc i" | "Suc i < j" by linarith
      then show ?thesis
      proof cases
        case 1
        then show ?thesis
          using move Cons.prems none [of "tSrc + s"] by (auto simp: filled_def Let_def nth_list_update)
      next
        case 2
        have "filter (\<lambda>(t, x). t \<le> tDst + st \<and> \<not> IsNaN x) (src_samples (tSrc + s) s vs)
            = filter (\<lambda>(t, x). tDst < t \<and> t \<le> tDst + st \<and> \<not> IsNaN x) (src_samples (tSrc + s) s vs)"
          using move Cons.prems(1) by (intro filter_cong refl) (auto dest!: src_samples_ge [rotated])
        then show ?thesis
          using 2 move Cons.prems
          by (auto simp: filled_def Let_def bucket_reached_Cons bucket_values_Cons bucket_values_def)
      next
        case 3
        then have "2 * st \<le> (int j - int i) * st"
          using Cons.prems by (intro mult_right_mono) auto
        then have "\<not> tDst + (int j - int i) * st - st < tSrc" using Cons.prems by linarith
        then show ?thesis
          unfolding filled_def Let_def T
          using 3 move Cons.prems by (auto simp: bucket_reached_Cons bucket_values_Cons)
      qed
    qed
    ultimately show ?thesis
      using move Cons.prems by (auto simp: in_range_def Let_def add.commute [of 1])
  qed
qed

text \<open>
  The prologue on an aligned series whose step is a multiple of the source's: the loop starts at
  the first sample of the first bucket it can reach, unless the source starts well before the
  series at another phase (see \<open>fill_phase\<close>).
\<close>

definition fill_phase :: "TimeSeries \<Rightarrow> Time \<Rightarrow> Duration \<Rightarrow> bool" where
  "fill_phase ts f s \<longleftrightarrow> ts_from ts - f < ts_step ts \<or> f mod ts_step ts = s mod ts_step ts"

lemma src_samples_append:
  "src_samples t s (xs @ ys) = src_samples t s xs @ src_samples (t + int (length xs) * s) s ys"
  by (induction xs arbitrary: t) (auto simp: algebra_simps)

lemma src_samples_less: "0 < s \<Longrightarrow> (t', v) \<in> set (src_samples t s xs) \<Longrightarrow> t' \<le> t + (int (length xs) - 1) * s"
  by (induction xs arbitrary: t) (force simp: algebra_simps)+

lemma fill_src_aligned:
  assumes "aligned ts" "0 < s" "s dvd ts_step ts" "0 \<le> f" "fill_phase ts f s"
  obtains k where "fill_src ts f s = (f + int k * s, int k)"
    and "k > 0 \<Longrightarrow> f + int k * s \<le> ts_from ts \<and> f + (int k - 1) * s \<le> ts_from ts - ts_step ts"
    and "ts_from ts - ts_step ts < f + int k * s"
proof (cases "ts_from ts - f \<ge> ts_step ts")
  case False
  then show ?thesis by (intro that [of 0]) (auto simp: fill_src_def)
next
  case True
  let ?d = "ts_step ts" let ?m = "f mod ?d"
  have d: "0 < ?d" "0 \<le> ts_from ts" "?d dvd ts_from ts" using assms by (auto simp: aligned_def)
  have m: "?m = s mod ?d" "0 \<le> ?m" "?m < ?d" using True assms d by (auto simp: fill_phase_def)
  have "s \<le> ?d" using assms d by (simp add: zdvd_imp_le)
  then have ms: "?m = (if s = ?d then 0 else s)" using m(1) assms(2) d by auto
  define t1 where "t1 = ts_from ts + ?m"
  define t2 where "t2 = (if t1 > ts_from ts then t1 - ?d else t1)"
  have "?d dvd ts_from ts - Time_Truncate f ?d"
    using d assms by (intro dvd_diff Time_Truncate_dvd) auto
  then have tr: "Duration_Truncate (ts_from ts - Time_Truncate f ?d) ?d = ts_from ts - Time_Truncate f ?d"
    by (simp add: Duration_Truncate_def dvd_smod)
  have src: "fill_src ts f s = (t2, (t2 - f) sdiv s)"
    using True tr assms d by (simp add: fill_src_def Let_def t2_def t1_def Time_Truncate_nonneg)
  have "?d dvd t2 - f"
  proof -
    have "?d dvd f - ?m" by (simp add: dvd_minus_mod)
    then have "?d dvd t1 - f" using d dvd_diff [of ?d "ts_from ts" "f - ?m"] by (simp add: t1_def algebra_simps)
    then show ?thesis using dvd_diff [of ?d "t1 - f" ?d] by (auto simp: t2_def algebra_simps)
  qed
  then have "s dvd t2 - f" using assms(3) by (rule dvd_trans [rotated])
  moreover have "f \<le> t2" using True m by (auto simp: t2_def t1_def)
  ultimately obtain k where k: "t2 - f = s * int k"
    using assms(2) by (metis diff_ge_0_iff_ge dvdE nonneg_int_cases not_le zero_le_mult_iff)
  have t2: "t2 = f + int k * s" using k by (simp add: mult.commute)
  show ?thesis
  proof (rule that [of k])
    show "fill_src ts f s = (f + int k * s, int k)" using src k assms(2) t2 by (simp add: sdiv_nonneg)
    show "f + int k * s \<le> ts_from ts \<and> f + (int k - 1) * s \<le> ts_from ts - ?d"
      using ms m t2 assms(2) by (simp add: left_diff_distrib) (auto simp: t2_def t1_def split: if_splits)
    show "ts_from ts - ?d < f + int k * s"
      using ms m t2 d assms(2) unfolding t2 [symmetric] by (auto simp: t2_def t1_def)
  qed
qed

lemma fill_dst_aligned:
  assumes "aligned ts" "0 \<le> t" "ts_from ts - ts_step ts < t"
  obtains i where "fill_dst ts t = (ts_from ts + int i * ts_step ts, int i)"
    and "t \<le> ts_from ts + int i * ts_step ts" and "ts_from ts + (int i - 1) * ts_step ts < t"
    and "i > 0 \<Longrightarrow> ts_from ts < t"
proof (cases "t > ts_from ts")
  case False
  then show ?thesis using assms by (intro that [of 0]) (auto simp: fill_dst_def)
next
  case True
  let ?d = "ts_step ts"
  have d: "0 < ?d" "0 \<le> ts_from ts" "?d dvd ts_from ts" using assms by (auto simp: aligned_def)
  let ?t1 = "Time_Truncate t ?d"
  define t2 where "t2 = (if ?t1 < t then ?t1 + ?d else ?t1)"
  have b: "?t1 \<le> t" "t - ?d < ?t1" using d assms(2) by (auto intro: Time_Truncate_le Time_Truncate_gt)
  have "?d dvd ?t1 - ts_from ts" using d assms(2) by (intro dvd_diff Time_Truncate_dvd) auto
  then have "?d dvd t2 - ts_from ts" using dvd_add [of ?d "?t1 - ts_from ts" ?d]
    by (auto simp: t2_def algebra_simps)
  moreover have "ts_from ts \<le> t2" using b True by (auto simp: t2_def)
  ultimately obtain i where i: "t2 - ts_from ts = ?d * int i"
    using d(1) by (metis diff_ge_0_iff_ge dvdE nonneg_int_cases not_le zero_le_mult_iff)
  then have t2: "t2 = ts_from ts + int i * ?d" by (simp add: mult.commute)
  show ?thesis
  proof (rule that [of i])
    show "fill_dst ts t = (ts_from ts + int i * ?d, int i)"
      using True i d t2 by (simp add: fill_dst_def Let_def t2_def [symmetric] sdiv_nonneg)
    show "t \<le> ts_from ts + int i * ?d" using b unfolding t2 [symmetric] by (auto simp: t2_def)
    show "ts_from ts + (int i - 1) * ?d < t"
      using b t2 by (simp add: left_diff_distrib) (auto simp: t2_def split: if_splits)
  qed (rule True)
qed

text \<open>
  The four fill functions on an aligned series: each bucket from the one of the first sample to the
  one of the last sample holds the fold of the defined samples in \<open>(T - st, T]\<close>, and the other
  buckets keep their values. The first bucket starts from \<open>init\<close>.
\<close>

definition fill_spec :: "'a filler \<Rightarrow> 'a \<Rightarrow> TimeSeries \<Rightarrow> Time \<Rightarrow> Duration \<Rightarrow> f32 list \<Rightarrow> nat \<Rightarrow> f32" where
  "fill_spec fl init ts f s data j =
     (let T = ts_from ts + int j * ts_step ts; ps = src_samples f s data; old = ts_data ts ! j
      in if T < f \<or> \<not> bucket_reached T (ts_step ts) ps then old
         else fl_out fl (foldl (fl_add fl) (if T - ts_step ts < f \<or> j = 0 then init else fl_empty fl)
                           (bucket_values T (ts_step ts) ps)) old)"

lemma filled_spec:
  assumes d: "0 < ts_step ts" and s: "0 < s"
    and i: "f + int k * s \<le> ts_from ts + int i * ts_step ts"
      "ts_from ts + (int i - 1) * ts_step ts < f + int k * s" "i > 0 \<Longrightarrow> k = 0"
    and k: "k > 0 \<Longrightarrow> f + int k * s \<le> ts_from ts \<and> f + (int k - 1) * s \<le> ts_from ts - ts_step ts"
    and kl: "k < length data"
    and late: "\<And>T. ts_from ts \<le> T \<Longrightarrow>
       bucket_values T (ts_step ts) (src_samples f s data)
         = bucket_values T (ts_step ts) (src_samples (f + int k * s) s (drop k data)) \<and>
       bucket_reached T (ts_step ts) (src_samples f s data)
         = bucket_reached T (ts_step ts) (src_samples (f + int k * s) s (drop k data))"
  shows "filled fl (ts_step ts) (ts_from ts + int i * ts_step ts) i init (ts_data ts)
      (src_samples (f + int k * s) s (drop k data)) j = fill_spec fl init ts f s data j"
proof -
  let ?d = "ts_step ts" let ?ps' = "src_samples (f + int k * s) s (drop k data)"
  let ?T = "ts_from ts + int j * ?d"
  have T: "ts_from ts + int i * ?d + (int j - int i) * ?d = ?T" by (simp add: algebra_simps)
  have T0: "ts_from ts \<le> ?T" using d by simp
  have ks: "f \<le> f + int k * s" using s by simp
  consider "j < i" | "j = i" | "i < j" by linarith
  then show ?thesis
  proof cases
    case 1
    then have "int j * ?d \<le> (int i - 1) * ?d" using d by (intro mult_right_mono) auto
    then have "?T < f" using 1 i by auto
    with 1 show ?thesis by (simp add: filled_def fill_spec_def Let_def)
  next
    case 2
    have lo: "?T - ?d < f + int k * s" using 2 i by (simp add: algebra_simps)
    have "f + int k * s \<le> t" if "(t, v) \<in> set ?ps'" for t v using src_samples_ge [OF s that] .
    then have "map snd (filter (\<lambda>(t, v). t \<le> ?T \<and> \<not> IsNaN v) ?ps') = bucket_values ?T ?d ?ps'"
      unfolding bucket_values_def using lo
      by (intro arg_cong [where f = "map snd"] filter_cong refl) fastforce
    moreover have "bucket_reached ?T ?d ?ps'"
      using kl lo by (cases "drop k data") (auto simp: bucket_reached_def)
    moreover have "?T - ?d < f \<or> j = 0" using lo 2 i(3) by (cases "i = 0") auto
    moreover have "\<not> ?T < f" using i(1) ks unfolding 2 by linarith
    ultimately show ?thesis using 2 late [OF T0] by (simp add: filled_def fill_spec_def Let_def)
  next
    case 3
    then have "(int i + 1) * ?d \<le> int j * ?d" using d by (intro mult_right_mono) auto
    then have "f + int k * s \<le> ?T - ?d" using i(1) by (simp add: algebra_simps)
    then have "\<not> ?T < f" "\<not> (?T - ?d < f \<or> j = 0)" using ks 3 d by auto
    then show ?thesis
      unfolding filled_def fill_spec_def Let_def T using 3 late [OF T0] by simp
  qed
qed

lemma fill_run_spec:
  assumes al: "aligned ts" and s: "0 < s" "s dvd ts_step ts" and f: "0 \<le> f" and ph: "fill_phase ts f s"
    and last: "ts_from ts - ts_step ts < f + (int (length data) - 1) * s"
    "data \<noteq> []" and first: "f \<le> ts_from ts + (int (length (ts_data ts)) - 1) * ts_step ts" "ts_data ts \<noteq> []"
  shows "\<exists>c ts'. fill_run fl init ts f s data = Some (c, ts') \<and>
     ts_from ts' = ts_from ts \<and> ts_step ts' = ts_step ts \<and> length (ts_data ts') = length (ts_data ts) \<and>
     (\<forall>j<length (ts_data ts). ts_data ts' ! j = fill_spec fl init ts f s data j)"
proof -
  let ?d = "ts_step ts"
  obtain k where src: "fill_src ts f s = (f + int k * s, int k)"
    and k: "k > 0 \<Longrightarrow> f + int k * s \<le> ts_from ts \<and> f + (int k - 1) * s \<le> ts_from ts - ?d"
    and lo: "ts_from ts - ?d < f + int k * s"
    using fill_src_aligned [OF al s f ph] by metis
  have "0 \<le> f + int k * s" using f s by simp
  then obtain i where dst: "fill_dst ts (f + int k * s) = (ts_from ts + int i * ?d, int i)"
    and i: "f + int k * s \<le> ts_from ts + int i * ?d" "ts_from ts + (int i - 1) * ?d < f + int k * s"
      "i > 0 \<Longrightarrow> ts_from ts < f + int k * s"
    using fill_dst_aligned [OF al _ lo] by metis
  have ik: "i > 0 \<Longrightarrow> k = 0" using i(3) k by (cases "k = 0") auto
  have d: "0 < ?d" using al by (simp add: aligned_def)
  have sd: "s \<le> ?d" using s d by (simp add: zdvd_imp_le)
  let ?ps = "src_samples f s data" let ?ps' = "src_samples (f + int k * s) s (drop k data)"
  have kl: "k < length data"
  proof (cases "k = 0")
    case False
    then have "(int k - 1) * s < (int (length data) - 1) * s" using k last by simp
    then show ?thesis using s by simp
  qed (use last in simp)
  have il: "i < length (ts_data ts)"
  proof (cases "i = 0")
    case False
    then have "(int i - 1) * ?d < (int (length (ts_data ts)) - 1) * ?d" using first i ik by simp
    then show ?thesis using d by simp
  qed (use first in simp)
  have split: "?ps = src_samples f s (take k data) @ ?ps'"
    using kl src_samples_append [of f s "take k data" "drop k data"] by simp
  have early: "t \<le> ts_from ts - ?d" if "(t, v) \<in> set (src_samples f s (take k data))" for t v
    using src_samples_less [OF s(1) that] k kl that by (cases "k = 0") auto
  have late: "bucket_values T ?d ?ps = bucket_values T ?d ?ps' \<and>
      bucket_reached T ?d ?ps = bucket_reached T ?d ?ps'" if "ts_from ts \<le> T" for T
    using early that by (fastforce simp: split bucket_values_def bucket_reached_def filter_empty_conv list_ex_iff)
  have "filled fl ?d (ts_from ts + int i * ?d) i init (ts_data ts) ?ps' j = fill_spec fl init ts f s data j"
    if "j < length (ts_data ts)" for j
    by (rule filled_spec [OF d s(1) i(1,2) ik k kl late])
  moreover have "\<exists>c buf'. fill_loop fl ?d s (f + int k * s) (ts_from ts + int i * ?d) (int i) init False
      (ts_data ts) (drop k data) = Some (c, buf') \<and> length buf' = length (ts_data ts) \<and>
      (\<forall>j<length (ts_data ts). buf' ! j = filled fl ?d (ts_from ts + int i * ?d) i init (ts_data ts) ?ps' j)"
    using s sd d i il by (intro fill_loop_filled) auto
  ultimately show ?thesis
    using kl by (auto simp: fill_run_def fill_start_def src dst)
qed

subsection \<open>Aggregates\<close>

lemma agg_step_Some:
  "length ps \<le> length data \<Longrightarrow>
   agg_step f data ps = Some (map (\<lambda>i. if i < length ps then f (fst (ps ! i)) (data ! i) (snd (ps ! i)) else data ! i)
                                [0..<length data])"
proof (induction f data ps rule: agg_step.induct)
  case (3 f d ds t v ps)
  then show ?case by (simp add: map_upt_Suc del: upt_Suc)
qed (simp_all add: map_nth)

lemma agg_step_None: "length data < length ps \<Longrightarrow> agg_step f data ps = None"
  by (induction f data ps rule: agg_step.induct) auto

text \<open>The value of one point of an aggregate: the inputs that reach it, folded in their order.\<close>

definition agg_point :: "F \<Rightarrow> TimeSeries list \<Rightarrow> nat \<Rightarrow> f32 \<Rightarrow> f32" where
  "agg_point f ss i acc =
     foldl (\<lambda>a s. if i < length (ts_data s)
                 then f (ts_from s + int i * ts_step s) a (ts_data s ! i) else a) acc ss"

lemma agg_loop_point:
  assumes "\<forall>s\<in>set ss. length (ts_data s) \<le> length data"
  shows "agg_loop f data ss = Some (map (\<lambda>i. agg_point f ss i (data ! i)) [0..<length data])"
  using assms
proof (induction ss arbitrary: data)
  case Nil
  then show ?case by (simp add: agg_point_def map_nth)
next
  case (Cons s ss)
  then show ?case by (simp add: agg_step_Some samples_def agg_point_def cong: map_cong)
qed

lemma agg_loop_None:
  assumes "\<exists>s\<in>set ss. length data < length (ts_data s)"
  shows "agg_loop f data ss = None"
  using assms
proof (induction ss arbitrary: data)
  case (Cons s ss)
  then show ?case
    by (cases "length (ts_data s) \<le> length data") (auto simp: agg_step_Some agg_step_None)
qed simp

lemma Aggregate_Get_two:
  "Aggregate_Get (Some \<lparr>agg_f = f, agg_input = s # s' # ss\<rparr>) =
     (if \<forall>x\<in>set (s' # ss). length (ts_data x) \<le> length (ts_data s)
      then Some (Some (NewWithData (ts_from s) (ts_step s)
             (map (\<lambda>i. agg_point f (s # s' # ss) i NaN) [0..<length (ts_data s)])))
      else None)"
proof (cases "\<forall>x\<in>set (s' # ss). length (ts_data x) \<le> length (ts_data s)")
  case True
  then have "agg_loop f (replicate (length (ts_data s)) NaN) (s # s' # ss) =
      Some (map (\<lambda>i. agg_point f (s # s' # ss) i NaN) [0..<length (ts_data s)])"
    by (subst agg_loop_point) (auto cong: map_cong)
  with True show ?thesis by (simp add: Aggregate_Get_def Len_def)
next
  case False
  then have "agg_loop f (replicate (length (ts_data s)) NaN) (s # s' # ss) = None"
    by (intro agg_loop_None) (auto simp: not_le)
  with False show ?thesis by (auto simp: Aggregate_Get_def Len_def)
qed

subsection \<open>Functions that select a sample\<close>

text \<open>
  The interface of the functions that pick one of two samples and ignore NaN (\<^verbatim>\<open>Any\<close>,
  \<^verbatim>\<open>LastNotNaN\<close>, \<^verbatim>\<open>Max\<close>, \<^verbatim>\<open>Min\<close>), and of those that pick the extreme of an order.
\<close>

locale nan_selector =
  fixes f :: F
  assumes selects: "f t a v = a \<or> f t a v = v"
    and ignores_NaN: "f t a v = NaN \<longleftrightarrow> a = NaN \<and> v = NaN"
begin

lemma foldl_NaN: "foldl (\<lambda>acc (t, v). f t acc v) a ps = NaN \<longleftrightarrow> a = NaN \<and> (\<forall>v\<in>snd ` set ps. v = NaN)"
  by (induction ps arbitrary: a) (auto simp: ignores_NaN)

lemma foldl_mem: "foldl (\<lambda>acc (t, v). f t acc v) a ps \<in> insert a (snd ` set ps)"
proof (induction ps arbitrary: a)
  case (Cons p ps)
  obtain t v where p: "p = (t, v)" by (cases p)
  show ?case using Cons.IH [of "f t a v"] selects [of t a v] unfolding p by auto
qed simp

lemma Reduce_NaN: "Reduce (Some s) f = NaN \<longleftrightarrow> (\<forall>v\<in>set (ts_data s). v = NaN)"
  using foldl_NaN [of NaN "samples s"] by (simp add: Reduce_def)

lemma Reduce_mem: "Reduce (Some s) f \<noteq> NaN \<Longrightarrow> Reduce (Some s) f \<in> set (ts_data s)"
  using foldl_mem [of NaN "samples s"] by (simp add: Reduce_def)

end

locale nan_extremum = nan_selector +
  fixes le :: "f32 \<Rightarrow> f32 \<Rightarrow> bool"
  assumes le_trans: "le a b \<Longrightarrow> le b c \<Longrightarrow> le a c"
    and le_left: "a \<noteq> NaN \<Longrightarrow> le a (f t a v)"
    and le_right: "v \<noteq> NaN \<Longrightarrow> le v (f t a v)"
begin

lemma foldl_left: "a \<noteq> NaN \<Longrightarrow> ps \<noteq> [] \<Longrightarrow> le a (foldl (\<lambda>acc (t, v). f t acc v) a ps)"
proof (induction ps arbitrary: a)
  case (Cons p ps)
  obtain t v where p: "p = (t, v)" by (cases p)
  have "f t a v \<noteq> NaN" using Cons.prems by (simp add: ignores_NaN)
  then have "ps \<noteq> [] \<Longrightarrow> le (f t a v) (foldl (\<lambda>acc (t, v). f t acc v) (f t a v) ps)" by (rule Cons.IH)
  then show ?case using le_left [OF Cons.prems(1), of t v] unfolding p
    by (cases "ps = []") (auto intro: le_trans)
qed simp

lemma foldl_bound: "v \<in> snd ` set ps \<Longrightarrow> v \<noteq> NaN \<Longrightarrow> le v (foldl (\<lambda>acc (t, v). f t acc v) a ps)"
proof (induction ps arbitrary: a)
  case (Cons p ps)
  obtain t w where p: "p = (t, w)" by (cases p)
  show ?case
  proof (cases "v \<in> snd ` set ps")
    case True
    then show ?thesis using Cons.IH [of "f t a w"] Cons.prems unfolding p by simp
  next
    case False
    with Cons.prems p have v: "v = w" by simp
    then have nn: "f t a v \<noteq> NaN" using Cons.prems by (simp add: ignores_NaN)
    have "le v (f t a v)" using Cons.prems by (intro le_right)
    then show ?thesis using foldl_left [OF nn] unfolding p v
      by (cases "ps = []") (auto intro: le_trans)
  qed
qed simp

lemma Reduce_bound: "v \<in> set (ts_data s) \<Longrightarrow> v \<noteq> NaN \<Longrightarrow> le v (Reduce (Some s) f)"
  using foldl_bound [of v "samples s" NaN] by (simp add: Reduce_def)

end

interpretation any_sel: nan_selector Any
  by unfold_locales (auto simp: Any_def)

interpretation last_sel: nan_selector LastNotNaN
  by unfold_locales (auto simp: LastNotNaN_def)

interpretation max_ext: nan_extremum Max f32_le
  by unfold_locales
     (auto simp: Max_def intro: f32_le_trans f32_lt_le dest: f32_not_lt [THEN iffD1, rotated 2])

interpretation min_ext: nan_extremum Min f32_ge
  by unfold_locales
     (auto simp: Min_def intro: f32_le_trans f32_lt_le dest: f32_not_lt [THEN iffD1, rotated 2])

subsection \<open>Properties\<close>

lemma Set_idx:
  assumes "aligned s" "0 \<le> t" "ts_from s \<le> Time_Truncate t (ts_step s)"
  obtains k where "(Time_Truncate t (ts_step s) - ts_from s) sdiv ts_step s = int k"
    and "Time_Truncate t (ts_step s) = ts_from s + int k * ts_step s"
proof -
  let ?d = "ts_step s"
  have d: "0 < ?d" "0 \<le> ts_from s" "?d dvd ts_from s" using assms by (auto simp: aligned_def)
  have "?d dvd Time_Truncate t ?d - ts_from s" using d assms by (intro dvd_diff Time_Truncate_dvd) auto
  then obtain k where k: "Time_Truncate t ?d - ts_from s = ?d * int k"
    using d(1) assms(3) by (metis diff_ge_0_iff_ge dvdE nonneg_int_cases not_le zero_le_mult_iff)
  show ?thesis using k d by (intro that [of k]) (simp_all add: sdiv_nonneg algebra_simps)
qed

lemma Set_samples:
  assumes "aligned s" "0 \<le> t" "i < length (ts_data s)"
  shows "ts_from (Set s t v) = ts_from s \<and> ts_step (Set s t v) = ts_step s \<and>
    length (ts_data (Set s t v)) = length (ts_data s) \<and>
    ts_data (Set s t v) ! i =
      (if ts_from s + int i * ts_step s \<le> t \<and> t < ts_from s + (int i + 1) * ts_step s then v
       else ts_data s ! i)"
proof -
  let ?d = "ts_step s" let ?t = "Time_Truncate t ?d"
  have d: "0 < ?d" "0 \<le> ts_from s" "?d dvd ts_from s" using assms by (auto simp: aligned_def)
  have b: "?t \<le> t" "t < ?t + ?d" using Time_Truncate_le Time_Truncate_gt assms(2) d(1) by fastforce+
  show ?thesis
  proof (cases "ts_from s \<le> ?t")
    case False
    have "\<not> ts_from s + int i * ?d \<le> t"
    proof
      assume "ts_from s + int i * ?d \<le> t"
      moreover have "0 \<le> int i * ?d" using d by simp
      ultimately have "ts_from s \<le> t" by linarith
      then have "ts_from s \<le> ?t" using d by (intro Time_Truncate_ge) auto
      with False show False ..
    qed
    with False show ?thesis by (simp add: Set_def Let_def)
  next
    case True
    obtain k where k: "(?t - ts_from s) sdiv ?d = int k" "?t = ts_from s + int k * ?d"
      using Set_idx [OF assms(1,2) True] .
    have "ts_from s + int i * ?d \<le> t \<and> t < ts_from s + (int i + 1) * ?d \<longleftrightarrow> i = k"
    proof
      assume h: "ts_from s + int i * ?d \<le> t \<and> t < ts_from s + (int i + 1) * ?d"
      have "int i * ?d < (int k + 1) * ?d" "int k * ?d < (int i + 1) * ?d"
        using h b k(2) by (simp_all add: algebra_simps)
      then show "i = k" using d by simp
    qed (use b k(2) in \<open>simp add: algebra_simps\<close>)
    with True k(1) assms(3) show ?thesis by (auto simp: Set_def Let_def)
  qed
qed

text \<open>
  \<^verbatim>\<open>TimeSeries.Set\<close> on an aligned series writes the value into the sample whose step
  \<open>[T, T + step)\<close> holds the time, and into no other; a time outside of the series changes nothing.
\<close>

theorem Set_writes_one_step:
  assumes "aligned s" "0 \<le> t" "i < length (ts_data s)"
  shows "ts_from (Set s t v) = ts_from s \<and> ts_step (Set s t v) = ts_step s \<and>
    length (ts_data (Set s t v)) = length (ts_data s) \<and>
    ts_data (Set s t v) ! i =
      (if ts_from s + int i * ts_step s \<le> t \<and> t < ts_from s + (int i + 1) * ts_step s then v
       else ts_data s ! i)"
  by (rule Set_samples [OF assms])

text \<open>
  A loop over \<^verbatim>\<open>IterFrom(from)\<close> on an aligned series visits exactly the samples at or after
  the start of the step that holds \<open>from\<close>, in the order of time, and nothing when \<open>from\<close> is after
  the last sample.
\<close>

theorem IterFrom_visits_suffix:
  assumes "aligned s" "ts_data s \<noteq> []"
  shows "iter_points (IterFrom (Some s) f) =
    (if f > ts_from s + ts_step s * (int (length (ts_data s)) - 1) then []
     else filter (\<lambda>(t, v). Time_Truncate (max f (ts_from s)) (ts_step s) \<le> t) (samples s))"
  using iter_points_IterFrom [OF assms(1), of f] assms(2) by simp

text \<open>The bucket whose old value \<^verbatim>\<open>FillSum\<close> and \<^verbatim>\<open>FillAvg\<close> read is the first one they write.\<close>

lemma first_bucket_aligned:
  assumes al: "aligned ts" and s: "0 < s" "s dvd ts_step ts" and f: "0 \<le> f" and ph: "fill_phase ts f s"
    and first: "f \<le> ts_from ts + (int (length (ts_data ts)) - 1) * ts_step ts" "ts_data ts \<noteq> []"
  obtains i where "first_bucket ts f s = Some (ts_data ts ! i)"
    and "\<And>j. f \<le> ts_from ts + int j * ts_step ts \<Longrightarrow>
           ts_from ts + int j * ts_step ts - ts_step ts < f \<or> j = 0 \<Longrightarrow> j = i"
proof -
  let ?d = "ts_step ts"
  obtain k where src: "fill_src ts f s = (f + int k * s, int k)"
    and k: "k > 0 \<Longrightarrow> f + int k * s \<le> ts_from ts \<and> f + (int k - 1) * s \<le> ts_from ts - ?d"
    and lo: "ts_from ts - ?d < f + int k * s"
    using fill_src_aligned [OF al s f ph] by metis
  have "0 \<le> f + int k * s" using f s by simp
  then obtain i where dst: "fill_dst ts (f + int k * s) = (ts_from ts + int i * ?d, int i)"
    and i: "f + int k * s \<le> ts_from ts + int i * ?d" "ts_from ts + (int i - 1) * ?d < f + int k * s"
      "i > 0 \<Longrightarrow> ts_from ts < f + int k * s"
    using fill_dst_aligned [OF al _ lo] by metis
  have d: "0 < ?d" using al by (simp add: aligned_def)
  have ik: "i > 0 \<Longrightarrow> k = 0" using i(3) k by (cases "k = 0") auto
  have "int i < int (length (ts_data ts))"
  proof (cases "i = 0")
    case False
    then have "(int i - 1) * ?d < (int (length (ts_data ts)) - 1) * ?d" using first i ik by simp
    then show ?thesis using d by simp
  qed (use first in simp)
  then have fb: "first_bucket ts f s = Some (ts_data ts ! i)"
    by (simp add: first_bucket_def fill_start_def src dst in_range_def)
  have "j = i" if j: "f \<le> ts_from ts + int j * ?d" "ts_from ts + int j * ?d - ?d < f \<or> j = 0" for j
  proof (cases "k = 0")
    case False
    have "0 \<le> (int k - 1) * s" using False s by simp
    moreover have "0 \<le> int j * ?d" using d by simp
    ultimately show ?thesis using False k ik j(2) by auto
  next
    case True
    show ?thesis
    proof (cases "j = 0")
      case False
      then have "int j * ?d < (int i + 1) * ?d" "int i * ?d < (int j + 1) * ?d"
        using True i j by (simp_all add: algebra_simps)
      then show ?thesis using d by simp
    qed (use True i(3) j(1) in \<open>cases "i = 0"; simp\<close>)
  qed
  with fb show ?thesis by (rule that)
qed

text \<open>
  C38. \<^verbatim>\<open>FillSum\<close> on an aligned series (it starts at a multiple of its step), with a source that starts
  at a time not below zero, has a step that divides the series' step and overlaps the series, does not panic and
  puts into each bucket that the source reaches the sum of exactly the defined source samples in
  \<open>(T - step, T]\<close>, in their order. A condition on the phase is needed, as outside of it the code skips a
  sample: the source either does not start a whole step or more before the series, or starts one source step
  after a bucket boundary. What a bucket held is added only in the bucket in which the source starts and in
  the first one of the series; the later buckets the source reaches restart from zero. The buckets it does
  not reach keep their values.
\<close>

theorem FillSum_buckets:
  assumes "aligned ts" "0 < s" "s dvd ts_step ts" "0 \<le> f" "fill_phase ts f s" "data \<noteq> []"
    and "ts_from ts - ts_step ts < f + (int (length data) - 1) * s"
    and "f \<le> ts_from ts + (int (length (ts_data ts)) - 1) * ts_step ts" "ts_data ts \<noteq> []"
  shows "\<exists>c ts'. FillSum ts f s data = Some (c, ts') \<and> length (ts_data ts') = length (ts_data ts) \<and>
     (\<forall>j<length (ts_data ts).
        let T = ts_from ts + int j * ts_step ts; ps = src_samples f s data; old = ts_data ts ! j
        in ts_data ts' ! j =
             (if T < f \<or> \<not> bucket_reached T (ts_step ts) ps then old
              else foldl f32_add
                     (if (T - ts_step ts < f \<or> j = 0) \<and> \<not> IsNaN old then old else Fin 0)
                     (bucket_values T (ts_step ts) ps)))"
proof -
  obtain i where i: "first_bucket ts f s = Some (ts_data ts ! i)"
      "\<And>j. f \<le> ts_from ts + int j * ts_step ts \<Longrightarrow>
           ts_from ts + int j * ts_step ts - ts_step ts < f \<or> j = 0 \<Longrightarrow> j = i"
    using first_bucket_aligned [OF assms(1-5,8,9)] by metis
  let ?b = "ts_data ts ! i" let ?init = "if \<not> IsNaN ?b then ?b else Fin 0"
  obtain c ts' where r: "fill_run sum_filler ?init ts f s data = Some (c, ts')"
      "length (ts_data ts') = length (ts_data ts)"
      "\<forall>j<length (ts_data ts). ts_data ts' ! j = fill_spec sum_filler ?init ts f s data j"
    using fill_run_spec [OF assms(1-5,7,6,8,9)] by metis
  have "fill_spec sum_filler ?init ts f s data j =
      (let T = ts_from ts + int j * ts_step ts; ps = src_samples f s data; old = ts_data ts ! j
       in if T < f \<or> \<not> bucket_reached T (ts_step ts) ps then old
          else foldl f32_add
                 (if (T - ts_step ts < f \<or> j = 0) \<and> \<not> IsNaN old then old else Fin 0)
                 (bucket_values T (ts_step ts) ps))" for j
    using i(2) [of j] by (auto simp: fill_spec_def sum_filler_def Let_def not_less)
  with r show ?thesis using i(1) by (simp add: FillSum_def Let_def)
qed

theorem FillSum_buckets_witness:
  "\<exists>c ts'. FillSum (New 30 2 30) 15 15 [Fin 1, Fin 2, Fin 3] = Some (c, ts') \<and> length (ts_data ts') = 2 \<and>
     ts_data ts' ! 0 = foldl f32_add (Fin 0) [Fin 1, Fin 2] \<and>
     ts_data ts' ! 1 = foldl f32_add (Fin 0) [Fin 3]"
proof -
  have "aligned (New 30 2 30)" "fill_phase (New 30 2 30) 15 15" "15 dvd ts_step (New 30 2 30)"
    by (simp_all add: aligned_def fill_phase_def New_def NewWithData_def)
  then obtain c ts' where r: "FillSum (New 30 2 30) 15 15 [Fin 1, Fin 2, Fin 3] = Some (c, ts')"
      "length (ts_data ts') = 2"
    and v: "\<forall>j<2. let T = ts_from (New 30 2 30) + int j * ts_step (New 30 2 30);
             ps = src_samples 15 15 [Fin 1, Fin 2, Fin 3]; old = ts_data (New 30 2 30) ! j
        in ts_data ts' ! j =
             (if T < 15 \<or> \<not> bucket_reached T (ts_step (New 30 2 30)) ps then old
              else foldl f32_add
                     (if (T - ts_step (New 30 2 30) < 15 \<or> j = 0) \<and> \<not> IsNaN old then old else Fin 0)
                     (bucket_values T (ts_step (New 30 2 30)) ps))"
    using FillSum_buckets [of "New 30 2 30" 15 15 "[Fin 1, Fin 2, Fin 3]"]
    by (auto simp: New_def NewWithData_def)
  show ?thesis
    using r v [THEN spec, of 0] v [THEN spec, of 1]
    by (simp add: New_def NewWithData_def bucket_reached_def bucket_values_def Let_def)
qed

text \<open>
  \<^verbatim>\<open>Aggregate.Get\<close> over two series or more: it returns one series on the grid of the first
  input whose every point folds, in the order of the additions, the inputs that have that point; it
  panics exactly when a later input is longer than the first one.
\<close>

theorem Aggregate_Get_pointwise:
  "Aggregate_Get (Some \<lparr>agg_f = f, agg_input = s # s' # ss\<rparr>) =
     (if \<forall>x\<in>set (s' # ss). length (ts_data x) \<le> length (ts_data s)
      then Some (Some (NewWithData (ts_from s) (ts_step s)
             (map (\<lambda>i. agg_point f (s # s' # ss) i NaN) [0..<length (ts_data s)])))
      else None)"
  by (rule Aggregate_Get_two)

text \<open>
  \<^verbatim>\<open>Reduce(Max)\<close> is NaN exactly when every sample is NaN; otherwise it is a sample of the
  series and no defined sample is greater.
\<close>

theorem Reduce_Max_is_maximum:
  "(Reduce (Some s) Max = NaN \<longleftrightarrow> (\<forall>v\<in>set (ts_data s). v = NaN)) \<and>
   (Reduce (Some s) Max \<noteq> NaN \<longrightarrow>
      Reduce (Some s) Max \<in> set (ts_data s) \<and>
      (\<forall>v\<in>set (ts_data s). v \<noteq> NaN \<longrightarrow> f32_le v (Reduce (Some s) Max)))"
  using max_ext.Reduce_NaN max_ext.Reduce_mem max_ext.Reduce_bound by blast

end
