(* ===== verification/Utils.thy ===== *)
theory Utils
  imports Prelude
begin

text \<open>
  The package \<^verbatim>\<open>utils\<close>: glob patterns (\<^verbatim>\<open>glob.go\<close>), sets of strings (\<^verbatim>\<open>stringset.go\<close>)
  and string helpers (\<^verbatim>\<open>strings.go\<close>, \<^verbatim>\<open>format.go\<close>). \<^verbatim>\<open>GlobMatch\<close> calls
  \<^verbatim>\<open>filepath.Match\<close> of Go's standard library, which is modelled statement by statement: a pattern
  is cut into chunks at its stars, each chunk is matched at the first position that fits (there is no
  backtracking over earlier chunks), and a malformed pattern is an error. Every character is a rune
  (ASCII); the separator is the slash of Unix.
\<close>

subsection \<open>filepath.Match\<close>

abbreviation backslash :: char where "backslash \<equiv> CHR 0x5C"

fun scan_body :: "bool \<Rightarrow> string \<Rightarrow> string \<times> string" where
  "scan_body inrange [] = ([], [])"
| "scan_body inrange (c # cs) =
     (if c = backslash
      then (case cs of [] \<Rightarrow> ([c], [])
            | d # ds \<Rightarrow> (let (a, b) = scan_body inrange ds in (c # d # a, b)))
      else if c = CHR ''['' then (let (a, b) = scan_body True cs in (c # a, b))
      else if c = CHR '']'' then (let (a, b) = scan_body False cs in (c # a, b))
      else if c = CHR ''*'' \<and> \<not> inrange then ([], c # cs)
      else (let (a, b) = scan_body inrange cs in (c # a, b)))"

definition scanChunk :: "string \<Rightarrow> bool \<times> string \<times> string" where
  "scanChunk pat =
     (let star = (pat \<noteq> [] \<and> hd pat = CHR ''*'');
          (chunk, rest) = scan_body False (dropWhile (\<lambda>c. c = CHR ''*'') pat)
      in (star, chunk, rest))"

text \<open>\<open>None\<close> is \<^verbatim>\<open>ErrBadPattern\<close>.\<close>

definition getEsc :: "string \<Rightarrow> (nat \<times> string) option" where
  "getEsc chunk =
     (if chunk = [] \<or> hd chunk = CHR ''-'' \<or> hd chunk = CHR '']'' then None
      else
        (let ch = (if hd chunk = backslash then tl chunk else chunk)
         in if ch = [] \<or> tl ch = [] then None else Some (of_char (hd ch), tl ch)))"

lemma getEsc_length: "getEsc chunk = Some (r, ch) \<Longrightarrow> length ch < length chunk"
  by (cases chunk) (auto simp: getEsc_def Let_def split: if_splits)

function ranges :: "nat \<Rightarrow> string \<Rightarrow> nat \<Rightarrow> bool \<Rightarrow> (bool \<times> string) option" where
  "ranges r chunk nrange m =
     (if chunk \<noteq> [] \<and> hd chunk = CHR '']'' \<and> nrange > 0 then Some (m, tl chunk)
      else
        (case getEsc chunk of None \<Rightarrow> None
         | Some (lo, ch) \<Rightarrow>
             if hd ch = CHR ''-''
             then (case getEsc (tl ch) of None \<Rightarrow> None
                   | Some (hi, ch') \<Rightarrow> ranges r ch' (nrange + 1) (m \<or> lo \<le> r \<and> r \<le> hi))
             else ranges r ch (nrange + 1) (m \<or> lo \<le> r \<and> r \<le> lo)))"
  by pat_completeness auto
termination
proof (relation "measure (\<lambda>(r, chunk, n, m). length chunk)", goal_cases)
  case (2 r chunk n m p lo ch q hi ch')
  then have "length ch < length chunk" "length ch' < length (tl ch)" by (auto dest: getEsc_length)
  then show ?case by simp
qed (auto dest: getEsc_length)

declare ranges.simps [simp del]

lemma ranges_length: "ranges r chunk n m = Some (x, ch) \<Longrightarrow> length ch < length chunk"
proof (induction r chunk n m rule: ranges.induct)
  case (1 r chunk n m)
  show ?case
  proof (cases "chunk \<noteq> [] \<and> hd chunk = CHR '']'' \<and> n > 0")
    case True
    then show ?thesis using "1.prems" by (subst (asm) ranges.simps) auto
  next
    case False
    then obtain lo c1 where g: "getEsc chunk = Some (lo, c1)"
      using "1.prems" by (subst (asm) ranges.simps) (auto simp: if_not_P simp del: not_gr_zero split: option.splits)
    note l = getEsc_length [OF g]
    show ?thesis
    proof (cases "hd c1 = CHR ''-''")
      case True
      then obtain hi c2 where g2: "getEsc (tl c1) = Some (hi, c2)"
          and r: "ranges r c2 (n + 1) (m \<or> lo \<le> r \<and> r \<le> hi) = Some (x, ch)"
        using "1.prems" False g by (subst (asm) (2) ranges.simps) (auto split: option.splits)
      have "length ch < length c2" using "1.IH"(1) [OF False g refl True g2 refl r] .
      then show ?thesis using l getEsc_length [OF g2] by simp
    next
      case nd: False
      then have r: "ranges r c1 (n + 1) (m \<or> lo \<le> r \<and> r \<le> lo) = Some (x, ch)"
        using "1.prems" False g by (simp add: ranges.simps [of r chunk])
      have "length ch < length c1" using "1.IH"(2) [OF False g refl nd r] .
      then show ?thesis using l by simp
    qed
  qed
qed

function matchChunk :: "bool \<Rightarrow> string \<Rightarrow> string \<Rightarrow> (string \<times> bool) option" where
  "matchChunk failed chunk s =
     (case chunk of
        [] \<Rightarrow> Some (if failed then ([], False) else (s, True))
      | c # ch \<Rightarrow>
        (let fl = (failed \<or> s = []); s' = (if fl then s else tl s) in
         if c = CHR ''[''
         then
           (let r = (if fl then 0 else of_char (hd s));
                negated = (ch \<noteq> [] \<and> hd ch = CHR ''^'');
                ch1 = (if negated then tl ch else ch)
            in (case ranges r ch1 0 False of None \<Rightarrow> None
                | Some (m, ch2) \<Rightarrow> matchChunk (fl \<or> m = negated) ch2 s'))
         else if c = CHR ''?'' then matchChunk (fl \<or> hd s = CHR ''/'') ch s'
         else if c = backslash
           then (case ch of [] \<Rightarrow> None | d # ds \<Rightarrow> matchChunk (fl \<or> d \<noteq> hd s) ds s')
         else matchChunk (fl \<or> c \<noteq> hd s) ch s'))"
  by pat_completeness auto
termination
  by (relation "measure (\<lambda>(f, chunk, s). length chunk)")
     (auto dest!: ranges_length simp: less_Suc_eq_le split: if_splits)

declare matchChunk.simps [simp del]

lemma scan_body_length: "length (snd (scan_body b p)) \<le> length p"
  by (induction b p rule: scan_body.induct)
     (auto simp: Let_def split_beta le_SucI split: list.split)

lemma scan_body_shorter: "p \<noteq> [] \<Longrightarrow> hd p \<noteq> CHR ''*'' \<Longrightarrow> length (snd (scan_body b p)) < length p"
proof (cases p)
  case (Cons c cs)
  moreover assume "p \<noteq> []" "hd p \<noteq> CHR ''*''"
  ultimately show ?thesis
    using scan_body_length [of b cs] scan_body_length [of True cs] scan_body_length [of False cs]
      scan_body_length [of b "tl cs"]
    by (cases cs) (auto simp: Let_def split_beta less_Suc_eq_le)
qed simp

lemma scanChunk_shorter: "pat \<noteq> [] \<Longrightarrow> scanChunk pat = (star, chunk, rest) \<Longrightarrow> length rest < length pat"
proof (cases "hd pat = CHR ''*''")
  case True
  assume "pat \<noteq> []" and eq: "scanChunk pat = (star, chunk, rest)"
  then obtain ps where pat: "pat = CHR ''*'' # ps" using True by (cases pat) auto
  have "length rest \<le> length (dropWhile (\<lambda>c. c = CHR ''*'') ps)"
    using eq scan_body_length [of False "dropWhile (\<lambda>c. c = CHR ''*'') ps"] pat
    by (auto simp: scanChunk_def split: prod.splits)
  also have "\<dots> \<le> length ps" by (rule length_dropWhile_le)
  finally show ?thesis using pat by simp
next
  case False
  assume "pat \<noteq> []" and eq: "scanChunk pat = (star, chunk, rest)"
  moreover from this False have "dropWhile (\<lambda>c. c = CHR ''*'') pat = pat" by (cases pat) auto
  ultimately show ?thesis
    using False scan_body_shorter [of pat False] by (auto simp: scanChunk_def split: prod.splits)
qed

text \<open>The loop that skips bytes under a star, up to a separator.\<close>

fun skip_match :: "string \<Rightarrow> bool \<Rightarrow> string \<Rightarrow> string option option" where
  "skip_match chunk final [] = Some None"
| "skip_match chunk final (c # cs) =
     (if c = CHR ''/'' then Some None
      else
        (case matchChunk False chunk cs of None \<Rightarrow> None
         | Some (t, ok) \<Rightarrow>
             if ok \<and> \<not> (final \<and> t \<noteq> []) then Some (Some t) else skip_match chunk final cs))"

text \<open>What remains of the pattern is still checked before the answer is false.\<close>

function check_rest :: "string \<Rightarrow> bool option" where
  "check_rest pat =
     (if pat = [] then Some False
      else
        (let (star, chunk, rest) = scanChunk pat
         in (case matchChunk False chunk [] of None \<Rightarrow> None | Some _ \<Rightarrow> check_rest rest)))"
  by pat_completeness auto
termination
  by (relation "measure length") (auto dest: scanChunk_shorter [OF _ sym])

function Match :: "string \<Rightarrow> string \<Rightarrow> bool option" where
  "Match pat name =
     (if pat = [] then Some (name = [])
      else
        (let (star, chunk, rest) = scanChunk pat
         in if star \<and> chunk = [] then Some (CHR ''/'' \<notin> set name)
            else
              (case matchChunk False chunk name of
                 None \<Rightarrow> None
               | Some (t, ok) \<Rightarrow>
                   if ok \<and> (t = [] \<or> rest \<noteq> []) then Match rest t
                   else if star
                     then (case skip_match chunk (rest = []) name of
                             None \<Rightarrow> None
                           | Some (Some t') \<Rightarrow> Match rest t'
                           | Some None \<Rightarrow> check_rest rest)
                   else check_rest rest)))"
  by pat_completeness auto
termination
  by (relation "measure (\<lambda>(pat, name). length pat)") (auto dest: scanChunk_shorter [OF _ sym])

declare check_rest.simps [simp del] Match.simps [simp del]

subsection \<open>Glob patterns (glob.go)\<close>

definition GlobValidate :: "string list \<Rightarrow> bool" where
  "GlobValidate patterns = list_all (\<lambda>p. Match p [] \<noteq> None) patterns"

definition GlobMatch :: "string \<Rightarrow> string list \<Rightarrow> bool" where
  "GlobMatch s patterns = list_ex (\<lambda>p. Match p s = Some True) patterns"

text \<open>Patterns without a special character match only themselves, and a star any segment.\<close>

definition literal :: "string \<Rightarrow> bool" where
  "literal p \<longleftrightarrow> set p \<inter> {CHR ''*'', CHR ''?'', CHR ''['', CHR '']'', backslash} = {}"

lemma scan_body_literal: "literal p \<Longrightarrow> scan_body False p = (p, [])"
  by (induction p) (auto simp: literal_def)

lemma matchChunk_failed: "literal p \<Longrightarrow> matchChunk True p s = Some ([], False)"
  by (induction p arbitrary: s) (subst matchChunk.simps; auto simp: literal_def Let_def)+

lemma matchChunk_literal:
  "literal p \<Longrightarrow> matchChunk False p s =
     Some (if take (length p) s = p then (drop (length p) s, True) else ([], False))"
proof (induction p arbitrary: s)
  case Nil
  then show ?case by (subst matchChunk.simps) simp
next
  case (Cons c p)
  then have "literal p" "c \<notin> {CHR ''*'', CHR ''?'', CHR ''['', CHR '']'', backslash}"
    by (auto simp: literal_def)
  with Cons.IH [of "tl s"] show ?case
    by (subst matchChunk.simps) (cases s; cases "c = hd s"; auto simp: matchChunk_failed Let_def)
qed

lemma Match_Nil [simp]: "Match [] s = Some (s = [])"
  by (subst Match.simps) simp

lemma check_rest_Nil [simp]: "check_rest [] = Some False"
  by (subst check_rest.simps) simp

lemma Match_literal:
  assumes "literal p" "p \<noteq> []"
  shows "Match p s = Some (s = p)"
proof -
  have "hd p \<noteq> CHR ''*''" using assms by (cases p) (auto simp: literal_def)
  then have "dropWhile (\<lambda>c. c = CHR ''*'') p = p" by (cases p) auto
  then have "scanChunk p = (False, p, [])"
    using \<open>hd p \<noteq> CHR ''*''\<close> assms by (simp add: scanChunk_def scan_body_literal)
  then show ?thesis
    using assms by (subst Match.simps) (auto simp: matchChunk_literal)
qed

lemma GlobMatch_literal: "literal p \<Longrightarrow> GlobMatch s [p] \<longleftrightarrow> s = p"
  by (cases "p = []") (auto simp: GlobMatch_def Match_literal)

lemma GlobMatch_star: "GlobMatch s [''*''] \<longleftrightarrow> CHR ''/'' \<notin> set s"
  by (simp add: GlobMatch_def Match.simps scanChunk_def)

lemma GlobMatch_append: "GlobMatch s (ps @ qs) \<longleftrightarrow> GlobMatch s ps \<or> GlobMatch s qs"
  by (simp add: GlobMatch_def)

subsection \<open>String sets (stringset.go)\<close>

text \<open>A set is the list of the keys of its map, in the order of an iteration; nil is \<open>None\<close>.\<close>

type_synonym StringSet = "string list"

definition set_insert :: "StringSet \<Rightarrow> string \<Rightarrow> StringSet" where
  "set_insert m s = (if s \<in> set m then m else m @ [s])"

definition NewStringSet :: "string list \<Rightarrow> StringSet" where
  "NewStringSet items = foldl set_insert [] items"

definition StringSet_Add :: "StringSet \<Rightarrow> string list \<Rightarrow> StringSet" where
  "StringSet_Add ss items = foldl (\<lambda>m s. if s = [] then m else set_insert m s) ss items"

definition StringSet_Has :: "StringSet option \<Rightarrow> string \<Rightarrow> bool" where
  "StringSet_Has ss s = (case ss of None \<Rightarrow> False | Some m \<Rightarrow> s \<in> set m)"

definition StringSet_Delete :: "StringSet \<Rightarrow> string \<Rightarrow> StringSet" where
  "StringSet_Delete ss s = filter (\<lambda>k. k \<noteq> s) ss"

definition StringSet_Len :: "StringSet option \<Rightarrow> nat" where
  "StringSet_Len ss = (case ss of None \<Rightarrow> 0 | Some m \<Rightarrow> length m)"

definition StringSet_Items :: "StringSet option \<Rightarrow> string list" where
  "StringSet_Items ss = (case ss of None \<Rightarrow> [] | Some m \<Rightarrow> sort_Strings m)"

definition StringSet_GetFirst :: "StringSet option \<Rightarrow> string" where
  "StringSet_GetFirst ss = (if StringSet_Len ss = 0 then [] else hd (StringSet_Items ss))"

definition StringSet_UnmarshalJSON :: "StringSet \<Rightarrow> string list \<Rightarrow> StringSet" where
  "StringSet_UnmarshalJSON ss items = StringSet_Add ss items"

lemma set_set_insert [simp]: "set (set_insert m s) = insert s (set m)"
  by (auto simp: set_insert_def)

lemma distinct_set_insert [simp]: "distinct (set_insert m s) \<longleftrightarrow> distinct m"
  by (auto simp: set_insert_def)

lemma set_StringSet_Add [simp]: "set (StringSet_Add ss items) = set ss \<union> (set items - {[]})"
  unfolding StringSet_Add_def by (induction items arbitrary: ss) auto

lemma distinct_StringSet_Add [simp]: "distinct (StringSet_Add ss items) \<longleftrightarrow> distinct ss"
  unfolding StringSet_Add_def by (induction items arbitrary: ss) auto

subsection \<open>Strings (strings.go, format.go, utils.go)\<close>

definition LastPart :: "string \<Rightarrow> char \<Rightarrow> string" where
  "LastPart s sep = last (strings_Split s sep)"

definition RuneStart :: "char \<Rightarrow> bool" where
  "RuneStart c = (of_char c < (128::nat) \<or> of_char c \<ge> (192::nat))"

fun back_to_rune :: "string \<Rightarrow> nat \<Rightarrow> nat" where
  "back_to_rune s 0 = 0"
| "back_to_rune s (Suc n) = (if \<not> RuneStart (s ! Suc n) then back_to_rune s n else Suc n)"

definition TruncateUtf8 :: "string \<Rightarrow> nat \<Rightarrow> string" where
  "TruncateUtf8 s maxLength =
     (if length s \<le> maxLength then s
      else (let n = back_to_rune s maxLength in if n = 0 then [] else take n s @ ''...''))"

text \<open>\<^verbatim>\<open>Truncate\<close> counts runes; the mark it appends is the ellipsis in UTF-8.\<close>

definition Truncate :: "string \<Rightarrow> nat \<Rightarrow> string" where
  "Truncate s maxLen = (if length s \<le> maxLen then s else take maxLen s @ [CHR 0xE2, CHR 0x80, CHR 0xA6])"

text \<open>\<^verbatim>\<open>regexp.QuoteMeta\<close> of the standard library.\<close>

definition QuoteMeta :: "string \<Rightarrow> string" where
  "QuoteMeta s = concat (map (\<lambda>c. if c \<in> set (backslash # ''.+*?()|[]{}^$'') then [backslash, c] else [c]) s)"

end
