(* ===== verification/Applications.thy ===== *)
theory Applications
  imports Utils
begin

text \<open>
  Identities of the package \<^verbatim>\<open>model\<close>: application ids (\<^verbatim>\<open>application_id.go\<close>), statuses
  (\<^verbatim>\<open>status.go\<close>), log severities (\<^verbatim>\<open>severity.go\<close>) and application categories
  (\<^verbatim>\<open>application_category.go\<close>). \<^verbatim>\<open>ApplicationKind\<close> and \<^verbatim>\<open>ApplicationCategory\<close> are named
  string types, so strings here.
\<close>

subsection \<open>Application ids (application_id.go, kubernetes.go)\<close>

type_synonym ApplicationKind = string
type_synonym ApplicationCategory = string

definition ApplicationKindDeployment :: ApplicationKind where "ApplicationKindDeployment = ''Deployment''"
definition ApplicationKindCronJob :: ApplicationKind where "ApplicationKindCronJob = ''CronJob''"
definition ApplicationKindJob :: ApplicationKind where "ApplicationKindJob = ''Job''"
definition ApplicationKindReplicaSet :: ApplicationKind where "ApplicationKindReplicaSet = ''ReplicaSet''"
definition ApplicationKindPod :: ApplicationKind where "ApplicationKindPod = ''Pod''"
definition ApplicationKindExternalService :: ApplicationKind where
  "ApplicationKindExternalService = ''ExternalService''"
definition ClusterIdExternal :: string where "ClusterIdExternal = ''external''"

lemmas kind_defs = ApplicationKindDeployment_def ApplicationKindCronJob_def ApplicationKindJob_def
  ApplicationKindReplicaSet_def ApplicationKindPod_def ApplicationKindExternalService_def

record ApplicationId =
  ClusterId :: string
  Namespace :: string
  Kind :: ApplicationKind
  Name :: string

definition ApplicationIdZero :: ApplicationId where
  "ApplicationIdZero = \<lparr>ClusterId = [], Namespace = [], Kind = [], Name = []\<rparr>"

definition hexPattern :: "string \<Rightarrow> bool" where
  "hexPattern s \<longleftrightarrow> s \<noteq> [] \<and>
     list_all (\<lambda>c. is_digit c \<or> (97 \<le> (of_char c :: nat) \<and> (of_char c :: nat) \<le> 102)) s"

definition NewApplicationId :: "string \<Rightarrow> string \<Rightarrow> ApplicationKind \<Rightarrow> string \<Rightarrow> ApplicationId" where
  "NewApplicationId clusterId ns kind name =
     (let parts = strings_Split name CHR ''-'';
          (kind', name') =
            (if kind = ApplicationKindReplicaSet
             then (if hexPattern (last parts)
                   then (ApplicationKindDeployment, strings_Join (butlast parts) ''-'')
                   else (kind, name))
             else if kind = ApplicationKindJob
             then (if ParseUint (last parts) \<noteq> None
                   then (ApplicationKindCronJob, strings_Join (butlast parts) ''-'')
                   else (kind, name))
             else if kind = [] \<or> kind = ''<none>'' then (ApplicationKindPod, name)
             else (kind, name))
      in \<lparr>ClusterId = (if clusterId = [] then ''_'' else clusterId),
          Namespace = (if ns = [] then ''_'' else ns), Kind = kind', Name = name'\<rparr>)"

text \<open>\<open>None\<close> is the error for an invalid application id.\<close>

definition NewApplicationIdFromString :: "string \<Rightarrow> string \<Rightarrow> ApplicationId option" where
  "NewApplicationIdFromString src fallbackClusterId =
     (let finish = (\<lambda>i.
            let i1 = (if ClusterId i = [] then i\<lparr>ClusterId := fallbackClusterId\<rparr> else i)
            in if Kind i1 = ApplicationKindExternalService then i1\<lparr>ClusterId := ClusterIdExternal\<rparr> else i1)
      in case strings_SplitN src CHR '':'' 4 of
           [p0, p1, p2] \<Rightarrow> Some (finish \<lparr>ClusterId = [], Namespace = p0, Kind = p1, Name = p2\<rparr>)
         | [p0, p1, p2, p3] \<Rightarrow>
             Some (finish
               (if p0 = ''external'' \<and> p1 \<noteq> ''external''
                then \<lparr>ClusterId = [], Namespace = p0, Kind = p1, Name = p2 @ '':'' @ p3\<rparr>
                else \<lparr>ClusterId = p0, Namespace = p1, Kind = p2, Name = p3\<rparr>))
         | _ \<Rightarrow> None)"

definition NamespaceIsEmpty :: "ApplicationId \<Rightarrow> bool" where
  "NamespaceIsEmpty a \<longleftrightarrow> Namespace a = [] \<or> Namespace a = ''_''"

definition ApplicationId_IsZero :: "ApplicationId \<Rightarrow> bool" where
  "ApplicationId_IsZero a \<longleftrightarrow> a = ApplicationIdZero"

definition ApplicationId_String :: "ApplicationId \<Rightarrow> string" where
  "ApplicationId_String a = ClusterId a @ '':'' @ Namespace a @ '':'' @ Kind a @ '':'' @ Name a"

definition StringWithoutClusterId :: "ApplicationId \<Rightarrow> string" where
  "StringWithoutClusterId a = Namespace a @ '':'' @ Kind a @ '':'' @ Name a"

definition ApplicationId_MarshalText :: "ApplicationId \<Rightarrow> string" where
  "ApplicationId_MarshalText a = ApplicationId_String a"

definition ApplicationId_UnmarshalText :: "string \<Rightarrow> ApplicationId option" where
  "ApplicationId_UnmarshalText text = NewApplicationIdFromString text []"

text \<open>The SQL driver's view: a null column is the zero id.\<close>

definition ApplicationId_Value :: "ApplicationId \<Rightarrow> string" where
  "ApplicationId_Value a = ApplicationId_String a"

definition ApplicationId_Scan :: "string option \<Rightarrow> ApplicationId option" where
  "ApplicationId_Scan src = (case src of None \<Rightarrow> Some ApplicationIdZero
     | Some s \<Rightarrow> NewApplicationIdFromString s [])"

text \<open>
  Ids that survive being written and read back: the separator occurs only in the name, the cluster
  is known, an external service lives in the external cluster, and the external cluster holds only
  the external namespace.
\<close>

definition storable_id :: "ApplicationId \<Rightarrow> bool" where
  "storable_id a \<longleftrightarrow>
     CHR '':'' \<notin> set (ClusterId a) \<and> CHR '':'' \<notin> set (Namespace a) \<and> CHR '':'' \<notin> set (Kind a) \<and>
     ClusterId a \<noteq> [] \<and>
     (Kind a = ApplicationKindExternalService \<longrightarrow> ClusterId a = ClusterIdExternal) \<and>
     (ClusterId a = ClusterIdExternal \<longrightarrow> Namespace a = ''external'')"

lemma SplitN_ApplicationId_String:
  assumes "CHR '':'' \<notin> set (ClusterId a)" "CHR '':'' \<notin> set (Namespace a)" "CHR '':'' \<notin> set (Kind a)"
  shows "strings_SplitN (ApplicationId_String a) CHR '':'' 4 = [ClusterId a, Namespace a, Kind a, Name a]"
  using assms by (simp add: ApplicationId_String_def strings_SplitN_append numeral_eq_Suc
      del: strings_SplitN.simps(3))

lemma parse_storable_id: "storable_id a \<Longrightarrow> NewApplicationIdFromString (ApplicationId_String a) fb = Some a"
  by (auto simp: storable_id_def NewApplicationIdFromString_def SplitN_ApplicationId_String Let_def
      ClusterIdExternal_def)

lemma Scan_Value [row_simps]: "storable_id a \<Longrightarrow> ApplicationId_Scan (Some (ApplicationId_Value a)) = Some a"
  by (simp add: ApplicationId_Scan_def ApplicationId_Value_def parse_storable_id)

subsection \<open>Statuses (status.go)\<close>

datatype Status = UNKNOWN | OK | INFO | WARNING | CRITICAL

fun status_rank :: "Status \<Rightarrow> nat" where
  "status_rank UNKNOWN = 0"
| "status_rank OK = 1"
| "status_rank INFO = 2"
| "status_rank WARNING = 3"
| "status_rank CRITICAL = 4"

lemma status_rank_inject [simp]: "status_rank a = status_rank b \<longleftrightarrow> a = b"
  by (cases a; cases b) auto

instantiation Status :: linorder
begin

definition less_eq_Status :: "Status \<Rightarrow> Status \<Rightarrow> bool" where
  "less_eq_Status a b \<longleftrightarrow> status_rank a \<le> status_rank b"

definition less_Status :: "Status \<Rightarrow> Status \<Rightarrow> bool" where
  "less_Status a b \<longleftrightarrow> status_rank a < status_rank b"

instance
  by standard (auto simp: less_eq_Status_def less_Status_def intro: status_rank_inject [THEN iffD1])

end

fun Status_String :: "Status \<Rightarrow> string" where
  "Status_String OK = ''ok''"
| "Status_String INFO = ''info''"
| "Status_String WARNING = ''warning''"
| "Status_String CRITICAL = ''critical''"
| "Status_String UNKNOWN = ''unknown''"

definition Status_UnmarshalJSON :: "string \<Rightarrow> Status" where
  "Status_UnmarshalJSON str =
     (if str = ''ok'' then OK else if str = ''info'' then INFO
      else if str = ''warning'' then WARNING else if str = ''critical'' then CRITICAL
      else UNKNOWN)"

fun Status_Color :: "Status \<Rightarrow> string" where
  "Status_Color OK = ''#23d160''"
| "Status_Color WARNING = ''#ffdd57''"
| "Status_Color CRITICAL = ''#f44034''"
| "Status_Color _ = ''#d3d3d3''"

lemma Status_json_roundtrip [simp]: "Status_UnmarshalJSON (Status_String s) = s"
  by (cases s) (simp_all add: Status_UnmarshalJSON_def)

subsection \<open>Log severities (severity.go)\<close>

type_synonym Severity = int

definition SeverityUnknown :: Severity where "SeverityUnknown = 0"
definition SeverityTrace :: Severity where "SeverityTrace = 1"
definition SeverityDebug :: Severity where "SeverityDebug = 2"
definition SeverityInfo :: Severity where "SeverityInfo = 3"
definition SeverityWarning :: Severity where "SeverityWarning = 4"
definition SeverityError :: Severity where "SeverityError = 5"
definition SeverityFatal :: Severity where "SeverityFatal = 6"

lemmas severity_defs = SeverityUnknown_def SeverityTrace_def SeverityDebug_def SeverityInfo_def
  SeverityWarning_def SeverityError_def SeverityFatal_def

definition Severity_String :: "Severity \<Rightarrow> string" where
  "Severity_String s =
     (if s = SeverityUnknown then ''unknown'' else if s = SeverityTrace then ''trace''
      else if s = SeverityDebug then ''debug'' else if s = SeverityInfo then ''info''
      else if s = SeverityWarning then ''warning'' else if s = SeverityError then ''error''
      else if s = SeverityFatal then ''fatal'' else ''severity-'' @ Itoa s)"

definition Severity_Range :: "Severity \<Rightarrow> int \<times> int" where
  "Severity_Range s =
     (if s = SeverityUnknown then (0, 0) else if s = SeverityTrace then (1, 4)
      else if s = SeverityDebug then (5, 8) else if s = SeverityInfo then (9, 12)
      else if s = SeverityWarning then (13, 16) else if s = SeverityError then (17, 20)
      else if s = SeverityFatal then (21, 24) else (s, s))"

definition SeverityFromString :: "string \<Rightarrow> Severity" where
  "SeverityFromString s =
     (if s = ''unknown'' then SeverityUnknown else if s = ''trace'' then SeverityTrace
      else if s = ''debug'' then SeverityDebug else if s = ''info'' then SeverityInfo
      else if s = ''warn'' \<or> s = ''warning'' then SeverityWarning
      else if s = ''error'' then SeverityError
      else if s = ''fatal'' \<or> s = ''critical'' then SeverityFatal
      else Atoi (TrimPrefix s ''severity-''))"

lemma Severity_roundtrip:
  assumes "- (2 ^ 63) \<le> s" "s < 2 ^ 63"
  shows "SeverityFromString (Severity_String s) = s"
proof (cases "0 \<le> s \<and> s \<le> 6")
  case True
  then have "s \<in> {0, 1, 2, 3, 4, 5, 6}" by auto
  then show ?thesis by (auto simp: Severity_String_def SeverityFromString_def severity_defs)
next
  case False
  then have "Severity_String s = ''severity-'' @ Itoa s"
    by (auto simp: Severity_String_def severity_defs)
  moreover have "TrimPrefix (''severity-'' @ Itoa s) ''severity-'' = Itoa s"
    by (simp add: TrimPrefix_def has_prefix_def)
  ultimately show ?thesis using assms by (simp add: SeverityFromString_def Atoi_Itoa)
qed

subsection \<open>Categories (application_category.go)\<close>

definition ApplicationCategoryApplication :: ApplicationCategory where
  "ApplicationCategoryApplication = ''application''"
definition ApplicationCategoryControlPlane :: ApplicationCategory where
  "ApplicationCategoryControlPlane = ''control-plane''"
definition ApplicationCategoryMonitoring :: ApplicationCategory where
  "ApplicationCategoryMonitoring = ''monitoring''"

lemmas category_defs = ApplicationCategoryApplication_def ApplicationCategoryControlPlane_def
  ApplicationCategoryMonitoring_def

definition BuiltinCategoryPatterns :: "(ApplicationCategory \<times> string list) list" where
  "BuiltinCategoryPatterns =
     [(ApplicationCategoryApplication, []),
      (ApplicationCategoryControlPlane,
        [''kube-system/*'', ''*/kubelet'', ''*/kube-apiserver'', ''*/k3s'', ''*/k3s-agent'',
         ''*/systemd*'', ''*/containerd'', ''*/docker*'', ''*/*chaos-*'', ''istio*/*'',
         ''amazon-cloudwatch/*'', ''karpenter/*'', ''cert-manager/*'', ''argocd/*'',
         ''flux-system/*'', ''linkerd/*'', ''vault/*'', ''keda/*'', ''keycloak/*'',
         ''longhorn-system/*'', ''calico*/*'', ''_/esm-cache'', ''_/*motd*'', ''_/*apt*'',
         ''_/*fwupd*'', ''_/snap*'', ''keptn-system/*'', ''kyverno/*'', ''litmus/*'',
         ''openshift*/*'', ''_/crio*'', ''*/coredns'', ''chaos-mesh/*'', ''cilium/*'',
         ''external-dns/*'', ''gpu-operator/*'']),
      (ApplicationCategoryMonitoring,
        [''monitoring/*'', ''prometheus/*'', ''*/*prometheus*'', ''grafana/*'', ''*/*grafana*'',
         ''*/*alertmanager*'', ''coroot/*'', ''*/*coroot*'', ''metrics-server/*'', ''loki/*'',
         ''observability/*'', ''jaeger/*'', ''thanos/*'', ''sentry/*'', ''*/*victoria-metrics*'',
         ''*/*victoria-logs*'', ''*/*vminsert*'', ''*/*vmselect*'', ''*/*vmstorage*'',
         ''*/*vmagent*'', ''*/*vmalert*'', ''*/*vmauth*'', ''datadog/*'', ''*/*datadog*''])]"

definition Category_Default :: "ApplicationCategory \<Rightarrow> bool" where
  "Category_Default c \<longleftrightarrow> c = ApplicationCategoryApplication"

definition Category_Builtin :: "ApplicationCategory \<Rightarrow> bool" where
  "Category_Builtin c \<longleftrightarrow> map_of BuiltinCategoryPatterns c \<noteq> None"

definition Category_Monitoring :: "ApplicationCategory \<Rightarrow> bool" where
  "Category_Monitoring c \<longleftrightarrow> c = ApplicationCategoryMonitoring"

definition Category_ControlPlane :: "ApplicationCategory \<Rightarrow> bool" where
  "Category_ControlPlane c \<longleftrightarrow> c = ApplicationCategoryControlPlane"

definition Category_Auxiliary :: "ApplicationCategory \<Rightarrow> bool" where
  "Category_Auxiliary c \<longleftrightarrow> Category_Monitoring c \<or> Category_ControlPlane c"

lemma Category_Builtin_iff:
  "Category_Builtin c \<longleftrightarrow> Category_Default c \<or> Category_Auxiliary c"
  by (auto simp: Category_Builtin_def BuiltinCategoryPatterns_def Category_Default_def
      Category_Auxiliary_def Category_Monitoring_def Category_ControlPlane_def)

subsection \<open>Properties\<close>

text \<open>
  C39. An application id written with \<^verbatim>\<open>String\<close> (as JSON, and as a column of the database) is read
  back unchanged by \<^verbatim>\<open>NewApplicationIdFromString\<close>, whatever the fallback cluster, as long as the
  separator occurs only in its name, its cluster is known, and external services and the external
  namespace are in the external cluster.
\<close>

theorem ApplicationId_roundtrip:
  assumes "storable_id a"
  shows "NewApplicationIdFromString (ApplicationId_String a) fallback = Some a \<and>
    ApplicationId_Scan (Some (ApplicationId_Value a)) = Some a"
  using assms by (simp add: parse_storable_id Scan_Value)

theorem ApplicationId_roundtrip_witness:
  "NewApplicationIdFromString ''external:external:ExternalService:external:30001'' ''fallback'' =
     Some \<lparr>ClusterId = ''external'', Namespace = ''external'', Kind = ''ExternalService'', Name = ''external:30001''\<rparr>"
  using ApplicationId_roundtrip [of "\<lparr>ClusterId = ''external'', Namespace = ''external'',
     Kind = ''ExternalService'', Name = ''external:30001''\<rparr>" "''fallback''"]
  by (simp add: storable_id_def ApplicationId_String_def kind_defs ClusterIdExternal_def)

end
