(* ===== verification/Rbac.thy ===== *)
theory Rbac
  imports Applications
begin

text \<open>
  The package \<^verbatim>\<open>rbac\<close> and its use in \<^verbatim>\<open>api/auth.go\<close>: actions on scopes and objects,
  permissions with glob patterns, roles, and the check \<^verbatim>\<open>IsAllowed\<close> of a user. Scopes, verbs and
  role names are named string types. An \<^verbatim>\<open>Object\<close> is a Go map from attribute names to values, here
  the list of its entries in the order of an iteration; a nil object has no entry.
\<close>

subsection \<open>Actions (action.go)\<close>

type_synonym Verb = string
type_synonym Scope = string
type_synonym Object = "(string \<times> string) list"

definition ActionAll :: Verb where "ActionAll = ''*''"
definition ActionView :: Verb where "ActionView = ''view''"
definition ActionEdit :: Verb where "ActionEdit = ''edit''"

lemmas verb_defs = ActionAll_def ActionView_def ActionEdit_def

definition ScopeAll :: Scope where "ScopeAll = ''*''"
definition ScopeSettings :: Scope where "ScopeSettings = ''settings''"
definition ScopeUsers :: Scope where "ScopeUsers = ''users''"
definition ScopeRoles :: Scope where "ScopeRoles = ''roles''"
definition ScopeProjectAll :: Scope where "ScopeProjectAll = ''project.*''"
definition ScopeProjectSettings :: Scope where "ScopeProjectSettings = ''project.settings''"
definition ScopeProjectIntegrations :: Scope where "ScopeProjectIntegrations = ''project.integrations''"
definition ScopeProjectApplicationCategories :: Scope where
  "ScopeProjectApplicationCategories = ''project.application_categories''"
definition ScopeProjectCustomApplications :: Scope where
  "ScopeProjectCustomApplications = ''project.custom_applications''"
definition ScopeProjectCustomCloudPricing :: Scope where
  "ScopeProjectCustomCloudPricing = ''project.custom_cloud_pricing''"
definition ScopeProjectInspections :: Scope where "ScopeProjectInspections = ''project.inspections''"
definition ScopeProjectInstrumentations :: Scope where
  "ScopeProjectInstrumentations = ''project.instrumentations''"
definition ScopeProjectTraces :: Scope where "ScopeProjectTraces = ''project.traces''"
definition ScopeProjectLogs :: Scope where "ScopeProjectLogs = ''project.logs''"
definition ScopeProjectMetrics :: Scope where "ScopeProjectMetrics = ''project.metrics''"
definition ScopeProjectCosts :: Scope where "ScopeProjectCosts = ''project.costs''"
definition ScopeProjectAnomalies :: Scope where "ScopeProjectAnomalies = ''project.anomalies''"
definition ScopeProjectRisks :: Scope where "ScopeProjectRisks = ''project.risks''"
definition ScopeApplication :: Scope where "ScopeApplication = ''project.application''"
definition ScopeNode :: Scope where "ScopeNode = ''project.node''"
definition ScopeDashboards :: Scope where "ScopeDashboards = ''project.dashboards''"
definition ScopeDashboard :: Scope where "ScopeDashboard = ''project.dashboard''"
definition ScopeProjectAlertingRules :: Scope where "ScopeProjectAlertingRules = ''project.alerting_rules''"
definition ScopeProjectAlerts :: Scope where "ScopeProjectAlerts = ''project.alerts''"

lemmas scope_defs = ScopeAll_def ScopeSettings_def ScopeUsers_def ScopeRoles_def ScopeProjectAll_def
  ScopeProjectSettings_def ScopeProjectIntegrations_def ScopeProjectApplicationCategories_def
  ScopeProjectCustomApplications_def ScopeProjectCustomCloudPricing_def ScopeProjectInspections_def
  ScopeProjectInstrumentations_def ScopeProjectTraces_def ScopeProjectLogs_def ScopeProjectMetrics_def
  ScopeProjectCosts_def ScopeProjectAnomalies_def ScopeProjectRisks_def ScopeApplication_def
  ScopeNode_def ScopeDashboards_def ScopeDashboard_def ScopeProjectAlertingRules_def
  ScopeProjectAlerts_def

record Action =
  act_Scope :: Scope
  act_Action :: Verb
  act_Object :: Object

definition NewAction :: "Scope \<Rightarrow> Verb \<Rightarrow> Object \<Rightarrow> Action" where
  "NewAction scope action object = \<lparr>act_Scope = scope, act_Action = action, act_Object = object\<rparr>"

subsection \<open>Permissions (permission.go)\<close>

record Permission =
  perm_Scope :: Scope
  perm_Action :: Verb
  perm_Object :: Object

definition NewPermission :: "Scope \<Rightarrow> Verb \<Rightarrow> Object \<Rightarrow> Permission" where
  "NewPermission scope action object = \<lparr>perm_Scope = scope, perm_Action = action, perm_Object = object\<rparr>"

fun object_allows :: "Object \<Rightarrow> Object \<Rightarrow> bool" where
  "object_allows po [] = True"
| "object_allows po ((k, av) # ao) =
     (case map_of po k of
        None \<Rightarrow> object_allows po ao
      | Some pv \<Rightarrow>
          if pv = [] then False
          else if av = ''*'' then object_allows po ao
          else if \<not> GlobMatch av [pv] then False
          else object_allows po ao)"

definition allows :: "Permission \<Rightarrow> Action \<Rightarrow> bool" where
  "allows p action =
     (if \<not> GlobMatch (act_Scope action) [perm_Scope p] then False
      else if \<not> GlobMatch (act_Action action) [perm_Action p] then False
      else object_allows (perm_Object p) (act_Object action))"

text \<open>The restriction of a permission to the attributes of an action; \<open>None\<close> is a refusal.\<close>

fun restrict_object :: "Object \<Rightarrow> Object \<Rightarrow> Object option" where
  "restrict_object ao [] = Some []"
| "restrict_object ao ((k, pv) # po) =
     (if pv = ''*'' then restrict_object ao po
      else if map_of ao k \<noteq> None \<and> pv = [] then None
      else if map_of ao k \<noteq> None then map_option (Cons (k, pv)) (restrict_object ao po)
      else restrict_object ao po)"

definition allowsForObject :: "Permission \<Rightarrow> Action \<Rightarrow> bool \<times> Object option" where
  "allowsForObject p action =
     (if \<not> GlobMatch (act_Scope action) [perm_Scope p] then (False, None)
      else if \<not> GlobMatch (act_Action action) [perm_Action p] then (False, None)
      else
        (case restrict_object (act_Object action) (perm_Object p) of
           None \<Rightarrow> (False, None)
         | Some object \<Rightarrow> (True, if length object = 0 then None else Some object)))"

type_synonym PermissionSet = "Permission list"

definition Allows :: "PermissionSet \<Rightarrow> Action \<Rightarrow> bool" where
  "Allows ps action = list_ex (\<lambda>p. allows p action) ps"

text \<open>\<open>None\<close> is the nil slice (nothing is allowed), \<open>Some []\<close> an empty one (everything is).\<close>

fun allows_for_objects :: "Action \<Rightarrow> Object list option \<Rightarrow> PermissionSet \<Rightarrow> Object list option" where
  "allows_for_objects action objects [] = objects"
| "allows_for_objects action objects (p # ps) =
     (case allowsForObject p action of
        (False, _) \<Rightarrow> allows_for_objects action objects ps
      | (True, None) \<Rightarrow> Some []
      | (True, Some obj) \<Rightarrow>
          allows_for_objects action (Some ((case objects of None \<Rightarrow> [] | Some os \<Rightarrow> os) @ [obj])) ps)"

definition AllowsForObjects :: "PermissionSet \<Rightarrow> Action \<Rightarrow> Object list option" where
  "AllowsForObjects ps action = allows_for_objects action None ps"

subsection \<open>Roles (role.go)\<close>

type_synonym RoleName = string

definition RoleAdmin :: RoleName where "RoleAdmin = ''Admin''"
definition RoleEditor :: RoleName where "RoleEditor = ''Editor''"
definition RoleViewer :: RoleName where "RoleViewer = ''Viewer''"

lemmas role_defs = RoleAdmin_def RoleEditor_def RoleViewer_def

record Role =
  role_Name :: RoleName
  role_Permissions :: PermissionSet

definition NewRole :: "RoleName \<Rightarrow> PermissionSet \<Rightarrow> Role" where
  "NewRole name permissions = \<lparr>role_Name = name, role_Permissions = permissions\<rparr>"

definition Roles :: "Role list" where
  "Roles =
     [NewRole RoleAdmin [NewPermission ScopeAll ActionAll []],
      NewRole RoleEditor
        [NewPermission ScopeAll ActionView [],
         NewPermission ScopeProjectApplicationCategories ActionEdit [],
         NewPermission ScopeProjectCustomApplications ActionEdit [],
         NewPermission ScopeProjectCustomCloudPricing ActionEdit [],
         NewPermission ScopeProjectInspections ActionEdit [],
         NewPermission ScopeProjectRisks ActionEdit [],
         NewPermission ScopeDashboards ActionEdit [],
         NewPermission ScopeProjectAlertingRules ActionEdit [],
         NewPermission ScopeProjectAlerts ActionEdit []],
      NewRole RoleViewer [NewPermission ScopeAll ActionView []]]"

definition RoleName_Valid :: "RoleName \<Rightarrow> Role list \<Rightarrow> bool" where
  "RoleName_Valid r roles = list_ex (\<lambda>role. role_Name role = r) roles"

definition RoleName_Builtin :: "RoleName \<Rightarrow> bool" where
  "RoleName_Builtin r = RoleName_Valid r Roles"

text \<open>
  \<^verbatim>\<open>RoleManager.GetRoles\<close> may fail; \<^verbatim>\<open>StaticRoleManager\<close> answers the built-in roles.
\<close>

definition StaticRoleManager_GetRoles :: "string + Role list" where
  "StaticRoleManager_GetRoles = Inr Roles"

subsection \<open>The actions of the API (actions.go)\<close>

definition Settings_Edit :: Action where "Settings_Edit = NewAction ScopeSettings ActionEdit []"
definition Users_Edit :: Action where "Users_Edit = NewAction ScopeUsers ActionEdit []"
definition Roles_Edit :: Action where "Roles_Edit = NewAction ScopeRoles ActionEdit []"

definition project_object :: "string \<Rightarrow> Object" where
  "project_object i = [(''project_id'', i)]"

text \<open>\<^verbatim>\<open>ProjectViewAction\<close>, \<^verbatim>\<open>ProjectEditAction\<close> and \<^verbatim>\<open>ProjectAction\<close> of a project and a scope.\<close>

definition ProjectAction_View :: "string \<Rightarrow> Scope \<Rightarrow> Action" where
  "ProjectAction_View i scope = NewAction scope ActionView (project_object i)"

definition ProjectAction_Edit :: "string \<Rightarrow> Scope \<Rightarrow> Action" where
  "ProjectAction_Edit i scope = NewAction scope ActionEdit (project_object i)"

definition application_object :: "string \<Rightarrow> ApplicationCategory \<Rightarrow> string \<Rightarrow> ApplicationKind \<Rightarrow> string \<Rightarrow> Object" where
  "application_object i category ns kind name =
     project_object i @ [(''application_category'', category), (''application_namespace'', ns),
       (''application_kind'', kind), (''application_name'', name)]"

definition Application_View :: "string \<Rightarrow> ApplicationCategory \<Rightarrow> string \<Rightarrow> ApplicationKind \<Rightarrow> string \<Rightarrow> Action" where
  "Application_View i category ns kind name =
     NewAction ScopeApplication ActionView (application_object i category ns kind name)"

definition Node_View :: "string \<Rightarrow> string \<Rightarrow> Action" where
  "Node_View i name = NewAction ScopeNode ActionView (project_object i @ [(''node_name'', name)])"

definition Dashboard_View :: "string \<Rightarrow> string \<Rightarrow> Action" where
  "Dashboard_View i name = NewAction ScopeDashboard ActionView (project_object i @ [(''dashboard_name'', name)])"

definition Project_List :: "string \<Rightarrow> Action list" where
  "Project_List i =
     [ProjectAction_Edit i ScopeProjectSettings,
      ProjectAction_Edit i ScopeProjectIntegrations,
      ProjectAction_Edit i ScopeProjectApplicationCategories,
      ProjectAction_Edit i ScopeProjectCustomApplications,
      ProjectAction_Edit i ScopeProjectCustomCloudPricing,
      ProjectAction_Edit i ScopeProjectInspections,
      ProjectAction_Edit i ScopeProjectInstrumentations,
      ProjectAction_View i ScopeProjectTraces,
      ProjectAction_View i ScopeProjectLogs,
      ProjectAction_View i ScopeProjectCosts,
      ProjectAction_View i ScopeProjectAnomalies,
      ProjectAction_View i ScopeProjectRisks,
      ProjectAction_Edit i ScopeProjectRisks,
      Application_View i ''*'' ''*'' ''*'' ''*'',
      Node_View i ''*'',
      ProjectAction_Edit i ScopeDashboards,
      Dashboard_View i ''*'',
      ProjectAction_View i ScopeProjectAlertingRules,
      ProjectAction_Edit i ScopeProjectAlertingRules,
      ProjectAction_View i ScopeProjectAlerts,
      ProjectAction_Edit i ScopeProjectAlerts]"

definition ActionSet_List :: "Action list" where
  "ActionSet_List = [Settings_Edit, Users_Edit, Roles_Edit] @ Project_List []"

subsection \<open>The check of a user (api/auth.go)\<close>

definition IsAllowed :: "(string + Role list) \<Rightarrow> RoleName list \<Rightarrow> Action list \<Rightarrow> bool" where
  "IsAllowed getRoles userRoles actions =
     (case getRoles of
        Inl err \<Rightarrow> False
      | Inr roles \<Rightarrow>
          list_ex (\<lambda>rn. list_ex (\<lambda>r. role_Name r = rn \<and>
                      list_ex (\<lambda>action. Allows (role_Permissions r) action) actions) roles) userRoles)"

subsection \<open>Lemmas\<close>

lemma object_allows_nil [simp]: "object_allows [] ao"
  by (induction ao) auto

lemma object_allows_iff:
  "object_allows po ao \<longleftrightarrow>
     (\<forall>(k, av)\<in>set ao. \<forall>pv. map_of po k = Some pv \<longrightarrow> pv \<noteq> [] \<and> (av = ''*'' \<or> GlobMatch av [pv]))"
  by (induction po ao rule: object_allows.induct) (auto split: option.splits)

lemma allows_NewPermission:
  "literal s \<Longrightarrow> literal v \<Longrightarrow>
   allows (NewPermission s v []) a \<longleftrightarrow> act_Scope a = s \<and> act_Action a = v"
  by (simp add: allows_def NewPermission_def GlobMatch_literal)

lemma allows_ScopeAll:
  "literal v \<Longrightarrow>
   allows (NewPermission ScopeAll v []) a \<longleftrightarrow> CHR ''/'' \<notin> set (act_Scope a) \<and> act_Action a = v"
  by (simp add: allows_def NewPermission_def ScopeAll_def GlobMatch_literal GlobMatch_star)

lemma literal_scopes:
  "literal ActionView" "literal ActionEdit" "literal ScopeProjectApplicationCategories"
  "literal ScopeProjectCustomApplications" "literal ScopeProjectCustomCloudPricing"
  "literal ScopeProjectInspections" "literal ScopeProjectRisks" "literal ScopeDashboards"
  "literal ScopeProjectAlertingRules" "literal ScopeProjectAlerts"
  by (simp_all add: literal_def verb_defs scope_defs)

lemmas allows_simps = allows_NewPermission allows_ScopeAll literal_scopes

definition editor_scopes :: "Scope list" where
  "editor_scopes = [ScopeProjectApplicationCategories, ScopeProjectCustomApplications,
     ScopeProjectCustomCloudPricing, ScopeProjectInspections, ScopeProjectRisks, ScopeDashboards,
     ScopeProjectAlertingRules, ScopeProjectAlerts]"

lemma IsAllowed_builtin:
  "IsAllowed StaticRoleManager_GetRoles [rn] [a] \<longleftrightarrow>
     (rn = RoleAdmin \<and> CHR ''/'' \<notin> set (act_Scope a) \<and> CHR ''/'' \<notin> set (act_Action a)) \<or>
     (rn = RoleEditor \<and> (act_Action a = ActionView \<and> CHR ''/'' \<notin> set (act_Scope a)
        \<or> act_Action a = ActionEdit \<and> act_Scope a \<in> set editor_scopes)) \<or>
     (rn = RoleViewer \<and> act_Action a = ActionView \<and> CHR ''/'' \<notin> set (act_Scope a))"
proof -
  have "allows (NewPermission ScopeAll ActionAll []) a \<longleftrightarrow>
      CHR ''/'' \<notin> set (act_Scope a) \<and> CHR ''/'' \<notin> set (act_Action a)"
    by (simp add: allows_def NewPermission_def ScopeAll_def ActionAll_def GlobMatch_star)
  moreover have "RoleAdmin \<noteq> RoleEditor" "RoleAdmin \<noteq> RoleViewer" "RoleEditor \<noteq> RoleViewer"
    by (simp_all add: role_defs)
  ultimately show ?thesis
    unfolding IsAllowed_def StaticRoleManager_GetRoles_def Roles_def NewRole_def Allows_def editor_scopes_def
    by (auto simp: allows_simps)
qed

lemma allows_for_objects_Some: "\<exists>objs. allows_for_objects a (Some os) ps = Some objs"
  by (induction ps arbitrary: os) (auto split: prod.splits bool.splits option.splits)

lemma allows_for_objects_None:
  "allows_for_objects a None ps = None \<longleftrightarrow> (\<forall>p\<in>set ps. \<not> fst (allowsForObject p a))"
  by (induction ps) (auto simp: allows_for_objects_Some split: prod.splits bool.splits option.splits)

lemma restrict_object_None:
  "restrict_object ao po = None \<longleftrightarrow> (\<exists>(k, pv)\<in>set po. pv = [] \<and> map_of ao k \<noteq> None)"
  by (induction ao po rule: restrict_object.induct) auto

subsection \<open>Properties\<close>

text \<open>
  What a user with one built-in role may do: an Admin everything, a Viewer exactly the view
  actions, an Editor the view actions and the edits of eight scopes (in particular no edit of
  settings, users, roles, project settings, integrations and instrumentations).
\<close>

theorem builtin_roles_allow_exactly:
  "IsAllowed StaticRoleManager_GetRoles [rn] [a] \<longleftrightarrow>
     (rn = RoleAdmin \<and> CHR ''/'' \<notin> set (act_Scope a) \<and> CHR ''/'' \<notin> set (act_Action a)) \<or>
     (rn = RoleEditor \<and> (act_Action a = ActionView \<and> CHR ''/'' \<notin> set (act_Scope a)
        \<or> act_Action a = ActionEdit \<and> act_Scope a \<in> set editor_scopes)) \<or>
     (rn = RoleViewer \<and> act_Action a = ActionView \<and> CHR ''/'' \<notin> set (act_Scope a))"
  by (rule IsAllowed_builtin)

text \<open>
  A role whose permissions allow an action on a concrete object is listed by
  \<^verbatim>\<open>AllowsForObjects\<close> too: if \<^verbatim>\<open>Allows\<close> accepts the action (whose object names each attribute
  once), the filter of objects is not nil. A permission with an empty pattern for an attribute of
  the action is refused by both.
\<close>

theorem Allows_implies_AllowsForObjects:
  assumes "Allows ps a" and "\<forall>p\<in>set ps. distinct (map fst (perm_Object p))"
  shows "AllowsForObjects ps a \<noteq> None"
proof -
  obtain p where p: "p \<in> set ps" "allows p a" using assms(1) by (auto simp: Allows_def list_ex_iff)
  have "restrict_object (act_Object a) (perm_Object p) \<noteq> None"
  proof
    assume "restrict_object (act_Object a) (perm_Object p) = None"
    then obtain k av where k: "(k, []) \<in> set (perm_Object p)" "map_of (act_Object a) k = Some av"
      by (auto simp: restrict_object_None)
    then have "map_of (perm_Object p) k = Some []" using assms(2) p(1) by (simp add: map_of_is_SomeI)
    moreover have "(k, av) \<in> set (act_Object a)" using k(2) by (rule map_of_SomeD)
    ultimately show False using p(2) by (auto simp: allows_def object_allows_iff split: if_splits)
  qed
  then have "fst (allowsForObject p a)"
    using p(2) by (auto simp: allows_def allowsForObject_def split: if_splits)
  then show ?thesis using p(1) by (auto simp: AllowsForObjects_def allows_for_objects_None)
qed

end
