(* ===== verification/Categories.thy ===== *)
theory Categories
  imports Applications
begin

text \<open>
  Projects, their integrations (\<^verbatim>\<open>db/integrations.go\<close>, \<^verbatim>\<open>db/project.go\<close>) and application
  categories (\<^verbatim>\<open>db/application_categories.go\<close>): which category an application belongs to and
  which destinations the notifications of a category go to.
\<close>

subsection \<open>Integrations (db/integrations.go)\<close>

type_synonym ProjectId = string
type_synonym IntegrationType = string

definition IntegrationTypeSlack :: IntegrationType where "IntegrationTypeSlack = ''slack''"
definition IntegrationTypePagerduty :: IntegrationType where "IntegrationTypePagerduty = ''pagerduty''"
definition IntegrationTypeTeams :: IntegrationType where "IntegrationTypeTeams = ''teams''"
definition IntegrationTypeOpsgenie :: IntegrationType where "IntegrationTypeOpsgenie = ''opsgenie''"
definition IntegrationTypeWebhook :: IntegrationType where "IntegrationTypeWebhook = ''webhook''"

lemmas integration_defs = IntegrationTypeSlack_def IntegrationTypePagerduty_def
  IntegrationTypeTeams_def IntegrationTypeOpsgenie_def IntegrationTypeWebhook_def

definition boolValue :: "bool option \<Rightarrow> bool" where
  "boolValue b \<longleftrightarrow> b = Some True"

record IntegrationSlack =
  sl_Token :: string
  sl_DefaultChannel :: string
  sl_Incidents :: bool
  sl_Deployments :: bool
  sl_Alerts :: "bool option"

record IntegrationTeamsChannel =
  tc_Name :: string
  tc_WebhookUrl :: string

record IntegrationTeams =
  te_WebhookUrl :: string
  te_Channels :: "IntegrationTeamsChannel list"
  te_DefaultChannel :: string
  te_Incidents :: bool
  te_Deployments :: bool
  te_Alerts :: "bool option"

record IntegrationPagerduty =
  pd_IntegrationKey :: string
  pd_Incidents :: bool
  pd_Alerts :: "bool option"

record IntegrationOpsgenie =
  og_ApiKey :: string
  og_EUInstance :: bool
  og_Incidents :: bool
  og_Alerts :: "bool option"

text \<open>Of a webhook, what decides whether it is used; its templates belong to the client.\<close>

record IntegrationWebhook =
  wh_Url :: string
  wh_Incidents :: bool
  wh_Deployments :: bool
  wh_Alerts :: "bool option"

record Integrations =
  in_BaseUrl :: string
  in_Slack :: "IntegrationSlack option"
  in_Teams :: "IntegrationTeams option"
  in_Pagerduty :: "IntegrationPagerduty option"
  in_Opsgenie :: "IntegrationOpsgenie option"
  in_Webhook :: "IntegrationWebhook option"

definition TeamsDefaultChannelName :: string where "TeamsDefaultChannelName = ''default''"

definition GetDefaultChannel :: "IntegrationTeams \<Rightarrow> string" where
  "GetDefaultChannel i = (if te_DefaultChannel i \<noteq> [] then te_DefaultChannel i else TeamsDefaultChannelName)"

definition GetChannels :: "IntegrationTeams \<Rightarrow> IntegrationTeamsChannel list" where
  "GetChannels i =
     (if length (te_Channels i) > 0 then te_Channels i
      else if te_WebhookUrl i \<noteq> []
        then [\<lparr>tc_Name = TeamsDefaultChannelName, tc_WebhookUrl = te_WebhookUrl i\<rparr>]
      else [])"

definition GetWebhookUrl :: "IntegrationTeams \<Rightarrow> string \<Rightarrow> string" where
  "GetWebhookUrl i channel =
     (let channel' = (if channel = [] then GetDefaultChannel i else channel)
      in case filter (\<lambda>ch. tc_Name ch = channel') (GetChannels i) of
           [] \<Rightarrow> [] | ch # _ \<Rightarrow> tc_WebhookUrl ch)"

subsection \<open>Settings of a project (db/project.go, db/application_categories.go)\<close>

text \<open>Slack and Teams settings have the same shape; of the other three only \<^verbatim>\<open>Enabled\<close>.\<close>

record ChannelSettings =
  cs_Enabled :: bool
  cs_Channel :: string

record NotificationSettings =
  ns_Enabled :: bool
  ns_Slack :: "ChannelSettings option"
  ns_Teams :: "ChannelSettings option"
  ns_Pagerduty :: "bool option"
  ns_Opsgenie :: "bool option"
  ns_Webhook :: "bool option"

record CategoryNotificationSettings =
  cn_Incidents :: NotificationSettings
  cn_Deployments :: NotificationSettings
  cn_Alerts :: NotificationSettings

record ApplicationCategorySettings =
  ac_CustomPatterns :: "string list"
  ac_NotifyOfDeployments :: bool
  ac_NotificationSettings :: CategoryNotificationSettings

record CategoryInfo =
  ci_Name :: ApplicationCategory
  ci_Builtin :: bool
  ci_Default :: bool
  ci_BuiltinPatterns :: string
  ci_CustomPatterns :: string
  ci_NotificationSettings :: CategoryNotificationSettings

text \<open>A project with the settings used here; the category settings are a Go map with nillable values.\<close>

record Project =
  p_Id :: ProjectId
  p_Name :: string
  p_CategorySettings :: "(ApplicationCategory \<times> ApplicationCategorySettings option) list"
  p_Integrations :: Integrations

definition settings_of :: "Project \<Rightarrow> ApplicationCategory \<Rightarrow> ApplicationCategorySettings option" where
  "settings_of p c = (case map_of (p_CategorySettings p) c of None \<Rightarrow> None | Some s \<Rightarrow> s)"

definition no_settings :: NotificationSettings where
  "no_settings = \<lparr>ns_Enabled = False, ns_Slack = None, ns_Teams = None, ns_Pagerduty = None,
     ns_Opsgenie = None, ns_Webhook = None\<rparr>"

definition zero_settings :: ApplicationCategorySettings where
  "zero_settings = \<lparr>ac_CustomPatterns = [], ac_NotifyOfDeployments = False,
     ac_NotificationSettings = \<lparr>cn_Incidents = no_settings, cn_Deployments = no_settings, cn_Alerts = no_settings\<rparr>\<rparr>"

definition hasEnabled :: "NotificationSettings \<Rightarrow> bool" where
  "hasEnabled s \<longleftrightarrow>
     (case ns_Slack s of None \<Rightarrow> False | Some x \<Rightarrow> cs_Enabled x) \<or>
     (case ns_Teams s of None \<Rightarrow> False | Some x \<Rightarrow> cs_Enabled x) \<or>
     ns_Pagerduty s = Some True \<or> ns_Opsgenie s = Some True \<or> ns_Webhook s = Some True"

subsection \<open>The category of an application\<close>

fun first_match :: "string \<Rightarrow> (ApplicationCategory \<times> string list) list \<Rightarrow> ApplicationCategory option" where
  "first_match i [] = None"
| "first_match i ((name, patterns) # rest) = (if GlobMatch i patterns then Some name else first_match i rest)"

definition CalcApplicationCategory :: "Project \<Rightarrow> ApplicationId \<Rightarrow> ApplicationCategory" where
  "CalcApplicationCategory p appId =
     (let i = Namespace appId @ ''/'' @ Name appId;
          custom = concat (map (\<lambda>name. case settings_of p name of
                       None \<Rightarrow> []
                     | Some s \<Rightarrow> if length (ac_CustomPatterns s) = 0 then [] else [(name, ac_CustomPatterns s)])
                     (sort_Strings (map fst (p_CategorySettings p))));
          builtin = map (\<lambda>name. (name, the (map_of BuiltinCategoryPatterns name)))
                     (sort_Strings (map fst BuiltinCategoryPatterns))
      in case first_match i custom of
           Some name \<Rightarrow> name
         | None \<Rightarrow> (case first_match i builtin of
                      Some name \<Rightarrow> name | None \<Rightarrow> ApplicationCategoryApplication))"

subsection \<open>The notification settings of a category\<close>

text \<open>
  One destination and one kind of notification. \<open>flag\<close> tells whether the integration is configured
  for the kind; \<open>v\<close> is the default that is used when the category has no settings for the
  destination.
\<close>

definition slack_step :: "bool \<Rightarrow> bool \<Rightarrow> string \<Rightarrow> NotificationSettings \<Rightarrow> NotificationSettings" where
  "slack_step flag v channel s =
     (if \<not> flag then s\<lparr>ns_Slack := None\<rparr>
      else
        (let s1 = (case ns_Slack s of
                     None \<Rightarrow> s\<lparr>ns_Enabled := v, ns_Slack := Some \<lparr>cs_Enabled = v, cs_Channel = []\<rparr>\<rparr>
                   | Some _ \<Rightarrow> s)
         in s1\<lparr>ns_Slack := map_option (\<lambda>x. if cs_Channel x = [] then x\<lparr>cs_Channel := channel\<rparr> else x)
                             (ns_Slack s1)\<rparr>))"

definition teams_step :: "bool \<Rightarrow> bool \<Rightarrow> string \<Rightarrow> NotificationSettings \<Rightarrow> NotificationSettings" where
  "teams_step flag v channel s =
     (if \<not> flag then s\<lparr>ns_Teams := None\<rparr>
      else
        (let s1 = (case ns_Teams s of
                     None \<Rightarrow> s\<lparr>ns_Enabled := v, ns_Teams := Some \<lparr>cs_Enabled = v, cs_Channel = []\<rparr>\<rparr>
                   | Some _ \<Rightarrow> s)
         in s1\<lparr>ns_Teams := map_option (\<lambda>x. if cs_Channel x = [] then x\<lparr>cs_Channel := channel\<rparr> else x)
                             (ns_Teams s1)\<rparr>))"

definition webhook_step :: "bool \<Rightarrow> bool \<Rightarrow> NotificationSettings \<Rightarrow> NotificationSettings" where
  "webhook_step flag v s =
     (if \<not> flag then s\<lparr>ns_Webhook := None\<rparr>
      else if ns_Webhook s = None then s\<lparr>ns_Enabled := v, ns_Webhook := Some v\<rparr> else s)"

text \<open>
  PagerDuty and Opsgenie. For incidents the kind is switched on whenever the integration is
  configured (\<open>force\<close>); for alerts only when the category has no settings for the destination.
\<close>

definition pagerduty_step :: "bool \<Rightarrow> bool \<Rightarrow> NotificationSettings \<Rightarrow> NotificationSettings" where
  "pagerduty_step flag force s =
     (if \<not> flag then s\<lparr>ns_Pagerduty := None\<rparr>
      else
        (let s1 = (if force then s\<lparr>ns_Enabled := True\<rparr> else s)
         in if ns_Pagerduty s1 = None then s1\<lparr>ns_Enabled := True, ns_Pagerduty := Some True\<rparr> else s1))"

definition opsgenie_step :: "bool \<Rightarrow> bool \<Rightarrow> NotificationSettings \<Rightarrow> NotificationSettings" where
  "opsgenie_step flag force s =
     (if \<not> flag then s\<lparr>ns_Opsgenie := None\<rparr>
      else
        (let s1 = (if force then s\<lparr>ns_Enabled := True\<rparr> else s)
         in if ns_Opsgenie s1 = None then s1\<lparr>ns_Enabled := True, ns_Opsgenie := Some True\<rparr> else s1))"

definition final_step :: "NotificationSettings \<Rightarrow> NotificationSettings" where
  "final_step s = (if \<not> hasEnabled s then s\<lparr>ns_Enabled := False\<rparr> else s)"

definition cfg :: "('a \<Rightarrow> bool) \<Rightarrow> 'a option \<Rightarrow> bool" where
  "cfg f i = (case i of None \<Rightarrow> False | Some x \<Rightarrow> f x)"

definition slack_channel :: "Integrations \<Rightarrow> string" where
  "slack_channel i = (case in_Slack i of None \<Rightarrow> [] | Some x \<Rightarrow> sl_DefaultChannel x)"

definition teams_channel :: "Integrations \<Rightarrow> string" where
  "teams_channel i = (case in_Teams i of None \<Rightarrow> [] | Some x \<Rightarrow> GetDefaultChannel x)"

definition incidents_settings :: "Integrations \<Rightarrow> NotificationSettings \<Rightarrow> NotificationSettings" where
  "incidents_settings i s =
     final_step
       (opsgenie_step (cfg og_Incidents (in_Opsgenie i)) True
         (pagerduty_step (cfg pd_Incidents (in_Pagerduty i)) True
           (webhook_step (cfg wh_Incidents (in_Webhook i)) True
             (teams_step (cfg te_Incidents (in_Teams i)) True (teams_channel i)
               (slack_step (cfg sl_Incidents (in_Slack i)) True (slack_channel i) s)))))"

text \<open>Deployments are not sent to PagerDuty and Opsgenie: their settings are left as they are.\<close>

definition deployments_settings :: "bool \<Rightarrow> Integrations \<Rightarrow> NotificationSettings \<Rightarrow> NotificationSettings" where
  "deployments_settings notifyOfDeployments i s =
     final_step
       (webhook_step (cfg wh_Deployments (in_Webhook i)) notifyOfDeployments
         (teams_step (cfg te_Deployments (in_Teams i)) notifyOfDeployments (teams_channel i)
           (slack_step (cfg sl_Deployments (in_Slack i)) notifyOfDeployments (slack_channel i) s)))"

definition alerts_settings :: "Integrations \<Rightarrow> NotificationSettings \<Rightarrow> NotificationSettings" where
  "alerts_settings i s =
     final_step
       (opsgenie_step (cfg (boolValue \<circ> og_Alerts) (in_Opsgenie i)) False
         (pagerduty_step (cfg (boolValue \<circ> pd_Alerts) (in_Pagerduty i)) False
           (webhook_step (cfg (boolValue \<circ> wh_Alerts) (in_Webhook i)) True
             (teams_step (cfg (boolValue \<circ> te_Alerts) (in_Teams i)) True (teams_channel i)
               (slack_step (cfg (boolValue \<circ> sl_Alerts) (in_Slack i)) True (slack_channel i) s)))))"

definition base_category :: "Project \<Rightarrow> ApplicationCategory \<Rightarrow> CategoryInfo option" where
  "base_category p c =
     (let custom = (case settings_of p c of None \<Rightarrow> [] | Some s \<Rightarrow> strings_Join (ac_CustomPatterns s) '' '')
      in case map_of BuiltinCategoryPatterns c of
           Some patterns \<Rightarrow>
             Some \<lparr>ci_Name = c, ci_Builtin = True, ci_Default = Category_Default c,
                   ci_BuiltinPatterns = strings_Join patterns '' '', ci_CustomPatterns = custom,
                   ci_NotificationSettings = ac_NotificationSettings zero_settings\<rparr>
         | None \<Rightarrow>
             if c \<in> fst ` set (p_CategorySettings p)
             then Some \<lparr>ci_Name = c, ci_Builtin = False, ci_Default = False, ci_BuiltinPatterns = [],
                        ci_CustomPatterns = custom, ci_NotificationSettings = ac_NotificationSettings zero_settings\<rparr>
             else None)"

definition GetApplicationCategories :: "Project \<Rightarrow> ApplicationCategory \<Rightarrow> CategoryInfo option" where
  "GetApplicationCategories p c =
     map_option (\<lambda>category.
       let categorySettings = (case settings_of p (ci_Name category) of None \<Rightarrow> zero_settings | Some s \<Rightarrow> s);
           ns = ac_NotificationSettings categorySettings;
           notifyOfDeployments = (ci_Default category \<or> ac_NotifyOfDeployments categorySettings);
           i = p_Integrations p
       in category\<lparr>ci_NotificationSettings :=
            \<lparr>cn_Incidents = incidents_settings i (cn_Incidents ns),
             cn_Deployments = deployments_settings notifyOfDeployments i (cn_Deployments ns),
             cn_Alerts = alerts_settings i (cn_Alerts ns)\<rparr>\<rparr>)
     (base_category p c)"

text \<open>
  The settings of the result share the pointers to the Slack and Teams settings with the project, so
  the call also fills in the default channels there: the project after the call.
\<close>

definition fill_channel :: "bool \<Rightarrow> string \<Rightarrow> ChannelSettings option \<Rightarrow> ChannelSettings option" where
  "fill_channel flag channel s =
     (if flag then map_option (\<lambda>x. if cs_Channel x = [] then x\<lparr>cs_Channel := channel\<rparr> else x) s else s)"

definition fill_channels :: "bool \<Rightarrow> bool \<Rightarrow> Integrations \<Rightarrow> NotificationSettings \<Rightarrow> NotificationSettings" where
  "fill_channels slackFlag teamsFlag i s =
     s\<lparr>ns_Slack := fill_channel slackFlag (slack_channel i) (ns_Slack s),
       ns_Teams := fill_channel teamsFlag (teams_channel i) (ns_Teams s)\<rparr>"

definition fill_category :: "Integrations \<Rightarrow> ApplicationCategorySettings \<Rightarrow> ApplicationCategorySettings" where
  "fill_category i s =
     s\<lparr>ac_NotificationSettings :=
         (let ns = ac_NotificationSettings s in
          \<lparr>cn_Incidents = fill_channels (cfg sl_Incidents (in_Slack i)) (cfg te_Incidents (in_Teams i)) i (cn_Incidents ns),
           cn_Deployments = fill_channels (cfg sl_Deployments (in_Slack i)) (cfg te_Deployments (in_Teams i)) i (cn_Deployments ns),
           cn_Alerts = fill_channels (cfg (boolValue \<circ> sl_Alerts) (in_Slack i)) (cfg (boolValue \<circ> te_Alerts) (in_Teams i)) i (cn_Alerts ns)\<rparr>)\<rparr>"

definition project_after_categories :: "Project \<Rightarrow> Project" where
  "project_after_categories p =
     p\<lparr>p_CategorySettings := map (\<lambda>(c, s). (c, map_option (fill_category (p_Integrations p)) s)) (p_CategorySettings p)\<rparr>"

subsection \<open>Lemmas\<close>

lemma first_match_mem: "first_match i ps = Some name \<Longrightarrow> name \<in> fst ` set ps"
  by (induction i ps rule: first_match.induct) (auto split: if_splits)

lemmas step_defs = slack_step_def teams_step_def webhook_step_def pagerduty_step_def
  opsgenie_step_def final_step_def

lemma settings_of_after:
  "settings_of (project_after_categories p) c = map_option (fill_category (p_Integrations p)) (settings_of p c)"
proof -
  have "map_of (map (\<lambda>(c, s). (c, map_option (fill_category (p_Integrations p)) s)) xs) c =
      map_option (map_option (fill_category (p_Integrations p))) (map_of xs c)" for xs
    by (induction xs) auto
  then show ?thesis
    by (auto simp: settings_of_def project_after_categories_def split: option.splits)
qed

lemma slack_step_fill:
  "slack_step flag v ch (fill_channels flag tf i s) = slack_step flag v ch (s\<lparr>ns_Teams := fill_channel tf (teams_channel i) (ns_Teams s)\<rparr>)"
  if "ch = slack_channel i"
  using that by (cases "ns_Slack s") (auto simp: slack_step_def fill_channels_def fill_channel_def Let_def)

lemma teams_step_fill:
  "teams_step flag v (teams_channel i) (slack_step sf v' ch (s\<lparr>ns_Teams := fill_channel flag (teams_channel i) (ns_Teams s)\<rparr>))
    = teams_step flag v (teams_channel i) (slack_step sf v' ch s)"
  by (cases "ns_Teams s"; cases "ns_Slack s") (auto simp: slack_step_def teams_step_def fill_channel_def Let_def)

lemma fill_channels_steps:
  "teams_step tf v (teams_channel i) (slack_step sf v' (slack_channel i) (fill_channels sf tf i s))
    = teams_step tf v (teams_channel i) (slack_step sf v' (slack_channel i) s)"
  by (simp add: slack_step_fill teams_step_fill)

lemma dom_after: "fst ` set (p_CategorySettings (project_after_categories p)) = fst ` set (p_CategorySettings p)"
  by (force simp: project_after_categories_def)

lemma GetApplicationCategories_after:
  "GetApplicationCategories (project_after_categories p) = GetApplicationCategories p"
proof
  fix c
  have i: "p_Integrations (project_after_categories p) = p_Integrations p"
    by (simp add: project_after_categories_def)
  have b: "base_category (project_after_categories p) c = base_category p c"
    by (auto simp: base_category_def settings_of_after dom_after fill_category_def Let_def split: option.splits)
  show "GetApplicationCategories (project_after_categories p) c = GetApplicationCategories p c"
    unfolding GetApplicationCategories_def b i
    by (cases "base_category p c"; cases "settings_of p (ci_Name (the (base_category p c)))")
       (simp_all add: settings_of_after fill_category_def incidents_settings_def deployments_settings_def
          alerts_settings_def fill_channels_steps Let_def)
qed

lemma category_of_GetApplicationCategories:
  "GetApplicationCategories p c = Some info \<Longrightarrow>
     cn_Alerts (ci_NotificationSettings info)
       = alerts_settings (p_Integrations p)
           (cn_Alerts (ac_NotificationSettings (case settings_of p c of None \<Rightarrow> zero_settings | Some s \<Rightarrow> s))) \<and>
     cn_Incidents (ci_NotificationSettings info)
       = incidents_settings (p_Integrations p)
           (cn_Incidents (ac_NotificationSettings (case settings_of p c of None \<Rightarrow> zero_settings | Some s \<Rightarrow> s)))"
  by (auto simp: GetApplicationCategories_def base_category_def Let_def split: option.splits if_splits)

text \<open>A step sets its own destination, present exactly under its flag, and keeps the others.\<close>

lemma step_own:
  "ns_Slack (slack_step flag v ch s) = None \<longleftrightarrow> \<not> flag"
  "ns_Teams (teams_step flag v ch s) = None \<longleftrightarrow> \<not> flag"
  "ns_Webhook (webhook_step flag v s) = None \<longleftrightarrow> \<not> flag"
  "ns_Pagerduty (pagerduty_step flag v s) = None \<longleftrightarrow> \<not> flag"
  "ns_Opsgenie (opsgenie_step flag v s) = None \<longleftrightarrow> \<not> flag"
  by (auto simp: step_defs Let_def split: option.splits)

lemma step_other:
  "ns_Slack (teams_step flag v ch s) = ns_Slack s" "ns_Slack (webhook_step flag v s) = ns_Slack s"
  "ns_Slack (pagerduty_step flag v s) = ns_Slack s" "ns_Slack (opsgenie_step flag v s) = ns_Slack s"
  "ns_Slack (final_step s) = ns_Slack s"
  "ns_Teams (webhook_step flag v s) = ns_Teams s" "ns_Teams (pagerduty_step flag v s) = ns_Teams s"
  "ns_Teams (opsgenie_step flag v s) = ns_Teams s" "ns_Teams (final_step s) = ns_Teams s"
  "ns_Webhook (pagerduty_step flag v s) = ns_Webhook s" "ns_Webhook (opsgenie_step flag v s) = ns_Webhook s"
  "ns_Webhook (final_step s) = ns_Webhook s"
  "ns_Pagerduty (opsgenie_step flag v s) = ns_Pagerduty s" "ns_Pagerduty (final_step s) = ns_Pagerduty s"
  "ns_Opsgenie (final_step s) = ns_Opsgenie s"
  by (auto simp: step_defs Let_def split: option.splits)

lemma final_step_Enabled: "ns_Enabled (final_step s) \<Longrightarrow> hasEnabled (final_step s)"
  by (auto simp: final_step_def hasEnabled_def split: if_splits)

subsection \<open>Properties\<close>

text \<open>
  Every application has a category that exists: the one \<^verbatim>\<open>CalcApplicationCategory\<close> computes is
  always a key of \<^verbatim>\<open>GetApplicationCategories\<close>, so a notification is never lost because its
  category is unknown.
\<close>

theorem CalcApplicationCategory_known: "GetApplicationCategories p (CalcApplicationCategory p appId) \<noteq> None"
proof -
  have b: "name \<in> fst ` set BuiltinCategoryPatterns \<Longrightarrow> base_category p name \<noteq> None" for name
    by (auto simp: base_category_def BuiltinCategoryPatterns_def category_defs Let_def)
  have s: "name \<in> fst ` set (p_CategorySettings p) \<Longrightarrow> base_category p name \<noteq> None" for name
    by (auto simp: base_category_def Let_def split: option.splits)
  have custom: "name \<in> fst ` set (p_CategorySettings p)"
    if "first_match i (concat (map (\<lambda>name. case settings_of p name of
           None \<Rightarrow> [] | Some s \<Rightarrow> if length (ac_CustomPatterns s) = 0 then [] else [(name, ac_CustomPatterns s)])
           (sort_Strings (map fst (p_CategorySettings p))))) = Some name" for i name
    using first_match_mem [OF that] by (force split: option.splits if_splits)
  have builtin: "name \<in> fst ` set BuiltinCategoryPatterns"
    if "first_match i (map (\<lambda>name. (name, the (map_of BuiltinCategoryPatterns name)))
           (sort_Strings (map fst BuiltinCategoryPatterns))) = Some name" for i name
    using first_match_mem [OF that] by force
  have "ApplicationCategoryApplication \<in> fst ` set BuiltinCategoryPatterns"
    by (simp add: BuiltinCategoryPatterns_def)
  then have "base_category p (CalcApplicationCategory p appId) \<noteq> None"
    unfolding CalcApplicationCategory_def Let_def using b s custom builtin
    by (auto split: option.split)
  then show ?thesis by (simp add: GetApplicationCategories_def)
qed

text \<open>
  The alert settings of a category agree with the project's integrations: a destination is
  present exactly when its integration is configured for alerts, and alerts are enabled only if some
  destination is. Calling \<^verbatim>\<open>GetApplicationCategories\<close> again gives the same settings, although the
  call writes default channels into the project's settings.
\<close>

theorem alerts_settings_consistent:
  assumes "GetApplicationCategories p c = Some info"
  shows "let a = cn_Alerts (ci_NotificationSettings info); i = p_Integrations p in
    (ns_Slack a \<noteq> None \<longleftrightarrow> cfg (boolValue \<circ> sl_Alerts) (in_Slack i)) \<and>
    (ns_Teams a \<noteq> None \<longleftrightarrow> cfg (boolValue \<circ> te_Alerts) (in_Teams i)) \<and>
    (ns_Webhook a \<noteq> None \<longleftrightarrow> cfg (boolValue \<circ> wh_Alerts) (in_Webhook i)) \<and>
    (ns_Pagerduty a \<noteq> None \<longleftrightarrow> cfg (boolValue \<circ> pd_Alerts) (in_Pagerduty i)) \<and>
    (ns_Opsgenie a \<noteq> None \<longleftrightarrow> cfg (boolValue \<circ> og_Alerts) (in_Opsgenie i)) \<and>
    (ns_Enabled a \<longrightarrow> hasEnabled a) \<and>
    GetApplicationCategories (project_after_categories p) c = Some info"
proof -
  let ?s = "cn_Alerts (ac_NotificationSettings (case settings_of p c of None \<Rightarrow> zero_settings | Some s \<Rightarrow> s))"
  have a: "cn_Alerts (ci_NotificationSettings info) = alerts_settings (p_Integrations p) ?s"
    using category_of_GetApplicationCategories [OF assms] by simp
  have *: "(ns_Slack (alerts_settings i s) \<noteq> None \<longleftrightarrow> cfg (boolValue \<circ> sl_Alerts) (in_Slack i)) \<and>
    (ns_Teams (alerts_settings i s) \<noteq> None \<longleftrightarrow> cfg (boolValue \<circ> te_Alerts) (in_Teams i)) \<and>
    (ns_Webhook (alerts_settings i s) \<noteq> None \<longleftrightarrow> cfg (boolValue \<circ> wh_Alerts) (in_Webhook i)) \<and>
    (ns_Pagerduty (alerts_settings i s) \<noteq> None \<longleftrightarrow> cfg (boolValue \<circ> pd_Alerts) (in_Pagerduty i)) \<and>
    (ns_Opsgenie (alerts_settings i s) \<noteq> None \<longleftrightarrow> cfg (boolValue \<circ> og_Alerts) (in_Opsgenie i))" for i s
    by (simp add: alerts_settings_def step_own step_other)
  show ?thesis
    unfolding Let_def a
    using * [of "p_Integrations p" ?s] assms
    by (auto simp: alerts_settings_def GetApplicationCategories_after intro: final_step_Enabled)
qed

definition demo_project :: Project where
  "demo_project = \<lparr>p_Id = ''p1'', p_Name = ''prod'',
     p_CategorySettings = [(''application'', Some \<lparr>ac_CustomPatterns = [], ac_NotifyOfDeployments = False,
        ac_NotificationSettings = \<lparr>cn_Incidents = no_settings\<lparr>ns_Slack := Some \<lparr>cs_Enabled = True, cs_Channel = ''inc''\<rparr>,
             ns_Pagerduty := Some False\<rparr>,
           cn_Deployments = no_settings, cn_Alerts = no_settings\<rparr>\<rparr>)],
     p_Integrations = \<lparr>in_BaseUrl = ''http://c'',
        in_Slack = Some \<lparr>sl_Token = ''t'', sl_DefaultChannel = ''general'', sl_Incidents = True,
          sl_Deployments = False, sl_Alerts = Some True\<rparr>,
        in_Teams = None, in_Pagerduty = Some \<lparr>pd_IntegrationKey = ''k'', pd_Incidents = True, pd_Alerts = None\<rparr>,
        in_Opsgenie = None, in_Webhook = None\<rparr>\<rparr>"

text \<open>
  A category's switch for incident notifications has no effect while PagerDuty is configured for
  incidents: if some destination of the category is enabled, incidents are enabled for all of its
  destinations, even where the category's own setting is off.
\<close>

theorem pagerduty_forces_incidents:
  assumes "cfg pd_Incidents (in_Pagerduty i)"
  shows "ns_Enabled (incidents_settings i s) \<longleftrightarrow> hasEnabled (incidents_settings i s)"
proof -
  let ?w = "webhook_step (cfg wh_Incidents (in_Webhook i)) True
             (teams_step (cfg te_Incidents (in_Teams i)) True (teams_channel i)
               (slack_step (cfg sl_Incidents (in_Slack i)) True (slack_channel i) s))"
  have "ns_Enabled (pagerduty_step True True ?w)" by (simp add: pagerduty_step_def Let_def)
  then have "ns_Enabled (opsgenie_step b True (pagerduty_step True True ?w))" for b
    by (simp add: opsgenie_step_def Let_def)
  with assms show ?thesis
    by (auto simp: incidents_settings_def final_step_def hasEnabled_def)
qed

end
