(* ===== verification/Format.thy ===== *)
theory Format
  imports Utils TimeSeries
begin

text \<open>
  Text of numbers (\<^verbatim>\<open>utils/format.go\<close>): the verb \<^verbatim>\<open>%f\<close> of the package \<^verbatim>\<open>fmt\<close> on values of \<^verbatim>\<open>float32\<close>, which
  rounds the exact value half to even, and the formats made of it. Plurals and the text of durations are
  third-party functions, and the unit of a size is found with a float64 logarithm: these are arguments.
\<close>

subsection \<open>Conversions and verbs\<close>

text \<open>A constant of \<^verbatim>\<open>float32\<close>, and the conversion \<^verbatim>\<open>int64(v)\<close>, with the result of amd64 when it does not fit.\<close>

definition f32_const :: "rat \<Rightarrow> f32" where
  "f32_const q = round32 False q"

definition trunc_rat :: "rat \<Rightarrow> int" where
  "trunc_rat q = (if q < 0 then - \<lfloor>- q\<rfloor> else \<lfloor>q\<rfloor>)"

definition int64_of_f32 :: "f32 \<Rightarrow> int" where
  "int64_of_f32 v =
     (let n = trunc_rat (rat_of v)
      in if finite32 v \<and> - (2 ^ 63) \<le> n \<and> n < 2 ^ 63 then n else - (2 ^ 63))"

definition f32_abs :: "f32 \<Rightarrow> f32" where
  "f32_abs v = (if negative v then f32_neg v else v)"

text \<open>The decimal digits of \<open>k\<close> units of \<open>10 ^ -n\<close>.\<close>

definition fixed_point :: "nat \<Rightarrow> nat \<Rightarrow> string" where
  "fixed_point n k =
     (let s = nat_string k; s' = replicate (Suc n - length s) CHR ''0'' @ s; m = length s' - n
      in if n = 0 then s' else take m s' @ ''.'' @ drop m s')"

definition Sprintf_f :: "bool \<Rightarrow> nat \<Rightarrow> f32 \<Rightarrow> string" where
  "Sprintf_f sgn_flag n v =
     (case v of
        NaN \<Rightarrow> (if sgn_flag then ''+NaN'' else ''NaN'')
      | PInf \<Rightarrow> ''+Inf''
      | NInf \<Rightarrow> ''-Inf''
      | _ \<Rightarrow> (if negative v then ''-'' else if sgn_flag then ''+'' else []) @
             fixed_point n (nat (round_half_even (\<bar>rat_of v\<bar> * 10 ^ n))))"

definition strings_TrimRight :: "string \<Rightarrow> char \<Rightarrow> string" where
  "strings_TrimRight s c = rev (dropWhile (\<lambda>x. x = c) (rev s))"

subsection \<open>Formats (format.go)\<close>

definition FormatFloat :: "f32 \<Rightarrow> string" where
  "FormatFloat v =
     (if IsNaN v then []
      else if f32_is_zero v then ''0''
      else if f32_ge v (Fin 1) then Sprintf_f False 0 v
      else if f32_ge v (f32_const (1/10)) then Sprintf_f False 1 v
      else if f32_ge v (f32_const (1/100)) then Sprintf_f False 2 v
      else Sprintf_f False 3 v)"

definition FormatLatency :: "f32 \<Rightarrow> string" where
  "FormatLatency v =
     (if f32_lt v (f32_const (1/10000)) then ''<0.1ms''
      else if f32_lt v (Fin 1) then FormatFloat (f32_mul v (Fin 1000)) @ ''ms''
      else FormatFloat v @ ''s'')"

definition FormatPercentage :: "f32 \<Rightarrow> string" where
  "FormatPercentage v = strings_TrimRight (strings_TrimRight (Sprintf_f False 2 v) CHR ''0'') CHR ''.'' @ ''%''"

definition FormatMoney :: "f32 \<Rightarrow> string" where
  "FormatMoney v =
     (if f32_gt v (Fin 0) then ''+'' else if f32_lt v (Fin 0) then ''-'' else []) @ ''$'' @ Sprintf_f False 2 (f32_abs v)"

text \<open>
  The functions that are arguments: \<^verbatim>\<open>english.Plural(n, singular, "")\<close>, \<^verbatim>\<open>durafmt\<close> behind \<^verbatim>\<open>FormatDuration\<close>,
  the two results of \<^verbatim>\<open>FormatBytes\<close>, and the errors of \<^verbatim>\<open>text/template\<close>.
\<close>

record Formatters =
  fm_Plural :: "int \<Rightarrow> string \<Rightarrow> string"
  fm_Duration :: "Duration \<Rightarrow> nat \<Rightarrow> string"
  fm_Bytes :: "f32 \<Rightarrow> string \<times> string"
  fm_parse_error :: "string \<Rightarrow> string"
  fm_exec_error :: "string \<Rightarrow> string"

text \<open>Formatters on which the properties are exercised.\<close>

definition demo_formatters :: Formatters where
  "demo_formatters = \<lparr>fm_Plural = (\<lambda>n s. Itoa n @ '' '' @ s @ (if n = 1 then [] else ''s'')), fm_Duration = (\<lambda>d _. Itoa d @ ''s''),
     fm_Bytes = (\<lambda>v. (Sprintf_f False 0 v, ''B'')), fm_parse_error = (\<lambda>t. t), fm_exec_error = (\<lambda>t. t)\<rparr>"

end
