(* ===== verification/AlertModel.thy ===== *)
theory AlertModel
  imports Applications TimeSeries
begin

text \<open>
  The data the watchers work on: alerting rules (\<^verbatim>\<open>model/alerting_rule.go\<close>), alerts and burn-rate
  rules (\<^verbatim>\<open>model/alert.go\<close>), incidents (\<^verbatim>\<open>model/application_incident.go\<close>), the service level
  indicators (\<^verbatim>\<open>model/sli.go\<close>), and the part of an application and of the world the watchers read
  (\<^verbatim>\<open>model/application.go\<close>, \<^verbatim>\<open>model/world.go\<close>, \<^verbatim>\<open>model/log.go\<close>, \<^verbatim>\<open>model/check.go\<close>).
\<close>

subsection \<open>Alerting rules (alerting_rule.go)\<close>

type_synonym AlertingRuleId = string
type_synonym CheckId = string
type_synonym AuditReportName = string

definition AlertSourceTypeCheck :: string where "AlertSourceTypeCheck = ''check''"
definition AlertSourceTypeLogPatterns :: string where "AlertSourceTypeLogPatterns = ''log_patterns''"
definition AlertSourceTypePromQL :: string where "AlertSourceTypePromQL = ''promql''"
definition AlertSourceTypeKubernetesEvents :: string where
  "AlertSourceTypeKubernetesEvents = ''kubernetes_events''"

lemmas source_type_defs = AlertSourceTypeCheck_def AlertSourceTypeLogPatterns_def
  AlertSourceTypePromQL_def AlertSourceTypeKubernetesEvents_def

record LogPatternSource =
  lps_Severities :: "string list"
  lps_MinCount :: int
  lps_MaxAlertsPerApp :: int
  lps_EvaluateWithAI :: bool

record CheckSource =
  chs_CheckId :: CheckId

record PromQLSource =
  pqs_Expression :: string

record KubernetesEventsSource =
  kes_MinCount :: int
  kes_MaxAlertsPerApp :: int
  kes_EvaluateWithAI :: bool

record AlertSource =
  src_Type :: string
  src_Check :: "CheckSource option"
  src_LogPattern :: "LogPatternSource option"
  src_PromQL :: "PromQLSource option"
  src_KubernetesEvents :: "KubernetesEventsSource option"

definition AppSelectorTypeAll :: string where "AppSelectorTypeAll = ''all''"
definition AppSelectorTypeCategory :: string where "AppSelectorTypeCategory = ''category''"
definition AppSelectorTypeApplications :: string where "AppSelectorTypeApplications = ''applications''"

record AppSelector =
  sel_Type :: string
  sel_Categories :: "string list"
  sel_ApplicationIdPatterns :: "string list"

record AlertTemplates =
  tpl_Summary :: string
  tpl_Description :: string

record AlertingRule =
  r_Id :: AlertingRuleId
  r_ProjectId :: string
  r_Name :: string
  r_Source :: AlertSource
  r_Selector :: AppSelector
  r_Severity :: Status
  r_For :: Duration
  r_KeepFiringFor :: Duration
  r_Templates :: AlertTemplates
  r_NotificationCategory :: ApplicationCategory
  r_Enabled :: bool
  r_Readonly :: bool
  r_Builtin :: bool
  r_CreatedAt :: Time
  r_UpdatedAt :: Time

subsection \<open>Alerts (alert.go)\<close>

record AlertDetail =
  ad_Name :: string
  ad_Value :: string
  ad_Code :: bool

record Alert =
  a_Id :: string
  a_Fingerprint :: string
  a_RuleId :: string
  a_ProjectId :: string
  a_ApplicationId :: ApplicationId
  a_ApplicationCategory :: ApplicationCategory
  a_Severity :: Status
  a_Summary :: string
  a_Details :: "AlertDetail list"
  a_OpenedAt :: Time
  a_ResolvedAt :: Time
  a_ManuallyResolvedAt :: Time
  a_UpdatedAt :: Time
  a_Suppressed :: bool
  a_ResolvedBy :: string
  a_Report :: AuditReportName
  a_PatternWords :: string

definition IsFiring :: "Alert \<Rightarrow> bool" where
  "IsFiring a \<longleftrightarrow> a_ResolvedAt a = 0"

text \<open>The zero value of a Go struct literal that names only some fields.\<close>

definition zero_alert :: Alert where
  "zero_alert = \<lparr>a_Id = [], a_Fingerprint = [], a_RuleId = [], a_ProjectId = [],
     a_ApplicationId = ApplicationIdZero, a_ApplicationCategory = [], a_Severity = UNKNOWN,
     a_Summary = [], a_Details = [], a_OpenedAt = 0, a_ResolvedAt = 0, a_ManuallyResolvedAt = 0,
     a_UpdatedAt = 0, a_Suppressed = False, a_ResolvedBy = [], a_Report = [], a_PatternWords = []\<rparr>"

text \<open>The burn-rate rules of incidents. 14.4 is rounded to float32 by the compiler.\<close>

record AlertRule =
  ar_LongWindow :: Duration
  ar_ShortWindow :: Duration
  ar_BurnRateThreshold :: f32
  ar_Severity :: Status

definition AlertRules :: "AlertRule list" where
  "AlertRules =
     [\<lparr>ar_LongWindow = Hour, ar_ShortWindow = 5 * Minute, ar_BurnRateThreshold = round32 False (144 / 10),
       ar_Severity = CRITICAL\<rparr>,
      \<lparr>ar_LongWindow = 6 * Hour, ar_ShortWindow = 15 * Minute, ar_BurnRateThreshold = Fin 6,
       ar_Severity = CRITICAL\<rparr>]"

text \<open>\<^verbatim>\<open>init\<close>: the extremes of the windows; \<open>None\<close> is its panic on an invalid rule.\<close>

fun init_windows :: "AlertRule list \<Rightarrow> Duration \<times> Duration \<times> Duration \<Rightarrow> (Duration \<times> Duration \<times> Duration) option" where
  "init_windows [] acc = Some acc"
| "init_windows (r # rs) (maxWindow, maxShort, minShort) =
     (if ar_ShortWindow r > ar_LongWindow r then None
      else init_windows rs
        (if ar_LongWindow r > maxWindow then ar_LongWindow r else maxWindow,
         if ar_ShortWindow r > maxShort then ar_ShortWindow r else maxShort,
         if minShort = 0 \<or> ar_ShortWindow r < minShort then ar_ShortWindow r else minShort))"

definition MaxAlertRuleWindow :: Duration where "MaxAlertRuleWindow = 6 * Hour"
definition MaxAlertRuleShortWindow :: Duration where "MaxAlertRuleShortWindow = 15 * Minute"
definition MinAlertRuleShortWindow :: Duration where "MinAlertRuleShortWindow = 5 * Minute"

lemma init_windows_AlertRules:
  "init_windows AlertRules (Hour, 5 * Minute, 0)
     = Some (MaxAlertRuleWindow, MaxAlertRuleShortWindow, MinAlertRuleShortWindow)"
  by (simp add: AlertRules_def duration_defs MaxAlertRuleWindow_def MaxAlertRuleShortWindow_def
      MinAlertRuleShortWindow_def)

record BurnRate =
  br_LongWindowPercentage :: f32
  br_ShortWindowPercentage :: f32
  br_LongWindowBurnRate :: f32
  br_ShortWindowBurnRate :: f32
  br_LongWindow :: Duration
  br_ShortWindow :: Duration
  br_Severity :: Status
  br_Threshold :: f32

subsection \<open>Incidents (application_incident.go)\<close>

record IncidentDetails =
  id_AvailabilityBurnRates :: "BurnRate list"
  id_LatencyBurnRates :: "BurnRate list"
  id_AvailabilityImpact :: f32
  id_LatencyImpact :: f32

record RCA =
  rca_Status :: string
  rca_ShortSummary :: string
  rca_RootCause :: string
  rca_ImmediateFixes :: string

record ApplicationIncident =
  i_ApplicationId :: ApplicationId
  i_Key :: string
  i_OpenedAt :: Time
  i_ResolvedAt :: Time
  i_Severity :: Status
  i_Details :: IncidentDetails
  i_RCA :: "RCA option"

definition Resolved :: "ApplicationIncident \<Rightarrow> bool" where
  "Resolved i \<longleftrightarrow> i_ResolvedAt i \<noteq> 0"

definition ShortDescription :: "ApplicationIncident \<Rightarrow> string" where
  "ShortDescription i =
     (let a = f32_gt (id_AvailabilityImpact (i_Details i)) (Fin 0);
          l = f32_gt (id_LatencyImpact (i_Details i)) (Fin 0);
          descr = (if a \<and> l then ''High latency and errors'' else if l then ''High latency''
                   else if a then ''Elevated error rate'' else ''SLO violation'')
      in case i_RCA i of Some rca \<Rightarrow> (if rca_ShortSummary rca \<noteq> [] then rca_ShortSummary rca else descr)
         | None \<Rightarrow> descr)"

subsection \<open>Service level indicators (sli.go)\<close>

record AvailabilitySLI =
  as_ObjectivePercentage :: f32
  as_TotalRequestsRaw :: "TimeSeries option"
  as_FailedRequestsRaw :: "TimeSeries option"

record HistogramBucket =
  hb_Le :: f32
  hb_TimeSeries :: "TimeSeries option"

record LatencySLI =
  ls_ObjectiveBucket :: f32
  ls_ObjectivePercentage :: f32
  ls_Histogram :: "HistogramBucket list"
  ls_HistogramRaw :: "HistogramBucket list"

definition GetTotalAndFast :: "LatencySLI \<Rightarrow> bool \<Rightarrow> TimeSeries option \<times> TimeSeries option" where
  "GetTotalAndFast sli raw =
     foldl (\<lambda>(total, fast) b.
              (if hb_Le b = PInf then hb_TimeSeries b else total,
               if f32_le (hb_Le b) (ls_ObjectiveBucket sli) then hb_TimeSeries b else fast))
       (None, None) (if raw then ls_HistogramRaw sli else ls_Histogram sli)"

subsection \<open>Applications and the world\<close>

record Check =
  ch_Id :: CheckId
  ch_Title :: string
  ch_Status :: Status
  ch_Message :: string
  ch_Details :: "StringSet option"
  ch_value :: f32

record AuditReport =
  rep_Name :: AuditReportName
  rep_Checks :: "Check list"

definition AuditReportSLO :: AuditReportName where "AuditReportSLO = ''SLO''"
definition AuditReportLogs :: AuditReportName where "AuditReportLogs = ''Logs''"

text \<open>A log pattern is represented by the text of its words (\<^verbatim>\<open>Pattern.String()\<close>).\<close>

record LogPattern =
  lp_Pattern :: "string option"
  lp_Sample :: string
  lp_Messages :: "TimeSeries option"
  lp_SimilarPatternHashes :: "StringSet option"

record LogMessages =
  lm_Patterns :: "(string \<times> LogPattern option) list"

record Instance =
  inst_Name :: string
  inst_Pod :: bool
  inst_ClusterComponent :: "ApplicationId option"

record Application =
  app_Id :: ApplicationId
  app_Category :: ApplicationCategory
  app_Reports :: "AuditReport list"
  app_LogMessages :: "(Severity \<times> LogMessages option) list"
  app_Instances :: "Instance list"
  app_AvailabilitySLIs :: "AvailabilitySLI list"
  app_LatencySLIs :: "LatencySLI list"

definition GetCheckWithReport :: "Application \<Rightarrow> CheckId \<Rightarrow> (Check \<times> AuditReportName) option" where
  "GetCheckWithReport app checkId =
     (case concat (map (\<lambda>r. map (\<lambda>ch. (ch, rep_Name r)) (filter (\<lambda>ch. ch_Id ch = checkId) (rep_Checks r)))
             (app_Reports app)) of
        [] \<Rightarrow> None | x # _ \<Rightarrow> Some x)"

record World =
  w_Ctx :: Context
  w_Applications :: "(ApplicationId \<times> Application) list"

definition GetApplication :: "World \<Rightarrow> ApplicationId \<Rightarrow> Application option" where
  "GetApplication w i = map_of (w_Applications w) i"

definition app_values :: "World \<Rightarrow> Application list" where
  "app_values w = map snd (w_Applications w)"

subsection \<open>Which applications and alerts a rule selects (alerting_rule.go)\<close>

definition selects :: "AppSelector \<Rightarrow> ApplicationCategory \<Rightarrow> ApplicationId \<Rightarrow> bool" where
  "selects s category i =
     (if sel_Type s = AppSelectorTypeAll then True
      else if sel_Type s = AppSelectorTypeCategory then list_ex (\<lambda>cat. category = cat) (sel_Categories s)
      else if sel_Type s = AppSelectorTypeApplications
        then GlobMatch (StringWithoutClusterId i) (sel_ApplicationIdPatterns s)
      else False)"

definition Matches :: "AlertingRule \<Rightarrow> Application \<Rightarrow> bool" where
  "Matches r app = selects (r_Selector r) (app_Category app) (app_Id app)"

definition MatchesAlert :: "AlertingRule \<Rightarrow> Alert \<Rightarrow> bool" where
  "MatchesAlert r a = selects (r_Selector r) (a_ApplicationCategory a) (a_ApplicationId a)"

lemma MatchesAlert_of_app:
  "a_ApplicationCategory a = app_Category app \<Longrightarrow> a_ApplicationId a = app_Id app \<Longrightarrow>
   MatchesAlert r a = Matches r app"
  by (simp add: MatchesAlert_def Matches_def)

end
