(* ===== verification/Checks.thy ===== *)
theory Checks
  imports Format AlertModel
begin

text \<open>
  Checks (\<^verbatim>\<open>model/check.go\<close>): the table of all checks, how a check gets its message and its status, and the
  thresholds configured for a project or an application, with the properties of the table. A JSON message is represented by what it decodes
  to. The templates of messages use methods with at most one string; that part of \<^verbatim>\<open>text/template\<close> is
  modelled, everything else in braces is an error.
\<close>

subsection \<open>The table of checks\<close>

datatype CheckType = CheckTypeEventBased | CheckTypeItemBased | CheckTypeValueBased | CheckTypeManual

type_synonym CheckUnit = string

definition CheckUnitPercent :: CheckUnit where "CheckUnitPercent = ''percent''"
definition CheckUnitSecond :: CheckUnit where "CheckUnitSecond = ''second''"
definition CheckUnitByte :: CheckUnit where "CheckUnitByte = ''byte''"
definition CheckUnitSecondsPerSecond :: CheckUnit where "CheckUnitSecondsPerSecond = ''seconds/second''"

definition CheckUnit_FormatValue :: "Formatters \<Rightarrow> CheckUnit \<Rightarrow> f32 \<Rightarrow> string" where
  "CheckUnit_FormatValue fm u v =
     (if u = CheckUnitSecond then fm_Duration fm (int64_of_f32 v) 1
      else if u = CheckUnitSecondsPerSecond then fm_Duration fm (int64_of_f32 v) 1 @ ''/second''
      else if u = CheckUnitByte then fst (fm_Bytes fm v) @ snd (fm_Bytes fm v)
      else if u = CheckUnitPercent then FormatPercentage v
      else FormatFloat v)"

record CheckConfig =
  cc_Id :: CheckId
  cc_Category :: AuditReportName
  cc_Type :: CheckType
  cc_Title :: string
  cc_DefaultThreshold :: f32
  cc_Unit :: CheckUnit
  cc_MessageTemplate :: string
  cc_ConditionFormatTemplate :: string

text \<open>The names of the reports (\<^verbatim>\<open>model/audit_report.go\<close>) that have checks.\<close>

definition AuditReportInstances :: AuditReportName where "AuditReportInstances = ''Instances''"
definition AuditReportCPU :: AuditReportName where "AuditReportCPU = ''CPU''"
definition AuditReportMemory :: AuditReportName where "AuditReportMemory = ''Memory''"
definition AuditReportStorage :: AuditReportName where "AuditReportStorage = ''Storage''"
definition AuditReportNetwork :: AuditReportName where "AuditReportNetwork = ''Net''"
definition AuditReportDNS :: AuditReportName where "AuditReportDNS = ''DNS''"
definition AuditReportPostgres :: AuditReportName where "AuditReportPostgres = ''Postgres''"
definition AuditReportRedis :: AuditReportName where "AuditReportRedis = ''Redis''"
definition AuditReportMongodb :: AuditReportName where "AuditReportMongodb = ''Mongodb''"
definition AuditReportMemcached :: AuditReportName where "AuditReportMemcached = ''Memcached''"
definition AuditReportMysql :: AuditReportName where "AuditReportMysql = ''Mysql''"
definition AuditReportJvm :: AuditReportName where "AuditReportJvm = ''JVM''"
definition AuditReportDotNet :: AuditReportName where "AuditReportDotNet = ''.NET''"
definition AuditReportPython :: AuditReportName where "AuditReportPython = ''Python''"
definition AuditReportNodejs :: AuditReportName where "AuditReportNodejs = ''Node.js''"
definition AuditReportDeployments :: AuditReportName where "AuditReportDeployments = ''Deployments''"

definition Checks_SLOAvailability :: CheckConfig where
  \<open>Checks_SLOAvailability = \<lparr>cc_Id = [], cc_Category = AuditReportSLO, cc_Type = CheckTypeManual, cc_Title = ''Availability'',
     cc_DefaultThreshold = Fin 99, cc_Unit = CheckUnitPercent,
     cc_MessageTemplate = ''the app is serving errors'',
     cc_ConditionFormatTemplate = ''the successful request percentage < <threshold>''\<rparr>\<close>

definition Checks_SLOLatency :: CheckConfig where
  \<open>Checks_SLOLatency = \<lparr>cc_Id = [], cc_Category = AuditReportSLO, cc_Type = CheckTypeManual, cc_Title = ''Latency'',
     cc_DefaultThreshold = Fin 99, cc_Unit = CheckUnitPercent,
     cc_MessageTemplate = ''the app is performing slowly'',
     cc_ConditionFormatTemplate = ''the percentage of requests served faster than <bucket> < <threshold>''\<rparr>\<close>

definition Checks_CPUNode :: CheckConfig where
  \<open>Checks_CPUNode = \<lparr>cc_Id = [], cc_Category = AuditReportCPU, cc_Type = CheckTypeItemBased, cc_Title = ''Node CPU utilization'',
     cc_DefaultThreshold = Fin 80, cc_Unit = CheckUnitPercent,
     cc_MessageTemplate = ''high CPU utilization of {{.Items "node"}}'',
     cc_ConditionFormatTemplate = ''the CPU usage of a node > <threshold>''\<rparr>\<close>

definition Checks_CPUContainer :: CheckConfig where
  \<open>Checks_CPUContainer = \<lparr>cc_Id = [], cc_Category = AuditReportCPU, cc_Type = CheckTypeItemBased, cc_Title = ''Container CPU utilization'',
     cc_DefaultThreshold = Fin 80, cc_Unit = CheckUnitPercent,
     cc_MessageTemplate = ''high CPU utilization of {{.Items "container"}}'',
     cc_ConditionFormatTemplate = ''the CPU usage of a container > <threshold> of its CPU limit''\<rparr>\<close>

definition Checks_MemoryOOM :: CheckConfig where
  \<open>Checks_MemoryOOM = \<lparr>cc_Id = [], cc_Category = AuditReportMemory, cc_Type = CheckTypeEventBased, cc_Title = ''Out of Memory'',
     cc_DefaultThreshold = Fin 0, cc_Unit = [],
     cc_MessageTemplate = ''application has been restarted {{.Count "time"}} by the OOM killer'',
     cc_ConditionFormatTemplate = ''the number of container terminations due to Out of Memory > <threshold>''\<rparr>\<close>

definition Checks_MemoryLeakPercent :: CheckConfig where
  \<open>Checks_MemoryLeakPercent = \<lparr>cc_Id = [], cc_Category = AuditReportMemory, cc_Type = CheckTypeValueBased, cc_Title = ''Memory leak'',
     cc_DefaultThreshold = Fin 10, cc_Unit = [],
     cc_MessageTemplate = ''memory usage is growing by {{.Value}}% per hour'',
     cc_ConditionFormatTemplate = ''memory usage is growing by > <threshold> % per hour''\<rparr>\<close>

definition Checks_MemoryPressure :: CheckConfig where
  \<open>Checks_MemoryPressure = \<lparr>cc_Id = [], cc_Category = AuditReportMemory, cc_Type = CheckTypeItemBased, cc_Title = ''Memory pressure'',
     cc_DefaultThreshold = round32 False (2 / 100), cc_Unit = CheckUnitSecond,
     cc_MessageTemplate = ''high memory stall time on {{.Items "instances"}}'',
     cc_ConditionFormatTemplate = ''memory stall time > <threshold> per second''\<rparr>\<close>

definition Checks_StorageIOLoad :: CheckConfig where
  \<open>Checks_StorageIOLoad = \<lparr>cc_Id = [], cc_Category = AuditReportStorage, cc_Type = CheckTypeItemBased, cc_Title = ''Disk I/O load'',
     cc_DefaultThreshold = Fin 5, cc_Unit = CheckUnitSecondsPerSecond,
     cc_MessageTemplate = ''high I/O load of {{.Items "volume"}}'',
     cc_ConditionFormatTemplate = ''the I/O load of a volume > <threshold>''\<rparr>\<close>

definition Checks_StorageSpace :: CheckConfig where
  \<open>Checks_StorageSpace = \<lparr>cc_Id = [], cc_Category = AuditReportStorage, cc_Type = CheckTypeItemBased, cc_Title = ''Disk space'',
     cc_DefaultThreshold = Fin 80, cc_Unit = CheckUnitPercent,
     cc_MessageTemplate = ''{{.ItemsWithToBe "volume"}} over {{.ThresholdPercent}} full, max usage: {{.ValuePercent}}'',
     cc_ConditionFormatTemplate = ''the space usage of a volume > <threshold>''\<rparr>\<close>

definition Checks_NetworkRTT :: CheckConfig where
  \<open>Checks_NetworkRTT = \<lparr>cc_Id = [], cc_Category = AuditReportNetwork, cc_Type = CheckTypeItemBased, cc_Title = ''Network RTT within the cluster'',
     cc_DefaultThreshold = round32 False (1 / 100), cc_Unit = CheckUnitSecond,
     cc_MessageTemplate = ''high in-cluster network latency: {{.Items "service"}} affected, max RTT: {{.ValueDuration}}'',
     cc_ConditionFormatTemplate = ''RTT between services within the cluster exceeds <threshold>''\<rparr>\<close>

definition Checks_NetworkRTTExternal :: CheckConfig where
  \<open>Checks_NetworkRTTExternal = \<lparr>cc_Id = [], cc_Category = AuditReportNetwork, cc_Type = CheckTypeItemBased, cc_Title = ''Network RTT to external services'',
     cc_DefaultThreshold = round32 False (2 / 10), cc_Unit = CheckUnitSecond,
     cc_MessageTemplate = ''high network latency to external services: {{.Items "service"}} affected, max RTT: {{.ValueDuration}}'',
     cc_ConditionFormatTemplate = ''RTT to an external service exceeds <threshold>''\<rparr>\<close>

definition Checks_NetworkRTTOtherClusters :: CheckConfig where
  \<open>Checks_NetworkRTTOtherClusters = \<lparr>cc_Id = [], cc_Category = AuditReportNetwork, cc_Type = CheckTypeItemBased, cc_Title = ''Network RTT to services in other clusters'',
     cc_DefaultThreshold = round32 False (1 / 10), cc_Unit = CheckUnitSecond,
     cc_MessageTemplate = ''high cross-cluster network latency: {{.Items "service"}} affected, max RTT: {{.ValueDuration}}'',
     cc_ConditionFormatTemplate = ''RTT to a service in another cluster exceeds <threshold>''\<rparr>\<close>

definition Checks_NetworkConnectivity :: CheckConfig where
  \<open>Checks_NetworkConnectivity = \<lparr>cc_Id = [], cc_Category = AuditReportNetwork, cc_Type = CheckTypeItemBased, cc_Title = ''Network connectivity'',
     cc_DefaultThreshold = Fin 0, cc_Unit = [],
     cc_MessageTemplate = ''no connectivity with {{.Items "upstream service"}}'',
     cc_ConditionFormatTemplate = ''the number of unavailable upstream services > <threshold>''\<rparr>\<close>

definition Checks_NetworkTCPConnections :: CheckConfig where
  \<open>Checks_NetworkTCPConnections = \<lparr>cc_Id = [], cc_Category = AuditReportNetwork, cc_Type = CheckTypeItemBased, cc_Title = ''TCP connections'',
     cc_DefaultThreshold = Fin 0, cc_Unit = [],
     cc_MessageTemplate = ''failed to connect to {{.Items "upstream service"}}'',
     cc_ConditionFormatTemplate = ''the number of upstream services to which the app failed to connect > <threshold>''\<rparr>\<close>

definition Checks_InstanceAvailability :: CheckConfig where
  \<open>Checks_InstanceAvailability = \<lparr>cc_Id = [], cc_Category = AuditReportInstances, cc_Type = CheckTypeManual, cc_Title = ''Instance availability'',
     cc_DefaultThreshold = Fin 75, cc_Unit = CheckUnitPercent,
     cc_MessageTemplate = ''{{.ItemsWithToBe "instance"}} unavailable'',
     cc_ConditionFormatTemplate = ''the number of available instances < <threshold> of the desired''\<rparr>\<close>

definition Checks_InstanceRestarts :: CheckConfig where
  \<open>Checks_InstanceRestarts = \<lparr>cc_Id = [], cc_Category = AuditReportInstances, cc_Type = CheckTypeItemBased, cc_Title = ''Restarts'',
     cc_DefaultThreshold = Fin 1, cc_Unit = [],
     cc_MessageTemplate = ''application restarted {{.Count "time"}}'',
     cc_ConditionFormatTemplate = ''the number of container restarts > <threshold>''\<rparr>\<close>

definition Checks_DeploymentStatus :: CheckConfig where
  \<open>Checks_DeploymentStatus = \<lparr>cc_Id = [], cc_Category = AuditReportDeployments, cc_Type = CheckTypeValueBased, cc_Title = ''Deployment status'',
     cc_DefaultThreshold = Fin 180, cc_Unit = CheckUnitSecond,
     cc_MessageTemplate = ''the rollout has already been in progress for {{.Value}}'',
     cc_ConditionFormatTemplate = ''a rollout is in progress > <threshold>''\<rparr>\<close>

definition Checks_RedisAvailability :: CheckConfig where
  \<open>Checks_RedisAvailability = \<lparr>cc_Id = [], cc_Category = AuditReportRedis, cc_Type = CheckTypeItemBased, cc_Title = ''Redis availability'',
     cc_DefaultThreshold = Fin 0, cc_Unit = [],
     cc_MessageTemplate = ''{{.ItemsWithToBe "redis instance"}} unavailable'',
     cc_ConditionFormatTemplate = ''the number of unavailable redis instances > <threshold>''\<rparr>\<close>

definition Checks_RedisLatency :: CheckConfig where
  \<open>Checks_RedisLatency = \<lparr>cc_Id = [], cc_Category = AuditReportRedis, cc_Type = CheckTypeItemBased, cc_Title = ''Redis latency'',
     cc_DefaultThreshold = round32 False (5 / 1000), cc_Unit = CheckUnitSecond,
     cc_MessageTemplate = ''{{.ItemsWithToBe "redis instance"}} performing slowly'',
     cc_ConditionFormatTemplate = ''the average command execution time of a redis instance > <threshold>''\<rparr>\<close>

definition Checks_MongodbAvailability :: CheckConfig where
  \<open>Checks_MongodbAvailability = \<lparr>cc_Id = [], cc_Category = AuditReportMongodb, cc_Type = CheckTypeItemBased, cc_Title = ''Mongodb availability'',
     cc_DefaultThreshold = Fin 0, cc_Unit = [],
     cc_MessageTemplate = ''{{.ItemsWithToBe "mongodb instance"}} unavailable'',
     cc_ConditionFormatTemplate = ''the number of unavailable mongodb instances > <threshold>''\<rparr>\<close>

definition Checks_MongodbReplicationLag :: CheckConfig where
  \<open>Checks_MongodbReplicationLag = \<lparr>cc_Id = [], cc_Category = AuditReportMongodb, cc_Type = CheckTypeItemBased, cc_Title = ''Mongodb replication lag'',
     cc_DefaultThreshold = Fin 30, cc_Unit = CheckUnitSecond,
     cc_MessageTemplate = ''{{.ItemsWithToBe "mongodb replica"}} far behind the primary'',
     cc_ConditionFormatTemplate = ''replication lag > <threshold>''\<rparr>\<close>

definition Checks_MongodbLatency :: CheckConfig where
  \<open>Checks_MongodbLatency = \<lparr>cc_Id = [], cc_Category = AuditReportMongodb, cc_Type = CheckTypeItemBased, cc_Title = ''Mongodb latency'',
     cc_DefaultThreshold = round32 False (1 / 10), cc_Unit = CheckUnitSecond,
     cc_MessageTemplate = ''{{.ItemsWithToBe "mongodb instance"}} performing slowly'',
     cc_ConditionFormatTemplate = ''the average operation latency of a mongodb instance > <threshold>''\<rparr>\<close>

definition Checks_MongodbOplogWindow :: CheckConfig where
  \<open>Checks_MongodbOplogWindow = \<lparr>cc_Id = [], cc_Category = AuditReportMongodb, cc_Type = CheckTypeItemBased, cc_Title = ''Mongodb oplog window'',
     cc_DefaultThreshold = Fin 3600, cc_Unit = CheckUnitSecond,
     cc_MessageTemplate = ''{{.ItemsWithToBe "mongodb instance"}} at risk of a full resync: the oplog window is too small'',
     cc_ConditionFormatTemplate = ''the oplog window of a mongodb instance < <threshold>''\<rparr>\<close>

definition Checks_MongodbConnections :: CheckConfig where
  \<open>Checks_MongodbConnections = \<lparr>cc_Id = [], cc_Category = AuditReportMongodb, cc_Type = CheckTypeItemBased, cc_Title = ''Mongodb connections'',
     cc_DefaultThreshold = Fin 90, cc_Unit = CheckUnitPercent,
     cc_MessageTemplate = ''{{.ItemsWithToBe "mongodb instance"}} approaching the connection limit'',
     cc_ConditionFormatTemplate = ''the number of connections of a mongodb instance > <threshold> of the limit''\<rparr>\<close>

definition Checks_MongodbSaturation :: CheckConfig where
  \<open>Checks_MongodbSaturation = \<lparr>cc_Id = [], cc_Category = AuditReportMongodb, cc_Type = CheckTypeItemBased, cc_Title = ''Mongodb saturation'',
     cc_DefaultThreshold = Fin 0, cc_Unit = [],
     cc_MessageTemplate = ''{{.ItemsWithToBe "mongodb instance"}} saturated: operations are queuing (waiting for a lock or a WiredTiger ticket)'',
     cc_ConditionFormatTemplate = ''the number of queued operations > <threshold>''\<rparr>\<close>

definition Checks_MongodbFragmentation :: CheckConfig where
  \<open>Checks_MongodbFragmentation = \<lparr>cc_Id = [], cc_Category = AuditReportMongodb, cc_Type = CheckTypeItemBased, cc_Title = ''Mongodb storage fragmentation'',
     cc_DefaultThreshold = Fin 50, cc_Unit = CheckUnitPercent,
     cc_MessageTemplate = ''{{.ItemsWithToBe "collection"}} fragmented'',
     cc_ConditionFormatTemplate = ''reclaimable collection storage > <threshold> of the allocated storage''\<rparr>\<close>

definition Checks_MongodbBackups :: CheckConfig where
  \<open>Checks_MongodbBackups = \<lparr>cc_Id = [], cc_Category = AuditReportMongodb, cc_Type = CheckTypeItemBased, cc_Title = ''Mongodb backups'',
     cc_DefaultThreshold = Fin 86400, cc_Unit = CheckUnitSecond,
     cc_MessageTemplate = ''backups are failing or stale on {{.Items "mongodb cluster"}}'',
     cc_ConditionFormatTemplate = ''no successful backup within <threshold>, the last backup failed, or the scheduled backup is overdue''\<rparr>\<close>

definition Checks_MemcachedAvailability :: CheckConfig where
  \<open>Checks_MemcachedAvailability = \<lparr>cc_Id = [], cc_Category = AuditReportMemcached, cc_Type = CheckTypeItemBased, cc_Title = ''Memcached availability'',
     cc_DefaultThreshold = Fin 0, cc_Unit = [],
     cc_MessageTemplate = ''{{.ItemsWithToBe "memcached instance"}} unavailable'',
     cc_ConditionFormatTemplate = ''the number of unavailable memcached instances > <threshold>''\<rparr>\<close>

definition Checks_PostgresAvailability :: CheckConfig where
  \<open>Checks_PostgresAvailability = \<lparr>cc_Id = [], cc_Category = AuditReportPostgres, cc_Type = CheckTypeItemBased, cc_Title = ''Postgres availability'',
     cc_DefaultThreshold = Fin 0, cc_Unit = [],
     cc_MessageTemplate = ''{{.ItemsWithToBe "postgres instance"}} unavailable'',
     cc_ConditionFormatTemplate = ''the number of unavailable postgres instances > <threshold>''\<rparr>\<close>

definition Checks_PostgresLatency :: CheckConfig where
  \<open>Checks_PostgresLatency = \<lparr>cc_Id = [], cc_Category = AuditReportPostgres, cc_Type = CheckTypeItemBased, cc_Title = ''Postgres latency'',
     cc_DefaultThreshold = round32 False (1 / 10), cc_Unit = CheckUnitSecond,
     cc_MessageTemplate = ''{{.ItemsWithToBe "postgres instance"}} performing slowly'',
     cc_ConditionFormatTemplate = ''the average query execution time of a postgres instance > <threshold>''\<rparr>\<close>

definition Checks_PostgresReplicationLag :: CheckConfig where
  \<open>Checks_PostgresReplicationLag = \<lparr>cc_Id = [], cc_Category = AuditReportPostgres, cc_Type = CheckTypeItemBased, cc_Title = ''Postgres replication lag'',
     cc_DefaultThreshold = Fin 30, cc_Unit = CheckUnitSecond,
     cc_MessageTemplate = ''{{.ItemsWithToBe "postgres replica"}} far behind the primary'',
     cc_ConditionFormatTemplate = ''replication lag > <threshold>''\<rparr>\<close>

definition Checks_PostgresConnections :: CheckConfig where
  \<open>Checks_PostgresConnections = \<lparr>cc_Id = [], cc_Category = AuditReportPostgres, cc_Type = CheckTypeItemBased, cc_Title = ''Postgres connections'',
     cc_DefaultThreshold = Fin 90, cc_Unit = CheckUnitPercent,
     cc_MessageTemplate = ''{{.ItemsWithHave "postgres instance"}} too many connections'',
     cc_ConditionFormatTemplate = ''the number of connections > <threshold> of `max_connections`''\<rparr>\<close>

definition Checks_PostgresCheckpoint :: CheckConfig where
  \<open>Checks_PostgresCheckpoint = \<lparr>cc_Id = [], cc_Category = AuditReportPostgres, cc_Type = CheckTypeItemBased, cc_Title = ''Postgres checkpoints'',
     cc_DefaultThreshold = Fin 3, cc_Unit = [],
     cc_MessageTemplate = ''too long since the last checkpoint on {{.Items "postgres instance"}}'',
     cc_ConditionFormatTemplate = ''time since the last checkpoint > <threshold> * `checkpoint_timeout`''\<rparr>\<close>

definition Checks_PostgresWalArchiving :: CheckConfig where
  \<open>Checks_PostgresWalArchiving = \<lparr>cc_Id = [], cc_Category = AuditReportPostgres, cc_Type = CheckTypeItemBased, cc_Title = ''Postgres WAL archiving'',
     cc_DefaultThreshold = Fin 0, cc_Unit = [],
     cc_MessageTemplate = ''WAL archiving is failing on {{.Items "postgres instance"}}'',
     cc_ConditionFormatTemplate = ''the most recent WAL archive attempt has failed''\<rparr>\<close>

definition Checks_PostgresWraparound :: CheckConfig where
  \<open>Checks_PostgresWraparound = \<lparr>cc_Id = [], cc_Category = AuditReportPostgres, cc_Type = CheckTypeItemBased, cc_Title = ''Postgres transaction ID wraparound'',
     cc_DefaultThreshold = Fin 50, cc_Unit = CheckUnitPercent,
     cc_MessageTemplate = ''transaction ID wraparound risk on {{.Items "postgres instance"}}'',
     cc_ConditionFormatTemplate = ''the transaction ID age > <threshold> of the wraparound limit''\<rparr>\<close>

definition Checks_PostgresBloat :: CheckConfig where
  \<open>Checks_PostgresBloat = \<lparr>cc_Id = [], cc_Category = AuditReportPostgres, cc_Type = CheckTypeItemBased, cc_Title = ''Postgres bloat'',
     cc_DefaultThreshold = Fin 50, cc_Unit = CheckUnitPercent,
     cc_MessageTemplate = ''{{.ItemsWithToBe "database"}} bloated'',
     cc_ConditionFormatTemplate = ''the estimated wasted space of a database > <threshold> of its size''\<rparr>\<close>

definition Checks_PostgresAutovacuum :: CheckConfig where
  \<open>Checks_PostgresAutovacuum = \<lparr>cc_Id = [], cc_Category = AuditReportPostgres, cc_Type = CheckTypeItemBased, cc_Title = ''Postgres autovacuum'',
     cc_DefaultThreshold = Fin 2, cc_Unit = [],
     cc_MessageTemplate = ''autovacuum is falling behind on {{.Items "postgres instance"}}'',
     cc_ConditionFormatTemplate = ''a table sits above <threshold>x its autovacuum trigger threshold with a material amount of dead rows''\<rparr>\<close>

definition Checks_PostgresStaleStatistics :: CheckConfig where
  \<open>Checks_PostgresStaleStatistics = \<lparr>cc_Id = [], cc_Category = AuditReportPostgres, cc_Type = CheckTypeItemBased, cc_Title = ''Postgres stale statistics'',
     cc_DefaultThreshold = Fin 2, cc_Unit = [],
     cc_MessageTemplate = ''planner statistics are stale on {{.Items "postgres instance"}}'',
     cc_ConditionFormatTemplate = ''a large table sits above <threshold>x its autoanalyze trigger threshold''\<rparr>\<close>

definition Checks_PostgresBackups :: CheckConfig where
  \<open>Checks_PostgresBackups = \<lparr>cc_Id = [], cc_Category = AuditReportPostgres, cc_Type = CheckTypeItemBased, cc_Title = ''Postgres backups'',
     cc_DefaultThreshold = Fin 86400, cc_Unit = CheckUnitSecond,
     cc_MessageTemplate = ''backups are failing or stale on {{.Items "postgres cluster"}}'',
     cc_ConditionFormatTemplate = ''no successful backup within <threshold>, the last backup failed, or WAL archiving is broken''\<rparr>\<close>

definition Checks_LogErrors :: CheckConfig where
  \<open>Checks_LogErrors = \<lparr>cc_Id = [], cc_Category = AuditReportLogs, cc_Type = CheckTypeEventBased, cc_Title = ''Errors'',
     cc_DefaultThreshold = Fin 0, cc_Unit = [],
     cc_MessageTemplate = ''{{.Count "error"}} occurred'',
     cc_ConditionFormatTemplate = ''the number of messages with the ERROR and CRITICAL severity levels > <threshold>''\<rparr>\<close>

definition Checks_JvmAvailability :: CheckConfig where
  \<open>Checks_JvmAvailability = \<lparr>cc_Id = [], cc_Category = AuditReportJvm, cc_Type = CheckTypeItemBased, cc_Title = ''JVM availability'',
     cc_DefaultThreshold = Fin 0, cc_Unit = [],
     cc_MessageTemplate = ''{{.ItemsWithToBe "JVM instance"}} unavailable'',
     cc_ConditionFormatTemplate = ''the number of unavailable JVM instances > <threshold>''\<rparr>\<close>

definition Checks_JvmSafepointTime :: CheckConfig where
  \<open>Checks_JvmSafepointTime = \<lparr>cc_Id = [], cc_Category = AuditReportJvm, cc_Type = CheckTypeItemBased, cc_Title = ''JVM safepoints'',
     cc_DefaultThreshold = round32 False (5 / 100), cc_Unit = CheckUnitSecond,
     cc_MessageTemplate = ''high safepoint time on {{.Items "JVM instance"}}'',
     cc_ConditionFormatTemplate = ''the time application have been stopped for safepoint operations > <threshold>''\<rparr>\<close>

definition Checks_DotNetAvailability :: CheckConfig where
  \<open>Checks_DotNetAvailability = \<lparr>cc_Id = [], cc_Category = AuditReportDotNet, cc_Type = CheckTypeItemBased, cc_Title = ''.NET runtime availability'',
     cc_DefaultThreshold = Fin 0, cc_Unit = [],
     cc_MessageTemplate = ''{{.ItemsWithToBe ".NET instance"}} unavailable'',
     cc_ConditionFormatTemplate = ''the number of unavailable .NET instances > <threshold>''\<rparr>\<close>

definition Checks_PythonGILWaitingTime :: CheckConfig where
  \<open>Checks_PythonGILWaitingTime = \<lparr>cc_Id = [], cc_Category = AuditReportPython, cc_Type = CheckTypeItemBased, cc_Title = ''Python GIL (Global Interpreter Lock) waiting time'',
     cc_DefaultThreshold = round32 False (5 / 100), cc_Unit = CheckUnitSecond,
     cc_MessageTemplate = ''high GIL waiting times on {{.Items "Python instance"}}'',
     cc_ConditionFormatTemplate = ''the time Python threads have been waiting for acquiring the GIL (Global Interpreter Lock) > <threshold>''\<rparr>\<close>

definition Checks_NodejsEventLoopBlockedTime :: CheckConfig where
  \<open>Checks_NodejsEventLoopBlockedTime = \<lparr>cc_Id = [], cc_Category = AuditReportNodejs, cc_Type = CheckTypeItemBased, cc_Title = ''Node.js event loop blocked time'',
     cc_DefaultThreshold = round32 False (7 / 10), cc_Unit = CheckUnitSecond,
     cc_MessageTemplate = ''high Node.js event loop blocked times on {{.Items "Node.js instance"}}'',
     cc_ConditionFormatTemplate = ''the time Node.js event loop executes blocking code > <threshold>''\<rparr>\<close>

definition Checks_DnsLatency :: CheckConfig where
  \<open>Checks_DnsLatency = \<lparr>cc_Id = [], cc_Category = AuditReportDNS, cc_Type = CheckTypeValueBased, cc_Title = ''DNS latency'',
     cc_DefaultThreshold = round32 False (1 / 10), cc_Unit = CheckUnitSecond,
     cc_MessageTemplate = ''high latency'',
     cc_ConditionFormatTemplate = ''the 95th percentile of DNS response times > <threshold>''\<rparr>\<close>

definition Checks_DnsServerErrors :: CheckConfig where
  \<open>Checks_DnsServerErrors = \<lparr>cc_Id = [], cc_Category = AuditReportDNS, cc_Type = CheckTypeEventBased, cc_Title = ''DNS server errors'',
     cc_DefaultThreshold = Fin 0, cc_Unit = [],
     cc_MessageTemplate = ''{{.Count "server DNS error"}} occurred'',
     cc_ConditionFormatTemplate = ''the number of server DNS errors (excluding NXDOMAIN) > <threshold>''\<rparr>\<close>

definition Checks_DnsNxdomainErrors :: CheckConfig where
  \<open>Checks_DnsNxdomainErrors = \<lparr>cc_Id = [], cc_Category = AuditReportDNS, cc_Type = CheckTypeEventBased, cc_Title = ''DNS NXDOMAIN errors'',
     cc_DefaultThreshold = Fin 0, cc_Unit = [],
     cc_MessageTemplate = ''the app received an empty DNS response {{.Count "time"}}'',
     cc_ConditionFormatTemplate = ''the number of the NXDOMAIN DNS errors (for previously valid requests) > <threshold>''\<rparr>\<close>

definition Checks_MysqlAvailability :: CheckConfig where
  \<open>Checks_MysqlAvailability = \<lparr>cc_Id = [], cc_Category = AuditReportMysql, cc_Type = CheckTypeItemBased, cc_Title = ''Mysql availability'',
     cc_DefaultThreshold = Fin 0, cc_Unit = [],
     cc_MessageTemplate = ''{{.ItemsWithToBe "mysql instance"}} unavailable'',
     cc_ConditionFormatTemplate = ''the number of unavailable mysql instances > <threshold>''\<rparr>\<close>

definition Checks_MysqlReplicationStatus :: CheckConfig where
  \<open>Checks_MysqlReplicationStatus = \<lparr>cc_Id = [], cc_Category = AuditReportMysql, cc_Type = CheckTypeItemBased, cc_Title = ''Mysql replication status'',
     cc_DefaultThreshold = Fin 0, cc_Unit = CheckUnitSecond,
     cc_MessageTemplate = ''{{.ItemsWithHave "mysql replica"}} issues with IO or SQL replication threads'',
     cc_ConditionFormatTemplate = ''IO or SQL replication thread is not running ''\<rparr>\<close>

definition Checks_MysqlReplicationLag :: CheckConfig where
  \<open>Checks_MysqlReplicationLag = \<lparr>cc_Id = [], cc_Category = AuditReportMysql, cc_Type = CheckTypeItemBased, cc_Title = ''Mysql replication lag'',
     cc_DefaultThreshold = Fin 30, cc_Unit = CheckUnitSecond,
     cc_MessageTemplate = ''{{.ItemsWithToBe "mysql replica"}} far behind the primary'',
     cc_ConditionFormatTemplate = ''replication lag > <threshold>''\<rparr>\<close>

definition Checks_MysqlConnections :: CheckConfig where
  \<open>Checks_MysqlConnections = \<lparr>cc_Id = [], cc_Category = AuditReportMysql, cc_Type = CheckTypeItemBased, cc_Title = ''Mysql connections'',
     cc_DefaultThreshold = Fin 90, cc_Unit = CheckUnitPercent,
     cc_MessageTemplate = ''{{.ItemsWithHave "mysql instance"}} too many connections'',
     cc_ConditionFormatTemplate = ''the number of connections > <threshold> of `max_connections`''\<rparr>\<close>

text \<open>The fields of the struct in their order, and the index that \<^verbatim>\<open>init\<close> makes with the names of the fields as ids.\<close>

definition Checks_fields :: "(string \<times> CheckConfig) list" where
  "Checks_fields =
    [(''SLOAvailability'', Checks_SLOAvailability),
     (''SLOLatency'', Checks_SLOLatency),
     (''CPUNode'', Checks_CPUNode),
     (''CPUContainer'', Checks_CPUContainer),
     (''MemoryOOM'', Checks_MemoryOOM),
     (''MemoryLeakPercent'', Checks_MemoryLeakPercent),
     (''MemoryPressure'', Checks_MemoryPressure),
     (''StorageSpace'', Checks_StorageSpace),
     (''StorageIOLoad'', Checks_StorageIOLoad),
     (''NetworkRTT'', Checks_NetworkRTT),
     (''NetworkRTTExternal'', Checks_NetworkRTTExternal),
     (''NetworkRTTOtherClusters'', Checks_NetworkRTTOtherClusters),
     (''NetworkConnectivity'', Checks_NetworkConnectivity),
     (''NetworkTCPConnections'', Checks_NetworkTCPConnections),
     (''InstanceAvailability'', Checks_InstanceAvailability),
     (''DeploymentStatus'', Checks_DeploymentStatus),
     (''InstanceRestarts'', Checks_InstanceRestarts),
     (''RedisAvailability'', Checks_RedisAvailability),
     (''RedisLatency'', Checks_RedisLatency),
     (''MongodbAvailability'', Checks_MongodbAvailability),
     (''MongodbReplicationLag'', Checks_MongodbReplicationLag),
     (''MongodbLatency'', Checks_MongodbLatency),
     (''MongodbOplogWindow'', Checks_MongodbOplogWindow),
     (''MongodbConnections'', Checks_MongodbConnections),
     (''MongodbSaturation'', Checks_MongodbSaturation),
     (''MongodbFragmentation'', Checks_MongodbFragmentation),
     (''MongodbBackups'', Checks_MongodbBackups),
     (''MemcachedAvailability'', Checks_MemcachedAvailability),
     (''PostgresAvailability'', Checks_PostgresAvailability),
     (''PostgresLatency'', Checks_PostgresLatency),
     (''PostgresReplicationLag'', Checks_PostgresReplicationLag),
     (''PostgresConnections'', Checks_PostgresConnections),
     (''PostgresCheckpoint'', Checks_PostgresCheckpoint),
     (''PostgresWalArchiving'', Checks_PostgresWalArchiving),
     (''PostgresWraparound'', Checks_PostgresWraparound),
     (''PostgresBloat'', Checks_PostgresBloat),
     (''PostgresAutovacuum'', Checks_PostgresAutovacuum),
     (''PostgresStaleStatistics'', Checks_PostgresStaleStatistics),
     (''PostgresBackups'', Checks_PostgresBackups),
     (''LogErrors'', Checks_LogErrors),
     (''JvmAvailability'', Checks_JvmAvailability),
     (''JvmSafepointTime'', Checks_JvmSafepointTime),
     (''DotNetAvailability'', Checks_DotNetAvailability),
     (''PythonGILWaitingTime'', Checks_PythonGILWaitingTime),
     (''NodejsEventLoopBlockedTime'', Checks_NodejsEventLoopBlockedTime),
     (''DnsLatency'', Checks_DnsLatency),
     (''DnsServerErrors'', Checks_DnsServerErrors),
     (''DnsNxdomainErrors'', Checks_DnsNxdomainErrors),
     (''MysqlAvailability'', Checks_MysqlAvailability),
     (''MysqlReplicationStatus'', Checks_MysqlReplicationStatus),
     (''MysqlReplicationLag'', Checks_MysqlReplicationLag),
     (''MysqlConnections'', Checks_MysqlConnections)]"

definition Checks_index :: "(CheckId \<times> CheckConfig) list" where
  "Checks_index = map (\<lambda>(name, c). (name, c\<lparr>cc_Id := name\<rparr>)) Checks_fields"

definition GetCheckConfigs :: "(CheckId \<times> CheckConfig) list" where
  "GetCheckConfigs = Checks_index"

subsection \<open>Messages\<close>

record CheckContext =
  cx_items :: StringSet
  cx_count :: int
  cx_value :: f32
  cx_unit :: CheckUnit
  cx_threshold :: f32

definition CheckContext_Items :: "Formatters \<Rightarrow> CheckContext \<Rightarrow> string \<Rightarrow> string" where
  "CheckContext_Items fm c singular = fm_Plural fm (int (StringSet_Len (Some (cx_items c)))) singular"

definition ItemsWithToBe :: "Formatters \<Rightarrow> CheckContext \<Rightarrow> string \<Rightarrow> string" where
  "ItemsWithToBe fm c singular =
     CheckContext_Items fm c singular @ '' '' @ (if StringSet_Len (Some (cx_items c)) > 1 then ''are'' else ''is'')"

definition ItemsWithHave :: "Formatters \<Rightarrow> CheckContext \<Rightarrow> string \<Rightarrow> string" where
  "ItemsWithHave fm c singular =
     CheckContext_Items fm c singular @ '' '' @ (if StringSet_Len (Some (cx_items c)) > 1 then ''have'' else ''has'')"

definition CheckContext_Count :: "Formatters \<Rightarrow> CheckContext \<Rightarrow> string \<Rightarrow> string" where
  "CheckContext_Count fm c singular = fm_Plural fm (cx_count c) singular"

definition CheckContext_Value :: "Formatters \<Rightarrow> CheckContext \<Rightarrow> string" where
  "CheckContext_Value fm c = CheckUnit_FormatValue fm (cx_unit c) (cx_value c)"

definition ValuePercent :: "CheckContext \<Rightarrow> string" where
  "ValuePercent c = Sprintf_f False 0 (cx_value c) @ ''%''"

definition ValueDuration :: "CheckContext \<Rightarrow> string" where
  "ValueDuration c = FormatLatency (cx_value c)"

definition ThresholdPercent :: "CheckContext \<Rightarrow> string" where
  "ThresholdPercent c = Sprintf_f False 0 (cx_threshold c) @ ''%''"

text \<open>Templates: text, and calls of a method of the context with at most one argument.\<close>

datatype piece = Text string | Call string "string option"

fun split_double :: "char \<Rightarrow> string \<Rightarrow> (string \<times> string) option" where
  "split_double c (x # y # r) = (if x = c \<and> y = c then Some ([], r) else map_option (apfst (Cons x)) (split_double c (y # r)))"
| "split_double c _ = None"

definition parse_call :: "string \<Rightarrow> piece option" where
  "parse_call s =
     (case s of
        [] \<Rightarrow> None
      | c # r \<Rightarrow>
          if c \<noteq> CHR ''.'' then None
          else
            (case strings_SplitN r CHR '' '' 2 of
               [name] \<Rightarrow> Some (Call name None)
             | [name, arg] \<Rightarrow>
                 (if length arg \<ge> 2 \<and> hd arg = CHR 0x22 \<and> last arg = CHR 0x22 then Some (Call name (Some (butlast (tl arg)))) else None)
             | _ \<Rightarrow> None))"

lemma split_double_shorter: "split_double c s = Some (a, b) \<Longrightarrow> length b < length s"
  by (induction c s arbitrary: a rule: split_double.induct) (auto split: if_splits)

function parse_template :: "string \<Rightarrow> piece list option" where
  "parse_template s =
     (case split_double CHR ''{'' s of
        None \<Rightarrow> Some [Text s]
      | Some (b, r) \<Rightarrow>
          (case split_double CHR ''}'' r of
             None \<Rightarrow> None
           | Some (call, rest) \<Rightarrow>
               (case parse_call call of
                  None \<Rightarrow> None
                | Some p \<Rightarrow> map_option (\<lambda>ps. Text b # p # ps) (parse_template rest))))"
  by pat_completeness auto
termination
  by (relation "measure length") (auto dest!: split_double_shorter)

declare parse_template.simps [simp del]

definition call_method :: "Formatters \<Rightarrow> CheckContext \<Rightarrow> string \<Rightarrow> string option \<Rightarrow> string option" where
  "call_method fm c name arg =
     (case arg of
        Some s \<Rightarrow>
          (if name = ''Items'' then Some (CheckContext_Items fm c s)
           else if name = ''ItemsWithToBe'' then Some (ItemsWithToBe fm c s)
           else if name = ''ItemsWithHave'' then Some (ItemsWithHave fm c s)
           else if name = ''Count'' then Some (CheckContext_Count fm c s)
           else None)
      | None \<Rightarrow>
          (if name = ''Value'' then Some (CheckContext_Value fm c)
           else if name = ''ValuePercent'' then Some (ValuePercent c)
           else if name = ''ValueDuration'' then Some (ValueDuration c)
           else if name = ''ThresholdPercent'' then Some (ThresholdPercent c)
           else None))"

fun execute :: "Formatters \<Rightarrow> CheckContext \<Rightarrow> piece list \<Rightarrow> string option" where
  "execute fm c [] = Some []"
| "execute fm c (Text s # ps) = map_option (\<lambda>r. s @ r) (execute fm c ps)"
| "execute fm c (Call name arg # ps) =
     (case call_method fm c name arg of None \<Rightarrow> None | Some s \<Rightarrow> map_option (\<lambda>r. s @ r) (execute fm c ps))"

subsection \<open>A check of a report\<close>

text \<open>The fields that only the auditor uses, beside those the watchers read; widgets are left out.\<close>

record CheckState = Check +
  ck_Threshold :: f32
  ck_Unit :: CheckUnit
  ck_ConditionFormatTemplate :: string
  ck_typ :: CheckType
  ck_messageTemplate :: string
  ck_items :: StringSet
  ck_count :: int
  ck_desired :: int
  ck_values :: "TimeSeries option"
  ck_fired :: bool

definition SetValue :: "f32 \<Rightarrow> CheckState \<Rightarrow> CheckState" where "SetValue v ch = ch\<lparr>ch_value := v\<rparr>"
definition SetValues :: "TimeSeries option \<Rightarrow> CheckState \<Rightarrow> CheckState" where "SetValues vs ch = ch\<lparr>ck_values := vs\<rparr>"
definition Fire :: "CheckState \<Rightarrow> CheckState" where "Fire ch = ch\<lparr>ck_fired := True\<rparr>"
definition SetStatus :: "Status \<Rightarrow> string \<Rightarrow> CheckState \<Rightarrow> CheckState" where
  "SetStatus status message ch = ch\<lparr>ch_Status := status, ch_Message := message\<rparr>"
definition AddDetail :: "string \<Rightarrow> CheckState \<Rightarrow> CheckState" where
  "AddDetail text ch =
     (if text = [] then ch
      else ch\<lparr>ch_Details := Some (StringSet_Add (case ch_Details ch of None \<Rightarrow> [] | Some ss \<Rightarrow> ss) [text])\<rparr>)"
definition AddItem :: "string \<Rightarrow> CheckState \<Rightarrow> CheckState" where
  "AddItem text ch = ch\<lparr>ck_items := StringSet_Add (ck_items ch) [text]\<rparr>"
definition Inc :: "int \<Rightarrow> CheckState \<Rightarrow> CheckState" where "Inc amount ch = ch\<lparr>ck_count := int64 (ck_count ch + amount)\<rparr>"
definition ResetCounter :: "CheckState \<Rightarrow> CheckState" where "ResetCounter ch = ch\<lparr>ck_count := 0\<rparr>"
definition SetDesired :: "int \<Rightarrow> CheckState \<Rightarrow> CheckState" where "SetDesired desired ch = ch\<lparr>ck_desired := desired\<rparr>"

definition exceeded :: "CheckState \<Rightarrow> bool" where
  "exceeded ch =
     (case ck_typ ch of
        CheckTypeEventBased \<Rightarrow> \<not> ck_count ch \<le> int64_of_f32 (ck_Threshold ch)
      | CheckTypeItemBased \<Rightarrow> StringSet_Len (Some (ck_items ch)) \<noteq> 0
      | CheckTypeValueBased \<Rightarrow> \<not> f32_le (ch_value ch) (ck_Threshold ch)
      | CheckTypeManual \<Rightarrow> ck_fired ch)"

definition Calc :: "Formatters \<Rightarrow> CheckState \<Rightarrow> CheckState" where
  "Calc fm ch =
     (if \<not> exceeded ch then ch
      else
        (case parse_template (ck_messageTemplate ch) of
           None \<Rightarrow> SetStatus UNKNOWN (''invalid template: '' @ fm_parse_error fm (ck_messageTemplate ch)) ch
         | Some t \<Rightarrow>
             (case execute fm \<lparr>cx_items = ck_items ch, cx_count = ck_count ch, cx_value = ch_value ch, cx_unit = ck_Unit ch,
                     cx_threshold = ck_Threshold ch\<rparr> t of
                None \<Rightarrow> SetStatus UNKNOWN (''failed to render message: '' @ fm_exec_error fm (ck_messageTemplate ch)) ch
              | Some s \<Rightarrow> SetStatus WARNING s ch)))"

subsection \<open>Configured thresholds\<close>

type_synonym CheckConfigSource = string

record CheckConfigSimple =
  cs_Threshold :: f32

record CheckConfigSLOAvailability =
  ca_Custom :: bool
  ca_TotalRequestsQuery :: string
  ca_FailedRequestsQuery :: string
  ca_ObjectivePercentage :: f32
  ca_Source :: CheckConfigSource
  ca_Error :: string

definition Availability_Total :: "CheckConfigSLOAvailability \<Rightarrow> string" where
  "Availability_Total cfg = ''sum(rate('' @ ca_TotalRequestsQuery cfg @ ''[$RANGE]))''"

definition Availability_Failed :: "CheckConfigSLOAvailability \<Rightarrow> string" where
  "Availability_Failed cfg = ''sum(rate('' @ ca_FailedRequestsQuery cfg @ ''[$RANGE]))''"

record CheckConfigSLOLatency =
  cl_Custom :: bool
  cl_HistogramQuery :: string
  cl_ObjectiveBucket :: f32
  cl_ObjectivePercentage :: f32
  cl_Source :: CheckConfigSource
  cl_Error :: string

definition Latency_Histogram :: "CheckConfigSLOLatency \<Rightarrow> string" where
  "Latency_Histogram cfg = ''sum by(le)(rate('' @ cl_HistogramQuery cfg @ ''[$RANGE]))''"

text \<open>A raw JSON message by what it decodes to at each of the three types; \<open>None\<close> is an error.\<close>

record RawMessage =
  raw_simple :: "CheckConfigSimple option"
  raw_availability :: "CheckConfigSLOAvailability list option"
  raw_latency :: "CheckConfigSLOLatency list option"

type_synonym CheckConfigs = "(ApplicationId \<times> (CheckId \<times> RawMessage) list) list"

definition lookup_config :: "CheckConfigs \<Rightarrow> ApplicationId \<Rightarrow> CheckId \<Rightarrow> RawMessage option" where
  "lookup_config cc appId checkId = (case map_of cc appId of None \<Rightarrow> None | Some cfgs \<Rightarrow> map_of cfgs checkId)"

fun glob_config :: "CheckConfigs \<Rightarrow> string \<Rightarrow> CheckId \<Rightarrow> RawMessage option" where
  "glob_config [] appIdStr checkId = None"
| "glob_config ((configAppId, appConfigs) # rest) appIdStr checkId =
     (if ApplicationId_IsZero configAppId then glob_config rest appIdStr checkId
      else if GlobMatch appIdStr [StringWithoutClusterId configAppId]
        then (case map_of appConfigs checkId of Some cfg \<Rightarrow> Some cfg | None \<Rightarrow> glob_config rest appIdStr checkId)
      else glob_config rest appIdStr checkId)"

definition getRaw :: "CheckConfigs \<Rightarrow> ApplicationId \<Rightarrow> CheckId \<Rightarrow> RawMessage option \<times> bool" where
  "getRaw cc appId checkId =
     (case lookup_config cc appId checkId of
        Some cfg \<Rightarrow> (Some cfg, False)
      | None \<Rightarrow>
          (case glob_config cc (StringWithoutClusterId appId) checkId of
             Some cfg \<Rightarrow> (Some cfg, False)
           | None \<Rightarrow>
               (case lookup_config cc ApplicationIdZero checkId of Some cfg \<Rightarrow> (Some cfg, True) | None \<Rightarrow> (None, False))))"

text \<open>\<^verbatim>\<open>GetSimple\<close>; an unknown check is a nil pointer: \<open>None\<close>.\<close>

definition GetSimple :: "CheckConfigs \<Rightarrow> CheckId \<Rightarrow> ApplicationId \<Rightarrow> CheckConfigSimple option" where
  "GetSimple cc checkId appId =
     (case map_of Checks_index checkId of
        None \<Rightarrow> None
      | Some c \<Rightarrow>
          (let cfg = \<lparr>cs_Threshold = cc_DefaultThreshold c\<rparr>
           in case fst (getRaw cc appId checkId) of
                None \<Rightarrow> Some cfg
              | Some raw \<Rightarrow> (case raw_simple raw of None \<Rightarrow> Some cfg | Some v \<Rightarrow> Some v)))"

definition GetSimpleAll :: "CheckConfigs \<Rightarrow> CheckId \<Rightarrow> ApplicationId \<Rightarrow> CheckConfigSimple option list" where
  "GetSimpleAll cc checkId appId =
     (case map_of Checks_index checkId of
        None \<Rightarrow> []
      | Some c \<Rightarrow>
          Some \<lparr>cs_Threshold = cc_DefaultThreshold c\<rparr> #
          map (\<lambda>i. case lookup_config cc i checkId of None \<Rightarrow> None | Some raw \<Rightarrow> raw_simple raw)
            (ApplicationIdZero # (if ApplicationId_IsZero appId then [] else [appId])))"

definition GetAvailability :: "CheckConfigs \<Rightarrow> ApplicationId \<Rightarrow> CheckConfigSLOAvailability \<times> bool" where
  "GetAvailability cc appId =
     (let defaultCfg = \<lparr>ca_Custom = False, ca_TotalRequestsQuery = [], ca_FailedRequestsQuery = [],
            ca_ObjectivePercentage = cc_DefaultThreshold Checks_SLOAvailability, ca_Source = [], ca_Error = []\<rparr>
      in case fst (getRaw cc appId ''SLOAvailability'') of
           None \<Rightarrow> (if Kind appId = ApplicationKindExternalService then defaultCfg\<lparr>ca_ObjectivePercentage := Fin 0\<rparr> else defaultCfg, True)
         | Some raw \<Rightarrow>
             (case raw_availability raw of None \<Rightarrow> (defaultCfg, True) | Some [] \<Rightarrow> (defaultCfg, True) | Some (c # _) \<Rightarrow> (c, False)))"

definition GetLatency :: "CheckConfigs \<Rightarrow> ApplicationId \<Rightarrow> ApplicationCategory \<Rightarrow> CheckConfigSLOLatency \<times> bool" where
  "GetLatency cc appId category =
     (let auxObjectiveBucket = Fin 5;
          objectiveBucket = (if Category_Auxiliary category then auxObjectiveBucket else Fin (1/2));
          defaultCfg = \<lparr>cl_Custom = False, cl_HistogramQuery = [], cl_ObjectiveBucket = objectiveBucket,
            cl_ObjectivePercentage = cc_DefaultThreshold Checks_SLOLatency, cl_Source = [], cl_Error = []\<rparr>;
          (r, projectDefault) = getRaw cc appId ''SLOLatency''
      in case r of
           None \<Rightarrow> (if Kind appId = ApplicationKindExternalService then defaultCfg\<lparr>cl_ObjectivePercentage := Fin 0\<rparr> else defaultCfg, True)
         | Some raw \<Rightarrow>
             (case raw_latency raw of
                None \<Rightarrow> (defaultCfg, True)
              | Some [] \<Rightarrow> (defaultCfg, True)
              | Some (c # _) \<Rightarrow>
                  (if projectDefault \<and> Category_Auxiliary category then c\<lparr>cl_ObjectiveBucket := auxObjectiveBucket\<rparr> else c, False)))"

text \<open>\<^verbatim>\<open>strings.Replace(s, old, new, 1)\<close>, and \<^verbatim>\<open>AuditReport.CreateCheck\<close> (\<^verbatim>\<open>model/audit_report.go\<close>).\<close>

fun replace_first :: "string \<Rightarrow> string \<Rightarrow> string \<Rightarrow> string" where
  "replace_first [] old new = (if old = [] then new else [])"
| "replace_first (c # s) old new =
     (if has_prefix (c # s) old then new @ drop (length old) (c # s) else c # replace_first s old new)"

definition CreateCheck :: "CheckConfigs \<Rightarrow> ApplicationId \<Rightarrow> ApplicationCategory \<Rightarrow> CheckConfig \<Rightarrow> CheckState option" where
  "CreateCheck cc appId category cfg =
     (let ch = \<lparr>ch_Id = cc_Id cfg, ch_Title = cc_Title cfg, ch_Status = OK, ch_Message = [], ch_Details = None, ch_value = Fin 0,
            ck_Threshold = Fin 0, ck_Unit = cc_Unit cfg, ck_ConditionFormatTemplate = cc_ConditionFormatTemplate cfg,
            ck_typ = cc_Type cfg, ck_messageTemplate = cc_MessageTemplate cfg, ck_items = [], ck_count = 0, ck_desired = 0,
            ck_values = None, ck_fired = False\<rparr>
      in if cc_Id cfg = ''SLOAvailability''
         then Some (ch\<lparr>ck_Threshold := ca_ObjectivePercentage (fst (GetAvailability cc appId))\<rparr>)
         else if cc_Id cfg = ''SLOLatency''
         then (let l = fst (GetLatency cc appId category)
               in Some (ch\<lparr>ck_Threshold := cl_ObjectivePercentage l,
                    ck_ConditionFormatTemplate := replace_first (cc_ConditionFormatTemplate cfg) ''<bucket>'' (FormatLatency (cl_ObjectiveBucket l))\<rparr>))
         else map_option (\<lambda>s. ch\<lparr>ck_Threshold := cs_Threshold s\<rparr>) (GetSimple cc (cc_Id cfg) appId))"

subsection \<open>Every check works\<close>

text \<open>Templates that only call methods of the context with the right number of arguments.\<close>

definition good_piece :: "piece \<Rightarrow> bool" where
  "good_piece p = (case p of Text _ \<Rightarrow> True
     | Call n (Some _) \<Rightarrow> n \<in> {''Items'', ''ItemsWithToBe'', ''ItemsWithHave'', ''Count''}
     | Call n None \<Rightarrow> n \<in> {''Value'', ''ValuePercent'', ''ValueDuration'', ''ThresholdPercent''})"

definition good_template :: "string \<Rightarrow> bool" where
  "good_template t \<longleftrightarrow> (case parse_template t of None \<Rightarrow> False | Some ps \<Rightarrow> list_all good_piece ps)"

lemma execute_good: "list_all good_piece ps \<Longrightarrow> execute fm c ps \<noteq> None"
  by (induction fm c ps rule: execute.induct) (auto simp: good_piece_def call_method_def split: option.splits)

lemma Calc_good: "good_template (ck_messageTemplate ch) \<Longrightarrow> ch_Status (Calc fm ch) = (if exceeded ch then WARNING else ch_Status ch)"
proof (cases "parse_template (ck_messageTemplate ch)")
  case (Some ps)
  moreover assume "good_template (ck_messageTemplate ch)"
  ultimately have "execute fm \<lparr>cx_items = ck_items ch, cx_count = ck_count ch, cx_value = ch_value ch, cx_unit = ck_Unit ch,
      cx_threshold = ck_Threshold ch\<rparr> ps \<noteq> None" by (simp add: good_template_def execute_good)
  then show ?thesis using Some by (auto simp: Calc_def SetStatus_def)
qed (simp add: good_template_def)

lemma checks_good: "list_all (\<lambda>(n, c). good_template (cc_MessageTemplate c)) Checks_fields"
  by code_simp

lemma checks_distinct: "distinct (map fst Checks_fields)"
  by code_simp

lemma in_Checks_index:
  assumes "(name, conf) \<in> set Checks_index"
  shows "cc_Id conf = name" "good_template (cc_MessageTemplate conf)" "map_of Checks_index name = Some conf"
proof -
  obtain c where c: "(name, c) \<in> set Checks_fields" "conf = c\<lparr>cc_Id := name\<rparr>" using assms by (auto simp: Checks_index_def)
  then show "cc_Id conf = name" "good_template (cc_MessageTemplate conf)" using checks_good by (auto simp: list_all_iff)
  have "distinct (map fst Checks_index)" using checks_distinct by (simp add: Checks_index_def comp_def case_prod_beta)
  then show "map_of Checks_index name = Some conf" using assms by (rule map_of_is_SomeI)
qed

text \<open>What the auditor does to a check before its status is computed.\<close>

inductive audit_step :: "CheckState \<Rightarrow> CheckState \<Rightarrow> bool" where
  set_value: "audit_step ch (SetValue v ch)"
| set_values: "audit_step ch (SetValues vs ch)"
| fire: "audit_step ch (Fire ch)"
| set_status: "audit_step ch (SetStatus st msg ch)"
| detail: "audit_step ch (AddDetail txt ch)"
| item: "audit_step ch (AddItem txt ch)"
| inc: "audit_step ch (Inc n ch)"
| reset: "audit_step ch (ResetCounter ch)"
| desired: "audit_step ch (SetDesired n ch)"
| calc: "audit_step ch (Calc fm ch)"

lemmas check_op_defs = SetValue_def SetValues_def Fire_def SetStatus_def AddDetail_def AddItem_def Inc_def ResetCounter_def SetDesired_def

definition check_ok :: "CheckState \<Rightarrow> bool" where
  "check_ok ch \<longleftrightarrow> distinct (ck_items ch) \<and> [] \<notin> set (ck_items ch) \<and> - (2 ^ 63) \<le> ck_count ch \<and> ck_count ch < 2 ^ 63"

lemma int64_range: "- 9223372036854775808 \<le> int64 n" "int64 n < 9223372036854775808"
  by (simp_all add: int64_def)

lemma audit_step_keeps:
  assumes "audit_step ch ch'"
  shows "ch_Id ch' = ch_Id ch \<and> ck_messageTemplate ch' = ck_messageTemplate ch \<and> ck_typ ch' = ck_typ ch \<and>
    ck_Threshold ch' = ck_Threshold ch \<and> (check_ok ch \<longrightarrow> check_ok ch')"
  using assms by (cases rule: audit_step.cases) (auto simp: check_op_defs Calc_def check_ok_def int64_range split: option.splits)

lemma audit_steps_keep:
  assumes "audit_step\<^sup>*\<^sup>* ch ch'"
  shows "ch_Id ch' = ch_Id ch \<and> ck_messageTemplate ch' = ck_messageTemplate ch \<and> ck_typ ch' = ck_typ ch \<and>
    ck_Threshold ch' = ck_Threshold ch \<and> (check_ok ch \<longrightarrow> check_ok ch')"
  using assms by (induction rule: rtranclp_induct) (auto dest: audit_step_keeps)

text \<open>
  C34. Every check of the table works, whatever is configured: creating it never fails, and whatever the
  auditor records of it (values, items, events, in any order) its items stay distinct, its counter stays a
  64-bit number, and computing its status never ends in a template error: it becomes a warning exactly when
  the condition of its type is met, and stays as it is otherwise.
\<close>

theorem every_check_works:
  assumes "(name, conf) \<in> set Checks_index"
  shows "\<exists>ch0. CreateCheck cc appId category conf = Some ch0 \<and>
    (\<forall>ch. audit_step\<^sup>*\<^sup>* ch0 ch \<longrightarrow>
       ch_Id ch = name \<and> check_ok ch \<and> ch_Status (Calc fm ch) = (if exceeded ch then WARNING else ch_Status ch))"
proof -
  note c = in_Checks_index [OF assms]
  have "GetSimple cc name appId \<noteq> None" using c(3) by (auto simp: GetSimple_def Let_def split: option.splits)
  then obtain ch0 where ch0: "CreateCheck cc appId category conf = Some ch0" "ch_Id ch0 = name"
      "ck_messageTemplate ch0 = cc_MessageTemplate conf" "check_ok ch0"
    using c(1) by (cases "name = ''SLOAvailability''"; cases "name = ''SLOLatency''") (auto simp: CreateCheck_def Let_def check_ok_def)
  have "ch_Id ch = name \<and> check_ok ch \<and> ch_Status (Calc fm ch) = (if exceeded ch then WARNING else ch_Status ch)"
    if "audit_step\<^sup>*\<^sup>* ch0 ch" for ch
    using audit_steps_keep [OF that] ch0(2-4) Calc_good [of ch fm] c(2) by simp
  then show ?thesis using ch0(1) by blast
qed

theorem every_check_works_witness:
  "ch_Status (Calc demo_formatters (Inc 3 (the (CreateCheck [] ApplicationIdZero ApplicationCategoryApplication (Checks_MemoryOOM\<lparr>cc_Id := ''MemoryOOM''\<rparr>))))) = WARNING"
proof -
  let ?conf = "Checks_MemoryOOM\<lparr>cc_Id := ''MemoryOOM''\<rparr>"
  have "(''MemoryOOM'', ?conf) \<in> set Checks_index" by (simp add: Checks_index_def Checks_fields_def)
  from every_check_works [OF this, of "[]" ApplicationIdZero ApplicationCategoryApplication demo_formatters]
  obtain ch0 where c: "CreateCheck [] ApplicationIdZero ApplicationCategoryApplication ?conf = Some ch0"
      "\<And>ch. audit_step\<^sup>*\<^sup>* ch0 ch \<Longrightarrow> ch_Status (Calc demo_formatters ch) = (if exceeded ch then WARNING else ch_Status ch)" by blast
  have "GetSimple [] ''MemoryOOM'' ApplicationIdZero = Some \<lparr>cs_Threshold = Fin 0\<rparr>"
    using in_Checks_index(3) [OF \<open>(''MemoryOOM'', ?conf) \<in> set Checks_index\<close>]
    by (simp add: GetSimple_def getRaw_def lookup_config_def Checks_MemoryOOM_def Let_def)
  then have "ck_Threshold ch0 = Fin 0 \<and> ck_typ ch0 = CheckTypeEventBased \<and> ck_count ch0 = 0"
    using c(1) by (simp add: CreateCheck_def Let_def Checks_MemoryOOM_def) (drule sym, simp)
  then have x: "exceeded (Inc 3 ch0)"
    by (simp add: exceeded_def Inc_def int64_def int64_of_f32_def trunc_rat_def)
  have "audit_step\<^sup>*\<^sup>* ch0 (Inc 3 ch0)" by (intro r_into_rtranclp audit_step.inc)
  from c(2) [OF this] x show ?thesis unfolding c(1) option.sel by (simp only: if_True)
qed

text \<open>A configuration of the check for a pattern that matches the application.\<close>

definition pattern_config :: "string \<Rightarrow> CheckId \<Rightarrow> ApplicationId \<times> (CheckId \<times> RawMessage) list \<Rightarrow> bool" where
  "pattern_config s checkId x \<longleftrightarrow> \<not> ApplicationId_IsZero (fst x) \<and> GlobMatch s [StringWithoutClusterId (fst x)] \<and> map_of (snd x) checkId \<noteq> None"

lemma glob_config_find:
  "glob_config cc s checkId = (case find (pattern_config s checkId) cc of None \<Rightarrow> None | Some x \<Rightarrow> map_of (snd x) checkId)"
  by (induction cc) (auto simp: pattern_config_def)

lemma glob_config_cases:
  "case glob_config cc s checkId of
     Some raw \<Rightarrow> \<exists>x. x \<in> set cc \<and> pattern_config s checkId x \<and> map_of (snd x) checkId = Some raw
   | None \<Rightarrow> \<not> list_ex (pattern_config s checkId) cc"
proof (cases "find (pattern_config s checkId) cc")
  case None
  then have "\<not> list_ex (pattern_config s checkId) cc" by (auto simp: find_None_iff list_ex_iff)
  then show ?thesis by (simp add: glob_config_find None)
next
  case (Some x)
  then have x: "x \<in> set cc" "pattern_config s checkId x" by (metis find_Some_iff nth_mem)+
  then obtain raw where "map_of (snd x) checkId = Some raw" by (auto simp: pattern_config_def)
  then show ?thesis using Some x by (simp add: glob_config_find del: split_paired_Ex) blast
qed

text \<open>
  Which configuration of a check applies to an application: its own; otherwise one of a pattern that
  matches its id (without the cluster); otherwise the default of the project, and only that is reported as
  the default; none when there is none of these. So a configuration never applies to an application that
  it is not for.
\<close>

theorem check_config_applies:
  "case getRaw cc appId checkId of
     (Some raw, False) \<Rightarrow> lookup_config cc appId checkId = Some raw \<or>
       (lookup_config cc appId checkId = None \<and>
        (\<exists>x. x \<in> set cc \<and> pattern_config (StringWithoutClusterId appId) checkId x \<and> map_of (snd x) checkId = Some raw))
   | (Some raw, True) \<Rightarrow> lookup_config cc appId checkId = None \<and>
       \<not> list_ex (pattern_config (StringWithoutClusterId appId) checkId) cc \<and> lookup_config cc ApplicationIdZero checkId = Some raw
   | (None, b) \<Rightarrow> \<not> b \<and> lookup_config cc appId checkId = None \<and>
       \<not> list_ex (pattern_config (StringWithoutClusterId appId) checkId) cc \<and> lookup_config cc ApplicationIdZero checkId = None"
  using glob_config_cases [where cc = cc and s = "StringWithoutClusterId appId" and checkId = checkId]
  by (auto simp: getRaw_def split: option.splits)

end
