(* ===== verification/BuiltinRules.thy ===== *)
theory BuiltinRules
  imports Checks
begin

text \<open>
  The built-in alerting rules (\<^verbatim>\<open>BuiltinAlertingRules\<close> of \<^verbatim>\<open>model/alerting_rule.go\<close>), which every project
  starts with, and the properties of the two tables: the checks and the rules on them.
\<close>

subsection \<open>The table of rules\<close>

definition check_source :: "CheckId \<Rightarrow> AlertSource" where
  "check_source checkId = \<lparr>src_Type = AlertSourceTypeCheck, src_Check = Some \<lparr>chs_CheckId = checkId\<rparr>, src_LogPattern = None,
     src_PromQL = None, src_KubernetesEvents = None\<rparr>"

definition all_applications :: AppSelector where
  "all_applications = \<lparr>sel_Type = AppSelectorTypeAll, sel_Categories = [], sel_ApplicationIdPatterns = []\<rparr>"

definition rule_storage_space :: AlertingRule where
  \<open>rule_storage_space = \<lparr>r_Id = ''storage-space'', r_ProjectId = [], r_Name = ''Low disk space'',
     r_Source = check_source ''StorageSpace'', r_Selector = all_applications,
     r_Severity = WARNING, r_For = 5 * Minute, r_KeepFiringFor = 5 * Minute,
     r_Templates = \<lparr>tpl_Summary = [], tpl_Description = ''Disk space is running low. If the volume fills up completely, the application may fail to write data, causing errors and potential data loss.''\<rparr>,
     r_NotificationCategory = [], r_Enabled = True, r_Readonly = False, r_Builtin = True, r_CreatedAt = 0, r_UpdatedAt = 0\<rparr>\<close>

definition rule_memory_oom :: AlertingRule where
  \<open>rule_memory_oom = \<lparr>r_Id = ''memory-oom'', r_ProjectId = [], r_Name = ''Out of memory kills'',
     r_Source = check_source ''MemoryOOM'', r_Selector = all_applications,
     r_Severity = WARNING, r_For = 0, r_KeepFiringFor = 0,
     r_Templates = \<lparr>tpl_Summary = [], tpl_Description = ''Containers are being terminated by the kernel due to memory limits. This can cause request failures and temporary service unavailability.''\<rparr>,
     r_NotificationCategory = [], r_Enabled = True, r_Readonly = False, r_Builtin = True, r_CreatedAt = 0, r_UpdatedAt = 0\<rparr>\<close>

definition rule_memory_pressure :: AlertingRule where
  \<open>rule_memory_pressure = \<lparr>r_Id = ''memory-pressure'', r_ProjectId = [], r_Name = ''Memory pressure'',
     r_Source = check_source ''MemoryPressure'', r_Selector = all_applications,
     r_Severity = WARNING, r_For = 5 * Minute, r_KeepFiringFor = 5 * Minute,
     r_Templates = \<lparr>tpl_Summary = [], tpl_Description = ''High memory stall time indicates the application is waiting for memory operations, leading to increased latency and degraded performance.''\<rparr>,
     r_NotificationCategory = [], r_Enabled = True, r_Readonly = False, r_Builtin = True, r_CreatedAt = 0, r_UpdatedAt = 0\<rparr>\<close>

definition rule_memory_leak :: AlertingRule where
  \<open>rule_memory_leak = \<lparr>r_Id = ''memory-leak'', r_ProjectId = [], r_Name = ''Memory leak'',
     r_Source = check_source ''MemoryLeakPercent'', r_Selector = all_applications,
     r_Severity = WARNING, r_For = 15 * Minute, r_KeepFiringFor = 15 * Minute,
     r_Templates = \<lparr>tpl_Summary = [], tpl_Description = ''Memory usage is growing steadily, likely indicating a memory leak. Without intervention, the container will eventually be OOM-killed.''\<rparr>,
     r_NotificationCategory = [], r_Enabled = True, r_Readonly = False, r_Builtin = True, r_CreatedAt = 0, r_UpdatedAt = 0\<rparr>\<close>

definition rule_cpu_limit :: AlertingRule where
  \<open>rule_cpu_limit = \<lparr>r_Id = ''cpu-limit'', r_ProjectId = [], r_Name = ''Container CPU utilization'',
     r_Source = check_source ''CPUContainer'', r_Selector = all_applications,
     r_Severity = WARNING, r_For = 5 * Minute, r_KeepFiringFor = 5 * Minute,
     r_Templates = \<lparr>tpl_Summary = [], tpl_Description = ''Application is being throttled due to CPU limits. This can cause increased response times and request timeouts.''\<rparr>,
     r_NotificationCategory = [], r_Enabled = True, r_Readonly = False, r_Builtin = True, r_CreatedAt = 0, r_UpdatedAt = 0\<rparr>\<close>

definition rule_instance_availability :: AlertingRule where
  \<open>rule_instance_availability = \<lparr>r_Id = ''instance-availability'', r_ProjectId = [], r_Name = ''Instance availability'',
     r_Source = check_source ''InstanceAvailability'', r_Selector = all_applications,
     r_Severity = WARNING, r_For = 2 * Minute, r_KeepFiringFor = 5 * Minute,
     r_Templates = \<lparr>tpl_Summary = [], tpl_Description = ''Some application instances are unavailable. This reduces capacity and may affect service availability.''\<rparr>,
     r_NotificationCategory = [], r_Enabled = True, r_Readonly = False, r_Builtin = True, r_CreatedAt = 0, r_UpdatedAt = 0\<rparr>\<close>

definition rule_instance_restarts :: AlertingRule where
  \<open>rule_instance_restarts = \<lparr>r_Id = ''instance-restarts'', r_ProjectId = [], r_Name = ''Instance restarts'',
     r_Source = check_source ''InstanceRestarts'', r_Selector = all_applications,
     r_Severity = WARNING, r_For = 0, r_KeepFiringFor = 0,
     r_Templates = \<lparr>tpl_Summary = [], tpl_Description = ''Application instances are restarting frequently. This may indicate crashes, health check failures, or configuration issues.''\<rparr>,
     r_NotificationCategory = [], r_Enabled = True, r_Readonly = False, r_Builtin = True, r_CreatedAt = 0, r_UpdatedAt = 0\<rparr>\<close>

definition rule_network_connectivity :: AlertingRule where
  \<open>rule_network_connectivity = \<lparr>r_Id = ''network-connectivity'', r_ProjectId = [], r_Name = ''Network connectivity'',
     r_Source = check_source ''NetworkConnectivity'', r_Selector = all_applications,
     r_Severity = WARNING, r_For = 2 * Minute, r_KeepFiringFor = 5 * Minute,
     r_Templates = \<lparr>tpl_Summary = [], tpl_Description = ''Network connectivity issues detected. This may cause failed requests to upstream services.''\<rparr>,
     r_NotificationCategory = [], r_Enabled = True, r_Readonly = False, r_Builtin = True, r_CreatedAt = 0, r_UpdatedAt = 0\<rparr>\<close>

definition rule_redis_availability :: AlertingRule where
  \<open>rule_redis_availability = \<lparr>r_Id = ''redis-availability'', r_ProjectId = [], r_Name = ''Redis availability'',
     r_Source = check_source ''RedisAvailability'', r_Selector = all_applications,
     r_Severity = WARNING, r_For = 2 * Minute, r_KeepFiringFor = 5 * Minute,
     r_Templates = \<lparr>tpl_Summary = [], tpl_Description = ''Some Redis instances are unavailable. This may cause degraded performance or failures for dependent applications.''\<rparr>,
     r_NotificationCategory = [], r_Enabled = True, r_Readonly = False, r_Builtin = True, r_CreatedAt = 0, r_UpdatedAt = 0\<rparr>\<close>

definition rule_postgres_availability :: AlertingRule where
  \<open>rule_postgres_availability = \<lparr>r_Id = ''postgres-availability'', r_ProjectId = [], r_Name = ''Postgres availability'',
     r_Source = check_source ''PostgresAvailability'', r_Selector = all_applications,
     r_Severity = WARNING, r_For = 2 * Minute, r_KeepFiringFor = 5 * Minute,
     r_Templates = \<lparr>tpl_Summary = [], tpl_Description = ''Some PostgreSQL instances are unavailable. This may cause failures for dependent applications.''\<rparr>,
     r_NotificationCategory = [], r_Enabled = True, r_Readonly = False, r_Builtin = True, r_CreatedAt = 0, r_UpdatedAt = 0\<rparr>\<close>

definition rule_postgres_replication_lag :: AlertingRule where
  \<open>rule_postgres_replication_lag = \<lparr>r_Id = ''postgres-replication-lag'', r_ProjectId = [], r_Name = ''Postgres replication lag'',
     r_Source = check_source ''PostgresReplicationLag'', r_Selector = all_applications,
     r_Severity = WARNING, r_For = 2 * Minute, r_KeepFiringFor = 5 * Minute,
     r_Templates = \<lparr>tpl_Summary = [], tpl_Description = ''PostgreSQL replica is falling behind the primary. Read queries on replicas may return stale data.''\<rparr>,
     r_NotificationCategory = [], r_Enabled = True, r_Readonly = False, r_Builtin = True, r_CreatedAt = 0, r_UpdatedAt = 0\<rparr>\<close>

definition rule_postgres_latency :: AlertingRule where
  \<open>rule_postgres_latency = \<lparr>r_Id = ''postgres-latency'', r_ProjectId = [], r_Name = ''Postgres latency'',
     r_Source = check_source ''PostgresLatency'', r_Selector = all_applications,
     r_Severity = WARNING, r_For = 5 * Minute, r_KeepFiringFor = 5 * Minute,
     r_Templates = \<lparr>tpl_Summary = [], tpl_Description = ''PostgreSQL query latency is elevated. This may cause slow response times for dependent applications.''\<rparr>,
     r_NotificationCategory = [], r_Enabled = True, r_Readonly = False, r_Builtin = True, r_CreatedAt = 0, r_UpdatedAt = 0\<rparr>\<close>

definition rule_postgres_connections :: AlertingRule where
  \<open>rule_postgres_connections = \<lparr>r_Id = ''postgres-connections'', r_ProjectId = [], r_Name = ''Postgres connections'',
     r_Source = check_source ''PostgresConnections'', r_Selector = all_applications,
     r_Severity = WARNING, r_For = 5 * Minute, r_KeepFiringFor = 5 * Minute,
     r_Templates = \<lparr>tpl_Summary = [], tpl_Description = ''PostgreSQL connection pool is nearing capacity. New connections may be rejected.''\<rparr>,
     r_NotificationCategory = [], r_Enabled = True, r_Readonly = False, r_Builtin = True, r_CreatedAt = 0, r_UpdatedAt = 0\<rparr>\<close>

definition rule_postgres_checkpoints :: AlertingRule where
  \<open>rule_postgres_checkpoints = \<lparr>r_Id = ''postgres-checkpoints'', r_ProjectId = [], r_Name = ''Postgres checkpoints'',
     r_Source = check_source ''PostgresCheckpoint'', r_Selector = all_applications,
     r_Severity = WARNING, r_For = 5 * Minute, r_KeepFiringFor = 5 * Minute,
     r_Templates = \<lparr>tpl_Summary = [], tpl_Description = ''PostgreSQL is not completing checkpoints on schedule. The checkpointer may be stuck, risking a long crash recovery.''\<rparr>,
     r_NotificationCategory = [], r_Enabled = True, r_Readonly = False, r_Builtin = True, r_CreatedAt = 0, r_UpdatedAt = 0\<rparr>\<close>

definition rule_postgres_wal_archiving :: AlertingRule where
  \<open>rule_postgres_wal_archiving = \<lparr>r_Id = ''postgres-wal-archiving'', r_ProjectId = [], r_Name = ''Postgres WAL archiving'',
     r_Source = check_source ''PostgresWalArchiving'', r_Selector = all_applications,
     r_Severity = WARNING, r_For = 5 * Minute, r_KeepFiringFor = 5 * Minute,
     r_Templates = \<lparr>tpl_Summary = [], tpl_Description = ''PostgreSQL is failing to archive WAL. WAL files cannot be recycled and will accumulate until the disk fills.''\<rparr>,
     r_NotificationCategory = [], r_Enabled = True, r_Readonly = False, r_Builtin = True, r_CreatedAt = 0, r_UpdatedAt = 0\<rparr>\<close>

definition rule_postgres_wraparound :: AlertingRule where
  \<open>rule_postgres_wraparound = \<lparr>r_Id = ''postgres-wraparound'', r_ProjectId = [], r_Name = ''Postgres transaction ID wraparound'',
     r_Source = check_source ''PostgresWraparound'', r_Selector = all_applications,
     r_Severity = CRITICAL, r_For = 5 * Minute, r_KeepFiringFor = 5 * Minute,
     r_Templates = \<lparr>tpl_Summary = [], tpl_Description = ''PostgreSQL is approaching transaction ID wraparound. If the age reaches the limit the database will stop accepting writes. Vacuum freezing is likely blocked by a held xmin horizon (a replication slot, long-running or prepared transaction).''\<rparr>,
     r_NotificationCategory = [], r_Enabled = True, r_Readonly = False, r_Builtin = True, r_CreatedAt = 0, r_UpdatedAt = 0\<rparr>\<close>

definition rule_postgres_bloat :: AlertingRule where
  \<open>rule_postgres_bloat = \<lparr>r_Id = ''postgres-bloat'', r_ProjectId = [], r_Name = ''Postgres bloat'',
     r_Source = check_source ''PostgresBloat'', r_Selector = all_applications,
     r_Severity = WARNING, r_For = 10 * Minute, r_KeepFiringFor = 5 * Minute,
     r_Templates = \<lparr>tpl_Summary = [], tpl_Description = ''A large share of a PostgreSQL database is estimated to be wasted space (bloat). Reclaim it with pg_repack (online) or VACUUM FULL/REINDEX.''\<rparr>,
     r_NotificationCategory = [], r_Enabled = True, r_Readonly = False, r_Builtin = True, r_CreatedAt = 0, r_UpdatedAt = 0\<rparr>\<close>

definition rule_postgres_autovacuum :: AlertingRule where
  \<open>rule_postgres_autovacuum = \<lparr>r_Id = ''postgres-autovacuum'', r_ProjectId = [], r_Name = ''Postgres autovacuum'',
     r_Source = check_source ''PostgresAutovacuum'', r_Selector = all_applications,
     r_Severity = WARNING, r_For = 10 * Minute, r_KeepFiringFor = 5 * Minute,
     r_Templates = \<lparr>tpl_Summary = [], tpl_Description = ''Dead rows are accumulating in a PostgreSQL database faster than autovacuum can reclaim them, risking bloat and degraded performance. Check for snapshot-pinning transactions/slots and autovacuum tuning.''\<rparr>,
     r_NotificationCategory = [], r_Enabled = True, r_Readonly = False, r_Builtin = True, r_CreatedAt = 0, r_UpdatedAt = 0\<rparr>\<close>

definition rule_postgres_stale_statistics :: AlertingRule where
  \<open>rule_postgres_stale_statistics = \<lparr>r_Id = ''postgres-stale-statistics'', r_ProjectId = [], r_Name = ''Postgres stale statistics'',
     r_Source = check_source ''PostgresStaleStatistics'', r_Selector = all_applications,
     r_Severity = WARNING, r_For = 10 * Minute, r_KeepFiringFor = 5 * Minute,
     r_Templates = \<lparr>tpl_Summary = [], tpl_Description = ''A large table has changed far past its autoanalyze threshold, so the query planner is working from stale row estimates and may pick bad plans (like a sequential scan instead of an index). Run ANALYZE and check why autoanalyze fell behind.''\<rparr>,
     r_NotificationCategory = [], r_Enabled = True, r_Readonly = False, r_Builtin = True, r_CreatedAt = 0, r_UpdatedAt = 0\<rparr>\<close>

definition rule_postgres_backups :: AlertingRule where
  \<open>rule_postgres_backups = \<lparr>r_Id = ''postgres-backups'', r_ProjectId = [], r_Name = ''Postgres backups'',
     r_Source = check_source ''PostgresBackups'', r_Selector = all_applications,
     r_Severity = WARNING, r_For = 10 * Minute, r_KeepFiringFor = 5 * Minute,
     r_Templates = \<lparr>tpl_Summary = [], tpl_Description = ''PostgreSQL backups are stale or failing: either no successful backup completed within the expected window, the most recent backup failed, or continuous WAL archiving has stopped. Without healthy backups and archiving, point-in-time recovery is not possible. Check the backup target and the database logs.''\<rparr>,
     r_NotificationCategory = [], r_Enabled = True, r_Readonly = False, r_Builtin = True, r_CreatedAt = 0, r_UpdatedAt = 0\<rparr>\<close>

definition rule_redis_latency :: AlertingRule where
  \<open>rule_redis_latency = \<lparr>r_Id = ''redis-latency'', r_ProjectId = [], r_Name = ''Redis latency'',
     r_Source = check_source ''RedisLatency'', r_Selector = all_applications,
     r_Severity = WARNING, r_For = 5 * Minute, r_KeepFiringFor = 5 * Minute,
     r_Templates = \<lparr>tpl_Summary = [], tpl_Description = ''Redis latency is elevated. This may cause slow response times for dependent applications.''\<rparr>,
     r_NotificationCategory = [], r_Enabled = True, r_Readonly = False, r_Builtin = True, r_CreatedAt = 0, r_UpdatedAt = 0\<rparr>\<close>

definition rule_mongodb_availability :: AlertingRule where
  \<open>rule_mongodb_availability = \<lparr>r_Id = ''mongodb-availability'', r_ProjectId = [], r_Name = ''MongoDB availability'',
     r_Source = check_source ''MongodbAvailability'', r_Selector = all_applications,
     r_Severity = WARNING, r_For = 2 * Minute, r_KeepFiringFor = 5 * Minute,
     r_Templates = \<lparr>tpl_Summary = [], tpl_Description = ''Some MongoDB instances are unavailable. This may cause failures for dependent applications.''\<rparr>,
     r_NotificationCategory = [], r_Enabled = True, r_Readonly = False, r_Builtin = True, r_CreatedAt = 0, r_UpdatedAt = 0\<rparr>\<close>

definition rule_mongodb_replication_lag :: AlertingRule where
  \<open>rule_mongodb_replication_lag = \<lparr>r_Id = ''mongodb-replication-lag'', r_ProjectId = [], r_Name = ''MongoDB replication lag'',
     r_Source = check_source ''MongodbReplicationLag'', r_Selector = all_applications,
     r_Severity = WARNING, r_For = 2 * Minute, r_KeepFiringFor = 5 * Minute,
     r_Templates = \<lparr>tpl_Summary = [], tpl_Description = ''MongoDB replica is falling behind the primary. Read queries on secondaries may return stale data.''\<rparr>,
     r_NotificationCategory = [], r_Enabled = True, r_Readonly = False, r_Builtin = True, r_CreatedAt = 0, r_UpdatedAt = 0\<rparr>\<close>

definition rule_mongodb_latency :: AlertingRule where
  \<open>rule_mongodb_latency = \<lparr>r_Id = ''mongodb-latency'', r_ProjectId = [], r_Name = ''MongoDB latency'',
     r_Source = check_source ''MongodbLatency'', r_Selector = all_applications,
     r_Severity = WARNING, r_For = 5 * Minute, r_KeepFiringFor = 5 * Minute,
     r_Templates = \<lparr>tpl_Summary = [], tpl_Description = ''MongoDB operation latency is elevated. This may cause slow response times for dependent applications.''\<rparr>,
     r_NotificationCategory = [], r_Enabled = True, r_Readonly = False, r_Builtin = True, r_CreatedAt = 0, r_UpdatedAt = 0\<rparr>\<close>

definition rule_mongodb_oplog_window :: AlertingRule where
  \<open>rule_mongodb_oplog_window = \<lparr>r_Id = ''mongodb-oplog-window'', r_ProjectId = [], r_Name = ''MongoDB oplog window'',
     r_Source = check_source ''MongodbOplogWindow'', r_Selector = all_applications,
     r_Severity = WARNING, r_For = 5 * Minute, r_KeepFiringFor = 5 * Minute,
     r_Templates = \<lparr>tpl_Summary = [], tpl_Description = ''The MongoDB oplog window is too small. Any member that falls behind or restarts for longer than the window will require a full initial sync. Consider increasing the oplog size.''\<rparr>,
     r_NotificationCategory = [], r_Enabled = True, r_Readonly = False, r_Builtin = True, r_CreatedAt = 0, r_UpdatedAt = 0\<rparr>\<close>

definition rule_mongodb_connections :: AlertingRule where
  \<open>rule_mongodb_connections = \<lparr>r_Id = ''mongodb-connections'', r_ProjectId = [], r_Name = ''MongoDB connections'',
     r_Source = check_source ''MongodbConnections'', r_Selector = all_applications,
     r_Severity = WARNING, r_For = 5 * Minute, r_KeepFiringFor = 5 * Minute,
     r_Templates = \<lparr>tpl_Summary = [], tpl_Description = ''A MongoDB instance is approaching its connection limit. New connections will be rejected once the limit is reached. Check client connection pooling.''\<rparr>,
     r_NotificationCategory = [], r_Enabled = True, r_Readonly = False, r_Builtin = True, r_CreatedAt = 0, r_UpdatedAt = 0\<rparr>\<close>

definition rule_mongodb_saturation :: AlertingRule where
  \<open>rule_mongodb_saturation = \<lparr>r_Id = ''mongodb-saturation'', r_ProjectId = [], r_Name = ''MongoDB saturation'',
     r_Source = check_source ''MongodbSaturation'', r_Selector = all_applications,
     r_Severity = WARNING, r_For = 5 * Minute, r_KeepFiringFor = 5 * Minute,
     r_Templates = \<lparr>tpl_Summary = [], tpl_Description = ''A MongoDB instance is saturated and operations are queuing. The check details say why: either it is out of WiredTiger tickets (a storage bottleneck - slow disk, cache pressure, or too many concurrent operations), or operations are blocked on a lock held by a backup (fsyncLock), a long DDL, or a long transaction.''\<rparr>,
     r_NotificationCategory = [], r_Enabled = True, r_Readonly = False, r_Builtin = True, r_CreatedAt = 0, r_UpdatedAt = 0\<rparr>\<close>

definition rule_mongodb_fragmentation :: AlertingRule where
  \<open>rule_mongodb_fragmentation = \<lparr>r_Id = ''mongodb-fragmentation'', r_ProjectId = [], r_Name = ''MongoDB storage fragmentation'',
     r_Source = check_source ''MongodbFragmentation'', r_Selector = all_applications,
     r_Severity = WARNING, r_For = 10 * Minute, r_KeepFiringFor = 5 * Minute,
     r_Templates = \<lparr>tpl_Summary = [], tpl_Description = ''A large share of the storage allocated for a MongoDB collection is reclaimable free space left by deleted documents. Run compact (rolling, secondaries first) to reclaim it.''\<rparr>,
     r_NotificationCategory = [], r_Enabled = True, r_Readonly = False, r_Builtin = True, r_CreatedAt = 0, r_UpdatedAt = 0\<rparr>\<close>

definition rule_mongodb_backups :: AlertingRule where
  \<open>rule_mongodb_backups = \<lparr>r_Id = ''mongodb-backups'', r_ProjectId = [], r_Name = ''MongoDB backups'',
     r_Source = check_source ''MongodbBackups'', r_Selector = all_applications,
     r_Severity = WARNING, r_For = 10 * Minute, r_KeepFiringFor = 5 * Minute,
     r_Templates = \<lparr>tpl_Summary = [], tpl_Description = ''MongoDB backups are stale or failing: either no successful backup completed within the expected window, the most recent backup failed, or the scheduled backup is overdue. Check the backup storage and the percona-backup-mongodb logs.''\<rparr>,
     r_NotificationCategory = [], r_Enabled = True, r_Readonly = False, r_Builtin = True, r_CreatedAt = 0, r_UpdatedAt = 0\<rparr>\<close>

definition rule_mysql_availability :: AlertingRule where
  \<open>rule_mysql_availability = \<lparr>r_Id = ''mysql-availability'', r_ProjectId = [], r_Name = ''MySQL availability'',
     r_Source = check_source ''MysqlAvailability'', r_Selector = all_applications,
     r_Severity = WARNING, r_For = 2 * Minute, r_KeepFiringFor = 5 * Minute,
     r_Templates = \<lparr>tpl_Summary = [], tpl_Description = ''Some MySQL instances are unavailable. This may cause failures for dependent applications.''\<rparr>,
     r_NotificationCategory = [], r_Enabled = True, r_Readonly = False, r_Builtin = True, r_CreatedAt = 0, r_UpdatedAt = 0\<rparr>\<close>

definition rule_mysql_replication_lag :: AlertingRule where
  \<open>rule_mysql_replication_lag = \<lparr>r_Id = ''mysql-replication-lag'', r_ProjectId = [], r_Name = ''MySQL replication lag'',
     r_Source = check_source ''MysqlReplicationLag'', r_Selector = all_applications,
     r_Severity = WARNING, r_For = 2 * Minute, r_KeepFiringFor = 5 * Minute,
     r_Templates = \<lparr>tpl_Summary = [], tpl_Description = ''MySQL replica is falling behind the primary. Read queries on replicas may return stale data.''\<rparr>,
     r_NotificationCategory = [], r_Enabled = True, r_Readonly = False, r_Builtin = True, r_CreatedAt = 0, r_UpdatedAt = 0\<rparr>\<close>

definition rule_mysql_connections :: AlertingRule where
  \<open>rule_mysql_connections = \<lparr>r_Id = ''mysql-connections'', r_ProjectId = [], r_Name = ''MySQL connections'',
     r_Source = check_source ''MysqlConnections'', r_Selector = all_applications,
     r_Severity = WARNING, r_For = 5 * Minute, r_KeepFiringFor = 5 * Minute,
     r_Templates = \<lparr>tpl_Summary = [], tpl_Description = ''MySQL connection pool is nearing capacity. New connections may be rejected.''\<rparr>,
     r_NotificationCategory = [], r_Enabled = True, r_Readonly = False, r_Builtin = True, r_CreatedAt = 0, r_UpdatedAt = 0\<rparr>\<close>

definition rule_memcached_availability :: AlertingRule where
  \<open>rule_memcached_availability = \<lparr>r_Id = ''memcached-availability'', r_ProjectId = [], r_Name = ''Memcached availability'',
     r_Source = check_source ''MemcachedAvailability'', r_Selector = all_applications,
     r_Severity = WARNING, r_For = 2 * Minute, r_KeepFiringFor = 5 * Minute,
     r_Templates = \<lparr>tpl_Summary = [], tpl_Description = ''Some Memcached instances are unavailable. This may cause degraded performance for dependent applications.''\<rparr>,
     r_NotificationCategory = [], r_Enabled = True, r_Readonly = False, r_Builtin = True, r_CreatedAt = 0, r_UpdatedAt = 0\<rparr>\<close>

definition rule_storage_io_load :: AlertingRule where
  \<open>rule_storage_io_load = \<lparr>r_Id = ''storage-io-load'', r_ProjectId = [], r_Name = ''Storage I/O load'',
     r_Source = check_source ''StorageIOLoad'', r_Selector = all_applications,
     r_Severity = WARNING, r_For = 5 * Minute, r_KeepFiringFor = 5 * Minute,
     r_Templates = \<lparr>tpl_Summary = [], tpl_Description = ''Storage I/O load is high. This may cause slow read/write operations and degraded application performance.''\<rparr>,
     r_NotificationCategory = [], r_Enabled = True, r_Readonly = False, r_Builtin = True, r_CreatedAt = 0, r_UpdatedAt = 0\<rparr>\<close>

definition rule_network_rtt :: AlertingRule where
  \<open>rule_network_rtt = \<lparr>r_Id = ''network-rtt'', r_ProjectId = [], r_Name = ''Network RTT (in-cluster)'',
     r_Source = check_source ''NetworkRTT'', r_Selector = all_applications,
     r_Severity = WARNING, r_For = 5 * Minute, r_KeepFiringFor = 5 * Minute,
     r_Templates = \<lparr>tpl_Summary = [], tpl_Description = ''Network round-trip time between services within the cluster is elevated.''\<rparr>,
     r_NotificationCategory = [], r_Enabled = True, r_Readonly = False, r_Builtin = True, r_CreatedAt = 0, r_UpdatedAt = 0\<rparr>\<close>

definition rule_network_rtt_external :: AlertingRule where
  \<open>rule_network_rtt_external = \<lparr>r_Id = ''network-rtt-external'', r_ProjectId = [], r_Name = ''Network RTT (external)'',
     r_Source = check_source ''NetworkRTTExternal'', r_Selector = all_applications,
     r_Severity = WARNING, r_For = 5 * Minute, r_KeepFiringFor = 5 * Minute,
     r_Templates = \<lparr>tpl_Summary = [], tpl_Description = ''Network round-trip time to external services is elevated.''\<rparr>,
     r_NotificationCategory = [], r_Enabled = True, r_Readonly = False, r_Builtin = True, r_CreatedAt = 0, r_UpdatedAt = 0\<rparr>\<close>

definition rule_network_rtt_other_clusters :: AlertingRule where
  \<open>rule_network_rtt_other_clusters = \<lparr>r_Id = ''network-rtt-other-clusters'', r_ProjectId = [], r_Name = ''Network RTT (cross-cluster)'',
     r_Source = check_source ''NetworkRTTOtherClusters'', r_Selector = all_applications,
     r_Severity = WARNING, r_For = 5 * Minute, r_KeepFiringFor = 5 * Minute,
     r_Templates = \<lparr>tpl_Summary = [], tpl_Description = ''Network round-trip time to services in other clusters is elevated.''\<rparr>,
     r_NotificationCategory = [], r_Enabled = True, r_Readonly = False, r_Builtin = True, r_CreatedAt = 0, r_UpdatedAt = 0\<rparr>\<close>

definition rule_network_tcp_connections :: AlertingRule where
  \<open>rule_network_tcp_connections = \<lparr>r_Id = ''network-tcp-connections'', r_ProjectId = [], r_Name = ''Network TCP connections'',
     r_Source = check_source ''NetworkTCPConnections'', r_Selector = all_applications,
     r_Severity = WARNING, r_For = 5 * Minute, r_KeepFiringFor = 5 * Minute,
     r_Templates = \<lparr>tpl_Summary = [], tpl_Description = ''High number of TCP connection failures. This may indicate network issues or unavailable upstream services.''\<rparr>,
     r_NotificationCategory = [], r_Enabled = True, r_Readonly = False, r_Builtin = True, r_CreatedAt = 0, r_UpdatedAt = 0\<rparr>\<close>

definition rule_jvm_availability :: AlertingRule where
  \<open>rule_jvm_availability = \<lparr>r_Id = ''jvm-availability'', r_ProjectId = [], r_Name = ''JVM availability'',
     r_Source = check_source ''JvmAvailability'', r_Selector = all_applications,
     r_Severity = WARNING, r_For = 2 * Minute, r_KeepFiringFor = 5 * Minute,
     r_Templates = \<lparr>tpl_Summary = [], tpl_Description = ''JVM metrics are not being collected. This may indicate the application is down or instrumentation is misconfigured.''\<rparr>,
     r_NotificationCategory = [], r_Enabled = True, r_Readonly = False, r_Builtin = True, r_CreatedAt = 0, r_UpdatedAt = 0\<rparr>\<close>

definition rule_jvm_safepoint_time :: AlertingRule where
  \<open>rule_jvm_safepoint_time = \<lparr>r_Id = ''jvm-safepoint-time'', r_ProjectId = [], r_Name = ''JVM safepoint time'',
     r_Source = check_source ''JvmSafepointTime'', r_Selector = all_applications,
     r_Severity = WARNING, r_For = 5 * Minute, r_KeepFiringFor = 5 * Minute,
     r_Templates = \<lparr>tpl_Summary = [], tpl_Description = ''JVM is spending significant time at safepoints. This may cause application pauses and increased latency.''\<rparr>,
     r_NotificationCategory = [], r_Enabled = True, r_Readonly = False, r_Builtin = True, r_CreatedAt = 0, r_UpdatedAt = 0\<rparr>\<close>

definition rule_dotnet_availability :: AlertingRule where
  \<open>rule_dotnet_availability = \<lparr>r_Id = ''dotnet-availability'', r_ProjectId = [], r_Name = ''.NET availability'',
     r_Source = check_source ''DotNetAvailability'', r_Selector = all_applications,
     r_Severity = WARNING, r_For = 2 * Minute, r_KeepFiringFor = 5 * Minute,
     r_Templates = \<lparr>tpl_Summary = [], tpl_Description = ''.NET metrics are not being collected. This may indicate the application is down or instrumentation is misconfigured.''\<rparr>,
     r_NotificationCategory = [], r_Enabled = True, r_Readonly = False, r_Builtin = True, r_CreatedAt = 0, r_UpdatedAt = 0\<rparr>\<close>

definition rule_dns_latency :: AlertingRule where
  \<open>rule_dns_latency = \<lparr>r_Id = ''dns-latency'', r_ProjectId = [], r_Name = ''DNS latency'',
     r_Source = check_source ''DnsLatency'', r_Selector = all_applications,
     r_Severity = WARNING, r_For = 5 * Minute, r_KeepFiringFor = 5 * Minute,
     r_Templates = \<lparr>tpl_Summary = [], tpl_Description = ''DNS resolution latency is elevated. This may cause slow connection establishment to other services.''\<rparr>,
     r_NotificationCategory = [], r_Enabled = True, r_Readonly = False, r_Builtin = True, r_CreatedAt = 0, r_UpdatedAt = 0\<rparr>\<close>

definition rule_dns_server_errors :: AlertingRule where
  \<open>rule_dns_server_errors = \<lparr>r_Id = ''dns-server-errors'', r_ProjectId = [], r_Name = ''DNS server errors'',
     r_Source = check_source ''DnsServerErrors'', r_Selector = all_applications,
     r_Severity = WARNING, r_For = 2 * Minute, r_KeepFiringFor = 5 * Minute,
     r_Templates = \<lparr>tpl_Summary = [], tpl_Description = ''DNS server errors detected. This may cause failures when connecting to other services.''\<rparr>,
     r_NotificationCategory = [], r_Enabled = True, r_Readonly = False, r_Builtin = True, r_CreatedAt = 0, r_UpdatedAt = 0\<rparr>\<close>

definition rule_dns_nxdomain_errors :: AlertingRule where
  \<open>rule_dns_nxdomain_errors = \<lparr>r_Id = ''dns-nxdomain-errors'', r_ProjectId = [], r_Name = ''DNS NXDOMAIN errors'',
     r_Source = check_source ''DnsNxdomainErrors'', r_Selector = all_applications,
     r_Severity = WARNING, r_For = 2 * Minute, r_KeepFiringFor = 5 * Minute,
     r_Templates = \<lparr>tpl_Summary = [], tpl_Description = ''Application is trying to resolve non-existent domain names. Check for typos in service names or missing services.''\<rparr>,
     r_NotificationCategory = [], r_Enabled = True, r_Readonly = False, r_Builtin = True, r_CreatedAt = 0, r_UpdatedAt = 0\<rparr>\<close>

definition rule_python_gil_waiting_time :: AlertingRule where
  \<open>rule_python_gil_waiting_time = \<lparr>r_Id = ''python-gil-waiting-time'', r_ProjectId = [], r_Name = ''Python GIL waiting time'',
     r_Source = check_source ''PythonGILWaitingTime'', r_Selector = all_applications,
     r_Severity = WARNING, r_For = 5 * Minute, r_KeepFiringFor = 5 * Minute,
     r_Templates = \<lparr>tpl_Summary = [], tpl_Description = ''Python threads are spending significant time waiting for the GIL. This may cause increased latency and reduced throughput.''\<rparr>,
     r_NotificationCategory = [], r_Enabled = True, r_Readonly = False, r_Builtin = True, r_CreatedAt = 0, r_UpdatedAt = 0\<rparr>\<close>

definition rule_nodejs_event_loop_blocked_time :: AlertingRule where
  \<open>rule_nodejs_event_loop_blocked_time = \<lparr>r_Id = ''nodejs-event-loop-blocked-time'', r_ProjectId = [], r_Name = ''Node.js event loop blocked time'',
     r_Source = check_source ''NodejsEventLoopBlockedTime'', r_Selector = all_applications,
     r_Severity = WARNING, r_For = 5 * Minute, r_KeepFiringFor = 5 * Minute,
     r_Templates = \<lparr>tpl_Summary = [], tpl_Description = ''The Node.js event loop is being blocked for extended periods. This may cause increased latency and unresponsive behavior.''\<rparr>,
     r_NotificationCategory = [], r_Enabled = True, r_Readonly = False, r_Builtin = True, r_CreatedAt = 0, r_UpdatedAt = 0\<rparr>\<close>

definition rule_mysql_replication_status :: AlertingRule where
  \<open>rule_mysql_replication_status = \<lparr>r_Id = ''mysql-replication-status'', r_ProjectId = [], r_Name = ''MySQL replication status'',
     r_Source = check_source ''MysqlReplicationStatus'', r_Selector = all_applications,
     r_Severity = WARNING, r_For = 2 * Minute, r_KeepFiringFor = 5 * Minute,
     r_Templates = \<lparr>tpl_Summary = [], tpl_Description = ''MySQL replication thread is not running. The replica may not be receiving updates from the primary.''\<rparr>,
     r_NotificationCategory = [], r_Enabled = True, r_Readonly = False, r_Builtin = True, r_CreatedAt = 0, r_UpdatedAt = 0\<rparr>\<close>

definition rule_new_log_patterns :: AlertingRule where
  \<open>rule_new_log_patterns = \<lparr>r_Id = ''new-log-patterns'', r_ProjectId = [], r_Name = ''Log errors'',
     r_Source = \<lparr>src_Type = AlertSourceTypeLogPatterns, src_Check = None, src_LogPattern = Some \<lparr>lps_Severities = [Severity_String SeverityError, Severity_String SeverityFatal],
         lps_MinCount = 10, lps_MaxAlertsPerApp = 20, lps_EvaluateWithAI = True\<rparr>, src_PromQL = None, src_KubernetesEvents = None\<rparr>, r_Selector = all_applications,
     r_Severity = WARNING, r_For = 0, r_KeepFiringFor = Hour,
     r_Templates = \<lparr>tpl_Summary = [], tpl_Description = ''A new log pattern has been detected. Review the log messages to determine whether this indicates an error, a misconfiguration, or expected behavior. Suppress the alert if this is not a problem.''\<rparr>,
     r_NotificationCategory = [], r_Enabled = True, r_Readonly = False, r_Builtin = True, r_CreatedAt = 0, r_UpdatedAt = 0\<rparr>\<close>

definition rule_kubernetes_events :: AlertingRule where
  \<open>rule_kubernetes_events = \<lparr>r_Id = ''kubernetes-events'', r_ProjectId = [], r_Name = ''Kubernetes events'',
     r_Source = \<lparr>src_Type = AlertSourceTypeKubernetesEvents, src_Check = None, src_LogPattern = None, src_PromQL = None,
       src_KubernetesEvents = Some \<lparr>kes_MinCount = 1, kes_MaxAlertsPerApp = 20, kes_EvaluateWithAI = True\<rparr>\<rparr>, r_Selector = all_applications,
     r_Severity = WARNING, r_For = 0, r_KeepFiringFor = Hour,
     r_Templates = \<lparr>tpl_Summary = [], tpl_Description = ''A Kubernetes event has been detected. Review the event to determine whether it indicates a problem requiring attention.''\<rparr>,
     r_NotificationCategory = [], r_Enabled = True, r_Readonly = False, r_Builtin = True, r_CreatedAt = 0, r_UpdatedAt = 0\<rparr>\<close>

definition BuiltinAlertingRules :: "AlertingRule list" where
  "BuiltinAlertingRules =
    [rule_storage_space, rule_memory_oom, rule_memory_pressure, rule_memory_leak, rule_cpu_limit,
     rule_instance_availability, rule_instance_restarts, rule_network_connectivity, rule_redis_availability,
     rule_postgres_availability, rule_postgres_replication_lag, rule_postgres_latency, rule_postgres_connections,
     rule_postgres_checkpoints, rule_postgres_wal_archiving, rule_postgres_wraparound, rule_postgres_bloat,
     rule_postgres_autovacuum, rule_postgres_stale_statistics, rule_postgres_backups, rule_redis_latency,
     rule_mongodb_availability, rule_mongodb_replication_lag, rule_mongodb_latency, rule_mongodb_oplog_window,
     rule_mongodb_connections, rule_mongodb_saturation, rule_mongodb_fragmentation, rule_mongodb_backups,
     rule_mysql_availability, rule_mysql_replication_lag, rule_mysql_connections, rule_memcached_availability,
     rule_storage_io_load, rule_network_rtt, rule_network_rtt_external, rule_network_rtt_other_clusters,
     rule_network_tcp_connections, rule_jvm_availability, rule_jvm_safepoint_time, rule_dotnet_availability,
     rule_dns_latency, rule_dns_server_errors, rule_dns_nxdomain_errors, rule_python_gil_waiting_time,
     rule_nodejs_event_loop_blocked_time, rule_mysql_replication_status, rule_new_log_patterns,
     rule_kubernetes_events]"

subsection \<open>Rules\<close>

text \<open>A source whose parts are those of its type; a check must exist.\<close>

definition source_ok :: "AlertSource \<Rightarrow> bool" where
  "source_ok s \<longleftrightarrow>
     (case src_Check s of
        Some c \<Rightarrow> src_Type s = AlertSourceTypeCheck \<and> map_of Checks_index (chs_CheckId c) \<noteq> None \<and>
          src_LogPattern s = None \<and> src_PromQL s = None \<and> src_KubernetesEvents s = None
      | None \<Rightarrow>
          (src_Type s = AlertSourceTypeLogPatterns \<and> src_LogPattern s \<noteq> None \<and> src_PromQL s = None \<and> src_KubernetesEvents s = None) \<or>
          (src_Type s = AlertSourceTypeKubernetesEvents \<and> src_LogPattern s = None \<and> src_PromQL s = None \<and> src_KubernetesEvents s \<noteq> None))"

lemmas builtin_rule_defs = BuiltinAlertingRules_def check_source_def
  rule_storage_space_def rule_memory_oom_def rule_memory_pressure_def rule_memory_leak_def rule_cpu_limit_def
  rule_instance_availability_def rule_instance_restarts_def rule_network_connectivity_def
  rule_redis_availability_def rule_postgres_availability_def rule_postgres_replication_lag_def
  rule_postgres_latency_def rule_postgres_connections_def rule_postgres_checkpoints_def
  rule_postgres_wal_archiving_def rule_postgres_wraparound_def rule_postgres_bloat_def
  rule_postgres_autovacuum_def rule_postgres_stale_statistics_def rule_postgres_backups_def
  rule_redis_latency_def rule_mongodb_availability_def rule_mongodb_replication_lag_def rule_mongodb_latency_def
  rule_mongodb_oplog_window_def rule_mongodb_connections_def rule_mongodb_saturation_def
  rule_mongodb_fragmentation_def rule_mongodb_backups_def rule_mysql_availability_def
  rule_mysql_replication_lag_def rule_mysql_connections_def rule_memcached_availability_def
  rule_storage_io_load_def rule_network_rtt_def rule_network_rtt_external_def rule_network_rtt_other_clusters_def
  rule_network_tcp_connections_def rule_jvm_availability_def rule_jvm_safepoint_time_def
  rule_dotnet_availability_def rule_dns_latency_def rule_dns_server_errors_def rule_dns_nxdomain_errors_def
  rule_python_gil_waiting_time_def rule_nodejs_event_loop_blocked_time_def rule_mysql_replication_status_def
  rule_new_log_patterns_def rule_kubernetes_events_def

lemma check_names: "map fst Checks_index =
    [
      ''SLOAvailability'', ''SLOLatency'', ''CPUNode'', ''CPUContainer'', ''MemoryOOM'', ''MemoryLeakPercent'',
      ''MemoryPressure'', ''StorageSpace'', ''StorageIOLoad'', ''NetworkRTT'', ''NetworkRTTExternal'',
      ''NetworkRTTOtherClusters'', ''NetworkConnectivity'', ''NetworkTCPConnections'', ''InstanceAvailability'',
      ''DeploymentStatus'', ''InstanceRestarts'', ''RedisAvailability'', ''RedisLatency'',
      ''MongodbAvailability'', ''MongodbReplicationLag'', ''MongodbLatency'', ''MongodbOplogWindow'',
      ''MongodbConnections'', ''MongodbSaturation'', ''MongodbFragmentation'', ''MongodbBackups'',
      ''MemcachedAvailability'', ''PostgresAvailability'', ''PostgresLatency'', ''PostgresReplicationLag'',
      ''PostgresConnections'', ''PostgresCheckpoint'', ''PostgresWalArchiving'', ''PostgresWraparound'',
      ''PostgresBloat'', ''PostgresAutovacuum'', ''PostgresStaleStatistics'', ''PostgresBackups'', ''LogErrors'',
      ''JvmAvailability'', ''JvmSafepointTime'', ''DotNetAvailability'', ''PythonGILWaitingTime'',
      ''NodejsEventLoopBlockedTime'', ''DnsLatency'', ''DnsServerErrors'', ''DnsNxdomainErrors'',
      ''MysqlAvailability'', ''MysqlReplicationStatus'', ''MysqlReplicationLag'', ''MysqlConnections'']"
  by (simp add: Checks_index_def Checks_fields_def)

lemma check_exists: "map_of Checks_index i \<noteq> None \<longleftrightarrow> i \<in> set (map fst Checks_index)"
  by (simp add: map_of_eq_None_iff)

lemma builtin_rules_sources: "list_all (source_ok \<circ> r_Source) BuiltinAlertingRules"
  unfolding source_ok_def check_exists check_names by (simp add: builtin_rule_defs source_type_defs)

lemma builtin_rules_table: "list_all (\<lambda>r. r_Builtin r \<and> r_Enabled r \<and> 0 \<le> r_For r \<and> r_For r \<le> 30 * Minute) BuiltinAlertingRules"
  by (simp add: builtin_rule_defs duration_defs)

lemma builtin_rules_distinct: "distinct (map r_Id BuiltinAlertingRules)"
  by (simp add: builtin_rule_defs)

end
