(* ===== verification/Database.thy ===== *)
theory Database
  imports AlertModel Categories
begin

text \<open>
  The SQL database behind the package \<^verbatim>\<open>db\<close> and the environment of the program. The tables are
  lists of rows in the order of insertion (\<^verbatim>\<open>db/migrations/00001_baseline.sql\<close>). Every statement may
  fail; a failed statement changes nothing. Columns with JSON hold the value they encode. The clock,
  the random ids, the failures and the third-party functions are parameters of the model, collected
  in one record: the n-th reading of the clock, the n-th statement and the n-th random id are
  \<open>env_now e n\<close>, \<open>env_sql_fails e n\<close> and \<open>env_nano e n\<close>.
\<close>

subsection \<open>Notification destinations (db/incident.go)\<close>

record Destination =
  d_IntegrationType :: IntegrationType
  d_SlackChannel :: string
  d_TeamsChannel :: string

definition Destination_Value :: "Destination \<Rightarrow> string" where
  "Destination_Value d =
     (if d_IntegrationType d = IntegrationTypeSlack then d_IntegrationType d @ '':'' @ d_SlackChannel d
      else if d_IntegrationType d = IntegrationTypeTeams \<and> d_TeamsChannel d \<noteq> []
        then d_IntegrationType d @ '':'' @ d_TeamsChannel d
      else d_IntegrationType d)"

definition Destination_Scan :: "string \<Rightarrow> Destination" where
  "Destination_Scan src =
     (let parts = strings_Split src CHR '':'';
          d = \<lparr>d_IntegrationType = hd parts, d_SlackChannel = [], d_TeamsChannel = []\<rparr>
      in if length parts > 1
         then (if hd parts = IntegrationTypeSlack then d\<lparr>d_SlackChannel := parts ! 1\<rparr>
               else if hd parts = IntegrationTypeTeams then d\<lparr>d_TeamsChannel := parts ! 1\<rparr>
               else d)
         else d)"

definition slack_destination :: "string \<Rightarrow> Destination" where
  "slack_destination ch = \<lparr>d_IntegrationType = IntegrationTypeSlack, d_SlackChannel = ch, d_TeamsChannel = []\<rparr>"
definition teams_destination :: "string \<Rightarrow> Destination" where
  "teams_destination ch = \<lparr>d_IntegrationType = IntegrationTypeTeams, d_SlackChannel = [], d_TeamsChannel = ch\<rparr>"
definition plain_destination :: "IntegrationType \<Rightarrow> Destination" where
  "plain_destination t = \<lparr>d_IntegrationType = t, d_SlackChannel = [], d_TeamsChannel = []\<rparr>"

text \<open>Destinations whose channel survives the column: no separator in the channel.\<close>

definition storable_destination :: "Destination \<Rightarrow> bool" where
  "storable_destination d \<longleftrightarrow>
     (d_IntegrationType d = IntegrationTypeSlack \<and> d_TeamsChannel d = [] \<and> CHR '':'' \<notin> set (d_SlackChannel d)) \<or>
     (d_IntegrationType d = IntegrationTypeTeams \<and> d_SlackChannel d = [] \<and> CHR '':'' \<notin> set (d_TeamsChannel d)) \<or>
     (d_IntegrationType d \<in> {IntegrationTypePagerduty, IntegrationTypeOpsgenie, IntegrationTypeWebhook} \<and>
        d_SlackChannel d = [] \<and> d_TeamsChannel d = [])"

lemma integration_types [simp]:
  "CHR '':'' \<notin> set IntegrationTypeSlack" "CHR '':'' \<notin> set IntegrationTypeTeams"
  "CHR '':'' \<notin> set IntegrationTypePagerduty" "CHR '':'' \<notin> set IntegrationTypeOpsgenie"
  "CHR '':'' \<notin> set IntegrationTypeWebhook"
  "IntegrationTypeTeams \<noteq> IntegrationTypeSlack"
  "IntegrationTypePagerduty \<noteq> IntegrationTypeSlack" "IntegrationTypeOpsgenie \<noteq> IntegrationTypeSlack"
  "IntegrationTypeWebhook \<noteq> IntegrationTypeSlack" "IntegrationTypePagerduty \<noteq> IntegrationTypeTeams"
  "IntegrationTypeOpsgenie \<noteq> IntegrationTypeTeams" "IntegrationTypeWebhook \<noteq> IntegrationTypeTeams"
  by (simp_all add: integration_defs)

lemma Destination_Scan_channel:
  assumes "CHR '':'' \<notin> set t" "CHR '':'' \<notin> set ch"
  shows "Destination_Scan (t @ CHR '':'' # ch) =
    (if t = IntegrationTypeSlack then slack_destination ch
     else if t = IntegrationTypeTeams then teams_destination ch else plain_destination t)"
proof -
  have "strings_Split (t @ CHR '':'' # ch) CHR '':'' = [t, ch]"
    using assms by (simp add: strings_Split_append strings_Split_no_sep)
  then show ?thesis
    by (simp add: Destination_Scan_def slack_destination_def teams_destination_def plain_destination_def Let_def)
qed

lemma Destination_Scan_plain:
  "CHR '':'' \<notin> set t \<Longrightarrow> Destination_Scan t = plain_destination t"
  by (simp add: Destination_Scan_def plain_destination_def strings_Split_no_sep Let_def)

lemma Destination_Scan_Value: "storable_destination d \<Longrightarrow> Destination_Scan (Destination_Value d) = d"
  unfolding storable_destination_def
proof (elim disjE conjE)
  assume "d_IntegrationType d = IntegrationTypeSlack" "d_TeamsChannel d = []" "CHR '':'' \<notin> set (d_SlackChannel d)"
  then show ?thesis by (simp add: Destination_Value_def Destination_Scan_channel slack_destination_def)
next
  assume "d_IntegrationType d = IntegrationTypeTeams" "d_SlackChannel d = []" "CHR '':'' \<notin> set (d_TeamsChannel d)"
  then show ?thesis
    by (cases "d_TeamsChannel d = []")
       (simp_all add: Destination_Value_def Destination_Scan_channel Destination_Scan_plain
          teams_destination_def plain_destination_def)
next
  assume "d_IntegrationType d \<in> {IntegrationTypePagerduty, IntegrationTypeOpsgenie, IntegrationTypeWebhook}"
    "d_SlackChannel d = []" "d_TeamsChannel d = []"
  then show ?thesis
    by (elim insertE) (simp_all add: Destination_Value_def Destination_Scan_plain plain_destination_def)
qed

subsection \<open>Rows and records\<close>

text \<open>\<^verbatim>\<open>alertingRuleConfig\<close>, the JSON column of a rule.\<close>

record alertingRuleConfig =
  cf_Name :: string
  cf_Source :: AlertSource
  cf_Selector :: AppSelector
  cf_Severity :: Status
  cf_For :: Duration
  cf_KeepFiringFor :: Duration
  cf_Templates :: AlertTemplates
  cf_NotificationCategory :: ApplicationCategory
  cf_Readonly :: bool

record RuleRow =
  ru_id :: AlertingRuleId
  ru_project_id :: ProjectId
  ru_config :: alertingRuleConfig
  ru_enabled :: bool
  ru_builtin :: bool
  ru_created_at :: Time
  ru_updated_at :: Time

record AlertRow =
  al_id :: string
  al_fingerprint :: string
  al_rule_id :: string
  al_project_id :: ProjectId
  al_application_id :: string
  al_application_category :: ApplicationCategory
  al_severity :: string
  al_summary :: string
  al_details :: "AlertDetail list"
  al_opened_at :: Time
  al_resolved_at :: Time
  al_updated_at :: Time
  al_suppressed :: bool
  al_resolved_by :: string
  al_report :: AuditReportName
  al_pattern_words :: string
  al_manually_resolved_at :: Time

record AlertNotificationDetails =
  nd_ProjectName :: string
  nd_RuleName :: string
  nd_Severity :: string
  nd_Summary :: string
  nd_Details :: "AlertDetail list"
  nd_Duration :: string
  nd_ResolvedBy :: string

record AlertNotification =
  n_ProjectId :: ProjectId
  n_AlertId :: string
  n_RuleId :: string
  n_ApplicationId :: ApplicationId
  n_Status :: Status
  n_Destination :: Destination
  n_Timestamp :: Time
  n_SentAt :: Time
  n_ExternalKey :: string
  n_Details :: "AlertNotificationDetails option"

record AlertNotificationRow =
  an_project_id :: ProjectId
  an_alert_id :: string
  an_rule_id :: string
  an_application_id :: string
  an_status :: Status
  an_destination :: string
  an_timestamp :: Time
  an_sent_at :: Time
  an_external_key :: string
  an_details :: "AlertNotificationDetails option"

record IncidentRow =
  ir_project_id :: ProjectId
  ir_application_id :: string
  ir_key :: string
  ir_opened_at :: Time
  ir_resolved_at :: Time
  ir_severity :: Status
  ir_details :: IncidentDetails
  ir_rca :: "RCA option"
  ir_rca_status :: "string option"
  ir_rca_summary :: "string option"

record IncidentNotificationDetailsReport =
  ndr_Name :: AuditReportName
  ndr_Check :: string
  ndr_Message :: string

record IncidentNotificationDetails =
  ind_Reports :: "IncidentNotificationDetailsReport list"
  ind_RCASummary :: string
  ind_RCARemediations :: string

record IncidentNotification =
  in_ProjectId :: ProjectId
  in_ApplicationId :: ApplicationId
  in_IncidentKey :: string
  in_Status :: Status
  in_Destination :: Destination
  in_Timestamp :: Time
  in_SentAt :: Time
  in_ExternalKey :: string
  in_Details :: "IncidentNotificationDetails option"

record IncidentNotificationRow =
  inr_project_id :: ProjectId
  inr_application_id :: string
  inr_incident_key :: string
  inr_status :: Status
  inr_destination :: string
  inr_timestamp :: Time
  inr_sent_at :: Time
  inr_external_key :: string
  inr_details :: "IncidentNotificationDetails option"

subsection \<open>The database and its environment\<close>

text \<open>
  A notification client with what \<^verbatim>\<open>getClient\<close> passes to its constructor, and the trace of the
  calls made to clients. The trace is not part of the program's state: it records the effects on the
  outside world so that properties can speak of them.
\<close>

datatype NotificationClient =
    SlackClient string string
  | TeamsClient string
  | PagerdutyClient string
  | OpsgenieClient string bool
  | WebhookClient IntegrationWebhook

datatype Event =
    AlertSend NotificationClient AlertNotification bool
  | IncidentSend NotificationClient IncidentNotification bool

record DB =
  db_rules :: "RuleRow list"
  db_alerts :: "AlertRow list"
  db_alert_notifications :: "AlertNotificationRow list"
  db_incidents :: "IncidentRow list"
  db_incident_notifications :: "IncidentNotificationRow list"
  db_projects :: "Project list"
  db_ticks :: nat
  db_stmts :: nat
  db_ids :: nat
  db_trace :: "Event list"

text \<open>
  The third-party and unmodelled functions: the hex digest of SHA-256, \<^verbatim>\<open>text/template\<close> (\<open>None\<close> on
  a parse or execution error), the weak equality of log patterns by their words, \<^verbatim>\<open>durafmt\<close>, the
  text of a duration and of a float, \<^verbatim>\<open>promql.AddExtraSelector\<close> (which works on the syntax trees
  of the PromQL parser), the JSON of a list of filters, and the notification clients. A client answers an error or the external key
  the notification has after the call.
\<close>

record Env =
  env_now :: "nat \<Rightarrow> Time"
  env_sql_fails :: "nat \<Rightarrow> bool"
  env_nano :: "nat \<Rightarrow> string"
  env_sha256hex :: "string \<Rightarrow> string"
  env_render :: "string \<Rightarrow> (string \<times> string) list \<Rightarrow> f32 option \<Rightarrow> string option"
  env_weak_equal :: "string \<Rightarrow> string \<Rightarrow> bool"
  env_format_duration :: "Duration \<Rightarrow> nat \<Rightarrow> string"
  env_duration_string :: "Duration \<Rightarrow> string"
  env_format_g :: "f32 \<Rightarrow> string"
  env_add_selector :: "string \<Rightarrow> string \<Rightarrow> string option"
  env_json_filters :: "(string \<times> string \<times> string) list \<Rightarrow> string"
  env_send_alert :: "nat \<Rightarrow> NotificationClient \<Rightarrow> string \<Rightarrow> AlertNotification \<Rightarrow> string + string"
  env_send_incident :: "nat \<Rightarrow> NotificationClient \<Rightarrow> string \<Rightarrow> IncidentNotification \<Rightarrow> string + string"

datatype DbError = ErrSql | ErrScan | ErrNotFound | ErrReadonly | ErrUnique

type_synonym 'a result = "(DbError + 'a) \<times> DB"

definition Now :: "Env \<Rightarrow> DB \<Rightarrow> Time \<times> DB" where
  "Now e d = (env_now e (db_ticks d), d\<lparr>db_ticks := Suc (db_ticks d)\<rparr>)"

definition NanoId :: "Env \<Rightarrow> DB \<Rightarrow> string \<times> DB" where
  "NanoId e d = (env_nano e (db_ids d), d\<lparr>db_ids := Suc (db_ids d)\<rparr>)"

text \<open>One statement: \<open>f\<close> gives its result and its effect when it does not fail.\<close>

definition sql :: "Env \<Rightarrow> (DB \<Rightarrow> (DbError + 'a) \<times> DB) \<Rightarrow> DB \<Rightarrow> 'a result" where
  "sql e f d =
     (let d1 = d\<lparr>db_stmts := Suc (db_stmts d)\<rparr>
      in if env_sql_fails e (db_stmts d) then (Inl ErrSql, d1) else f d1)"

definition query :: "Env \<Rightarrow> (DB \<Rightarrow> 'a option) \<Rightarrow> DB \<Rightarrow> 'a result" where
  "query e f = sql e (\<lambda>d. (case f d of None \<Rightarrow> Inl ErrScan | Some x \<Rightarrow> Inr x, d))"

definition exec_sql :: "Env \<Rightarrow> (DB \<Rightarrow> DB) \<Rightarrow> DB \<Rightarrow> unit result" where
  "exec_sql e f = sql e (\<lambda>d. (Inr (), f d))"

text \<open>What the operations keep: a table is changed only by the statements that write it.\<close>

definition same_tables :: "DB \<Rightarrow> DB \<Rightarrow> bool" where
  "same_tables d d' \<longleftrightarrow>
     db_rules d' = db_rules d \<and> db_alerts d' = db_alerts d \<and>
     db_alert_notifications d' = db_alert_notifications d \<and> db_incidents d' = db_incidents d \<and>
     db_incident_notifications d' = db_incident_notifications d \<and> db_projects d' = db_projects d"

lemma same_tables_refl [simp]: "same_tables d d"
  by (simp add: same_tables_def)

lemma same_tables_Now [simp]: "same_tables d (snd (Now e d))"
  by (simp add: same_tables_def Now_def)

lemma same_tables_NanoId [simp]: "same_tables d (snd (NanoId e d))"
  by (simp add: same_tables_def NanoId_def)

lemma same_tables_query [simp]: "same_tables d (snd (query e f d))"
  by (auto simp: same_tables_def query_def sql_def Let_def)

lemma query_Inr:
  "query e f d = (Inr x, d') \<Longrightarrow>
     f (d\<lparr>db_stmts := Suc (db_stmts d)\<rparr>) = Some x \<and> d' = d\<lparr>db_stmts := Suc (db_stmts d)\<rparr>"
  by (auto simp: query_def sql_def Let_def split: if_splits option.splits)

lemma exec_sql_cases:
  obtains "exec_sql e f d = (Inl ErrSql, d\<lparr>db_stmts := Suc (db_stmts d)\<rparr>)"
  | "exec_sql e f d = (Inr (), f (d\<lparr>db_stmts := Suc (db_stmts d)\<rparr>))"
  by (cases "env_sql_fails e (db_stmts d)") (auto simp: exec_sql_def sql_def Let_def)

text \<open>No statement fails: the environment of the liveness properties.\<close>

definition reliable :: "Env \<Rightarrow> bool" where
  "reliable e \<longleftrightarrow> (\<forall>n. \<not> env_sql_fails e n)"

text \<open>A concrete environment and an empty database, on which the properties are exercised.\<close>

definition demo_env :: Env where
  "demo_env = \<lparr>env_now = (\<lambda>n. 1000 + int n), env_sql_fails = (\<lambda>_. False), env_nano = nat_string,
     env_sha256hex = (\<lambda>s. s), env_render = (\<lambda>t _ _. Some t), env_weak_equal = (\<lambda>_ _. False),
     env_format_duration = (\<lambda>d _. Itoa d), env_duration_string = Itoa, env_format_g = (\<lambda>_. ''v''),
     env_add_selector = (\<lambda>_ _. None), env_json_filters = (\<lambda>_. ''[]''),
     env_send_alert = (\<lambda>_ _ _ n. Inr (n_ExternalKey n)), env_send_incident = (\<lambda>_ _ _ n. Inr (in_ExternalKey n))\<rparr>"

definition empty_db :: DB where
  "empty_db = \<lparr>db_rules = [], db_alerts = [], db_alert_notifications = [], db_incidents = [],
     db_incident_notifications = [], db_projects = [], db_ticks = 0, db_stmts = 0, db_ids = 0, db_trace = []\<rparr>"

definition demo_check :: "Status \<Rightarrow> Check" where
  "demo_check st = \<lparr>ch_Id = ''ch'', ch_Title = ''Check'', ch_Status = st, ch_Message = ''failed'',
     ch_Details = None, ch_value = Fin 1\<rparr>"

definition demo_app :: Application where
  "demo_app = \<lparr>app_Id = \<lparr>ClusterId = ''c1'', Namespace = ''ns'', Kind = ''Deployment'', Name = ''app''\<rparr>,
     app_Category = ''application'', app_Reports = [\<lparr>rep_Name = ''CPU'', rep_Checks = [demo_check WARNING]\<rparr>], app_LogMessages = [], app_Instances = [],
     app_AvailabilitySLIs = [], app_LatencySLIs = []\<rparr>"

definition demo_world :: World where
  "demo_world = \<lparr>w_Ctx = \<lparr>ctx_From = 0, ctx_To = 3600, ctx_Step = 60, ctx_RawStep = 60, ctx_Truncated = False\<rparr>,
     w_Applications = [(app_Id demo_app, demo_app)]\<rparr>"

lemma reliable_demo_env [simp]: "reliable demo_env"
  by (simp add: reliable_def demo_env_def)

end
