(* ===== verification/AlertStore.thy ===== *)
theory AlertStore
  imports Database
begin

text \<open>
  Alerting rules and alerts in the database (\<^verbatim>\<open>db/alert.go\<close>). An alert row is unresolved while its
  \<^verbatim>\<open>resolved_at\<close> is zero; the watchers keep at most one unresolved row per project, rule and
  fingerprint.
\<close>

subsection \<open>Alerting rules\<close>

definition rule_config :: "AlertingRule \<Rightarrow> alertingRuleConfig" where
  "rule_config r = \<lparr>cf_Name = r_Name r, cf_Source = r_Source r, cf_Selector = r_Selector r,
     cf_Severity = r_Severity r, cf_For = r_For r, cf_KeepFiringFor = r_KeepFiringFor r,
     cf_Templates = r_Templates r, cf_NotificationCategory = r_NotificationCategory r,
     cf_Readonly = r_Readonly r\<rparr>"

text \<open>Scanning a row of the table and \<^verbatim>\<open>unmarshalAlertingRule\<close>.\<close>

definition unmarshalAlertingRule :: "RuleRow \<Rightarrow> ProjectId \<Rightarrow> AlertingRule" where
  "unmarshalAlertingRule row projectId =
     (let c = ru_config row in
      \<lparr>r_Id = ru_id row, r_ProjectId = projectId, r_Name = cf_Name c, r_Source = cf_Source c,
       r_Selector = cf_Selector c, r_Severity = cf_Severity c, r_For = cf_For c,
       r_KeepFiringFor = cf_KeepFiringFor c, r_Templates = cf_Templates c,
       r_NotificationCategory = cf_NotificationCategory c, r_Enabled = ru_enabled row,
       r_Readonly = cf_Readonly c, r_Builtin = ru_builtin row, r_CreatedAt = ru_created_at row,
       r_UpdatedAt = ru_updated_at row\<rparr>)"

definition GetAlertingRules :: "Env \<Rightarrow> ProjectId \<Rightarrow> DB \<Rightarrow> AlertingRule list result" where
  "GetAlertingRules e projectId =
     query e (\<lambda>d. Some (map (\<lambda>row. unmarshalAlertingRule row projectId)
                         (filter (\<lambda>r. ru_project_id r = projectId) (db_rules d))))"

definition GetAlertingRule :: "Env \<Rightarrow> ProjectId \<Rightarrow> AlertingRuleId \<Rightarrow> DB \<Rightarrow> AlertingRule result" where
  "GetAlertingRule e projectId i =
     sql e (\<lambda>d. (case filter (\<lambda>r. ru_project_id r = projectId \<and> ru_id r = i) (db_rules d) of
                   [] \<Rightarrow> Inl ErrNotFound
                 | row # _ \<Rightarrow> Inr (unmarshalAlertingRule row projectId), d))"

text \<open>The rule with its new timestamps is returned beside the result.\<close>

definition CreateAlertingRule :: "Env \<Rightarrow> ProjectId \<Rightarrow> AlertingRule \<Rightarrow> DB \<Rightarrow> AlertingRule \<times> unit result" where
  "CreateAlertingRule e projectId r d =
     (let (now, d1) = Now e d;
          r' = r\<lparr>r_CreatedAt := now, r_UpdatedAt := now\<rparr>;
          row = \<lparr>ru_id = r_Id r', ru_project_id = projectId, ru_config = rule_config r',
                 ru_enabled = r_Enabled r', ru_builtin = r_Builtin r',
                 ru_created_at = now, ru_updated_at = now\<rparr>
      in (r', sql e (\<lambda>d. if list_ex (\<lambda>x. ru_id x = r_Id r' \<and> ru_project_id x = projectId) (db_rules d)
                        then (Inl ErrUnique, d)
                        else (Inr (), d\<lparr>db_rules := db_rules d @ [row]\<rparr>)) d1))"

definition UpdateAlertingRule :: "Env \<Rightarrow> ProjectId \<Rightarrow> AlertingRule \<Rightarrow> DB \<Rightarrow> unit result" where
  "UpdateAlertingRule e projectId r d =
     (let (now, d1) = Now e d; r' = r\<lparr>r_UpdatedAt := now\<rparr>
      in exec_sql e (\<lambda>d. d\<lparr>db_rules :=
           update_rows (\<lambda>x. ru_project_id x = projectId \<and> ru_id x = r_Id r')
             (\<lambda>x. x\<lparr>ru_config := rule_config r', ru_enabled := r_Enabled r', ru_updated_at := now\<rparr>)
             (db_rules d)\<rparr>) d1)"

definition DeleteAlertingRule :: "Env \<Rightarrow> ProjectId \<Rightarrow> AlertingRuleId \<Rightarrow> DB \<Rightarrow> unit result" where
  "DeleteAlertingRule e projectId i d =
     (case GetAlertingRule e projectId i d of
        (Inl err, d1) \<Rightarrow> (Inl err, d1)
      | (Inr rule, d1) \<Rightarrow>
          if r_Readonly rule then (Inl ErrReadonly, d1)
          else
            sql e (\<lambda>d. let P = (\<lambda>x. ru_project_id x = projectId \<and> ru_id x = i \<and> \<not> ru_builtin x) in
                       if count_rows P (db_rules d) = 0 then (Inl ErrNotFound, d)
                       else (Inr (), d\<lparr>db_rules := filter (\<lambda>x. \<not> P x) (db_rules d)\<rparr>)) d1)"

text \<open>\<^verbatim>\<open>InitBuiltinAlertingRules\<close> over the list of built-in rules: existing rules are left alone.\<close>

fun InitBuiltinAlertingRules :: "Env \<Rightarrow> ProjectId \<Rightarrow> AlertingRule list \<Rightarrow> DB \<Rightarrow> unit result" where
  "InitBuiltinAlertingRules e projectId [] d = (Inr (), d)"
| "InitBuiltinAlertingRules e projectId (builtin # rest) d =
     (case CreateAlertingRule e projectId (builtin\<lparr>r_ProjectId := projectId\<rparr>) d of
        (_, Inl ErrUnique, d1) \<Rightarrow> InitBuiltinAlertingRules e projectId rest d1
      | (_, Inl err, d1) \<Rightarrow> (Inl err, d1)
      | (_, Inr _, d1) \<Rightarrow> InitBuiltinAlertingRules e projectId rest d1)"

definition DisableBuiltinAlertingRules :: "Env \<Rightarrow> ProjectId \<Rightarrow> DB \<Rightarrow> unit result" where
  "DisableBuiltinAlertingRules e projectId d =
     (let (now, d1) = Now e d
      in exec_sql e (\<lambda>d. d\<lparr>db_rules :=
           update_rows (\<lambda>x. ru_project_id x = projectId \<and> ru_builtin x \<and> ru_enabled x)
             (\<lambda>x. x\<lparr>ru_enabled := False, ru_updated_at := now\<rparr>) (db_rules d)\<rparr>) d1)"

fun clear_readonly :: "Env \<Rightarrow> ProjectId \<Rightarrow> AlertingRule list \<Rightarrow> DB \<Rightarrow> unit result" where
  "clear_readonly e projectId [] d = (Inr (), d)"
| "clear_readonly e projectId (r # rs) d =
     (if r_Readonly r
      then (case UpdateAlertingRule e projectId (r\<lparr>r_Readonly := False\<rparr>) d of
              (Inl err, d1) \<Rightarrow> (Inl err, d1)
            | (Inr _, d1) \<Rightarrow> clear_readonly e projectId rs d1)
      else clear_readonly e projectId rs d)"

definition ClearAlertingRulesReadonly :: "Env \<Rightarrow> ProjectId \<Rightarrow> DB \<Rightarrow> unit result" where
  "ClearAlertingRulesReadonly e projectId d =
     (case GetAlertingRules e projectId d of
        (Inl err, d1) \<Rightarrow> (Inl err, d1)
      | (Inr rules, d1) \<Rightarrow> clear_readonly e projectId rules d1)"

subsection \<open>Reading alerts\<close>

definition parseSeverity :: "string \<Rightarrow> Status" where
  "parseSeverity s =
     (if s = ''warning'' then WARNING else if s = ''critical'' then CRITICAL else UNKNOWN)"

definition scanAlert :: "AlertRow \<Rightarrow> ProjectId \<Rightarrow> Alert option" where
  "scanAlert r projectId =
     map_option (\<lambda>i.
       \<lparr>a_Id = al_id r, a_Fingerprint = al_fingerprint r, a_RuleId = al_rule_id r, a_ProjectId = projectId,
        a_ApplicationId = i, a_ApplicationCategory = al_application_category r,
        a_Severity = parseSeverity (al_severity r), a_Summary = al_summary r, a_Details = al_details r,
        a_OpenedAt = al_opened_at r, a_ResolvedAt = al_resolved_at r,
        a_ManuallyResolvedAt = al_manually_resolved_at r, a_UpdatedAt = al_updated_at r,
        a_Suppressed = al_suppressed r, a_ResolvedBy = al_resolved_by r, a_Report = al_report r,
        a_PatternWords = al_pattern_words r\<rparr>)
     (ApplicationId_Scan (Some (al_application_id r)))"

definition scan_alerts :: "ProjectId \<Rightarrow> AlertRow list \<Rightarrow> Alert list option" where
  "scan_alerts projectId rows = those (map (\<lambda>r. scanAlert r projectId) rows)"

definition firing_row :: "ProjectId \<Rightarrow> AlertRow \<Rightarrow> bool" where
  "firing_row projectId r \<longleftrightarrow> al_project_id r = projectId \<and> al_resolved_at r = 0 \<and>
     al_manually_resolved_at r = 0 \<and> \<not> al_suppressed r"

definition GetFiringAlertCountsByRule :: "Env \<Rightarrow> ProjectId \<Rightarrow> DB \<Rightarrow> (string \<rightharpoonup> nat) result" where
  "GetFiringAlertCountsByRule e projectId =
     query e (\<lambda>d. Some (\<lambda>ruleId.
       let n = count_rows (\<lambda>r. firing_row projectId r \<and> al_rule_id r = ruleId) (db_alerts d)
       in if n = 0 then None else Some n))"

definition GetFiringAlertCountsBySeverity :: "Env \<Rightarrow> ProjectId \<Rightarrow> DB \<Rightarrow> (string \<rightharpoonup> nat) result" where
  "GetFiringAlertCountsBySeverity e projectId =
     query e (\<lambda>d. Some (\<lambda>sev.
       let n = count_rows (\<lambda>r. firing_row projectId r \<and> al_severity r = sev) (db_alerts d)
       in if n = 0 then None else Some n))"

definition GetAlert :: "Env \<Rightarrow> ProjectId \<Rightarrow> string \<Rightarrow> DB \<Rightarrow> Alert result" where
  "GetAlert e projectId i =
     sql e (\<lambda>d. (case filter (\<lambda>r. al_project_id r = projectId \<and> al_id r = i) (db_alerts d) of
                   [] \<Rightarrow> Inl ErrNotFound
                 | r # _ \<Rightarrow> (case scanAlert r projectId of None \<Rightarrow> Inl ErrScan | Some a \<Rightarrow> Inr a), d))"

text \<open>\<^verbatim>\<open>ORDER BY opened_at DESC\<close>\<close>

definition newest_first :: "AlertRow \<Rightarrow> AlertRow \<Rightarrow> bool" where
  "newest_first r s \<longleftrightarrow> al_opened_at s \<le> al_opened_at r"

definition open_row :: "ProjectId \<Rightarrow> string \<Rightarrow> AlertRow \<Rightarrow> bool" where
  "open_row projectId fingerprint r \<longleftrightarrow>
     al_project_id r = projectId \<and> al_fingerprint r = fingerprint \<and> (al_resolved_at r = 0 \<or> al_suppressed r)"

definition GetActiveOrSuppressedAlertByFingerprint :: "Env \<Rightarrow> ProjectId \<Rightarrow> string \<Rightarrow> DB \<Rightarrow> Alert option result" where
  "GetActiveOrSuppressedAlertByFingerprint e projectId fingerprint =
     query e (\<lambda>d. case sort_by newest_first (filter (open_row projectId fingerprint) (db_alerts d)) of
                    [] \<Rightarrow> Some None
                  | r # _ \<Rightarrow> map_option Some (scanAlert r projectId))"

definition unresolved_row :: "ProjectId \<Rightarrow> string \<Rightarrow> AlertRow \<Rightarrow> bool" where
  "unresolved_row projectId ruleId r \<longleftrightarrow>
     al_project_id r = projectId \<and> al_rule_id r = ruleId \<and> al_resolved_at r = 0"

definition GetLatestAlertsByRule :: "Env \<Rightarrow> ProjectId \<Rightarrow> string \<Rightarrow> DB \<Rightarrow> Alert list result" where
  "GetLatestAlertsByRule e projectId ruleId =
     query e (\<lambda>d. scan_alerts projectId
       (sort_by newest_first (filter (unresolved_row projectId ruleId) (db_alerts d))))"

definition HasAlerts :: "Env \<Rightarrow> ProjectId \<Rightarrow> DB \<Rightarrow> bool result" where
  "HasAlerts e projectId = query e (\<lambda>d. Some (list_ex (\<lambda>r. al_project_id r = projectId) (db_alerts d)))"

subsection \<open>Writing alerts\<close>

definition alert_row :: "ProjectId \<Rightarrow> Alert \<Rightarrow> AlertRow" where
  "alert_row projectId a =
     \<lparr>al_id = a_Id a, al_fingerprint = a_Fingerprint a, al_rule_id = a_RuleId a, al_project_id = projectId,
      al_application_id = ApplicationId_String (a_ApplicationId a),
      al_application_category = a_ApplicationCategory a, al_severity = Status_String (a_Severity a),
      al_summary = a_Summary a, al_details = a_Details a, al_opened_at = a_OpenedAt a,
      al_resolved_at = a_ResolvedAt a, al_updated_at = a_UpdatedAt a, al_suppressed = a_Suppressed a,
      al_resolved_by = a_ResolvedBy a, al_report = a_Report a, al_pattern_words = a_PatternWords a,
      al_manually_resolved_at = a_ManuallyResolvedAt a\<rparr>"

definition CreateAlert :: "Env \<Rightarrow> ProjectId \<Rightarrow> Alert \<Rightarrow> DB \<Rightarrow> Alert \<times> unit result" where
  "CreateAlert e projectId a d =
     (let (now, d1) = Now e d; a' = a\<lparr>a_OpenedAt := now, a_UpdatedAt := now\<rparr>
      in (a', sql e (\<lambda>d. if list_ex (\<lambda>r. al_id r = a_Id a') (db_alerts d) then (Inl ErrUnique, d)
                        else (Inr (), d\<lparr>db_alerts := db_alerts d @ [alert_row projectId a']\<rparr>)) d1))"

definition UpdateAlert :: "Env \<Rightarrow> ProjectId \<Rightarrow> Alert \<Rightarrow> DB \<Rightarrow> unit result" where
  "UpdateAlert e projectId a d =
     (let (now, d1) = Now e d
      in exec_sql e (\<lambda>d. d\<lparr>db_alerts :=
           update_rows (\<lambda>r. al_project_id r = projectId \<and> al_id r = a_Id a)
             (\<lambda>r. r\<lparr>al_severity := Status_String (a_Severity a), al_summary := a_Summary a,
                    al_details := a_Details a, al_resolved_at := a_ResolvedAt a, al_updated_at := now\<rparr>)
             (db_alerts d)\<rparr>) d1)"

definition ResolveAlert :: "Env \<Rightarrow> ProjectId \<Rightarrow> string \<Rightarrow> Time \<Rightarrow> DB \<Rightarrow> unit result" where
  "ResolveAlert e projectId i resolvedAt =
     exec_sql e (\<lambda>d. d\<lparr>db_alerts :=
       update_rows (\<lambda>r. al_project_id r = projectId \<and> al_id r = i)
         (\<lambda>r. r\<lparr>al_resolved_at := resolvedAt, al_updated_at := resolvedAt\<rparr>) (db_alerts d)\<rparr>)"

definition ResolveAlertsByRule :: "Env \<Rightarrow> ProjectId \<Rightarrow> string \<Rightarrow> DB \<Rightarrow> Alert list result" where
  "ResolveAlertsByRule e projectId ruleId d =
     (let (now, d1) = Now e d in
      case query e (\<lambda>d. scan_alerts projectId (filter (unresolved_row projectId ruleId) (db_alerts d))) d1 of
        (Inl err, d2) \<Rightarrow> (Inl err, d2)
      | (Inr alerts, d2) \<Rightarrow>
          (case exec_sql e (\<lambda>d. d\<lparr>db_alerts := update_rows (unresolved_row projectId ruleId)
                    (\<lambda>r. r\<lparr>al_resolved_at := now, al_updated_at := now\<rparr>) (db_alerts d)\<rparr>) d2 of
             (Inl err, d3) \<Rightarrow> (Inl err, d3)
           | (Inr _, d3) \<Rightarrow> (Inr (map (\<lambda>a. a\<lparr>a_ResolvedAt := now\<rparr>) alerts), d3)))"

definition ResolveAlerts :: "Env \<Rightarrow> ProjectId \<Rightarrow> string list \<Rightarrow> string \<Rightarrow> DB \<Rightarrow> unit result" where
  "ResolveAlerts e projectId ids resolvedBy d =
     (if length ids = 0 then (Inr (), d)
      else
        (let (now, d1) = Now e d
         in exec_sql e (\<lambda>d. d\<lparr>db_alerts :=
              update_rows (\<lambda>r. al_project_id r = projectId \<and> al_resolved_at r = 0 \<and> al_id r \<in> set ids)
                (\<lambda>r. r\<lparr>al_manually_resolved_at := now, al_updated_at := now, al_resolved_by := resolvedBy\<rparr>)
                (db_alerts d)\<rparr>) d1))"

definition SuppressAlerts :: "Env \<Rightarrow> ProjectId \<Rightarrow> string list \<Rightarrow> string \<Rightarrow> DB \<Rightarrow> unit result" where
  "SuppressAlerts e projectId ids suppressedBy d =
     (if length ids = 0 then (Inr (), d)
      else
        (let (now, d1) = Now e d
         in exec_sql e (\<lambda>d. d\<lparr>db_alerts :=
              update_rows (\<lambda>r. al_project_id r = projectId \<and> al_id r \<in> set ids)
                (\<lambda>r. r\<lparr>al_suppressed := True, al_resolved_at := 0, al_manually_resolved_at := 0,
                       al_resolved_by := suppressedBy, al_updated_at := now\<rparr>)
                (db_alerts d)\<rparr>) d1))"

definition ClearSuppression :: "Env \<Rightarrow> ProjectId \<Rightarrow> string \<Rightarrow> DB \<Rightarrow> unit result" where
  "ClearSuppression e projectId fingerprint =
     exec_sql e (\<lambda>d. d\<lparr>db_alerts :=
       update_rows (\<lambda>r. al_project_id r = projectId \<and> al_fingerprint r = fingerprint \<and> al_suppressed r)
         (\<lambda>r. r\<lparr>al_suppressed := False, al_resolved_by := []\<rparr>) (db_alerts d)\<rparr>)"

definition ReopenAlerts :: "Env \<Rightarrow> ProjectId \<Rightarrow> string list \<Rightarrow> DB \<Rightarrow> nat result" where
  "ReopenAlerts e projectId ids d =
     (if length ids = 0 then (Inr 0, d)
      else
        (let (now, d1) = Now e d;
             P = (\<lambda>r. al_project_id r = projectId \<and> (al_manually_resolved_at r > 0 \<or> al_suppressed r) \<and> al_id r \<in> set ids)
         in sql e (\<lambda>d. (Inr (count_rows P (db_alerts d)),
              d\<lparr>db_alerts := update_rows P
                  (\<lambda>r. r\<lparr>al_manually_resolved_at := 0, al_resolved_by := [], al_suppressed := False, al_updated_at := now\<rparr>)
                  (db_alerts d)\<rparr>)) d1))"

subsection \<open>At most one unresolved row per fingerprint\<close>

definition unresolved_key :: "ProjectId \<Rightarrow> string \<Rightarrow> string \<Rightarrow> AlertRow \<Rightarrow> bool" where
  "unresolved_key p rid fp r \<longleftrightarrow> unresolved_row p rid r \<and> al_fingerprint r = fp"

text \<open>The property for the rules of a set \<open>K\<close> of pairs of a project and a rule.\<close>

definition one_unresolved :: "(ProjectId \<times> AlertingRuleId) set \<Rightarrow> DB \<Rightarrow> bool" where
  "one_unresolved K d \<longleftrightarrow>
     (\<forall>p rid fp. (p, rid) \<in> K \<longrightarrow> count_rows (unresolved_key p rid fp) (db_alerts d) \<le> 1)"

definition ids_distinct :: "DB \<Rightarrow> bool" where
  "ids_distinct d \<longleftrightarrow> distinct (map al_id (db_alerts d))"

text \<open>The invariant of the table.\<close>

definition alerts_ok :: "(ProjectId \<times> AlertingRuleId) set \<Rightarrow> DB \<Rightarrow> bool" where
  "alerts_ok K d \<longleftrightarrow> one_unresolved K d \<and> ids_distinct d"

text \<open>
  The contract of the operations that change rows but open none: rows are changed one by one, keep
  their ids, and a row that is unresolved afterwards was so before, for the same key.
\<close>

locale alert_table_op =
  fixes op :: "DB \<Rightarrow> DB"
  assumes row_wise: "\<exists>f. db_alerts (op d) = map f (db_alerts d) \<and>
    (\<forall>r. al_id (f r) = al_id r \<and> (\<forall>p rid fp. unresolved_key p rid fp (f r) \<longrightarrow> unresolved_key p rid fp r))"
begin

lemma op_ids: "map al_id (db_alerts (op d)) = map al_id (db_alerts d)"
proof -
  obtain f where f: "db_alerts (op d) = map f (db_alerts d)" "\<And>r. al_id (f r) = al_id r" using row_wise by blast
  show ?thesis unfolding f(1) by (simp add: comp_def f(2))
qed

lemma op_count: "count_rows (unresolved_key p rid fp) (db_alerts (op d)) \<le> count_rows (unresolved_key p rid fp) (db_alerts d)"
proof -
  obtain f where f: "db_alerts (op d) = map f (db_alerts d)"
    "\<And>r. unresolved_key p rid fp (f r) \<Longrightarrow> unresolved_key p rid fp r" using row_wise by blast
  have "count_rows (unresolved_key p rid fp) (map f rows) \<le> count_rows (unresolved_key p rid fp) rows" for rows
    using f(2) by (induction rows) (auto simp: count_rows_def)
  then show ?thesis using f(1) by simp
qed

lemma op_alerts_ok: "alerts_ok K d \<Longrightarrow> alerts_ok K (op d)"
  using op_count op_ids unfolding alerts_ok_def one_unresolved_def ids_distinct_def
  by (metis le_trans)

end

lemma alert_table_op_same: "(\<And>d. db_alerts (f d) = db_alerts d) \<Longrightarrow> alert_table_op f"
  by unfold_locales (rule exI [of _ id], simp)

text \<open>An update that opens nothing, and the operations made of one.\<close>

definition opens_nothing :: "(AlertRow \<Rightarrow> bool) \<Rightarrow> (AlertRow \<Rightarrow> AlertRow) \<Rightarrow> bool" where
  "opens_nothing P g \<longleftrightarrow> (\<forall>r. al_id (g r) = al_id r \<and> al_project_id (g r) = al_project_id r \<and>
     al_rule_id (g r) = al_rule_id r \<and> al_fingerprint (g r) = al_fingerprint r \<and>
     (P r \<longrightarrow> al_resolved_at (g r) = 0 \<longrightarrow> al_resolved_at r = 0))"

lemma alert_table_op_update:
  assumes g: "\<And>d. opens_nothing (P d) (g d)"
    and f: "\<And>d. db_alerts (f d) = db_alerts d \<or> db_alerts (f d) = update_rows (P d) (g d) (db_alerts d)"
  shows "alert_table_op f"
proof
  fix d :: DB
  let ?h = "\<lambda>r. if P d r then g d r else r"
  have h: "al_id (?h r) = al_id r \<and> (\<forall>p rid fp. unresolved_key p rid fp (?h r) \<longrightarrow> unresolved_key p rid fp r)" for r
    using g [of d] by (auto simp: opens_nothing_def unresolved_key_def unresolved_row_def split: if_splits)
  from f [of d] show "\<exists>h. db_alerts (f d) = map h (db_alerts d) \<and>
    (\<forall>r. al_id (h r) = al_id r \<and> (\<forall>p rid fp. unresolved_key p rid fp (h r) \<longrightarrow> unresolved_key p rid fp r))"
  proof
    assume "db_alerts (f d) = db_alerts d"
    then show ?thesis by (intro exI [of _ id]) simp
  next
    assume "db_alerts (f d) = update_rows (P d) (g d) (db_alerts d)"
    then have "db_alerts (f d) = map ?h (db_alerts d)" by (simp add: update_rows_def)
    moreover have "\<forall>r. al_id (?h r) = al_id r \<and> (\<forall>p rid fp. unresolved_key p rid fp (?h r) \<longrightarrow> unresolved_key p rid fp r)"
      using h by blast
    ultimately show ?thesis by blast
  qed
qed

lemmas stmt_defs = exec_sql_def sql_def query_def Now_def NanoId_def Let_def

interpretation resolve_alerts_op: alert_table_op "\<lambda>d. snd (ResolveAlerts e p ids who d)" for e p ids who
  by (rule alert_table_op_update [where P = "\<lambda>d r. al_project_id r = p \<and> al_resolved_at r = 0 \<and> al_id r \<in> set ids"
        and g = "\<lambda>d r. r\<lparr>al_manually_resolved_at := env_now e (db_ticks d), al_updated_at := env_now e (db_ticks d),
                         al_resolved_by := who\<rparr>"])
     (simp_all add: opens_nothing_def ResolveAlerts_def stmt_defs)

interpretation reopen_alerts_op: alert_table_op "\<lambda>d. snd (ReopenAlerts e p ids d)" for e p ids
  by (rule alert_table_op_update [where
        P = "\<lambda>d r. al_project_id r = p \<and> (al_manually_resolved_at r > 0 \<or> al_suppressed r) \<and> al_id r \<in> set ids"
        and g = "\<lambda>d r. r\<lparr>al_manually_resolved_at := 0, al_resolved_by := [], al_suppressed := False,
                         al_updated_at := env_now e (db_ticks d)\<rparr>"])
     (simp_all add: opens_nothing_def ReopenAlerts_def stmt_defs)

interpretation clear_suppression_op: alert_table_op "\<lambda>d. snd (ClearSuppression e p fp d)" for e p fp
  by (rule alert_table_op_update [where
        P = "\<lambda>d r. al_project_id r = p \<and> al_fingerprint r = fp \<and> al_suppressed r"
        and g = "\<lambda>d r. r\<lparr>al_suppressed := False, al_resolved_by := []\<rparr>"])
     (simp_all add: opens_nothing_def ClearSuppression_def stmt_defs)

interpretation resolve_by_rule_op: alert_table_op "\<lambda>d. snd (ResolveAlertsByRule e p rid d)" for e p rid
  by (rule alert_table_op_update [where P = "\<lambda>d. unresolved_row p rid"
        and g = "\<lambda>d r. r\<lparr>al_resolved_at := env_now e (db_ticks d), al_updated_at := env_now e (db_ticks d)\<rparr>"])
     (auto simp: opens_nothing_def unresolved_row_def ResolveAlertsByRule_def stmt_defs
        split: option.splits sum.splits if_splits)

text \<open>\<^verbatim>\<open>ResolveAlert\<close> resolves at the time of the evaluation, which is not zero.\<close>

lemma resolve_alert_op: "t \<noteq> 0 \<Longrightarrow> alert_table_op (\<lambda>d. snd (ResolveAlert e p i t d))"
  by (rule alert_table_op_update [where P = "\<lambda>d r. al_project_id r = p \<and> al_id r = i"
        and g = "\<lambda>d r. r\<lparr>al_resolved_at := t, al_updated_at := t\<rparr>"])
     (simp_all add: opens_nothing_def ResolveAlert_def stmt_defs)

text \<open>
  The two operations with a condition: an update of an alert must not reopen its row, and a new alert
  must have no unresolved row of its key.
\<close>

lemma UpdateAlert_alerts_ok:
  assumes "alerts_ok K d"
    and "\<And>r. r \<in> set (db_alerts d) \<Longrightarrow> al_id r = a_Id a \<Longrightarrow> (p, al_rule_id r) \<in> K \<Longrightarrow> al_resolved_at r = 0"
  shows "alerts_ok K (snd (UpdateAlert e p a d))"
proof -
  let ?P = "\<lambda>r. al_project_id r = p \<and> al_id r = a_Id a"
  let ?g = "\<lambda>r. r\<lparr>al_severity := Status_String (a_Severity a), al_summary := a_Summary a,
      al_details := a_Details a, al_resolved_at := a_ResolvedAt a, al_updated_at := env_now e (db_ticks d)\<rparr>"
  have ids: "map al_id (update_rows ?P ?g rows) = map al_id rows" for rows
    by (induction rows) (auto simp: update_rows_def)
  have cnt: "count_rows (unresolved_key q rid fp) (update_rows ?P ?g rows) \<le> count_rows (unresolved_key q rid fp) rows"
    if "\<And>r. r \<in> set rows \<Longrightarrow> al_id r = a_Id a \<Longrightarrow> (p, al_rule_id r) \<in> K \<Longrightarrow> al_resolved_at r = 0" "(q, rid) \<in> K"
    for q rid fp rows
    using that by (induction rows) (auto simp: count_rows_def update_rows_def unresolved_key_def unresolved_row_def)
  have "db_alerts (snd (UpdateAlert e p a d)) = db_alerts d \<or>
      db_alerts (snd (UpdateAlert e p a d)) = update_rows ?P ?g (db_alerts d)"
    by (simp add: UpdateAlert_def stmt_defs)
  then have "map al_id (db_alerts (snd (UpdateAlert e p a d))) = map al_id (db_alerts d)"
    "(q, rid) \<in> K \<Longrightarrow> count_rows (unresolved_key q rid fp) (db_alerts (snd (UpdateAlert e p a d)))
       \<le> count_rows (unresolved_key q rid fp) (db_alerts d)" for q rid fp
    using ids [of "db_alerts d"] cnt [OF assms(2)] by auto
  then show ?thesis
    using assms(1) unfolding alerts_ok_def one_unresolved_def ids_distinct_def by (metis le_trans)
qed

lemma CreateAlert_alerts_ok:
  assumes "alerts_ok K d"
    and "(p, a_RuleId a) \<in> K \<Longrightarrow> count_rows (unresolved_key p (a_RuleId a) (a_Fingerprint a)) (db_alerts d) = 0"
  shows "alerts_ok K (snd (snd (CreateAlert e p a d)))"
proof -
  let ?row = "alert_row p (a\<lparr>a_OpenedAt := env_now e (db_ticks d), a_UpdatedAt := env_now e (db_ticks d)\<rparr>)"
  have k: "unresolved_key q rid fp ?row \<Longrightarrow> q = p \<and> rid = a_RuleId a \<and> fp = a_Fingerprint a" for q rid fp
    by (auto simp: unresolved_key_def unresolved_row_def alert_row_def)
  have c: "count_rows (unresolved_key q rid fp) (db_alerts d @ [?row]) \<le> 1" if "(q, rid) \<in> K" for q rid fp
    using assms k [of q rid fp] that by (auto simp: alerts_ok_def one_unresolved_def)
  show ?thesis
    using assms(1) c
    by (auto simp: CreateAlert_def stmt_defs alerts_ok_def one_unresolved_def ids_distinct_def
        alert_row_def list_ex_iff)
qed

text \<open>
  Suppressing is such an operation only on alerts that are not resolved. The code suppresses whatever it is
  given: a resolved alert is reopened then, beside an unresolved one of the same key.
\<close>

definition suppresses_unresolved :: "ProjectId \<Rightarrow> string list \<Rightarrow> DB \<Rightarrow> bool" where
  "suppresses_unresolved p ids d \<longleftrightarrow>
     list_all (\<lambda>r. al_project_id r = p \<and> al_id r \<in> set ids \<longrightarrow> al_resolved_at r = 0) (db_alerts d)"

lemma SuppressAlerts_alerts_ok:
  assumes "alerts_ok K d" "suppresses_unresolved p ids d"
  shows "alerts_ok K (snd (SuppressAlerts e p ids who d))"
proof -
  let ?P = "\<lambda>r. al_project_id r = p \<and> al_id r \<in> set ids"
  let ?g = "\<lambda>r. r\<lparr>al_suppressed := True, al_resolved_at := 0, al_manually_resolved_at := 0,
                   al_resolved_by := who, al_updated_at := env_now e (db_ticks d)\<rparr>"
  have same: "map al_id (update_rows ?P ?g rows) = map al_id rows"
      "count_rows (unresolved_key q rid fp) (update_rows ?P ?g rows) = count_rows (unresolved_key q rid fp) rows"
    if "list_all (\<lambda>r. al_project_id r = p \<and> al_id r \<in> set ids \<longrightarrow> al_resolved_at r = 0) rows" for q rid fp rows
    using that by (induction rows) (auto simp: update_rows_def count_rows_def unresolved_key_def unresolved_row_def)
  have "db_alerts (snd (SuppressAlerts e p ids who d)) = db_alerts d \<or>
      db_alerts (snd (SuppressAlerts e p ids who d)) = update_rows ?P ?g (db_alerts d)"
    by (simp add: SuppressAlerts_def stmt_defs)
  then show ?thesis
    using assms(1) same [OF assms(2) [unfolded suppresses_unresolved_def]]
    unfolding alerts_ok_def one_unresolved_def ids_distinct_def by (auto simp only:)
qed

lemma suppression_duplicates:
  assumes "reliable e" "r \<in> set rows" "s \<in> set rows" "al_id r \<noteq> al_id s"
    and "unresolved_key p rid fp s" "al_project_id r = p" "al_rule_id r = rid" "al_fingerprint r = fp"
  shows "count_rows (unresolved_key p rid fp)
     (db_alerts (snd (SuppressAlerts e p [al_id r] who (d\<lparr>db_alerts := rows\<rparr>)))) \<ge> 2"
proof -
  let ?P = "\<lambda>x. al_project_id x = p \<and> al_id x = al_id r"
  let ?g = "\<lambda>x. if ?P x then x\<lparr>al_suppressed := True, al_resolved_at := 0, al_manually_resolved_at := 0,
                   al_resolved_by := who, al_updated_at := env_now e (db_ticks d)\<rparr> else x"
  have rows: "db_alerts (snd (SuppressAlerts e p [al_id r] who (d\<lparr>db_alerts := rows\<rparr>))) = map ?g rows"
    using assms(1) by (simp add: SuppressAlerts_def stmt_defs reliable_def update_rows_def)
  have "{r, s} \<subseteq> set (filter (\<lambda>x. unresolved_key p rid fp (?g x)) rows)"
    using assms(2-8) by (auto simp: unresolved_key_def unresolved_row_def)
  then have "card {r, s} \<le> length (filter (\<lambda>x. unresolved_key p rid fp (?g x)) rows)"
    by (meson card_length card_mono finite_set le_trans)
  moreover have "card {r, s} = 2" using assms(4) by (cases "r = s") auto
  ultimately show ?thesis unfolding rows count_rows_def filter_map comp_def length_map by linarith
qed

lemma unresolved_open: "unresolved_key p rid fp r \<Longrightarrow> open_row p fp r"
  by (simp add: unresolved_key_def unresolved_row_def open_row_def)

lemma GetActive_None:
  assumes "GetActiveOrSuppressedAlertByFingerprint e p fp d = (Inr None, d')"
  shows "count_rows (unresolved_key p rid fp) (db_alerts d') = 0 \<and> db_alerts d' = db_alerts d"
proof -
  have "filter (open_row p fp) (db_alerts d) = []" "db_alerts d' = db_alerts d"
    using assms unfolding GetActiveOrSuppressedAlertByFingerprint_def
    by (auto dest!: query_Inr split: list.splits)
  then show ?thesis by (auto simp: count_rows_0_iff filter_empty_conv dest: unresolved_open)
qed

lemma GetActive_Some:
  assumes "GetActiveOrSuppressedAlertByFingerprint e p fp d = (Inr (Some a), d')"
  obtains r where "r \<in> set (db_alerts d)" "open_row p fp r" "scanAlert r p = Some a" "db_alerts d' = db_alerts d"
proof -
  have d': "db_alerts d' = db_alerts d"
    using assms unfolding GetActiveOrSuppressedAlertByFingerprint_def by (auto dest!: query_Inr)
  have "(case sort_by newest_first (filter (open_row p fp) (db_alerts d)) of
      [] \<Rightarrow> Some None | r # _ \<Rightarrow> map_option Some (scanAlert r p)) = Some (Some a)"
    using assms unfolding GetActiveOrSuppressedAlertByFingerprint_def by (auto dest!: query_Inr)
  then obtain r rs where s: "sort_by newest_first (filter (open_row p fp) (db_alerts d)) = r # rs" "scanAlert r p = Some a"
    by (auto split: list.splits)
  have "r \<in> set (filter (open_row p fp) (db_alerts d))"
    by (metis list.set_intros(1) s(1) set_sort_by)
  then show ?thesis using s(2) d' by (intro that [of r]) auto
qed

lemma GetActive_alerts [simp]:
  "db_alerts (snd (GetActiveOrSuppressedAlertByFingerprint e p fp d)) = db_alerts d"
  by (simp add: GetActiveOrSuppressedAlertByFingerprint_def stmt_defs)

lemma GetLatest_alerts [simp]: "db_alerts (snd (GetLatestAlertsByRule e p rid d)) = db_alerts d"
  by (simp add: GetLatestAlertsByRule_def stmt_defs)

lemma scanAlert_fields:
  "scanAlert r p = Some a \<Longrightarrow> a_Id a = al_id r \<and> a_Suppressed a = al_suppressed r \<and> a_ResolvedAt a = al_resolved_at r \<and>
     a_Fingerprint a = al_fingerprint r \<and> a_RuleId a = al_rule_id r \<and> a_UpdatedAt a = al_updated_at r \<and>
     a_ManuallyResolvedAt a = al_manually_resolved_at r \<and> a_ApplicationCategory a = al_application_category r"
  by (auto simp: scanAlert_def)

lemma row_by_id:
  "ids_distinct d \<Longrightarrow> r \<in> set (db_alerts d) \<Longrightarrow> s \<in> set (db_alerts d) \<Longrightarrow> al_id r = al_id s \<Longrightarrow> r = s"
  unfolding ids_distinct_def by (metis distinct_map inj_onD)

end
