(* ===== verification/SendPass.thy ===== *)
theory SendPass
  imports Database "HOL-Library.Sublist"
begin

text \<open>
  What the two notifiers (\<^verbatim>\<open>notifications/alerts.go\<close>, \<^verbatim>\<open>notifications/incidents.go\<close>) promise
  when they send: the notifications are tried in the order of the queue, each at most once, and after
  a failure nothing more is sent to the same destination of the same project in this pass. The
  promise is a locale over the loop of a notifier and the function that tries one notification.
\<close>

type_synonym send_key = "ProjectId \<times> Destination"
type_synonym send_ident = "ProjectId \<times> string \<times> Status \<times> Time \<times> Destination"

fun ev_key :: "Event \<Rightarrow> send_key" where
  "ev_key (AlertSend c n ok) = (n_ProjectId n, n_Destination n)"
| "ev_key (IncidentSend c n ok) = (in_ProjectId n, in_Destination n)"

fun ev_ok :: "Event \<Rightarrow> bool" where
  "ev_ok (AlertSend c n ok) = ok"
| "ev_ok (IncidentSend c n ok) = ok"

fun ev_ident :: "Event \<Rightarrow> send_ident" where
  "ev_ident (AlertSend c n ok) = (n_ProjectId n, n_AlertId n, n_Status n, n_Timestamp n, n_Destination n)"
| "ev_ident (IncidentSend c n ok) = (in_ProjectId n, in_IncidentKey n, in_Status n, in_Timestamp n, in_Destination n)"

fun stops_after_failure :: "Event list \<Rightarrow> bool" where
  "stops_after_failure [] = True"
| "stops_after_failure (ev # evs) = ((\<not> ev_ok ev \<longrightarrow> ev_key ev \<notin> ev_key ` set evs) \<and> stops_after_failure evs)"

locale send_pass =
  fixes key :: "'n \<Rightarrow> send_key" and ident :: "'n \<Rightarrow> send_ident"
    and attempt :: "'n \<Rightarrow> DB \<Rightarrow> bool \<times> DB"
    and loop :: "send_key list \<Rightarrow> 'n list \<Rightarrow> DB \<Rightarrow> DB"
  assumes loop_Nil: "loop failed [] d = d"
    and loop_Cons: "loop failed (n # ns) d =
      (if key n \<in> set failed then loop failed ns d
       else loop (if fst (attempt n d) then failed else key n # failed) ns (snd (attempt n d)))"
    and attempt_trace: "db_trace (snd (attempt n d)) = db_trace d \<and> fst (attempt n d) \<or>
      (\<exists>ev. db_trace (snd (attempt n d)) = db_trace d @ [ev] \<and> ev_key ev = key n \<and> ev_ident ev = ident n \<and>
            ev_ok ev = fst (attempt n d))"
begin

lemma loop_trace:
  "\<exists>evs. db_trace (loop failed ns d) = db_trace d @ evs \<and> stops_after_failure evs \<and>
         ev_key ` set evs \<inter> set failed = {} \<and> subseq (map ev_ident evs) (map ident ns)"
proof (induction ns arbitrary: failed d)
  case Nil
  then show ?case by (simp add: loop_Nil)
next
  case (Cons n ns)
  show ?case
  proof (cases "key n \<in> set failed")
    case True
    then show ?thesis using Cons.IH [of failed d] by (auto simp: loop_Cons)
  next
    case False
    let ?ok = "fst (attempt n d)" let ?d = "snd (attempt n d)"
    obtain evs where evs: "db_trace (loop (if ?ok then failed else key n # failed) ns ?d) = db_trace ?d @ evs"
        "stops_after_failure evs" "ev_key ` set evs \<inter> set (if ?ok then failed else key n # failed) = {}"
        "subseq (map ev_ident evs) (map ident ns)"
      using Cons.IH [of "if ?ok then failed else key n # failed" ?d] by auto
    from attempt_trace [of n d] show ?thesis
    proof (elim disjE exE conjE)
      assume "db_trace ?d = db_trace d" ?ok
      then show ?thesis using evs False by (intro exI [of _ evs]) (auto simp: loop_Cons)
    next
      fix ev assume ev: "db_trace ?d = db_trace d @ [ev]" "ev_key ev = key n" "ev_ident ev = ident n" "ev_ok ev = ?ok"
      then show ?thesis using evs False
        by (intro exI [of _ "ev # evs"]) (auto simp: loop_Cons split: if_splits)
    qed
  qed
qed

end

text \<open>A pass whose attempts keep a relation between the databases keeps it as a whole.\<close>

locale framed_send_pass = send_pass key ident attempt loop
  for key :: "'n \<Rightarrow> send_key" and ident and attempt and loop +
  fixes frame :: "DB \<Rightarrow> DB \<Rightarrow> bool"
  assumes frame_refl: "frame d d"
    and frame_trans: "frame a b \<Longrightarrow> frame b c \<Longrightarrow> frame a c"
    and attempt_frame: "frame d (snd (attempt n d))"
begin

lemma loop_frame: "frame d (loop failed ns d)"
proof (induction ns arbitrary: failed d)
  case Nil
  then show ?case by (simp add: loop_Nil frame_refl)
next
  case (Cons n ns)
  have "frame d (loop f ns (snd (attempt n d)))" for f
    by (rule frame_trans [OF attempt_frame Cons.IH])
  then show ?case unfolding loop_Cons by (simp only: Cons.IH split: if_split) blast
qed

end

end
