(* ===== verification/AlertNotifier.thy ===== *)
theory AlertNotifier
  imports AlertStore SendPass
begin

text \<open>
  Notifications of alerts: their table (\<^verbatim>\<open>db/alert_notification.go\<close>), the choice of a client
  (\<^verbatim>\<open>notifications/notifications.go\<close>) and the notifier (\<^verbatim>\<open>notifications/alerts.go\<close>). The mutex
  \<^verbatim>\<open>sendLock\<close> lets one send run at a time, so a send is one step here.
\<close>

subsection \<open>The table (db/alert_notification.go)\<close>

definition PutAlertNotification :: "Env \<Rightarrow> AlertNotification \<Rightarrow> DB \<Rightarrow> DB" where
  "PutAlertNotification e n d =
     snd (exec_sql e (\<lambda>d. d\<lparr>db_alert_notifications := db_alert_notifications d @
       [\<lparr>an_project_id = n_ProjectId n, an_alert_id = n_AlertId n, an_rule_id = n_RuleId n,
         an_application_id = ApplicationId_Value (n_ApplicationId n), an_status = n_Status n,
         an_destination = Destination_Value (n_Destination n), an_timestamp = n_Timestamp n,
         an_sent_at = 0, an_external_key = n_ExternalKey n, an_details = n_Details n\<rparr>]\<rparr>) d)"

definition UpdateAlertNotification :: "Env \<Rightarrow> AlertNotification \<Rightarrow> DB \<Rightarrow> unit result" where
  "UpdateAlertNotification e n =
     exec_sql e (\<lambda>d. d\<lparr>db_alert_notifications :=
       update_rows (\<lambda>r. an_project_id r = n_ProjectId n \<and> an_alert_id r = n_AlertId n \<and>
                        an_timestamp r = n_Timestamp n \<and> an_destination r = Destination_Value (n_Destination n))
         (\<lambda>r. r\<lparr>an_sent_at := n_SentAt n, an_external_key := n_ExternalKey n\<rparr>)
         (db_alert_notifications d)\<rparr>)"

definition scan_notification :: "AlertNotificationRow \<Rightarrow> AlertNotification option" where
  "scan_notification r =
     map_option (\<lambda>i.
       \<lparr>n_ProjectId = an_project_id r, n_AlertId = an_alert_id r, n_RuleId = an_rule_id r,
        n_ApplicationId = (if ClusterId i = [] then i\<lparr>ClusterId := an_project_id r\<rparr> else i),
        n_Status = an_status r, n_Destination = Destination_Scan (an_destination r),
        n_Timestamp = an_timestamp r, n_SentAt = 0, n_ExternalKey = an_external_key r,
        n_Details = an_details r\<rparr>)
     (ApplicationId_Scan (Some (an_application_id r)))"

definition scan_notifications :: "AlertNotificationRow list \<Rightarrow> AlertNotification list option" where
  "scan_notifications rows = those (map scan_notification rows)"

text \<open>\<^verbatim>\<open>ORDER BY project_id, application_id, alert_id, timestamp\<close>\<close>

definition send_order :: "AlertNotificationRow \<Rightarrow> AlertNotificationRow \<Rightarrow> bool" where
  "send_order r s =
     (if an_project_id r \<noteq> an_project_id s then string_le (an_project_id r) (an_project_id s)
      else if an_application_id r \<noteq> an_application_id s then string_le (an_application_id r) (an_application_id s)
      else if an_alert_id r \<noteq> an_alert_id s then string_le (an_alert_id r) (an_alert_id s)
      else an_timestamp r \<le> an_timestamp s)"

definition GetNotSentAlertNotifications :: "Env \<Rightarrow> Time \<Rightarrow> DB \<Rightarrow> AlertNotification list result" where
  "GetNotSentAlertNotifications e f =
     query e (\<lambda>d. scan_notifications
       (sort_by send_order (filter (\<lambda>r. an_timestamp r \<ge> f \<and> an_sent_at r = 0) (db_alert_notifications d))))"

text \<open>Grouped by alert; the answer for an alert without notifications is the nil slice.\<close>

definition GetAlertNotificationsByAlertIds :: "Env \<Rightarrow> ProjectId \<Rightarrow> string list \<Rightarrow> DB \<Rightarrow> (string \<Rightarrow> AlertNotification list) result" where
  "GetAlertNotificationsByAlertIds e projectId alertIds d =
     (if length alertIds = 0 then (Inr (\<lambda>_. []), d)
      else query e (\<lambda>d. map_option (\<lambda>ns alertId. filter (\<lambda>n. n_AlertId n = alertId) ns)
             (scan_notifications
               (sort_by (\<lambda>r s. if an_alert_id r \<noteq> an_alert_id s then string_le (an_alert_id r) (an_alert_id s)
                               else an_timestamp r \<le> an_timestamp s)
                 (filter (\<lambda>r. an_project_id r = projectId \<and> an_alert_id r \<in> set alertIds)
                   (db_alert_notifications d))))) d)"

definition GetPreviousAlertNotifications :: "Env \<Rightarrow> AlertNotification \<Rightarrow> DB \<Rightarrow> AlertNotification list result" where
  "GetPreviousAlertNotifications e n =
     query e (\<lambda>d. scan_notifications
       (sort_by (\<lambda>r s. an_timestamp r \<le> an_timestamp s)
         (filter (\<lambda>r. an_project_id r = n_ProjectId n \<and> an_alert_id r = n_AlertId n \<and>
                      an_destination r = Destination_Value (n_Destination n) \<and> an_timestamp r < n_Timestamp n)
           (db_alert_notifications d))))"

subsection \<open>Clients (notifications.go)\<close>

datatype NotificationType = NotificationTypeIncident | NotificationTypeAlert

fun isEnabled :: "bool \<Rightarrow> bool option \<Rightarrow> NotificationType \<Rightarrow> bool" where
  "isEnabled incidents alerts NotificationTypeIncident = incidents"
| "isEnabled incidents alerts NotificationTypeAlert = (alerts = Some True)"

definition getClient :: "Destination \<Rightarrow> Integrations \<Rightarrow> NotificationType \<Rightarrow> NotificationClient option" where
  "getClient dst i t =
     (if d_IntegrationType dst = IntegrationTypeSlack
      then (case in_Slack i of None \<Rightarrow> None
            | Some c \<Rightarrow> if isEnabled (sl_Incidents c) (sl_Alerts c) t
                then Some (SlackClient (sl_Token c) (if d_SlackChannel dst \<noteq> [] then d_SlackChannel dst else sl_DefaultChannel c))
                else None)
      else if d_IntegrationType dst = IntegrationTypeTeams
      then (case in_Teams i of None \<Rightarrow> None
            | Some c \<Rightarrow> if isEnabled (te_Incidents c) (te_Alerts c) t
                then Some (TeamsClient (GetWebhookUrl c (d_TeamsChannel dst))) else None)
      else if d_IntegrationType dst = IntegrationTypePagerduty
      then (case in_Pagerduty i of None \<Rightarrow> None
            | Some c \<Rightarrow> if isEnabled (pd_Incidents c) (pd_Alerts c) t then Some (PagerdutyClient (pd_IntegrationKey c)) else None)
      else if d_IntegrationType dst = IntegrationTypeOpsgenie
      then (case in_Opsgenie i of None \<Rightarrow> None
            | Some c \<Rightarrow> if isEnabled (og_Incidents c) (og_Alerts c) t then Some (OpsgenieClient (og_ApiKey c) (og_EUInstance c)) else None)
      else if d_IntegrationType dst = IntegrationTypeWebhook
      then (case in_Webhook i of None \<Rightarrow> None
            | Some c \<Rightarrow> if isEnabled (wh_Incidents c) (wh_Alerts c) t then Some (WebhookClient c) else None)
      else None)"

definition retryWindow :: Duration where "retryWindow = Hour"

definition GetProjects :: "Env \<Rightarrow> DB \<Rightarrow> Project list result" where
  "GetProjects e = query e (\<lambda>d. Some (db_projects d))"

subsection \<open>Sending (alerts.go)\<close>

text \<open>The last non-empty external key of the earlier notifications wins.\<close>

definition thread_key :: "AlertNotification \<Rightarrow> AlertNotification list \<Rightarrow> AlertNotification" where
  "thread_key n prev = foldl (\<lambda>n pn. if n_ExternalKey pn \<noteq> [] then n\<lparr>n_ExternalKey := n_ExternalKey pn\<rparr> else n) n prev"

definition load_thread :: "Env \<Rightarrow> AlertNotification \<Rightarrow> DB \<Rightarrow> AlertNotification \<times> DB" where
  "load_thread e n d =
     (if d_IntegrationType (n_Destination n) = IntegrationTypeSlack
      then (case GetPreviousAlertNotifications e n d of
              (Inl _, d1) \<Rightarrow> (n, d1) | (Inr prev, d1) \<Rightarrow> (thread_key n prev, d1))
      else (n, d))"

definition mark_sent :: "Env \<Rightarrow> AlertNotification \<Rightarrow> DB \<Rightarrow> DB" where
  "mark_sent e n d = (let (now, d1) = Now e d in snd (UpdateAlertNotification e (n\<lparr>n_SentAt := now\<rparr>) d1))"

definition send_one :: "Env \<Rightarrow> Project \<Rightarrow> AlertNotification \<Rightarrow> DB \<Rightarrow> bool \<times> DB" where
  "send_one e project n d =
     (case getClient (n_Destination n) (p_Integrations project) NotificationTypeAlert of
        None \<Rightarrow> (True, mark_sent e n d)
      | Some client \<Rightarrow>
          (let (n1, d1) = load_thread e n d
           in case env_send_alert e (length (db_trace d1)) client (in_BaseUrl (p_Integrations project)) n1 of
                Inl err \<Rightarrow> (False, d1\<lparr>db_trace := db_trace d1 @ [AlertSend client n1 False]\<rparr>)
              | Inr key \<Rightarrow> (True, mark_sent e (n1\<lparr>n_ExternalKey := key\<rparr>)
                             (d1\<lparr>db_trace := db_trace d1 @ [AlertSend client n1 True]\<rparr>))))"

fun send_loop :: "Env \<Rightarrow> Project list \<Rightarrow> (ProjectId \<times> Destination) list \<Rightarrow> AlertNotification list \<Rightarrow> DB \<Rightarrow> DB" where
  "send_loop e ps failed [] d = d"
| "send_loop e ps failed (n # ns) d =
     (let dKey = (n_ProjectId n, n_Destination n) in
      if dKey \<in> set failed then send_loop e ps failed ns d
      else
        (case filter (\<lambda>p. p_Id p = n_ProjectId n) ps of
           [] \<Rightarrow> send_loop e ps failed ns d
         | project # _ \<Rightarrow>
             (let (ok, d1) = send_one e project n d
              in send_loop e ps (if ok then failed else dKey # failed) ns d1)))"

definition sendAlerts :: "Env \<Rightarrow> DB \<Rightarrow> DB" where
  "sendAlerts e d =
     (case GetProjects e d of
        (Inl _, d1) \<Rightarrow> d1
      | (Inr ps, d1) \<Rightarrow>
          if length ps = 0 then d1
          else
            (let (now, d2) = Now e d1
             in case GetNotSentAlertNotifications e (now - retryWindow) d2 of
                  (Inl _, d3) \<Rightarrow> d3
                | (Inr ns, d3) \<Rightarrow> send_loop e ps [] ns d3))"

text \<open>\<open>primary\<close>: this replica holds the primary lock.\<close>

definition AlertNotifier_retry :: "Env \<Rightarrow> bool \<Rightarrow> DB \<Rightarrow> DB" where
  "AlertNotifier_retry e primary d = (if \<not> primary then d else sendAlerts e d)"

subsection \<open>Queueing (alerts.go)\<close>

definition filterAlertDetails :: "AlertDetail list \<Rightarrow> AlertDetail list" where
  "filterAlertDetails details =
     filter (\<lambda>d. \<not> (ad_Name d = ''PromQL'' \<or> ad_Name d = ''PromQLChart'')) details"

definition AlertNotifier_onOpen :: "Env \<Rightarrow> string \<Rightarrow> AlertNotification \<Rightarrow> AlertNotificationDetails option \<Rightarrow> DB \<Rightarrow> DB" where
  "AlertNotifier_onOpen e externalKey n details =
     PutAlertNotification e (n\<lparr>n_ExternalKey := externalKey, n_Details := details\<rparr>)"

definition AlertNotifier_onResolve :: "Env \<Rightarrow> string \<Rightarrow> AlertNotification \<Rightarrow> AlertNotificationDetails option \<Rightarrow> DB \<Rightarrow> DB" where
  "AlertNotifier_onResolve e externalKey n details =
     PutAlertNotification e (n\<lparr>n_Status := OK, n_ExternalKey := externalKey, n_Details := details\<rparr>)"

definition open_key :: "AlertNotification list \<Rightarrow> string" where
  "open_key prevs =
     foldl (\<lambda>openKey prev.
        if n_Status prev = OK then (if openKey = n_ExternalKey prev then [] else openKey)
        else n_ExternalKey prev) [] prevs"

definition getOpenAlert :: "Env \<Rightarrow> AlertNotification \<Rightarrow> DB \<Rightarrow> string result" where
  "getOpenAlert e n d =
     (case GetPreviousAlertNotifications e n d of
        (Inl err, d1) \<Rightarrow> (Inl err, d1) | (Inr prevs, d1) \<Rightarrow> (Inr (open_key prevs), d1))"

definition external_key :: "Project \<Rightarrow> Alert \<Rightarrow> string" where
  "external_key project alert = p_Id project @ '':'' @ a_Id alert @ '':'' @ Status_String (a_Severity alert)"

definition enqueue :: "Env \<Rightarrow> Time \<Rightarrow> Project \<Rightarrow> Alert \<Rightarrow> AlertingRule \<Rightarrow> Destination \<Rightarrow> DB \<Rightarrow> DB" where
  "enqueue e now project alert rule dst d =
     (let n = \<lparr>n_ProjectId = p_Id project, n_AlertId = a_Id alert, n_RuleId = a_RuleId alert,
               n_ApplicationId = a_ApplicationId alert, n_Status = a_Severity alert, n_Destination = dst,
               n_Timestamp = now, n_SentAt = 0, n_ExternalKey = [], n_Details = None\<rparr>;
          details = Some \<lparr>nd_ProjectName = p_Name project, nd_RuleName = r_Name rule,
               nd_Severity = Status_String (a_Severity alert), nd_Summary = a_Summary alert,
               nd_Details = filterAlertDetails (a_Details alert),
               nd_Duration = (if a_ResolvedAt alert > 0
                              then env_format_duration e (a_ResolvedAt alert - a_OpenedAt alert) 2 else []),
               nd_ResolvedBy = []\<rparr>
      in if d_IntegrationType dst \<in> {IntegrationTypeSlack, IntegrationTypeTeams, IntegrationTypeWebhook}
         then (if a_ResolvedAt alert > 0 then AlertNotifier_onResolve e [] n details d
               else AlertNotifier_onOpen e [] n details d)
         else if d_IntegrationType dst \<in> {IntegrationTypePagerduty, IntegrationTypeOpsgenie}
         then (case getOpenAlert e n d of
                 (Inl _, d1) \<Rightarrow> d1
               | (Inr openKey, d1) \<Rightarrow>
                   if a_ResolvedAt alert > 0
                   then (if openKey \<noteq> [] then AlertNotifier_onResolve e openKey n details d1 else d1)
                   else AlertNotifier_onOpen e (external_key project alert) n details d1)
         else d)"

text \<open>The destinations of a category, in the order of the code.\<close>

definition destinations :: "NotificationSettings \<Rightarrow> Destination list" where
  "destinations s =
     (case ns_Slack s of Some x \<Rightarrow> if cs_Enabled x then [slack_destination (cs_Channel x)] else [] | None \<Rightarrow> []) @
     (case ns_Teams s of Some x \<Rightarrow> if cs_Enabled x then [teams_destination (cs_Channel x)] else [] | None \<Rightarrow> []) @
     (if ns_Pagerduty s = Some True then [plain_destination IntegrationTypePagerduty] else []) @
     (if ns_Opsgenie s = Some True then [plain_destination IntegrationTypeOpsgenie] else []) @
     (if ns_Webhook s = Some True then [plain_destination IntegrationTypeWebhook] else [])"

definition Enqueue :: "Env \<Rightarrow> Project \<Rightarrow> Application option \<Rightarrow> Alert \<Rightarrow> AlertingRule \<Rightarrow> Time \<Rightarrow> DB \<Rightarrow> DB" where
  "Enqueue e project app alert rule now d =
     (let category = (case app of Some a \<Rightarrow> app_Category a
            | None \<Rightarrow> if r_NotificationCategory rule \<noteq> [] then r_NotificationCategory rule
                      else ApplicationCategoryApplication)
      in case GetApplicationCategories project category of
           None \<Rightarrow> d
         | Some info \<Rightarrow>
             (let s = cn_Alerts (ci_NotificationSettings info)
              in if \<not> ns_Enabled s then d
                 else sendAlerts e (fold (enqueue e now project alert rule) (destinations s) d)))"

text \<open>
  \<^verbatim>\<open>EnqueueResolvedAlerts\<close>: the notifications of alerts resolved by a user. They are sent by the
  next retry.
\<close>

definition enqueueResolvedAlert :: "Env \<Rightarrow> Time \<Rightarrow> Project \<Rightarrow> Alert \<Rightarrow> AlertingRule \<Rightarrow> NotificationSettings \<Rightarrow> DB \<Rightarrow> DB" where
  "enqueueResolvedAlert e now project alert rule settings d =
     (let details = Some \<lparr>nd_ProjectName = p_Name project, nd_RuleName = r_Name rule,
            nd_Severity = Status_String (a_Severity alert), nd_Summary = a_Summary alert,
            nd_Details = filterAlertDetails (a_Details alert),
            nd_Duration = env_format_duration e (now - a_OpenedAt alert) 2, nd_ResolvedBy = a_ResolvedBy alert\<rparr>;
          put = (\<lambda>dst d. PutAlertNotification e
            \<lparr>n_ProjectId = p_Id project, n_AlertId = a_Id alert, n_RuleId = a_RuleId alert,
             n_ApplicationId = a_ApplicationId alert, n_Status = OK, n_Destination = dst,
             n_Timestamp = now, n_SentAt = 0,
             n_ExternalKey = (if d_IntegrationType dst \<in> {IntegrationTypePagerduty, IntegrationTypeOpsgenie}
                              then external_key project alert else []),
             n_Details = details\<rparr> d)
      in fold put (destinations settings) d)"

fun enqueue_resolved :: "Env \<Rightarrow> Time \<Rightarrow> Project \<Rightarrow> AlertingRule \<Rightarrow> Alert list \<Rightarrow> DB \<Rightarrow> DB" where
  "enqueue_resolved e now project rule [] d = d"
| "enqueue_resolved e now project rule (a # as) d =
     (let alert = a\<lparr>a_ResolvedAt := now\<rparr>;
          category = (if a_ApplicationCategory alert = []
            then (if r_NotificationCategory rule \<noteq> [] then r_NotificationCategory rule else ApplicationCategoryApplication)
            else a_ApplicationCategory alert)
      in case GetApplicationCategories project category of
           None \<Rightarrow> enqueue_resolved e now project rule as d
         | Some info \<Rightarrow>
             (let s = cn_Alerts (ci_NotificationSettings info)
              in enqueue_resolved e now project rule as
                   (if \<not> ns_Enabled s then d else enqueueResolvedAlert e now project alert rule s d)))"

definition EnqueueResolvedAlerts :: "Env \<Rightarrow> Project \<Rightarrow> Alert list \<Rightarrow> AlertingRule \<Rightarrow> DB \<Rightarrow> DB" where
  "EnqueueResolvedAlerts e project alerts rule d =
     (let (now, d1) = Now e d in enqueue_resolved e now project rule alerts d1)"

subsection \<open>What the notifier keeps\<close>

text \<open>The notifier writes only its own table (and the trace).\<close>

definition notifier_frame :: "DB \<Rightarrow> DB \<Rightarrow> bool" where
  "notifier_frame d d' \<longleftrightarrow> db_alerts d' = db_alerts d \<and> db_rules d' = db_rules d \<and>
     db_incidents d' = db_incidents d \<and> db_projects d' = db_projects d \<and> db_ids d' = db_ids d"

lemma notifier_frame_refl [simp]: "notifier_frame d d"
  by (simp add: notifier_frame_def)

lemma notifier_frame_trans [trans]: "notifier_frame a b \<Longrightarrow> notifier_frame b c \<Longrightarrow> notifier_frame a c"
  by (simp add: notifier_frame_def)

lemma frame_Now [keeps]: "notifier_frame d (snd (Now e d))"
  by (simp add: notifier_frame_def Now_def)

lemma frame_query [keeps]: "notifier_frame d (snd (query e f d))"
  by (simp add: notifier_frame_def query_def sql_def Let_def)

lemma frame_queryD: "query e f d = (r, d') \<Longrightarrow> notifier_frame d d'"
  using frame_query [of d e f] by simp

lemma frame_NowD: "Now e d = (t, d') \<Longrightarrow> notifier_frame d d'"
  using frame_Now [of d e] by simp

lemma frame_Put [keeps]: "notifier_frame d (PutAlertNotification e n d)"
  by (simp add: notifier_frame_def PutAlertNotification_def exec_sql_def sql_def Let_def)

lemma frame_mark_sent [keeps]: "notifier_frame d (mark_sent e n d)"
  by (simp add: notifier_frame_def mark_sent_def UpdateAlertNotification_def exec_sql_def sql_def Now_def Let_def)

lemma frame_load_thread [keeps]: "notifier_frame d (snd (load_thread e n d))"
  by (auto simp: load_thread_def GetPreviousAlertNotifications_def split: prod.splits sum.splits dest: frame_queryD)

lemma frame_trace: "notifier_frame d d' \<Longrightarrow> notifier_frame d (d'\<lparr>db_trace := t\<rparr>)"
  by (simp add: notifier_frame_def)

lemma frame_send_one [keeps]: "notifier_frame d (snd (send_one e p n d))"
proof (cases "getClient (n_Destination n) (p_Integrations p) NotificationTypeAlert")
  case None
  then show ?thesis by (simp add: send_one_def keeps)
next
  case (Some client)
  obtain n1 d1 where l: "load_thread e n d = (n1, d1)" by force
  have f: "notifier_frame d d1" using frame_load_thread [of d e n] by (simp add: l)
  then show ?thesis
    using Some by (auto simp: send_one_def l frame_trace split: sum.splits
        intro: notifier_frame_trans [OF frame_trace [OF f] frame_mark_sent])
qed

definition attempt_alert :: "Env \<Rightarrow> Project list \<Rightarrow> AlertNotification \<Rightarrow> DB \<Rightarrow> bool \<times> DB" where
  "attempt_alert e ps n d =
     (case filter (\<lambda>p. p_Id p = n_ProjectId n) ps of [] \<Rightarrow> (True, d) | p # _ \<Rightarrow> send_one e p n d)"

definition alert_key :: "AlertNotification \<Rightarrow> send_key" where
  "alert_key n = (n_ProjectId n, n_Destination n)"

definition alert_ident :: "AlertNotification \<Rightarrow> send_ident" where
  "alert_ident n = (n_ProjectId n, n_AlertId n, n_Status n, n_Timestamp n, n_Destination n)"

lemma thread_key_ident: "alert_key (thread_key n prev) = alert_key n \<and> alert_ident (thread_key n prev) = alert_ident n"
  unfolding thread_key_def by (induction prev arbitrary: n) (simp_all add: alert_key_def alert_ident_def)

lemma trace_mark_sent [simp]: "db_trace (mark_sent e n d) = db_trace d"
  by (simp add: mark_sent_def UpdateAlertNotification_def exec_sql_def sql_def Now_def Let_def)

lemma trace_query: "query e f d = (r, d') \<Longrightarrow> db_trace d' = db_trace d"
  by (auto simp: query_def sql_def Let_def split: if_splits)

lemma load_thread_keeps:
  "load_thread e n d = (n1, d1) \<Longrightarrow>
     db_trace d1 = db_trace d \<and> alert_key n1 = alert_key n \<and> alert_ident n1 = alert_ident n"
  by (auto simp: load_thread_def GetPreviousAlertNotifications_def thread_key_ident
      split: if_splits prod.splits sum.splits dest: trace_query)

lemma send_one_trace:
  "db_trace (snd (send_one e p n d)) = db_trace d \<and> fst (send_one e p n d) \<or>
   (\<exists>ev. db_trace (snd (send_one e p n d)) = db_trace d @ [ev] \<and> ev_key ev = alert_key n \<and>
         ev_ident ev = alert_ident n \<and> ev_ok ev = fst (send_one e p n d))"
proof (cases "getClient (n_Destination n) (p_Integrations p) NotificationTypeAlert")
  case None
  then show ?thesis by (simp add: send_one_def)
next
  case (Some client)
  obtain n1 d1 where l: "load_thread e n d = (n1, d1)" by force
  have k: "ev_key (AlertSend client n1 ok) = alert_key n" "ev_ident (AlertSend client n1 ok) = alert_ident n" for ok
    using load_thread_keeps [OF l] by (simp_all add: alert_key_def alert_ident_def)
  show ?thesis
    using Some load_thread_keeps [OF l] k by (auto simp: send_one_def l split: sum.splits)
qed

interpretation alert_pass: send_pass alert_key alert_ident "attempt_alert e ps" "send_loop e ps" for e ps
proof
  show "send_loop e ps failed (n # ns) d =
      (if alert_key n \<in> set failed then send_loop e ps failed ns d
       else send_loop e ps (if fst (attempt_alert e ps n d) then failed else alert_key n # failed) ns
              (snd (attempt_alert e ps n d)))" for failed n ns d
    by (auto simp: attempt_alert_def alert_key_def split: list.splits prod.splits)
  show "db_trace (snd (attempt_alert e ps n d)) = db_trace d \<and> fst (attempt_alert e ps n d) \<or>
      (\<exists>ev. db_trace (snd (attempt_alert e ps n d)) = db_trace d @ [ev] \<and> ev_key ev = alert_key n \<and>
            ev_ident ev = alert_ident n \<and> ev_ok ev = fst (attempt_alert e ps n d))" for n d
    using send_one_trace [of e _ n d] by (auto simp: attempt_alert_def split: list.splits)
qed simp

interpretation alert_frame: framed_send_pass alert_key alert_ident "attempt_alert e ps" "send_loop e ps" notifier_frame for e ps
proof
  show "notifier_frame d (snd (attempt_alert e ps n d))" for n d
    by (auto simp: attempt_alert_def frame_send_one split: list.splits)
qed (auto intro: notifier_frame_trans)

lemmas frame_send_loop [keeps] = alert_frame.loop_frame

lemma frame_sendAlerts [keeps]: "notifier_frame d (sendAlerts e d)"
proof -
  obtain r1 d1 where p: "GetProjects e d = (r1, d1)" by force
  obtain now d2 where n: "Now e d1 = (now, d2)" by force
  obtain r3 d3 where q: "GetNotSentAlertNotifications e (now - retryWindow) d2 = (r3, d3)" by force
  have f1: "notifier_frame d d1" using p unfolding GetProjects_def by (rule frame_queryD)
  have f2: "notifier_frame d d2" using f1 frame_NowD [OF n] by (rule notifier_frame_trans)
  have "notifier_frame d2 d3" using q unfolding GetNotSentAlertNotifications_def by (rule frame_queryD)
  with f2 have f3: "notifier_frame d d3" by (rule notifier_frame_trans)
  show ?thesis
    using f1 f2 f3 notifier_frame_trans [OF f3 frame_send_loop]
    by (auto simp: sendAlerts_def p n q split: sum.splits)
qed

lemma frame_fold: "(\<And>x d. notifier_frame d (f x d)) \<Longrightarrow> notifier_frame d (fold f xs d)"
proof (induction xs arbitrary: d)
  case (Cons x xs)
  then show ?case by (simp, metis notifier_frame_trans)
qed simp

lemma frame_enqueue [keeps]: "notifier_frame d (enqueue e now p a r dst d)"
proof -
  have g: "getOpenAlert e n d = (r, d') \<Longrightarrow> notifier_frame d d'" for n d r d'
    by (auto simp: getOpenAlert_def GetPreviousAlertNotifications_def split: prod.splits sum.splits dest: frame_queryD)
  have put: "notifier_frame d d1 \<Longrightarrow> notifier_frame d (PutAlertNotification e n d1)" for d d1 n
    using frame_Put notifier_frame_trans by blast
  show ?thesis
    unfolding enqueue_def AlertNotifier_onOpen_def AlertNotifier_onResolve_def Let_def
    by (auto split: prod.splits sum.splits intro!: put dest: g)
qed

lemma frame_Enqueue [keeps]: "notifier_frame d (Enqueue e p app a r now d)"
  unfolding Enqueue_def Let_def
  by (auto split: option.splits intro: notifier_frame_trans [OF frame_fold [OF frame_enqueue] frame_sendAlerts])

lemma Enqueue_alerts [simp]: "db_alerts (Enqueue e p app a r now d) = db_alerts d"
  "db_rules (Enqueue e p app a r now d) = db_rules d"
  "db_ids (Enqueue e p app a r now d) = db_ids d"
  using frame_Enqueue [of d e p app a r now] by (simp_all add: notifier_frame_def)

subsection \<open>The order of sending\<close>

definition row_ident :: "AlertNotificationRow \<Rightarrow> send_ident" where
  "row_ident r = (an_project_id r, an_alert_id r, an_status r, an_timestamp r, Destination_Scan (an_destination r))"

text \<open>
  What a pass may try, said without the queries of the code: the rows not sent and not older than \<open>f\<close>, by
  project, application, alert and time.
\<close>

fun lex_le :: "(string \<times> string) list \<Rightarrow> bool \<Rightarrow> bool" where
  "lex_le [] b = b"
| "lex_le ((s, t) # xs) b = (if s = t then lex_le xs b else string_le s t)"

definition due_rows :: "Time \<Rightarrow> DB \<Rightarrow> AlertNotificationRow list" where
  "due_rows f d =
     sort_by (\<lambda>r s. lex_le [(an_project_id r, an_project_id s), (an_application_id r, an_application_id s), (an_alert_id r, an_alert_id s)]
         (an_timestamp r \<le> an_timestamp s))
       (filter (\<lambda>r. \<not> an_timestamp r < f \<and> an_sent_at r = 0) (db_alert_notifications d))"

lemma due_rows_eq: "due_rows f d = sort_by send_order (filter (\<lambda>r. an_timestamp r \<ge> f \<and> an_sent_at r = 0) (db_alert_notifications d))"
proof -
  have "(\<lambda>r s. lex_le [(an_project_id r, an_project_id s), (an_application_id r, an_application_id s), (an_alert_id r, an_alert_id s)]
      (an_timestamp r \<le> an_timestamp s)) = send_order"
    by (intro ext) (simp add: send_order_def)
  then show ?thesis by (simp add: due_rows_def not_less)
qed

lemma scan_notifications_ident: "scan_notifications rows = Some ns \<Longrightarrow> map alert_ident ns = map row_ident rows"
  unfolding scan_notifications_def
proof (induction rows arbitrary: ns)
  case (Cons r rows)
  then show ?case
    by (auto simp: scan_notification_def alert_ident_def row_ident_def split: option.splits)
qed simp

lemma NotSent_due: "GetNotSentAlertNotifications e f d = (Inr ns, d') \<Longrightarrow> map alert_ident ns = map row_ident (due_rows f d)"
  unfolding GetNotSentAlertNotifications_def
  by (drule query_Inr) (auto simp: due_rows_eq dest: scan_notifications_ident)

subsection \<open>Open alerts of PagerDuty and Opsgenie\<close>

lemma open_key_append: "open_key (ns @ [n]) =
    (if n_Status n = OK then (if open_key ns = n_ExternalKey n then [] else open_key ns) else n_ExternalKey n)"
  by (simp add: open_key_def)

lemma open_key_open:
  assumes "open_key ns = k" "k \<noteq> []"
  shows "\<exists>xs n ys. ns = xs @ n # ys \<and> n_Status n \<noteq> OK \<and> n_ExternalKey n = k \<and>
    (\<forall>m\<in>set ys. n_Status m = OK \<and> n_ExternalKey m \<noteq> k)"
  using assms
proof (induction ns arbitrary: k rule: rev_induct)
  case Nil
  then show ?case by (simp add: open_key_def)
next
  case (snoc n ns)
  show ?case
  proof (cases "n_Status n = OK")
    case True
    with snoc.prems have k: "open_key ns = k" "n_ExternalKey n \<noteq> k" by (auto simp: open_key_append split: if_splits)
    obtain xs m ys where "ns = xs @ m # ys" "n_Status m \<noteq> OK" "n_ExternalKey m = k"
        "\<forall>m\<in>set ys. n_Status m = OK \<and> n_ExternalKey m \<noteq> k"
      using snoc.IH [OF k(1) snoc.prems(2)] by blast
    then show ?thesis using True k by (intro exI [of _ xs] exI [of _ m] exI [of _ "ys @ [n]"]) auto
  next
    case False
    then show ?thesis using snoc.prems by (intro exI [of _ ns] exI [of _ n] exI [of _ "[]"]) (auto simp: open_key_append)
  qed
qed

subsection \<open>Properties\<close>

text \<open>
  C36. A pass of \<^verbatim>\<open>sendAlerts\<close> tries only notifications that are not sent and are at most an hour
  old by the clock it reads, each at most once and in the order of project, application, alert and time; after
  a failure it tries nothing more for the same destination of the same project in that pass, so the messages
  of a destination are never reordered.
\<close>

theorem sendAlerts_in_order:
  "\<exists>evs. db_trace (sendAlerts e d) = db_trace d @ evs \<and> stops_after_failure evs \<and>
     subseq (map ev_ident evs) (map row_ident (due_rows (env_now e (db_ticks d) - 3600) d))"
proof -
  obtain r1 d1 where p: "GetProjects e d = (r1, d1)" by force
  obtain now d2 where n: "Now e d1 = (now, d2)" by force
  obtain r3 d3 where q: "GetNotSentAlertNotifications e (now - retryWindow) d2 = (r3, d3)" by force
  have t1: "db_trace d1 = db_trace d" "db_alert_notifications d1 = db_alert_notifications d" "db_ticks d1 = db_ticks d"
    using p by (auto simp: GetProjects_def query_def sql_def Let_def split: if_splits)
  have t2: "db_trace d2 = db_trace d" "db_alert_notifications d2 = db_alert_notifications d"
    using n t1 by (auto simp: Now_def)
  have now: "now = env_now e (db_ticks d)" using n t1 by (simp add: Now_def)
  have t3: "db_trace d3 = db_trace d"
    using q t2 unfolding GetNotSentAlertNotifications_def by (auto dest: trace_query)
  show ?thesis
  proof (cases "\<exists>ps ns. r1 = Inr ps \<and> ps \<noteq> [] \<and> r3 = Inr ns")
    case True
    then obtain ps ns where ok: "r1 = Inr ps" "ps \<noteq> []" "r3 = Inr ns" by auto
    have "map alert_ident ns = map row_ident (due_rows (env_now e (db_ticks d) - 3600) d)"
      using NotSent_due [OF q [unfolded ok(3)]] t2 by (simp add: due_rows_def retryWindow_def now duration_defs)
    then show ?thesis
      using alert_pass.loop_trace [of e ps "[]" ns d3] ok t3 by (auto simp: sendAlerts_def p n q)
  next
    case False
    then have "db_trace (sendAlerts e d) = db_trace d"
      using t1 t2 t3 by (auto simp: sendAlerts_def p n q split: sum.splits)
    then show ?thesis by (intro exI [of _ "[]"]) simp
  qed
qed

text \<open>
  When an alert is resolved, PagerDuty and Opsgenie are told so only under the key of an open
  notification that has not been resolved: the key \<^verbatim>\<open>getOpenAlert\<close> answers is the key of an earlier
  open notification of the alert at that destination, and no later one closed it.
\<close>

theorem getOpenAlert_is_open:
  assumes "getOpenAlert e n d = (Inr k, d')" and "k \<noteq> []"
  shows "\<exists>prevs xs m ys. fst (GetPreviousAlertNotifications e n d) = Inr prevs \<and> prevs = xs @ m # ys \<and>
    n_Status m \<noteq> OK \<and> n_ExternalKey m = k \<and> (\<forall>m'\<in>set ys. n_Status m' = OK \<and> n_ExternalKey m' \<noteq> k)"
proof -
  obtain prevs where "fst (GetPreviousAlertNotifications e n d) = Inr prevs" "open_key prevs = k"
    using assms(1) by (auto simp: getOpenAlert_def split: prod.splits sum.splits)
  then show ?thesis using open_key_open [OF _ assms(2)] by blast
qed

definition demo_notification :: "Status \<Rightarrow> Time \<Rightarrow> string \<Rightarrow> AlertNotification" where
  "demo_notification st t key = \<lparr>n_ProjectId = ''p1'', n_AlertId = ''a1'', n_RuleId = ''r1'',
     n_ApplicationId = ApplicationIdZero, n_Status = st, n_Destination = plain_destination ''pagerduty'',
     n_Timestamp = t, n_SentAt = 0, n_ExternalKey = key, n_Details = None\<rparr>"

end
