(* ===== verification/Promql.thy ===== *)
theory Promql
  imports TimeSeries Utils "HOL-Library.AList" "HOL-Library.Word"
begin

text \<open>
  Series with labels (\<^verbatim>\<open>model/labels.go\<close>) and the client that evaluates PromQL in ClickHouse
  (\<^verbatim>\<open>promql/client.go\<close>). What ClickHouse answers to a query is an argument, and so is the signature of
  labels of the Prometheus library. Samples are float32 already: the conversion of ClickHouse's float64
  happens before anything looks at the value.
\<close>

subsection \<open>Series with labels (labels.go)\<close>

type_synonym Labels = "(string \<times> string) list"
type_synonym Hash = "64 word"

definition LabelMachineId :: string where "LabelMachineId = ''machine_id''"
definition LabelSystemUuid :: string where "LabelSystemUuid = ''system_uuid''"
definition LabelContainerId :: string where "LabelContainerId = ''container_id''"
definition LabelDestination :: string where "LabelDestination = ''destination''"
definition LabelDestinationIP :: string where "LabelDestinationIP = ''destination_ip''"
definition LabelActualDestination :: string where "LabelActualDestination = ''actual_destination''"

lemmas label_defs = LabelMachineId_def LabelSystemUuid_def LabelContainerId_def LabelDestination_def
  LabelDestinationIP_def LabelActualDestination_def

record MetricValues =
  mv_Labels :: Labels
  mv_LabelsHash :: Hash
  mv_Values :: "TimeSeries option"
  mv_MachineID :: string
  mv_SystemUUID :: string
  mv_ContainerId :: string
  mv_Destination :: string
  mv_ActualDestination :: string
  mv_DestIp :: bool

definition Labels_String :: "Labels \<Rightarrow> string" where
  "Labels_String ls =
     (if ls = [] then []
      else ''{'' @ strings_Join (sort_Strings (map (\<lambda>(k, v). k @ ''='' @ v) ls)) '','' @ ''}'')"

definition labelled :: "Labels \<Rightarrow> Hash \<Rightarrow> TimeSeries option \<Rightarrow> MetricValues" where
  "labelled ls h ts = \<lparr>mv_Labels = ls, mv_LabelsHash = h, mv_Values = ts, mv_MachineID = [], mv_SystemUUID = [],
     mv_ContainerId = [], mv_Destination = [], mv_ActualDestination = [], mv_DestIp = False\<rparr>"

subsection \<open>Evaluation of a query (client.go)\<close>

record rawSeries =
  rs_tags :: Labels
  rs_samples :: "(Time \<times> f32) list"

text \<open>\<^verbatim>\<open>strings.ReplaceAll\<close>, for a text to replace that is not empty.\<close>

function strings_ReplaceAll :: "string \<Rightarrow> string \<Rightarrow> string \<Rightarrow> string" where
  "strings_ReplaceAll s old new =
     (case s of
        [] \<Rightarrow> []
      | c # cs \<Rightarrow>
          if old \<noteq> [] \<and> has_prefix s old then new @ strings_ReplaceAll (drop (length old) s) old new
          else c # strings_ReplaceAll cs old new)"
  by pat_completeness auto
termination
  by (relation "measure (\<lambda>(s, _). length s)") auto

declare strings_ReplaceAll.simps [simp del]

definition set_value :: "Time \<Rightarrow> f32 \<Rightarrow> MetricValues \<Rightarrow> MetricValues" where
  "set_value t v mv = mv\<lparr>mv_Values := map_option (\<lambda>s. Set s t v) (mv_Values mv)\<rparr>"

text \<open>One series of the answer: its samples go into the series with the same labels, the last one wins.\<close>

definition merge_sample :: "Labels \<Rightarrow> Hash \<Rightarrow> TimeSeries \<Rightarrow> (Hash \<times> MetricValues) list \<Rightarrow> Time \<times> f32 \<Rightarrow> (Hash \<times> MetricValues) list" where
  "merge_sample ls hash blank res tv =
     (let (t, v) = tv
      in if IsNaN v then res
         else
           (let mv = (case map_of res hash of None \<Rightarrow> labelled ls hash (Some blank) | Some mv \<Rightarrow> mv)
            in AList.update hash (set_value t v mv) res))"

definition merge_series :: "(Labels \<Rightarrow> Hash) \<Rightarrow> (string \<Rightarrow> bool) \<Rightarrow> TimeSeries \<Rightarrow> (Hash \<times> MetricValues) list \<Rightarrow> rawSeries \<Rightarrow> (Hash \<times> MetricValues) list" where
  "merge_series sig keep blank res s =
     (let ls = filter (\<lambda>(name, value). name \<noteq> ''__name__'' \<and> value \<noteq> [] \<and> keep name) (rs_tags s)
      in foldl (merge_sample ls (sig ls) blank) res (rs_samples s))"

type_synonym server = "string \<Rightarrow> Time \<Rightarrow> Time \<Rightarrow> Duration \<Rightarrow> string + rawSeries list"

definition QueryRange :: "(Labels \<Rightarrow> Hash) \<Rightarrow> server \<Rightarrow> string \<Rightarrow> (string \<Rightarrow> bool) \<Rightarrow> Time \<Rightarrow> Time \<Rightarrow> Duration \<Rightarrow> string + MetricValues list" where
  "QueryRange sig server query keep f t step =
     (let query = strings_ReplaceAll query ''$RANGE'' (Itoa (step * 3) @ ''s'');
          f = Time_Truncate f step; t = Time_Truncate t step;
          blank = New f (nat ((t - f) sdiv step + 1)) step
      in case server query f t step of
           Inl err \<Rightarrow> Inl err
         | Inr series \<Rightarrow> Inr (map snd (foldl (merge_series sig keep blank) [] series)))"

subsection \<open>What the client returns\<close>

text \<open>One series per hash, each on the grid of the window.\<close>

definition on_grid :: "TimeSeries \<Rightarrow> TimeSeries \<Rightarrow> bool" where
  "on_grid blank s \<longleftrightarrow> ts_from s = ts_from blank \<and> ts_step s = ts_step blank \<and> length (ts_data s) = length (ts_data blank)"

definition merged :: "TimeSeries \<Rightarrow> (Hash \<times> MetricValues) list \<Rightarrow> bool" where
  "merged blank res \<longleftrightarrow> distinct (map fst res) \<and>
     (\<forall>(h, mv)\<in>set res. mv_LabelsHash mv = h \<and> (\<exists>s. mv_Values mv = Some s \<and> on_grid blank s))"

lemma Set_on_grid: "on_grid blank s \<Longrightarrow> on_grid blank (Set s t v)"
  by (auto simp: on_grid_def Set_def Let_def)

lemma set_AList_update: "x \<in> set (AList.update k v al) \<Longrightarrow> x = (k, v) \<or> x \<in> set al"
  by (induction al) (auto split: if_splits)

lemma merged_update:
  assumes "merged blank res" "mv_LabelsHash mv = h" "mv_Values mv = Some s" "on_grid blank s"
  shows "merged blank (AList.update h mv res)"
  using assms unfolding merged_def by (auto simp: distinct_update dest: set_AList_update)

lemma merge_sample_merged: "merged blank res \<Longrightarrow> merged blank (merge_sample ls h blank res tv)"
proof (cases tv)
  case (Pair t v)
  assume m: "merged blank res"
  show ?thesis
  proof (cases "map_of res h")
    case None
    then show ?thesis
      using m Pair merged_update [OF m, of "set_value t v (labelled ls h (Some blank))" h "Set blank t v"]
        Set_on_grid [of blank blank t v]
      by (simp add: merge_sample_def set_value_def labelled_def on_grid_def)
  next
    case (Some mv)
    then obtain s where "mv_LabelsHash mv = h" "mv_Values mv = Some s" "on_grid blank s"
      using m by (auto simp: merged_def dest!: map_of_SomeD)
    then show ?thesis
      using m Pair Some merged_update [OF m, of "set_value t v mv" h "Set s t v"]
      by (simp add: merge_sample_def set_value_def Set_on_grid)
  qed
qed

lemma merge_series_merged: "merged blank res \<Longrightarrow> merged blank (merge_series sig keep blank res s)"
proof -
  assume m: "merged blank res"
  have "merged blank (foldl (merge_sample ls h blank) res xs)" for ls h xs
    using m by (induction xs arbitrary: res) (auto intro: merge_sample_merged)
  then show ?thesis by (simp add: merge_series_def Let_def)
qed

lemma QueryRange_merged:
  assumes "QueryRange sig server q keep f t step = Inr mvs"
  shows "distinct (map mv_LabelsHash mvs)"
    and "mv \<in> set mvs \<Longrightarrow> \<exists>s. mv_Values mv = Some s \<and>
      on_grid (New (Time_Truncate f step) (nat ((Time_Truncate t step - Time_Truncate f step) sdiv step + 1)) step) s"
proof -
  let ?b = "New (Time_Truncate f step) (nat ((Time_Truncate t step - Time_Truncate f step) sdiv step + 1)) step"
  obtain series where mvs: "mvs = map snd (foldl (merge_series sig keep ?b) [] series)"
    using assms by (auto simp: QueryRange_def Let_def split: sum.splits)
  have all: "merged ?b (foldl (merge_series sig keep ?b) res series)" if "merged ?b res" for res
    using that by (induction series arbitrary: res) (auto intro: merge_series_merged)
  have m: "merged ?b (foldl (merge_series sig keep ?b) [] series)" by (rule all) (simp add: merged_def)
  then have "map mv_LabelsHash mvs = map fst (foldl (merge_series sig keep ?b) [] series)"
    unfolding mvs by (fastforce simp: merged_def)
  then show "distinct (map mv_LabelsHash mvs)" using m by (simp add: merged_def)
  show "\<exists>s. mv_Values mv = Some s \<and> on_grid ?b s" if "mv \<in> set mvs"
    using that m unfolding mvs merged_def by fastforce
qed

end
