(* ===== verification/AlertWatcher.thy ===== *)
theory AlertWatcher
  imports AlertNotifier Promql
begin

text \<open>
  The watcher that turns the state of the world into alerts (\<^verbatim>\<open>watchers/alerts.go\<close>). Its state is
  the map of pending fingerprints and the set of initialized projects; the rest is in the database. The
  answers of the PromQL client and of ClickHouse, and the AI evaluators, are arguments of the
  operations.
\<close>

subsection \<open>State\<close>

record Alerts =
  wa_pendingAlerts :: "string \<rightharpoonup> Time"
  wa_initializedProjects :: "string \<Rightarrow> bool"

definition NewAlerts :: Alerts where
  "NewAlerts = \<lparr>wa_pendingAlerts = Map.empty, wa_initializedProjects = (\<lambda>_. False)\<rparr>"

text \<open>An AI evaluator: whether it is enabled, and its verdict (an error, or should-alert and an explanation).\<close>

type_synonym LogPatternEvaluator =
  "bool \<times> (Application \<Rightarrow> Severity \<Rightarrow> LogPattern \<Rightarrow> string + (bool \<times> string))"

record LogEntry =
  le_Body :: string
  le_ClusterId :: string
  le_ClusterName :: string
  le_LogAttributes :: "(string \<times> string) list"

type_synonym KubernetesEventEvaluator =
  "bool \<times> (Application \<Rightarrow> LogEntry \<Rightarrow> string + (bool \<times> string))"

definition alertDetailValueMaxLen :: nat where "alertDetailValueMaxLen = 1000"

definition detail :: "string \<Rightarrow> string \<Rightarrow> AlertDetail" where
  "detail name v = \<lparr>ad_Name = name, ad_Value = v, ad_Code = False\<rparr>"

definition code_detail :: "string \<Rightarrow> string \<Rightarrow> AlertDetail" where
  "code_detail name v = \<lparr>ad_Name = name, ad_Value = v, ad_Code = True\<rparr>"

abbreviation newline :: string where "newline \<equiv> [CHR 0x0A]"

subsection \<open>Fingerprints and templates\<close>

definition calcFingerprint :: "Env \<Rightarrow> string \<Rightarrow> string \<Rightarrow> (string \<times> string) list \<Rightarrow> string" where
  "calcFingerprint e ruleId appId extraLabels =
     take 16 (env_sha256hex e (ruleId @ appId @
       concat (map (\<lambda>k. k @ (case map_of extraLabels k of None \<Rightarrow> [] | Some v \<Rightarrow> v))
                (sort_Strings (map fst extraLabels)))))"

definition buildTemplateData :: "Application \<Rightarrow> Check \<Rightarrow> (string \<times> string) list \<times> f32 option" where
  "buildTemplateData app check =
     ([(''app'', Name (app_Id app)), (''namespace'', Namespace (app_Id app)),
       (''check_title'', ch_Title check), (''check_message'', ch_Message check)], Some (ch_value check))"

definition buildPromQLTemplateData :: "(string \<times> string) list \<Rightarrow> f32 \<Rightarrow> (string \<times> string) list \<times> f32 option" where
  "buildPromQLTemplateData labels v = (labels, Some v)"

definition renderTemplate :: "Env \<Rightarrow> string \<Rightarrow> (string \<times> string) list \<times> f32 option \<Rightarrow> string" where
  "renderTemplate e tmpl dat =
     (if tmpl = [] then []
      else (case env_render e tmpl (fst dat) (snd dat) of None \<Rightarrow> tmpl | Some s \<Rightarrow> s))"

definition rule_severity :: "AlertingRule \<Rightarrow> Status" where
  "rule_severity rule = (if r_Severity rule = UNKNOWN then WARNING else r_Severity rule)"

subsection \<open>Alerts from checks\<close>

definition check_details :: "Env \<Rightarrow> AlertingRule \<Rightarrow> Application \<Rightarrow> Check \<Rightarrow> AlertDetail list" where
  "check_details e rule app check =
     (let description = renderTemplate e (tpl_Description (r_Templates rule)) (buildTemplateData app check)
      in (if description \<noteq> [] then [detail ''Description'' description] else []) @
         (if StringSet_Len (ch_Details check) > 0
          then [detail ''Findings'' (strings_Join (StringSet_Items (ch_Details check)) newline)] else []))"

definition check_alert :: "Env \<Rightarrow> Project \<Rightarrow> AlertingRule \<Rightarrow> Application \<Rightarrow> Check \<Rightarrow> AuditReportName \<Rightarrow> Alert" where
  "check_alert e project rule app check report =
     zero_alert\<lparr>a_Fingerprint := calcFingerprint e (r_Id rule) (ApplicationId_String (app_Id app)) [],
       a_RuleId := r_Id rule, a_ProjectId := p_Id project,
       a_ApplicationId := app_Id app, a_ApplicationCategory := app_Category app,
       a_Severity := rule_severity rule, a_Summary := ch_Message check,
       a_Details := check_details e rule app check, a_Report := report\<rparr>"

text \<open>
  Creating an alert with a fresh id; \<open>notify\<close> is called on the stored alert when the row was
  written. The flag tells whether it was.
\<close>

definition create_alert :: "Env \<Rightarrow> Project \<Rightarrow> Alert \<Rightarrow> (Alert \<Rightarrow> DB \<Rightarrow> DB) \<Rightarrow> DB \<Rightarrow> bool \<times> DB" where
  "create_alert e project alert notify d =
     (let (i, d1) = NanoId e d in
      case CreateAlert e (p_Id project) (alert\<lparr>a_Id := i\<rparr>) d1 of
        (_, Inl _, d2) \<Rightarrow> (False, d2)
      | (a, Inr _, d2) \<Rightarrow> (True, notify a d2))"

text \<open>Resolving an alert at \<open>now\<close>, with the notification when the row was written.\<close>

definition resolve_alert :: "Env \<Rightarrow> Project \<Rightarrow> Alert \<Rightarrow> Time \<Rightarrow> (Alert \<Rightarrow> DB \<Rightarrow> DB) \<Rightarrow> DB \<Rightarrow> DB" where
  "resolve_alert e project a now notify d =
     (case ResolveAlert e (p_Id project) (a_Id a) now d of
        (Inl _, d1) \<Rightarrow> d1
      | (Inr _, d1) \<Rightarrow> notify (a\<lparr>a_ResolvedAt := now\<rparr>) d1)"

text \<open>
  The delay \<^verbatim>\<open>For\<close> of a rule: a fingerprint without an alert is pending from the first evaluation that
  sees it firing, and fires once it has been pending for that long. Shared by the checks and PromQL.
\<close>

definition forget_pending :: "string \<Rightarrow> Alerts \<Rightarrow> Alerts" where
  "forget_pending fp w = w\<lparr>wa_pendingAlerts := (wa_pendingAlerts w)(fp := None)\<rparr>"

definition debounce :: "AlertingRule \<Rightarrow> string \<Rightarrow> Time \<Rightarrow> Alerts \<Rightarrow> bool \<times> Alerts" where
  "debounce rule fp now w =
     (if r_For rule > 0
      then (case wa_pendingAlerts w fp of
              None \<Rightarrow> (False, w\<lparr>wa_pendingAlerts := (wa_pendingAlerts w)(fp \<mapsto> now)\<rparr>)
            | Some firstSeen \<Rightarrow> if now - firstSeen < r_For rule then (False, w) else (True, forget_pending fp w))
      else (True, forget_pending fp w))"

definition evaluateCheckAlert :: "Env \<Rightarrow> Project \<Rightarrow> AlertingRule \<Rightarrow> Application \<Rightarrow> Check \<Rightarrow> AuditReportName
    \<Rightarrow> Time \<Rightarrow> Alerts \<times> DB \<Rightarrow> Alerts \<times> DB" where
  "evaluateCheckAlert e project rule app check report now = (\<lambda>(w, d).
     let fingerprint = calcFingerprint e (r_Id rule) (ApplicationId_String (app_Id app)) [];
         isFiring = (ch_Status check > OK)
     in case GetActiveOrSuppressedAlertByFingerprint e (p_Id project) fingerprint d of
          (Inl _, d1) \<Rightarrow> (w, d1)
        | (Inr existing, d1) \<Rightarrow>
            if (case existing of None \<Rightarrow> False | Some a \<Rightarrow> a_Suppressed a)
            then (if isFiring then (w, d1)
                  else (w, snd (ClearSuppression e (p_Id project) fingerprint d1)))
            else if isFiring
            then
              (let details = check_details e rule app check in
               case existing of
                 None \<Rightarrow>
                   (let (fires, w1) = debounce rule fingerprint now w in
                    if fires
                    then
                      (w1,
                       snd (create_alert e project
                         (check_alert e project rule app check report)
                         (\<lambda>a. Enqueue e project (Some app) a rule now) d1))
                    else (w1, d1))
               | Some a \<Rightarrow>
                   (w, snd (UpdateAlert e (p_Id project)
                         (a\<lparr>a_Severity := rule_severity rule, a_Summary := ch_Message check, a_Details := details\<rparr>) d1)))
            else
              (let w1 = forget_pending fingerprint w in
               case existing of
                 None \<Rightarrow> (w1, d1)
               | Some a \<Rightarrow>
                   if r_KeepFiringFor rule > 0 \<and> now - a_UpdatedAt a < r_KeepFiringFor rule then (w1, d1)
                   else (w1, resolve_alert e project a now (\<lambda>a. Enqueue e project (Some app) a rule now) d1)))"

subsection \<open>Alerts from log patterns\<close>

text \<open>The patterns that have enough messages of a selected severity, with their counts.\<close>

definition log_candidates :: "Severity list \<Rightarrow> int \<Rightarrow> Application \<Rightarrow> (Severity \<times> string \<times> LogPattern \<times> f32) list" where
  "log_candidates severities minCount app =
     concat (map (\<lambda>(sev, logMsgs).
       case logMsgs of
         None \<Rightarrow> []
       | Some lm \<Rightarrow>
           if sev \<notin> set severities then []
           else concat (map (\<lambda>(hash, lpo).
             case lpo of
               None \<Rightarrow> []
             | Some lp \<Rightarrow>
                 if lp_Messages lp = None \<or> lp_Pattern lp = None then []
                 else
                   (let n = Reduce (lp_Messages lp) NanSum
                    in if IsNaN n \<or> f32_lt n (f32_of_int minCount) then [] else [(sev, hash, lp, n)]))
             (lm_Patterns lm)))
       (app_LogMessages app))"

text \<open>\<^verbatim>\<open>int(math.Round(float64(n)))\<close> of a count; the conversion of an infinity is amd64's.\<close>

definition round_count :: "f32 \<Rightarrow> int" where
  "round_count n =
     (case n of Fin q \<Rightarrow> (if q < 0 then - \<lfloor>- q + 1/2\<rfloor> else \<lfloor>q + 1/2\<rfloor>) | NegZero \<Rightarrow> 0 | _ \<Rightarrow> - (2 ^ 63))"

definition log_summary :: "Env \<Rightarrow> World \<Rightarrow> Severity \<Rightarrow> f32 \<Rightarrow> string" where
  "log_summary e world sev n =
     ''new '' @ Severity_String sev @ '' in the logs ('' @ Itoa (round_count n) @ '' messages in the last '' @
       env_duration_string e (ctx_To (w_Ctx world) - ctx_From (w_Ctx world)) @ '')''"

definition log_details :: "AlertingRule \<Rightarrow> LogPattern \<Rightarrow> AlertDetail list" where
  "log_details rule lp =
     (if tpl_Description (r_Templates rule) \<noteq> [] then [detail ''Description'' (tpl_Description (r_Templates rule))] else []) @
     (if lp_Sample lp \<noteq> [] then [code_detail ''Sample'' (Truncate (lp_Sample lp) alertDetailValueMaxLen)] else [])"

text \<open>The first detail with the AI analysis is kept when an alert is updated.\<close>

definition ai_detail :: "AlertDetail list \<Rightarrow> AlertDetail list" where
  "ai_detail ds = take 1 (filter (\<lambda>d. ad_Name d = ''AI analysis'') ds)"

text \<open>
  The alerts of a rule that are not resolved, one per fingerprint, in the order they were read: the maps
  \<^verbatim>\<open>alertByFingerprint\<close> and \<^verbatim>\<open>alertsByApp\<close> are views of this list.
\<close>

definition dedup_alerts :: "Alert list \<Rightarrow> Alert list" where
  "dedup_alerts as =
     foldl (\<lambda>acc a. if a_Fingerprint a \<in> a_Fingerprint ` set acc then acc else acc @ [a]) [] as"

definition by_fingerprint :: "Alert list \<Rightarrow> string \<Rightarrow> Alert option" where
  "by_fingerprint as fp = List.find (\<lambda>a. a_Fingerprint a = fp) as"

definition by_app :: "Alert list \<Rightarrow> string \<Rightarrow> Alert list" where
  "by_app as appId = filter (\<lambda>a. ApplicationId_String (a_ApplicationId a) = appId) as"

definition firing_count :: "Alert list \<Rightarrow> string \<Rightarrow> int" where
  "firing_count as appId =
     int (length (filter (\<lambda>a. a_ManuallyResolvedAt a = 0 \<and> \<not> a_Suppressed a) (by_app as appId)))"

fun first_some :: "('a \<Rightarrow> 'b option) \<Rightarrow> 'a list \<Rightarrow> 'b option" where
  "first_some f [] = None"
| "first_some f (x # xs) = (case f x of None \<Rightarrow> first_some f xs | Some y \<Rightarrow> Some y)"

definition findBlockingAlert :: "Env \<Rightarrow> string \<Rightarrow> string \<Rightarrow> string \<Rightarrow> LogPattern \<Rightarrow> Alert list \<Rightarrow> Alert option" where
  "findBlockingAlert e ruleId fingerprint appId lp as =
     (case by_fingerprint as fingerprint of
        Some a \<Rightarrow> Some a
      | None \<Rightarrow>
          (case first_some (\<lambda>sh. by_fingerprint as (calcFingerprint e ruleId appId [(''ph'', sh)]))
                  (StringSet_Items (lp_SimilarPatternHashes lp)) of
             Some a \<Rightarrow> Some a
           | None \<Rightarrow>
               (case lp_Pattern lp of
                  None \<Rightarrow> None
                | Some pattern \<Rightarrow>
                    List.find (\<lambda>a. a_PatternWords a \<noteq> [] \<and> env_weak_equal e pattern (a_PatternWords a))
                      (by_app as appId))))"

record log_state =
  ls_db :: DB
  ls_alerts :: "Alert list"
  ls_active :: "string list"
  ls_firing :: "string \<Rightarrow> int"

definition log_create :: "Env \<Rightarrow> LogPatternEvaluator option \<Rightarrow> Project \<Rightarrow> AlertingRule \<Rightarrow> LogPatternSource \<Rightarrow> World \<Rightarrow> Time
    \<Rightarrow> Application \<Rightarrow> Severity \<Rightarrow> LogPattern \<Rightarrow> f32 \<Rightarrow> string \<Rightarrow> log_state \<Rightarrow> log_state" where
  "log_create e evaluator project rule src world now app sev lp n fingerprint st =
     (let appId = ApplicationId_String (app_Id app);
          (explanation, aiSuppressed) =
            (case evaluator of
               Some (_, evaluate) \<Rightarrow>
                 if lps_EvaluateWithAI src
                 then (case evaluate app sev lp of
                         Inl err \<Rightarrow> (''AI evaluation failed: '' @ err, False)
                       | Inr (shouldAlert, ex) \<Rightarrow> (ex, \<not> shouldAlert))
                 else ([], False)
             | None \<Rightarrow> ([], False));
          alert = zero_alert\<lparr>a_Fingerprint := fingerprint, a_RuleId := r_Id rule, a_ProjectId := p_Id project,
            a_ApplicationId := app_Id app, a_ApplicationCategory := app_Category app,
            a_Severity := rule_severity rule, a_Summary := log_summary e world sev n,
            a_Details := log_details rule lp @ (if explanation \<noteq> [] then [detail ''AI analysis'' explanation] else []),
            a_Report := AuditReportLogs, a_PatternWords := (case lp_Pattern lp of None \<Rightarrow> [] | Some s \<Rightarrow> s),
            a_Suppressed := aiSuppressed, a_ResolvedBy := (if aiSuppressed then ''AI'' else [])\<rparr>;
          (created, d) = create_alert e project alert
            (\<lambda>a d. if \<not> aiSuppressed then Enqueue e project (Some app) a rule now d else d) (ls_db st)
      in st\<lparr>ls_db := d, ls_firing := (if created then (ls_firing st)(appId := ls_firing st appId + 1) else ls_firing st)\<rparr>)"

definition log_step :: "Env \<Rightarrow> LogPatternEvaluator option \<Rightarrow> Project \<Rightarrow> AlertingRule \<Rightarrow> LogPatternSource \<Rightarrow> World \<Rightarrow> int \<Rightarrow> Time
    \<Rightarrow> Application \<times> Severity \<times> string \<times> LogPattern \<times> f32 \<Rightarrow> log_state \<Rightarrow> log_state" where
  "log_step e evaluator project rule src world maxAlertsPerApp now = (\<lambda>(app, sev, hash, lp, n) st.
     let appId = ApplicationId_String (app_Id app);
         fingerprint = calcFingerprint e (r_Id rule) appId [(''ph'', hash)];
         st1 = st\<lparr>ls_active := fingerprint # ls_active st\<rparr>
     in case findBlockingAlert e (r_Id rule) fingerprint appId lp (ls_alerts st1) of
          Some b \<Rightarrow>
            (let st2 = st1\<lparr>ls_active := a_Fingerprint b # ls_active st1\<rparr>
             in if \<not> a_Suppressed b \<and> a_ManuallyResolvedAt b = 0
                then
                  (let b' = b\<lparr>a_Summary := log_summary e world sev n,
                              a_Details := log_details rule lp @ ai_detail (a_Details b)\<rparr>
                   in st2\<lparr>ls_alerts := map (\<lambda>x. if a_Id x = a_Id b then b' else x) (ls_alerts st2),
                          ls_db := snd (UpdateAlert e (p_Id project) b' (ls_db st2))\<rparr>)
                else st2)
        | None \<Rightarrow>
            if ls_firing st1 appId \<ge> maxAlertsPerApp then st1
            else log_create e evaluator project rule src world now app sev lp n fingerprint st1)"

text \<open>The alerts that are not active any more: shared by the log patterns and the Kubernetes events.\<close>

definition resolve_inactive :: "Env \<Rightarrow> Project \<Rightarrow> AlertingRule \<Rightarrow> World \<Rightarrow> Time \<Rightarrow> string list \<Rightarrow> Alert \<Rightarrow> DB \<Rightarrow> DB" where
  "resolve_inactive e project rule world now active a d =
     (if a_Fingerprint a \<in> set active then d
      else if a_Suppressed a then d
      else if r_KeepFiringFor rule > 0 \<and> now - a_UpdatedAt a < r_KeepFiringFor rule then d
      else resolve_alert e project a now
             (\<lambda>a' d. if a_ManuallyResolvedAt a = 0
                     then Enqueue e project (GetApplication world (a_ApplicationId a)) a' rule now d else d) d)"

definition init_alert :: "Env \<Rightarrow> Project \<Rightarrow> AlertingRule \<Rightarrow> Time \<Rightarrow> Application \<times> Severity \<times> string \<times> LogPattern \<times> f32 \<Rightarrow> Alert" where
  "init_alert e project rule now = (\<lambda>(app, sev, hash, lp, n).
     zero_alert\<lparr>a_Fingerprint := calcFingerprint e (r_Id rule) (ApplicationId_String (app_Id app)) [(''ph'', hash)],
       a_RuleId := r_Id rule, a_ProjectId := p_Id project, a_ApplicationId := app_Id app,
       a_ApplicationCategory := app_Category app, a_Severity := rule_severity rule,
       a_Summary := ''new '' @ Severity_String sev @ '' in the logs ('' @ Itoa (round_count n) @ '' messages)'',
       a_Details := log_details rule lp, a_Report := AuditReportLogs, a_ManuallyResolvedAt := now,
       a_ResolvedBy := ''init'', a_PatternWords := (case lp_Pattern lp of None \<Rightarrow> [] | Some s \<Rightarrow> s)\<rparr>)"

definition initLogPatternAlerts :: "Env \<Rightarrow> Project \<Rightarrow> AlertingRule \<Rightarrow> Application list \<Rightarrow> Severity list \<Rightarrow> int \<Rightarrow> Time \<Rightarrow> DB \<Rightarrow> DB" where
  "initLogPatternAlerts e project rule apps severities minCount now =
     fold (\<lambda>c d. snd (create_alert e project (init_alert e project rule now c) (\<lambda>_ d. d) d))
       (concat (map (\<lambda>app. map (Pair app) (log_candidates severities minCount app)) apps))"

definition evaluateLogPatternAlerts :: "Env \<Rightarrow> LogPatternEvaluator option \<Rightarrow> Project \<Rightarrow> AlertingRule \<Rightarrow> LogPatternSource
    \<Rightarrow> World \<Rightarrow> Time \<Rightarrow> Alerts \<times> DB \<Rightarrow> Alerts \<times> DB" where
  "evaluateLogPatternAlerts e evaluator project rule src world now = (\<lambda>(w, d).
     let severities = map SeverityFromString (lps_Severities src);
         minCount = (if lps_MinCount src \<le> 0 then 10 else lps_MinCount src);
         maxAlertsPerApp = (if lps_MaxAlertsPerApp src \<le> 0 then 20 else lps_MaxAlertsPerApp src);
         matchingApps = filter (Matches rule) (app_values world);
         enabled = (case evaluator of None \<Rightarrow> False | Some (en, _) \<Rightarrow> en)
     in if \<not> wa_initializedProjects w (p_Id project) \<and> \<not> enabled
        then (w, initLogPatternAlerts e project rule matchingApps severities minCount now d)
        else
          (let w1 = w\<lparr>wa_initializedProjects := (wa_initializedProjects w)(p_Id project := True)\<rparr> in
           case GetLatestAlertsByRule e (p_Id project) (r_Id rule) d of
             (Inl _, d1) \<Rightarrow> (w1, d1)
           | (Inr latest, d1) \<Rightarrow>
               (let as = dedup_alerts latest;
                    st = fold (log_step e evaluator project rule src world maxAlertsPerApp now)
                           (concat (map (\<lambda>app. map (Pair app) (log_candidates severities minCount app)) matchingApps))
                           \<lparr>ls_db = d1, ls_alerts = as, ls_active = [], ls_firing = firing_count as\<rparr>
                in (w1, fold (resolve_inactive e project rule world now (ls_active st)) (ls_alerts st) (ls_db st)))))"

subsection \<open>Alerts from PromQL\<close>

definition label_pairs :: "(string \<times> string) list \<Rightarrow> string list" where
  "label_pairs labels = sort_Strings (map (\<lambda>(k, v). k @ ''=\"'' @ v @ ''\"'') labels)"

definition promql_details :: "Env \<Rightarrow> AlertingRule \<Rightarrow> string \<Rightarrow> MetricValues \<Rightarrow> f32 \<Rightarrow> AlertDetail list" where
  "promql_details e rule expr mv v =
     (let description = renderTemplate e (tpl_Description (r_Templates rule)) (buildPromQLTemplateData (mv_Labels mv) v);
          parts = label_pairs (mv_Labels mv);
          scopedQuery =
            (if mv_Labels mv \<noteq> []
             then (case env_add_selector e expr (''{'' @ strings_Join parts '','' @ ''}'') of None \<Rightarrow> expr | Some q \<Rightarrow> q)
             else expr)
      in (if description \<noteq> [] then [detail ''Description'' description] else []) @
         (if mv_Labels mv \<noteq> []
          then [code_detail ''Labels'' (Truncate (strings_Join parts newline) alertDetailValueMaxLen)] else []) @
         [code_detail ''PromQL'' expr, detail ''PromQLChart'' scopedQuery])"

definition promql_summary :: "Env \<Rightarrow> AlertingRule \<Rightarrow> MetricValues \<Rightarrow> f32 \<Rightarrow> string" where
  "promql_summary e rule mv v =
     (let s = renderTemplate e (tpl_Summary (r_Templates rule)) (buildPromQLTemplateData (mv_Labels mv) v)
      in if s = [] then ''PromQL alert is firing (value: '' @ env_format_g e v @ '')'' else s)"

record promql_state =
  ps_watcher :: Alerts
  ps_db :: DB
  ps_active :: "string list"

definition promql_step :: "Env \<Rightarrow> Project \<Rightarrow> AlertingRule \<Rightarrow> string \<Rightarrow> Time \<Rightarrow> MetricValues \<Rightarrow> promql_state \<Rightarrow> promql_state" where
  "promql_step e project rule expr now mv st =
     (let v = Last (mv_Values mv) in
      if IsNaN v then st
      else
        (let fingerprint = calcFingerprint e (r_Id rule) [] (mv_Labels mv);
             st1 = st\<lparr>ps_active := fingerprint # ps_active st\<rparr>
         in case GetActiveOrSuppressedAlertByFingerprint e (p_Id project) fingerprint (ps_db st) of
              (Inl _, d1) \<Rightarrow> st1\<lparr>ps_db := d1\<rparr>
            | (Inr existing, d1) \<Rightarrow>
                if (case existing of None \<Rightarrow> False | Some a \<Rightarrow> a_Suppressed a) then st1\<lparr>ps_db := d1\<rparr>
                else
                  (let summary = promql_summary e rule mv v; details = promql_details e rule expr mv v in
                   case existing of
                     None \<Rightarrow>
                       (let (fires, w1) = debounce rule fingerprint now (ps_watcher st) in
                        st1\<lparr>ps_watcher := w1,
                            ps_db := (if fires
                              then snd (create_alert e project
                                (zero_alert\<lparr>a_Fingerprint := fingerprint, a_RuleId := r_Id rule,
                                   a_ProjectId := p_Id project, a_ApplicationId := ApplicationIdZero,
                                   a_Severity := rule_severity rule, a_Summary := summary, a_Details := details\<rparr>)
                                (\<lambda>a. Enqueue e project None a rule now) d1)
                              else d1)\<rparr>)
                   | Some a \<Rightarrow>
                       st1\<lparr>ps_db := snd (UpdateAlert e (p_Id project)
                         (a\<lparr>a_Severity := rule_severity rule, a_Summary := summary, a_Details := details\<rparr>) d1)\<rparr>)))"

definition promql_resolve :: "Env \<Rightarrow> Project \<Rightarrow> AlertingRule \<Rightarrow> Time \<Rightarrow> string list \<Rightarrow> Alert \<Rightarrow> Alerts \<times> DB \<Rightarrow> Alerts \<times> DB" where
  "promql_resolve e project rule now active a = (\<lambda>(w, d).
     if a_Fingerprint a \<in> set active then (w, d)
     else if a_Suppressed a then (w, d)
     else
       (let w1 = forget_pending (a_Fingerprint a) w in
        if r_KeepFiringFor rule > 0 \<and> now - a_UpdatedAt a < r_KeepFiringFor rule then (w1, d)
        else (w1, resolve_alert e project a now
                    (\<lambda>a' d. if a_ManuallyResolvedAt a = 0 then Enqueue e project None a' rule now d else d) d)))"

text \<open>\<open>results\<close>: an error (of the client or of the query), or the series of the answer.\<close>

definition evaluatePromQLAlerts :: "Env \<Rightarrow> Project \<Rightarrow> AlertingRule \<Rightarrow> string \<Rightarrow> string + MetricValues list \<Rightarrow> Time
    \<Rightarrow> Alerts \<times> DB \<Rightarrow> Alerts \<times> DB" where
  "evaluatePromQLAlerts e project rule expr results now = (\<lambda>(w, d).
     case results of
       Inl _ \<Rightarrow> (w, d)
     | Inr mvs \<Rightarrow>
         (let st = fold (promql_step e project rule expr now) mvs \<lparr>ps_watcher = w, ps_db = d, ps_active = []\<rparr> in
          case GetLatestAlertsByRule e (p_Id project) (r_Id rule) (ps_db st) of
            (Inl _, d1) \<Rightarrow> (ps_watcher st, d1)
          | (Inr alerts, d1) \<Rightarrow> fold (promql_resolve e project rule now (ps_active st)) alerts (ps_watcher st, d1)))"

subsection \<open>Alerts from Kubernetes events\<close>

record eventGroup =
  g_appId :: ApplicationId
  g_app :: "Application option"
  g_reason :: string
  g_objKind :: string
  g_objNs :: string
  g_objName :: string
  g_clusterId :: string
  g_clusterName :: string
  g_sourceComponent :: string
  g_nodeLevel :: bool
  g_events :: "LogEntry list"

definition attr :: "LogEntry \<Rightarrow> string \<Rightarrow> string" where
  "attr ev k = (case map_of (le_LogAttributes ev) k of None \<Rightarrow> [] | Some v \<Rightarrow> v)"

definition pod_instances :: "World \<Rightarrow> (Application \<times> Instance) list" where
  "pod_instances world =
     concat (map (\<lambda>a. map (Pair a) (filter inst_Pod (app_Instances a))) (app_values world))"

text \<open>The maps are filled in order, so the last assignment to a key wins.\<close>

definition instanceByName :: "World \<Rightarrow> string \<rightharpoonup> Application" where
  "instanceByName world = map_of (rev (map (\<lambda>(a, i). (inst_Name i, a)) (pod_instances world)))"

definition appByComponentId :: "World \<Rightarrow> ApplicationId \<rightharpoonup> Application" where
  "appByComponentId world =
     map_of (rev (concat (map (\<lambda>(a, i). case inst_ClusterComponent i of None \<Rightarrow> [] | Some c \<Rightarrow> [(c, a)])
       (pod_instances world))))"

definition event_app :: "World \<Rightarrow> ApplicationId \<Rightarrow> string \<Rightarrow> Application option" where
  "event_app world appId name =
     (case GetApplication world appId of
        Some a \<Rightarrow> Some a
      | None \<Rightarrow> (case instanceByName world name of Some a \<Rightarrow> Some a | None \<Rightarrow> appByComponentId world appId))"

text \<open>The key of an event's group, and the group it starts.\<close>

definition event_group :: "World \<Rightarrow> LogEntry \<Rightarrow> string \<times> eventGroup" where
  "event_group world ev =
     (let ns = attr ev ''object.namespace''; name = attr ev ''object.name''; kind = attr ev ''object.kind'';
          reason = attr ev ''event.reason''; sourceComponent = attr ev ''source.component''
      in if sourceComponent = ''node-controller''
         then (le_ClusterId ev @ ''|'' @ reason,
               \<lparr>g_appId = ApplicationIdZero, g_app = None, g_reason = reason, g_objKind = [], g_objNs = [], g_objName = [],
                g_clusterId = le_ClusterId ev, g_clusterName = le_ClusterName ev,
                g_sourceComponent = sourceComponent, g_nodeLevel = True, g_events = []\<rparr>)
         else
           (let appId = NewApplicationId (le_ClusterId ev) ns kind name;
                app = event_app world appId name;
                groupAppId = (case app of Some a \<Rightarrow> app_Id a | None \<Rightarrow> appId)
            in (ApplicationId_String groupAppId @ ''|'' @ reason,
                \<lparr>g_appId = groupAppId, g_app = app, g_reason = reason, g_objKind = kind, g_objNs = ns,
                 g_objName = name, g_clusterId = le_ClusterId ev, g_clusterName = le_ClusterName ev,
                 g_sourceComponent = sourceComponent, g_nodeLevel = False, g_events = []\<rparr>)))"

fun add_event :: "string \<Rightarrow> eventGroup \<Rightarrow> LogEntry \<Rightarrow> (string \<times> eventGroup) list \<Rightarrow> (string \<times> eventGroup) list" where
  "add_event key g0 ev [] = [(key, g0\<lparr>g_events := [ev]\<rparr>)]"
| "add_event key g0 ev ((k, g) # gs) =
     (if k = key then (k, g\<lparr>g_events := g_events g @ [ev]\<rparr>) # gs else (k, g) # add_event key g0 ev gs)"

definition group_events :: "World \<Rightarrow> LogEntry list \<Rightarrow> (string \<times> eventGroup) list" where
  "group_events world events =
     foldl (\<lambda>gs ev. let (key, g0) = event_group world ev in add_event key g0 ev gs) [] events"

definition obj_names :: "eventGroup \<Rightarrow> string list" where
  "obj_names g = remdups (filter (\<lambda>n. n \<noteq> []) (map (\<lambda>ev. attr ev ''object.name'') (g_events g)))"

definition quoted_label :: "string \<Rightarrow> string \<Rightarrow> string" where
  "quoted_label k v = k @ ''=\"'' @ v @ ''\"''"

definition k8s_labels :: "eventGroup \<Rightarrow> string list" where
  "k8s_labels g = sort_Strings (
     (if g_clusterName g \<noteq> [] then [quoted_label ''cluster'' (g_clusterName g)]
      else if g_clusterId g \<noteq> [] then [quoted_label ''cluster'' (g_clusterId g)] else []) @
     [quoted_label ''reason'' (g_reason g)] @
     (if g_sourceComponent g \<noteq> [] then [quoted_label ''source'' (g_sourceComponent g)] else []) @
     (if g_nodeLevel g
      then (if obj_names g \<noteq> [] then [quoted_label ''affected'' (strings_Join (sort_Strings (obj_names g)) '', '')] else [])
      else if g_app g = None
      then (if g_objKind g \<noteq> [] then [quoted_label ''kind'' (g_objKind g)] else []) @
           (if g_objNs g \<noteq> [] then [quoted_label ''namespace'' (g_objNs g)] else []) @
           [quoted_label ''name'' (g_objName g)]
      else []))"

definition k8s_filters :: "eventGroup \<Rightarrow> (string \<times> string \<times> string) list" where
  "k8s_filters g =
     (if g_clusterName g \<noteq> [] then [(''Cluster'', ''='', g_clusterName g)] else []) @
     [(''event.reason'', ''='', g_reason g)] @
     (if g_nodeLevel g then [(''source.component'', ''='', ''node-controller'')]
      else if g_app g = None
      then (if g_objKind g \<noteq> [] then [(''object.kind'', ''='', g_objKind g)] else []) @
           (if g_objNs g \<noteq> [] then [(''object.namespace'', ''='', g_objNs g)] else []) @
           [(''object.name'', ''='', g_objName g)]
      else (case obj_names g of
              [] \<Rightarrow> []
            | [n] \<Rightarrow> [(''object.name'', ''='', n)]
            | ns \<Rightarrow> [(''object.name'', ''~'', ''^('' @ strings_Join (sort_Strings (map QuoteMeta ns)) ''|'' @ '')$'')]))"

definition k8s_details :: "Env \<Rightarrow> AlertingRule \<Rightarrow> eventGroup \<Rightarrow> AlertDetail list" where
  "k8s_details e rule g =
     (if tpl_Description (r_Templates rule) \<noteq> [] then [detail ''Description'' (tpl_Description (r_Templates rule))] else []) @
     (if le_Body (hd (g_events g)) \<noteq> []
      then [code_detail ''Event message'' (Truncate (le_Body (hd (g_events g))) alertDetailValueMaxLen)] else []) @
     [code_detail ''Labels'' (strings_Join (k8s_labels g) newline),
      detail ''KubernetesEventsQuery'' (env_json_filters e (k8s_filters g))]"

definition k8s_fingerprint :: "Env \<Rightarrow> AlertingRule \<Rightarrow> eventGroup \<Rightarrow> string" where
  "k8s_fingerprint e rule g =
     calcFingerprint e (r_Id rule) (if g_nodeLevel g then [] else ApplicationId_String (g_appId g)) [(''reason'', g_reason g)]"

definition k8s_create :: "Env \<Rightarrow> KubernetesEventEvaluator option \<Rightarrow> Project \<Rightarrow> AlertingRule \<Rightarrow> KubernetesEventsSource \<Rightarrow> Time
    \<Rightarrow> string \<Rightarrow> eventGroup \<Rightarrow> log_state \<Rightarrow> log_state" where
  "k8s_create e evaluator project rule src now summary g st =
     (let (explanation, aiSuppressed) =
            (case (evaluator, g_app g) of
               (Some (_, evaluate), Some app) \<Rightarrow>
                 if kes_EvaluateWithAI src
                 then (case evaluate app (hd (g_events g)) of
                         Inl err \<Rightarrow> (''AI evaluation failed: '' @ err, False)
                       | Inr (shouldAlert, ex) \<Rightarrow> (ex, \<not> shouldAlert))
                 else ([], False)
             | _ \<Rightarrow> ([], False));
          alert = zero_alert\<lparr>a_Fingerprint := k8s_fingerprint e rule g, a_RuleId := r_Id rule,
            a_ProjectId := p_Id project,
            a_ApplicationId := (case g_app g of Some a \<Rightarrow> app_Id a | None \<Rightarrow> ApplicationIdZero),
            a_ApplicationCategory := (case g_app g of Some a \<Rightarrow> app_Category a | None \<Rightarrow> ApplicationCategoryApplication),
            a_Severity := rule_severity rule, a_Summary := summary,
            a_Details := k8s_details e rule g @ (if explanation \<noteq> [] then [detail ''AI analysis'' explanation] else []),
            a_Suppressed := aiSuppressed, a_ResolvedBy := (if aiSuppressed then ''AI'' else [])\<rparr>;
          (created, d) = create_alert e project alert
            (\<lambda>a d. if \<not> aiSuppressed then Enqueue e project (g_app g) a rule now d else d) (ls_db st);
          appId = ApplicationId_String (g_appId g)
      in st\<lparr>ls_db := d, ls_firing := (if created \<and> \<not> g_nodeLevel g
                                        then (ls_firing st)(appId := ls_firing st appId + 1) else ls_firing st)\<rparr>)"

definition k8s_step :: "Env \<Rightarrow> KubernetesEventEvaluator option \<Rightarrow> Project \<Rightarrow> AlertingRule \<Rightarrow> KubernetesEventsSource
    \<Rightarrow> int \<Rightarrow> int \<Rightarrow> Duration \<Rightarrow> Time \<Rightarrow> eventGroup \<Rightarrow> log_state \<Rightarrow> log_state" where
  "k8s_step e evaluator project rule src minCount maxAlertsPerApp window now g st =
     (if int (length (g_events g)) < minCount then st
      else
        (let fingerprint = k8s_fingerprint e rule g;
             st1 = st\<lparr>ls_active := fingerprint # ls_active st\<rparr>;
             summary = g_reason g @ '' ('' @ Itoa (int (length (g_events g))) @ '' events in the last '' @
                         env_duration_string e window @ '')''
         in case by_fingerprint (ls_alerts st1) fingerprint of
              Some a \<Rightarrow>
                if a_Suppressed a then st1
                else
                  (let a' = a\<lparr>a_Severity := rule_severity rule, a_Summary := summary,
                              a_Details := k8s_details e rule g @ ai_detail (a_Details a)\<rparr>
                   in st1\<lparr>ls_alerts := map (\<lambda>x. if a_Id x = a_Id a then a' else x) (ls_alerts st1),
                          ls_db := snd (UpdateAlert e (p_Id project) a' (ls_db st1))\<rparr>)
            | None \<Rightarrow>
                if \<not> g_nodeLevel g \<and> ls_firing st1 (ApplicationId_String (g_appId g)) \<ge> maxAlertsPerApp then st1
                else k8s_create e evaluator project rule src now summary g st1))"

text \<open>
  \<open>answers\<close>: an error of \<^verbatim>\<open>clickhouse.GetClients\<close>, or the answer of each client. The groups and
  the alerts are taken in the order they were first seen.
\<close>

definition evaluateKubernetesEventsAlerts :: "Env \<Rightarrow> KubernetesEventEvaluator option \<Rightarrow> Project \<Rightarrow> AlertingRule
    \<Rightarrow> KubernetesEventsSource \<Rightarrow> World \<Rightarrow> string + (string + LogEntry list) list \<Rightarrow> Time \<Rightarrow> Time \<Rightarrow> Time
    \<Rightarrow> Alerts \<times> DB \<Rightarrow> Alerts \<times> DB" where
  "evaluateKubernetesEventsAlerts e evaluator project rule src world answers tFrom tTo now = (\<lambda>(w, d).
     let minCount = (if kes_MinCount src \<le> 0 then 1 else kes_MinCount src);
         maxAlertsPerApp = (if kes_MaxAlertsPerApp src \<le> 0 then 20 else kes_MaxAlertsPerApp src)
     in case answers of
          Inl _ \<Rightarrow> (w, d)
        | Inr clients \<Rightarrow>
            (let events = concat (map (\<lambda>r. case r of Inl _ \<Rightarrow> [] | Inr evts \<Rightarrow> evts) clients);
                 groups = group_events world events
             in case GetLatestAlertsByRule e (p_Id project) (r_Id rule) d of
                  (Inl _, d1) \<Rightarrow> (w, d1)
                | (Inr latest, d1) \<Rightarrow>
                    (let as = dedup_alerts latest;
                         st = fold (k8s_step e evaluator project rule src minCount maxAlertsPerApp (tTo - tFrom) now)
                                (map snd groups)
                                \<lparr>ls_db = d1, ls_alerts = as, ls_active = [], ls_firing = firing_count as\<rparr>
                     in (w, fold (resolve_inactive e project rule world now (ls_active st)) (ls_alerts st) (ls_db st)))))"

subsection \<open>A pass of the watcher\<close>

definition keeps_alert :: "AlertingRule \<Rightarrow> World \<Rightarrow> Alert \<Rightarrow> bool" where
  "keeps_alert rule world a \<longleftrightarrow>
     r_Enabled rule \<and> MatchesAlert rule a \<and>
     (ApplicationId_IsZero (a_ApplicationId a) \<or> GetApplication world (a_ApplicationId a) \<noteq> None)"

definition resolve_non_matching :: "Env \<Rightarrow> Project \<Rightarrow> AlertingRule \<Rightarrow> World \<Rightarrow> Time \<Rightarrow> Alert \<Rightarrow> DB \<Rightarrow> DB" where
  "resolve_non_matching e project rule world now a d =
     (if keeps_alert rule world a then d
      else resolve_alert e project a now
             (\<lambda>a' d. if a_ManuallyResolvedAt a = 0
                     then Enqueue e project (GetApplication world (a_ApplicationId a)) a' rule now d else d) d)"

definition resolveNonMatchingAlerts :: "Env \<Rightarrow> Project \<Rightarrow> AlertingRule \<Rightarrow> World \<Rightarrow> Time \<Rightarrow> DB \<Rightarrow> DB" where
  "resolveNonMatchingAlerts e project rule world now d =
     (case GetLatestAlertsByRule e (p_Id project) (r_Id rule) d of
        (Inl _, d1) \<Rightarrow> d1
      | (Inr alerts, d1) \<Rightarrow> fold (resolve_non_matching e project rule world now) alerts d1)"

definition cleanupPendingAlerts :: "Time \<Rightarrow> Alerts \<Rightarrow> Alerts" where
  "cleanupPendingAlerts now w =
     w\<lparr>wa_pendingAlerts := (\<lambda>fp. case wa_pendingAlerts w fp of
         None \<Rightarrow> None | Some firstSeen \<Rightarrow> if now - firstSeen > 30 * Minute then None else Some firstSeen)\<rparr>"

text \<open>What a pass takes from outside: the evaluators, and the answers for each rule.\<close>

record AlertInputs =
  ai_logPatternEvaluator :: "LogPatternEvaluator option"
  ai_kubernetesEventEvaluator :: "KubernetesEventEvaluator option"
  ai_promql :: "AlertingRuleId \<Rightarrow> string + MetricValues list"
  ai_events :: "AlertingRuleId \<Rightarrow> string + (string + LogEntry list) list"

definition check_app :: "Env \<Rightarrow> Project \<Rightarrow> AlertingRule \<Rightarrow> CheckSource \<Rightarrow> Time \<Rightarrow> Application \<Rightarrow> Alerts \<times> DB \<Rightarrow> Alerts \<times> DB" where
  "check_app e project rule src now app wd =
     (if \<not> Matches rule app then wd
      else (case GetCheckWithReport app (chs_CheckId src) of
              None \<Rightarrow> wd
            | Some (check, report) \<Rightarrow> evaluateCheckAlert e project rule app check report now wd))"

definition evaluate_rule :: "Env \<Rightarrow> AlertInputs \<Rightarrow> Project \<Rightarrow> World \<Rightarrow> Time \<Rightarrow> Time \<Rightarrow> Time \<Rightarrow> AlertingRule
    \<Rightarrow> Alerts \<times> DB \<Rightarrow> Alerts \<times> DB" where
  "evaluate_rule e inp project world tFrom tTo now rule wd =
     (let src = r_Source rule in
      if src_Type src = AlertSourceTypeCheck
      then (case src_Check src of None \<Rightarrow> wd
            | Some s \<Rightarrow> fold (check_app e project rule s now) (app_values world) wd)
      else if src_Type src = AlertSourceTypeLogPatterns
      then (case src_LogPattern src of None \<Rightarrow> wd
            | Some s \<Rightarrow> evaluateLogPatternAlerts e (ai_logPatternEvaluator inp) project rule s world now wd)
      else if src_Type src = AlertSourceTypePromQL
      then (case src_PromQL src of None \<Rightarrow> wd
            | Some s \<Rightarrow> if pqs_Expression s = [] then wd
                else evaluatePromQLAlerts e project rule (pqs_Expression s) (ai_promql inp (r_Id rule)) now wd)
      else if src_Type src = AlertSourceTypeKubernetesEvents
      then (case src_KubernetesEvents src of None \<Rightarrow> wd
            | Some s \<Rightarrow> evaluateKubernetesEventsAlerts e (ai_kubernetesEventEvaluator inp) project rule s world
                          (ai_events inp (r_Id rule)) tFrom tTo now wd)
      else wd)"

text \<open>
  A rule without its source is skipped by \<^verbatim>\<open>continue\<close>, so its alerts are not looked at either.
\<close>

definition skipped :: "AlertingRule \<Rightarrow> bool" where
  "skipped rule \<longleftrightarrow>
     (let src = r_Source rule in
      r_Enabled rule \<and>
      (src_Type src = AlertSourceTypeCheck \<and> src_Check src = None \<or>
       src_Type src = AlertSourceTypeLogPatterns \<and> src_LogPattern src = None \<or>
       src_Type src = AlertSourceTypePromQL \<and>
         (case src_PromQL src of None \<Rightarrow> True | Some s \<Rightarrow> pqs_Expression s = []) \<or>
       src_Type src = AlertSourceTypeKubernetesEvents \<and> src_KubernetesEvents src = None))"

definition check_rule :: "Env \<Rightarrow> AlertInputs \<Rightarrow> Project \<Rightarrow> World \<Rightarrow> Time \<Rightarrow> Time \<Rightarrow> Time \<Rightarrow> AlertingRule
    \<Rightarrow> Alerts \<times> DB \<Rightarrow> Alerts \<times> DB" where
  "check_rule e inp project world tFrom tTo now rule wd =
     (if skipped rule then wd
      else
        (let (w, d) = (if r_Enabled rule then evaluate_rule e inp project world tFrom tTo now rule wd else wd)
         in (w, resolveNonMatchingAlerts e project rule world now d)))"

definition Alerts_Check :: "Env \<Rightarrow> AlertInputs \<Rightarrow> Project \<Rightarrow> World \<Rightarrow> Time \<Rightarrow> Time \<Rightarrow> Alerts \<times> DB \<Rightarrow> Alerts \<times> DB" where
  "Alerts_Check e inp project world tFrom tTo = (\<lambda>(w, d).
     case GetAlertingRules e (p_Id project) d of
       (Inl _, d1) \<Rightarrow> (w, d1)
     | (Inr rules, d1) \<Rightarrow>
         (let (now, d2) = Now e d1;
              run = (\<lambda>(w, d). let (w', d') = fold (check_rule e inp project world tFrom tTo now) rules (w, d)
                              in (cleanupPendingAlerts now w', d'))
          in if wa_initializedProjects w (p_Id project) then run (w, d2)
             else (case HasAlerts e (p_Id project) d2 of
                     (Inl _, d3) \<Rightarrow> (w, d3)
                   | (Inr has, d3) \<Rightarrow>
                       run (w\<lparr>wa_initializedProjects := (wa_initializedProjects w)(p_Id project := has)\<rparr>, d3))))"

end
