(* ===== verification/RuleProperties.thy ===== *)
theory RuleProperties
  imports BuiltinRules AlertWatcher
begin

text \<open>What the watcher does with the built-in rules.\<close>

text \<open>
  C35. The built-in rules are well formed: their ids are distinct, each is on a check that exists, or on log
  patterns, or on Kubernetes events, and its delay fits the cleanup of the watcher: what has been pending
  for no longer than the delay of the rule is never forgotten, so unlike rules with a longer delay a
  built-in rule can always fire.
\<close>

theorem builtin_rules_can_fire:
  assumes "r \<in> set BuiltinAlertingRules" "wa_pendingAlerts w fp = Some firstSeen" "now - firstSeen \<le> r_For r"
  shows "distinct (map r_Id BuiltinAlertingRules) \<and> source_ok (r_Source r) \<and> r_Enabled r \<and>
    wa_pendingAlerts (cleanupPendingAlerts now w) fp = Some firstSeen"
proof -
  have "source_ok (r_Source r)" "r_Enabled r" "r_For r \<le> 30 * Minute"
    using builtin_rules_table builtin_rules_sources assms(1) by (auto simp: list_all_iff)
  then show ?thesis using builtin_rules_distinct assms(2,3) by (simp add: cleanupPendingAlerts_def)
qed

theorem builtin_rules_can_fire_witness:
  "wa_pendingAlerts (cleanupPendingAlerts 1300 (NewAlerts\<lparr>wa_pendingAlerts := [''fp'' \<mapsto> 1000]\<rparr>)) ''fp'' = Some 1000"
proof -
  have "rule_storage_space \<in> set BuiltinAlertingRules" by (simp add: BuiltinAlertingRules_def)
  from builtin_rules_can_fire [OF this, of "NewAlerts\<lparr>wa_pendingAlerts := [''fp'' \<mapsto> 1000]\<rparr>" "''fp''" 1000 1300]
  show ?thesis by (simp add: rule_storage_space_def duration_defs)
qed

end
