(* ===== verification/AlertInvariant.thy ===== *)
theory AlertInvariant
  imports AlertWatcher
begin

text \<open>
  The invariant of the alerts table under the alerts watcher: each kind of rule keeps it, for the rules on
  checks and PromQL because an alert is looked up before it is created, and the steps of the running
  program on alerts with what each of them keeps.
\<close>

named_theorems table_ok \<open>the steps that keep the invariant of the alerts table\<close>

subsection \<open>The invariant of the table under the steps of the watcher\<close>

lemma NanoId_alerts [simp]: "db_alerts (snd (NanoId e d)) = db_alerts d"
  by (simp add: NanoId_def)

text \<open>A notification callback does not touch the alerts.\<close>

definition quiet :: "(Alert \<Rightarrow> DB \<Rightarrow> DB) \<Rightarrow> bool" where
  "quiet notify \<longleftrightarrow> (\<forall>a d. db_alerts (notify a d) = db_alerts d)"

lemma quiet_Enqueue [simp]: "quiet (\<lambda>a. Enqueue e p app a rule now)"
  by (simp add: quiet_def)

lemma quiet_guarded [simp]: "quiet (\<lambda>a d. if b then Enqueue e p app a rule now d else d)"
  by (simp add: quiet_def)

lemma quiet_none [simp]: "quiet (\<lambda>_ d. d)"
  by (simp add: quiet_def)

lemma alerts_ok_cong: "db_alerts d' = db_alerts d \<Longrightarrow> alerts_ok K d' = alerts_ok K d"
  by (simp add: alerts_ok_def one_unresolved_def ids_distinct_def)

lemma create_alert_alerts:
  assumes "quiet notify" and "NanoId e d = (i, d1)"
  shows "db_alerts (snd (create_alert e p a notify d)) = db_alerts (snd (snd (CreateAlert e (p_Id p) (a\<lparr>a_Id := i\<rparr>) d1)))"
  using assms by (auto simp: create_alert_def quiet_def split: prod.splits sum.splits)

lemma create_alert_ok [table_ok]:
  assumes "alerts_ok K d" "quiet notify"
    and "(p_Id p, a_RuleId a) \<in> K \<Longrightarrow> count_rows (unresolved_key (p_Id p) (a_RuleId a) (a_Fingerprint a)) (db_alerts d) = 0"
  shows "alerts_ok K (snd (create_alert e p a notify d))"
proof -
  obtain i d1 where n: "NanoId e d = (i, d1)" by force
  have "db_alerts d1 = db_alerts d" using n NanoId_alerts [of e d] by simp
  then have "alerts_ok K (snd (snd (CreateAlert e (p_Id p) (a\<lparr>a_Id := i\<rparr>) d1)))"
    using assms by (intro CreateAlert_alerts_ok) (simp_all add: alerts_ok_cong [of d1 d])
  then show ?thesis using create_alert_alerts [OF assms(2) n] alerts_ok_cong by blast
qed

lemma resolve_alert_alerts:
  "quiet notify \<Longrightarrow>
     db_alerts (resolve_alert e p a now notify d) = db_alerts (snd (ResolveAlert e (p_Id p) (a_Id a) now d))"
  by (auto simp: resolve_alert_def quiet_def split: prod.splits sum.splits)

lemma resolve_alert_ok [table_ok]:
  "alerts_ok K d \<Longrightarrow> quiet notify \<Longrightarrow> now \<noteq> 0 \<Longrightarrow> alerts_ok K (resolve_alert e p a now notify d)"
  using resolve_alert_alerts alert_table_op.op_alerts_ok [OF resolve_alert_op] alerts_ok_cong by blast

text \<open>The alert that a query by fingerprint answers, when it is not suppressed, is an unresolved row.\<close>

lemma existing_is_unresolved:
  assumes "alerts_ok K d" "GetActiveOrSuppressedAlertByFingerprint e p fp d = (Inr (Some a), d1)" "\<not> a_Suppressed a"
    and "r \<in> set (db_alerts d1)" "al_id r = a_Id a"
  shows "al_resolved_at r = 0"
proof -
  obtain s where s: "s \<in> set (db_alerts d)" "open_row p fp s" "scanAlert s p = Some a" "db_alerts d1 = db_alerts d"
    using GetActive_Some [OF assms(2)] by blast
  then have "r = s" using assms row_by_id [of d r s] scanAlert_fields [OF s(3)] by (simp add: alerts_ok_def)
  then show ?thesis using s assms(3) scanAlert_fields [OF s(3)] by (simp add: open_row_def)
qed

lemma update_existing_ok:
  assumes "alerts_ok K d" "GetActiveOrSuppressedAlertByFingerprint e p fp d = (Inr (Some a), d1)" "\<not> a_Suppressed a"
    and "a_Id a' = a_Id a"
  shows "alerts_ok K (snd (UpdateAlert e q a' d1))"
proof (rule UpdateAlert_alerts_ok)
  show "alerts_ok K d1"
    using assms(1,2) GetActive_alerts [of e p fp d] alerts_ok_cong [of d1 d] by simp
  show "al_resolved_at r = 0" if "r \<in> set (db_alerts d1)" "al_id r = a_Id a'" for r
    using existing_is_unresolved [OF assms(1-3)] that assms(4) by simp
qed

lemma create_new_ok:
  assumes "alerts_ok K d" "GetActiveOrSuppressedAlertByFingerprint e (p_Id p) fp d = (Inr None, d1)"
    and "a_Fingerprint a = fp" "quiet notify"
  shows "alerts_ok K (snd (create_alert e p a notify d1))"
proof (rule create_alert_ok)
  show "alerts_ok K d1"
    using assms(1,2) GetActive_alerts [of e "p_Id p" fp d] alerts_ok_cong [of d1 d] by simp
  show "count_rows (unresolved_key (p_Id p) (a_RuleId a) (a_Fingerprint a)) (db_alerts d1) = 0"
    unfolding assms(3) using GetActive_None [OF assms(2)] by blast
qed (fact assms(4))

lemma debounce_cases:
  obtains w1 where "debounce rule fp now w = (True, w1)" | w1 where "debounce rule fp now w = (False, w1)"
  by (cases "debounce rule fp now w") (metis (full_types))

lemma a_Fingerprint_check_alert [simp]:
  "a_Fingerprint (check_alert e p rule app check report) = calcFingerprint e (r_Id rule) (ApplicationId_String (app_Id app)) []"
  by (simp add: check_alert_def)

lemma evaluateCheckAlert_ok [table_ok]:
  assumes ok: "alerts_ok K d" and now: "now \<noteq> 0"
  shows "alerts_ok K (snd (evaluateCheckAlert e p rule app check report now (w, d)))"
proof -
  let ?fp = "calcFingerprint e (r_Id rule) (ApplicationId_String (app_Id app)) []"
  obtain q d1 where g: "GetActiveOrSuppressedAlertByFingerprint e (p_Id p) ?fp d = (q, d1)" by force
  have ok1: "alerts_ok K d1"
    using ok g GetActive_alerts [of e "p_Id p" ?fp d] alerts_ok_cong [of d1 d] by simp
  show ?thesis
  proof (cases q)
    case (Inl err)
    then show ?thesis using ok1 g by (simp add: evaluateCheckAlert_def)
  next
    case (Inr existing)
    show ?thesis
    proof (cases existing)
      case None
      show ?thesis
        using ok1 g Inr None create_new_ok [OF ok g [unfolded Inr None]]
        by (cases rule: debounce_cases [of rule ?fp now w]) (auto simp: evaluateCheckAlert_def Let_def)
    next
      case (Some a)
      show ?thesis
        using ok1 g Inr Some now update_existing_ok [OF ok g [unfolded Inr Some]]
        by (auto simp: evaluateCheckAlert_def Let_def clear_suppression_op.op_alerts_ok table_ok)
    qed
  qed
qed

lemma promql_step_ok [table_ok]:
  assumes ok: "alerts_ok K (ps_db st)"
  shows "alerts_ok K (ps_db (promql_step e p rule expr now mv st))"
proof -
  let ?fp = "calcFingerprint e (r_Id rule) [] (mv_Labels mv)"
  obtain q d1 where g: "GetActiveOrSuppressedAlertByFingerprint e (p_Id p) ?fp (ps_db st) = (q, d1)" by force
  have ok1: "alerts_ok K d1"
    using ok g GetActive_alerts [of e "p_Id p" ?fp "ps_db st"] alerts_ok_cong [of d1 "ps_db st"] by simp
  show ?thesis
  proof (cases q)
    case (Inl err)
    then show ?thesis using ok ok1 g by (simp add: promql_step_def Let_def)
  next
    case (Inr existing)
    show ?thesis
    proof (cases existing)
      case None
      show ?thesis
        using ok ok1 g Inr None create_new_ok [OF ok g [unfolded Inr None]]
        by (cases rule: debounce_cases [of rule ?fp now "ps_watcher st"]) (auto simp: promql_step_def Let_def)
    next
      case (Some a)
      show ?thesis
        using ok ok1 g Inr Some update_existing_ok [OF ok g [unfolded Inr Some]]
        by (auto simp: promql_step_def Let_def)
    qed
  qed
qed

lemma GetLatest_ok: "GetLatestAlertsByRule e p rid d = (q, d1) \<Longrightarrow> alerts_ok K d \<Longrightarrow> alerts_ok K d1"
  using GetLatest_alerts [of e p rid d] alerts_ok_cong [of d1 d] by simp

lemma promql_resolve_ok [table_ok]:
  "alerts_ok K (snd wd) \<Longrightarrow> now \<noteq> 0 \<Longrightarrow> alerts_ok K (snd (promql_resolve e p rule now active a wd))"
  by (cases wd) (auto simp: promql_resolve_def Let_def table_ok)

lemma evaluatePromQLAlerts_ok [table_ok]:
  assumes "alerts_ok K (snd wd)" "now \<noteq> 0"
  shows "alerts_ok K (snd (evaluatePromQLAlerts e p rule expr results now wd))"
proof (cases results)
  case (Inl err)
  then show ?thesis using assms by (auto simp: evaluatePromQLAlerts_def split: prod.splits)
next
  case (Inr mvs)
  obtain w d where wd: "wd = (w, d)" by force
  let ?st = "fold (promql_step e p rule expr now) mvs \<lparr>ps_watcher = w, ps_db = d, ps_active = []\<rparr>"
  obtain q d1 where g: "GetLatestAlertsByRule e (p_Id p) (r_Id rule) (ps_db ?st) = (q, d1)" by force
  have "alerts_ok K (ps_db ?st)"
    using fold_ok [where P = "\<lambda>s. alerts_ok K (ps_db s)" and f = "promql_step e p rule expr now" and xs = mvs] assms wd
    by (simp add: promql_step_ok)
  then have d1: "alerts_ok K d1" using g by (rule_tac GetLatest_ok)
  have "alerts_ok K (snd (fold (promql_resolve e p rule now active) as (w', d1)))" for active as w'
    using fold_ok [where P = "\<lambda>s. alerts_ok K (snd s)" and f = "promql_resolve e p rule now active" and xs = as and s = "(w', d1)"]
      d1 assms(2) by (simp add: promql_resolve_ok)
  then show ?thesis using Inr g d1 by (auto simp: evaluatePromQLAlerts_def wd Let_def split: sum.splits)
qed

lemma resolve_non_matching_ok [table_ok]:
  "alerts_ok K d \<Longrightarrow> now \<noteq> 0 \<Longrightarrow> alerts_ok K (resolve_non_matching e p rule world now a d)"
  by (auto simp: resolve_non_matching_def table_ok)

lemma resolveNonMatchingAlerts_ok [table_ok]:
  assumes "alerts_ok K d" "now \<noteq> 0"
  shows "alerts_ok K (resolveNonMatchingAlerts e p rule world now d)"
proof -
  obtain q d1 where g: "GetLatestAlertsByRule e (p_Id p) (r_Id rule) d = (q, d1)" by force
  then have "alerts_ok K d1" using assms(1) by (rule GetLatest_ok)
  then show ?thesis
    using fold_ok [where P = "alerts_ok K" and f = "resolve_non_matching e p rule world now"] assms(2) g
    by (auto simp: resolveNonMatchingAlerts_def resolve_non_matching_ok split: sum.splits)
qed

subsection \<open>The rules that look at a list read at the start\<close>

text \<open>
  Log patterns and Kubernetes events compare with the alerts read at the start of the evaluation, so two
  candidates with one fingerprint get two alerts. Whatever they do, they only touch rows of their own rule.
\<close>

definition rows_of :: "ProjectId \<Rightarrow> AlertingRuleId \<Rightarrow> Alert list \<Rightarrow> DB \<Rightarrow> bool" where
  "rows_of p rid as d \<longleftrightarrow>
     (\<forall>i\<in>a_Id ` set as. \<exists>r\<in>set (db_alerts d). al_id r = i \<and> al_project_id r = p \<and> al_rule_id r = rid)"

definition own_state :: "(ProjectId \<times> AlertingRuleId) set \<Rightarrow> ProjectId \<Rightarrow> AlertingRuleId \<Rightarrow> log_state \<Rightarrow> bool" where
  "own_state K p rid st \<longleftrightarrow> alerts_ok K (ls_db st) \<and> rows_of p rid (ls_alerts st) (ls_db st)"

lemma rows_of_append: "rows_of p rid as d \<Longrightarrow> db_alerts d' = db_alerts d @ rows \<Longrightarrow> rows_of p rid as d'"
  unfolding rows_of_def by auto

lemma rows_of_same: "rows_of p rid as d \<Longrightarrow> db_alerts d' = db_alerts d \<Longrightarrow> rows_of p rid as d'"
  by (simp add: rows_of_def)

lemma create_alert_appends:
  assumes "quiet notify"
  obtains rows where "db_alerts (snd (create_alert e p a notify d)) = db_alerts d @ rows"
proof -
  obtain i d1 where n: "NanoId e d = (i, d1)" by force
  then have "db_alerts d1 = db_alerts d" using NanoId_alerts [of e d] by simp
  then show ?thesis
    using that [of "[]"] that create_alert_alerts [OF assms n, of p a]
    by (auto simp: CreateAlert_def stmt_defs split: if_splits)
qed

lemma create_own:
  assumes "own_state K p rid st" "(p, rid) \<notin> K" "quiet notify" "p_Id project = p" "a_RuleId a = rid"
    and "st' = st\<lparr>ls_db := snd (create_alert e project a notify (ls_db st)), ls_firing := fc\<rparr>"
  shows "own_state K p rid st'"
proof -
  obtain rows where "db_alerts (snd (create_alert e project a notify (ls_db st))) = db_alerts (ls_db st) @ rows"
    using create_alert_appends [OF assms(3)] by blast
  then show ?thesis
    using assms rows_of_append by (auto simp: own_state_def intro: create_alert_ok)
qed

lemma update_own_rows:
  assumes "rows_of p rid as d" "map a_Id as' = map a_Id as"
  shows "rows_of p rid as' (snd (UpdateAlert e p a d))"
proof -
  have same: "a_Id ` set as' = a_Id ` set as" using assms(2) by (metis list.set_map)
  have "\<exists>g. db_alerts (snd (UpdateAlert e p a d)) = map g (db_alerts d) \<and>
      (\<forall>r. al_id (g r) = al_id r \<and> al_project_id (g r) = al_project_id r \<and> al_rule_id (g r) = al_rule_id r)"
  proof (cases "env_sql_fails e (db_stmts d)")
    case True
    then show ?thesis by (intro exI [of _ id]) (simp add: UpdateAlert_def stmt_defs)
  next
    case False
    then show ?thesis
      by (intro exI [of _ "\<lambda>r. if al_project_id r = p \<and> al_id r = a_Id a then r\<lparr>al_severity := Status_String (a_Severity a),
           al_summary := a_Summary a, al_details := a_Details a, al_resolved_at := a_ResolvedAt a,
           al_updated_at := env_now e (db_ticks d)\<rparr> else r"]) (simp add: UpdateAlert_def stmt_defs update_rows_def)
  qed
  then obtain g where g: "db_alerts (snd (UpdateAlert e p a d)) = map g (db_alerts d)"
      "\<And>r. al_id (g r) = al_id r \<and> al_project_id (g r) = al_project_id r \<and> al_rule_id (g r) = al_rule_id r" by blast
  show ?thesis using assms(1) unfolding rows_of_def same g(1) by (simp add: g(2))
qed

lemma update_own:
  assumes st: "own_state K p rid st" and "(p, rid) \<notin> K" "a \<in> set (ls_alerts st)" "a_Id a' = a_Id a"
  shows "own_state K p rid (st\<lparr>ls_alerts := map (\<lambda>x. if a_Id x = a_Id a then a' else x) (ls_alerts st),
           ls_db := snd (UpdateAlert e p a' (ls_db st))\<rparr>)"
proof -
  have "alerts_ok K (snd (UpdateAlert e p a' (ls_db st)))"
  proof (rule UpdateAlert_alerts_ok)
    fix r assume r: "r \<in> set (db_alerts (ls_db st))" "al_id r = a_Id a'" "(p, al_rule_id r) \<in> K"
    obtain s where "s \<in> set (db_alerts (ls_db st))" "al_id s = a_Id a" "al_rule_id s = rid"
      using st assms(3) by (auto simp: own_state_def rows_of_def)
    then have "r = s" using row_by_id [of "ls_db st" r s] r assms(4) st by (simp add: own_state_def alerts_ok_def)
    then show "al_resolved_at r = 0" using r \<open>al_rule_id s = rid\<close> assms(2) by simp
  qed (use st in \<open>simp add: own_state_def\<close>)
  moreover have "map a_Id (map (\<lambda>x. if a_Id x = a_Id a then a' else x) (ls_alerts st)) = map a_Id (ls_alerts st)"
    using assms(4) by simp
  then have "rows_of p rid (map (\<lambda>x. if a_Id x = a_Id a then a' else x) (ls_alerts st)) (snd (UpdateAlert e p a' (ls_db st)))"
    using st by (intro update_own_rows) (auto simp: own_state_def)
  ultimately show ?thesis by (simp add: own_state_def)
qed

lemma own_active [simp]: "own_state K p rid (st\<lparr>ls_active := xs\<rparr>) = own_state K p rid st"
  by (simp add: own_state_def)

lemma find_in: "List.find P xs = Some x \<Longrightarrow> x \<in> set xs"
  by (auto simp: find_Some_iff)

lemma first_some_in: "first_some f xs = Some y \<Longrightarrow> \<exists>x. f x = Some y"
  by (induction xs) (auto split: option.splits)

lemma blocking_in: "findBlockingAlert e rid fp appId lp as = Some b \<Longrightarrow> b \<in> set as"
  by (auto simp: findBlockingAlert_def by_fingerprint_def by_app_def split: option.splits
      dest!: find_in first_some_in)

lemma log_create_own:
  assumes "own_state K (p_Id p) (r_Id rule) st" "(p_Id p, r_Id rule) \<notin> K"
  shows "own_state K (p_Id p) (r_Id rule) (log_create e ev p rule src world now app sev lp n fp st)"
  unfolding log_create_def Let_def prod.case_distrib case_prod_beta
  by (rule create_own [OF assms]) (auto simp: Let_def)

lemma log_step_own:
  assumes "own_state K (p_Id p) (r_Id rule) st" "(p_Id p, r_Id rule) \<notin> K"
  shows "own_state K (p_Id p) (r_Id rule) (log_step e ev p rule src world maxA now c st)"
  using assms
  by (cases c) (auto simp: log_step_def Let_def split: option.splits intro!: log_create_own
      intro: update_own [where st = "st\<lparr>ls_active := xs\<rparr>" for xs, simplified] dest: blocking_in)

lemma k8s_create_own:
  assumes "own_state K (p_Id p) (r_Id rule) st" "(p_Id p, r_Id rule) \<notin> K"
  shows "own_state K (p_Id p) (r_Id rule) (k8s_create e ev p rule src now summary g st)"
  unfolding k8s_create_def Let_def prod.case_distrib case_prod_beta
  by (rule create_own [OF assms]) (auto simp: Let_def)

lemma k8s_step_own:
  assumes "own_state K (p_Id p) (r_Id rule) st" "(p_Id p, r_Id rule) \<notin> K"
  shows "own_state K (p_Id p) (r_Id rule) (k8s_step e ev p rule src minC maxA window now g st)"
  using assms
  by (auto simp: k8s_step_def Let_def by_fingerprint_def split: option.splits intro!: k8s_create_own
      intro: update_own [where st = "st\<lparr>ls_active := xs\<rparr>" for xs, simplified] dest: find_in)

lemma resolve_inactive_ok [table_ok]:
  "alerts_ok K d \<Longrightarrow> now \<noteq> 0 \<Longrightarrow> alerts_ok K (resolve_inactive e p rule world now active a d)"
  by (auto simp: resolve_inactive_def table_ok)

lemma dedup_subset: "set (dedup_alerts as) \<subseteq> set as"
proof -
  have "set (foldl (\<lambda>acc a. if a_Fingerprint a \<in> a_Fingerprint ` set acc then acc else acc @ [a]) acc as) \<subseteq> set acc \<union> set as" for acc
  proof (induction as arbitrary: acc)
    case (Cons a as)
    then show ?case using Cons [of acc] Cons [of "acc @ [a]"] by auto
  qed simp
  from this [of "[]"] show ?thesis by (simp add: dedup_alerts_def)
qed

lemma latest_own:
  assumes "GetLatestAlertsByRule e p rid d = (Inr as, d1)" "alerts_ok K d"
  shows "own_state K p rid \<lparr>ls_db = d1, ls_alerts = dedup_alerts as, ls_active = [], ls_firing = fc\<rparr>"
proof -
  have same: "db_alerts d1 = db_alerts d" using assms(1) GetLatest_alerts [of e p rid d] by simp
  have scan: "scan_alerts p (sort_by newest_first (filter (unresolved_row p rid) (db_alerts d))) = Some as"
    using assms(1) unfolding GetLatestAlertsByRule_def by (auto dest!: query_Inr)
  then have "\<exists>r\<in>set (db_alerts d). unresolved_row p rid r \<and> scanAlert r p = Some a" if "a \<in> set as" for a
  proof -
    have "Some a \<in> Some ` set as" using that by simp
    also have "\<dots> = (\<lambda>r. scanAlert r p) ` set (filter (unresolved_row p rid) (db_alerts d))"
      using arg_cong [OF those_Some [OF scan [unfolded scan_alerts_def]], of set] by simp
    finally show ?thesis by auto
  qed
  then have row: "\<exists>r\<in>set (db_alerts d). al_id r = a_Id a \<and> al_project_id r = p \<and> al_rule_id r = rid" if "a \<in> set as" for a
    using that by (fastforce simp: unresolved_row_def dest: scanAlert_fields)
  have "rows_of p rid (dedup_alerts as) d"
    unfolding rows_of_def
  proof
    fix i assume "i \<in> a_Id ` set (dedup_alerts as)"
    then obtain a where "a \<in> set as" "i = a_Id a" using dedup_subset [of as] by auto
    then show "\<exists>r\<in>set (db_alerts d). al_id r = i \<and> al_project_id r = p \<and> al_rule_id r = rid" using row by simp
  qed
  then have "rows_of p rid (dedup_alerts as) d1" using same by (rule rows_of_same)
  moreover have "alerts_ok K d1" using GetLatest_ok [OF assms] .
  ultimately show ?thesis by (simp add: own_state_def)
qed

lemma evaluate_list_ok:
  assumes "GetLatestAlertsByRule e (p_Id p) (r_Id rule) d = (Inr as, d1)" "alerts_ok K d" "now \<noteq> 0"
    and step: "\<And>c st. own_state K (p_Id p) (r_Id rule) st \<Longrightarrow> own_state K (p_Id p) (r_Id rule) (f c st)"
    and st: "st = fold f cs \<lparr>ls_db = d1, ls_alerts = dedup_alerts as, ls_active = [], ls_firing = fc\<rparr>"
  shows "alerts_ok K (fold (resolve_inactive e p rule world now active) bs (ls_db st))"
proof (rule fold_ok)
  have "own_state K (p_Id p) (r_Id rule) st"
    unfolding st by (rule fold_ok [where P = "own_state K (p_Id p) (r_Id rule)"], erule step, rule latest_own [OF assms(1,2)])
  then show "alerts_ok K (ls_db st)" by (simp add: own_state_def)
qed (use assms(3) in \<open>simp add: resolve_inactive_ok\<close>)

lemma evaluateLogPatternAlerts_ok:
  assumes "alerts_ok K (snd wd)" "now \<noteq> 0" "(p_Id p, r_Id rule) \<notin> K"
  shows "alerts_ok K (snd (evaluateLogPatternAlerts e ev p rule src world now wd))"
proof -
  obtain w d where wd: "wd = (w, d)" by force
  then have d: "alerts_ok K d" using assms(1) by simp
  have init: "alerts_ok K (initLogPatternAlerts e p rule apps sevs minC now d)" for apps sevs minC
    unfolding initLogPatternAlerts_def
    by (rule fold_ok [where P = "alerts_ok K", OF create_alert_ok d])
       (use assms(3) in \<open>auto simp: init_alert_def split: prod.splits\<close>)
  obtain q d1 where g: "GetLatestAlertsByRule e (p_Id p) (r_Id rule) d = (q, d1)" by force
  then have d1: "alerts_ok K d1" using d by (rule GetLatest_ok)
  show ?thesis
  proof (cases q)
    case (Inl err)
    then show ?thesis using init g d1 wd by (simp add: evaluateLogPatternAlerts_def Let_def)
  next
    case (Inr as)
    note ok = evaluate_list_ok [where f = "log_step e ev p rule src world m now" for m,
        OF g [unfolded Inr] d assms(2) log_step_own [OF _ assms(3)] refl]
    show ?thesis using init g Inr ok wd by (simp add: evaluateLogPatternAlerts_def Let_def)
  qed
qed

lemma evaluateKubernetesEventsAlerts_ok:
  assumes "alerts_ok K (snd wd)" "now \<noteq> 0" "(p_Id p, r_Id rule) \<notin> K"
  shows "alerts_ok K (snd (evaluateKubernetesEventsAlerts e ev p rule src world answers tFrom tTo now wd))"
proof -
  obtain w d where wd: "wd = (w, d)" by force
  then have d: "alerts_ok K d" using assms(1) by simp
  obtain q d1 where g: "GetLatestAlertsByRule e (p_Id p) (r_Id rule) d = (q, d1)" by force
  then have d1: "alerts_ok K d1" using d by (rule GetLatest_ok)
  show ?thesis
  proof (cases q)
    case (Inl err)
    then show ?thesis using g d d1 wd by (simp add: evaluateKubernetesEventsAlerts_def Let_def split: sum.splits)
  next
    case (Inr as)
    note ok = evaluate_list_ok [where f = "k8s_step e ev p rule src m1 m2 wdw now" for m1 m2 wdw,
        OF g [unfolded Inr] d assms(2) k8s_step_own [OF _ assms(3)] refl]
    show ?thesis using g Inr d ok wd by (simp add: evaluateKubernetesEventsAlerts_def Let_def split: sum.splits)
  qed
qed

subsection \<open>A pass of the watcher\<close>

text \<open>The rules whose alerts are found again by their fingerprint before they are created.\<close>

definition by_lookup :: "AlertingRule \<Rightarrow> bool" where
  "by_lookup rule \<longleftrightarrow> \<not> r_Enabled rule \<or>
     src_Type (r_Source rule) \<notin> {AlertSourceTypeLogPatterns, AlertSourceTypeKubernetesEvents}"

lemma check_app_ok [table_ok]:
  "alerts_ok K (snd wd) \<Longrightarrow> now \<noteq> 0 \<Longrightarrow> alerts_ok K (snd (check_app e p rule src now app wd))"
  by (cases wd) (auto simp: check_app_def table_ok split: option.splits)

lemma check_rule_ok:
  assumes rule: "(p_Id p, r_Id rule) \<in> K \<Longrightarrow> by_lookup rule" and "alerts_ok K (snd wd)" "now \<noteq> 0"
  shows "alerts_ok K (snd (check_rule e inp p world tFrom tTo now rule wd))"
proof -
  have "alerts_ok K (snd (fold (check_app e p rule src now) apps wd))" for src apps
    using fold_ok [where P = "\<lambda>s. alerts_ok K (snd s)" and f = "check_app e p rule src now"] assms by (simp add: check_app_ok)
  then have "alerts_ok K (snd (if r_Enabled rule then evaluate_rule e inp p world tFrom tTo now rule wd else wd))"
    using assms by (auto simp: by_lookup_def evaluate_rule_def Let_def table_ok split: option.splits
        intro: evaluateLogPatternAlerts_ok evaluateKubernetesEventsAlerts_ok)
  then show ?thesis
    using assms by (auto simp: check_rule_def Let_def table_ok split: prod.splits)
qed

text \<open>The rules of \<open>K\<close> are looked up in the table, and any others may run beside them.\<close>

definition lookup_rules :: "(ProjectId \<times> AlertingRuleId) set \<Rightarrow> ProjectId \<Rightarrow> DB \<Rightarrow> bool" where
  "lookup_rules K p d \<longleftrightarrow>
     (\<forall>row\<in>set (db_rules d). ru_project_id row = p \<and> (p, ru_id row) \<in> K \<longrightarrow> by_lookup (unmarshalAlertingRule row p))"

lemma create_rule_lookup:
  assumes "lookup_rules K q d" "(p, r_Id rule) \<in> K \<Longrightarrow> by_lookup rule"
  shows "lookup_rules K q (snd (snd (CreateAlertingRule e p rule d)))"
  using assms
  by (auto simp: lookup_rules_def CreateAlertingRule_def stmt_defs by_lookup_def unmarshalAlertingRule_def rule_config_def)

lemma Alerts_Check_ok:
  assumes ok: "alerts_ok K d" and rules: "lookup_rules K (p_Id p) d" and clock: "\<And>n. env_now e n \<noteq> 0"
  shows "alerts_ok K (snd (Alerts_Check e inp p world tFrom tTo (w, d)))"
proof -
  obtain q d1 where g: "GetAlertingRules e (p_Id p) d = (q, d1)" by force
  obtain now d2 where n: "Now e d1 = (now, d2)" by force
  obtain h d3 where ha: "HasAlerts e (p_Id p) d2 = (h, d3)" by force
  have same: "db_alerts d1 = db_alerts d" "db_alerts d2 = db_alerts d" "db_alerts d3 = db_alerts d" and now: "now \<noteq> 0"
    using g n ha clock by (auto simp: GetAlertingRules_def HasAlerts_def stmt_defs split: if_splits)
  have oks: "alerts_ok K d1" "alerts_ok K d2" "alerts_ok K d3" using same ok alerts_ok_cong by blast+
  have run: "alerts_ok K (snd (fold (check_rule e inp p world tFrom tTo now) rs (w', d')))"
    if "q = Inr rs" "alerts_ok K d'" for rs w' d'
  proof (rule fold_ok_set)
    fix rule and s :: "Alerts \<times> DB" assume "rule \<in> set rs" "alerts_ok K (snd s)"
    moreover have "by_lookup rule" if "(p_Id p, r_Id rule) \<in> K"
      using that \<open>rule \<in> set rs\<close> rules g \<open>q = Inr rs\<close> unfolding GetAlertingRules_def lookup_rules_def
      by (auto simp: unmarshalAlertingRule_def Let_def dest!: query_Inr)
    ultimately show "alerts_ok K (snd (check_rule e inp p world tFrom tTo now rule s))"
      using now by (simp add: check_rule_ok)
  qed (simp add: that)
  have run': "alerts_ok K d''"
    if "fold (check_rule e inp p world tFrom tTo now) rs (w', d') = (w'', d'')" "q = Inr rs" "alerts_ok K d'" for rs w' d' w'' d''
    using run [OF that(2,3), of w'] that(1) by simp
  show ?thesis
    using oks g n ha by (auto simp: Alerts_Check_def Let_def split: sum.splits prod.splits dest: run')
qed

lemma frame_enqueueResolvedAlert: "notifier_frame d (enqueueResolvedAlert e now p a rule s d)"
  unfolding enqueueResolvedAlert_def Let_def by (rule frame_fold) (rule frame_Put)

lemma frame_enqueue_resolved: "notifier_frame d (enqueue_resolved e now p rule as d)"
proof (induction as arbitrary: d)
  case (Cons a as)
  then show ?case
    by (auto simp: Let_def split: option.splits intro: notifier_frame_trans [OF frame_enqueueResolvedAlert])
qed simp

lemma EnqueueResolvedAlerts_alerts [simp]: "db_alerts (EnqueueResolvedAlerts e p as rule d) = db_alerts d"
  using frame_enqueue_resolved [of "snd (Now e d)"]
  by (auto simp: EnqueueResolvedAlerts_def Now_def notifier_frame_def)

lemma retry_alerts [simp]: "db_alerts (AlertNotifier_retry e primary d) = db_alerts d"
  using frame_sendAlerts [of d e] by (simp add: AlertNotifier_retry_def notifier_frame_def)

subsection \<open>The system of the watcher, the notifier and the users\<close>

text \<open>
  The steps of the running program on alerts, in any order: passes of the watcher over any project and
  world, with rules of all four kinds, the users' manual operations, changes of rules, resends, and a
  restart, which forgets the watcher's own state. The rules of \<open>K\<close> are those that are on a check or on
  PromQL (or disabled) whenever they are looked at. The users suppress only alerts that are not
  resolved (\<open>suppression_duplicates\<close> shows what the code does otherwise).
\<close>

inductive system_step :: "Env \<Rightarrow> (ProjectId \<times> AlertingRuleId) set \<Rightarrow> Alerts \<times> DB \<Rightarrow> Alerts \<times> DB \<Rightarrow> bool" for e K where
  check: "lookup_rules K (p_Id project) d \<Longrightarrow>
    system_step e K (w, d) (Alerts_Check e inp project world tFrom tTo (w, d))"
| resolve: "system_step e K (w, d) (w, snd (ResolveAlerts e p ids who d))"
| reopen: "system_step e K (w, d) (w, snd (ReopenAlerts e p ids d))"
| suppress: "suppresses_unresolved p ids d \<Longrightarrow>
    system_step e K (w, d) (w, snd (SuppressAlerts e p ids who d))"
| resolve_rule: "system_step e K (w, d) (w, snd (ResolveAlertsByRule e p rid d))"
| notify_resolved: "system_step e K (w, d) (w, EnqueueResolvedAlerts e project as rule d)"
| retry: "system_step e K (w, d) (w, AlertNotifier_retry e primary d)"
| create_rule: "system_step e K (w, d) (w, snd (snd (CreateAlertingRule e p rule d)))"
| update_rule: "system_step e K (w, d) (w, snd (UpdateAlertingRule e p rule d))"
| delete_rule: "system_step e K (w, d) (w, snd (DeleteAlertingRule e p rid d))"
| restart: "system_step e K (w, d) (NewAlerts, d)"

inductive_cases system_stepE: "system_step e K s s'"

lemma rule_ops_alerts [simp]:
  "db_alerts (snd (snd (CreateAlertingRule e p rule d))) = db_alerts d"
  "db_alerts (snd (UpdateAlertingRule e p rule d)) = db_alerts d"
  "db_alerts (snd (DeleteAlertingRule e p rid d)) = db_alerts d"
  by (auto simp: CreateAlertingRule_def UpdateAlertingRule_def DeleteAlertingRule_def GetAlertingRule_def stmt_defs
      split: list.splits)

lemma system_step_ok:
  assumes "system_step e K s s'" "alerts_ok K (snd s)" "\<And>n. env_now e n \<noteq> 0"
  shows "alerts_ok K (snd s')"
  using assms
proof (cases rule: system_step.cases)
  case (check p d w inp world tFrom tTo)
  then show ?thesis using assms by (simp add: Alerts_Check_ok)
next
  case (notify_resolved w d p as rule)
  then show ?thesis using assms(2) alerts_ok_cong [OF EnqueueResolvedAlerts_alerts] by simp
next
  case (retry w d primary)
  then show ?thesis using assms(2) alerts_ok_cong [OF retry_alerts] by simp
next
  case (create_rule w d p rule)
  then show ?thesis using assms(2) alerts_ok_cong [OF rule_ops_alerts(1)] by simp
next
  case (update_rule w d p rule)
  then show ?thesis using assms(2) alerts_ok_cong [OF rule_ops_alerts(2)] by simp
next
  case (delete_rule w d p rid)
  then show ?thesis using assms(2) alerts_ok_cong [OF rule_ops_alerts(3)] by simp
qed (simp_all add: resolve_alerts_op.op_alerts_ok reopen_alerts_op.op_alerts_ok resolve_by_rule_op.op_alerts_ok
  SuppressAlerts_alerts_ok)

end
