(* ===== verification/AlertSafety.thy ===== *)
theory AlertSafety
  imports AlertInvariant
begin

text \<open>
  What the alerts watcher guarantees: the invariant of the alerts table in every reachable state, when an
  alert is created and when it is not, and that the alerts a rule does not select any more are resolved.
\<close>

subsection \<open>When a check creates and resolves alerts\<close>

definition check_fingerprint :: "Env \<Rightarrow> AlertingRule \<Rightarrow> Application \<Rightarrow> string" where
  "check_fingerprint e rule app = calcFingerprint e (r_Id rule) (ApplicationId_String (app_Id app)) []"

definition due :: "AlertingRule \<Rightarrow> string \<Rightarrow> Time \<Rightarrow> Alerts \<Rightarrow> bool" where
  "due rule fp now w \<longleftrightarrow> r_For rule \<le> 0 \<or> (\<exists>t. wa_pendingAlerts w fp = Some t \<and> now - t \<ge> r_For rule)"

lemma debounce_due: "fst (debounce rule fp now w) = due rule fp now w"
  by (auto simp: debounce_def due_def split: option.splits)

text \<open>The row that a firing check adds.\<close>

definition check_row :: "Env \<Rightarrow> Project \<Rightarrow> AlertingRule \<Rightarrow> Application \<Rightarrow> Check \<Rightarrow> AlertRow \<Rightarrow> bool" where
  "check_row e p rule app check r \<longleftrightarrow>
     al_project_id r = p_Id p \<and> al_rule_id r = r_Id rule \<and> al_fingerprint r = check_fingerprint e rule app \<and>
     al_application_id r = ApplicationId_String (app_Id app) \<and> al_resolved_at r = 0 \<and> al_manually_resolved_at r = 0 \<and>
     \<not> al_suppressed r \<and> al_severity r = Status_String (rule_severity rule) \<and> al_summary r = ch_Message check"

lemma create_alert_rows:
  assumes "quiet notify"
  shows "db_alerts (snd (create_alert e p a notify d)) = db_alerts d \<or>
    (\<exists>t. db_alerts (snd (create_alert e p a notify d)) =
       db_alerts d @ [alert_row (p_Id p) (a\<lparr>a_Id := env_nano e (db_ids d), a_OpenedAt := t, a_UpdatedAt := t\<rparr>)])"
proof -
  obtain i d1 where n: "NanoId e d = (i, d1)" by force
  then have "i = env_nano e (db_ids d)" "db_alerts d1 = db_alerts d" by (auto simp: NanoId_def)
  then show ?thesis
    using create_alert_alerts [OF assms n] by (auto simp: CreateAlert_def stmt_defs)
qed

lemma create_alert_reliable:
  assumes "quiet notify" "reliable e" "env_nano e (db_ids d) \<notin> al_id ` set (db_alerts d)"
  shows "\<exists>t. db_alerts (snd (create_alert e p a notify d)) =
       db_alerts d @ [alert_row (p_Id p) (a\<lparr>a_Id := env_nano e (db_ids d), a_OpenedAt := t, a_UpdatedAt := t\<rparr>)]"
proof -
  obtain i d1 where n: "NanoId e d = (i, d1)" by force
  then have "i = env_nano e (db_ids d)" "db_alerts d1 = db_alerts d" by (auto simp: NanoId_def)
  then show ?thesis
    using create_alert_alerts [OF assms(1) n] assms(2,3)
    by (auto simp: CreateAlert_def stmt_defs reliable_def list_ex_iff image_iff)
qed

lemma GetActive_open:
  assumes "GetActiveOrSuppressedAlertByFingerprint e p fp d = (Inr None, d1)" "r \<in> set (db_alerts d)"
  shows "\<not> open_row p fp r"
proof -
  have "filter (open_row p fp) (db_alerts d) = []"
    using assms(1) unfolding GetActiveOrSuppressedAlertByFingerprint_def
    by (auto dest!: query_Inr split: list.splits)
  then show ?thesis using assms(2) by (simp add: filter_empty_conv)
qed

lemma GetActive_reliable_None:
  assumes "reliable e" "\<And>r. r \<in> set (db_alerts d) \<Longrightarrow> \<not> open_row p fp r"
  shows "GetActiveOrSuppressedAlertByFingerprint e p fp d = (Inr None, d\<lparr>db_stmts := Suc (db_stmts d)\<rparr>)"
proof -
  have "filter (open_row p fp) (db_alerts d) = []" using assms(2) by (simp add: filter_empty_conv)
  then show ?thesis using assms(1) by (simp add: GetActiveOrSuppressedAlertByFingerprint_def stmt_defs reliable_def)
qed

lemma UpdateAlert_length [simp]: "length (db_alerts (snd (UpdateAlert e p a d))) = length (db_alerts d)"
  by (simp add: UpdateAlert_def stmt_defs)

lemma resolve_alert_length [simp]:
  "quiet notify \<Longrightarrow> length (db_alerts (resolve_alert e p a now notify d)) = length (db_alerts d)"
  by (simp add: resolve_alert_alerts ResolveAlert_def stmt_defs)

lemma ClearSuppression_length [simp]: "length (db_alerts (snd (ClearSuppression e p fp d))) = length (db_alerts d)"
  by (simp add: ClearSuppression_def stmt_defs)

lemma check_creates_only_when_due:
  assumes grows: "length (db_alerts (snd (evaluateCheckAlert e p rule app check report now (w, d)))) > length (db_alerts d)"
  shows "ch_Status check > OK \<and> due rule (check_fingerprint e rule app) now w \<and>
    (\<forall>r\<in>set (db_alerts d). \<not> open_row (p_Id p) (check_fingerprint e rule app) r) \<and>
    (\<exists>row. db_alerts (snd (evaluateCheckAlert e p rule app check report now (w, d))) = db_alerts d @ [row] \<and>
           check_row e p rule app check row)"
proof -
  let ?fp = "calcFingerprint e (r_Id rule) (ApplicationId_String (app_Id app)) []"
  obtain q d1 where g: "GetActiveOrSuppressedAlertByFingerprint e (p_Id p) ?fp d = (q, d1)" by force
  have a1: "db_alerts d1 = db_alerts d" using g GetActive_alerts [of e "p_Id p" ?fp d] by simp
  have q: "q = Inr None" "ch_Status check > OK" "fst (debounce rule ?fp now w)"
    using grows a1 g
    by (auto simp: evaluateCheckAlert_def Let_def split: sum.splits option.splits if_splits prod.splits)
  obtain w1 where db: "debounce rule ?fp now w = (True, w1)" using q(3) by (cases "debounce rule ?fp now w") auto
  let ?n = "\<lambda>a. Enqueue e p (Some app) a rule now"
  have s: "snd (evaluateCheckAlert e p rule app check report now (w, d))
      = snd (create_alert e p (check_alert e p rule app check report) ?n d1)"
    using g q db by (simp add: evaluateCheckAlert_def Let_def)
  obtain row where row: "db_alerts (snd (create_alert e p (check_alert e p rule app check report) ?n d1)) = db_alerts d1 @ [row]"
      "check_row e p rule app check row"
    using create_alert_rows [of ?n e p "check_alert e p rule app check report" d1] grows a1
    unfolding s by (auto simp: check_row_def check_alert_def zero_alert_def alert_row_def check_fingerprint_def)
  show ?thesis
    using row q debounce_due [of rule ?fp now w] GetActive_open [OF g [unfolded q(1)]] a1
    unfolding s by (auto simp: check_fingerprint_def)
qed

lemma check_creates_when_due:
  assumes "reliable e" "ch_Status check > OK" "due rule (check_fingerprint e rule app) now w"
    and "env_nano e (db_ids d) \<notin> al_id ` set (db_alerts d)"
    and none: "\<forall>r\<in>set (db_alerts d). \<not> open_row (p_Id p) (check_fingerprint e rule app) r"
  shows "\<exists>row. db_alerts (snd (evaluateCheckAlert e p rule app check report now (w, d))) = db_alerts d @ [row] \<and>
           check_row e p rule app check row"
proof -
  let ?fp = "calcFingerprint e (r_Id rule) (ApplicationId_String (app_Id app)) []"
  let ?d1 = "d\<lparr>db_stmts := Suc (db_stmts d)\<rparr>"
  let ?n = "\<lambda>a. Enqueue e p (Some app) a rule now"
  have g: "GetActiveOrSuppressedAlertByFingerprint e (p_Id p) ?fp d = (Inr None, ?d1)"
    using none by (intro GetActive_reliable_None [OF assms(1)]) (simp add: check_fingerprint_def)
  obtain w1 where db: "debounce rule ?fp now w = (True, w1)"
    using assms(3) debounce_due [of rule ?fp now w] by (cases "debounce rule ?fp now w") (auto simp: check_fingerprint_def)
  have s: "snd (evaluateCheckAlert e p rule app check report now (w, d))
      = snd (create_alert e p (check_alert e p rule app check report) ?n ?d1)"
    using g assms(2) db by (simp add: evaluateCheckAlert_def Let_def)
  show ?thesis
    using create_alert_reliable [of ?n e ?d1 p "check_alert e p rule app check report"] assms(1,4)
    unfolding s by (auto simp: check_row_def check_alert_def zero_alert_def alert_row_def check_fingerprint_def)
qed

lemma GetActive_reliable_cases:
  assumes "reliable e" "\<And>r. r \<in> set (db_alerts d) \<Longrightarrow> open_row p fp r \<Longrightarrow> scanAlert r p \<noteq> None"
  obtains d1 where "GetActiveOrSuppressedAlertByFingerprint e p fp d = (Inr None, d1)" "db_alerts d1 = db_alerts d"
      "\<forall>r\<in>set (db_alerts d). \<not> open_row p fp r"
  | r a d1 where "GetActiveOrSuppressedAlertByFingerprint e p fp d = (Inr (Some a), d1)" "db_alerts d1 = db_alerts d"
      "r \<in> set (db_alerts d)" "open_row p fp r" "scanAlert r p = Some a"
proof (cases "\<forall>r\<in>set (db_alerts d). \<not> open_row p fp r")
  case True
  then show ?thesis using GetActive_reliable_None [OF assms(1)] that(1) by simp
next
  case False
  then obtain r rs where s: "sort_by newest_first (filter (open_row p fp) (db_alerts d)) = r # rs"
    by (cases "sort_by newest_first (filter (open_row p fp) (db_alerts d))") (auto simp: filter_empty_conv)
  have r: "r \<in> set (db_alerts d)" "open_row p fp r"
    using set_sort_by [of newest_first "filter (open_row p fp) (db_alerts d)"] s by auto
  then obtain a where a: "scanAlert r p = Some a" using assms(2) by auto
  show ?thesis
    by (rule that(2) [of a "d\<lparr>db_stmts := Suc (db_stmts d)\<rparr>" r])
      (use s a r assms(1) in \<open>simp_all add: GetActiveOrSuppressedAlertByFingerprint_def stmt_defs reliable_def\<close>)
qed

lemma resolve_alert_reliable:
  "reliable e \<Longrightarrow> quiet notify \<Longrightarrow> db_alerts (resolve_alert e p a now notify d) =
     update_rows (\<lambda>r. al_project_id r = p_Id p \<and> al_id r = a_Id a)
       (\<lambda>r. r\<lparr>al_resolved_at := now, al_updated_at := now\<rparr>) (db_alerts d)"
  by (simp add: resolve_alert_alerts ResolveAlert_def stmt_defs reliable_def)

lemma open_row_unique:
  assumes "alerts_ok K d" "(p, rid) \<in> K" "s \<in> set (db_alerts d)" "r \<in> set (db_alerts d)" "open_row p fp s" "open_row p fp r"
    and "\<And>x. x \<in> {s, r} \<Longrightarrow> al_rule_id x = rid \<and> \<not> al_suppressed x"
  shows "s = r"
proof (rule count_rows_unique [of "unresolved_key p rid fp" "db_alerts d"])
  show "unresolved_key p rid fp s" "unresolved_key p rid fp r"
    using assms(5,6) assms(7) [of s] assms(7) [of r] by (simp_all add: unresolved_key_def unresolved_row_def open_row_def)
qed (use assms in \<open>simp_all add: alerts_ok_def one_unresolved_def\<close>)

abbreviation resolve_row :: "Time \<Rightarrow> AlertRow \<Rightarrow> AlertRow" where
  "resolve_row t r \<equiv> r\<lparr>al_resolved_at := t, al_updated_at := t\<rparr>"

lemma check_resolves:
  assumes ok: "alerts_ok {(p_Id p, r_Id rule)} d" and "reliable e" "\<not> ch_Status check > OK"
    and rows: "\<forall>r\<in>set (db_alerts d). open_row (p_Id p) (check_fingerprint e rule app) r \<longrightarrow>
       al_rule_id r = r_Id rule \<and> \<not> al_suppressed r \<and> scanAlert r (p_Id p) \<noteq> None \<and>
       (r_KeepFiringFor rule \<le> 0 \<or> now - al_updated_at r \<ge> r_KeepFiringFor rule)"
  shows "db_alerts (snd (evaluateCheckAlert e p rule app check report now (w, d))) =
    map (\<lambda>r. if open_row (p_Id p) (check_fingerprint e rule app) r then resolve_row now r else r) (db_alerts d)"
proof -
  let ?fp = "calcFingerprint e (r_Id rule) (ApplicationId_String (app_Id app)) []"
  have rows': "al_rule_id r = r_Id rule" "\<not> al_suppressed r" "scanAlert r (p_Id p) \<noteq> None"
      "r_KeepFiringFor rule \<le> 0 \<or> now - al_updated_at r \<ge> r_KeepFiringFor rule"
    if "r \<in> set (db_alerts d)" "open_row (p_Id p) ?fp r" for r
    using rows that by (auto simp: check_fingerprint_def)
  show ?thesis
  proof (cases rule: GetActive_reliable_cases [of e d "p_Id p" ?fp, case_names reliable scans none some])
    case (none d1)
    then show ?thesis using assms(3) by (simp add: evaluateCheckAlert_def check_fingerprint_def Let_def map_idI)
  next
    case (some r a d1)
    note f = scanAlert_fields [OF some(5)]
    let ?P = "\<lambda>s. al_project_id s = p_Id p \<and> al_id s = al_id r"
    have "db_alerts (snd (evaluateCheckAlert e p rule app check report now (w, d))) = update_rows ?P (resolve_row now) (db_alerts d)"
      using some f rows' [OF some(3,4)] assms(2,3) by (auto simp: evaluateCheckAlert_def Let_def resolve_alert_reliable)
    moreover have "?P s \<longleftrightarrow> open_row (p_Id p) ?fp s" if s: "s \<in> set (db_alerts d)" for s
    proof
      assume "?P s"
      then show "open_row (p_Id p) ?fp s" using row_by_id [of d s r] s some(3,4) ok by (auto simp: alerts_ok_def)
    next
      assume o: "open_row (p_Id p) ?fp s"
      have "s = r"
        by (rule open_row_unique [OF ok _ s some(3) o some(4), of "r_Id rule"])
           (use rows'(1,2) [OF s o] rows'(1,2) [OF some(3,4)] in auto)
      then show "?P s" using some(4) by (simp add: open_row_def)
    qed
    ultimately show ?thesis by (simp add: update_rows_def check_fingerprint_def cong: map_cong)
  qed (use assms rows' in auto)
qed

subsection \<open>Alerts a rule does not select\<close>

lemma update_rows_unresolved:
  "t \<noteq> 0 \<Longrightarrow> s \<in> set (update_rows P (resolve_row t) rows) \<Longrightarrow> al_resolved_at s = 0 \<Longrightarrow> s \<in> set rows \<and> \<not> P s"
  by (auto simp: set_update_rows split: if_splits)

lemma resolve_fold_alerts:
  assumes "reliable e"
  shows "db_alerts (fold (resolve_non_matching e p rule world now) as d) =
    update_rows (\<lambda>r. al_project_id r = p_Id p \<and> al_id r \<in> a_Id ` {a \<in> set as. \<not> keeps_alert rule world a})
      (\<lambda>r. r\<lparr>al_resolved_at := now, al_updated_at := now\<rparr>) (db_alerts d)"
proof (induction as arbitrary: d)
  case Nil
  then show ?case by (simp add: update_rows_def)
next
  case (Cons a as)
  have "db_alerts (resolve_non_matching e p rule world now a d) =
     update_rows (\<lambda>r. al_project_id r = p_Id p \<and> al_id r = a_Id a \<and> \<not> keeps_alert rule world a)
      (\<lambda>r. r\<lparr>al_resolved_at := now, al_updated_at := now\<rparr>) (db_alerts d)"
    using assms by (auto simp: resolve_non_matching_def resolve_alert_reliable update_rows_def)
  then have "db_alerts (fold (resolve_non_matching e p rule world now) (a # as) d) =
     update_rows (\<lambda>r. al_project_id r = p_Id p \<and> al_id r \<in> a_Id ` {a \<in> set as. \<not> keeps_alert rule world a} \<or>
        al_project_id r = p_Id p \<and> al_id r = a_Id a \<and> \<not> keeps_alert rule world a) (resolve_row now) (db_alerts d)"
    by (simp add: Cons.IH update_rows_twice)
  also have "\<dots> = update_rows (\<lambda>r. al_project_id r = p_Id p \<and>
        al_id r \<in> a_Id ` {x \<in> set (a # as). \<not> keeps_alert rule world x}) (resolve_row now) (db_alerts d)"
    by (rule arg_cong [where f = "\<lambda>P. update_rows P (resolve_row now) (db_alerts d)"]) auto
  finally show ?case .
qed

lemma GetLatest_reliable:
  assumes "reliable e" "\<forall>r\<in>set (db_alerts d). unresolved_row p rid r \<longrightarrow> scanAlert r p \<noteq> None"
  shows "\<exists>as. GetLatestAlertsByRule e p rid d = (Inr as, d\<lparr>db_stmts := Suc (db_stmts d)\<rparr>) \<and>
    set as = {a. \<exists>r\<in>set (db_alerts d). unresolved_row p rid r \<and> scanAlert r p = Some a}"
proof -
  let ?rows = "sort_by newest_first (filter (unresolved_row p rid) (db_alerts d))"
  have s: "those (map (\<lambda>r. scanAlert r p) rows) = Some (map (\<lambda>r. the (scanAlert r p)) rows)"
    if "\<forall>r\<in>set rows. scanAlert r p \<noteq> None" for rows
    using that by (induction rows) auto
  have "those (map (\<lambda>r. scanAlert r p) ?rows) = Some (map (\<lambda>r. the (scanAlert r p)) ?rows)"
    using assms(2) by (intro s) auto
  then show ?thesis
    using assms by (intro exI [of _ "map (\<lambda>r. the (scanAlert r p)) ?rows"])
      (force simp: GetLatestAlertsByRule_def scan_alerts_def stmt_defs reliable_def image_iff)
qed

subsection \<open>Alerts of Kubernetes events\<close>

lemma create_alert_new:
  assumes "reliable e" "\<And>a d. db_alerts (notify a d) = db_alerts d \<and> db_ids (notify a d) = db_ids d"
    and "env_nano e (db_ids d) \<notin> al_id ` set (db_alerts d)"
  shows "\<exists>t d'. create_alert e p a notify d = (True, d') \<and> db_ids d' = Suc (db_ids d) \<and>
    db_alerts d' = db_alerts d @ [alert_row (p_Id p) (a\<lparr>a_Id := env_nano e (db_ids d), a_OpenedAt := t, a_UpdatedAt := t\<rparr>)]"
proof -
  have "\<not> (\<exists>r\<in>set (db_alerts d). al_id r = env_nano e (db_ids d))" using assms(3) by force
  then show ?thesis
    using assms(1,2) by (auto simp: create_alert_def CreateAlert_def stmt_defs reliable_def list_ex_iff)
qed

lemma k8s_create_new:
  assumes "reliable e" "env_nano e (db_ids (ls_db st)) \<notin> al_id ` set (db_alerts (ls_db st))"
  shows "\<exists>row. db_alerts (ls_db (k8s_create e ev p rule src now s g st)) = db_alerts (ls_db st) @ [row] \<and>
    unresolved_key (p_Id p) (r_Id rule) (k8s_fingerprint e rule g) row \<and> al_id row = env_nano e (db_ids (ls_db st)) \<and>
    ls_alerts (k8s_create e ev p rule src now s g st) = ls_alerts st \<and>
    db_ids (ls_db (k8s_create e ev p rule src now s g st)) = Suc (db_ids (ls_db st))"
proof -
  obtain ex sup where ai: "(case (ev, g_app g) of
               (Some (_, evaluate), Some app) \<Rightarrow>
                 if kes_EvaluateWithAI src
                 then (case evaluate app (hd (g_events g)) of
                         Inl err \<Rightarrow> (''AI evaluation failed: '' @ err, False)
                       | Inr (shouldAlert, ex) \<Rightarrow> (ex, \<not> shouldAlert))
                 else ([], False)
             | _ \<Rightarrow> ([], False)) = (ex, sup)" by force
  define alert where "alert = zero_alert\<lparr>a_Fingerprint := k8s_fingerprint e rule g, a_RuleId := r_Id rule,
            a_ProjectId := p_Id p,
            a_ApplicationId := (case g_app g of Some a \<Rightarrow> app_Id a | None \<Rightarrow> ApplicationIdZero),
            a_ApplicationCategory := (case g_app g of Some a \<Rightarrow> app_Category a | None \<Rightarrow> ApplicationCategoryApplication),
            a_Severity := rule_severity rule, a_Summary := s,
            a_Details := k8s_details e rule g @ (if ex \<noteq> [] then [detail ''AI analysis'' ex] else []),
            a_Suppressed := sup, a_ResolvedBy := (if sup then ''AI'' else [])\<rparr>"
  let ?n = "\<lambda>a d. if \<not> sup then Enqueue e p (g_app g) a rule now d else d"
  obtain t d' where c: "create_alert e p alert ?n (ls_db st) = (True, d')" "db_ids d' = Suc (db_ids (ls_db st))"
      "db_alerts d' = db_alerts (ls_db st) @ [alert_row (p_Id p) (alert\<lparr>a_Id := env_nano e (db_ids (ls_db st)), a_OpenedAt := t, a_UpdatedAt := t\<rparr>)]"
  proof -
    have "db_alerts (?n a d) = db_alerts d \<and> db_ids (?n a d) = db_ids d" for a d by simp
    from create_alert_new [where notify = ?n, OF assms(1) this assms(2), of p alert] show ?thesis using that by blast
  qed
  have "ls_db (k8s_create e ev p rule src now s g st) = d'" "ls_alerts (k8s_create e ev p rule src now s g st) = ls_alerts st"
    using c(1) unfolding k8s_create_def ai alert_def Let_def by (simp_all)
  then show ?thesis
    using c by (simp add: alert_def unresolved_key_def unresolved_row_def alert_row_def zero_alert_def)
qed

subsection \<open>Properties\<close>

text \<open>Concrete objects on which the properties are exercised.\<close>

definition demo_rule :: "string \<Rightarrow> Duration \<Rightarrow> AlertingRule" where
  "demo_rule srcType delay = \<lparr>r_Id = ''r1'', r_ProjectId = ''p1'', r_Name = ''rule'',
     r_Source = \<lparr>src_Type = srcType, src_Check = Some \<lparr>chs_CheckId = ''ch''\<rparr>, src_LogPattern = None, src_PromQL = None,
                 src_KubernetesEvents = Some \<lparr>kes_MinCount = 1, kes_MaxAlertsPerApp = 20, kes_EvaluateWithAI = False\<rparr>\<rparr>,
     r_Selector = \<lparr>sel_Type = ''all'', sel_Categories = [], sel_ApplicationIdPatterns = []\<rparr>, r_Severity = WARNING,
     r_For = delay, r_KeepFiringFor = 0, r_Templates = \<lparr>tpl_Summary = [], tpl_Description = []\<rparr>,
     r_NotificationCategory = [], r_Enabled = True, r_Readonly = False, r_Builtin = False,
     r_CreatedAt = 0, r_UpdatedAt = 0\<rparr>"

text \<open>
  C1. In every state that the running program reaches there is at most one unresolved alert of a
  fingerprint for every rule that is on a check or on PromQL (or disabled) in each pass that looks at it,
  whatever the rules on log patterns and Kubernetes events do beside it in the same passes and whatever
  statements fail. The steps are the passes of the watcher, resending, the users' resolving, reopening and
  suppressing, changes of rules and restarts; the users are assumed to suppress no resolved alert.
\<close>

theorem reachable_one_unresolved:
  assumes "(system_step e K)\<^sup>*\<^sup>* (NewAlerts, d0) (w, d)" and "alerts_ok K d0" and "\<forall>n. env_now e n \<noteq> 0"
    and "(p, rid) \<in> K"
  shows "count_rows (unresolved_key p rid fp) (db_alerts d) \<le> 1"
proof -
  have "alerts_ok K (snd (w, d))"
    using assms(1)
  proof (induction rule: rtranclp_induct)
    case (step s s')
    then show ?case using system_step_ok assms(3) by blast
  qed (simp add: assms(2))
  then show ?thesis using assms(4) by (simp add: alerts_ok_def one_unresolved_def)
qed

lemma alerts_ok_empty [simp]: "alerts_ok K empty_db"
  by (simp add: alerts_ok_def one_unresolved_def ids_distinct_def empty_db_def count_rows_def)

lemma demo_clock: "\<forall>n. env_now demo_env n \<noteq> 0"
  by (simp add: demo_env_def)

definition demo_inputs :: AlertInputs where
  "demo_inputs = \<lparr>ai_logPatternEvaluator = None, ai_kubernetesEventEvaluator = None,
     ai_promql = (\<lambda>_. Inl ''no client''), ai_events = (\<lambda>_. Inl ''no client'')\<rparr>"

text \<open>A project with a rule on a check and one on Kubernetes events; its check alert is suppressed after the pass.\<close>

definition demo_rules_db :: DB where
  "demo_rules_db = snd (snd (CreateAlertingRule demo_env ''p1'' ((demo_rule ''kubernetes_events'' 0)\<lparr>r_Id := ''r2''\<rparr>)
     (snd (snd (CreateAlertingRule demo_env ''p1'' (demo_rule ''check'' 0) empty_db)))))"

definition demo_pass :: "Alerts \<times> DB" where
  "demo_pass = Alerts_Check demo_env demo_inputs demo_project demo_world 0 3600 (NewAlerts, demo_rules_db)"

theorem reachable_one_unresolved_witness:
  "count_rows (unresolved_key ''p1'' ''r1'' (check_fingerprint demo_env (demo_rule ''check'' 0) demo_app)) (db_alerts (snd demo_pass)) \<le> 1"
proof -
  let ?K = "{(''p1'', ''r1'')}"
  let ?d1 = "snd (snd (CreateAlertingRule demo_env ''p1'' (demo_rule ''check'' 0) empty_db))"
  have "lookup_rules ?K (p_Id demo_project) empty_db" by (simp add: lookup_rules_def empty_db_def)
  then have "lookup_rules ?K (p_Id demo_project) demo_rules_db"
    unfolding demo_rules_db_def
    by (intro create_rule_lookup) (simp_all add: by_lookup_def demo_rule_def source_type_defs)
  then have last: "system_step demo_env ?K (NewAlerts, demo_rules_db) demo_pass"
    unfolding demo_pass_def by (rule system_step.check)
  have "system_step demo_env ?K (NewAlerts, empty_db) (NewAlerts, ?d1)"
    "system_step demo_env ?K (NewAlerts, ?d1) (NewAlerts, demo_rules_db)"
    unfolding demo_rules_db_def by (rule system_step.create_rule)+
  with last have "(system_step demo_env ?K)\<^sup>*\<^sup>* (NewAlerts, empty_db) demo_pass"
    by (blast intro: rtranclp.rtrancl_refl rtranclp.rtrancl_into_rtrancl)
  then have "(system_step demo_env ?K)\<^sup>*\<^sup>* (NewAlerts, empty_db) (fst demo_pass, snd demo_pass)" by simp
  from reachable_one_unresolved [OF this alerts_ok_empty demo_clock] show ?thesis by simp
qed

text \<open>
  C2. A check creates an alert only while it fails, only when the failure has lasted for the rule's
  \<^verbatim>\<open>For\<close> and only when the application has no unresolved or suppressed alert of the rule; it
  then adds exactly one row, firing, with the rule's severity and the check's message.
\<close>

theorem check_alert_only_when_due:
  assumes "length (db_alerts (snd (evaluateCheckAlert e p rule app check report now (w, d)))) > length (db_alerts d)"
  shows "ch_Status check > OK \<and> due rule (check_fingerprint e rule app) now w \<and>
    (\<forall>r\<in>set (db_alerts d). \<not> open_row (p_Id p) (check_fingerprint e rule app) r) \<and>
    (\<exists>row. db_alerts (snd (evaluateCheckAlert e p rule app check report now (w, d))) = db_alerts d @ [row] \<and>
           check_row e p rule app check row)"
  using assms by (rule check_creates_only_when_due)

lemma demo_creates:
  "\<exists>row. db_alerts (snd (evaluateCheckAlert demo_env demo_project (demo_rule ''check'' 0) demo_app (demo_check WARNING)
     ''CPU'' 1000 (NewAlerts, empty_db))) = db_alerts empty_db @ [row] \<and>
     check_row demo_env demo_project (demo_rule ''check'' 0) demo_app (demo_check WARNING) row"
  by (rule check_creates_when_due) (simp_all add: empty_db_def due_def demo_rule_def demo_check_def less_Status_def)

theorem check_alert_only_when_due_witness:
  "due (demo_rule ''check'' 0) (check_fingerprint demo_env (demo_rule ''check'' 0) demo_app) 1000 NewAlerts"
proof -
  have "length (db_alerts (snd (evaluateCheckAlert demo_env demo_project (demo_rule ''check'' 0) demo_app (demo_check WARNING)
     ''CPU'' 1000 (NewAlerts, empty_db)))) > length (db_alerts empty_db)"
    using demo_creates by auto
  from check_alert_only_when_due [OF this] show ?thesis by simp
qed

text \<open>
  C3. When no statement fails, a check that fails and has been failing for the rule's \<^verbatim>\<open>For\<close> gets
  its alert, unless the application already has one of the rule that is unresolved or suppressed.
\<close>

theorem check_alert_fires_when_due:
  assumes "reliable e" "ch_Status check > OK" "due rule (check_fingerprint e rule app) now w"
    and "env_nano e (db_ids d) \<notin> al_id ` set (db_alerts d)"
    and "\<forall>r\<in>set (db_alerts d). \<not> open_row (p_Id p) (check_fingerprint e rule app) r"
  shows "\<exists>row. db_alerts (snd (evaluateCheckAlert e p rule app check report now (w, d))) = db_alerts d @ [row] \<and>
           check_row e p rule app check row"
  using assms by (rule check_creates_when_due)

theorem check_alert_fires_when_due_witness:
  "\<exists>row. db_alerts (snd (evaluateCheckAlert demo_env demo_project (demo_rule ''check'' 60) demo_app (demo_check CRITICAL)
     ''CPU'' 1000 (NewAlerts\<lparr>wa_pendingAlerts := (\<lambda>_. Some 940)\<rparr>, empty_db))) = [row] \<and>
     check_row demo_env demo_project (demo_rule ''check'' 60) demo_app (demo_check CRITICAL) row"
  using check_alert_fires_when_due [of demo_env "demo_check CRITICAL" "demo_rule ''check'' 60" demo_app 1000
      "NewAlerts\<lparr>wa_pendingAlerts := (\<lambda>_. Some 940)\<rparr>" empty_db demo_project "''CPU''"]
  by (simp add: empty_db_def due_def demo_rule_def demo_check_def less_Status_def)

text \<open>
  C4. When no statement fails, a check that does not fail any more resolves the unresolved alert of the
  rule for the application at the time of the pass, and changes no other alert, provided the alert can be
  scanned, is not suppressed, and the rule's \<^verbatim>\<open>KeepFiringFor\<close> has passed since its last update.
\<close>

theorem check_alert_resolved:
  assumes "alerts_ok {(p_Id p, r_Id rule)} d" "reliable e" "\<not> ch_Status check > OK"
    and "\<forall>r\<in>set (db_alerts d). open_row (p_Id p) (check_fingerprint e rule app) r \<longrightarrow>
       al_rule_id r = r_Id rule \<and> \<not> al_suppressed r \<and> scanAlert r (p_Id p) \<noteq> None \<and>
       (r_KeepFiringFor rule \<le> 0 \<or> now - al_updated_at r \<ge> r_KeepFiringFor rule)"
  shows "db_alerts (snd (evaluateCheckAlert e p rule app check report now (w, d))) =
    map (\<lambda>r. if al_project_id r = p_Id p \<and> al_fingerprint r = check_fingerprint e rule app \<and> al_resolved_at r = 0
              then r\<lparr>al_resolved_at := now, al_updated_at := now\<rparr> else r) (db_alerts d)"
proof -
  have "open_row (p_Id p) (check_fingerprint e rule app) r \<longleftrightarrow>
      al_project_id r = p_Id p \<and> al_fingerprint r = check_fingerprint e rule app \<and> al_resolved_at r = 0"
    if "r \<in> set (db_alerts d)" for r
    using assms(4) that by (auto simp: open_row_def)
  then show ?thesis unfolding check_resolves [OF assms] by (intro map_cong) simp_all
qed

definition demo_alert :: Alert where
  "demo_alert = (check_alert demo_env demo_project (demo_rule ''check'' 0) demo_app (demo_check WARNING) ''CPU'')\<lparr>a_Id := ''a1''\<rparr>"

definition demo_alert_db :: DB where
  "demo_alert_db = empty_db\<lparr>db_alerts := [alert_row ''p1'' demo_alert]\<rparr>"

lemma demo_id_scan: "ApplicationId_Scan (Some (ApplicationId_String (app_Id demo_app))) = Some (app_Id demo_app)"
  by (simp add: ApplicationId_Scan_def NewApplicationIdFromString_def SplitN_ApplicationId_String demo_app_def
      ApplicationKindExternalService_def Let_def)

lemma demo_row_scans: "scanAlert (alert_row ''p1'' demo_alert) ''p1'' \<noteq> None"
  using demo_id_scan by (simp add: scanAlert_def alert_row_def demo_alert_def check_alert_def)

lemma demo_alert_db_ok: "alerts_ok K demo_alert_db"
  by (simp add: alerts_ok_def one_unresolved_def ids_distinct_def demo_alert_db_def)

theorem check_alert_resolved_witness:
  "map al_resolved_at (db_alerts (snd (evaluateCheckAlert demo_env demo_project (demo_rule ''check'' 0) demo_app (demo_check OK)
        ''CPU'' 1000 (NewAlerts, demo_alert_db)))) = [1000]"
proof -
  have "\<forall>r\<in>set (db_alerts demo_alert_db). open_row (p_Id demo_project) (check_fingerprint demo_env (demo_rule ''check'' 0) demo_app) r \<longrightarrow>
       al_rule_id r = r_Id (demo_rule ''check'' 0) \<and> \<not> al_suppressed r \<and> scanAlert r (p_Id demo_project) \<noteq> None \<and>
       (r_KeepFiringFor (demo_rule ''check'' 0) \<le> 0 \<or> 1000 - al_updated_at r \<ge> r_KeepFiringFor (demo_rule ''check'' 0))"
    using demo_row_scans
    by (simp add: demo_alert_db_def demo_project_def demo_alert_def check_alert_def alert_row_def demo_rule_def zero_alert_def)
  from check_alert_resolved [where now = 1000 and check = "demo_check OK" and report = "''CPU''" and w = NewAlerts,
      OF demo_alert_db_ok reliable_demo_env _ this]
  show ?thesis
    by (simp add: demo_check_def demo_project_def demo_alert_db_def alert_row_def demo_alert_def check_alert_def zero_alert_def
        check_fingerprint_def)
qed

text \<open>
  C37. A rule whose \<^verbatim>\<open>For\<close> exceeds half an hour by more than the time between two passes never
  creates an alert from a check: every pass ends by forgetting the fingerprints that have been pending for
  more than half an hour.
\<close>

theorem long_delay_never_fires:
  assumes "r_For rule > 30 * Minute + (now - prev)" "prev \<le> now"
  shows "length (db_alerts (snd (evaluateCheckAlert e p rule app check report now (cleanupPendingAlerts prev w, d)))) \<le> length (db_alerts d)"
proof (rule ccontr)
  assume "\<not> ?thesis"
  then have "due rule (check_fingerprint e rule app) now (cleanupPendingAlerts prev w)"
    using check_creates_only_when_due [of d e p rule app check report now "cleanupPendingAlerts prev w"] by simp
  then show False
    using assms by (auto simp: due_def cleanupPendingAlerts_def duration_defs split: option.splits if_splits)
qed

theorem long_delay_never_fires_witness:
  "length (db_alerts (snd (evaluateCheckAlert demo_env demo_project (demo_rule ''check'' 3600) demo_app (demo_check CRITICAL)
     ''CPU'' 7230 (cleanupPendingAlerts 7200 NewAlerts, empty_db)))) \<le> length (db_alerts empty_db)"
  by (rule long_delay_never_fires) (simp_all add: demo_rule_def duration_defs)

text \<open>
  C5. When no statement fails and its unresolved alerts can be scanned, looking at a rule resolves exactly
  those of its unresolved alerts that it does not keep, and changes nothing else: it keeps an alert while it
  is enabled, its selector matches the alert, and the alert's application exists or the alert has none. So
  disabling a rule, narrowing its selector or removing an application resolves the alerts concerned, and
  no others.
\<close>

theorem non_matching_alerts_resolved:
  assumes "reliable e" "ids_distinct d"
    and scans: "\<forall>r\<in>set (db_alerts d). unresolved_row (p_Id p) (r_Id rule) r \<longrightarrow> scanAlert r (p_Id p) \<noteq> None"
  shows "db_alerts (resolveNonMatchingAlerts e p rule world now d) =
    map (\<lambda>r. if al_project_id r = p_Id p \<and> al_rule_id r = r_Id rule \<and> al_resolved_at r = 0 \<and>
                 \<not> (\<exists>a. scanAlert r (p_Id p) = Some a \<and> r_Enabled rule \<and> MatchesAlert rule a \<and>
                     (ApplicationId_IsZero (a_ApplicationId a) \<or> GetApplication world (a_ApplicationId a) \<noteq> None))
              then r\<lparr>al_resolved_at := now, al_updated_at := now\<rparr> else r) (db_alerts d)"
proof -
  obtain as where as: "GetLatestAlertsByRule e (p_Id p) (r_Id rule) d = (Inr as, d\<lparr>db_stmts := Suc (db_stmts d)\<rparr>)"
      "set as = {a. \<exists>r\<in>set (db_alerts d). unresolved_row (p_Id p) (r_Id rule) r \<and> scanAlert r (p_Id p) = Some a}"
    using GetLatest_reliable [OF assms(1) scans] by blast
  let ?P = "\<lambda>r. al_project_id r = p_Id p \<and> al_id r \<in> a_Id ` {a \<in> set as. \<not> keeps_alert rule world a}"
  have rows: "db_alerts (resolveNonMatchingAlerts e p rule world now d) = update_rows ?P (resolve_row now) (db_alerts d)"
    using as(1) resolve_fold_alerts [OF assms(1)] by (simp add: resolveNonMatchingAlerts_def)
  have "?P s \<longleftrightarrow> unresolved_row (p_Id p) (r_Id rule) s \<and> \<not> (\<exists>a. scanAlert s (p_Id p) = Some a \<and> keeps_alert rule world a)"
    if s: "s \<in> set (db_alerts d)" for s
  proof
    assume "?P s"
    then obtain a r where a: "al_id s = a_Id a" "\<not> keeps_alert rule world a" "r \<in> set (db_alerts d)"
        "unresolved_row (p_Id p) (r_Id rule) r" "scanAlert r (p_Id p) = Some a"
      using as(2) by auto
    then have "s = r" using row_by_id [OF assms(2) s a(3)] scanAlert_fields [OF a(5)] by simp
    then show "unresolved_row (p_Id p) (r_Id rule) s \<and> \<not> (\<exists>a. scanAlert s (p_Id p) = Some a \<and> keeps_alert rule world a)"
      using a by simp
  next
    assume u: "unresolved_row (p_Id p) (r_Id rule) s \<and> \<not> (\<exists>a. scanAlert s (p_Id p) = Some a \<and> keeps_alert rule world a)"
    then obtain a where a: "scanAlert s (p_Id p) = Some a" using s scans by blast
    with u s as(2) have "a \<in> {a \<in> set as. \<not> keeps_alert rule world a}" by blast
    then have "a_Id a \<in> a_Id ` {a \<in> set as. \<not> keeps_alert rule world a}" by (rule imageI)
    then show "?P s" using scanAlert_fields [OF a] u by (simp add: unresolved_row_def)
  qed
  then show ?thesis
    unfolding rows update_rows_def unresolved_row_def keeps_alert_def by (intro map_cong) auto
qed

theorem non_matching_alerts_resolved_witness:
  "map al_resolved_at (db_alerts (resolveNonMatchingAlerts demo_env demo_project ((demo_rule ''check'' 0)\<lparr>r_Enabled := False\<rparr>)
        demo_world 1000 demo_alert_db)) = [1000]"
proof -
  let ?rule = "(demo_rule ''check'' 0)\<lparr>r_Enabled := False\<rparr>"
  have "\<forall>r\<in>set (db_alerts demo_alert_db). unresolved_row (p_Id demo_project) (r_Id ?rule) r \<longrightarrow> scanAlert r (p_Id demo_project) \<noteq> None"
    using demo_row_scans by (simp add: demo_alert_db_def demo_project_def)
  from non_matching_alerts_resolved [OF reliable_demo_env _ this, of demo_world 1000]
  show ?thesis
    by (simp add: demo_rule_def demo_project_def demo_alert_db_def alert_row_def demo_alert_def check_alert_def zero_alert_def
        ids_distinct_def)
qed

text \<open>
  A fingerprint does not depend on the order in which the labels of a series are enumerated, so the
  same series meets its alert again.
\<close>

theorem calcFingerprint_label_order:
  assumes "mset labels' = mset labels" "distinct (map fst labels)"
  shows "calcFingerprint e ruleId appId labels' = calcFingerprint e ruleId appId labels"
proof -
  have "distinct (map fst labels')" using assms by (metis mset_map mset_eq_imp_distinct_iff)
  then have "map_of labels' = map_of labels"
    using assms by (intro map_of_eqI) (auto simp: dest: mset_eq_setD) 
  moreover have "sort_Strings (map fst labels') = sort_Strings (map fst labels)"
    using assms(1) by (intro sort_Strings_perm) simp
  ultimately show ?thesis by (simp add: calcFingerprint_def)
qed

text \<open>
  The fingerprint of a node-level event does not name the cluster, though the events are grouped by
  cluster: two clusters of one project with the same reason in one pass get two unresolved alerts with the
  same fingerprint.
\<close>

theorem node_events_duplicate:
  assumes "reliable e" "g_nodeLevel g1" "g_nodeLevel g2" "g_reason g1 = g_reason g2"
    and "minCount \<le> int (length (g_events g1))" "minCount \<le> int (length (g_events g2))"
    and "by_fingerprint (ls_alerts st) (k8s_fingerprint e rule g1) = None"
    and "env_nano e (db_ids (ls_db st)) \<notin> al_id ` set (db_alerts (ls_db st))"
    and "env_nano e (Suc (db_ids (ls_db st))) \<notin> insert (env_nano e (db_ids (ls_db st))) (al_id ` set (db_alerts (ls_db st)))"
  shows "count_rows (unresolved_key (p_Id p) (r_Id rule) (k8s_fingerprint e rule g1))
     (db_alerts (ls_db (fold (k8s_step e ev p rule src minCount maxAlerts window now) [g1, g2] st))) \<ge> 2"
proof -
  let ?k = "k8s_step e ev p rule src minCount maxAlerts window now"
  have fp: "k8s_fingerprint e rule g2 = k8s_fingerprint e rule g1" using assms(2-4) by (simp add: k8s_fingerprint_def)
  have step: "\<exists>row. db_alerts (ls_db (?k g st)) = db_alerts (ls_db st) @ [row] \<and>
      unresolved_key (p_Id p) (r_Id rule) (k8s_fingerprint e rule g) row \<and> al_id row = env_nano e (db_ids (ls_db st)) \<and>
      ls_alerts (?k g st) = ls_alerts st \<and> db_ids (ls_db (?k g st)) = Suc (db_ids (ls_db st))"
    if "g_nodeLevel g" "minCount \<le> int (length (g_events g))" "by_fingerprint (ls_alerts st) (k8s_fingerprint e rule g) = None"
      "env_nano e (db_ids (ls_db st)) \<notin> al_id ` set (db_alerts (ls_db st))" for g st
    using that k8s_create_new [OF assms(1), of "st\<lparr>ls_active := k8s_fingerprint e rule g # ls_active st\<rparr>"]
    by (auto simp: k8s_step_def Let_def)
  obtain r1 where r1: "db_alerts (ls_db (?k g1 st)) = db_alerts (ls_db st) @ [r1]"
      "unresolved_key (p_Id p) (r_Id rule) (k8s_fingerprint e rule g1) r1" "al_id r1 = env_nano e (db_ids (ls_db st))"
      "ls_alerts (?k g1 st) = ls_alerts st" "db_ids (ls_db (?k g1 st)) = Suc (db_ids (ls_db st))"
    using step [of g1 st] assms by blast
  obtain r2 where "db_alerts (ls_db (?k g2 (?k g1 st))) = db_alerts (ls_db (?k g1 st)) @ [r2]"
      "unresolved_key (p_Id p) (r_Id rule) (k8s_fingerprint e rule g1) r2"
    using step [of g2 "?k g1 st"] assms r1 fp by auto
  then show ?thesis using r1 by (simp add: count_rows_def)
qed

definition node_event :: "string \<Rightarrow> LogEntry" where
  "node_event cluster = \<lparr>le_Body = ''node is not ready'', le_ClusterId = cluster, le_ClusterName = cluster,
     le_LogAttributes = [(''source.component'', ''node-controller''), (''event.reason'', ''NodeNotReady'')]\<rparr>"

definition node_group :: "string \<Rightarrow> eventGroup" where
  "node_group c = (snd (event_group demo_world (node_event c)))\<lparr>g_events := [node_event c]\<rparr>"

end
