(* ===== verification/IncidentStore.thy ===== *)
theory IncidentStore
  imports AlertNotifier
begin

text \<open>
  Incidents in the database (\<^verbatim>\<open>db/incident.go\<close>). A row is open while its \<^verbatim>\<open>resolved_at\<close> is zero.
  The table has the unique keys of its migration: project and key, and project, application and opening
  time. Of an \<^verbatim>\<open>RCA\<close> the model keeps the fields that the program reads back.
\<close>

subsection \<open>Reading incidents\<close>

definition effectiveRCAStatus :: "string \<Rightarrow> string \<Rightarrow> string" where
  "effectiveRCAStatus status rootCause = (if status = [] \<and> rootCause \<noteq> [] then ''OK'' else status)"

text \<open>An id stored before clusters had ids gets the project's.\<close>

definition with_cluster :: "ProjectId \<Rightarrow> ApplicationId \<Rightarrow> ApplicationId" where
  "with_cluster projectId i = (if ClusterId i = [] then i\<lparr>ClusterId := projectId\<rparr> else i)"

definition scanIncident :: "ProjectId \<Rightarrow> IncidentRow \<Rightarrow> ApplicationIncident option" where
  "scanIncident projectId r =
     map_option (\<lambda>i.
       \<lparr>i_ApplicationId = with_cluster projectId i, i_Key = ir_key r, i_OpenedAt = ir_opened_at r,
        i_ResolvedAt = ir_resolved_at r, i_Severity = ir_severity r, i_Details = ir_details r, i_RCA = ir_rca r\<rparr>)
     (ApplicationId_Scan (Some (ir_application_id r)))"

text \<open>The brief queries do not read the RCA.\<close>

definition scan_brief :: "ProjectId \<Rightarrow> IncidentRow \<Rightarrow> ApplicationIncident option" where
  "scan_brief projectId r = map_option (\<lambda>i. i\<lparr>i_RCA := None\<rparr>) (scanIncident projectId r)"

definition scan_incidents :: "(IncidentRow \<Rightarrow> ApplicationIncident option) \<Rightarrow> IncidentRow list \<Rightarrow> ApplicationIncident list option" where
  "scan_incidents scan rows = those (map scan rows)"

definition GetIncidentByKey :: "Env \<Rightarrow> ProjectId \<Rightarrow> string \<Rightarrow> DB \<Rightarrow> ApplicationIncident result" where
  "GetIncidentByKey e projectId key =
     sql e (\<lambda>d. (case filter (\<lambda>r. ir_project_id r = projectId \<and> ir_key r = key) (db_incidents d) of
                   [] \<Rightarrow> Inl ErrNotFound
                 | r # _ \<Rightarrow> (case scanIncident projectId r of None \<Rightarrow> Inl ErrScan | Some i \<Rightarrow> Inr i), d))"

text \<open>\<^verbatim>\<open>ORDER BY (resolved_at = 0) DESC, opened_at DESC\<close>\<close>

definition open_first :: "IncidentRow \<Rightarrow> IncidentRow \<Rightarrow> bool" where
  "open_first r s =
     (if (ir_resolved_at r = 0) \<noteq> (ir_resolved_at s = 0) then ir_resolved_at r = 0
      else ir_opened_at s \<le> ir_opened_at r)"

definition latest_rows :: "ProjectId \<Rightarrow> nat \<Rightarrow> DB \<Rightarrow> IncidentRow list" where
  "latest_rows projectId limit d =
     take limit (sort_by open_first (filter (\<lambda>r. ir_project_id r = projectId) (db_incidents d)))"

definition GetLatestIncidentsBrief :: "Env \<Rightarrow> ProjectId \<Rightarrow> nat \<Rightarrow> DB \<Rightarrow> ApplicationIncident list result" where
  "GetLatestIncidentsBrief e projectId limit =
     query e (\<lambda>d. scan_incidents (scan_brief projectId) (latest_rows projectId limit d))"

text \<open>The RCA of a listed incident comes from its two columns, when they are not NULL.\<close>

definition scan_listed :: "ProjectId \<Rightarrow> IncidentRow \<Rightarrow> (ApplicationIncident \<times> bool) option" where
  "scan_listed projectId r =
     (let status = (case ir_rca_status r of None \<Rightarrow> [] | Some s \<Rightarrow> s);
          summary = (case ir_rca_summary r of None \<Rightarrow> [] | Some s \<Rightarrow> s);
          has = (ir_rca_status r \<noteq> None \<or> ir_rca_summary r \<noteq> None)
      in map_option (\<lambda>i. (i\<lparr>i_RCA := (if has \<and> (status \<noteq> [] \<or> summary \<noteq> [])
                then Some \<lparr>rca_Status = status, rca_ShortSummary = summary, rca_RootCause = [], rca_ImmediateFixes = []\<rparr>
                else None)\<rparr>, \<not> has))
           (scanIncident projectId r))"

definition getIncidentRCAByKeys :: "Env \<Rightarrow> ProjectId \<Rightarrow> string list \<Rightarrow> DB \<Rightarrow> (string \<rightharpoonup> RCA) result" where
  "getIncidentRCAByKeys e projectId keys =
     query e (\<lambda>d. Some (map_of (rev (concat (map (\<lambda>r. case ir_rca r of None \<Rightarrow> [] | Some rca \<Rightarrow> [(ir_key r, rca)])
       (filter (\<lambda>r. ir_project_id r = projectId \<and> ir_key r \<in> set keys) (db_incidents d)))))))"

definition GetIncidentsForList :: "Env \<Rightarrow> ProjectId \<Rightarrow> nat \<Rightarrow> DB \<Rightarrow> ApplicationIncident list result" where
  "GetIncidentsForList e projectId limit d =
     (case query e (\<lambda>d. those (map (scan_listed projectId) (latest_rows projectId limit d))) d of
        (Inl err, d1) \<Rightarrow> (Inl err, d1)
      | (Inr listed, d1) \<Rightarrow>
          (let res = map fst listed; missing = map (i_Key \<circ> fst) (filter snd listed) in
           if length missing > 0
           then (case getIncidentRCAByKeys e projectId missing d1 of
                   (Inl err, d2) \<Rightarrow> (Inl err, d2)
                 | (Inr rcaByKey, d2) \<Rightarrow>
                     (Inr (map (\<lambda>i. case rcaByKey (i_Key i) of
                          None \<Rightarrow> i
                        | Some rca \<Rightarrow> i\<lparr>i_RCA := Some \<lparr>rca_Status = effectiveRCAStatus (rca_Status rca) (rca_RootCause rca),
                            rca_ShortSummary = rca_ShortSummary rca, rca_RootCause = [], rca_ImmediateFixes = []\<rparr>\<rparr>) res), d2))
           else (Inr res, d1)))"

definition GetApplicationIncidents :: "Env \<Rightarrow> ProjectId \<Rightarrow> Time \<Rightarrow> Time \<Rightarrow> DB \<Rightarrow> (ApplicationId \<Rightarrow> ApplicationIncident list) result" where
  "GetApplicationIncidents e projectId tFrom tTo =
     query e (\<lambda>d. map_option (\<lambda>is appId. filter (\<lambda>i. i_ApplicationId i = appId) is)
       (scan_incidents (scan_brief projectId)
         (sort_by (\<lambda>r s. ir_opened_at r \<le> ir_opened_at s)
           (filter (\<lambda>r. ir_project_id r = projectId \<and> ir_opened_at r \<le> tTo \<and>
                        (ir_resolved_at r = 0 \<or> ir_resolved_at r \<ge> tFrom)) (db_incidents d)))))"

definition GetOpenIncidents :: "Env \<Rightarrow> ProjectId \<Rightarrow> DB \<Rightarrow> ApplicationIncident list result" where
  "GetOpenIncidents e projectId =
     query e (\<lambda>d. scan_incidents (scanIncident projectId)
       (filter (\<lambda>r. ir_project_id r = projectId \<and> ir_resolved_at r = 0) (db_incidents d)))"

definition open_incident_row :: "ProjectId \<Rightarrow> ApplicationId \<Rightarrow> IncidentRow \<Rightarrow> bool" where
  "open_incident_row projectId appId r \<longleftrightarrow>
     ir_project_id r = projectId \<and>
     (ir_application_id r = ApplicationId_String appId \<or> ir_application_id r = StringWithoutClusterId appId) \<and>
     ir_resolved_at r = 0"

definition GetLastOpenIncident :: "Env \<Rightarrow> ProjectId \<Rightarrow> ApplicationId \<Rightarrow> DB \<Rightarrow> ApplicationIncident option result" where
  "GetLastOpenIncident e projectId appId =
     query e (\<lambda>d. Some
       (case sort_by (\<lambda>r s. ir_opened_at s \<le> ir_opened_at r) (filter (open_incident_row projectId appId) (db_incidents d)) of
          [] \<Rightarrow> None
        | r # _ \<Rightarrow> Some \<lparr>i_ApplicationId = appId, i_Key = ir_key r, i_OpenedAt = ir_opened_at r,
             i_ResolvedAt = ir_resolved_at r, i_Severity = ir_severity r, i_Details = ir_details r, i_RCA = ir_rca r\<rparr>))"

subsection \<open>Writing incidents\<close>

definition incident_row :: "ProjectId \<Rightarrow> ApplicationId \<Rightarrow> ApplicationIncident \<Rightarrow> IncidentRow" where
  "incident_row projectId appId i =
     \<lparr>ir_project_id = projectId, ir_application_id = ApplicationId_String appId, ir_key = i_Key i,
      ir_opened_at = i_OpenedAt i, ir_resolved_at = 0, ir_severity = i_Severity i, ir_details = i_Details i,
      ir_rca = None, ir_rca_status = Some [], ir_rca_summary = Some []\<rparr>"

definition clashes :: "IncidentRow \<Rightarrow> IncidentRow \<Rightarrow> bool" where
  "clashes r s \<longleftrightarrow> ir_project_id r = ir_project_id s \<and>
     (ir_key r = ir_key s \<or> ir_application_id r = ir_application_id s \<and> ir_opened_at r = ir_opened_at s)"

definition CreateIncident :: "Env \<Rightarrow> ProjectId \<Rightarrow> ApplicationId \<Rightarrow> ApplicationIncident \<Rightarrow> DB \<Rightarrow> unit result" where
  "CreateIncident e projectId appId i =
     sql e (\<lambda>d. if list_ex (\<lambda>r. clashes r (incident_row projectId appId i)) (db_incidents d) then (Inl ErrUnique, d)
                else (Inr (), d\<lparr>db_incidents := db_incidents d @ [incident_row projectId appId i]\<rparr>))"

definition UpdateIncident :: "Env \<Rightarrow> ProjectId \<Rightarrow> string \<Rightarrow> Status \<Rightarrow> IncidentDetails \<Rightarrow> DB \<Rightarrow> unit result" where
  "UpdateIncident e projectId key severity details =
     exec_sql e (\<lambda>d. d\<lparr>db_incidents :=
       update_rows (\<lambda>r. ir_project_id r = projectId \<and> ir_key r = key)
         (\<lambda>r. r\<lparr>ir_severity := severity, ir_details := details\<rparr>) (db_incidents d)\<rparr>)"

text \<open>The incident with its new RCA is returned beside the result.\<close>

definition UpdateIncidentRCA :: "Env \<Rightarrow> ProjectId \<Rightarrow> ApplicationIncident \<Rightarrow> RCA \<Rightarrow> DB \<Rightarrow> ApplicationIncident \<times> unit result" where
  "UpdateIncidentRCA e projectId i rca d =
     (i\<lparr>i_RCA := Some rca\<rparr>,
      exec_sql e (\<lambda>d. d\<lparr>db_incidents :=
        update_rows (\<lambda>r. ir_project_id r = projectId \<and> ir_key r = i_Key i)
          (\<lambda>r. r\<lparr>ir_rca := Some rca, ir_rca_status := Some (effectiveRCAStatus (rca_Status rca) (rca_RootCause rca)),
                 ir_rca_summary := Some (rca_ShortSummary rca)\<rparr>) (db_incidents d)\<rparr>) d)"

definition ResolveIncident :: "Env \<Rightarrow> ProjectId \<Rightarrow> ApplicationIncident \<Rightarrow> DB \<Rightarrow> unit result" where
  "ResolveIncident e projectId i =
     exec_sql e (\<lambda>d. d\<lparr>db_incidents :=
       update_rows (\<lambda>r. ir_project_id r = projectId \<and> ir_key r = i_Key i)
         (\<lambda>r. r\<lparr>ir_resolved_at := i_ResolvedAt i\<rparr>) (db_incidents d)\<rparr>)"

subsection \<open>Notifications of incidents\<close>

definition PutIncidentNotification :: "Env \<Rightarrow> IncidentNotification \<Rightarrow> DB \<Rightarrow> DB" where
  "PutIncidentNotification e n d =
     snd (exec_sql e (\<lambda>d. d\<lparr>db_incident_notifications := db_incident_notifications d @
       [\<lparr>inr_project_id = in_ProjectId n, inr_application_id = ApplicationId_Value (in_ApplicationId n),
         inr_incident_key = in_IncidentKey n, inr_status = in_Status n,
         inr_destination = Destination_Value (in_Destination n), inr_timestamp = in_Timestamp n,
         inr_sent_at = 0, inr_external_key = in_ExternalKey n, inr_details = in_Details n\<rparr>]\<rparr>) d)"

definition UpdateIncidentNotification :: "Env \<Rightarrow> IncidentNotification \<Rightarrow> DB \<Rightarrow> unit result" where
  "UpdateIncidentNotification e n =
     exec_sql e (\<lambda>d. d\<lparr>db_incident_notifications :=
       update_rows (\<lambda>r. inr_project_id r = in_ProjectId n \<and> inr_incident_key r = in_IncidentKey n \<and>
                        inr_timestamp r = in_Timestamp n \<and> inr_destination r = Destination_Value (in_Destination n))
         (\<lambda>r. r\<lparr>inr_sent_at := in_SentAt n, inr_external_key := in_ExternalKey n\<rparr>)
         (db_incident_notifications d)\<rparr>)"

definition scan_incident_notification :: "IncidentNotificationRow \<Rightarrow> IncidentNotification option" where
  "scan_incident_notification r =
     map_option (\<lambda>i.
       \<lparr>in_ProjectId = inr_project_id r, in_ApplicationId = with_cluster (inr_project_id r) i,
        in_IncidentKey = inr_incident_key r, in_Status = inr_status r,
        in_Destination = Destination_Scan (inr_destination r), in_Timestamp = inr_timestamp r, in_SentAt = 0,
        in_ExternalKey = inr_external_key r, in_Details = inr_details r\<rparr>)
     (ApplicationId_Scan (Some (inr_application_id r)))"

definition scan_incident_notifications :: "IncidentNotificationRow list \<Rightarrow> IncidentNotification list option" where
  "scan_incident_notifications rows = those (map scan_incident_notification rows)"

text \<open>\<^verbatim>\<open>ORDER BY project_id, application_id, incident_key, timestamp\<close>\<close>

definition incident_send_order :: "IncidentNotificationRow \<Rightarrow> IncidentNotificationRow \<Rightarrow> bool" where
  "incident_send_order r s =
     (if inr_project_id r \<noteq> inr_project_id s then string_le (inr_project_id r) (inr_project_id s)
      else if inr_application_id r \<noteq> inr_application_id s then string_le (inr_application_id r) (inr_application_id s)
      else if inr_incident_key r \<noteq> inr_incident_key s then string_le (inr_incident_key r) (inr_incident_key s)
      else inr_timestamp r \<le> inr_timestamp s)"

definition GetNotSentIncidentNotifications :: "Env \<Rightarrow> Time \<Rightarrow> DB \<Rightarrow> IncidentNotification list result" where
  "GetNotSentIncidentNotifications e f =
     query e (\<lambda>d. scan_incident_notifications
       (sort_by incident_send_order
         (filter (\<lambda>r. inr_timestamp r \<ge> f \<and> inr_sent_at r = 0) (db_incident_notifications d))))"

definition GetPreviousIncidentNotifications :: "Env \<Rightarrow> IncidentNotification \<Rightarrow> DB \<Rightarrow> IncidentNotification list result" where
  "GetPreviousIncidentNotifications e n =
     query e (\<lambda>d. scan_incident_notifications
       (sort_by (\<lambda>r s. inr_timestamp r \<le> inr_timestamp s)
         (filter (\<lambda>r. inr_project_id r = in_ProjectId n \<and> inr_incident_key r = in_IncidentKey n \<and>
                      inr_destination r = Destination_Value (in_Destination n) \<and> inr_timestamp r < in_Timestamp n)
           (db_incident_notifications d))))"

end
