(* ===== verification/IncidentNotifier.thy ===== *)
theory IncidentNotifier
  imports IncidentStore
begin

text \<open>
  The notifier of incidents (\<^verbatim>\<open>notifications/incidents.go\<close>) and the content of its messages
  (\<^verbatim>\<open>incidentDetails\<close> of \<^verbatim>\<open>notifications/notifications.go\<close>).
\<close>

subsection \<open>Sending\<close>

definition incident_thread_key :: "IncidentNotification \<Rightarrow> IncidentNotification list \<Rightarrow> IncidentNotification" where
  "incident_thread_key n prev =
     foldl (\<lambda>n pn. if in_ExternalKey pn \<noteq> [] then n\<lparr>in_ExternalKey := in_ExternalKey pn\<rparr> else n) n prev"

definition incident_load_thread :: "Env \<Rightarrow> IncidentNotification \<Rightarrow> DB \<Rightarrow> IncidentNotification \<times> DB" where
  "incident_load_thread e n d =
     (if d_IntegrationType (in_Destination n) = IntegrationTypeSlack
      then (case GetPreviousIncidentNotifications e n d of
              (Inl _, d1) \<Rightarrow> (n, d1) | (Inr prev, d1) \<Rightarrow> (incident_thread_key n prev, d1))
      else (n, d))"

definition incident_mark_sent :: "Env \<Rightarrow> IncidentNotification \<Rightarrow> DB \<Rightarrow> DB" where
  "incident_mark_sent e n d =
     (let (now, d1) = Now e d in snd (UpdateIncidentNotification e (n\<lparr>in_SentAt := now\<rparr>) d1))"

definition incident_send_one :: "Env \<Rightarrow> Project \<Rightarrow> IncidentNotification \<Rightarrow> DB \<Rightarrow> bool \<times> DB" where
  "incident_send_one e project n d =
     (case getClient (in_Destination n) (p_Integrations project) NotificationTypeIncident of
        None \<Rightarrow> (True, incident_mark_sent e n d)
      | Some client \<Rightarrow>
          (let (n1, d1) = incident_load_thread e n d
           in case env_send_incident e (length (db_trace d1)) client (in_BaseUrl (p_Integrations project)) n1 of
                Inl err \<Rightarrow> (False, d1\<lparr>db_trace := db_trace d1 @ [IncidentSend client n1 False]\<rparr>)
              | Inr key \<Rightarrow> (True, incident_mark_sent e (n1\<lparr>in_ExternalKey := key\<rparr>)
                             (d1\<lparr>db_trace := db_trace d1 @ [IncidentSend client n1 True]\<rparr>))))"

fun incident_send_loop :: "Env \<Rightarrow> Project list \<Rightarrow> (ProjectId \<times> Destination) list \<Rightarrow> IncidentNotification list \<Rightarrow> DB \<Rightarrow> DB" where
  "incident_send_loop e ps failed [] d = d"
| "incident_send_loop e ps failed (n # ns) d =
     (let dKey = (in_ProjectId n, in_Destination n) in
      if dKey \<in> set failed then incident_send_loop e ps failed ns d
      else
        (case filter (\<lambda>p. p_Id p = in_ProjectId n) ps of
           [] \<Rightarrow> incident_send_loop e ps failed ns d
         | project # _ \<Rightarrow>
             (let (ok, d1) = incident_send_one e project n d
              in incident_send_loop e ps (if ok then failed else dKey # failed) ns d1)))"

definition sendIncidents :: "Env \<Rightarrow> DB \<Rightarrow> DB" where
  "sendIncidents e d =
     (case GetProjects e d of
        (Inl _, d1) \<Rightarrow> d1
      | (Inr ps, d1) \<Rightarrow>
          if length ps = 0 then d1
          else
            (let (now, d2) = Now e d1
             in case GetNotSentIncidentNotifications e (now - retryWindow) d2 of
                  (Inl _, d3) \<Rightarrow> d3
                | (Inr ns, d3) \<Rightarrow> incident_send_loop e ps [] ns d3))"

definition IncidentNotifier_retry :: "Env \<Rightarrow> bool \<Rightarrow> DB \<Rightarrow> DB" where
  "IncidentNotifier_retry e primary d = (if \<not> primary then d else sendIncidents e d)"

subsection \<open>Queueing\<close>

definition incident_reports :: "Application \<Rightarrow> IncidentNotificationDetailsReport list" where
  "incident_reports app =
     concat (map (\<lambda>r. concat (map (\<lambda>ch.
         if rep_Name r = AuditReportSLO \<or> ch_Status ch < WARNING then []
         else [\<lparr>ndr_Name = rep_Name r, ndr_Check = ch_Title ch,
                ndr_Message = ch_Message ch @
                  (if StringSet_Len (ch_Details ch) > 0
                   then '' ('' @ strings_Join (StringSet_Items (ch_Details ch)) ''; '' @ '')'' else [])\<rparr>])
       (rep_Checks r))) (app_Reports app))"

definition incidentDetails :: "Application \<Rightarrow> ApplicationIncident \<Rightarrow> IncidentNotificationDetails option" where
  "incidentDetails app incident =
     (let reports = (if \<not> Resolved incident then incident_reports app else []) in
      if length reports = 0 \<and> i_RCA incident = None then None
      else
        (let details = \<lparr>ind_Reports = reports, ind_RCASummary = [], ind_RCARemediations = []\<rparr> in
         case i_RCA incident of
           Some rca \<Rightarrow> if rca_Status rca = ''OK''
             then Some (details\<lparr>ind_RCASummary := rca_ShortSummary rca, ind_RCARemediations := rca_ImmediateFixes rca\<rparr>)
             else Some details
         | None \<Rightarrow> Some details))"

definition IncidentNotifier_onOpen :: "Env \<Rightarrow> string \<Rightarrow> IncidentNotification \<Rightarrow> IncidentNotificationDetails option \<Rightarrow> DB \<Rightarrow> DB" where
  "IncidentNotifier_onOpen e externalKey n details =
     PutIncidentNotification e (n\<lparr>in_ExternalKey := externalKey, in_Details := details\<rparr>)"

definition IncidentNotifier_onResolve :: "Env \<Rightarrow> string \<Rightarrow> IncidentNotification \<Rightarrow> IncidentNotificationDetails option \<Rightarrow> DB \<Rightarrow> DB" where
  "IncidentNotifier_onResolve e externalKey n details =
     PutIncidentNotification e (n\<lparr>in_Status := OK, in_ExternalKey := externalKey, in_Details := details\<rparr>)"

text \<open>The keys of the open critical and the open warning notification, empty when there is none.\<close>

fun track_open :: "string \<times> string \<Rightarrow> IncidentNotification \<Rightarrow> string \<times> string" where
  "track_open (critical, warning) prev =
     (case in_Status prev of
        CRITICAL \<Rightarrow> (in_ExternalKey prev, warning)
      | WARNING \<Rightarrow> (critical, in_ExternalKey prev)
      | OK \<Rightarrow> (if warning = in_ExternalKey prev then (critical, [])
               else if critical = in_ExternalKey prev then ([], warning)
               else (critical, warning))
      | _ \<Rightarrow> (critical, warning))"

definition open_keys :: "IncidentNotification list \<Rightarrow> string \<times> string" where
  "open_keys prevs = foldl track_open ([], []) prevs"

definition getOpenIncidents :: "Env \<Rightarrow> IncidentNotification \<Rightarrow> DB \<Rightarrow> (string \<times> string) result" where
  "getOpenIncidents e n d =
     (case GetPreviousIncidentNotifications e n d of
        (Inl err, d1) \<Rightarrow> (Inl err, d1) | (Inr prevs, d1) \<Rightarrow> (Inr (open_keys prevs), d1))"

definition incident_external_key :: "Project \<Rightarrow> ApplicationIncident \<Rightarrow> string" where
  "incident_external_key project i = p_Id project @ '':'' @ i_Key i @ '':'' @ Status_String (i_Severity i)"

definition incident_enqueue :: "Env \<Rightarrow> Time \<Rightarrow> Project \<Rightarrow> Application \<Rightarrow> ApplicationIncident \<Rightarrow> Destination \<Rightarrow> DB \<Rightarrow> DB" where
  "incident_enqueue e now project app incident dst d =
     (let n = \<lparr>in_ProjectId = p_Id project, in_ApplicationId = app_Id app, in_IncidentKey = i_Key incident,
               in_Status = i_Severity incident, in_Destination = dst, in_Timestamp = now, in_SentAt = 0,
               in_ExternalKey = [], in_Details = None\<rparr>
      in if d_IntegrationType dst \<in> {IntegrationTypeSlack, IntegrationTypeTeams, IntegrationTypeWebhook}
         then (if Resolved incident then IncidentNotifier_onResolve e [] n (incidentDetails app incident) d
               else IncidentNotifier_onOpen e [] n (incidentDetails app incident) d)
         else if d_IntegrationType dst \<in> {IntegrationTypePagerduty, IntegrationTypeOpsgenie}
         then (case getOpenIncidents e n d of
                 (Inl _, d1) \<Rightarrow> d1
               | (Inr (critical, warning), d1) \<Rightarrow>
                   (let key = incident_external_key project incident;
                        close = (\<lambda>k d. if k \<noteq> [] then IncidentNotifier_onResolve e k n None d else d)
                    in if Resolved incident then close warning (close critical d1)
                       else if i_Severity incident = WARNING
                       then IncidentNotifier_onOpen e key n (incidentDetails app incident) (close critical d1)
                       else if i_Severity incident = CRITICAL
                       then IncidentNotifier_onOpen e key n (incidentDetails app incident) d1
                       else d1))
         else d)"

definition IncidentNotifier_Enqueue :: "Env \<Rightarrow> Project \<Rightarrow> Application \<Rightarrow> ApplicationIncident \<Rightarrow> Time \<Rightarrow> DB \<Rightarrow> DB" where
  "IncidentNotifier_Enqueue e project app incident now d =
     (case GetApplicationCategories project (app_Category app) of
        None \<Rightarrow> d
      | Some info \<Rightarrow>
          (let s = cn_Incidents (ci_NotificationSettings info)
           in if \<not> ns_Enabled s then d
              else sendIncidents e (fold (incident_enqueue e now project app incident) (destinations s) d)))"

subsection \<open>What the notifier keeps\<close>

lemma frame_PutIncident [keeps]: "notifier_frame d (PutIncidentNotification e n d)"
  by (simp add: notifier_frame_def PutIncidentNotification_def exec_sql_def sql_def Let_def)

lemma frame_incident_mark_sent [keeps]: "notifier_frame d (incident_mark_sent e n d)"
  by (simp add: notifier_frame_def incident_mark_sent_def UpdateIncidentNotification_def exec_sql_def sql_def Now_def Let_def)

lemma frame_incident_load_thread [keeps]: "notifier_frame d (snd (incident_load_thread e n d))"
  by (auto simp: incident_load_thread_def GetPreviousIncidentNotifications_def split: prod.splits sum.splits dest: frame_queryD)

lemma frame_incident_send_one [keeps]: "notifier_frame d (snd (incident_send_one e p n d))"
proof (cases "getClient (in_Destination n) (p_Integrations p) NotificationTypeIncident")
  case None
  then show ?thesis by (simp add: incident_send_one_def frame_incident_mark_sent)
next
  case (Some client)
  obtain n1 d1 where l: "incident_load_thread e n d = (n1, d1)" by force
  have f: "notifier_frame d d1" using frame_incident_load_thread [of d e n] by (simp add: l)
  then show ?thesis
    using Some by (auto simp: incident_send_one_def l frame_trace split: sum.splits
        intro: notifier_frame_trans [OF frame_trace [OF f] frame_incident_mark_sent])
qed

text \<open>The function that tries one notification, as the contract of a sending pass has it.\<close>

definition attempt_incident :: "Env \<Rightarrow> Project list \<Rightarrow> IncidentNotification \<Rightarrow> DB \<Rightarrow> bool \<times> DB" where
  "attempt_incident e ps n d =
     (case filter (\<lambda>p. p_Id p = in_ProjectId n) ps of [] \<Rightarrow> (True, d) | p # _ \<Rightarrow> incident_send_one e p n d)"

definition incident_key :: "IncidentNotification \<Rightarrow> send_key" where
  "incident_key n = (in_ProjectId n, in_Destination n)"

definition incident_ident :: "IncidentNotification \<Rightarrow> send_ident" where
  "incident_ident n = (in_ProjectId n, in_IncidentKey n, in_Status n, in_Timestamp n, in_Destination n)"

lemma incident_thread_ident:
  "incident_key (incident_thread_key n prev) = incident_key n \<and> incident_ident (incident_thread_key n prev) = incident_ident n"
  unfolding incident_thread_key_def by (induction prev arbitrary: n) (simp_all add: incident_key_def incident_ident_def)

lemma trace_incident_mark_sent [simp]: "db_trace (incident_mark_sent e n d) = db_trace d"
  by (simp add: incident_mark_sent_def UpdateIncidentNotification_def exec_sql_def sql_def Now_def Let_def)

lemma incident_load_thread_keeps:
  "incident_load_thread e n d = (n1, d1) \<Longrightarrow>
     db_trace d1 = db_trace d \<and> incident_key n1 = incident_key n \<and> incident_ident n1 = incident_ident n"
  by (auto simp: incident_load_thread_def GetPreviousIncidentNotifications_def incident_thread_ident
      split: if_splits prod.splits sum.splits dest: trace_query)

lemma incident_send_one_trace:
  "db_trace (snd (incident_send_one e p n d)) = db_trace d \<and> fst (incident_send_one e p n d) \<or>
   (\<exists>ev. db_trace (snd (incident_send_one e p n d)) = db_trace d @ [ev] \<and> ev_key ev = incident_key n \<and>
         ev_ident ev = incident_ident n \<and> ev_ok ev = fst (incident_send_one e p n d))"
proof (cases "getClient (in_Destination n) (p_Integrations p) NotificationTypeIncident")
  case None
  then show ?thesis by (simp add: incident_send_one_def)
next
  case (Some client)
  obtain n1 d1 where l: "incident_load_thread e n d = (n1, d1)" by force
  have k: "ev_key (IncidentSend client n1 ok) = incident_key n" "ev_ident (IncidentSend client n1 ok) = incident_ident n" for ok
    using incident_load_thread_keeps [OF l] by (simp_all add: incident_key_def incident_ident_def)
  show ?thesis
    using Some incident_load_thread_keeps [OF l] k by (auto simp: incident_send_one_def l split: sum.splits)
qed

interpretation incident_pass: send_pass incident_key incident_ident "attempt_incident e ps" "incident_send_loop e ps" for e ps
proof
  show "incident_send_loop e ps failed (n # ns) d =
      (if incident_key n \<in> set failed then incident_send_loop e ps failed ns d
       else incident_send_loop e ps (if fst (attempt_incident e ps n d) then failed else incident_key n # failed) ns
              (snd (attempt_incident e ps n d)))" for failed n ns d
    by (auto simp: attempt_incident_def incident_key_def split: list.splits prod.splits)
  show "db_trace (snd (attempt_incident e ps n d)) = db_trace d \<and> fst (attempt_incident e ps n d) \<or>
      (\<exists>ev. db_trace (snd (attempt_incident e ps n d)) = db_trace d @ [ev] \<and> ev_key ev = incident_key n \<and>
            ev_ident ev = incident_ident n \<and> ev_ok ev = fst (attempt_incident e ps n d))" for n d
    using incident_send_one_trace [of e _ n d] by (auto simp: attempt_incident_def split: list.splits)
qed simp

interpretation incident_frame: framed_send_pass incident_key incident_ident "attempt_incident e ps" "incident_send_loop e ps"
    notifier_frame for e ps
proof
  show "notifier_frame d (snd (attempt_incident e ps n d))" for n d
    by (auto simp: attempt_incident_def frame_incident_send_one split: list.splits)
qed (auto intro: notifier_frame_trans)

lemma frame_sendIncidents [keeps]: "notifier_frame d (sendIncidents e d)"
proof -
  obtain r1 d1 where p: "GetProjects e d = (r1, d1)" by force
  obtain now d2 where n: "Now e d1 = (now, d2)" by force
  obtain r3 d3 where q: "GetNotSentIncidentNotifications e (now - retryWindow) d2 = (r3, d3)" by force
  have f1: "notifier_frame d d1" using p unfolding GetProjects_def by (rule frame_queryD)
  have f2: "notifier_frame d d2" using f1 frame_NowD [OF n] by (rule notifier_frame_trans)
  have "notifier_frame d2 d3" using q unfolding GetNotSentIncidentNotifications_def by (rule frame_queryD)
  with f2 have f3: "notifier_frame d d3" by (rule notifier_frame_trans)
  show ?thesis
    using f1 f2 f3 notifier_frame_trans [OF f3 incident_frame.loop_frame]
    by (auto simp: sendIncidents_def p n q split: sum.splits)
qed

lemma frame_incident_enqueue [keeps]: "notifier_frame d (incident_enqueue e now p app i dst d)"
proof -
  have g: "getOpenIncidents e n d = (r, d') \<Longrightarrow> notifier_frame d d'" for n d r d'
    by (auto simp: getOpenIncidents_def GetPreviousIncidentNotifications_def split: prod.splits sum.splits dest: frame_queryD)
  have put: "notifier_frame d d1 \<Longrightarrow> notifier_frame d (PutIncidentNotification e n d1)" for d d1 n
    using frame_PutIncident notifier_frame_trans by blast
  show ?thesis
    unfolding incident_enqueue_def IncidentNotifier_onOpen_def IncidentNotifier_onResolve_def Let_def
    by (auto split: prod.splits sum.splits intro!: put dest: g)
qed

lemma frame_IncidentEnqueue [keeps]: "notifier_frame d (IncidentNotifier_Enqueue e p app i now d)"
  unfolding IncidentNotifier_Enqueue_def Let_def
  by (auto split: option.splits intro: notifier_frame_trans [OF frame_fold [OF frame_incident_enqueue] frame_sendIncidents])

lemma IncidentEnqueue_tables [simp]:
  "db_incidents (IncidentNotifier_Enqueue e p app i now d) = db_incidents d"
  "db_ids (IncidentNotifier_Enqueue e p app i now d) = db_ids d"
  using frame_IncidentEnqueue [of d e p app i now] by (simp_all add: notifier_frame_def)

end
