(* ===== verification/IncidentWatcher.thy ===== *)
theory IncidentWatcher
  imports IncidentNotifier
begin

text \<open>
  The watcher of service level objectives (\<^verbatim>\<open>watchers/incidents.go\<close>): burn rates of the availability and
  latency objectives over two pairs of windows, and the incidents opened, updated and resolved from them.
  The root cause analysis is a callback of the watcher and an argument here.
\<close>

subsection \<open>Sums over a window\<close>

type_synonym sumFromFunc = "Time \<Rightarrow> f32"

definition window_sum :: "TimeSeries option \<Rightarrow> Time \<Rightarrow> f32 \<times> int \<times> int" where
  "window_sum ts f =
     foldl (\<lambda>(s, n, k) (_, v). if IsNaN v then (s, n + 1, k) else (f32_add s v, n + 1, k + 1)) (Fin 0, 0, 0)
       (iter_points (IterFrom ts f))"

text \<open>Less than half of the samples defined: the total is unknown.\<close>

definition totalSum :: "TimeSeries option \<Rightarrow> sumFromFunc" where
  "totalSum ts f =
     (let (s, n, k) = window_sum ts f
      in if f32_lt (f32_div (f32_of_int k) (f32_of_int n)) (Fin (1 / 2)) then NaN else s)"

definition failedSum :: "TimeSeries option \<Rightarrow> sumFromFunc" where
  "failedSum ts f =
     foldl (\<lambda>s (_, v). if IsNaN v then s else f32_add s v) (Fin 0) (iter_points (IterFrom ts f))"

definition slowSum :: "TimeSeries option \<Rightarrow> TimeSeries option \<Rightarrow> sumFromFunc" where
  "slowSum totalTs fastTs f =
     foldl (\<lambda>s ((_, t), (_, v)). if IsNaN t then s else if IsNaN v then f32_add s t else f32_add s (f32_sub t v)) (Fin 0)
       (zip (iter_points (IterFrom totalTs f)) (iter_points (IterFrom fastTs f)))"

subsection \<open>Burn rates\<close>

definition calcBurnRate :: "Time \<Rightarrow> sumFromFunc \<Rightarrow> sumFromFunc \<Rightarrow> f32 \<Rightarrow> AlertRule \<Rightarrow> BurnRate list" where
  "calcBurnRate now badSum totalOf objective r =
     (let long = f32_div (badSum (now - ar_LongWindow r)) (totalOf (now - ar_LongWindow r));
          short = f32_div (badSum (now - ar_ShortWindow r)) (totalOf (now - ar_ShortWindow r));
          longRate = f32_div long objective; shortRate = f32_div short objective
      in if IsNaN long then [] else if IsNaN short then []
         else [\<lparr>br_LongWindowPercentage = f32_mul long (Fin 100), br_ShortWindowPercentage = f32_mul short (Fin 100),
                br_LongWindowBurnRate = longRate, br_ShortWindowBurnRate = shortRate,
                br_LongWindow = ar_LongWindow r, br_ShortWindow = ar_ShortWindow r,
                br_Severity = (if f32_gt longRate (ar_BurnRateThreshold r) \<and> f32_gt shortRate (ar_BurnRateThreshold r)
                               then ar_Severity r else OK),
                br_Threshold = ar_BurnRateThreshold r\<rparr>])"

definition calcBurnRates :: "Time \<Rightarrow> sumFromFunc \<Rightarrow> sumFromFunc \<Rightarrow> f32 \<Rightarrow> BurnRate list" where
  "calcBurnRates now badSum totalOf objectivePercentage =
     (let objective = f32_sub (Fin 1) (f32_div objectivePercentage (Fin 100))
      in concat (map (calcBurnRate now badSum totalOf objective) AlertRules))"

text \<open>The burn rates, and the sums of bad and of all requests when there are any.\<close>

definition availability :: "Context \<Rightarrow> Application \<Rightarrow> BurnRate list \<times> (sumFromFunc \<times> sumFromFunc) option" where
  "availability ctx app =
     (case app_AvailabilitySLIs app of
        [] \<Rightarrow> ([], None)
      | sli # _ \<Rightarrow>
          if TailIsEmpty (as_TotalRequestsRaw sli) then ([], None)
          else
            (let totalF = totalSum (as_TotalRequestsRaw sli);
                 failedF = (case as_FailedRequestsRaw sli of None \<Rightarrow> (\<lambda>_. Fin 0) | Some ts \<Rightarrow> failedSum (Some ts))
             in (calcBurnRates (ctx_To ctx) failedF totalF (as_ObjectivePercentage sli), Some (failedF, totalF))))"

definition latency :: "Context \<Rightarrow> Application \<Rightarrow> BurnRate list \<times> (sumFromFunc \<times> sumFromFunc) option" where
  "latency ctx app =
     (case app_LatencySLIs app of
        [] \<Rightarrow> ([], None)
      | sli # _ \<Rightarrow>
          (let (totalRaw, fastRaw) = GetTotalAndFast sli True; totalF = totalSum totalRaw in
           case fastRaw of
             None \<Rightarrow> ([], None)
           | Some _ \<Rightarrow>
               (let slowF = slowSum totalRaw fastRaw
                in (calcBurnRates (ctx_To ctx) slowF totalF (ls_ObjectivePercentage sli), Some (slowF, totalF)))))"

definition calcImpact :: "Time \<Rightarrow> Time \<Rightarrow> (sumFromFunc \<times> sumFromFunc) option \<Rightarrow> f32" where
  "calcImpact now openedAt fs =
     (let f0 = openedAt - MinAlertRuleShortWindow; dataFrom = now - MaxAlertRuleWindow;
          f = (if f0 < dataFrom then dataFrom else f0)
      in case fs of
           None \<Rightarrow> Fin 0
         | Some (badF, totalF) \<Rightarrow>
             (let v = f32_div (badF f) (totalF f) in if \<not> IsNaN v then f32_mul v (Fin 100) else Fin 0))"

definition worst :: "BurnRate list \<Rightarrow> Status \<Rightarrow> Status" where
  "worst brs status = foldl (\<lambda>st br. if br_Severity br > st then br_Severity br else st) status brs"

definition app_status :: "Context \<Rightarrow> Application \<Rightarrow> Status" where
  "app_status ctx app = worst (fst (availability ctx app)) (worst (fst (latency ctx app)) UNKNOWN)"

subsection \<open>A pass of the watcher\<close>

type_synonym RCACallback = "ApplicationIncident \<Rightarrow> DB \<Rightarrow> ApplicationIncident \<times> DB"

text \<open>The end of the loop body: the analysis, and the notification of an incident that opened or resolved.\<close>

definition finish_app :: "Env \<Rightarrow> RCACallback option \<Rightarrow> Project \<Rightarrow> Application \<Rightarrow> Time \<Rightarrow> bool \<Rightarrow> ApplicationIncident \<Rightarrow> DB \<Rightarrow> DB" where
  "finish_app e rca project app now needNotify incident d =
     (let (i, d1) = (case rca of None \<Rightarrow> (incident, d) | Some f \<Rightarrow> f incident d)
      in if needNotify then IncidentNotifier_Enqueue e project app i now d1 else d1)"

definition with_details :: "Context \<Rightarrow> Application \<Rightarrow> Time \<Rightarrow> ApplicationIncident \<Rightarrow> ApplicationIncident" where
  "with_details ctx app now i =
     i\<lparr>i_Details := \<lparr>id_AvailabilityBurnRates = fst (availability ctx app), id_LatencyBurnRates = fst (latency ctx app),
         id_AvailabilityImpact = calcImpact now (i_OpenedAt i) (snd (availability ctx app)),
         id_LatencyImpact = calcImpact now (i_OpenedAt i) (snd (latency ctx app))\<rparr>\<rparr>"

definition new_incident :: "Context \<Rightarrow> Application \<Rightarrow> Time \<Rightarrow> string \<Rightarrow> ApplicationIncident" where
  "new_incident ctx app now key =
     with_details ctx app now
       \<lparr>i_ApplicationId = app_Id app, i_Key = key, i_OpenedAt = now, i_ResolvedAt = 0, i_Severity = app_status ctx app,
        i_Details = \<lparr>id_AvailabilityBurnRates = [], id_LatencyBurnRates = [], id_AvailabilityImpact = Fin 0, id_LatencyImpact = Fin 0\<rparr>,
        i_RCA = None\<rparr>"

definition check_incident :: "Env \<Rightarrow> RCACallback option \<Rightarrow> Project \<Rightarrow> World \<Rightarrow> Time \<Rightarrow> Application \<Rightarrow> DB \<Rightarrow> DB" where
  "check_incident e rca project world now app d =
     (let ctx = w_Ctx world; status = app_status ctx app in
      if status = UNKNOWN then d
      else
        (case GetLastOpenIncident e (p_Id project) (app_Id app) d of
           (Inl _, d1) \<Rightarrow> d1
         | (Inr None, d1) \<Rightarrow>
             if status \<le> OK then d1
             else
               (let (key, d2) = NanoId e d1; incident = new_incident ctx app now key in
                case CreateIncident e (p_Id project) (app_Id app) incident d2 of
                  (Inl _, d3) \<Rightarrow> d3
                | (Inr _, d3) \<Rightarrow> finish_app e rca project app now True incident d3)
         | (Inr (Some incident), d1) \<Rightarrow>
             if status = OK
             then
               (let i = incident\<lparr>i_ResolvedAt := now, i_Severity := OK\<rparr> in
                case ResolveIncident e (p_Id project) i d1 of
                  (Inl _, d2) \<Rightarrow> d2
                | (Inr _, d2) \<Rightarrow> finish_app e rca project app now True i d2)
             else
               (let i = with_details ctx app now (incident\<lparr>i_Severity := status\<rparr>) in
                case UpdateIncident e (p_Id project) (i_Key i) (i_Severity i) (i_Details i) d1 of
                  (Inl _, d2) \<Rightarrow> d2
                | (Inr _, d2) \<Rightarrow> finish_app e rca project app now False i d2)))"

definition resolve_missing :: "Env \<Rightarrow> Project \<Rightarrow> World \<Rightarrow> Time \<Rightarrow> ApplicationIncident \<Rightarrow> DB \<Rightarrow> DB" where
  "resolve_missing e project world now i d =
     (if GetApplication world (i_ApplicationId i) \<noteq> None then d
      else snd (ResolveIncident e (p_Id project) (i\<lparr>i_ResolvedAt := now, i_Severity := OK\<rparr>) d))"

definition resolveIncidentsForMissingApps :: "Env \<Rightarrow> Project \<Rightarrow> World \<Rightarrow> Time \<Rightarrow> DB \<Rightarrow> DB" where
  "resolveIncidentsForMissingApps e project world now d =
     (case GetOpenIncidents e (p_Id project) d of
        (Inl _, d1) \<Rightarrow> d1
      | (Inr incidents, d1) \<Rightarrow> fold (resolve_missing e project world now) incidents d1)"

definition Incidents_Check :: "Env \<Rightarrow> RCACallback option \<Rightarrow> Project \<Rightarrow> World \<Rightarrow> DB \<Rightarrow> DB" where
  "Incidents_Check e rca project world d =
     (let (now, d1) = Now e d;
          d2 = fold (check_incident e rca project world now) (app_values world) d1
      in resolveIncidentsForMissingApps e project world now d2)"

subsection \<open>The root cause analysis (api/rca.go)\<close>

definition IncidentTimeOffset :: Duration where "IncidentTimeOffset = Hour + 5 * Minute"

text \<open>The window that is analysed: it starts no earlier than the last incident of the application that was resolved in it.\<close>

definition IncidentTimeContext :: "Env \<Rightarrow> ProjectId \<Rightarrow> ApplicationIncident \<Rightarrow> Time \<Rightarrow> DB \<Rightarrow> (Time \<times> Time) \<times> DB" where
  "IncidentTimeContext e projectId incident now d =
     (let f = i_OpenedAt incident - IncidentTimeOffset;
          t = (if Resolved incident then i_ResolvedAt incident else now)
      in case GetApplicationIncidents e projectId f (i_OpenedAt incident) d of
           (Inl _, d1) \<Rightarrow> ((f, t), d1)
         | (Inr incidents, d1) \<Rightarrow>
             ((foldl (\<lambda>f i. if i_Key i = i_Key incident \<or> \<not> Resolved i then f
                            else if i_ResolvedAt i > f \<and> i_ResolvedAt i < t then i_ResolvedAt i else f)
                f (incidents (i_ApplicationId incident)), t), d1))"

text \<open>
  The callback that \<^verbatim>\<open>main.go\<close> gives to the watcher. \<open>cloudStatus\<close> is the answer of
  \<^verbatim>\<open>cloudAPI.RCAStatus\<close> and \<open>answer\<close> the outcome of the analysis of a window (\<open>None\<close> on an error while the
  request was prepared or answered). The deferred write stores the analysis in every case.
\<close>

definition no_rca :: RCA where
  "no_rca = \<lparr>rca_Status = [], rca_ShortSummary = [], rca_RootCause = [], rca_ImmediateFixes = []\<rparr>"

definition IncidentRCA :: "Env \<Rightarrow> string \<Rightarrow> bool \<Rightarrow> (ApplicationIncident \<Rightarrow> Time \<times> Time \<Rightarrow> RCA option) \<Rightarrow> Project \<Rightarrow> World
    \<Rightarrow> ApplicationIncident \<Rightarrow> DB \<Rightarrow> ApplicationIncident \<times> DB" where
  "IncidentRCA e cloudStatus multicluster answer project world incident d =
     (let rca = (case i_RCA incident of None \<Rightarrow> no_rca | Some r \<Rightarrow> r);
          store = (\<lambda>i r d. let (i', _, d') = UpdateIncidentRCA e (p_Id project) i r d in (i', d'))
      in if (case i_RCA incident of None \<Rightarrow> False | Some r \<Rightarrow> rca_Status r = ''OK'') then (incident, d)
         else if cloudStatus \<noteq> ''OK'' then store incident (rca\<lparr>rca_Status := cloudStatus\<rparr>) d
         else
           (let (i1, r1, d1) =
                  (if i_RCA incident = None then UpdateIncidentRCA e (p_Id project) incident (no_rca\<lparr>rca_Status := ''In progress''\<rparr>) d
                   else (incident, Inr (), d))
            in case r1 of
                 Inl _ \<Rightarrow> store i1 rca d1
               | Inr _ \<Rightarrow>
                   if multicluster \<or> GetApplication world (i_ApplicationId incident) = None
                   then store i1 (rca\<lparr>rca_Status := ''Failed''\<rparr>) d1
                   else
                     (let (window, d2) = IncidentTimeContext e (p_Id project) i1 (ctx_To (w_Ctx world)) d1
                      in case answer i1 window of
                           None \<Rightarrow> store i1 (rca\<lparr>rca_Status := ''Failed''\<rparr>) d2
                         | Some r \<Rightarrow> store i1 (r\<lparr>rca_Status := ''OK''\<rparr>) d2)))"

end
