(* ===== verification/IncidentSafety.thy ===== *)
theory IncidentSafety
  imports IncidentWatcher
begin

text \<open>
  What the watcher of incidents guarantees: at most one open incident per application in every environment,
  that incidents follow the status of the objectives when no statement fails, and what is told to PagerDuty
  and Opsgenie.
\<close>

subsection \<open>The invariant of the table\<close>

definition open_key_row :: "ProjectId \<Rightarrow> string \<Rightarrow> IncidentRow \<Rightarrow> bool" where
  "open_key_row p appId r \<longleftrightarrow> ir_project_id r = p \<and> ir_application_id r = appId \<and> ir_resolved_at r = 0"

definition row_key :: "IncidentRow \<Rightarrow> ProjectId \<times> string" where
  "row_key r = (ir_project_id r, ir_key r)"

definition incidents_ok :: "DB \<Rightarrow> bool" where
  "incidents_ok d \<longleftrightarrow>
     (\<forall>p appId. count_rows (open_key_row p appId) (db_incidents d) \<le> 1) \<and> distinct (map row_key (db_incidents d))"

text \<open>Rows are changed one by one, keep their keys and applications, and none is reopened.\<close>

definition row_kept :: "IncidentRow \<Rightarrow> IncidentRow \<Rightarrow> bool" where
  "row_kept r s \<longleftrightarrow> row_key s = row_key r \<and> ir_application_id s = ir_application_id r \<and>
     (ir_resolved_at s = 0 \<longrightarrow> ir_resolved_at r = 0)"

definition rows_kept :: "DB \<Rightarrow> DB \<Rightarrow> bool" where
  "rows_kept d d' \<longleftrightarrow> list_all2 row_kept (db_incidents d) (db_incidents d')"

lemma row_kept_refl [simp]: "row_kept r r"
  by (simp add: row_kept_def)

lemma rows_kept_same: "db_incidents d' = db_incidents d \<Longrightarrow> rows_kept d d'"
  by (simp add: rows_kept_def list_all2_refl)

lemma rows_kept_trans [trans]: "rows_kept a b \<Longrightarrow> rows_kept b c \<Longrightarrow> rows_kept a c"
  unfolding rows_kept_def by (erule list_all2_trans [rotated], assumption) (auto simp: row_kept_def)

lemma rows_kept_update:
  assumes "\<And>r. row_kept r (g r)"
    and "db_incidents d' = db_incidents d \<or> db_incidents d' = update_rows P g (db_incidents d)"
  shows "rows_kept d d'"
  using assms by (auto simp: rows_kept_def update_rows_def list_all2_refl list_all2_map2)

lemma count_kept:
  "list_all2 row_kept rows rows' \<Longrightarrow> count_rows (open_key_row p a) rows' \<le> count_rows (open_key_row p a) rows"
  by (induction rule: list_all2_induct) (auto simp: count_rows_def open_key_row_def row_kept_def row_key_def)

lemma keys_kept: "list_all2 row_kept rows rows' \<Longrightarrow> map row_key rows' = map row_key rows"
  by (induction rule: list_all2_induct) (auto simp: row_kept_def)

lemma rows_kept_ok: "rows_kept d d' \<Longrightarrow> incidents_ok d \<Longrightarrow> incidents_ok d'"
  using count_kept keys_kept unfolding rows_kept_def incidents_ok_def by (metis le_trans)

text \<open>The contract of the operations that change incidents but open none.\<close>

locale incident_table_op =
  fixes op :: "DB \<Rightarrow> DB"
  assumes op_kept: "rows_kept d (op d)"
begin

lemma op_incidents_ok: "incidents_ok d \<Longrightarrow> incidents_ok (op d)"
  using op_kept by (rule rows_kept_ok)

end

text \<open>The contract of the operations that change neither: they leave open and resolved rows as they are.\<close>

definition row_same :: "IncidentRow \<Rightarrow> IncidentRow \<Rightarrow> bool" where
  "row_same r s \<longleftrightarrow> row_key s = row_key r \<and> ir_application_id s = ir_application_id r \<and>
     ir_opened_at s = ir_opened_at r \<and> ir_resolved_at s = ir_resolved_at r"

definition rows_same :: "DB \<Rightarrow> DB \<Rightarrow> bool" where
  "rows_same d d' \<longleftrightarrow> list_all2 row_same (db_incidents d) (db_incidents d')"

lemma row_same_refl [simp]: "row_same r r"
  by (simp add: row_same_def)

lemma rows_same_eq: "db_incidents d' = db_incidents d \<Longrightarrow> rows_same d d'"
  by (simp add: rows_same_def list_all2_refl)

lemma rows_same_trans [trans]: "rows_same a b \<Longrightarrow> rows_same b c \<Longrightarrow> rows_same a c"
  unfolding rows_same_def by (erule list_all2_trans [rotated], assumption) (auto simp: row_same_def)

lemma rows_same_update:
  assumes "\<And>r. row_same r (g r)"
    and "db_incidents d' = db_incidents d \<or> db_incidents d' = update_rows P g (db_incidents d)"
  shows "rows_same d d'"
  using assms by (auto simp: rows_same_def update_rows_def list_all2_refl list_all2_map2)

lemma rows_same_kept: "rows_same d d' \<Longrightarrow> rows_kept d d'"
  unfolding rows_same_def rows_kept_def by (erule list_all2_mono) (auto simp: row_same_def row_kept_def)

lemma open_incident_same: "row_same r s \<Longrightarrow> open_incident_row p a s = open_incident_row p a r"
  by (auto simp: row_same_def open_incident_row_def row_key_def)

lemma rows_same_open:
  "rows_same d d' \<Longrightarrow> list_ex (open_incident_row p a) (db_incidents d') = list_ex (open_incident_row p a) (db_incidents d)"
  unfolding rows_same_def by (induction rule: list_all2_induct) (auto simp: open_incident_same)

locale incident_column_op =
  fixes op :: "DB \<Rightarrow> DB"
  assumes op_same: "rows_same d (op d)"

sublocale incident_column_op \<subseteq> incident_table_op op
  by unfold_locales (rule rows_same_kept [OF op_same])

interpretation update_incident_op: incident_column_op "\<lambda>d. snd (UpdateIncident e p key sev details d)" for e p key sev details
  by unfold_locales
     (rule rows_same_update [where P = "\<lambda>r. ir_project_id r = p \<and> ir_key r = key"
        and g = "\<lambda>r. r\<lparr>ir_severity := sev, ir_details := details\<rparr>"],
      auto simp: row_same_def row_key_def UpdateIncident_def stmt_defs)

interpretation update_rca_op: incident_column_op "\<lambda>d. snd (snd (UpdateIncidentRCA e p i rca d))" for e p i rca
  by unfold_locales
     (rule rows_same_update [where P = "\<lambda>r. ir_project_id r = p \<and> ir_key r = i_Key i"
        and g = "\<lambda>r. r\<lparr>ir_rca := Some rca, ir_rca_status := Some (effectiveRCAStatus (rca_Status rca) (rca_RootCause rca)),
                       ir_rca_summary := Some (rca_ShortSummary rca)\<rparr>"],
      auto simp: row_same_def row_key_def UpdateIncidentRCA_def stmt_defs)

interpretation enqueue_incident_op: incident_column_op "IncidentNotifier_Enqueue e p app i now" for e p app i now
  by unfold_locales (rule rows_same_eq, simp)

lemma resolve_incident_op: "i_ResolvedAt i \<noteq> 0 \<Longrightarrow> incident_table_op (\<lambda>d. snd (ResolveIncident e p i d))"
  by unfold_locales
     (rule rows_kept_update [where P = "\<lambda>r. ir_project_id r = p \<and> ir_key r = i_Key i"
        and g = "\<lambda>r. r\<lparr>ir_resolved_at := i_ResolvedAt i\<rparr>"],
      auto simp: row_kept_def row_key_def ResolveIncident_def stmt_defs)

text \<open>The program's own callback meets the contract that the watcher relies on.\<close>

interpretation rca_op: incident_column_op "\<lambda>d. snd (IncidentRCA e st mc answer p world i d)" for e st mc answer p world i
proof
  fix d
  have u: "UpdateIncidentRCA e (p_Id p) i r d = (i', q, d') \<Longrightarrow> rows_same d d'" for i r i' q d d'
    using update_rca_op.op_same [of d e "p_Id p" i r] by simp
  have w: "IncidentTimeContext e q i t d = (win, d') \<Longrightarrow> rows_same d d'" for q i t d win d'
    unfolding IncidentTimeContext_def GetApplicationIncidents_def query_def sql_def Let_def
    by (auto simp: rows_same_eq split: prod.splits sum.splits if_splits option.splits)
  show "rows_same d (snd (IncidentRCA e st mc answer p world i d))"
    unfolding IncidentRCA_def Let_def
    by (auto simp: rows_same_eq split: prod.splits sum.splits option.splits if_splits intro: u w dest!: u w elim: rows_same_trans)
qed

definition rca_writes_only_analysis :: "RCACallback option \<Rightarrow> bool" where
  "rca_writes_only_analysis rca \<longleftrightarrow> (case rca of None \<Rightarrow> True | Some f \<Rightarrow> \<forall>i d. rows_same d (snd (f i d)))"

lemma program_rca [simp]: "rca_writes_only_analysis (Some (IncidentRCA e st mc answer p world))"
  by (simp add: rca_writes_only_analysis_def rca_op.op_same)

lemma program_no_rca [simp]: "rca_writes_only_analysis None"
  by (simp add: rca_writes_only_analysis_def)

lemma finish_app_same:
  assumes "rca_writes_only_analysis rca"
  shows "rows_same d (finish_app e rca p app now notify i d)"
proof -
  obtain i1 d1 where r: "(case rca of None \<Rightarrow> (i, d) | Some f \<Rightarrow> f i d) = (i1, d1)" by force
  then have "rows_same d d1"
    using assms by (auto simp: rca_writes_only_analysis_def rows_same_eq split: option.splits) (metis snd_conv)
  then show ?thesis
    using rows_same_trans [OF _ enqueue_incident_op.op_same] by (auto simp: finish_app_def r)
qed

subsection \<open>A pass keeps the invariant\<close>

lemma GetLast_incidents: "GetLastOpenIncident e p a d = (q, d1) \<Longrightarrow> db_incidents d1 = db_incidents d"
  unfolding GetLastOpenIncident_def query_def sql_def Let_def by (auto split: if_splits)

lemma GetLast_None:
  assumes "GetLastOpenIncident e p a d = (Inr None, d1)"
  shows "\<not> list_ex (open_incident_row p a) (db_incidents d)"
proof -
  have "filter (open_incident_row p a) (db_incidents d) = []"
    using assms unfolding GetLastOpenIncident_def by (auto dest!: query_Inr split: list.splits)
  then show ?thesis by (simp add: list_ex_iff filter_empty_conv)
qed

lemma GetLast_Some:
  assumes "GetLastOpenIncident e p a d = (Inr (Some i), d1)"
  obtains r where "r \<in> set (db_incidents d)" "open_incident_row p a r" "ir_key r = i_Key i" "ir_opened_at r = i_OpenedAt i"
proof -
  obtain r rs where s: "sort_by (\<lambda>r s. ir_opened_at s \<le> ir_opened_at r) (filter (open_incident_row p a) (db_incidents d)) = r # rs"
      "ir_key r = i_Key i" "ir_opened_at r = i_OpenedAt i"
    using assms unfolding GetLastOpenIncident_def by (auto dest!: query_Inr split: list.splits)
  then have "r \<in> set (filter (open_incident_row p a) (db_incidents d))"
    by (metis list.set_intros(1) set_sort_by)
  then show ?thesis using s that [of r] by auto
qed

lemma CreateIncident_ok:
  assumes "incidents_ok d" "\<not> list_ex (open_incident_row p a) (db_incidents d)"
  shows "incidents_ok (snd (CreateIncident e p a i d))"
proof -
  let ?row = "incident_row p a i"
  have none: "count_rows (open_key_row p (ApplicationId_String a)) (db_incidents d) = 0"
    using assms(2) by (auto simp: count_rows_0_iff list_ex_iff open_key_row_def open_incident_row_def)
  have key: "open_key_row q s ?row \<Longrightarrow> q = p \<and> s = ApplicationId_String a" for q s
    by (auto simp: open_key_row_def incident_row_def)
  have "count_rows (open_key_row q s) (db_incidents d @ [?row]) \<le> 1" for q s
    using assms(1) none key [of q s] by (auto simp: incidents_ok_def)
  then show ?thesis
    using assms(1)
    by (auto simp: CreateIncident_def stmt_defs incidents_ok_def row_key_def list_ex_iff clashes_def incident_row_def)
qed

lemma incidents_ok_cong: "db_incidents d' = db_incidents d \<Longrightarrow> incidents_ok d' = incidents_ok d"
  by (simp add: incidents_ok_def)

lemma finish_app_ok:
  "rca_writes_only_analysis rca \<Longrightarrow> incidents_ok d \<Longrightarrow> incidents_ok (finish_app e rca p app now notify i d)"
  using rows_kept_ok [OF rows_same_kept [OF finish_app_same]] by blast

lemma check_incident_ok:
  assumes ok: "incidents_ok d" and now: "now \<noteq> 0" and rca: "rca_writes_only_analysis rca"
  shows "incidents_ok (check_incident e rca p world now app d)"
proof -
  obtain q d1 where g: "GetLastOpenIncident e (p_Id p) (app_Id app) d = (q, d1)" by force
  have d1: "db_incidents d1 = db_incidents d" using GetLast_incidents [OF g] .
  then have ok1: "incidents_ok d1" using ok incidents_ok_cong by blast
  consider (err) x where "q = Inl x" | (none) "q = Inr None" | (some) i where "q = Inr (Some i)"
    by (metis option.exhaust sum.exhaust)
  then show ?thesis
  proof cases
    case err
    then show ?thesis using ok ok1 g by (simp add: check_incident_def Let_def)
  next
    case none
    obtain key d2 where n: "NanoId e d1 = (key, d2)" by force
    obtain r d3 where c: "CreateIncident e (p_Id p) (app_Id app) (new_incident (w_Ctx world) app now key) d2 = (r, d3)" by force
    have "db_incidents d2 = db_incidents d" using n d1 by (auto simp: NanoId_def)
    then have "incidents_ok d3"
      using CreateIncident_ok [of d2 "p_Id p" "app_Id app" e "new_incident (w_Ctx world) app now key"] c ok
        GetLast_None [OF g [unfolded none]] incidents_ok_cong [of d2 d] by simp
    then show ?thesis
      using ok ok1 g none n c finish_app_ok [OF rca]
      by (auto simp: check_incident_def Let_def split: sum.splits)
  next
    case (some i)
    have res: "incidents_ok (snd (ResolveIncident e (p_Id p) (i\<lparr>i_ResolvedAt := now, i_Severity := OK\<rparr>) d1))"
      using incident_table_op.op_incidents_ok [OF resolve_incident_op ok1, of "i\<lparr>i_ResolvedAt := now, i_Severity := OK\<rparr>"] now by simp
    have upd: "incidents_ok (snd (UpdateIncident e (p_Id p) k sv dt d1))" for k sv dt
      by (rule update_incident_op.op_incidents_ok [OF ok1])
    show ?thesis
      using ok ok1 g some res upd finish_app_ok [OF rca]
      by (auto simp: check_incident_def Let_def split: sum.splits prod.splits) (metis snd_conv)+
  qed
qed

lemma resolve_missing_ok: "incidents_ok d \<Longrightarrow> now \<noteq> 0 \<Longrightarrow> incidents_ok (resolve_missing e p world now i d)"
  using incident_table_op.op_incidents_ok [OF resolve_incident_op, of "i\<lparr>i_ResolvedAt := now, i_Severity := OK\<rparr>" d]
  by (simp add: resolve_missing_def)

lemma resolveIncidentsForMissingApps_ok:
  assumes "incidents_ok d" "now \<noteq> 0"
  shows "incidents_ok (resolveIncidentsForMissingApps e p world now d)"
proof -
  obtain q d1 where g: "GetOpenIncidents e (p_Id p) d = (q, d1)" by force
  then have "incidents_ok d1"
    using assms(1) incidents_ok_cong [of d1 d] unfolding GetOpenIncidents_def query_def sql_def Let_def
    by (auto split: if_splits)
  then show ?thesis
    using fold_ok [where P = incidents_ok and f = "resolve_missing e p world now"] resolve_missing_ok assms(2) g
    by (auto simp: resolveIncidentsForMissingApps_def split: sum.splits)
qed

lemma Incidents_Check_ok:
  assumes "incidents_ok d" "\<And>n. env_now e n \<noteq> 0" "rca_writes_only_analysis rca"
  shows "incidents_ok (Incidents_Check e rca p world d)"
proof -
  obtain now d1 where n: "Now e d = (now, d1)" by force
  then have "now \<noteq> 0" "incidents_ok d1" using assms(1,2) incidents_ok_cong [of d1 d] by (auto simp: Now_def)
  then show ?thesis
    using fold_ok [where P = incidents_ok and f = "check_incident e rca p world now"] check_incident_ok assms(3)
      resolveIncidentsForMissingApps_ok by (simp add: Incidents_Check_def n)
qed

subsection \<open>The system of the watcher, the notifier and the users\<close>

inductive incident_step :: "Env \<Rightarrow> DB \<Rightarrow> DB \<Rightarrow> bool" for e where
  check: "rca_writes_only_analysis rca \<Longrightarrow> incident_step e d (Incidents_Check e rca project world d)"
| analyse: "incident_step e d (snd (snd (UpdateIncidentRCA e p i rca d)))"
| retry: "incident_step e d (IncidentNotifier_retry e primary d)"

lemma retry_incidents [simp]: "db_incidents (IncidentNotifier_retry e primary d) = db_incidents d"
  using frame_sendIncidents [of d e] by (simp add: IncidentNotifier_retry_def notifier_frame_def)

lemma incident_step_ok:
  assumes "incident_step e d d'" "incidents_ok d" "\<And>n. env_now e n \<noteq> 0"
  shows "incidents_ok d'"
  using assms
proof (cases rule: incident_step.cases)
  case (check rca p world)
  then show ?thesis using assms by (simp add: Incidents_Check_ok)
next
  case (analyse p i rca)
  then show ?thesis using assms(2) update_rca_op.op_incidents_ok by simp
next
  case (retry primary)
  then show ?thesis using assms(2) incidents_ok_cong [OF retry_incidents] by simp
qed

subsection \<open>Incidents follow the status\<close>

lemma sql_reliable: "reliable e \<Longrightarrow> sql e f d = f (d\<lparr>db_stmts := Suc (db_stmts d)\<rparr>)"
  by (simp add: sql_def reliable_def)

lemma GetLast_reliable:
  assumes "reliable e"
  obtains d1 where "GetLastOpenIncident e p a d = (Inr None, d1)" "db_incidents d1 = db_incidents d"
      "\<not> list_ex (open_incident_row p a) (db_incidents d)"
  | i r d1 where "GetLastOpenIncident e p a d = (Inr (Some i), d1)" "db_incidents d1 = db_incidents d"
      "r \<in> set (db_incidents d)" "open_incident_row p a r" "ir_key r = i_Key i"
proof -
  obtain q d1 where g: "GetLastOpenIncident e p a d = (q, d1)" by force
  with assms obtain o' where "q = Inr o'"
    unfolding GetLastOpenIncident_def query_def by (auto simp: sql_reliable)
  show ?thesis
  proof (cases o')
    case None
    then show ?thesis using that(1) g \<open>q = Inr o'\<close> GetLast_incidents [OF g] GetLast_None by blast
  next
    case (Some i)
    then have g': "GetLastOpenIncident e p a d = (Inr (Some i), d1)" using g \<open>q = Inr o'\<close> by simp
    obtain r where "r \<in> set (db_incidents d)" "open_incident_row p a r" "ir_key r = i_Key i"
      using GetLast_Some [OF g'] by metis
    then show ?thesis using that(2) [OF g' GetLast_incidents [OF g]] by blast
  qed
qed

lemma worst_le: "worst brs st \<ge> st"
  unfolding worst_def by (induction brs arbitrary: st) (auto intro: order.trans less_imp_le)

lemma incident_resolved:
  assumes "reliable e" "now \<noteq> 0" "distinct (map row_key (db_incidents d))"
    and one: "count_rows (open_incident_row p a) (db_incidents d) \<le> 1"
    and r: "r \<in> set (db_incidents d)" "open_incident_row p a r" "ir_key r = i_Key i" "i_ResolvedAt i = now"
  shows "\<not> list_ex (open_incident_row p a) (db_incidents (snd (ResolveIncident e p i d)))"
proof -
  have "\<not> open_incident_row p a (if ir_project_id s = p \<and> ir_key s = i_Key i then s\<lparr>ir_resolved_at := now\<rparr> else s)"
    if s: "s \<in> set (db_incidents d)" for s
  proof (cases "open_incident_row p a s")
    case True
    have "s = r" by (rule count_rows_unique [OF one s r(1) True r(2)])
    then show ?thesis using r assms(2) by (simp add: open_incident_row_def)
  next
    case False
    then show ?thesis using assms(2) by (simp add: open_incident_row_def)
  qed
  moreover have "db_incidents (snd (ResolveIncident e p i d)) =
      update_rows (\<lambda>s. ir_project_id s = p \<and> ir_key s = i_Key i) (\<lambda>s. s\<lparr>ir_resolved_at := now\<rparr>) (db_incidents d)"
    using assms(1) r(4) by (simp add: ResolveIncident_def exec_sql_def sql_reliable)
  ultimately show ?thesis unfolding list_ex_iff by (metis (no_types, lifting) image_iff set_update_rows)
qed

lemma CreateIncident_reliable:
  assumes "reliable e" "\<not> list_ex (\<lambda>r. clashes r (incident_row p a i)) (db_incidents d)"
  shows "CreateIncident e p a i d = (Inr (), d\<lparr>db_stmts := Suc (db_stmts d), db_incidents := db_incidents d @ [incident_row p a i]\<rparr>)"
  using assms by (simp add: CreateIncident_def sql_reliable)

lemma check_incident_opens:
  assumes "reliable e" "rca_writes_only_analysis rca" "app_status (w_Ctx world) app > OK"
    and none: "\<not> list_ex (open_incident_row (p_Id p) (app_Id app)) (db_incidents d)"
    and fresh: "\<not> list_ex (\<lambda>r. ir_project_id r = p_Id p \<and> (ir_key r = env_nano e (db_ids d) \<or>
        ir_application_id r = ApplicationId_String (app_Id app) \<and> ir_opened_at r = now)) (db_incidents d)"
  shows "list_ex (open_incident_row (p_Id p) (app_Id app)) (db_incidents (check_incident e rca p world now app d))"
proof -
  obtain d1 where g: "GetLastOpenIncident e (p_Id p) (app_Id app) d = (Inr None, d1)" "db_incidents d1 = db_incidents d"
    by (rule GetLast_reliable [OF assms(1), of "p_Id p" "app_Id app" d])
       (use none in \<open>auto simp: list_ex_iff\<close>)
  have ids: "db_ids d1 = db_ids d"
    using g(1) unfolding GetLastOpenIncident_def by (auto dest!: query_Inr)
  let ?i = "new_incident (w_Ctx world) app now (env_nano e (db_ids d))"
  let ?d2 = "d1\<lparr>db_ids := Suc (db_ids d1)\<rparr>"
  let ?d3 = "?d2\<lparr>db_stmts := Suc (db_stmts ?d2), db_incidents := db_incidents ?d2 @ [incident_row (p_Id p) (app_Id app) ?i]\<rparr>"
  have n: "NanoId e d1 = (env_nano e (db_ids d), ?d2)" by (simp add: NanoId_def ids)
  have "\<not> list_ex (\<lambda>r. clashes r (incident_row (p_Id p) (app_Id app) ?i)) (db_incidents ?d2)"
    using fresh g(2) by (auto simp: list_ex_iff clashes_def incident_row_def new_incident_def with_details_def)
  then have c: "CreateIncident e (p_Id p) (app_Id app) ?i ?d2 = (Inr (), ?d3)"
    using CreateIncident_reliable [OF assms(1)] by blast
  have "check_incident e rca p world now app d = finish_app e rca p app now True ?i ?d3"
    using assms(3) g(1) n c by (auto simp: check_incident_def Let_def less_Status_def less_eq_Status_def)
  moreover have "list_ex (open_incident_row (p_Id p) (app_Id app)) (db_incidents ?d3)"
    by (simp add: open_incident_row_def incident_row_def)
  ultimately show ?thesis using rows_same_open [OF finish_app_same [OF assms(2)]] by simp
qed

lemma check_incident_keeps:
  assumes "reliable e" "rca_writes_only_analysis rca" "app_status (w_Ctx world) app > OK"
    and "list_ex (open_incident_row (p_Id p) (app_Id app)) (db_incidents d)"
  shows "list_ex (open_incident_row (p_Id p) (app_Id app)) (db_incidents (check_incident e rca p world now app d))"
proof (rule GetLast_reliable [OF assms(1), of "p_Id p" "app_Id app" d])
  fix i r d1 assume g: "GetLastOpenIncident e (p_Id p) (app_Id app) d = (Inr (Some i), d1)" "db_incidents d1 = db_incidents d"
  let ?i = "with_details (w_Ctx world) app now (i\<lparr>i_Severity := app_status (w_Ctx world) app\<rparr>)"
  obtain d2 where u: "UpdateIncident e (p_Id p) (i_Key ?i) (i_Severity ?i) (i_Details ?i) d1 = (Inr (), d2)"
    using assms(1) by (auto simp: UpdateIncident_def exec_sql_def sql_reliable)
  have "check_incident e rca p world now app d = finish_app e rca p app now False ?i d2"
    using assms(3) g(1) u by (auto simp: check_incident_def Let_def less_Status_def)
  moreover have "rows_same d1 d2" using update_incident_op.op_same [of d1] u by (metis snd_conv)
  ultimately show ?thesis
    using rows_same_open [OF finish_app_same [OF assms(2)]] rows_same_open [of d1 d2] g(2) assms(4) by simp
qed (use assms(4) in simp)

lemma check_incident_resolves:
  assumes "reliable e" "rca_writes_only_analysis rca" "app_status (w_Ctx world) app = OK" "now \<noteq> 0"
    and "distinct (map row_key (db_incidents d))"
    and "count_rows (open_incident_row (p_Id p) (app_Id app)) (db_incidents d) \<le> 1"
  shows "\<not> list_ex (open_incident_row (p_Id p) (app_Id app)) (db_incidents (check_incident e rca p world now app d))"
proof (rule GetLast_reliable [OF assms(1), of "p_Id p" "app_Id app" d])
  fix d1 assume "GetLastOpenIncident e (p_Id p) (app_Id app) d = (Inr None, d1)" "db_incidents d1 = db_incidents d"
    "\<not> list_ex (open_incident_row (p_Id p) (app_Id app)) (db_incidents d)"
  then show ?thesis using assms(3) by (simp add: check_incident_def Let_def)
next
  fix i r d1 assume g: "GetLastOpenIncident e (p_Id p) (app_Id app) d = (Inr (Some i), d1)" "db_incidents d1 = db_incidents d"
    "r \<in> set (db_incidents d)" "open_incident_row (p_Id p) (app_Id app) r" "ir_key r = i_Key i"
  let ?i = "i\<lparr>i_ResolvedAt := now, i_Severity := OK\<rparr>"
  obtain d2 where res: "ResolveIncident e (p_Id p) ?i d1 = (Inr (), d2)"
    using assms(1) by (auto simp: ResolveIncident_def exec_sql_def sql_reliable)
  have "\<not> list_ex (open_incident_row (p_Id p) (app_Id app)) (db_incidents d2)"
    using incident_resolved [OF assms(1,4), of d1 "p_Id p" "app_Id app" r ?i] assms(5,6) g res by simp
  then show ?thesis
    using assms(3) g(1) res rows_same_open [OF finish_app_same [OF assms(2)]] by (simp add: check_incident_def Let_def)
qed

text \<open>A step of a pass for one application changes the rows of no other application.\<close>

definition row_stays :: "IncidentRow \<Rightarrow> DB \<Rightarrow> bool" where
  "row_stays r d \<longleftrightarrow> list_ex (row_same r) (db_incidents d)"

lemma row_same_trans: "row_same a b \<Longrightarrow> row_same b c \<Longrightarrow> row_same a c"
  by (simp add: row_same_def)

lemma row_stays_same: "rows_same d d' \<Longrightarrow> row_stays r d \<Longrightarrow> row_stays r d'"
  unfolding rows_same_def row_stays_def
  by (induction rule: list_all2_induct) (auto intro: row_same_trans)

lemma row_stays_in: "r \<in> set (db_incidents d) \<Longrightarrow> row_stays r d"
  by (auto simp: row_stays_def list_ex_iff intro: row_same_refl)

lemma check_incident_frame:
  assumes "rca_writes_only_analysis rca" "distinct (map row_key (db_incidents d))"
    and r: "r \<in> set (db_incidents d)" "\<not> open_incident_row (p_Id p) (app_Id app) r"
  shows "row_stays r (check_incident e rca p world now app d)"
proof -
  obtain q d1 where g: "GetLastOpenIncident e (p_Id p) (app_Id app) d = (q, d1)" by force
  have d1: "db_incidents d1 = db_incidents d" using GetLast_incidents [OF g] .
  have s1: "row_stays r d1" using r(1) d1 by (intro row_stays_in) simp
  note fin = row_stays_same [OF finish_app_same [OF assms(1)]]
  consider (err) x where "q = Inl x" | (none) "q = Inr None" | (some) i where "q = Inr (Some i)"
    by (metis option.exhaust sum.exhaust)
  then show ?thesis
  proof cases
    case err
    then show ?thesis using g s1 row_stays_in [OF r(1)] by (simp add: check_incident_def Let_def)
  next
    case none
    obtain key d2 where n: "NanoId e d1 = (key, d2)" by force
    obtain c d3 where c: "CreateIncident e (p_Id p) (app_Id app) (new_incident (w_Ctx world) app now key) d2 = (c, d3)" by force
    have "r \<in> set (db_incidents d3)"
      using c n d1 r(1) by (auto simp: NanoId_def CreateIncident_def stmt_defs split: if_splits)
    then have "row_stays r d3" by (rule row_stays_in)
    then show ?thesis
      using g none s1 n c fin row_stays_in [OF r(1)] by (auto simp: check_incident_def Let_def split: sum.splits)
  next
    case (some i)
    obtain o' where o: "o' \<in> set (db_incidents d)" "open_incident_row (p_Id p) (app_Id app) o'" "ir_key o' = i_Key i"
      using GetLast_Some [OF g [unfolded some]] by metis
    have "\<not> (ir_project_id r = p_Id p \<and> ir_key r = i_Key i)"
    proof
      assume k: "ir_project_id r = p_Id p \<and> ir_key r = i_Key i"
      then have "row_key r = row_key o'" using o by (simp add: row_key_def open_incident_row_def)
      then have "r = o'" using assms(2) r(1) o(1) by (metis distinct_map inj_onD)
      then show False using r(2) o(2) by simp
    qed
    then have "r \<in> set (db_incidents (snd (ResolveIncident e (p_Id p) (i\<lparr>i_ResolvedAt := now, i_Severity := OK\<rparr>) d1)))"
      using r(1) d1 by (auto simp: ResolveIncident_def stmt_defs set_update_rows image_iff intro: bexI [of _ r])
    then have res: "row_stays r (snd (ResolveIncident e (p_Id p) (i\<lparr>i_ResolvedAt := now, i_Severity := OK\<rparr>) d1))"
      by (rule row_stays_in)
    have upd: "row_stays r (snd (UpdateIncident e (p_Id p) k sv dt d1))" for k sv dt
      by (rule row_stays_same [OF update_incident_op.op_same s1])
    show ?thesis
      using g some s1 res upd fin row_stays_in [OF r(1)]
      by (auto simp: check_incident_def Let_def split: sum.splits prod.splits) (metis snd_conv)+
  qed
qed

subsection \<open>Incidents of missing applications\<close>

lemma resolve_missing_fold:
  assumes "reliable e"
  shows "db_incidents (fold (resolve_missing e p world now) js d) =
    update_rows (\<lambda>r. ir_project_id r = p_Id p \<and> ir_key r \<in> i_Key ` {i \<in> set js. GetApplication world (i_ApplicationId i) = None})
      (\<lambda>r. r\<lparr>ir_resolved_at := now\<rparr>) (db_incidents d)"
proof (induction js arbitrary: d)
  case Nil
  then show ?case by (simp add: update_rows_def)
next
  case (Cons i js)
  let ?g = "\<lambda>r. r\<lparr>ir_resolved_at := now\<rparr>"
  have "db_incidents (resolve_missing e p world now i d) =
     update_rows (\<lambda>r. ir_project_id r = p_Id p \<and> ir_key r = i_Key i \<and> GetApplication world (i_ApplicationId i) = None) ?g (db_incidents d)"
    using assms by (auto simp: resolve_missing_def ResolveIncident_def exec_sql_def sql_reliable update_rows_def)
  then have "db_incidents (fold (resolve_missing e p world now) (i # js) d) =
     update_rows (\<lambda>r. ir_project_id r = p_Id p \<and> ir_key r \<in> i_Key ` {i \<in> set js. GetApplication world (i_ApplicationId i) = None} \<or>
        ir_project_id r = p_Id p \<and> ir_key r = i_Key i \<and> GetApplication world (i_ApplicationId i) = None) ?g (db_incidents d)"
    by (simp add: Cons.IH update_rows_twice)
  also have "\<dots> = update_rows (\<lambda>r. ir_project_id r = p_Id p \<and>
        ir_key r \<in> i_Key ` {x \<in> set (i # js). GetApplication world (i_ApplicationId x) = None}) ?g (db_incidents d)"
    by (rule arg_cong [where f = "\<lambda>P. update_rows P ?g (db_incidents d)"]) auto
  finally show ?case .
qed

lemma GetOpenIncidents_reliable:
  assumes "reliable e" "\<forall>r\<in>set (db_incidents d). scanIncident p r \<noteq> None"
  shows "\<exists>is. GetOpenIncidents e p d = (Inr is, d\<lparr>db_stmts := Suc (db_stmts d)\<rparr>) \<and>
    set is = {i. \<exists>r\<in>set (db_incidents d). ir_project_id r = p \<and> ir_resolved_at r = 0 \<and> scanIncident p r = Some i}"
proof -
  let ?rows = "filter (\<lambda>r. ir_project_id r = p \<and> ir_resolved_at r = 0) (db_incidents d)"
  have "those (map (scanIncident p) rows) = Some (map (\<lambda>r. the (scanIncident p r)) rows)"
    if "\<forall>r\<in>set rows. scanIncident p r \<noteq> None" for rows
    using that by (induction rows) auto
  then have "those (map (scanIncident p) ?rows) = Some (map (\<lambda>r. the (scanIncident p r)) ?rows)"
    using assms(2) by auto
  then show ?thesis
    using assms by (intro exI [of _ "map (\<lambda>r. the (scanIncident p r)) ?rows"])
      (force simp: GetOpenIncidents_def query_def sql_reliable scan_incidents_def image_iff)
qed

lemma missing_resolved:
  assumes "reliable e" "distinct (map row_key (db_incidents d))"
    and scans: "\<forall>r\<in>set (db_incidents d). scanIncident (p_Id p) r \<noteq> None"
  shows "db_incidents (resolveIncidentsForMissingApps e p world now d) =
    map (\<lambda>r. if ir_project_id r = p_Id p \<and> ir_resolved_at r = 0 \<and>
                 GetApplication world (i_ApplicationId (the (scanIncident (p_Id p) r))) = None
              then r\<lparr>ir_resolved_at := now\<rparr> else r) (db_incidents d)"
proof -
  obtain is' where g: "GetOpenIncidents e (p_Id p) d = (Inr is', d\<lparr>db_stmts := Suc (db_stmts d)\<rparr>)"
      "set is' = {i. \<exists>r\<in>set (db_incidents d). ir_project_id r = p_Id p \<and> ir_resolved_at r = 0 \<and> scanIncident (p_Id p) r = Some i}"
    using GetOpenIncidents_reliable [OF assms(1) scans] by blast
  let ?P = "\<lambda>r. ir_project_id r = p_Id p \<and> ir_key r \<in> i_Key ` {i \<in> set is'. GetApplication world (i_ApplicationId i) = None}"
  have u: "db_incidents (resolveIncidentsForMissingApps e p world now d) = update_rows ?P (\<lambda>r. r\<lparr>ir_resolved_at := now\<rparr>) (db_incidents d)"
    using g(1) resolve_missing_fold [OF assms(1)] by (simp add: resolveIncidentsForMissingApps_def)
  have key: "ir_key r = i_Key i" if "scanIncident q r = Some i" for q r i
    using that by (auto simp: scanIncident_def)
  have "?P r \<longleftrightarrow> ir_project_id r = p_Id p \<and> ir_resolved_at r = 0 \<and>
      GetApplication world (i_ApplicationId (the (scanIncident (p_Id p) r))) = None" if r: "r \<in> set (db_incidents d)" for r
  proof
    assume "?P r"
    then obtain i s where i: "ir_key r = i_Key i" "GetApplication world (i_ApplicationId i) = None" "ir_project_id r = p_Id p"
        "s \<in> set (db_incidents d)" "ir_project_id s = p_Id p" "ir_resolved_at s = 0" "scanIncident (p_Id p) s = Some i"
      using g(2) by auto
    then have "row_key r = row_key s" using key [OF i(7)] by (simp add: row_key_def)
    then have "r = s" using assms(2) r i(4) by (metis distinct_map inj_onD)
    then show "ir_project_id r = p_Id p \<and> ir_resolved_at r = 0 \<and>
      GetApplication world (i_ApplicationId (the (scanIncident (p_Id p) r))) = None" using i by simp
  next
    assume m: "ir_project_id r = p_Id p \<and> ir_resolved_at r = 0 \<and>
      GetApplication world (i_ApplicationId (the (scanIncident (p_Id p) r))) = None"
    obtain i where i: "scanIncident (p_Id p) r = Some i" using scans r by blast
    then have "i \<in> {i \<in> set is'. GetApplication world (i_ApplicationId i) = None}" using g(2) m r by auto
    then have "i_Key i \<in> i_Key ` {i \<in> set is'. GetApplication world (i_ApplicationId i) = None}" by (rule imageI)
    then show "?P r" using m key [OF i] by simp
  qed
  then show ?thesis unfolding u update_rows_def by (intro map_cong) auto
qed

subsection \<open>Burn rates without failures\<close>

lemma burn_threshold: "round32 False (72 / 5) = Fin (7549747 / 524288)"
  by code_simp

definition zeroish :: "f32 \<Rightarrow> bool" where
  "zeroish x \<longleftrightarrow> x \<in> {Fin 0, NegZero, NaN}"

lemma round32_0: "round32 b 0 = (if b then NegZero else Fin 0)"
  by (cases b) simp_all

lemma zeroish_div: "zeroish x \<Longrightarrow> zeroish (f32_div x y)"
  unfolding zeroish_def
  by (cases y) (auto simp: f32_div_def Let_def signed_zero_def f32_is_zero_def round32_0)

lemma AlertRules_thresholds: "r \<in> set AlertRules \<Longrightarrow> zeroish x \<Longrightarrow> \<not> f32_gt x (ar_BurnRateThreshold r)"
  by (auto simp: AlertRules_def zeroish_def burn_threshold f32_lt_def)

lemma zero_burn_rates:
  assumes "\<And>t. zeroish (bad t)"
  shows "br \<in> set (calcBurnRates now bad tot pct) \<Longrightarrow> br_Severity br = OK"
  using AlertRules_thresholds zeroish_div [OF zeroish_div [OF assms]]
  by (auto simp: calcBurnRates_def calcBurnRate_def Let_def split: if_splits)

lemma iter_points_values: "v \<in> snd ` set (iter_points i) \<Longrightarrow> v \<in> set (it_data i)"
proof (induction i rule: iter_points.induct)
  case (1 i)
  obtain ok i' where n: "Iterator_Next i = (ok, i')" by force
  have d: "it_data i' = it_data i" "ok \<Longrightarrow> it_v i' \<in> set (it_data i)"
    using n by (cases "0 \<le> it_idx i + 1"; auto simp: Iterator_Next_def Let_def split: if_splits intro!: nth_mem)+
  show ?case
  proof (cases ok)
    case True
    then have "v = it_v i' \<or> v \<in> snd ` set (iter_points i')"
      using 1(2) n by (subst (asm) iter_points.simps) (auto simp: Iterator_Value_def)
    then show ?thesis using 1(1) [of "Iterator_Next i" ok i'] n d True by auto
  next
    case False
    then show ?thesis using 1(2) n by (subst (asm) iter_points.simps) simp
  qed
qed

lemma failedSum_zero:
  assumes "set (ts_data ts) \<subseteq> {NaN, Fin 0}"
  shows "failedSum (Some ts) f = Fin 0"
proof -
  have "it_data (IterFrom (Some ts) f) \<in> {[], ts_data ts}"
    by (auto simp: IterFrom_def nil_iterator_def Let_def)
  then have "v \<in> {NaN, Fin 0}" if "v \<in> snd ` set (iter_points (IterFrom (Some ts) f))" for v
    using iter_points_values [OF that] assms by auto
  then have "foldl (\<lambda>s (_, v). if IsNaN v then s else f32_add s v) (Fin 0) xs = Fin 0"
    if "set xs \<subseteq> set (iter_points (IterFrom (Some ts) f))" for xs
    using that
  proof (induction xs)
    case (Cons x xs)
    then have "snd x \<in> {NaN, Fin 0}" by auto
    then show ?case using Cons by (cases x) (auto simp: f32_add_def)
  qed simp
  then show ?thesis by (simp add: failedSum_def)
qed

subsection \<open>Closing what is open\<close>














subsection \<open>The order of sending\<close>

definition incident_row_ident :: "IncidentNotificationRow \<Rightarrow> send_ident" where
  "incident_row_ident r =
     (inr_project_id r, inr_incident_key r, inr_status r, inr_timestamp r, Destination_Scan (inr_destination r))"

definition due_incident_rows :: "Time \<Rightarrow> DB \<Rightarrow> IncidentNotificationRow list" where
  "due_incident_rows f d =
     sort_by incident_send_order (filter (\<lambda>r. inr_timestamp r \<ge> f \<and> inr_sent_at r = 0) (db_incident_notifications d))"

lemma scan_incident_notifications_ident:
  "scan_incident_notifications rows = Some ns \<Longrightarrow> map incident_ident ns = map incident_row_ident rows"
  unfolding scan_incident_notifications_def
proof (induction rows arbitrary: ns)
  case (Cons r rows)
  then show ?case
    by (auto simp: scan_incident_notification_def incident_ident_def incident_row_ident_def split: option.splits)
qed simp

lemma NotSent_due_incidents:
  "GetNotSentIncidentNotifications e f d = (Inr ns, d') \<Longrightarrow> map incident_ident ns = map incident_row_ident (due_incident_rows f d)"
  unfolding GetNotSentIncidentNotifications_def
  by (drule query_Inr) (auto simp: due_incident_rows_def dest: scan_incident_notifications_ident)

subsection \<open>A concrete objective\<close>

text \<open>One sample of a hundred requests in every window, of which a number failed, under an objective of 99%.\<close>

definition demo_series :: "f32 \<Rightarrow> TimeSeries option" where
  "demo_series v = Some (NewWithData 3300 300 [v])"

definition demo_slo_app :: "f32 \<Rightarrow> Application" where
  "demo_slo_app failed = demo_app\<lparr>app_AvailabilitySLIs :=
     [\<lparr>as_ObjectivePercentage = Fin 99, as_TotalRequestsRaw = demo_series (Fin 100), as_FailedRequestsRaw = demo_series failed\<rparr>]\<rparr>"

lemma demo_points:
  assumes "t \<in> {0, -18000, 2700, 3300}"
  shows "iter_points (IterFrom (demo_series v) t) = [(3300, v)]"
proof -
  have "IterFrom (demo_series v) t = \<lparr>it_step = 300, it_data = [v], it_idx = -1, it_t = 3000, it_v = Fin 0\<rparr>"
    using assms by (auto simp: IterFrom_def demo_series_def NewWithData_def Let_def Time_Truncate_def smod_nonneg)
  then show ?thesis
    by (simp, subst iter_points.simps, simp add: Iterator_Next_def Iterator_Value_def,
        subst iter_points.simps, simp add: Iterator_Next_def)
qed

lemma demo_floats:
  "f32_add (Fin 0) (Fin 100) = Fin 100" "f32_add (Fin 0) (Fin 50) = Fin 50" "f32_add (Fin 0) (Fin 0) = Fin 0"
  "f32_div (f32_of_int 1) (f32_of_int 1) = Fin 1" "\<not> f32_lt (Fin 1) (Fin (1 / 2))"
  by code_simp+

lemma demo_sums:
  assumes "t \<in> {0, -18000, 2700, 3300}"
  shows "totalSum (demo_series (Fin 100)) t = Fin 100" "failedSum (demo_series (Fin 50)) t = Fin 50"
    "failedSum (demo_series (Fin 0)) t = Fin 0"
  by (simp_all add: totalSum_def failedSum_def window_sum_def demo_points [OF assms] demo_floats)

lemma demo_rates:
  "f32_div (Fin 50) (Fin 100) = Fin (1 / 2)"
  "f32_div (Fin 0) (Fin 100) = Fin 0"
  "f32_gt (f32_div (Fin (1 / 2)) (f32_sub (Fin 1) (f32_div (Fin 99) (Fin 100)))) (Fin 6)"
  "f32_gt (f32_div (Fin (1 / 2)) (f32_sub (Fin 1) (f32_div (Fin 99) (Fin 100)))) (round32 False (72 / 5))"
  by code_simp+

lemma demo_availability:
  "availability (w_Ctx demo_world) (demo_slo_app (Fin f)) =
     (calcBurnRates 3600 (failedSum (demo_series (Fin f))) (totalSum (demo_series (Fin 100))) (Fin 99),
      Some (failedSum (demo_series (Fin f)), totalSum (demo_series (Fin 100))))"
  by (simp add: availability_def demo_slo_app_def demo_world_def TailIsEmpty_def demo_series_def NewWithData_def Let_def)

lemma demo_slo_status: "app_status (w_Ctx demo_world) (demo_slo_app (Fin 50)) = CRITICAL"
proof -
  have "latency (w_Ctx demo_world) (demo_slo_app (Fin 50)) = ([], None)"
    by (simp add: latency_def demo_slo_app_def demo_app_def)
  then show ?thesis
    using demo_sums demo_rates
    by (simp add: app_status_def demo_availability calcBurnRates_def calcBurnRate_def AlertRules_def duration_defs
        worst_def less_Status_def Let_def)
qed

definition demo_incident_row :: "string \<Rightarrow> IncidentRow" where
  "demo_incident_row name = \<lparr>ir_project_id = ''p1'', ir_application_id = ''c1:ns:Deployment:'' @ name, ir_key = name,
     ir_opened_at = 900, ir_resolved_at = 0, ir_severity = CRITICAL,
     ir_details = \<lparr>id_AvailabilityBurnRates = [], id_LatencyBurnRates = [], id_AvailabilityImpact = Fin 0, id_LatencyImpact = Fin 0\<rparr>,
     ir_rca = None, ir_rca_status = None, ir_rca_summary = None\<rparr>"



subsection \<open>Properties\<close>

text \<open>
  C6. An application has at most one open incident, in every state that passes of the watcher, analyses
  by users and resends can reach, whatever statements fail.
\<close>

theorem reachable_one_open_incident:
  assumes "(incident_step e)\<^sup>*\<^sup>* d0 d" and "incidents_ok d0" and "\<forall>n. env_now e n \<noteq> 0"
  shows "count_rows (open_key_row p appId) (db_incidents d) \<le> 1"
proof -
  have "incidents_ok d"
    using assms(1)
  proof (induction rule: rtranclp_induct)
    case (step s s')
    then show ?case using incident_step_ok assms(3) by blast
  qed (rule assms(2))
  then show ?thesis by (simp add: incidents_ok_def)
qed

lemma incidents_ok_empty: "incidents_ok empty_db"
  by (simp add: incidents_ok_def empty_db_def count_rows_def)

lemma demo_env_clock: "\<forall>n. env_now demo_env n \<noteq> 0"
  by (simp add: demo_env_def)

theorem reachable_one_open_incident_witness:
  "count_rows (open_key_row ''p1'' ''c1:ns:Deployment:app'')
     (db_incidents (Incidents_Check demo_env None demo_project demo_world empty_db)) \<le> 1"
proof -
  have "(incident_step demo_env)\<^sup>*\<^sup>* empty_db (Incidents_Check demo_env None demo_project demo_world empty_db)"
    using incident_step.check [OF program_no_rca, of demo_env empty_db] by (rule r_into_rtranclp)
  from reachable_one_open_incident [OF this incidents_ok_empty demo_env_clock] show ?thesis .
qed

text \<open>
  C7. The step of a pass for one application, when no statement fails: afterwards the application has an
  open incident exactly when one of its objectives is violated; when its status is unknown (it has no
  objectives, or no data for them) it has one exactly when it had one before. The incidents of other
  applications stay as they were. Assumed are the table's invariant (distinct keys, at most one open
  incident), a callback of the analysis that writes only analyses, and that neither the new key nor another
  incident of the application opened at the same second is in the table.
\<close>

theorem incident_follows_status:
  assumes "reliable e" "rca_writes_only_analysis rca" "now \<noteq> 0"
    and "distinct (map row_key (db_incidents d))"
    and "count_rows (open_incident_row (p_Id p) (app_Id app)) (db_incidents d) \<le> 1"
    and fresh: "\<not> list_ex (\<lambda>r. ir_project_id r = p_Id p \<and> (ir_key r = env_nano e (db_ids d) \<or>
        ir_application_id r = ApplicationId_String (app_Id app) \<and> ir_opened_at r = now)) (db_incidents d)"
  shows "list_ex (open_incident_row (p_Id p) (app_Id app)) (db_incidents (check_incident e rca p world now app d)) =
       (if app_status (w_Ctx world) app = UNKNOWN then list_ex (open_incident_row (p_Id p) (app_Id app)) (db_incidents d)
        else app_status (w_Ctx world) app > OK) \<and>
     list_all (\<lambda>r. open_incident_row (p_Id p) (app_Id app) r \<or> row_stays r (check_incident e rca p world now app d)) (db_incidents d)"
proof (intro conjI)
  let ?open = "list_ex (open_incident_row (p_Id p) (app_Id app))"
  let ?status = "app_status (w_Ctx world) app"
  consider (unknown) "?status = UNKNOWN" | (violated) "?status > OK" | (ok) "?status = OK"
    by (cases ?status) (auto simp: less_Status_def)
  then show "?open (db_incidents (check_incident e rca p world now app d)) =
      (if ?status = UNKNOWN then ?open (db_incidents d) else ?status > OK)"
  proof cases
    case unknown
    then show ?thesis by (simp add: check_incident_def Let_def)
  next
    case violated
    then have "?status \<noteq> UNKNOWN" by (auto simp: less_Status_def)
    moreover have "?open (db_incidents (check_incident e rca p world now app d))"
      using check_incident_opens [OF assms(1,2) violated _ fresh] check_incident_keeps [OF assms(1,2) violated] by blast
    ultimately show ?thesis using violated by simp
  next
    case ok
    then show ?thesis using check_incident_resolves [OF assms(1,2) ok assms(3,4,5)] by simp
  qed
  show "list_all (\<lambda>r. open_incident_row (p_Id p) (app_Id app) r \<or> row_stays r (check_incident e rca p world now app d)) (db_incidents d)"
    unfolding list_all_iff using check_incident_frame [OF assms(2,4)] by blast
qed

theorem incident_follows_status_witness:
  "list_ex (open_incident_row ''p1'' (app_Id demo_app))
     (db_incidents (check_incident demo_env None demo_project demo_world 1000 (demo_slo_app (Fin 50)) empty_db))"
proof -
  have "app_Id (demo_slo_app (Fin 50)) = app_Id demo_app" "p_Id demo_project = ''p1''" "db_incidents empty_db = []"
    by (simp_all add: demo_slo_app_def demo_project_def empty_db_def)
  then show ?thesis
    using incident_follows_status [of demo_env None 1000 empty_db demo_project "demo_slo_app (Fin 50)" demo_world]
      demo_slo_status by (simp add: count_rows_def less_Status_def)
qed

text \<open>
  C8. When no statement fails, all incidents can be scanned and keys are distinct, the end of a pass
  resolves exactly the open incidents whose application does not exist any more, at the time of the pass,
  and changes nothing else.
\<close>

theorem missing_applications_resolved:
  assumes "reliable e" "distinct (map row_key (db_incidents d))"
    and "\<forall>r\<in>set (db_incidents d). scanIncident (p_Id p) r \<noteq> None"
  shows "db_incidents (resolveIncidentsForMissingApps e p world now d) =
    map (\<lambda>r. if ir_project_id r = p_Id p \<and> ir_resolved_at r = 0 \<and>
                 GetApplication world (i_ApplicationId (the (scanIncident (p_Id p) r))) = None
              then r\<lparr>ir_resolved_at := now\<rparr> else r) (db_incidents d)"
  using assms by (rule missing_resolved)

theorem missing_applications_resolved_witness:
  "map ir_resolved_at (db_incidents (resolveIncidentsForMissingApps demo_env demo_project demo_world 1000
     (empty_db\<lparr>db_incidents := [demo_incident_row ''app'', demo_incident_row ''gone'']\<rparr>))) = [0, 1000]"
proof -
  let ?d = "empty_db\<lparr>db_incidents := [demo_incident_row ''app'', demo_incident_row ''gone'']\<rparr>"
  have 1: "\<forall>r\<in>set (db_incidents ?d). scanIncident (p_Id demo_project) r \<noteq> None" by code_simp
  have 2: "distinct (map row_key (db_incidents ?d))" by code_simp
  show ?thesis unfolding missing_applications_resolved [OF reliable_demo_env 2 1] by code_simp
qed

text \<open>
  An application none of whose requests failed never violates its availability objective: every burn
  rate of its availability is in order.
\<close>

theorem no_failures_no_violation:
  assumes "\<forall>sli\<in>set (app_AvailabilitySLIs app).
    (case as_FailedRequestsRaw sli of None \<Rightarrow> True | Some ts \<Rightarrow> set (ts_data ts) \<subseteq> {NaN, Fin 0})"
    and "br \<in> set (fst (availability ctx app))"
  shows "br_Severity br = OK"
proof (cases "app_AvailabilitySLIs app")
  case Nil
  then show ?thesis using assms(2) by (simp add: availability_def)
next
  case (Cons sli slis)
  let ?f = "case as_FailedRequestsRaw sli of None \<Rightarrow> (\<lambda>_. Fin 0) | Some ts \<Rightarrow> failedSum (Some ts)"
  have "zeroish (?f t)" for t
    using assms(1) Cons failedSum_zero by (auto simp: zeroish_def split: option.splits)
  then show ?thesis
    using assms(2) Cons zero_burn_rates [of ?f] by (auto simp: availability_def Let_def split: if_splits)
qed


text \<open>
  A pass over the queue of incident notifications tries the unsent ones of the last hour in the order
  of the queue, each at most once, and nothing more at a destination of a project after a failure there.
\<close>

theorem sendIncidents_in_order:
  "\<exists>evs. db_trace (sendIncidents e d) = db_trace d @ evs \<and> stops_after_failure evs \<and>
     subseq (map ev_ident evs) (map incident_row_ident (due_incident_rows (env_now e (db_ticks d) - Hour) d))"
proof -
  obtain r1 d1 where p: "GetProjects e d = (r1, d1)" by force
  obtain now d2 where n: "Now e d1 = (now, d2)" by force
  obtain r3 d3 where q: "GetNotSentIncidentNotifications e (now - retryWindow) d2 = (r3, d3)" by force
  have t1: "db_trace d1 = db_trace d" "db_incident_notifications d1 = db_incident_notifications d" "db_ticks d1 = db_ticks d"
    using p by (auto simp: GetProjects_def query_def sql_def Let_def split: if_splits)
  have t2: "db_trace d2 = db_trace d" "db_incident_notifications d2 = db_incident_notifications d"
    using n t1 by (auto simp: Now_def)
  have now: "now = env_now e (db_ticks d)" using n t1 by (simp add: Now_def)
  have t3: "db_trace d3 = db_trace d"
    using q t2 unfolding GetNotSentIncidentNotifications_def by (auto dest: trace_query)
  show ?thesis
  proof (cases "\<exists>ps ns. r1 = Inr ps \<and> ps \<noteq> [] \<and> r3 = Inr ns")
    case True
    then obtain ps ns where ok: "r1 = Inr ps" "ps \<noteq> []" "r3 = Inr ns" by auto
    have "map incident_ident ns = map incident_row_ident (due_incident_rows (env_now e (db_ticks d) - Hour) d)"
      using NotSent_due_incidents [OF q [unfolded ok(3)]] t2 by (simp add: due_incident_rows_def retryWindow_def now)
    then show ?thesis
      using incident_pass.loop_trace [of e ps "[]" ns d3] ok t3 by (auto simp: sendIncidents_def p n q)
  next
    case False
    then have "db_trace (sendIncidents e d) = db_trace d"
      using t1 t2 t3 by (auto simp: sendIncidents_def p n q split: sum.splits)
    then show ?thesis by (intro exI [of _ "[]"]) simp
  qed
qed

end
