(* ===== verification/DeploymentModel.thy ===== *)
theory DeploymentModel
  imports Checks Categories
begin

text \<open>
  Deployments of an application (\<^verbatim>\<open>model/application_deployment.go\<close>): the state of a rollout, the summary of its
  metrics compared with the previous one, and the part of an application that the watcher reads.
\<close>

subsection \<open>Data\<close>

definition ApplicationDeploymentMetricsSnapshotShift :: Duration where
  "ApplicationDeploymentMetricsSnapshotShift = 10 * Minute"
definition ApplicationDeploymentMetricsSnapshotWindow :: Duration where
  "ApplicationDeploymentMetricsSnapshotWindow = 20 * Minute"
definition significantPercentageDifference :: f32 where "significantPercentageDifference = Fin 5"

datatype ApplicationDeploymentState = StateStarted | StateInProgress | StateStuck | StateCancelled | StateDeployed | StateSummary

fun state_rank :: "ApplicationDeploymentState \<Rightarrow> nat" where
  "state_rank StateStarted = 0"
| "state_rank StateInProgress = 1"
| "state_rank StateStuck = 2"
| "state_rank StateCancelled = 3"
| "state_rank StateDeployed = 4"
| "state_rank StateSummary = 5"

lemma state_rank_inject [simp]: "state_rank a = state_rank b \<longleftrightarrow> a = b"
  by (cases a; cases b) simp_all

instantiation ApplicationDeploymentState :: linorder
begin

definition less_eq_ApplicationDeploymentState :: "ApplicationDeploymentState \<Rightarrow> ApplicationDeploymentState \<Rightarrow> bool" where
  "less_eq_ApplicationDeploymentState a b \<longleftrightarrow> state_rank a \<le> state_rank b"

definition less_ApplicationDeploymentState :: "ApplicationDeploymentState \<Rightarrow> ApplicationDeploymentState \<Rightarrow> bool" where
  "less_ApplicationDeploymentState a b \<longleftrightarrow> state_rank a < state_rank b"

instance
  by standard (auto simp: less_eq_ApplicationDeploymentState_def less_ApplicationDeploymentState_def)

end

lemmas state_order_defs = less_eq_ApplicationDeploymentState_def less_ApplicationDeploymentState_def

text \<open>The histogram of latencies is a Go map from the text of a bound to a count, in the order of its iteration.\<close>

record MetricsSnapshot =
  ms_Timestamp :: Time
  ms_Duration :: Duration
  ms_Requests :: int
  ms_Errors :: int
  ms_Latency :: "(string \<times> int) list"
  ms_Restarts :: int
  ms_CPUUsage :: f32
  ms_MemoryLeakPercent :: f32
  ms_MemoryUsage :: int
  ms_OOMKills :: int
  ms_LogErrors :: int
  ms_LogWarnings :: int

record SlackState =
  ss_State :: ApplicationDeploymentState
  ss_Channel :: string
  ss_ThreadTs :: string

record ApplicationDeploymentNotifications =
  dn_State :: ApplicationDeploymentState
  dn_Slack :: SlackState
  dn_Teams :: ApplicationDeploymentState
  dn_Webhook :: ApplicationDeploymentState

definition no_notifications :: ApplicationDeploymentNotifications where
  "no_notifications = \<lparr>dn_State = StateStarted, dn_Slack = \<lparr>ss_State = StateStarted, ss_Channel = [], ss_ThreadTs = []\<rparr>,
     dn_Teams = StateStarted, dn_Webhook = StateStarted\<rparr>"

text \<open>The details are the list of container images.\<close>

record ApplicationDeployment =
  dp_ApplicationId :: ApplicationId
  dp_Name :: string
  dp_StartedAt :: Time
  dp_FinishedAt :: Time
  dp_Details :: "string list option"
  dp_MetricsSnapshot :: "MetricsSnapshot option"
  dp_Notifications :: "ApplicationDeploymentNotifications option"

definition Deployment_Hash :: "ApplicationDeployment \<Rightarrow> string" where
  "Deployment_Hash d = LastPart (dp_Name d) CHR ''-''"

definition Deployment_Id :: "ApplicationDeployment \<Rightarrow> string" where
  "Deployment_Id d = Deployment_Hash d @ '':'' @ Itoa (dp_StartedAt d)"

subsection \<open>Applications with their instances\<close>

record Pod =
  pod_ReplicaSet :: string
  pod_LifeSpan :: "TimeSeries option"

record Container =
  ct_Image :: string
  ct_CpuUsage :: "TimeSeries option"
  ct_MemoryRss :: "TimeSeries option"
  ct_MemoryLimit :: "TimeSeries option"
  ct_Restarts :: "TimeSeries option"
  ct_OOMKills :: "TimeSeries option"

record NodePrice =
  np_PerCPUCore :: f32
  np_PerMemoryByte :: f32

text \<open>An instance with the price of its node, if the node is known and has one.\<close>

record PodInstance =
  pi_Pod :: "Pod option"
  pi_Containers :: "Container list"
  pi_Price :: "NodePrice option"

record AvailabilityRequests =
  ar_TotalRequests :: "TimeSeries option"
  ar_FailedRequests :: "TimeSeries option"

record DeployedApp =
  da_Id :: ApplicationId
  da_Category :: ApplicationCategory
  da_Instances :: "PodInstance list"
  da_Deployments :: "ApplicationDeployment list"
  da_AvailabilitySLIs :: "AvailabilityRequests list"
  da_LatencySLIs :: "HistogramBucket list list"
  da_LogMessages :: "(Severity \<times> TimeSeries option) list"

subsection \<open>Summary of a deployment\<close>

record ApplicationDeploymentSummary =
  su_Report :: AuditReportName
  su_Ok :: bool
  su_Message :: string
  su_Time :: Time

text \<open>\<^verbatim>\<open>strconv.ParseFloat(s, 32)\<close> on the texts that \<^verbatim>\<open>%.3f\<close> makes: a decimal number or an infinity.\<close>

definition parse_f32 :: "string \<Rightarrow> f32 option" where
  "parse_f32 s =
     (if s = ''+Inf'' then Some PInf else if s = ''-Inf'' then Some NInf else if s = ''NaN'' then Some NaN
      else
        (let neg = has_prefix s ''-''; u = (if neg then tl s else s); parts = strings_Split u CHR ''.''
         in case parts of
              [a] \<Rightarrow> map_option (\<lambda>n. round32 neg (if neg then - of_nat n else of_nat n)) (parse_digits a)
            | [a, b] \<Rightarrow>
                (case parse_digits (a @ b) of
                   None \<Rightarrow> None
                 | Some n \<Rightarrow> (let q = of_nat n / 10 ^ length b in Some (round32 neg (if neg then - q else q))))
            | _ \<Rightarrow> None))"

definition getFastRequestsCount :: "(string \<times> int) list \<Rightarrow> f32 \<Rightarrow> f32" where
  "getFastRequestsCount histogram objectiveBucket =
     (let buckets = sort_by (\<lambda>a b. \<not> f32_lt (fst b) (fst a)) (List.map_filter (\<lambda>(le, n). map_option (\<lambda>v. (v, n)) (parse_f32 le)) histogram)
      in fold (\<lambda>b _. f32_of_int (snd b)) (takeWhile (\<lambda>b. f32_le (fst b) objectiveBucket) buckets) NaN)"

definition percent_of :: "f32 \<Rightarrow> int \<Rightarrow> f32" where
  "percent_of x total_n = f32_div (f32_mul x (Fin 100)) (f32_of_int total_n)"

definition availability_of :: "MetricsSnapshot \<Rightarrow> f32" where
  "availability_of m = percent_of (f32_of_int (int64 (ms_Requests m - ms_Errors m))) (ms_Requests m)"

definition summary_availability :: "f32 \<Rightarrow> MetricsSnapshot \<Rightarrow> MetricsSnapshot option \<Rightarrow> (AuditReportName \<times> bool \<times> string) list \<times> Status" where
  "summary_availability objective cur prev =
     (let v = availability_of cur;
          msg = ''Availability: '' @ FormatPercentage v @ '' (objective: '' @ FormatPercentage objective @ '')''
      in if \<not> ms_Requests cur > 0 then ([], OK)
         else if f32_lt v objective then ([(AuditReportSLO, False, msg)], CRITICAL)
         else (case prev of
                 Some p \<Rightarrow> (if ms_Requests p > 0 \<and> f32_lt (availability_of p) objective then [(AuditReportSLO, True, msg)] else [], OK)
               | None \<Rightarrow> ([], OK)))"

definition summary_latency :: "CheckConfigSLOLatency \<Rightarrow> MetricsSnapshot \<Rightarrow> MetricsSnapshot option \<Rightarrow> Status
    \<Rightarrow> (AuditReportName \<times> bool \<times> string) list \<times> Status" where
  "summary_latency conf cur prev status =
     (let fast = getFastRequestsCount (ms_Latency cur) (cl_ObjectiveBucket conf);
          v = percent_of fast (ms_Requests cur);
          msg = ''Latency: '' @ FormatPercentage v @ '' of requests faster '' @ FormatFloat (f32_mul (cl_ObjectiveBucket conf) (Fin 1000)) @
            ''ms (objective: '' @ FormatPercentage (cl_ObjectivePercentage conf) @ '')''
      in if IsNaN fast then ([], status)
         else if f32_lt v (cl_ObjectivePercentage conf) then ([(AuditReportSLO, False, msg)], CRITICAL)
         else (case prev of
                 Some p \<Rightarrow>
                   (let pf = getFastRequestsCount (ms_Latency p) (cl_ObjectiveBucket conf)
                    in if \<not> IsNaN pf \<and> f32_lt (percent_of pf (ms_Requests p)) (cl_ObjectivePercentage conf)
                       then ([(AuditReportSLO, True, msg)], status) else ([], status))
               | None \<Rightarrow> ([], status)))"

text \<open>The sum of the prices of the instances' nodes and their number, and the change of the costs as text.\<close>

definition prices :: "(NodePrice \<Rightarrow> f32) \<Rightarrow> DeployedApp \<Rightarrow> f32 \<times> f32" where
  "prices price app =
     fold (\<lambda>i (t, n). case pi_Price i of None \<Rightarrow> (t, n) | Some p \<Rightarrow> (f32_add t (price p), f32_add n (Fin 1))) (da_Instances app) (Fin 0, Fin 0)"

definition costs_text :: "f32 \<times> f32 \<Rightarrow> f32 \<Rightarrow> f32 \<Rightarrow> string" where
  "costs_text pr usage diffPercent =
     (let (totalPrice, n) = pr; avgPrice = f32_div totalPrice n
      in if f32_gt totalPrice (Fin 0)
         then '' ('' @ FormatMoney (f32_mul (f32_div (f32_mul (f32_mul usage avgPrice) diffPercent) (Fin 100)) (f32_of_int Month)) @ ''/mo)''
         else [])"

definition significant :: "f32 \<Rightarrow> bool" where
  "significant diffPercent \<longleftrightarrow> f32_gt (f32_abs diffPercent) significantPercentageDifference"

definition summary_cpu :: "DeployedApp \<Rightarrow> MetricsSnapshot \<Rightarrow> MetricsSnapshot option \<Rightarrow> (AuditReportName \<times> bool \<times> string) list" where
  "summary_cpu app cur prev =
     (case prev of
        None \<Rightarrow> []
      | Some p \<Rightarrow>
          if ms_Requests cur > 0 \<and> ms_Requests p > 0 \<and> f32_gt (ms_CPUUsage cur) (Fin 0) \<and> f32_gt (ms_CPUUsage p) (Fin 0)
          then (let perRequestCurr = f32_div (ms_CPUUsage cur) (f32_of_int (ms_Requests cur));
                    perRequestPrev = f32_div (ms_CPUUsage p) (f32_of_int (ms_Requests p));
                    diffPercent = f32_div (f32_mul (f32_sub perRequestCurr perRequestPrev) (Fin 100)) perRequestPrev
                in if significant diffPercent
                   then [(AuditReportCPU, f32_lt diffPercent (Fin 0),
                          ''CPU usage: '' @ Sprintf_f True 0 diffPercent @ ''%'' @
                          costs_text (prices np_PerCPUCore app)
                            (f32_div (ms_CPUUsage p) (f32_of_int ApplicationDeploymentMetricsSnapshotWindow)) diffPercent @
                          '' compared to the previous deployment'')]
                   else [])
          else [])"

definition summary_memory :: "Formatters \<Rightarrow> DeployedApp \<Rightarrow> MetricsSnapshot \<Rightarrow> MetricsSnapshot option \<Rightarrow> (AuditReportName \<times> bool \<times> string) list" where
  "summary_memory fm app cur prev =
     (if ms_OOMKills cur > 0
      then [(AuditReportMemory, False, ''Memory: app containers have been restarted '' @ fm_Plural fm (ms_OOMKills cur) ''time'' @ '' by the OOM killer'')]
      else []) @
     (case prev of
        None \<Rightarrow> []
      | Some p \<Rightarrow>
          if ms_MemoryUsage cur > 0 \<and> ms_MemoryUsage p > 0
          then (let diffPercent = percent_of (f32_of_int (int64 (ms_MemoryUsage cur - ms_MemoryUsage p))) (ms_MemoryUsage p)
                in if significant diffPercent
                   then [(AuditReportMemory, f32_lt diffPercent (Fin 0),
                          ''Memory usage: '' @ Sprintf_f True 0 diffPercent @ ''%'' @
                          costs_text (prices np_PerMemoryByte app) (f32_of_int (ms_MemoryUsage p)) diffPercent @
                          '' compared to the previous deployment'')]
                   else [])
          else []) @
     (if f32_gt (ms_MemoryLeakPercent cur) significantPercentageDifference
      then [(AuditReportMemory, False, ''Memory: a memory leak detected ('' @ Sprintf_f True 0 (ms_MemoryLeakPercent cur) @ ''% per hour)'')]
      else
        (case prev of
           Some p \<Rightarrow>
             (if f32_gt (ms_MemoryLeakPercent p) significantPercentageDifference
              then [(AuditReportMemory, True, ''Memory: looks like the memory leak has been fixed'')] else [])
         | None \<Rightarrow> []))"

definition summary_restarts :: "Formatters \<Rightarrow> MetricsSnapshot \<Rightarrow> (AuditReportName \<times> bool \<times> string) list" where
  "summary_restarts fm cur =
     (let restarts = int64 (ms_Restarts cur - ms_OOMKills cur)
      in if restarts > 0
         then [(AuditReportInstances, False, ''Crash: app containers have been restarted '' @ fm_Plural fm restarts ''time'')]
         else [])"

definition summary_logs :: "MetricsSnapshot \<Rightarrow> MetricsSnapshot option \<Rightarrow> (AuditReportName \<times> bool \<times> string) list" where
  "summary_logs cur prev =
     (if \<not> ms_LogErrors cur > 0 then []
      else
        (case prev of
           None \<Rightarrow> [(AuditReportLogs, False, ''Logs: there are errors in the logs'')]
         | Some p \<Rightarrow>
             (if ms_LogErrors p = 0 then [(AuditReportLogs, False, ''Logs: there are errors in the logs'')]
              else if ms_LogErrors p > 0 \<and> ms_Requests cur > 0 \<and> ms_Requests p > 0
              then
                (if ms_LogErrors cur = 0 then [(AuditReportLogs, True, ''Logs: there are no more errors in the logs'')]
                 else
                   (let perRequestCurr = f32_div (f32_of_int (ms_LogErrors cur)) (f32_of_int (ms_Requests cur));
                        perRequestPrev = f32_div (f32_of_int (ms_LogErrors p)) (f32_of_int (ms_Requests p));
                        diff = f32_div (f32_mul (f32_sub perRequestCurr perRequestPrev) (Fin 100)) perRequestPrev
                    in if significant diff
                       then [(AuditReportLogs, f32_lt diff (Fin 0),
                              ''Logs: the number of errors in the logs has '' @ (if f32_lt diff (Fin 0) then ''decreased'' else ''increased'') @
                              '' by '' @ Itoa (int64_of_f32 (f32_abs diff)) @ ''%'')]
                       else []))
              else [])))"

definition CalcApplicationDeploymentSummary :: "Formatters \<Rightarrow> DeployedApp \<Rightarrow> CheckConfigs \<Rightarrow> Time \<Rightarrow> MetricsSnapshot \<Rightarrow> MetricsSnapshot option
    \<Rightarrow> ApplicationDeploymentSummary list \<times> Status" where
  "CalcApplicationDeploymentSummary fm app checkConfigs t cur prev =
     (let availabilityCfg = fst (GetAvailability checkConfigs (da_Id app));
          latencyCfg = fst (GetLatency checkConfigs (da_Id app) (da_Category app));
          (r1, st1) = summary_availability (ca_ObjectivePercentage availabilityCfg) cur prev;
          (r2, st2) = summary_latency latencyCfg cur prev st1
      in (map (\<lambda>(r, ok, msg). \<lparr>su_Report = r, su_Ok = ok, su_Message = msg, su_Time = t\<rparr>)
            (r1 @ r2 @ summary_cpu app cur prev @ summary_memory fm app cur prev @ summary_restarts fm cur @ summary_logs cur prev),
          st2))"

subsection \<open>Statuses of deployments\<close>

record ApplicationDeploymentStatus =
  st_Status :: Status
  st_State :: ApplicationDeploymentState
  st_Message :: string
  st_Lifetime :: Duration
  st_Summary :: "ApplicationDeploymentSummary list"
  st_Deployment :: ApplicationDeployment
  st_Last :: bool

text \<open>The snapshot of the nearest earlier deployment that has one.\<close>

definition previous_snapshot :: "ApplicationDeployment list \<Rightarrow> nat \<Rightarrow> MetricsSnapshot option" where
  "previous_snapshot ds i =
     (case find (\<lambda>d. dp_MetricsSnapshot d \<noteq> None) (rev (take i ds)) of None \<Rightarrow> None | Some d \<Rightarrow> dp_MetricsSnapshot d)"

definition deployment_status :: "Formatters \<Rightarrow> DeployedApp \<Rightarrow> CheckConfigs \<Rightarrow> Duration \<Rightarrow> Time \<Rightarrow> nat \<Rightarrow> ApplicationDeploymentStatus" where
  "deployment_status fm app checkConfigs durationThreshold now i =
     (let ds = da_Deployments app; d = ds ! i; is_last = (i = length ds - 1);
          s = \<lparr>st_Status = UNKNOWN, st_State = StateStarted, st_Message = [],
               st_Lifetime = (if is_last then now - dp_StartedAt d else dp_StartedAt (ds ! (i + 1)) - dp_StartedAt d),
               st_Summary = [], st_Deployment = d, st_Last = is_last\<rparr>
      in case dp_MetricsSnapshot d of
           Some ms \<Rightarrow>
             (let (found, status) = CalcApplicationDeploymentSummary fm app checkConfigs (dp_StartedAt d) ms (previous_snapshot ds i)
              in s\<lparr>st_State := StateSummary, st_Summary := found, st_Status := status\<rparr>)
         | None \<Rightarrow>
             (if dp_FinishedAt d \<noteq> 0
              then s\<lparr>st_Status := OK, st_State := StateDeployed, st_Message := ''The service has been successfully deployed''\<rparr>
              else if \<not> is_last
              then s\<lparr>st_Status := WARNING, st_State := StateCancelled, st_Message := ''The deployment has been cancelled''\<rparr>
              else if now - dp_StartedAt d > durationThreshold
              then s\<lparr>st_Status := CRITICAL, st_State := StateStuck,
                     st_Message := ''The rollout has been in progress for over '' @ fm_Duration fm durationThreshold 1\<rparr>
              else s\<lparr>st_Status := WARNING, st_State := StateInProgress, st_Message := ''The rollout is in progress''\<rparr>))"

text \<open>The threshold of the check exists, so looking it up cannot panic (\<open>None\<close>).\<close>

definition CalcApplicationDeploymentStatuses :: "Formatters \<Rightarrow> DeployedApp \<Rightarrow> CheckConfigs \<Rightarrow> Time \<Rightarrow> ApplicationDeploymentStatus list option" where
  "CalcApplicationDeploymentStatuses fm app checkConfigs now =
     (case GetSimple checkConfigs ''DeploymentStatus'' (da_Id app) of
        None \<Rightarrow> None
      | Some conf \<Rightarrow>
          Some (map (deployment_status fm app checkConfigs (int64_of_f32 (cs_Threshold conf)) now) [0..<length (da_Deployments app)]))"

end
