(* ===== verification/DeploymentStore.thy ===== *)
theory DeploymentStore
  imports DeploymentModel
begin

text \<open>
  The table of deployments (\<^verbatim>\<open>db/deployments.go\<close>), whose primary key is the project, the application and the
  time of the start. A statement may fail, then it changes nothing; \<open>fails n\<close> tells whether the n-th does.
  The columns with JSON hold the value they encode. The trace of sent messages stands beside the table.
\<close>

record DeploymentRow =
  dr_project_id :: string
  dr_application_id :: string
  dr_name :: string
  dr_started_at :: Time
  dr_finished_at :: Time
  dr_details :: "string list option"
  dr_metrics_snapshot :: "MetricsSnapshot option"
  dr_notifications :: "ApplicationDeploymentNotifications option"

datatype destination = ToSlack string string | ToTeams string | ToWebhook IntegrationWebhook

text \<open>A message: where to, of which deployment (its application and start), its state, and whether it was accepted.\<close>

type_synonym message = "destination \<times> (ApplicationId \<times> Time) \<times> ApplicationDeploymentState \<times> bool"

record DeploymentDB =
  dd_rows :: "DeploymentRow list"
  dd_stmts :: nat
  dd_trace :: "message list"

definition dep_sql :: "(nat \<Rightarrow> bool) \<Rightarrow> (DeploymentDB \<Rightarrow> DeploymentDB) \<Rightarrow> DeploymentDB \<Rightarrow> bool \<times> DeploymentDB" where
  "dep_sql fails f db =
     (let db1 = db\<lparr>dd_stmts := Suc (dd_stmts db)\<rparr> in if fails (dd_stmts db) then (False, db1) else (True, f db1))"

definition row_of :: "string \<Rightarrow> ApplicationDeployment \<Rightarrow> DeploymentRow \<Rightarrow> bool" where
  "row_of projectId d r \<longleftrightarrow> dr_project_id r = projectId \<and> dr_application_id r = ApplicationId_Value (dp_ApplicationId d) \<and>
     dr_started_at r = dp_StartedAt d"

text \<open>\<^verbatim>\<open>SaveApplicationDeployment\<close>; whether it succeeded.\<close>

definition SaveApplicationDeployment :: "(nat \<Rightarrow> bool) \<Rightarrow> string \<Rightarrow> ApplicationDeployment \<Rightarrow> DeploymentDB \<Rightarrow> bool \<times> DeploymentDB" where
  "SaveApplicationDeployment fails projectId d db =
     (if dp_StartedAt d = 0 then (False, db)
      else
        (let (ok, db1) = dep_sql fails (\<lambda>db. db) db
         in if \<not> ok then (False, db1)
            else
              (case find (row_of projectId d) (dd_rows db1) of
                 None \<Rightarrow>
                   dep_sql fails (\<lambda>db. db\<lparr>dd_rows := dd_rows db @
                     [\<lparr>dr_project_id = projectId, dr_application_id = ApplicationId_Value (dp_ApplicationId d), dr_name = dp_Name d,
                       dr_started_at = dp_StartedAt d, dr_finished_at = dp_FinishedAt d, dr_details = dp_Details d,
                       dr_metrics_snapshot = None, dr_notifications = dp_Notifications d\<rparr>]\<rparr>) db1
               | Some r \<Rightarrow>
                   if dp_FinishedAt d = 0 then (True, db1)
                   else if dr_finished_at r \<noteq> 0 then (True, db1)
                   else dep_sql fails (\<lambda>db. db\<lparr>dd_rows := update_rows (row_of projectId d)
                          (\<lambda>r. r\<lparr>dr_finished_at := dp_FinishedAt d, dr_name := dp_Name d\<rparr>) (dd_rows db)\<rparr>) db1)))"

definition SaveApplicationDeploymentMetricsSnapshot :: "(nat \<Rightarrow> bool) \<Rightarrow> string \<Rightarrow> ApplicationDeployment \<Rightarrow> DeploymentDB \<Rightarrow> bool \<times> DeploymentDB" where
  "SaveApplicationDeploymentMetricsSnapshot fails projectId d =
     dep_sql fails (\<lambda>db. db\<lparr>dd_rows := update_rows (row_of projectId d) (\<lambda>r. r\<lparr>dr_metrics_snapshot := dp_MetricsSnapshot d\<rparr>) (dd_rows db)\<rparr>)"

definition SaveApplicationDeploymentNotifications :: "(nat \<Rightarrow> bool) \<Rightarrow> string \<Rightarrow> ApplicationDeployment \<Rightarrow> DeploymentDB \<Rightarrow> bool \<times> DeploymentDB" where
  "SaveApplicationDeploymentNotifications fails projectId d =
     dep_sql fails (\<lambda>db. db\<lparr>dd_rows := update_rows (row_of projectId d) (\<lambda>r. r\<lparr>dr_notifications := dp_Notifications d\<rparr>) (dd_rows db)\<rparr>)"

text \<open>
  \<^verbatim>\<open>GetApplicationDeployments\<close>: the last hundred deployments of each application, in the order of their
  start. The scan of an id may fail; then the rows before it are returned with the error.
\<close>

definition DeploymentsLastN :: nat where "DeploymentsLastN = 100"

definition row_le :: "DeploymentRow \<Rightarrow> DeploymentRow \<Rightarrow> bool" where
  "row_le r s \<longleftrightarrow> string_le (dr_application_id r) (dr_application_id s) \<and>
     (dr_application_id r = dr_application_id s \<longrightarrow> dr_started_at r \<le> dr_started_at s)"

definition recent_row :: "DeploymentRow list \<Rightarrow> DeploymentRow \<Rightarrow> bool" where
  "recent_row rows r \<longleftrightarrow>
     count_rows (\<lambda>s. dr_application_id s = dr_application_id r \<and> dr_started_at s > dr_started_at r) rows < DeploymentsLastN"

definition scan_deployment :: "DeploymentRow \<Rightarrow> ApplicationDeployment option" where
  "scan_deployment r =
     map_option (\<lambda>i. \<lparr>dp_ApplicationId = i, dp_Name = dr_name r, dp_StartedAt = dr_started_at r, dp_FinishedAt = dr_finished_at r,
        dp_Details = dr_details r, dp_MetricsSnapshot = dr_metrics_snapshot r, dp_Notifications = dr_notifications r\<rparr>)
       (ApplicationId_Scan (Some (dr_application_id r)))"

fun scan_deployments :: "DeploymentRow list \<Rightarrow> (ApplicationId \<Rightarrow> ApplicationDeployment list) \<Rightarrow> (ApplicationId \<Rightarrow> ApplicationDeployment list) \<times> bool" where
  "scan_deployments [] res = (res, True)"
| "scan_deployments (r # rs) res =
     (case scan_deployment r of
        None \<Rightarrow> (res, False)
      | Some d \<Rightarrow> scan_deployments rs (res(dp_ApplicationId d := res (dp_ApplicationId d) @ [d])))"

definition GetApplicationDeployments :: "(nat \<Rightarrow> bool) \<Rightarrow> string \<Rightarrow> DeploymentDB
    \<Rightarrow> ((ApplicationId \<Rightarrow> ApplicationDeployment list) \<times> bool) option \<times> DeploymentDB" where
  "GetApplicationDeployments fails projectId db =
     (let (ok, db1) = dep_sql fails (\<lambda>db. db) db; p = filter (\<lambda>r. dr_project_id r = projectId) (dd_rows db)
      in if \<not> ok then (None, db1)
         else (Some (scan_deployments (sort_by row_le (filter (recent_row p) p)) (\<lambda>_. [])), db1))"

end
