(* ===== verification/MemoryLeak.thy ===== *)
theory MemoryLeak
  imports TimeSeries
begin

text \<open>
  The growth of the memory of a container (\<^verbatim>\<open>MemoryGrowthPct\<close> of \<^verbatim>\<open>auditor/memory.go\<close>) in percent per hour.
  Values of \<^verbatim>\<open>float64\<close> are written with the constructors of \<^verbatim>\<open>float32\<close>: a conversion to \<^verbatim>\<open>float64\<close> keeps the
  value, and arithmetic rounds to 53 bits. The linear regression of the library gonum is an argument.
\<close>

type_synonym f64 = f32

definition round64 :: "bool \<Rightarrow> rat \<Rightarrow> f64" where
  "round64 neg q =
     (if q = 0 then signed_zero neg
      else
        (let a = \<bar>q\<bar>;
             u = two_powi (max (exponent a) (-1022) - 52);
             r = of_int (round_half_even (a / u)) * u
         in if r \<ge> 2 ^ 1024 then signed_inf (q < 0)
            else if r = 0 then signed_zero (q < 0)
            else Fin (if q < 0 then - r else r)))"

text \<open>Integers up to \<open>2 ^ 53\<close> are exact.\<close>

lemma round64_of_nat: "0 < n \<Longrightarrow> n < 2 ^ 53 \<Longrightarrow> round64 b (of_nat n) = Fin (of_nat n)"
proof -
  assume n: "0 < n" "n < 2 ^ 53"
  have "(2::nat) ^ ilog2 n < 2 ^ 53" using ilog2_exp2_le [OF n(1)] n(2) by linarith
  then have "ilog2 n < 53" by (rule power_less_imp_less_exp [rotated]) simp
  then have u: "two_powi (max (int (ilog2 n)) (-1022) - 52) = 1 / 2 ^ (52 - ilog2 n)"
    using two_powi_neg [of "52 - int (ilog2 n)"] by (simp add: nat_diff_distrib)
  have k: "of_nat n / (1 / 2 ^ (52 - ilog2 n)) = (of_int (int n * 2 ^ (52 - ilog2 n)) :: rat)" by simp
  have "n < 2 ^ 1024" using n(2) by simp
  then have "(of_nat n :: rat) < 2 ^ 1024" by (metis of_nat_less_iff of_nat_numeral of_nat_power)
  then show ?thesis
    using n(1) unfolding round64_def exponent_of_nat [OF n(1)] abs_of_nat u k round_half_even_int Let_def by simp
qed

definition f64_add :: "f64 \<Rightarrow> f64 \<Rightarrow> f64" where
  "f64_add x y =
     (if x = NaN \<or> y = NaN then NaN
      else if x = PInf then (if y = NInf then NaN else PInf)
      else if x = NInf then (if y = PInf then NaN else NInf)
      else if y = PInf \<or> y = NInf then y
      else round64 (x = NegZero \<and> y = NegZero) (rat_of x + rat_of y))"

definition f64_mul :: "f64 \<Rightarrow> f64 \<Rightarrow> f64" where
  "f64_mul x y =
     (let neg = (negative x \<noteq> negative y) in
      if x = NaN \<or> y = NaN then NaN
      else if \<not> finite32 x \<or> \<not> finite32 y
        then (if f32_is_zero x \<or> f32_is_zero y then NaN else signed_inf neg)
      else round64 neg (rat_of x * rat_of y))"

definition f64_of_int :: "int \<Rightarrow> f64" where
  "f64_of_int n = round64 False (of_int n)"

text \<open>The conversion \<^verbatim>\<open>float32(x)\<close> of a \<^verbatim>\<open>float64\<close>.\<close>

fun f32_of_f64 :: "f64 \<Rightarrow> f32" where
  "f32_of_f64 (Fin q) = round32 False q"
| "f32_of_f64 x = x"

text \<open>
  The longest stretch without a drop below half: the loop keeps the longest finished stretch \<open>best\<close>, the
  current one \<open>cur\<close> and the previous defined value. A stretch is a list of times and values.
\<close>

fun stretch_step :: "Time \<times> f32 \<Rightarrow> (Time \<times> f32) list \<times> (Time \<times> f32) list \<times> f32 \<Rightarrow> (Time \<times> f32) list \<times> (Time \<times> f32) list \<times> f32" where
  "stretch_step (t, v) (best, cur, prev) =
     (if IsNaN v then (best, cur, prev)
      else if \<not> IsNaN prev \<and> f32_gt prev (Fin 0) \<and> f32_lt v (f32_mul prev (round32 False (1/2)))
        then (if length cur > length best then cur else best, [(t, v)], v)
      else (best, cur @ [(t, v)], v))"

definition longest_stretch :: "(Time \<times> f32) list \<Rightarrow> (Time \<times> f32) list" where
  "longest_stretch ps =
     (let (best, cur, _) = fold stretch_step ps ([], [], NaN) in if length cur > length best then cur else best)"

text \<open>
  The start of the tail: a quarter of the points, or more to reach over 15 minutes. Times are whole seconds
  far below \<open>2 ^ 53\<close>, so their difference is exact in \<^verbatim>\<open>float64\<close>. An index out of range panics: \<open>None\<close>.
\<close>

definition at_index :: "'a list \<Rightarrow> nat \<Rightarrow> 'a option" where
  "at_index xs i = (if i < length xs then Some (xs ! i) else None)"

fun tail_back :: "(Time \<times> f32) list \<Rightarrow> nat \<Rightarrow> nat option" where
  "tail_back xs 0 = Some 0"
| "tail_back xs (Suc i) =
     (case (at_index xs (length xs - 1), at_index xs (Suc i)) of
        (Some l, Some p) \<Rightarrow> if fst l - fst p < 15 * Minute then tail_back xs i else Some (Suc i)
      | _ \<Rightarrow> None)"

definition tail_start :: "(Time \<times> f32) list \<Rightarrow> nat option" where
  "tail_start xs = tail_back xs (length xs - length xs div 4)"

type_synonym regression = "f64 list \<Rightarrow> f64 list \<Rightarrow> f64 \<times> f64"

definition fit :: "regression \<Rightarrow> (Time \<times> f32) list \<Rightarrow> f64 \<times> f64" where
  "fit regress xs = regress (map (f64_of_int \<circ> fst) xs) (map snd xs)"

definition line_at :: "f64 \<times> f64 \<Rightarrow> Time \<Rightarrow> f32" where
  "line_at ab t = f32_of_f64 (f64_add (fst ab) (f64_mul (snd ab) (f64_of_int t)))"

definition min_growth :: "f32 \<Rightarrow> f32" where
  "min_growth limit =
     (if \<not> IsNaN limit \<and> f32_gt limit (Fin 0) then f32_mul limit (round32 False (5/100)) else round32 False (50 * 1024 * 1024))"

text \<open>\<open>None\<close>: the function panics. The slices of the second regression start at \<open>tailStart\<close>, which is at most the length.\<close>

definition MemoryGrowthPct :: "regression \<Rightarrow> TimeSeries option \<Rightarrow> f32 \<Rightarrow> Time \<Rightarrow> f32 option" where
  "MemoryGrowthPct regress rss limit to =
     (let xs = longest_stretch (iter_points (Iter rss));
          (alpha, beta) = fit regress xs;
          s = line_at (alpha, beta) (to - Hour);
          e = line_at (alpha, beta) to
      in if rss = None then Some (Fin 0)
         else if f32_lt (Reduce rss NanCount) (f32_mul (f32_of_int (int (Len rss))) (round32 False (8/10))) then Some (Fin 0)
         else if length xs < 10 \<or> length xs < Len rss div 3 then Some (Fin 0)
         else if f32_le beta (Fin 0) then Some (Fin 0)
         else
           (case tail_start xs of
              None \<Rightarrow> None
            | Some tailStart \<Rightarrow>
                (let tailBeta = snd (fit regress (drop tailStart xs))
                 in if length xs - tailStart < 5 then Some (Fin 0)
                    else if f32_le tailBeta (Fin 0) \<or> f32_lt tailBeta (f64_mul beta (round64 False (3/10))) then Some (Fin 0)
                    else if \<not> (f32_gt e (Fin 0) \<and> f32_gt e s) then Some (Fin 0)
                    else if f32_lt (f32_sub e s) (min_growth limit) then Some (Fin 0)
                    else if f32_gt s (Fin 0) then Some (f32_mul (f32_div (f32_sub e s) s) (Fin 100))
                    else Some (f32_mul (f32_div (f32_sub e s) e) (Fin 100)))))"

subsection \<open>What a growth is based on\<close>

definition no_drop :: "Time \<times> f32 \<Rightarrow> Time \<times> f32 \<Rightarrow> bool" where
  "no_drop p q \<longleftrightarrow> \<not> (f32_gt (snd p) (Fin 0) \<and> f32_lt (snd q) (f32_mul (snd p) (round32 False (1/2))))"

definition steady :: "(Time \<times> f32) list \<Rightarrow> bool" where
  "steady xs \<longleftrightarrow> list_all (\<lambda>p. \<not> IsNaN (snd p)) xs \<and> successively no_drop xs"

definition stretch_inv :: "(Time \<times> f32) set \<Rightarrow> (Time \<times> f32) list \<times> (Time \<times> f32) list \<times> f32 \<Rightarrow> bool" where
  "stretch_inv S st \<longleftrightarrow>
     (case st of (best, cur, prev) \<Rightarrow> steady best \<and> steady cur \<and> set best \<subseteq> S \<and> set cur \<subseteq> S \<and>
        (if cur = [] then IsNaN prev else prev = snd (last cur)))"

lemma stretch_step_inv: "stretch_inv S st \<Longrightarrow> p \<in> S \<Longrightarrow> stretch_inv S (stretch_step p st)"
  by (cases p; cases st) (auto simp: stretch_inv_def steady_def no_drop_def successively_append_iff split: if_splits)

lemma longest_stretch_steady: "steady (longest_stretch ps) \<and> set (longest_stretch ps) \<subseteq> set ps"
proof -
  have "stretch_inv S (fold stretch_step ps st)" if "stretch_inv S st" "set ps \<subseteq> S" for S st
    using that by (induction ps arbitrary: st) (simp_all add: stretch_step_inv del: stretch_step.simps)
  from this [of "set ps" "([], [], NaN)"] show ?thesis
    by (auto simp: stretch_inv_def steady_def longest_stretch_def split: prod.splits)
qed

text \<open>
  The tail that is looked for: it starts at the latest index, not after the last quarter, from which on it
  reaches over 15 minutes, or at the first point.
\<close>

definition tail_from :: "(Time \<times> f32) list \<Rightarrow> nat \<Rightarrow> bool" where
  "tail_from xs n \<longleftrightarrow> n \<le> length xs - length xs div 4 \<and>
     (n = 0 \<or> fst (last xs) - fst (xs ! n) \<ge> 900) \<and>
     list_all (\<lambda>i. fst (last xs) - fst (xs ! i) < 900) [Suc n..<Suc (length xs - length xs div 4)]"

lemma tail_back_from:
  "xs \<noteq> [] \<Longrightarrow> i < length xs \<Longrightarrow> \<exists>n\<le>i. tail_back xs i = Some n \<and> (n = 0 \<or> fst (last xs) - fst (xs ! n) \<ge> 900) \<and>
     list_all (\<lambda>j. fst (last xs) - fst (xs ! j) < 900) [Suc n..<Suc i]"
proof (induction i)
  case (Suc i)
  have l: "at_index xs (length xs - 1) = Some (last xs)" "at_index xs (Suc i) = Some (xs ! Suc i)"
    using Suc.prems by (simp_all add: at_index_def last_conv_nth)
  show ?case
  proof (cases "fst (last xs) - fst (xs ! Suc i) < 15 * Minute")
    case True
    obtain n where n: "n \<le> i" "tail_back xs i = Some n" "n = 0 \<or> fst (last xs) - fst (xs ! n) \<ge> 900"
        "list_all (\<lambda>j. fst (last xs) - fst (xs ! j) < 900) [Suc n..<Suc i]"
      using Suc by auto
    have "[Suc n..<Suc (Suc i)] = [Suc n..<Suc i] @ [Suc i]" using n(1) by simp
    then show ?thesis using n l True by (intro exI [of _ n]) (simp add: duration_defs del: upt_Suc)
  next
    case False
    then show ?thesis using l by (intro exI [of _ "Suc i"]) (simp add: duration_defs)
  qed
qed simp

lemma tail_start_from: "4 \<le> length xs \<Longrightarrow> \<exists>n. tail_start xs = Some n \<and> tail_from xs n"
  using tail_back_from [of xs "length xs - length xs div 4"] by (fastforce simp: tail_start_def tail_from_def simp del: upt_Suc)

text \<open>The function does not panic, so its callers can take the value.\<close>

lemma MemoryGrowthPct_no_panic: "MemoryGrowthPct regress rss limit to \<noteq> None"
  using tail_start_from [of "longest_stretch (iter_points (Iter rss))"]
  by (auto simp: MemoryGrowthPct_def Let_def split: prod.splits option.splits)

text \<open>
  C40. The search for a memory leak never reads an index out of range, and a growth is reported only for a good
  reason: 80 percent of the samples are defined; it is based on ten or more samples, and a third of all, in
  which the memory never fell below half of the previous sample; their line rises; so does the line of a tail
  of five or more of them, with 30 percent of the slope at least, where the tail starts at the latest sample of
  the first three quarters from which it reaches over 15 minutes; and the line grew over the last hour, to a
  positive value, by 5 percent of the limit of the container at least or, without a limit, by 50 MiB.
\<close>

theorem growth_only_after_rise:
  assumes "MemoryGrowthPct regress rss limit to \<noteq> Some (Fin 0)"
  defines "xs \<equiv> longest_stretch (iter_points (Iter rss))"
  defines "s \<equiv> line_at (fit regress xs) (to - 3600)" and "e \<equiv> line_at (fit regress xs) to"
  shows "MemoryGrowthPct regress rss limit to \<noteq> None \<and>
    \<not> f32_lt (Reduce rss NanCount) (f32_mul (f32_of_int (int (Len rss))) (round32 False (8/10))) \<and>
    10 \<le> length xs \<and> Len rss div 3 \<le> length xs \<and> steady xs \<and> set xs \<subseteq> set (iter_points (Iter rss)) \<and>
    \<not> f32_le (snd (fit regress xs)) (Fin 0) \<and>
    (\<exists>n. tail_from xs n \<and> n + 5 \<le> length xs \<and> \<not> f32_le (snd (fit regress (drop n xs))) (Fin 0) \<and>
       \<not> f32_lt (snd (fit regress (drop n xs))) (f64_mul (snd (fit regress xs)) (round64 False (3/10)))) \<and>
    f32_gt e (Fin 0) \<and> f32_gt e s \<and>
    \<not> f32_lt (f32_sub e s)
       (if \<not> IsNaN limit \<and> f32_gt limit (Fin 0) then f32_mul limit (round32 False (5/100)) else round32 False (50 * 1024 * 1024))"
proof -
  obtain alpha beta where ab: "fit regress xs = (alpha, beta)" by force
  have g: "\<not> f32_lt (Reduce rss NanCount) (f32_mul (f32_of_int (int (Len rss))) (round32 False (8/10)))"
    "10 \<le> length xs" "Len rss div 3 \<le> length xs" "\<not> f32_le beta (Fin 0)"
    using assms(1) ab by (auto simp: MemoryGrowthPct_def Let_def xs_def split: if_splits)
  obtain n where n: "tail_start xs = Some n" "tail_from xs n" using tail_start_from [of xs] g(2) by auto
  then have "n \<le> length xs" by (auto simp: tail_from_def)
  then show ?thesis
    using assms(1) longest_stretch_steady [of "iter_points (Iter rss)"] g n ab
    unfolding MemoryGrowthPct_def xs_def [symmetric] Let_def s_def e_def
    by (auto simp: min_growth_def Hour_def Minute_def Second_def split: if_splits intro!: exI [of _ n])
qed

definition demo_rising :: "TimeSeries option" where
  "demo_rising = Some \<lparr>ts_from = 6000, ts_step = 60, ts_data = replicate 20 (Fin 0)\<rparr>"

definition demo_regression :: regression where
  "demo_regression x y = (Fin 0, if length x = 20 then Fin 1000000 else PInf)"

lemma demo_floats64:
  "f64_of_int 7200 = Fin 7200" "f64_of_int 3600 = Fin 3600"
  "f64_mul (Fin 1000000) (Fin 7200) = Fin 7200000000" "f64_mul (Fin 1000000) (Fin 3600) = Fin 3600000000"
  "f64_add (Fin 0) (Fin 7200000000) = Fin 7200000000" "f64_add (Fin 0) (Fin 3600000000) = Fin 3600000000"
  using round64_of_nat [of 7200] round64_of_nat [of 3600] round64_of_nat [of 7200000000] round64_of_nat [of 3600000000]
  by (simp_all add: f64_of_int_def f64_mul_def f64_add_def f32_is_zero_def)

lemma demo_floats32:
  "round32 False 7200000000 = Fin 7200000000" "round32 False 3600000000 = Fin 3600000000"
  "f32_sub (Fin 7200000000) (Fin 3600000000) = Fin 3600000000" "f32_lt (Fin 3600000000) (round32 False 52428800) = False"
  "f32_mul (f32_div (Fin 3600000000) (Fin 3600000000)) (Fin 100) = Fin 100"
  "f32_mul (f32_of_int 20) (round32 False (4 / 5)) = Fin 16"
  by code_simp+

lemma f32_PInf_max: "\<not> f32_lt PInf x"
  by (cases x) (simp_all add: f32_lt_def)

lemma demo_samples: "iter_points (Iter demo_rising) = map (\<lambda>i. (6000 + int i * 60, Fin 0)) [0..<20]"
  by (simp add: demo_rising_def samples_def)

lemma demo_stretch: "longest_stretch (iter_points (Iter demo_rising)) = map (\<lambda>i. (6000 + int i * 60, Fin 0)) [0..<20]"
  unfolding demo_samples by (simp add: longest_stretch_def upt_rec)

lemma demo_count: "Reduce demo_rising NanCount = Fin 20"
proof -
  have "Reduce demo_rising NanCount = foldl (\<lambda>acc (t, v). NanCount t acc v) NaN (iter_points (Iter demo_rising))"
    by (simp add: Reduce_def demo_rising_def)
  also have "\<dots> = Fin 20" unfolding demo_samples by code_simp
  finally show ?thesis .
qed

theorem growth_only_after_rise_witness:
  "MemoryGrowthPct demo_regression demo_rising NaN 7200 = Some (Fin 100) \<and>
   steady (longest_stretch (iter_points (Iter demo_rising)))"
proof -
  have "tail_start (map (\<lambda>i. (6000 + int i * 60, Fin 0)) [0..<20]) = Some 4" by code_simp
  then have "MemoryGrowthPct demo_regression demo_rising NaN 7200 = Some (Fin 100)"
    unfolding MemoryGrowthPct_def demo_stretch demo_count
    by (simp add: demo_floats64 demo_floats32 demo_rising_def Len_def fit_def demo_regression_def line_at_def min_growth_def Let_def
        f32_PInf_max Hour_def Minute_def Second_def) (simp_all add: f32_lt_def f32_le_def)
  then show ?thesis
    using growth_only_after_rise [of demo_regression demo_rising NaN 7200] by simp
qed

end
