(* ===== verification/DeploymentWatcher.thy ===== *)
theory DeploymentWatcher
  imports DeploymentStore MemoryLeak "HOL-Library.AList"
begin

text \<open>
  The deployments watcher (\<^verbatim>\<open>watchers/deployments.go\<close>): it finds the rollouts of an application in the life
  spans of its replica sets, stores them, takes a snapshot of the metrics after a rollout, and sends
  messages. The pointers to deployments are positions in the list of the application. \<open>None\<close> is a panic of an
  aggregate of series of different lengths. The clients, the linear regression of gonum
  and the formatters are arguments.
\<close>

subsection \<open>Replica sets over time\<close>

definition add_life_span :: "PodInstance \<Rightarrow> (string \<times> Aggregate) list \<times> (string \<times> StringSet) list
    \<Rightarrow> (string \<times> Aggregate) list \<times> (string \<times> StringSet) list" where
  "add_life_span i st =
     (let (lifeSpans, images) = st
      in case pi_Pod i of
           None \<Rightarrow> st
         | Some pod \<Rightarrow>
             if pod_ReplicaSet pod = [] then st
             else
               (let rs = pod_ReplicaSet pod;
                    agg = (case map_of lifeSpans rs of None \<Rightarrow> NewAggregate NanSum | Some a \<Rightarrow> a);
                    img = (case map_of images rs of None \<Rightarrow> NewStringSet [] | Some s \<Rightarrow> s)
                in (AList.update rs (Aggregate_Add agg [pod_LifeSpan pod]) lifeSpans,
                    AList.update rs (StringSet_Add img (map ct_Image (pi_Containers i))) images)))"

text \<open>
  The iterators advance together until one of them ends. Each is the list of the points it has yet to
  visit; the time of a step is that of the iterator visited last.
\<close>

function timeline :: "(string \<times> (Time \<times> f32) list) list \<Rightarrow> (Time \<times> string list) list" where
  "timeline iters =
     (if iters = [] \<or> list_ex (\<lambda>(_, ps). ps = []) iters then []
      else
        (let names = map fst (filter (\<lambda>(_, ps). f32_gt (snd (hd ps)) (Fin 0)) iters);
             t = fst (hd (snd (last iters)));
             rest = timeline (map (\<lambda>(n, ps). (n, tl ps)) iters)
         in if names = [] then rest else (t, sort_Strings names) # rest))"
  by pat_completeness auto
termination
  by (relation "measure (\<lambda>its. length (snd (hd its)))") (auto simp: neq_Nil_conv list_ex_iff hd_map)

declare timeline.simps [simp del]

subsection \<open>Rollouts\<close>

record calc_state =
  cs_deployments :: "ApplicationDeployment list"
  cs_deployment :: "nat option"
  cs_prev :: string

definition start_state :: calc_state where
  "start_state = \<lparr>cs_deployments = [], cs_deployment = None, cs_prev = []\<rparr>"

definition new_deployment :: "ApplicationId \<Rightarrow> string \<Rightarrow> Time \<Rightarrow> Time \<Rightarrow> ApplicationDeployment" where
  "new_deployment appId name startedAt finishedAt =
     \<lparr>dp_ApplicationId = appId, dp_Name = name, dp_StartedAt = startedAt, dp_FinishedAt = finishedAt, dp_Details = None,
      dp_MetricsSnapshot = None, dp_Notifications = None\<rparr>"

definition finish_current :: "string \<Rightarrow> Time \<Rightarrow> calc_state \<Rightarrow> calc_state" where
  "finish_current name t st =
     (case cs_deployment st of
        None \<Rightarrow> st
      | Some i \<Rightarrow>
          (let ds = cs_deployments st
           in st\<lparr>cs_deployment := None,
                 cs_deployments := (if name = dp_Name (ds ! i) then ds[i := (ds ! i)\<lparr>dp_FinishedAt := t\<rparr>] else ds)\<rparr>))"

definition calc_step :: "ApplicationId \<Rightarrow> Time \<times> string list \<Rightarrow> calc_state \<Rightarrow> calc_state" where
  "calc_step appId rss st =
     (let (t, names) = rss
      in case names of
           [] \<Rightarrow> st
         | [cur] \<Rightarrow>
             (if cs_prev st = [] then st\<lparr>cs_prev := cur\<rparr>
              else
                (let st1 = finish_current cur t st
                 in if cs_prev st1 = cur then st1
                    else st1\<lparr>cs_deployments := cs_deployments st1 @ [new_deployment appId cur t t], cs_prev := cur\<rparr>))
         | _ \<Rightarrow>
             (if cs_prev st = [] then st
              else if cs_deployment st \<noteq> None then st
              else
                (let name = (case find (\<lambda>n. n \<noteq> cs_prev st) names of None \<Rightarrow> [] | Some n \<Rightarrow> n)
                 in st\<lparr>cs_deployments := cs_deployments st @ [new_deployment appId name t 0],
                       cs_deployment := Some (length (cs_deployments st)), cs_prev := name\<rparr>)))"

definition with_details :: "(string \<times> StringSet) list \<Rightarrow> ApplicationDeployment \<Rightarrow> ApplicationDeployment" where
  "with_details images d =
     (case map_of images (dp_Name d) of None \<Rightarrow> d | Some s \<Rightarrow> d\<lparr>dp_Details := Some (StringSet_Items (Some s))\<rparr>)"

definition calcDeployments :: "DeployedApp \<Rightarrow> ApplicationDeployment list option" where
  "calcDeployments app =
     (if Kind (da_Id app) \<noteq> ApplicationKindDeployment \<or> da_Instances app = [] then Some []
      else
        (let (lifeSpans, images) = fold add_life_span (da_Instances app) ([], [])
         in if lifeSpans = [] then Some []
            else
              (case those (map (\<lambda>(name, agg). map_option (\<lambda>ts. (name, iter_points (Iter ts))) (Aggregate_Get (Some agg))) lifeSpans) of
                 None \<Rightarrow> None
               | Some iters \<Rightarrow>
                   Some (map (with_details images) (cs_deployments (fold (calc_step (da_Id app)) (timeline iters) start_state))))))"

subsection \<open>Snapshot of the metrics\<close>

definition sum_step :: "Time \<Rightarrow> Time \<Rightarrow> F" where
  "sum_step f to t s v =
     (let s' = (if IsNaN s then Fin 0 else s) in if t < f \<or> t > to \<or> IsNaN v then s' else f32_add s' v)"

definition window_sum :: "TimeSeries option \<Rightarrow> Time \<Rightarrow> Time \<Rightarrow> f32" where
  "window_sum ts f to = (let s = Reduce ts (sum_step f to) in if IsNaN s then Fin 0 else s)"

definition sumRate :: "TimeSeries option \<Rightarrow> Time \<Rightarrow> Time \<Rightarrow> Duration \<Rightarrow> f32" where
  "sumRate ts f to step = f32_mul (window_sum ts f to) (f32_of_int (step sdiv Second))"

definition aggregated :: "TimeSeries option list \<Rightarrow> TimeSeries option option" where
  "aggregated tss = Aggregate_Get (Some (foldl (\<lambda>a ts. Aggregate_Add a [ts]) (NewAggregate NanSum) tss))"

definition memory_usage :: "TimeSeries option \<Rightarrow> int" where
  "memory_usage totalMem =
     (case totalMem of
        None \<Rightarrow> 0
      | Some _ \<Rightarrow>
          (let s = Reduce totalMem NanSum; c = Reduce (Map totalMem Defined) NanSum
           in if f32_gt c (Fin 0) \<and> f32_gt s (Fin 0) then int64_of_f32 (f32_div s c) else 0))"

definition latency_histogram :: "HistogramBucket list \<Rightarrow> Time \<Rightarrow> Time \<Rightarrow> Duration \<Rightarrow> (string \<times> int) list" where
  "latency_histogram bs f to step =
     fold (\<lambda>h m. AList.update (Sprintf_f False 3 (hb_Le h)) (int64_of_f32 (sumRate (hb_TimeSeries h) f to step)) m) bs []"

text \<open>\<^verbatim>\<open>MemoryGrowthPct\<close> does not panic (\<open>MemoryGrowthPct_no_panic\<close>), so the case \<open>None\<close> does not occur.\<close>

definition calcMetricsSnapshot :: "regression \<Rightarrow> DeployedApp \<Rightarrow> Time \<Rightarrow> Time \<Rightarrow> Duration \<Rightarrow> MetricsSnapshot option" where
  "calcMetricsSnapshot regress app f to step =
     (let cs = concat (map pi_Containers (da_Instances app));
          (requests, errors) =
            (case da_AvailabilitySLIs app of
               [] \<Rightarrow> (0, 0)
             | sli # _ \<Rightarrow> (int64_of_f32 (sumRate (ar_TotalRequests sli) f to step), int64_of_f32 (sumRate (ar_FailedRequests sli) f to step)));
          latency = (case da_LatencySLIs app of [] \<Rightarrow> [] | h # _ \<Rightarrow> latency_histogram h f to step);
          leak = fold (\<lambda>c m. case MemoryGrowthPct regress (ct_MemoryRss c) (Reduce (ct_MemoryLimit c) Max) to of None \<Rightarrow> m | Some pct \<Rightarrow> if f32_gt pct m then pct else m) cs (Fin 0);
          logs = (\<lambda>levels. aggregated (map snd (filter (\<lambda>(l, _). l \<in> levels) (da_LogMessages app))))
      in case (aggregated (map ct_CpuUsage cs), aggregated (map ct_MemoryRss cs), aggregated (map ct_OOMKills cs), aggregated (map ct_Restarts cs),
               logs {SeverityError, SeverityFatal}, logs {SeverityWarning}) of
           (Some cpu, Some mem, Some oom, Some restarts, Some logErrors, Some logWarnings) \<Rightarrow>
             Some \<lparr>ms_Timestamp = to, ms_Duration = to - f, ms_Requests = requests, ms_Errors = errors, ms_Latency = latency,
               ms_Restarts = int64_of_f32 (window_sum restarts f to), ms_CPUUsage = sumRate cpu f to step, ms_MemoryLeakPercent = leak,
               ms_MemoryUsage = memory_usage mem, ms_OOMKills = int64_of_f32 (window_sum oom f to),
               ms_LogErrors = int64_of_f32 (window_sum logErrors f to), ms_LogWarnings = int64_of_f32 (window_sum logWarnings f to)\<rparr>
         | _ \<Rightarrow> None)"

subsection \<open>A pass of the watcher\<close>

text \<open>What a pass takes from outside. A client gets the project and the status; \<open>send n\<close> is its n-th answer.\<close>

record DeploymentEnv =
  de_fails :: "nat \<Rightarrow> bool"
  de_send :: "nat \<Rightarrow> destination \<Rightarrow> Project \<Rightarrow> ApplicationDeploymentStatus \<Rightarrow> bool"
  de_regression :: regression
  de_formatters :: Formatters

record DeploymentWorld =
  dw_To :: Time
  dw_Step :: Duration
  dw_CheckConfigs :: CheckConfigs
  dw_Applications :: "DeployedApp list"

text \<open>\<^verbatim>\<open>discoverAndSaveDeployments\<close>: the first error ends the loop over all applications (\<open>False\<close>).\<close>

definition known_deployment :: "ApplicationDeployment list \<Rightarrow> ApplicationDeployment \<Rightarrow> ApplicationDeployment option" where
  "known_deployment ds d = find (\<lambda>dd. dp_Name dd = dp_Name d \<and> dp_StartedAt dd = dp_StartedAt d) ds"

fun save_found :: "(nat \<Rightarrow> bool) \<Rightarrow> string \<Rightarrow> ApplicationDeployment list \<Rightarrow> DeployedApp \<Rightarrow> DeploymentDB \<Rightarrow> bool \<times> DeployedApp \<times> DeploymentDB" where
  "save_found fails projectId [] app db = (True, app, db)"
| "save_found fails projectId (d # ds) app db =
     (let known = known_deployment (da_Deployments app) d;
          (ok, db1) = (if (case known of None \<Rightarrow> True | Some k \<Rightarrow> dp_FinishedAt k \<noteq> dp_FinishedAt d)
                       then SaveApplicationDeployment fails projectId d db else (True, db))
      in if \<not> ok then (False, app, db1)
         else save_found fails projectId ds (if known = None then app\<lparr>da_Deployments := da_Deployments app @ [d]\<rparr> else app) db1)"

fun discoverAndSaveDeployments :: "(nat \<Rightarrow> bool) \<Rightarrow> string \<Rightarrow> DeployedApp list \<Rightarrow> DeploymentDB \<Rightarrow> (DeployedApp list \<times> DeploymentDB) option" where
  "discoverAndSaveDeployments fails projectId [] db = Some ([], db)"
| "discoverAndSaveDeployments fails projectId (app # apps) db =
     (if Kind (da_Id app) \<noteq> ApplicationKindDeployment
      then map_option (\<lambda>(as, db1). (app # as, db1)) (discoverAndSaveDeployments fails projectId apps db)
      else
        (case calcDeployments app of
           None \<Rightarrow> None
         | Some ds \<Rightarrow>
             (case save_found fails projectId ds app db of
                (False, app1, db1) \<Rightarrow> Some (app1 # apps, db1)
              | (True, app1, db1) \<Rightarrow> map_option (\<lambda>(as, db2). (app1 # as, db2)) (discoverAndSaveDeployments fails projectId apps db1))))"

text \<open>\<^verbatim>\<open>snapshotDeploymentMetrics\<close>: the window of the snapshot ends before the next rollout, or before now.\<close>

definition snapshot_window :: "ApplicationDeployment list \<Rightarrow> nat \<Rightarrow> Time \<Rightarrow> (Time \<times> Time) option" where
  "snapshot_window ds i now =
     (let d = ds ! i;
          f = dp_FinishedAt d + ApplicationDeploymentMetricsSnapshotShift;
          to = f + ApplicationDeploymentMetricsSnapshotWindow;
          nextOrNow = (if i < length ds - 1 then dp_StartedAt (ds ! (i + 1)) else now)
      in if dp_MetricsSnapshot d \<noteq> None \<or> dp_FinishedAt d = 0 then None else if to > nextOrNow then None else Some (f, to))"

definition snapshot_one :: "DeploymentEnv \<Rightarrow> string \<Rightarrow> Time \<Rightarrow> Duration \<Rightarrow> nat \<Rightarrow> DeployedApp \<times> DeploymentDB \<Rightarrow> (DeployedApp \<times> DeploymentDB) option" where
  "snapshot_one e projectId now step i st =
     (let (app, db) = st; ds = da_Deployments app
      in case snapshot_window ds i now of
           None \<Rightarrow> Some st
         | Some (f, to) \<Rightarrow>
             (case calcMetricsSnapshot (de_regression e) app f to step of
                None \<Rightarrow> None
              | Some ms \<Rightarrow>
                  (let d = (ds ! i)\<lparr>dp_MetricsSnapshot := Some ms\<rparr>
                   in Some (app\<lparr>da_Deployments := ds[i := d]\<rparr>, snd (SaveApplicationDeploymentMetricsSnapshot (de_fails e) projectId d db)))))"

fun fold_option :: "('a \<Rightarrow> 's \<Rightarrow> 's option) \<Rightarrow> 'a list \<Rightarrow> 's \<Rightarrow> 's option" where
  "fold_option f [] s = Some s"
| "fold_option f (x # xs) s = (case f x s of None \<Rightarrow> None | Some s1 \<Rightarrow> fold_option f xs s1)"

fun snapshotDeploymentMetrics :: "DeploymentEnv \<Rightarrow> string \<Rightarrow> Time \<Rightarrow> Duration \<Rightarrow> DeployedApp list \<Rightarrow> DeploymentDB \<Rightarrow> (DeployedApp list \<times> DeploymentDB) option" where
  "snapshotDeploymentMetrics e projectId now step [] db = Some ([], db)"
| "snapshotDeploymentMetrics e projectId now step (app # apps) db =
     (case fold_option (snapshot_one e projectId now step) [0..<length (da_Deployments app)] (app, db) of
        None \<Rightarrow> None
      | Some (app1, db1) \<Rightarrow> map_option (\<lambda>(as, db2). (app1 # as, db2)) (snapshotDeploymentMetrics e projectId now step apps db1))"

text \<open>One destination of a deployment: whether a message is due, and what sending it does.\<close>

definition send_to :: "DeploymentEnv \<Rightarrow> Project \<Rightarrow> destination option \<Rightarrow> ApplicationDeploymentStatus
    \<Rightarrow> (ApplicationDeploymentNotifications \<Rightarrow> ApplicationDeploymentState)
    \<Rightarrow> (ApplicationDeploymentState \<Rightarrow> ApplicationDeploymentNotifications \<Rightarrow> ApplicationDeploymentNotifications)
    \<Rightarrow> ApplicationDeploymentNotifications \<times> bool \<times> DeploymentDB \<Rightarrow> ApplicationDeploymentNotifications \<times> bool \<times> DeploymentDB" where
  "send_to e project dest ds state set_state st =
     (let (n, needSave, db) = st
      in case dest of
           None \<Rightarrow> st
         | Some to \<Rightarrow>
             if \<not> state n < st_State ds then st
             else
               (let ok = de_send e (length (dd_trace db)) to project ds;
                    d = st_Deployment ds;
                    db1 = db\<lparr>dd_trace := dd_trace db @ [(to, (dp_ApplicationId d, dp_StartedAt d), st_State ds, ok)]\<rparr>
                in if ok then (set_state (st_State ds) n, True, db1) else (n, needSave, db1)))"

definition slack_to :: "Integrations \<Rightarrow> NotificationSettings \<Rightarrow> destination option" where
  "slack_to i s =
     (case (in_Slack i, ns_Slack s) of
        (Some sl, Some c) \<Rightarrow>
          (if sl_Deployments sl \<and> cs_Enabled c
           then Some (ToSlack (sl_Token sl) (if cs_Channel c \<noteq> [] then cs_Channel c else sl_DefaultChannel sl)) else None)
      | _ \<Rightarrow> None)"

definition teams_to :: "Integrations \<Rightarrow> NotificationSettings \<Rightarrow> destination option" where
  "teams_to i s =
     (case (in_Teams i, ns_Teams s) of
        (Some te, Some c) \<Rightarrow> (if te_Deployments te \<and> cs_Enabled c then Some (ToTeams (GetWebhookUrl te (cs_Channel c))) else None)
      | _ \<Rightarrow> None)"

definition webhook_to :: "Integrations \<Rightarrow> NotificationSettings \<Rightarrow> destination option" where
  "webhook_to i s =
     (case (in_Webhook i, ns_Webhook s) of
        (Some wh, Some enabled) \<Rightarrow> (if wh_Deployments wh \<and> enabled then Some (ToWebhook wh) else None)
      | _ \<Rightarrow> None)"

definition slack_set :: "ApplicationDeploymentState \<Rightarrow> ApplicationDeploymentNotifications \<Rightarrow> ApplicationDeploymentNotifications" where
  "slack_set s n = n\<lparr>dn_Slack := (dn_Slack n)\<lparr>ss_State := s\<rparr>\<rparr>"

text \<open>The body of the loop over the statuses of an application; \<open>i\<close> is the position of the deployment.\<close>

definition notify_one :: "DeploymentEnv \<Rightarrow> Project \<Rightarrow> NotificationSettings \<Rightarrow> Time \<Rightarrow> nat \<times> ApplicationDeploymentStatus
    \<Rightarrow> DeployedApp \<times> DeploymentDB \<Rightarrow> DeployedApp \<times> DeploymentDB" where
  "notify_one e project settings now ids st =
     (let (i, ds) = ids; (app, db) = st; d = da_Deployments app ! i; integ = p_Integrations project
      in if now - dp_StartedAt d > Day then st
         else
           (let n = (case dp_Notifications d of None \<Rightarrow> no_notifications | Some n \<Rightarrow> n);
                put = (\<lambda>n'. app\<lparr>da_Deployments := (da_Deployments app)[i := d\<lparr>dp_Notifications := Some n'\<rparr>]\<rparr>)
            in if dn_State n \<ge> st_State ds then (put n, db)
               else
                 (let (n3, needSave, db3) =
                        send_to e project (webhook_to integ settings) ds dn_Webhook (\<lambda>s n. n\<lparr>dn_Webhook := s\<rparr>)
                          (send_to e project (teams_to integ settings) ds dn_Teams (\<lambda>s n. n\<lparr>dn_Teams := s\<rparr>)
                            (send_to e project (slack_to integ settings) ds (\<lambda>n. ss_State (dn_Slack n)) slack_set (n, False, db)))
                  in (put n3,
                      if needSave then snd (SaveApplicationDeploymentNotifications (de_fails e) (p_Id project) (d\<lparr>dp_Notifications := Some n3\<rparr>) db3)
                      else db3))))"

fun sendNotifications :: "DeploymentEnv \<Rightarrow> Project \<Rightarrow> Time \<Rightarrow> CheckConfigs \<Rightarrow> DeployedApp list \<Rightarrow> DeploymentDB \<Rightarrow> (DeployedApp list \<times> DeploymentDB) option" where
  "sendNotifications e project now cc [] db = Some ([], db)"
| "sendNotifications e project now cc (app # apps) db =
     (case (case GetApplicationCategories project (da_Category app) of
              None \<Rightarrow> Some (app, db)
            | Some info \<Rightarrow>
                (let settings = cn_Deployments (ci_NotificationSettings info)
                 in if \<not> ns_Enabled settings then Some (app, db)
                    else map_option (\<lambda>sts. fold (notify_one e project settings now) (enumerate 0 sts) (app, db))
                           (CalcApplicationDeploymentStatuses (de_formatters e) app cc now))) of
        None \<Rightarrow> None
      | Some (app1, db1) \<Rightarrow> map_option (\<lambda>(as, db2). (app1 # as, db2)) (sendNotifications e project now cc apps db1))"

definition DeploymentsCheck :: "DeploymentEnv \<Rightarrow> Project \<Rightarrow> DeploymentWorld \<Rightarrow> DeploymentDB \<Rightarrow> (DeployedApp list \<times> DeploymentDB) option" where
  "DeploymentsCheck e project w db =
     (case discoverAndSaveDeployments (de_fails e) (p_Id project) (dw_Applications w) db of
        None \<Rightarrow> None
      | Some (as1, db1) \<Rightarrow>
          (case snapshotDeploymentMetrics e (p_Id project) (dw_To w) (dw_Step w) as1 db1 of
             None \<Rightarrow> None
           | Some (as2, db2) \<Rightarrow> sendNotifications e project (dw_To w) (dw_CheckConfigs w) as2 db2))"

end
