(* ===== verification/DeploymentSafety.thy ===== *)
theory DeploymentSafety
  imports DeploymentWatcher
begin

text \<open>
  Theorems on deployments: the rollouts found in the life spans of replica sets are in order, which states
  and summaries they get, and that no message of a deployment is sent twice or out of order.
\<close>

subsection \<open>The time axis\<close>

text \<open>Points one step apart from \<open>a\<close> on, and series with the same start, step and length.\<close>

fun ticks :: "Time \<Rightarrow> Duration \<Rightarrow> (Time \<times> f32) list \<Rightarrow> bool" where
  "ticks a s [] = True"
| "ticks a s (p # ps) = (fst p = a \<and> ticks (a + s) s ps)"

definition on_axis :: "Time \<Rightarrow> Duration \<Rightarrow> nat \<Rightarrow> TimeSeries option \<Rightarrow> bool" where
  "on_axis f step n ts \<longleftrightarrow> (case ts of None \<Rightarrow> True | Some s \<Rightarrow> ts_from s = f \<and> ts_step s = step \<and> length (ts_data s) = n)"

lemma ticks_iff: "ticks a s ps \<longleftrightarrow> (\<forall>k<length ps. fst (ps ! k) = a + int k * s)"
proof (induction a s ps rule: ticks.induct)
  case (2 a s p ps)
  have "(\<forall>k<length (p # ps). fst ((p # ps) ! k) = a + int k * s) \<longleftrightarrow>
      fst p = a \<and> (\<forall>k<length ps. fst (ps ! k) = a + s + int k * s)"
    by (auto simp: less_Suc_eq_0_disj algebra_simps)
  then show ?case using 2 by simp
qed simp

lemma ticks_Iter: "on_axis f step n ts \<Longrightarrow> ticks f step (iter_points (Iter ts))"
  by (cases ts) (auto simp: on_axis_def ticks_iff samples_def)

lemma aggregate_on_axis:
  assumes "list_all (\<lambda>s. on_axis f step n (Some s)) (agg_input a)"
  obtains ts where "Aggregate_Get (Some a) = Some ts" "on_axis f step n ts"
proof (cases "agg_input a")
  case Nil
  then show thesis using that [of None] by (simp add: Aggregate_Get_def on_axis_def)
next
  case (Cons s ss)
  show thesis
  proof (cases ss)
    case Nil
    then show thesis using that [of "Some s"] Cons assms by (simp add: Aggregate_Get_def)
  next
    case (Cons s' ss')
    have inp: "agg_input a = s # s' # ss'" using \<open>agg_input a = s # ss\<close> Cons by simp
    then have a: "a = \<lparr>agg_f = agg_f a, agg_input = s # s' # ss'\<rparr>" by simp
    have "\<forall>x\<in>set (s' # ss'). length (ts_data x) \<le> length (ts_data s)"
      using assms inp by (auto simp: list_all_iff on_axis_def)
    then have "Aggregate_Get (Some a) = Some (Some (NewWithData (ts_from s) (ts_step s)
        (map (\<lambda>i. agg_point (agg_f a) (s # s' # ss') i NaN) [0..<length (ts_data s)])))"
      by (subst a) (subst Aggregate_Get_two, simp)
    then show thesis
      by (rule that) (use assms inp in \<open>simp add: on_axis_def NewWithData_def\<close>)
  qed
qed

subsection \<open>Replica sets over time\<close>

definition named :: "string list \<Rightarrow> bool" where
  "named names \<longleftrightarrow> names \<noteq> [] \<and> distinct names \<and> [] \<notin> set names"

lemma timeline_ok:
  assumes "0 < s" "list_all (\<lambda>(n, ps). n \<noteq> [] \<and> ticks a s ps) iters" "distinct (map fst iters)"
  shows "list_all (\<lambda>(t, names). a \<le> t \<and> named names) (timeline iters) \<and> sorted_wrt (<) (map fst (timeline iters))"
  using assms
proof (induction iters arbitrary: a rule: timeline.induct)
  case (1 iters)
  show ?case
  proof (cases "iters = [] \<or> list_ex (\<lambda>(_, ps). ps = []) iters")
    case True
    then show ?thesis by (subst timeline.simps, subst timeline.simps) simp
  next
    case False
    let ?rest = "map (\<lambda>(n, ps). (n, tl ps)) iters"
    let ?names = "map fst (filter (\<lambda>(_, ps). f32_gt (snd (hd ps)) (Fin 0)) iters)"
    have step: "n \<noteq> [] \<and> ps \<noteq> [] \<and> fst (hd ps) = a \<and> ticks (a + s) s (tl ps)" if "(n, ps) \<in> set iters" for n ps
      using that False "1.prems"(2) by (cases ps) (auto simp: list_all_iff list_ex_iff)
    have "list_all (\<lambda>(t, names). a + s \<le> t \<and> named names) (timeline ?rest) \<and> sorted_wrt (<) (map fst (timeline ?rest))"
      using False "1.prems" step by (intro "1.IH") (auto simp: list_all_iff comp_def case_prod_beta)
    then have IH: "list_all (\<lambda>(t, names). a + s \<le> t \<and> named names) (timeline ?rest)" "sorted_wrt (<) (map fst (timeline ?rest))" by auto
    have t: "fst (hd (snd (last iters))) = a" using step [of "fst (last iters)" "snd (last iters)"] False by simp
    have names: "distinct ?names" "[] \<notin> set ?names"
      using "1.prems"(3) step [of "[]"] by (auto simp: distinct_map_filter)
    have eq: "timeline iters = (if ?names = [] then timeline ?rest else (a, sort_Strings ?names) # timeline ?rest)"
      using False t by (subst timeline.simps) (simp add: Let_def)
    have "named (sort_Strings ?names)" if "?names \<noteq> []"
      using names that set_sort_Strings [of ?names] distinct_sort_Strings [of ?names] unfolding named_def by (metis set_empty)
    then show ?thesis unfolding eq using IH "1.prems"(1) by (auto simp: list_all_iff)
  qed
qed

subsection \<open>Rollouts in order\<close>

text \<open>
  A deployment of the application with a name and a start, finished at its start or later; and one
  followed by the next, which starts later, not before the first is finished, with another replica set.
\<close>

definition deployment_ok :: "ApplicationId \<Rightarrow> ApplicationDeployment \<Rightarrow> bool" where
  "deployment_ok appId d \<longleftrightarrow> dp_ApplicationId d = appId \<and> dp_Name d \<noteq> [] \<and> 0 < dp_StartedAt d \<and>
     (dp_FinishedAt d = 0 \<or> dp_StartedAt d \<le> dp_FinishedAt d)"

definition next_rollout :: "ApplicationDeployment \<Rightarrow> ApplicationDeployment \<Rightarrow> bool" where
  "next_rollout d d' \<longleftrightarrow> dp_StartedAt d < dp_StartedAt d' \<and> dp_FinishedAt d \<le> dp_StartedAt d' \<and> dp_Name d \<noteq> dp_Name d'"

definition rollouts_ok :: "ApplicationId \<Rightarrow> ApplicationDeployment list \<Rightarrow> bool" where
  "rollouts_ok appId ds \<longleftrightarrow> list_all (deployment_ok appId) ds \<and> successively next_rollout ds"

definition before :: "Time \<Rightarrow> ApplicationDeployment \<Rightarrow> bool" where
  "before t d \<longleftrightarrow> dp_StartedAt d < t \<and> dp_FinishedAt d < t"

definition calc_inv :: "ApplicationId \<Rightarrow> Time \<Rightarrow> calc_state \<Rightarrow> bool" where
  "calc_inv appId t st \<longleftrightarrow> rollouts_ok appId (cs_deployments st) \<and> list_all (before t) (cs_deployments st) \<and>
     (cs_deployments st \<noteq> [] \<longrightarrow> cs_prev st = dp_Name (last (cs_deployments st))) \<and>
     (\<forall>i. cs_deployment st = Some i \<longrightarrow> cs_deployments st \<noteq> [] \<and> i = length (cs_deployments st) - 1)"

lemma rollouts_ok_snoc:
  "rollouts_ok appId (ds @ [d]) \<longleftrightarrow> rollouts_ok appId ds \<and> deployment_ok appId d \<and> (ds = [] \<or> next_rollout (last ds) d)"
  by (auto simp: rollouts_ok_def successively_append_iff)

lemma calc_inv_later: "calc_inv appId t st \<Longrightarrow> t \<le> t' \<Longrightarrow> calc_inv appId t' st"
  by (auto simp: calc_inv_def before_def list_all_iff)

lemma calc_inv_append:
  assumes "calc_inv appId t st" "0 < t" "name \<noteq> []" "name \<noteq> cs_prev st" "fin = 0 \<or> fin = t"
    and "cur = None \<or> cur = Some (length (cs_deployments st))"
  shows "calc_inv appId (t + 1) (st\<lparr>cs_deployments := cs_deployments st @ [new_deployment appId name t fin], cs_deployment := cur, cs_prev := name\<rparr>)"
proof -
  have "next_rollout (last (cs_deployments st)) (new_deployment appId name t fin)" if "cs_deployments st \<noteq> []"
  proof -
    have "before t (last (cs_deployments st))" using that assms(1) by (simp add: calc_inv_def list_all_iff)
    then show ?thesis using that assms(1,4) by (auto simp: calc_inv_def next_rollout_def new_deployment_def before_def)
  qed
  moreover have "deployment_ok appId (new_deployment appId name t fin)" "before (t + 1) (new_deployment appId name t fin)"
    using assms by (auto simp: deployment_ok_def before_def new_deployment_def)
  moreover have "list_all (before (t + 1)) (cs_deployments st)" using assms(1) by (auto simp: calc_inv_def list_all_iff before_def)
  ultimately show ?thesis using assms(1,6) by (auto simp: calc_inv_def rollouts_ok_snoc new_deployment_def)
qed

lemma finish_current_inv:
  assumes inv: "calc_inv appId t st" and t: "0 < t"
  shows "calc_inv appId (t + 1) (finish_current name t st) \<and> cs_deployment (finish_current name t st) = None \<and>
    cs_prev (finish_current name t st) = cs_prev st"
proof (cases "cs_deployment st")
  case None
  then show ?thesis using calc_inv_later [OF inv, of "t + 1"] by (simp add: finish_current_def)
next
  case (Some i)
  then have ne: "cs_deployments st \<noteq> []" "i = length (cs_deployments st) - 1" using inv by (auto simp: calc_inv_def)
  then obtain ds d where ds: "cs_deployments st = ds @ [d]" by (metis append_butlast_last_id)
  then have i: "i = length ds" using ne by simp
  have d: "deployment_ok appId d" "before t d" "rollouts_ok appId ds" "list_all (before t) ds" "ds = [] \<or> next_rollout (last ds) d"
    using inv ds by (auto simp: calc_inv_def rollouts_ok_snoc)
  have "deployment_ok appId (d\<lparr>dp_FinishedAt := t\<rparr>)" "before (t + 1) (d\<lparr>dp_FinishedAt := t\<rparr>)" "before (t + 1) d"
    "ds = [] \<or> next_rollout (last ds) (d\<lparr>dp_FinishedAt := t\<rparr>)" "list_all (before (t + 1)) ds"
    using d by (auto simp: deployment_ok_def before_def next_rollout_def list_all_iff)
  then show ?thesis using d inv Some ds i by (auto simp: finish_current_def Let_def calc_inv_def rollouts_ok_snoc)
qed

lemma find_other:
  assumes "named (a # b # ns)" shows "\<exists>n. find (\<lambda>n. n \<noteq> p) (a # b # ns) = Some n \<and> n \<noteq> [] \<and> n \<noteq> p"
  using assms by (cases "a = p") (auto simp: named_def)

lemma calc_step_inv:
  assumes inv: "calc_inv appId t0 st" and t: "0 < t" "t0 \<le> t" and names: "named names"
  shows "calc_inv appId (t + 1) (calc_step appId (t, names) st)"
proof -
  have inv: "calc_inv appId t st" by (rule calc_inv_later [OF inv t(2)])
  show ?thesis
  proof (cases "cs_prev st = []")
    case True
    have "dp_Name (last (cs_deployments st)) \<noteq> []" if "cs_deployments st \<noteq> []"
      using that inv by (simp add: calc_inv_def rollouts_ok_def list_all_iff deployment_ok_def)
    then have "cs_deployments st = []" using inv True by (auto simp: calc_inv_def)
    then show ?thesis using True inv names by (auto simp: calc_step_def calc_inv_def rollouts_ok_def split: list.splits)
  next
    case False
    consider (one) c where "names = [c]" | (many) a b ns where "names = a # b # ns" using names unfolding named_def by (metis list.exhaust)
    then show ?thesis
    proof cases
      case one
      note f = finish_current_inv [OF inv t(1), of c]
      have n: "c \<noteq> []" using names one by (simp add: named_def)
      show ?thesis
      proof (cases "cs_prev st = c")
        case True
        then show ?thesis using one f False by (simp add: calc_step_def Let_def)
      next
        case ne: False
        have fc: "finish_current c t st = st\<lparr>cs_deployment := None\<rparr>"
          using inv ne by (cases "cs_deployment st") (auto simp: finish_current_def Let_def calc_inv_def last_conv_nth)
        have "calc_inv appId t (st\<lparr>cs_deployment := None\<rparr>)" using inv by (simp add: calc_inv_def)
        from calc_inv_append [OF this t(1) n, of t None] show ?thesis
          using one False ne fc by (cases st) (simp add: calc_step_def Let_def)
      qed
    next
      case many
      show ?thesis
      proof (cases "cs_deployment st = None")
        case True
        obtain n where n: "find (\<lambda>n. n \<noteq> cs_prev st) names = Some n" "n \<noteq> []" "n \<noteq> cs_prev st"
          using find_other [of a b ns "cs_prev st"] names many by auto
        have "calc_step appId (t, names) st = st\<lparr>cs_deployments := cs_deployments st @ [new_deployment appId n t 0],
            cs_deployment := Some (length (cs_deployments st)), cs_prev := n\<rparr>"
          using many False True n(1) by (simp add: calc_step_def)
        then show ?thesis using calc_inv_append [OF inv t(1) n(2,3), of 0 "Some (length (cs_deployments st))"] by simp
      next
        case opened: False
        then show ?thesis using many False calc_inv_later [OF inv, of "t + 1"] by (simp add: calc_step_def)
      qed
    qed
  qed
qed

lemma calc_fold_inv:
  assumes "calc_inv appId t st" "list_all (\<lambda>(t', names). 0 < t' \<and> t \<le> t' \<and> named names) rss" "sorted_wrt (<) (map fst rss)"
  shows "rollouts_ok appId (cs_deployments (fold (calc_step appId) rss st))"
  using assms
proof (induction rss arbitrary: t st)
  case (Cons x rss)
  obtain t1 names where x: "x = (t1, names)" by force
  have "calc_inv appId (t1 + 1) (calc_step appId x st)"
    unfolding x using Cons.prems x by (intro calc_step_inv [OF Cons.prems(1)]) auto
  moreover have "list_all (\<lambda>(t', names). 0 < t' \<and> t1 + 1 \<le> t' \<and> named names) rss"
    using Cons.prems(2,3) x by (fastforce simp: list_all_iff)
  ultimately show ?case using Cons.IH Cons.prems(3) by simp
qed (simp add: calc_inv_def)

lemma with_details_simps [simp]:
  "dp_ApplicationId (with_details images d) = dp_ApplicationId d" "dp_Name (with_details images d) = dp_Name d"
  "dp_StartedAt (with_details images d) = dp_StartedAt d" "dp_FinishedAt (with_details images d) = dp_FinishedAt d"
  by (simp_all add: with_details_def split: option.splits)

lemma rollouts_ok_details: "rollouts_ok appId (map (with_details images) ds) \<longleftrightarrow> rollouts_ok appId ds"
  by (simp add: rollouts_ok_def list_all_iff deployment_ok_def successively_map next_rollout_def)

lemma in_update: "x \<in> set (AList.update k v al) \<Longrightarrow> x = (k, v) \<or> x \<in> set al"
  by (induction al) (auto split: if_splits)

lemma life_spans_ok:
  assumes "list_all (\<lambda>i. case pi_Pod i of None \<Rightarrow> True | Some pod \<Rightarrow> on_axis f step n (pod_LifeSpan pod)) is"
    and "distinct (map fst (fst st))" "list_all (\<lambda>(rs, a). rs \<noteq> [] \<and> list_all (\<lambda>s. on_axis f step n (Some s)) (agg_input a)) (fst st)"
  shows "distinct (map fst (fst (fold add_life_span is st))) \<and>
    list_all (\<lambda>(rs, a). rs \<noteq> [] \<and> list_all (\<lambda>s. on_axis f step n (Some s)) (agg_input a)) (fst (fold add_life_span is st))"
  using assms
proof (induction "is" arbitrary: st)
  case (Cons i "is")
  obtain l m where st: "st = (l, m)" by force
  have "distinct (map fst (fst (add_life_span i st))) \<and>
      list_all (\<lambda>(rs, a). rs \<noteq> [] \<and> list_all (\<lambda>s. on_axis f step n (Some s)) (agg_input a)) (fst (add_life_span i st))"
  proof (cases "\<exists>pod. pi_Pod i = Some pod \<and> pod_ReplicaSet pod \<noteq> []")
    case True
    then obtain pod where pod: "pi_Pod i = Some pod" "pod_ReplicaSet pod \<noteq> []" by blast
    let ?agg = "case map_of l (pod_ReplicaSet pod) of None \<Rightarrow> NewAggregate NanSum | Some a \<Rightarrow> a"
    have "list_all (\<lambda>s. on_axis f step n (Some s)) (agg_input ?agg)"
      using Cons.prems(3) st by (auto simp: NewAggregate_def list_all_iff split: option.splits dest!: map_of_SomeD)
    then have "list_all (\<lambda>s. on_axis f step n (Some s)) (agg_input (Aggregate_Add ?agg [pod_LifeSpan pod]))"
      using Cons.prems(1) pod by (auto simp: Aggregate_Add_def split: option.splits)
    then show ?thesis using Cons.prems(2,3) st pod
      by (auto simp: add_life_span_def Let_def distinct_update list_all_iff dest!: in_update)
  qed (use Cons.prems(2,3) st in \<open>auto simp: add_life_span_def Let_def split: option.splits\<close>)
  then show ?case using Cons.IH [of "add_life_span i st"] Cons.prems(1) by simp
qed simp

lemma those_map_the:
  "list_all (\<lambda>x. g x \<noteq> None) xs \<Longrightarrow> those (map g xs) = Some (map (\<lambda>x. the (g x)) xs)"
  by (induction xs) auto

text \<open>
  C11. The rollouts that the watcher finds in the life spans of the replica sets are in order: when the life
  spans are on one time axis, the search ends without a panic, and the deployments found belong to the
  application, have a name and a start, are finished not before they start, and each is followed by a
  later one of another replica set that starts when the previous one is already finished or not finished
  at all.
\<close>

theorem rollouts_in_order:
  assumes "0 < f" "0 < step"
    and "list_all (\<lambda>i. case pi_Pod i of None \<Rightarrow> True | Some pod \<Rightarrow> on_axis f step n (pod_LifeSpan pod)) (da_Instances app)"
  shows "\<exists>ds. calcDeployments app = Some ds \<and> rollouts_ok (da_Id app) ds"
proof (cases "Kind (da_Id app) \<noteq> ApplicationKindDeployment \<or> da_Instances app = []")
  case True
  then show ?thesis by (simp add: calcDeployments_def rollouts_ok_def)
next
  case False
  obtain l images where l: "fold add_life_span (da_Instances app) ([], []) = (l, images)" by force
  have ok: "distinct (map fst l)" "list_all (\<lambda>(rs, a). rs \<noteq> [] \<and> list_all (\<lambda>s. on_axis f step n (Some s)) (agg_input a)) l"
    using life_spans_ok [OF assms(3), of "([], [])"] l by auto
  show ?thesis
  proof (cases "l = []")
    case True
    then show ?thesis using False l by (simp add: calcDeployments_def rollouts_ok_def)
  next
    case ne: False
    let ?g = "\<lambda>(name, agg). map_option (\<lambda>ts. (name, iter_points (Iter ts))) (Aggregate_Get (Some agg))"
    have g: "\<exists>ts. ?g x = Some (fst x, iter_points (Iter ts)) \<and> on_axis f step n ts" if x: "x \<in> set l" for x
    proof -
      have "list_all (\<lambda>s. on_axis f step n (Some s)) (agg_input (snd x))" using ok(2) x by (auto simp: list_all_iff)
      then obtain ts where "Aggregate_Get (Some (snd x)) = Some ts" "on_axis f step n ts" by (rule aggregate_on_axis)
      then show ?thesis by (cases x) auto
    qed
    define iters where "iters = map (\<lambda>x. the (?g x)) l"
    have "list_all (\<lambda>x. ?g x \<noteq> None) l" using g by (fastforce simp: list_all_iff)
    then have those: "those (map ?g l) = Some iters" unfolding iters_def by (rule those_map_the)
    have fsts: "map fst iters = map fst l" unfolding iters_def using g by (fastforce simp: comp_def)
    have "list_all (\<lambda>(n, ps). n \<noteq> [] \<and> ticks f step ps) iters"
      unfolding iters_def using g ok(2) ticks_Iter by (fastforce simp: list_all_iff)
    from timeline_ok [OF assms(2) this] have tl: "list_all (\<lambda>(t, names). f \<le> t \<and> named names) (timeline iters)" "sorted_wrt (<) (map fst (timeline iters))"
      using ok(1) fsts by auto
    have "calc_inv (da_Id app) f start_state" by (simp add: calc_inv_def start_state_def rollouts_ok_def)
    moreover have "list_all (\<lambda>(t', names). 0 < t' \<and> f \<le> t' \<and> named names) (timeline iters)" using tl(1) assms(1) by (fastforce simp: list_all_iff)
    ultimately have "rollouts_ok (da_Id app) (cs_deployments (fold (calc_step (da_Id app)) (timeline iters) start_state))"
      using tl(2) by (rule calc_fold_inv)
    then show ?thesis using False ne l those by (simp add: calcDeployments_def rollouts_ok_details)
  qed
qed

definition demo_pod :: "string \<Rightarrow> f32 list \<Rightarrow> PodInstance" where
  "demo_pod rs vs = \<lparr>pi_Pod = Some \<lparr>pod_ReplicaSet = rs, pod_LifeSpan = Some \<lparr>ts_from = 60, ts_step = 15, ts_data = vs\<rparr>\<rparr>,
     pi_Containers = [], pi_Price = None\<rparr>"

definition demo_deployed :: DeployedApp where
  "demo_deployed = \<lparr>da_Id = \<lparr>ClusterId = ''c'', Namespace = ''ns'', Kind = ''Deployment'', Name = ''app''\<rparr>, da_Category = ''application'',
     da_Instances = [demo_pod ''app-1'' [Fin 1, Fin 1, NaN, NaN], demo_pod ''app-2'' [NaN, Fin 1, Fin 1, Fin 1]],
     da_Deployments = [], da_AvailabilitySLIs = [], da_LatencySLIs = [], da_LogMessages = []\<rparr>"

theorem rollouts_in_order_witness:
  "\<exists>ds. calcDeployments demo_deployed = Some ds \<and> rollouts_ok (da_Id demo_deployed) ds"
  using rollouts_in_order [of 60 15 4 demo_deployed] by (simp add: demo_deployed_def demo_pod_def on_axis_def)

subsection \<open>Windows of the snapshots\<close>

lemma rollouts_later:
  assumes "successively next_rollout ds" "i < j" "j < length ds"
  shows "dp_StartedAt (ds ! (i + 1)) \<le> dp_StartedAt (ds ! j)"
  using assms(2,3)
proof (induction j)
  case (Suc j)
  have "next_rollout (ds ! j) (ds ! Suc j)" using assms(1) Suc.prems by (simp add: successively_conv_nth)
  then show ?case using Suc by (cases "i = j") (auto simp: next_rollout_def)
qed simp

text \<open>
  The metrics of two rollouts are never mixed: each window is 20 minutes long, begins 10 minutes after
  the rollout has finished, and ends before the next rollout starts, so the windows of two deployments of
  an application do not overlap; the window of the last one does not reach beyond now.
\<close>

theorem snapshot_windows_apart:
  assumes "rollouts_ok appId ds" "i < j" "j < length ds"
    and "snapshot_window ds i now = Some (f, to)" "snapshot_window ds j now = Some (f', to')"
  shows "to < f' \<and> to - f = 20 * Minute \<and> dp_FinishedAt (ds ! i) + 10 * Minute = f \<and>
    (if j = length ds - 1 then to' \<le> now else to' \<le> dp_StartedAt (ds ! (j + 1)))"
proof -
  have i: "to \<le> dp_StartedAt (ds ! (i + 1))" "f = dp_FinishedAt (ds ! i) + 10 * Minute" "to = f + 20 * Minute"
    using assms(2-4) by (auto simp: snapshot_window_def Let_def ApplicationDeploymentMetricsSnapshotShift_def
        ApplicationDeploymentMetricsSnapshotWindow_def split: if_splits)
  have j: "dp_FinishedAt (ds ! j) \<noteq> 0" "f' = dp_FinishedAt (ds ! j) + 10 * Minute"
    using assms(5) by (auto simp: snapshot_window_def Let_def ApplicationDeploymentMetricsSnapshotShift_def split: if_splits)
  have "dp_StartedAt (ds ! (i + 1)) \<le> dp_StartedAt (ds ! j)"
    using assms(1-3) by (intro rollouts_later) (auto simp: rollouts_ok_def)
  moreover have "deployment_ok appId (ds ! j)" using assms(1,3) by (simp add: rollouts_ok_def list_all_length)
  moreover have "(0::int) < 10 * Minute" by (simp add: Minute_def Second_def)
  ultimately have "to < f'" using i j by (auto simp: deployment_ok_def)
  then show ?thesis using assms(2,3,5) i by (auto simp: snapshot_window_def Let_def split: if_splits)
qed

definition demo_finished :: "string \<Rightarrow> Time \<Rightarrow> Time \<Rightarrow> ApplicationDeployment" where
  "demo_finished name started finished = \<lparr>dp_ApplicationId = da_Id demo_deployed, dp_Name = name, dp_StartedAt = started,
     dp_FinishedAt = finished, dp_Details = None, dp_MetricsSnapshot = None, dp_Notifications = None\<rparr>"

subsection \<open>Rollouts are found again\<close>

definition found_again :: "ApplicationDeployment \<Rightarrow> ApplicationDeployment \<Rightarrow> bool" where
  "found_again d d' \<longleftrightarrow> dp_ApplicationId d' = dp_ApplicationId d \<and> dp_Name d' = dp_Name d \<and> dp_StartedAt d' = dp_StartedAt d \<and>
     (dp_FinishedAt d = 0 \<or> dp_FinishedAt d' = dp_FinishedAt d)"

definition grows :: "ApplicationDeployment list \<Rightarrow> ApplicationDeployment list \<Rightarrow> bool" where
  "grows ds ds' \<longleftrightarrow> length ds \<le> length ds' \<and> list_all2 found_again ds (take (length ds) ds')"

lemma grows_iff: "grows ds ds' \<longleftrightarrow> length ds \<le> length ds' \<and> (\<forall>i<length ds. found_again (ds ! i) (ds' ! i))"
  by (auto simp: grows_def list_all2_conv_all_nth)

lemma found_again_trans: "found_again d d' \<Longrightarrow> found_again d' d'' \<Longrightarrow> found_again d d''"
  by (auto simp: found_again_def)

lemma grows_trans: "grows ds ds' \<Longrightarrow> grows ds' ds'' \<Longrightarrow> grows ds ds''"
  unfolding grows_iff by (meson found_again_trans less_le_trans order_trans)

definition open_unfinished :: "calc_state \<Rightarrow> bool" where
  "open_unfinished st \<longleftrightarrow> (\<forall>i. cs_deployment st = Some i \<longrightarrow> i < length (cs_deployments st) \<and> dp_FinishedAt (cs_deployments st ! i) = 0)"

lemma finish_current_grows:
  "open_unfinished st \<Longrightarrow> grows (cs_deployments st) (cs_deployments (finish_current name t st)) \<and>
     cs_deployment (finish_current name t st) = None \<and> cs_prev (finish_current name t st) = cs_prev st"
  by (cases "cs_deployment st") (auto simp: finish_current_def Let_def grows_iff found_again_def open_unfinished_def nth_list_update)

lemma grows_append [simp]: "grows ds (ds @ [d])"
  by (simp add: grows_iff found_again_def nth_append)

lemma grows_refl [simp]: "grows ds ds"
  by (simp add: grows_iff found_again_def)

lemma calc_step_grows:
  assumes "open_unfinished st"
  shows "grows (cs_deployments st) (cs_deployments (calc_step appId rss st)) \<and> open_unfinished (calc_step appId rss st)"
proof -
  obtain t names where rss: "rss = (t, names)" by force
  note f = finish_current_grows [OF assms, of _ t]
  consider "names = []" | (one) c where "names = [c]" | (many) a b ns where "names = a # b # ns" by (metis list.exhaust)
  then show ?thesis
  proof cases
    case one
    show ?thesis
    proof (cases "cs_prev st = [] \<or> cs_prev st = c")
      case False
      then show ?thesis using one rss f [of c] grows_trans [OF _ grows_append]
        by (auto simp: calc_step_def Let_def open_unfinished_def)
    qed (use one rss f [of c] assms in \<open>auto simp: calc_step_def Let_def open_unfinished_def\<close>)
  qed (use assms rss in \<open>auto simp: calc_step_def Let_def open_unfinished_def new_deployment_def nth_append\<close>)
qed

lemma calc_fold_grows:
  "open_unfinished st \<Longrightarrow> grows (cs_deployments st) (cs_deployments (fold (calc_step appId) rss st))"
proof (induction rss arbitrary: st)
  case (Cons x rss)
  then show ?case using calc_step_grows [OF Cons.prems, of appId x] Cons.IH grows_trans by fastforce
qed simp

lemma open_unfinished_fold: "open_unfinished st \<Longrightarrow> open_unfinished (fold (calc_step appId) rss st)"
  by (induction rss arbitrary: st) (auto dest: calc_step_grows)

text \<open>
  What was found is found again: with more samples at the end, the search finds the same rollouts with
  the same names and starts first, a finished one with the same end, and possibly more after them. So
  saving what a later pass finds never contradicts what is stored.
\<close>

theorem rollouts_found_again:
  "grows (cs_deployments (fold (calc_step appId) rss start_state)) (cs_deployments (fold (calc_step appId) (rss @ later) start_state))"
proof -
  have "open_unfinished start_state" by (simp add: open_unfinished_def start_state_def)
  from calc_fold_grows [OF open_unfinished_fold [OF this]] show ?thesis by simp
qed

subsection \<open>States and summaries\<close>

lemma summary_status:
  assumes "summary_availability o1 cur prev = (r1, st1)" "summary_latency lc cur prev st1 = (r2, st2)"
  shows "st2 = (if list_ex (\<lambda>(r, ok, msg). r = AuditReportSLO \<and> \<not> ok) (r1 @ r2) then CRITICAL else OK)"
  using assms by (auto simp: summary_availability_def summary_latency_def Let_def split: if_splits option.splits)

lemma other_reports:
  "\<not> list_ex (\<lambda>(r, ok, msg). r = AuditReportSLO \<and> \<not> ok) (summary_cpu app cur prev @ summary_memory fm app cur prev @ summary_restarts fm cur @ summary_logs cur prev)"
  by (auto simp: summary_cpu_def summary_memory_def summary_restarts_def summary_logs_def Let_def AuditReportSLO_def AuditReportCPU_def
      AuditReportMemory_def AuditReportInstances_def AuditReportLogs_def split: option.splits if_splits)

lemma list_ex_map: "list_ex P (map f xs) \<longleftrightarrow> list_ex (P \<circ> f) xs"
  by (induction xs) simp_all

lemma summary_critical:
  assumes "CalcApplicationDeploymentSummary fm app cc t cur prev = (es, status)"
  shows "status = (if list_ex (\<lambda>e. su_Report e = AuditReportSLO \<and> \<not> su_Ok e) es then CRITICAL else OK)"
proof -
  obtain r1 st1 where a: "summary_availability (ca_ObjectivePercentage (fst (GetAvailability cc (da_Id app)))) cur prev = (r1, st1)" by force
  obtain r2 st2 where b: "summary_latency (fst (GetLatency cc (da_Id app) (da_Category app))) cur prev st1 = (r2, st2)" by force
  let ?mk = "\<lambda>(r, ok, msg). \<lparr>su_Report = r, su_Ok = ok, su_Message = msg, su_Time = t\<rparr>"
  let ?rest = "summary_cpu app cur prev @ summary_memory fm app cur prev @ summary_restarts fm cur @ summary_logs cur prev"
  have es: "es = map ?mk ((r1 @ r2) @ ?rest)" "status = st2"
    using assms a b by (simp_all add: CalcApplicationDeploymentSummary_def)
  have "(\<lambda>e. su_Report e = AuditReportSLO \<and> \<not> su_Ok e) \<circ> ?mk = (\<lambda>(r, ok, msg). r = AuditReportSLO \<and> \<not> ok)" by (auto simp: fun_eq_iff)
  then have "list_ex (\<lambda>e. su_Report e = AuditReportSLO \<and> \<not> su_Ok e) es \<longleftrightarrow> list_ex (\<lambda>(r, ok, msg). r = AuditReportSLO \<and> \<not> ok) ((r1 @ r2) @ ?rest)"
    unfolding es(1) list_ex_map by metis
  then show ?thesis using summary_status [OF a b] es(2) other_reports [of app cur prev fm] by (simp only: list_ex_append simp_thms)
qed

text \<open>What the state of a status says of its deployment.\<close>

definition status_explained :: "DeployedApp \<Rightarrow> nat \<Rightarrow> ApplicationDeploymentStatus \<Rightarrow> bool" where
  "status_explained app i s \<longleftrightarrow>
     st_Deployment s = da_Deployments app ! i \<and>
     (case st_State s of
        StateStarted \<Rightarrow> False
      | StateInProgress \<Rightarrow> i = length (da_Deployments app) - 1 \<and> dp_FinishedAt (st_Deployment s) = 0 \<and> st_Status s = WARNING
      | StateStuck \<Rightarrow> i = length (da_Deployments app) - 1 \<and> dp_FinishedAt (st_Deployment s) = 0 \<and> st_Status s = CRITICAL
      | StateCancelled \<Rightarrow> i \<noteq> length (da_Deployments app) - 1 \<and> dp_FinishedAt (st_Deployment s) = 0 \<and> st_Status s = WARNING
      | StateDeployed \<Rightarrow> dp_FinishedAt (st_Deployment s) \<noteq> 0 \<and> st_Status s = OK
      | StateSummary \<Rightarrow> dp_MetricsSnapshot (st_Deployment s) \<noteq> None \<and>
          (st_Status s = (if list_ex (\<lambda>e. su_Report e = AuditReportSLO \<and> \<not> su_Ok e) (st_Summary s) then CRITICAL else OK)))"

lemma deployment_status_explained:
  assumes "i < length (da_Deployments app)"
  shows "status_explained app i (deployment_status fm app cc threshold now i)"
proof (cases "dp_MetricsSnapshot (da_Deployments app ! i)")
  case None
  then show ?thesis by (auto simp: deployment_status_def status_explained_def Let_def)
next
  case (Some ms)
  obtain es st where es: "CalcApplicationDeploymentSummary fm app cc (dp_StartedAt (da_Deployments app ! i)) ms (previous_snapshot (da_Deployments app) i) = (es, st)" by force
  then show ?thesis using Some summary_critical [OF es] by (simp add: deployment_status_def status_explained_def Let_def)
qed

text \<open>
  The status of every deployment can be computed, and it says what happened: a deployment is in
  progress or stuck only if it is the last one and not finished, cancelled only if another follows; and a
  deployment with a summary is critical exactly when the summary has a violated objective.
\<close>

theorem deployment_states_explained:
  "\<exists>sts. CalcApplicationDeploymentStatuses fm app cc now = Some sts \<and> length sts = length (da_Deployments app) \<and>
     list_all (\<lambda>(i, s). status_explained app i s) (enumerate 0 sts)"
proof -
  have "(''DeploymentStatus'', Checks_DeploymentStatus\<lparr>cc_Id := ''DeploymentStatus''\<rparr>) \<in> set Checks_index"
    by (simp add: Checks_index_def Checks_fields_def)
  then have "GetSimple cc ''DeploymentStatus'' (da_Id app) \<noteq> None"
    using in_Checks_index(3) by (auto simp: GetSimple_def Let_def split: option.splits)
  then show ?thesis
    by (auto simp: CalcApplicationDeploymentStatuses_def list_all_iff in_set_enumerate_eq intro!: deployment_status_explained)
qed

subsection \<open>Messages in order\<close>

datatype channel = CSlack | CTeams | CWebhook

fun channel_of :: "destination \<Rightarrow> channel" where
  "channel_of (ToSlack _ _) = CSlack"
| "channel_of (ToTeams _) = CTeams"
| "channel_of (ToWebhook _) = CWebhook"

fun state_of :: "channel \<Rightarrow> ApplicationDeploymentNotifications \<Rightarrow> ApplicationDeploymentState" where
  "state_of CSlack n = ss_State (dn_Slack n)"
| "state_of CTeams n = dn_Teams n"
| "state_of CWebhook n = dn_Webhook n"

definition noted :: "ApplicationDeploymentNotifications option \<Rightarrow> ApplicationDeploymentNotifications" where
  "noted n = (case n of None \<Rightarrow> no_notifications | Some n \<Rightarrow> n)"

text \<open>The key of a row within its project, and the states of the accepted messages of a channel for a key.\<close>

definition deployment_key :: "ApplicationId \<times> Time \<Rightarrow> string \<times> Time" where
  "deployment_key k = (ApplicationId_Value (fst k), snd k)"

definition accepted :: "channel \<Rightarrow> string \<times> Time \<Rightarrow> message list \<Rightarrow> ApplicationDeploymentState list" where
  "accepted c k tr = map (\<lambda>(to, d, s, ok). s) (filter (\<lambda>(to, d, s, ok). ok \<and> channel_of to = c \<and> deployment_key d = k) tr)"

lemma accepted_Nil [simp]: "accepted c k [] = []"
  by (simp add: accepted_def)

lemma accepted_append [simp]: "accepted c k (tr @ tr') = accepted c k tr @ accepted c k tr'"
  by (simp add: accepted_def)

lemma accepted_one [simp]: "accepted c k [(to, d, s, ok)] = (if ok \<and> channel_of to = c \<and> deployment_key d = k then [s] else [])"
  by (simp add: accepted_def)

text \<open>
  The contract of a channel: what the watcher reads and sets is the state of this channel only. While the
  messages of one deployment are sent, its accepted states stay in order and below what is recorded.
\<close>

definition pass_inv :: "ApplicationId \<times> Time \<Rightarrow> message list \<Rightarrow> DeploymentRow list \<Rightarrow> ApplicationDeploymentNotifications
    \<Rightarrow> ApplicationDeploymentNotifications \<times> bool \<times> DeploymentDB \<Rightarrow> bool" where
  "pass_inv d tr0 rows0 n0 x \<longleftrightarrow>
     (case x of (n, b, db) \<Rightarrow>
        dd_rows db = rows0 \<and> (\<not> b \<longrightarrow> n = n0) \<and>
        (\<forall>c. sorted_wrt (<) (accepted c (deployment_key d) (dd_trace db)) \<and>
             (\<forall>s\<in>set (accepted c (deployment_key d) (dd_trace db)). s \<le> state_of c n)) \<and>
        (\<forall>c k. k \<noteq> deployment_key d \<longrightarrow> accepted c k (dd_trace db) = accepted c k tr0))"

locale message_channel =
  fixes c :: channel and get_state :: "ApplicationDeploymentNotifications \<Rightarrow> ApplicationDeploymentState"
    and put_state :: "ApplicationDeploymentState \<Rightarrow> ApplicationDeploymentNotifications \<Rightarrow> ApplicationDeploymentNotifications"
  assumes get_law: "get_state n = state_of c n"
    and put_law: "state_of c' (put_state s n) = (if c' = c then s else state_of c' n)"
begin

lemma send_to_keeps:
  assumes "pass_inv (dp_ApplicationId (st_Deployment ds), dp_StartedAt (st_Deployment ds)) tr0 rows0 n0 x"
    and "case dest of None \<Rightarrow> True | Some to \<Rightarrow> channel_of to = c"
  shows "pass_inv (dp_ApplicationId (st_Deployment ds), dp_StartedAt (st_Deployment ds)) tr0 rows0 n0 (send_to e project dest ds get_state put_state x)"
proof -
  let ?d = "(dp_ApplicationId (st_Deployment ds), dp_StartedAt (st_Deployment ds))"
  obtain n b db where x: "x = (n, b, db)" by (metis prod.exhaust)
  show ?thesis
  proof (cases "dest = None \<or> \<not> get_state n < st_State ds")
    case True
    then show ?thesis using assms(1) x by (auto simp: send_to_def split: option.splits)
  next
    case False
    then obtain to where to: "dest = Some to" "channel_of to = c" and lt: "state_of c n < st_State ds" using assms(2) get_law by auto
    have "s < st_State ds" if "s \<in> set (accepted c (deployment_key ?d) (dd_trace db))" for s
      by (rule le_less_trans [OF _ lt]) (use that assms(1) x in \<open>simp add: pass_inv_def\<close>)
    then have below: "\<forall>s\<in>set (accepted c (deployment_key ?d) (dd_trace db)). s < st_State ds \<and> s \<le> st_State ds" by (auto intro: less_imp_le)
    show ?thesis
      using assms(1) x to False below by (auto simp: send_to_def Let_def pass_inv_def put_law sorted_wrt_append)
  qed
qed

end

interpretation slack: message_channel CSlack "\<lambda>n. ss_State (dn_Slack n)" slack_set
proof
  show "state_of c' (slack_set s n) = (if c' = CSlack then s else state_of c' n)" for c' s n
    by (cases c') (simp_all add: slack_set_def)
qed simp

interpretation teams: message_channel CTeams dn_Teams "\<lambda>s n. n\<lparr>dn_Teams := s\<rparr>"
proof
  show "state_of c' (n\<lparr>dn_Teams := s\<rparr>) = (if c' = CTeams then s else state_of c' n)" for c' s n by (cases c') simp_all
qed simp

interpretation webhook: message_channel CWebhook dn_Webhook "\<lambda>s n. n\<lparr>dn_Webhook := s\<rparr>"
proof
  show "state_of c' (n\<lparr>dn_Webhook := s\<rparr>) = (if c' = CWebhook then s else state_of c' n)" for c' s n by (cases c') simp_all
qed simp

lemma destination_channels:
  "case slack_to i s of None \<Rightarrow> True | Some to \<Rightarrow> channel_of to = CSlack"
  "case teams_to i s of None \<Rightarrow> True | Some to \<Rightarrow> channel_of to = CTeams"
  "case webhook_to i s of None \<Rightarrow> True | Some to \<Rightarrow> channel_of to = CWebhook"
  by (auto simp: slack_to_def teams_to_def webhook_to_def split: option.splits)

subsection \<open>The table and the messages\<close>

definition row_key :: "DeploymentRow \<Rightarrow> string \<times> string \<times> Time" where
  "row_key r = (dr_project_id r, dr_application_id r, dr_started_at r)"

text \<open>Accepted messages of a project are in order, and recorded in the row of their deployment.\<close>

definition messages_ok :: "string \<Rightarrow> DeploymentDB \<Rightarrow> bool" where
  "messages_ok pid db \<longleftrightarrow> distinct (map row_key (dd_rows db)) \<and>
     (\<forall>c k. sorted_wrt (<) (accepted c k (dd_trace db)) \<and>
        (\<forall>s\<in>set (accepted c k (dd_trace db)). \<exists>r\<in>set (dd_rows db). row_key r = (pid, k) \<and> s \<le> state_of c (noted (dr_notifications r))))"

definition key_of :: "ApplicationDeployment \<Rightarrow> string \<times> Time" where
  "key_of d = deployment_key (dp_ApplicationId d, dp_StartedAt d)"

text \<open>The deployments of the world are those of the table.\<close>

definition loaded :: "string \<Rightarrow> DeploymentDB \<Rightarrow> ApplicationDeployment list \<Rightarrow> bool" where
  "loaded pid db ds \<longleftrightarrow> distinct (map key_of ds) \<and>
     (\<forall>d\<in>set ds. \<exists>r\<in>set (dd_rows db). row_key r = (pid, key_of d) \<and> noted (dr_notifications r) = noted (dp_Notifications d))"

lemma row_of_key: "row_of pid d r \<longleftrightarrow> row_key r = (pid, key_of d)"
  by (auto simp: row_of_def row_key_def key_of_def deployment_key_def)

lemma unique_row: "distinct (map row_key rows) \<Longrightarrow> r \<in> set rows \<Longrightarrow> r' \<in> set rows \<Longrightarrow> row_key r = row_key r' \<Longrightarrow> r = r'"
  by (auto simp: distinct_map inj_on_def)

lemma saved_notifications:
  assumes ok: "messages_ok pid db0" and d: "loaded pid db0 (xs @ d # ys)" and x: "pass_inv (dp_ApplicationId d, dp_StartedAt d) (dd_trace db0) (dd_rows db0) (noted (dp_Notifications d)) (n, b, db)"
  defines "db1 \<equiv> (if b then snd (SaveApplicationDeploymentNotifications (\<lambda>_. False) pid (d\<lparr>dp_Notifications := Some n\<rparr>) db) else db)"
  shows "messages_ok pid db1 \<and> loaded pid db1 (xs @ d\<lparr>dp_Notifications := Some n\<rparr> # ys)"
proof -
  let ?k = "key_of d" let ?d = "d\<lparr>dp_Notifications := Some n\<rparr>"
  define upd where "upd = (\<lambda>r. if row_key r = (pid, ?k) then (if b then r\<lparr>dr_notifications := Some n\<rparr> else r) else r)"
  have k: "?k = deployment_key (dp_ApplicationId d, dp_StartedAt d)" "key_of ?d = ?k" by (simp_all add: key_of_def)
  have rows: "dd_rows db1 = map upd (dd_rows db0)" and tr: "dd_trace db1 = dd_trace db"
    using x unfolding db1_def upd_def pass_inv_def
    by (auto simp: SaveApplicationDeploymentNotifications_def dep_sql_def Let_def update_rows_def row_of_key k intro!: map_idI [symmetric])
  have uk: "row_key (upd r) = row_key r" for r by (simp add: upd_def row_key_def)
  have dist: "distinct (map row_key (dd_rows db0))" using ok by (simp add: messages_ok_def)
  obtain r0 where r0: "r0 \<in> set (dd_rows db0)" "row_key r0 = (pid, ?k)" "noted (dr_notifications r0) = noted (dp_Notifications d)"
    using d by (auto simp: loaded_def)
  have n: "noted (dr_notifications (upd r0)) = n" using x r0 by (auto simp: upd_def noted_def pass_inv_def)
  have other: "accepted c k (dd_trace db1) = accepted c k (dd_trace db0)" if "k \<noteq> ?k" for c k
    using x tr that by (simp add: pass_inv_def k(1) del: split_paired_All)
  have own: "sorted_wrt (<) (accepted c ?k (dd_trace db1)) \<and> (\<forall>s\<in>set (accepted c ?k (dd_trace db1)). s \<le> state_of c n)" for c
    using x tr by (simp add: pass_inv_def k(1))
  have old: "sorted_wrt (<) (accepted c k (dd_trace db0))"
      "s \<in> set (accepted c k (dd_trace db0)) \<Longrightarrow> \<exists>r\<in>set (dd_rows db0). row_key r = (pid, k) \<and> s \<le> state_of c (noted (dr_notifications r))" for c k s
    using ok by (simp_all add: messages_ok_def del: split_paired_All)
  have "messages_ok pid db1"
    unfolding messages_ok_def
  proof (intro conjI allI ballI)
    show "distinct (map row_key (dd_rows db1))" using dist by (simp add: rows comp_def uk)
    fix c k
    show "sorted_wrt (<) (accepted c k (dd_trace db1))"
      using own other old(1) by (cases "k = ?k") simp_all
    fix s assume s: "s \<in> set (accepted c k (dd_trace db1))"
    show "\<exists>r\<in>set (dd_rows db1). row_key r = (pid, k) \<and> s \<le> state_of c (noted (dr_notifications r))"
    proof (cases "k = ?k")
      case True
      then have "s \<le> state_of c n" using s own by blast
      then show ?thesis using True r0 n uk [of r0] by (intro bexI [of _ "upd r0"]) (simp_all add: rows)
    next
      case False
      then have "s \<in> set (accepted c k (dd_trace db0))" using s other by simp
      then obtain r where "r \<in> set (dd_rows db0)" "row_key r = (pid, k)" "s \<le> state_of c (noted (dr_notifications r))" using old(2) by blast
      then show ?thesis using False by (intro bexI [of _ "upd r"]) (auto simp: rows upd_def)
    qed
  qed
  moreover have "loaded pid db1 (xs @ ?d # ys)"
    unfolding loaded_def
  proof (intro conjI ballI)
    show "distinct (map key_of (xs @ ?d # ys))" using d k(2) by (simp add: loaded_def)
    fix d' assume "d' \<in> set (xs @ ?d # ys)"
    moreover have "?k \<notin> key_of ` set (xs @ ys)" using d by (simp add: loaded_def) blast
    ultimately consider "d' = ?d" | "d' \<in> set (xs @ d # ys)" "key_of d' \<noteq> ?k" by (simp add: image_iff) (metis UnCI)
    then show "\<exists>r\<in>set (dd_rows db1). row_key r = (pid, key_of d') \<and> noted (dr_notifications r) = noted (dp_Notifications d')"
    proof cases
      case 1
      then show ?thesis using r0 n uk [of r0] k(2) by (intro bexI [of _ "upd r0"]) (auto simp: rows noted_def)
    next
      case 2
      then obtain r where "r \<in> set (dd_rows db0)" "row_key r = (pid, key_of d')" "noted (dr_notifications r) = noted (dp_Notifications d')"
        using d 2(1) unfolding loaded_def by blast
      then show ?thesis using 2(2) by (intro bexI [of _ "upd r"]) (auto simp: rows upd_def)
    qed
  qed
  ultimately show ?thesis by simp
qed

lemma notify_one_keeps:
  assumes ok: "messages_ok pid db" "loaded pid db (da_Deployments app @ rest)" and i: "i < length (da_Deployments app)"
    and e: "de_fails e = (\<lambda>_. False)" "p_Id project = pid" and s: "key_of (st_Deployment s) = key_of (da_Deployments app ! i)"
    and run: "notify_one e project settings now (i, s) (app, db) = (app', db')"
  shows "messages_ok pid db' \<and> loaded pid db' (da_Deployments app' @ rest) \<and> map key_of (da_Deployments app') = map key_of (da_Deployments app)"
proof (cases "now - dp_StartedAt (da_Deployments app ! i) > Day")
  case True
  then show ?thesis using run ok by (simp add: notify_one_def)
next
  case False
  let ?d = "da_Deployments app ! i" let ?n = "noted (dp_Notifications ?d)" let ?i = "p_Integrations project"
  have split: "da_Deployments app @ rest = take i (da_Deployments app) @ ?d # drop (Suc i) (da_Deployments app) @ rest"
    by (subst (1) id_take_nth_drop [OF i]) simp
  have upd: "(da_Deployments app)[i := x] @ rest = take i (da_Deployments app) @ x # drop (Suc i) (da_Deployments app) @ rest" for x
    using i by (simp add: upd_conv_take_nth_drop)
  have keys: "map key_of ((da_Deployments app)[i := ?d\<lparr>dp_Notifications := x\<rparr>]) = map key_of (da_Deployments app)" for x
    using i by (simp add: map_update list_update_same_conv key_of_def)
  let ?k = "(dp_ApplicationId ?d, dp_StartedAt ?d)"
  have k: "deployment_key (dp_ApplicationId (st_Deployment s), dp_StartedAt (st_Deployment s)) = deployment_key ?k" using s by (simp add: key_of_def)
  obtain r where r: "r \<in> set (dd_rows db)" "row_key r = (pid, key_of ?d)" "noted (dr_notifications r) = ?n" using ok(2) nth_mem [OF i] unfolding loaded_def by (metis UnCI set_append)
  have old: "sorted_wrt (<) (accepted c (key_of ?d) (dd_trace db))" "\<forall>st\<in>set (accepted c (key_of ?d) (dd_trace db)). st \<le> state_of c ?n" for c
  proof -
    show "sorted_wrt (<) (accepted c (key_of ?d) (dd_trace db))" using ok(1) by (simp add: messages_ok_def del: split_paired_All)
    show "\<forall>st\<in>set (accepted c (key_of ?d) (dd_trace db)). st \<le> state_of c ?n"
    proof
      fix st assume "st \<in> set (accepted c (key_of ?d) (dd_trace db))"
      then obtain r' where "r' \<in> set (dd_rows db)" "row_key r' = (pid, key_of ?d)" "st \<le> state_of c (noted (dr_notifications r'))"
        using ok(1) unfolding messages_ok_def by blast
      then show "st \<le> state_of c ?n" using unique_row [of "dd_rows db" r r'] r ok(1) by (simp add: messages_ok_def)
    qed
  qed
  have inv_d: "pass_inv (dp_ApplicationId (st_Deployment s), dp_StartedAt (st_Deployment s)) tr rows n x = pass_inv ?k tr rows n x" for tr rows n x
    unfolding pass_inv_def k by simp
  have start: "pass_inv ?k (dd_trace db) (dd_rows db) ?n (?n, False, db)"
    using old by (simp add: pass_inv_def key_of_def)
  define x3 where "x3 = send_to e project (webhook_to ?i settings) s dn_Webhook (\<lambda>s n. n\<lparr>dn_Webhook := s\<rparr>)
      (send_to e project (teams_to ?i settings) s dn_Teams (\<lambda>s n. n\<lparr>dn_Teams := s\<rparr>)
        (send_to e project (slack_to ?i settings) s (\<lambda>n. ss_State (dn_Slack n)) slack_set (?n, False, db)))"
  obtain n3 b db3 where x3: "x3 = (n3, b, db3)" by (metis prod.exhaust)
  have inv3: "pass_inv ?k (dd_trace db) (dd_rows db) ?n (n3, b, db3)"
    unfolding x3 [symmetric] x3_def inv_d [symmetric]
    by (intro webhook.send_to_keeps teams.send_to_keeps slack.send_to_keeps destination_channels) (simp add: inv_d start)
  note saved = saved_notifications [OF ok(1) ok(2) [unfolded split]]
  show ?thesis
  proof (cases "dn_State ?n \<ge> st_State s")
    case True
    then have "app' = app\<lparr>da_Deployments := (da_Deployments app)[i := ?d\<lparr>dp_Notifications := Some ?n\<rparr>]\<rparr>" "db' = db"
      using run False by (simp_all add: notify_one_def Let_def noted_def)
    then show ?thesis using saved [OF start] keys by (simp add: upd)
  next
    case F: False
    then have "app' = app\<lparr>da_Deployments := (da_Deployments app)[i := ?d\<lparr>dp_Notifications := Some n3\<rparr>]\<rparr>"
        "db' = (if b then snd (SaveApplicationDeploymentNotifications (\<lambda>_. False) pid (?d\<lparr>dp_Notifications := Some n3\<rparr>) db3) else db3)"
      using run False x3 unfolding x3_def by (auto simp: notify_one_def Let_def noted_def e split: prod.splits)
    then show ?thesis using saved [OF inv3] keys by (simp add: upd)
  qed
qed

lemma notify_app_keeps:
  assumes "messages_ok pid db" "loaded pid db (da_Deployments app @ rest)" "de_fails e = (\<lambda>_. False)" "p_Id project = pid"
    and "list_all (\<lambda>(i, s). i < length (da_Deployments app) \<and> key_of (st_Deployment s) = key_of (da_Deployments app ! i)) is"
    and "fold (notify_one e project settings now) is (app, db) = (app', db')"
  shows "messages_ok pid db' \<and> loaded pid db' (da_Deployments app' @ rest)"
  using assms
proof (induction "is" arbitrary: app db)
  case (Cons x "is")
  obtain i s where x: "x = (i, s)" by force
  obtain app1 db1 where st: "notify_one e project settings now x (app, db) = (app1, db1)" by force
  have i: "i < length (da_Deployments app)" "key_of (st_Deployment s) = key_of (da_Deployments app ! i)" using Cons.prems(5) x by auto
  note k = notify_one_keeps [OF Cons.prems(1,2) i(1) Cons.prems(3,4) i(2) st [unfolded x]]
  have len: "length (da_Deployments app1) = length (da_Deployments app)" using k by (metis length_map)
  have "key_of (da_Deployments app1 ! j) = key_of (da_Deployments app ! j)" if "j < length (da_Deployments app)" for j
    using k that len by (metis nth_map)
  then have "list_all (\<lambda>(i, s). i < length (da_Deployments app1) \<and> key_of (st_Deployment s) = key_of (da_Deployments app1 ! i)) is"
    using Cons.prems(5) len by (auto simp: list_all_iff)
  then show ?case using Cons.IH [of db1 app1] k Cons.prems(3,4,6) st by simp
qed simp

lemma sendNotifications_keeps:
  assumes "messages_ok pid db" "loaded pid db (concat (map da_Deployments apps))" "de_fails e = (\<lambda>_. False)" "p_Id project = pid"
    and "sendNotifications e project now cc apps db = Some (apps', db')"
  shows "messages_ok pid db'"
  using assms
proof (induction e project now cc apps db arbitrary: apps' rule: sendNotifications.induct)
  case (2 e project now cc app apps db)
  let ?step = "case GetApplicationCategories project (da_Category app) of
              None \<Rightarrow> Some (app, db)
            | Some info \<Rightarrow>
                (let settings = cn_Deployments (ci_NotificationSettings info)
                 in if \<not> ns_Enabled settings then Some (app, db)
                    else map_option (\<lambda>sts. fold (notify_one e project settings now) (enumerate 0 sts) (app, db))
                           (CalcApplicationDeploymentStatuses (de_formatters e) app cc now))"
  obtain app1 db1 as where st: "?step = Some (app1, db1)" and rest: "sendNotifications e project now cc apps db1 = Some (as, db')"
    using "2.prems"(5) by (auto split: option.splits)
  have "messages_ok pid db1 \<and> loaded pid db1 (da_Deployments app1 @ concat (map da_Deployments apps))"
  proof (cases "app1 = app \<and> db1 = db")
    case True
    then show ?thesis using "2.prems"(1,2) by simp
  next
    case False
    then obtain settings sts where s: "CalcApplicationDeploymentStatuses (de_formatters e) app cc now = Some sts"
        "fold (notify_one e project settings now) (enumerate 0 sts) (app, db) = (app1, db1)"
      using st by (auto simp: Let_def split: option.splits if_splits)
    have "list_all (\<lambda>(i, s). status_explained app i s \<and> i < length (da_Deployments app)) (enumerate 0 sts)"
      using s(1) by (auto simp: CalcApplicationDeploymentStatuses_def list_all_iff in_set_enumerate_eq intro!: deployment_status_explained split: option.splits)
    then have "list_all (\<lambda>(i, s). i < length (da_Deployments app) \<and> key_of (st_Deployment s) = key_of (da_Deployments app ! i)) (enumerate 0 sts)"
      by (auto simp: list_all_iff status_explained_def)
    from notify_app_keeps [OF "2.prems"(1) _ "2.prems"(3,4) this s(2)] "2.prems"(2) show ?thesis by simp
  qed
  moreover from this have "loaded pid db1 (concat (map da_Deployments apps))" by (auto simp: loaded_def)
  ultimately show ?case using "2.IH" [OF st refl _ _ "2.prems"(3,4) rest] by simp
qed simp

lemma same_messages_ok:
  assumes "messages_ok pid db" "dd_trace db' = dd_trace db" "distinct (map row_key (dd_rows db'))"
    and "\<forall>r\<in>set (dd_rows db). \<exists>r'\<in>set (dd_rows db'). row_key r' = row_key r \<and> dr_notifications r' = dr_notifications r"
  shows "messages_ok pid db'"
  using assms unfolding messages_ok_def by (metis (no_types, lifting))

lemma update_same_messages:
  assumes "messages_ok pid db" "\<And>r. row_key (f r) = row_key r \<and> dr_notifications (f r) = dr_notifications r"
    and "dd_rows db' = update_rows P f (dd_rows db)" "dd_trace db' = dd_trace db"
  shows "messages_ok pid db'"
proof (rule same_messages_ok [OF assms(1,4)])
  have "map row_key (dd_rows db') = map row_key (dd_rows db)" using assms(2,3) by (simp add: update_rows_def)
  then show "distinct (map row_key (dd_rows db'))" using assms(1) by (simp add: messages_ok_def)
  show "\<forall>r\<in>set (dd_rows db). \<exists>r'\<in>set (dd_rows db'). row_key r' = row_key r \<and> dr_notifications r' = dr_notifications r"
  proof
    fix r assume "r \<in> set (dd_rows db)"
    then have "(if P r then f r else r) \<in> set (dd_rows db')" using assms(3) by (auto simp: update_rows_def)
    then show "\<exists>r'\<in>set (dd_rows db'). row_key r' = row_key r \<and> dr_notifications r' = dr_notifications r"
      by (rule bexI [rotated]) (simp add: assms(2))
  qed
qed

lemma SaveApplicationDeployment_keeps:
  assumes "messages_ok pid db" shows "messages_ok pid (snd (SaveApplicationDeployment fails p d db))"
proof -
  have stmts: "messages_ok pid (db\<lparr>dd_stmts := n\<rparr>)" for n using assms by (simp add: messages_ok_def)
  show ?thesis
  proof (cases "find (row_of p d) (dd_rows db)")
    case None
    let ?row = "\<lparr>dr_project_id = p, dr_application_id = ApplicationId_Value (dp_ApplicationId d), dr_name = dp_Name d,
      dr_started_at = dp_StartedAt d, dr_finished_at = dp_FinishedAt d, dr_details = dp_Details d,
      dr_metrics_snapshot = None, dr_notifications = dp_Notifications d\<rparr>"
    have "row_key ?row \<notin> row_key ` set (dd_rows db)"
      using None by (auto simp: find_None_iff row_of_def row_key_def)
    then have "messages_ok pid (db\<lparr>dd_stmts := n, dd_rows := dd_rows db @ [?row]\<rparr>)" for n
      using assms by (intro same_messages_ok [OF assms]) (auto simp: messages_ok_def)
    then show ?thesis using None assms stmts by (simp add: SaveApplicationDeployment_def dep_sql_def Let_def)
  next
    case (Some r)
    have "messages_ok pid (db\<lparr>dd_stmts := n, dd_rows := update_rows (row_of p d) (\<lambda>r. r\<lparr>dr_finished_at := dp_FinishedAt d, dr_name := dp_Name d\<rparr>) (dd_rows db)\<rparr>)" for n
      by (rule update_same_messages [OF assms, where f = "\<lambda>r. r\<lparr>dr_finished_at := dp_FinishedAt d, dr_name := dp_Name d\<rparr>" and P = "row_of p d"])
         (simp_all add: row_key_def)
    then show ?thesis using Some assms stmts by (simp add: SaveApplicationDeployment_def dep_sql_def Let_def)
  qed
qed

lemma SaveSnapshot_keeps:
  assumes "messages_ok pid db" shows "messages_ok pid (snd (SaveApplicationDeploymentMetricsSnapshot fails p d db))"
proof -
  have "messages_ok pid (db\<lparr>dd_stmts := n\<rparr>)" for n using assms by (simp add: messages_ok_def)
  moreover have "messages_ok pid (db\<lparr>dd_stmts := n, dd_rows := update_rows (row_of p d) (\<lambda>r. r\<lparr>dr_metrics_snapshot := dp_MetricsSnapshot d\<rparr>) (dd_rows db)\<rparr>)" for n
    by (rule update_same_messages [OF assms, where f = "\<lambda>r. r\<lparr>dr_metrics_snapshot := dp_MetricsSnapshot d\<rparr>" and P = "row_of p d"])
       (simp_all add: row_key_def)
  ultimately show ?thesis by (simp add: SaveApplicationDeploymentMetricsSnapshot_def dep_sql_def Let_def)
qed

text \<open>
  What happens to the deployments of a project: they are saved and get their snapshots, where any statement
  may fail, and messages are sent for a world that was loaded from the table, where the notes are stored.
\<close>

inductive deployment_step :: "string \<Rightarrow> DeploymentDB \<Rightarrow> DeploymentDB \<Rightarrow> bool" for pid where
  save: "deployment_step pid db (snd (SaveApplicationDeployment fails p d db))"
| snapshot: "deployment_step pid db (snd (SaveApplicationDeploymentMetricsSnapshot fails p d db))"
| notify: "deployment_step pid db db'"
    if "loaded pid db (concat (map da_Deployments apps))" "de_fails e = (\<lambda>_. False)" "p_Id project = pid"
      "sendNotifications e project now cc apps db = Some (apps', db')"

inductive_cases deployment_stepE: "deployment_step pid db db'"

lemma deployment_step_keeps: "deployment_step pid db db' \<Longrightarrow> messages_ok pid db \<Longrightarrow> messages_ok pid db'"
  by (erule deployment_stepE) (auto intro: SaveApplicationDeployment_keeps SaveSnapshot_keeps sendNotifications_keeps)

definition no_deployments :: DeploymentDB where
  "no_deployments = \<lparr>dd_rows = [], dd_stmts = 0, dd_trace = []\<rparr>"

lemma no_deployments_ok: "messages_ok pid no_deployments"
  by (simp add: no_deployments_def messages_ok_def)

text \<open>
  C10. Messages about a deployment come in order and once, as long as saving the states of the messages does
  not fail and every pass of the sender works on a world loaded after the last one, with the states as they are
  in the table: however deployments are saved and snapshots taken between the passes (those statements may
  fail) and whatever the clients answer, each of Slack, Teams and the webhook accepts, for one deployment,
  messages of strictly increasing states. (After a failed save the same state may be sent again.)
\<close>

theorem deployment_messages_in_order:
  assumes "(deployment_step pid)\<^sup>*\<^sup>* no_deployments db"
  shows "sorted_wrt (<) (accepted c (deployment_key d) (dd_trace db))"
proof -
  have "messages_ok pid db"
    using assms by (induction rule: rtranclp_induct) (auto intro: deployment_step_keeps no_deployments_ok)
  then show ?thesis by (simp add: messages_ok_def del: split_paired_All)
qed

definition demo_rollout :: ApplicationDeployment where
  "demo_rollout = demo_finished ''app-2'' 75 0"

definition demo_receiver :: Project where
  "demo_receiver = \<lparr>p_Id = ''p'', p_Name = ''p'', p_CategorySettings = [],
     p_Integrations = \<lparr>in_BaseUrl = [], in_Slack = None, in_Teams = None, in_Pagerduty = None, in_Opsgenie = None,
       in_Webhook = Some \<lparr>wh_Url = ''u'', wh_Incidents = False, wh_Deployments = True, wh_Alerts = None\<rparr>\<rparr>\<rparr>"

definition demo_sender :: DeploymentEnv where
  "demo_sender = \<lparr>de_fails = (\<lambda>_. False), de_send = (\<lambda>_ _ _ _. True), de_regression = (\<lambda>_ _. (NaN, NaN)), de_formatters = demo_formatters\<rparr>"

definition demo_saved :: DeploymentDB where
  "demo_saved = snd (SaveApplicationDeployment (\<lambda>_. False) ''p'' demo_rollout no_deployments)"

definition demo_sent :: DeploymentDB where
  "demo_sent = (case sendNotifications demo_sender demo_receiver 105 [] [demo_deployed\<lparr>da_Deployments := [demo_rollout]\<rparr>] demo_saved of
     None \<Rightarrow> demo_saved | Some (_, db) \<Rightarrow> db)"

lemma demo_message: "accepted CWebhook (deployment_key (da_Id demo_deployed, 75)) (dd_trace demo_sent) = [StateInProgress]"
  by code_simp

theorem deployment_messages_in_order_witness:
  "accepted CWebhook (deployment_key (da_Id demo_deployed, 75)) (dd_trace demo_sent) = [StateInProgress] \<and>
   sorted_wrt (<) (accepted CWebhook (deployment_key (da_Id demo_deployed, 75)) (dd_trace demo_sent))"
proof (rule conjI [OF demo_message deployment_messages_in_order [of "''p''"]])
  have 1: "(deployment_step ''p'')\<^sup>*\<^sup>* no_deployments demo_saved"
    unfolding demo_saved_def by (rule r_into_rtranclp) (rule deployment_step.save)
  have l: "loaded ''p'' demo_saved [demo_rollout]"
    by (simp add: loaded_def demo_saved_def SaveApplicationDeployment_def no_deployments_def dep_sql_def demo_rollout_def demo_finished_def
        row_key_def key_of_def deployment_key_def)
  show "(deployment_step ''p'')\<^sup>*\<^sup>* no_deployments demo_sent"
  proof (cases "sendNotifications demo_sender demo_receiver 105 [] [demo_deployed\<lparr>da_Deployments := [demo_rollout]\<rparr>] demo_saved")
    case None
    then show ?thesis using 1 by (simp add: demo_sent_def)
  next
    case (Some r)
    then have "deployment_step ''p'' demo_saved (snd r)"
      by (intro deployment_step.notify [where apps' = "fst r" and e = demo_sender and project = demo_receiver and now = 105 and cc = "[]"
            and apps = "[demo_deployed\<lparr>da_Deployments := [demo_rollout]\<rparr>]"])
         (use l in \<open>simp_all add: demo_sender_def demo_receiver_def del: sendNotifications.simps\<close>)
    then show ?thesis using 1 Some by (cases r) (simp add: demo_sent_def)
  qed
qed

end
