(* ===== verification/WorldEvaluator.thy ===== *)
theory WorldEvaluator
  imports Promql
begin

text \<open>
  The evaluator that keeps the results of the constructor's queries in ClickHouse (\<^verbatim>\<open>world/evaluator.go\<close>,
  \<^verbatim>\<open>backend.go\<close>): which steps a query is missing, what is written of its answer, and when the labels of a
  series are written. The tables are lists of rows in the order of insertion; rows that ClickHouse expires
  are not removed. The PromQL parser, the answers of ClickHouse and failing statements are arguments.
\<close>

subsection \<open>The tables\<close>

definition ResultsStep :: Duration where "ResultsStep = 15 * Second"
definition seriesRefresh :: Duration where "seriesRefresh = 10 * Minute"
definition Backfill :: Duration where "Backfill = 24 * Hour"
definition lag :: int where "lag = 2"

record seriesRow =
  sr_query :: string
  sr_hash :: Hash
  sr_labels :: Labels
  sr_lastSeen :: Time

record pointRow =
  pr_query :: string
  pr_hash :: Hash
  pr_t :: Time
  pr_v :: f32

record batch =
  b_series :: "seriesRow list"
  b_points :: "pointRow list"

text \<open>
  The rollups of 5 minutes and of an hour (\<^verbatim>\<open>ch/client.go\<close>) are materialized views: an insert of points
  adds one row per series and bucket of that insert, stamped with the end of the bucket. A row keeps the
  value of the latest point with its time, the maximum, and the values that its sum and count are made of
  (ClickHouse's float64 arithmetic is a parameter of the reader).
\<close>

record rollupRow =
  rr_query :: string
  rr_hash :: Hash
  rr_t :: Time
  rr_last :: "Time \<times> f32"
  rr_values :: "f32 list"
  rr_max :: f32

definition bucket :: "Duration \<Rightarrow> Time \<Rightarrow> Time" where
  "bucket width t = (t - 1) div width * width + width"

definition groups :: "('a \<Rightarrow> 'k) \<Rightarrow> 'a list \<Rightarrow> ('k \<times> 'a list) list" where
  "groups key xs = map (\<lambda>k. (k, filter (\<lambda>x. key x = k) xs)) (remdups (map key xs))"

text \<open>\<^verbatim>\<open>argMax\<close> and \<^verbatim>\<open>max\<close> over the rows of a group, which is not empty.\<close>

definition argMax :: "(Time \<times> f32) list \<Rightarrow> Time \<times> f32" where
  "argMax ps = fold (\<lambda>p m. if fst p > fst m then p else m) (tl ps) (hd ps)"

definition max_value :: "f32 list \<Rightarrow> f32" where
  "max_value vs = fold (\<lambda>v m. if f32_gt v m then v else m) (tl vs) (hd vs)"

definition rollup_view :: "Duration \<Rightarrow> pointRow list \<Rightarrow> rollupRow list" where
  "rollup_view width ps =
     map (\<lambda>((q, h, T), g).
            \<lparr>rr_query = q, rr_hash = h, rr_t = T, rr_last = argMax (map (\<lambda>p. (pr_t p, pr_v p)) g),
             rr_values = map pr_v g, rr_max = max_value (map pr_v g)\<rparr>)
       (groups (\<lambda>p. (pr_query p, pr_hash p, bucket width (pr_t p))) ps)"

record CH =
  ch_series :: "seriesRow list"
  ch_points :: "pointRow list"
  ch_5m :: "rollupRow list"
  ch_1h :: "rollupRow list"
  ch_stmts :: nat

definition insert_points :: "pointRow list \<Rightarrow> CH \<Rightarrow> CH" where
  "insert_points ps c = c\<lparr>ch_points := ch_points c @ ps, ch_5m := ch_5m c @ rollup_view (5 * Minute) ps,
     ch_1h := ch_1h c @ rollup_view Hour ps\<rparr>"

text \<open>A statement may fail, then it changes nothing; \<open>fails n\<close> tells whether the n-th one does.\<close>

type_synonym failures = "nat \<Rightarrow> bool"

definition ch_do :: "failures \<Rightarrow> (CH \<Rightarrow> CH) \<Rightarrow> CH \<Rightarrow> bool \<times> CH" where
  "ch_do fails f c =
     (let c' = c\<lparr>ch_stmts := Suc (ch_stmts c)\<rparr> in if fails (ch_stmts c) then (False, c') else (True, f c'))"

text \<open>\<^verbatim>\<open>chBackend.write\<close>: the series first; whether both inserts succeeded.\<close>

definition write_batch :: "failures \<Rightarrow> batch \<Rightarrow> CH \<Rightarrow> bool \<times> CH" where
  "write_batch fails b c =
     (let (ok, c1) = (if b_series b \<noteq> [] then ch_do fails (\<lambda>c. c\<lparr>ch_series := ch_series c @ b_series b\<rparr>) c else (True, c))
      in if \<not> ok then (False, c1)
         else ch_do fails (insert_points (b_points b)) c1)"

text \<open>\<^verbatim>\<open>chBackend.lastPerQuery\<close>: the last step of each query among the points since a time.\<close>

definition last_of :: "pointRow list \<Rightarrow> Time \<Rightarrow> string \<Rightarrow> Time option" where
  "last_of ps since q =
     (let ts = map pr_t (filter (\<lambda>p. pr_query p = q \<and> pr_t p \<ge> since) ps)
      in if ts = [] then None else Some (fold max (tl ts) (hd ts)))"

definition lastPerQuery :: "failures \<Rightarrow> Time \<Rightarrow> CH \<Rightarrow> (string \<Rightarrow> Time option) option \<times> CH" where
  "lastPerQuery fails since c =
     (let (ok, c') = ch_do fails (\<lambda>c. c) c in (if ok then Some (last_of (ch_points c) since) else None, c'))"

subsection \<open>The cache of written series\<close>

type_synonym seriesCache = "string \<times> Hash \<Rightarrow> Time option"

definition newSeriesCache :: seriesCache where "newSeriesCache = (\<lambda>_. None)"

definition due :: "string \<Rightarrow> Hash \<Rightarrow> Time \<Rightarrow> seriesCache \<Rightarrow> bool \<times> seriesCache" where
  "due query hash now m =
     (if (case m (query, hash) of None \<Rightarrow> False | Some t \<Rightarrow> now - t < seriesRefresh) then (False, m)
      else (True, m((query, hash) \<mapsto> now)))"

subsection \<open>Rows of a series\<close>

definition set_label :: "string \<Rightarrow> string \<Rightarrow> Labels \<Rightarrow> Labels" where
  "set_label k v ls = (if v \<noteq> [] then AList.update k v ls else ls)"

definition labelMap :: "MetricValues \<Rightarrow> Labels" where
  "labelMap mv =
     (set_label LabelActualDestination (mv_ActualDestination mv) \<circ>
      (if mv_DestIp mv then set_label LabelDestinationIP (mv_Destination mv) else set_label LabelDestination (mv_Destination mv)) \<circ>
      set_label LabelContainerId (mv_ContainerId mv) \<circ>
      set_label LabelSystemUuid (mv_SystemUUID mv) \<circ>
      set_label LabelMachineId (mv_MachineID mv)) (mv_Labels mv)"

definition new_points :: "string \<Rightarrow> MetricValues \<Rightarrow> Time \<Rightarrow> Time \<Rightarrow> pointRow list" where
  "new_points query mv notBefore notAfter =
     map (\<lambda>(t, v). \<lparr>pr_query = query, pr_hash = mv_LabelsHash mv, pr_t = t, pr_v = v\<rparr>)
       (filter (\<lambda>(t, v). \<not> (IsNaN v \<or> t < notBefore \<or> (notAfter \<noteq> 0 \<and> t > notAfter))) (iter_points (Iter (mv_Values mv))))"

definition appendSeries :: "string \<Rightarrow> Time \<Rightarrow> Time \<Rightarrow> Time \<Rightarrow> MetricValues \<Rightarrow> batch \<times> seriesCache \<Rightarrow> batch \<times> seriesCache" where
  "appendSeries query now notBefore notAfter mv bs =
     (let (out, seen) = bs; ps = new_points query mv notBefore notAfter; out1 = out\<lparr>b_points := b_points out @ ps\<rparr>
      in if ps = [] then (out, seen)
         else
           (let (write_labels, seen1) = due query (mv_LabelsHash mv) now seen
            in (if write_labels
                then out1\<lparr>b_series := b_series out1 @
                       [\<lparr>sr_query = query, sr_hash = mv_LabelsHash mv, sr_labels = labelMap mv, sr_lastSeen = now\<rparr>]\<rparr>
                else out1, seen1)))"

subsection \<open>A cycle\<close>

record Query =
  qu_Query :: string
  qu_Labels :: "StringSet option"

record Result =
  re_To :: Time
  re_Queries :: nat
  re_Skipped :: nat
  re_Series :: nat
  re_Points :: nat
  re_FirstError :: "string option"

definition anyKnown :: "string list \<Rightarrow> string set \<Rightarrow> bool" where
  "anyKnown selectors names = list_ex (\<lambda>s. s \<in> names) selectors"

text \<open>
  What a cycle asks ClickHouse for: the metric names, and the answers to PromQL through the client of
  \<^verbatim>\<open>promql\<close>; and \<^verbatim>\<open>promql.Selectors\<close>, which is a parser of the Prometheus library (an error, or the names
  a query reads, or nil when it cannot tell).
\<close>

record Source =
  so_names :: "string + string set"
  so_selectors :: "string \<Rightarrow> string + string list option"
  so_signature :: "Labels \<Rightarrow> Hash"
  so_server :: server

definition queryRange :: "Source \<Rightarrow> Query \<Rightarrow> Time \<Rightarrow> Time \<Rightarrow> Duration \<Rightarrow> string + MetricValues list" where
  "queryRange src q f t step = QueryRange (so_signature src) (so_server src) (qu_Query q) (StringSet_Has (qu_Labels q)) f t step"

type_synonym task = "Query \<times> Time"

text \<open>The steps a query is missing.\<close>

definition missing_from :: "Duration \<Rightarrow> (string \<Rightarrow> Time option) \<Rightarrow> Time \<Rightarrow> string \<Rightarrow> Time" where
  "missing_from backfill last_step to q =
     (case last_step q of
        None \<Rightarrow> to - backfill
      | Some l \<Rightarrow> if l + ResultsStep > to - backfill then l + ResultsStep else to - backfill)"

fun plan :: "Source \<Rightarrow> string set \<Rightarrow> Duration \<Rightarrow> (string \<Rightarrow> Time option) \<Rightarrow> Time \<Rightarrow> string set \<Rightarrow> Query list \<Rightarrow> task list \<times> nat" where
  "plan src names backfill last_step to finished [] = ([], 0)"
| "plan src names backfill last_step to finished (q # qs) =
     (let s = qu_Query q in
      if s = [] \<or> s \<in> finished then plan src names backfill last_step to finished qs
      else
        (let (ts, skipped) = plan src names backfill last_step to (insert s finished) qs in
         case so_selectors src s of
           Inl _ \<Rightarrow> (ts, Suc skipped)
         | Inr sel \<Rightarrow>
             if (case sel of None \<Rightarrow> False | Some ss \<Rightarrow> \<not> anyKnown ss names) then (ts, Suc skipped)
             else
               (let f = missing_from backfill last_step to s
                in if f > to then (ts, skipped) else ((q, f) # ts, skipped))))"

text \<open>
  The tasks run concurrently, and each takes a lock for the part after its query: the order in which they
  take it, \<open>order\<close>, is an argument.
\<close>

definition run_task :: "Source \<Rightarrow> Time \<Rightarrow> task \<Rightarrow> (batch \<times> seriesCache) \<times> string option \<Rightarrow> (batch \<times> seriesCache) \<times> string option" where
  "run_task src to tsk st =
     (let (bs, err) = st; (q, f) = tsk
      in case queryRange src q f to ResultsStep of
           Inl e \<Rightarrow> (bs, if err = None then Some e else err)
         | Inr mvs \<Rightarrow> (fold (appendSeries (qu_Query q) to 0 0) mvs bs, err))"

definition empty_batch :: batch where "empty_batch = \<lparr>b_series = [], b_points = []\<rparr>"

definition window_end :: "Time \<Rightarrow> Time" where
  "window_end now = Time_Truncate (now - lag * ResultsStep) ResultsStep"

text \<open>The result, whether the cycle failed (its own error), the cache and the tables.\<close>

definition cycle :: "failures \<Rightarrow> Source \<Rightarrow> (task list \<Rightarrow> task list) \<Rightarrow> Query list \<Rightarrow> Time \<Rightarrow> Duration
    \<Rightarrow> (string \<Rightarrow> Time option) \<Rightarrow> seriesCache \<Rightarrow> CH \<Rightarrow> (Result \<times> string option) \<times> seriesCache \<times> CH" where
  "cycle fails src order queries now backfill last_step seen c =
     (let to = window_end now;
          res = \<lparr>re_To = to, re_Queries = 0, re_Skipped = 0, re_Series = 0, re_Points = 0, re_FirstError = None\<rparr>
      in case so_names src of
           Inl e \<Rightarrow> ((res, Some (''metric names: '' @ e)), seen, c)
         | Inr names \<Rightarrow>
             (let (tasks, skipped) = plan src names backfill last_step to {} queries;
                  ((out, seen1), err) = fold (run_task src to) (order tasks) ((empty_batch, seen), None);
                  res1 = res\<lparr>re_Queries := length tasks, re_Skipped := skipped, re_Series := length (b_series out),
                             re_Points := length (b_points out), re_FirstError := err\<rparr>
              in if length (b_points out) > 0
                 then (let (ok, c1) = write_batch fails out c
                       in ((res1, if ok then None else Some ''write''), seen1, c1))
                 else ((res1, None), seen1, c)))"

end
