(* ===== verification/WorldRun.thy ===== *)
theory WorldRun
  imports WorldEvaluator
begin

text \<open>
  The rest of the evaluator: the recording rules (\<^verbatim>\<open>world/rules.go\<close>), a cycle of a project and its status
  (\<^verbatim>\<open>world/run.go\<close>), and what the pages ask about the freshness of a project (\<^verbatim>\<open>world/client.go\<close>,
  \<^verbatim>\<open>Store.LastEvaluated\<close> of \<^verbatim>\<open>store.go\<close>). The World that the constructor makes of the stored results, and
  the rules computed from it, are arguments, and so are MD5 and the connections.
\<close>

subsection \<open>Recording rules\<close>

definition ruleHistory :: Duration where "ruleHistory = 10 * Minute"
definition ruleLookahead :: int where "ruleLookahead = 2"
definition ruleChunk :: Duration where "ruleChunk = Hour"

record 'w RuleSet =
  ru_rules :: "(string \<times> ('w \<Rightarrow> MetricValues list)) list"
  ru_load :: "CH \<Rightarrow> Time \<Rightarrow> Time \<Rightarrow> string + 'w"

definition marker_prefix :: string where "marker_prefix = ''rr_world_computed_''"

definition rulesMarker :: "(string \<Rightarrow> string) \<Rightarrow> string list \<Rightarrow> string" where
  "rulesMarker md5hex names = marker_prefix @ take 8 (md5hex (strings_Join names '',''))"

text \<open>A rule that has rows is continued after them.\<close>

definition rule_rows :: "'w RuleSet \<Rightarrow> 'w \<Rightarrow> (string \<Rightarrow> Time option) \<Rightarrow> Time \<Rightarrow> Time \<Rightarrow> string \<Rightarrow> batch \<times> seriesCache \<Rightarrow> batch \<times> seriesCache" where
  "rule_rows ru w last_step chunkFrom chunkTo name bs =
     (let notBefore = (case last_step name of
            None \<Rightarrow> chunkFrom
          | Some l \<Rightarrow> if l + ResultsStep > chunkFrom then l + ResultsStep else chunkFrom)
      in case map_of (ru_rules ru) name of
           None \<Rightarrow> bs
         | Some rule \<Rightarrow> fold (appendSeries name chunkTo notBefore chunkTo) (rule w) bs)"

definition chunk_end :: "Time \<Rightarrow> Time \<Rightarrow> Time" where
  "chunk_end to chunkFrom = (let t = chunkFrom + (ruleChunk - ResultsStep) in if t > to then to else t)"

definition marker_row :: "string \<Rightarrow> Time \<Rightarrow> pointRow" where
  "marker_row marker t = \<lparr>pr_query = marker, pr_hash = 0, pr_t = t, pr_v = Fin 1\<rparr>"

definition run_chunk :: "failures \<Rightarrow> 'w RuleSet \<Rightarrow> string \<Rightarrow> (string \<Rightarrow> Time option) \<Rightarrow> string list \<Rightarrow> Time \<Rightarrow> Time \<Rightarrow> Time
    \<Rightarrow> seriesCache \<Rightarrow> CH \<Rightarrow> (string + nat \<times> nat) \<times> seriesCache \<times> CH" where
  "run_chunk fails ru marker last_step names evaluatedTo to chunkFrom seen c =
     (let chunkTo = chunk_end to chunkFrom;
          w0 = chunkTo + ruleLookahead * ResultsStep;
          worldTo = (if w0 > evaluatedTo then evaluatedTo else w0)
      in case ru_load ru c (chunkFrom - ruleHistory) worldTo of
           Inl e \<Rightarrow> (Inl (''load world: '' @ e), seen, c)
         | Inr w \<Rightarrow>
             (let (out, seen1) = fold (rule_rows ru w last_step chunkFrom chunkTo) names (empty_batch, seen);
                  (ok, c1) = write_batch fails (out\<lparr>b_points := b_points out @ [marker_row marker chunkTo]\<rparr>) c
              in (if ok then Inr (length (b_series out), length (b_points out)) else Inl ''write'', seen1, c1)))"

function run_chunks :: "failures \<Rightarrow> 'w RuleSet \<Rightarrow> string \<Rightarrow> (string \<Rightarrow> Time option) \<Rightarrow> string list \<Rightarrow> Time \<Rightarrow> Time \<Rightarrow> Time
    \<Rightarrow> Result \<Rightarrow> seriesCache \<Rightarrow> CH \<Rightarrow> (string option \<times> Result) \<times> seriesCache \<times> CH" where
  "run_chunks fails ru marker last_step names evaluatedTo to chunkFrom res seen c =
     (if chunkFrom > to then ((None, res), seen, c)
      else
        (case run_chunk fails ru marker last_step names evaluatedTo to chunkFrom seen c of
           (Inl e, seen1, c1) \<Rightarrow> ((Some e, res), seen1, c1)
         | (Inr (ns, np), seen1, c1) \<Rightarrow>
             run_chunks fails ru marker last_step names evaluatedTo to (chunkFrom + ruleChunk)
               (res\<lparr>re_Series := re_Series res + ns, re_Points := re_Points res + np\<rparr>) seen1 c1))"
  by pat_completeness auto
termination
  by (relation "measure (\<lambda>(_, _, _, _, _, _, to, f, _). nat (to + 1 - f))")
     (auto simp: ruleChunk_def duration_defs)

declare run_chunks.simps [simp del]

definition recordingRules :: "failures \<Rightarrow> (string \<Rightarrow> string) \<Rightarrow> 'w RuleSet \<Rightarrow> Duration \<Rightarrow> Time \<Rightarrow> (string \<Rightarrow> Time option)
    \<Rightarrow> Result \<Rightarrow> seriesCache \<Rightarrow> CH \<Rightarrow> (string option \<times> Result) \<times> seriesCache \<times> CH" where
  "recordingRules fails md5hex ru backfill evaluatedTo last_step res seen c =
     (let to = evaluatedTo - ruleLookahead * ResultsStep; names = sort_Strings (map fst (ru_rules ru))
      in if names = [] then ((None, res\<lparr>re_To := evaluatedTo\<rparr>), seen, c)
         else
           (let marker = rulesMarker md5hex names;
                f0 = (case last_step marker of None \<Rightarrow> to - backfill | Some l \<Rightarrow> l + ResultsStep);
                f = Time_Truncate f0 ResultsStep; res1 = res\<lparr>re_To := to\<rparr>
            in if f > to then ((None, res1), seen, c)
               else run_chunks fails ru marker last_step names evaluatedTo to f res1 seen c))"

subsection \<open>A cycle of a project\<close>

text \<open>
  The state of a project: the cache of its connections (the connections themselves are I/O). Times of
  \<^verbatim>\<open>time.Time\<close> are in nanoseconds.
\<close>

record evalStatus =
  es_lastEvaluated :: Time
  es_err :: string
  es_duration :: int
  es_at :: int

record Evaluator =
  ev_projects :: "string \<Rightarrow> seriesCache option"
  ev_status :: "string \<Rightarrow> evalStatus option"
  ev_updates :: "string option"

text \<open>
  What a cycle depends on: failing statements, whether a connection can be made, the queries (or the error
  of reading the check configs), the sources, the schedule of the queries, the rules and MD5.
\<close>

record 'w Inputs =
  in_fails :: failures
  in_connect :: "string option"
  in_queries :: "string + Query list"
  in_source :: Source
  in_order :: "task list \<Rightarrow> task list"
  in_rules :: "'w RuleSet"
  in_md5hex :: "string \<Rightarrow> string"

definition project_state :: "'w Inputs \<Rightarrow> string \<Rightarrow> Evaluator \<Rightarrow> (string + seriesCache) \<times> Evaluator" where
  "project_state inp pid ev =
     (case ev_projects ev pid of
        Some seen \<Rightarrow> (Inr seen, ev)
      | None \<Rightarrow>
          (case in_connect inp of
             Some e \<Rightarrow> (Inl e, ev)
           | None \<Rightarrow> (Inr newSeriesCache, ev\<lparr>ev_projects := (ev_projects ev)(pid \<mapsto> newSeriesCache)\<rparr>)))"

definition drop_project :: "string \<Rightarrow> Evaluator \<Rightarrow> Evaluator" where
  "drop_project pid ev = ev\<lparr>ev_projects := (ev_projects ev)(pid := None)\<rparr>"

definition no_result :: Result where
  "no_result = \<lparr>re_To = 0, re_Queries = 0, re_Skipped = 0, re_Series = 0, re_Points = 0, re_FirstError = None\<rparr>"

definition EvaluateProject :: "'w Inputs \<Rightarrow> Duration \<Rightarrow> string \<Rightarrow> Time \<Rightarrow> Evaluator \<Rightarrow> CH \<Rightarrow> (Result \<times> string option) \<times> Evaluator \<times> CH" where
  "EvaluateProject inp backfill pid now ev c =
     (case project_state inp pid ev of
        (Inl e, ev1) \<Rightarrow> ((no_result, Some e), ev1, c)
      | (Inr seen, ev1) \<Rightarrow>
          (case in_queries inp of
             Inl e \<Rightarrow> ((no_result, Some (''could not get check configs: '' @ e)), ev1, c)
           | Inr queries \<Rightarrow>
               (case lastPerQuery (in_fails inp) (now - backfill - Hour) c of
                  (None, c1) \<Rightarrow> ((no_result, Some ''last evaluated''), drop_project pid ev1, c1)
                | (Some last_step, c1) \<Rightarrow>
                    (case cycle (in_fails inp) (in_source inp) (in_order inp) queries now backfill last_step seen c1 of
                       ((res, Some e), _, c2) \<Rightarrow> ((res, Some e), drop_project pid ev1, c2)
                     | ((res, None), seen1, c2) \<Rightarrow>
                         (let ((err, res1), seen2, c3) =
                                recordingRules (in_fails inp) (in_md5hex inp) (in_rules inp) backfill (re_To res) last_step res seen1 c2;
                              ev2 = ev1\<lparr>ev_projects := (ev_projects ev1)(pid \<mapsto> seen2)\<rparr>
                          in case err of
                               Some e \<Rightarrow> ((res1, Some (''recording rules: '' @ e)), ev2, c3)
                             | None \<Rightarrow> ((res1, re_FirstError res1), ev2, c3))))))"

text \<open>\<^verbatim>\<open>runProject\<close>, which ends at \<open>endNs\<close>; an update is lost while one is pending.\<close>

definition runProject :: "'w Inputs \<Rightarrow> Duration \<Rightarrow> string \<Rightarrow> Time \<Rightarrow> int \<Rightarrow> int \<Rightarrow> Evaluator \<Rightarrow> CH \<Rightarrow> Evaluator \<times> CH" where
  "runProject inp backfill pid now startNs endNs ev c =
     (let ((res, err), ev1, c1) = EvaluateProject inp backfill pid now ev c;
          prev = (case ev_status ev1 pid of None \<Rightarrow> 0 | Some s \<Rightarrow> es_lastEvaluated s);
          st = \<lparr>es_lastEvaluated = (if err \<noteq> None \<and> re_To res = 0 then prev else re_To res),
                es_err = (case err of None \<Rightarrow> [] | Some e \<Rightarrow> e), es_duration = endNs - startNs, es_at = endNs\<rparr>;
          ev2 = ev1\<lparr>ev_status := (ev_status ev1)(pid \<mapsto> st)\<rparr>
      in (if re_Points res > 0 \<and> ev_updates ev2 = None then ev2\<lparr>ev_updates := Some pid\<rparr> else ev2, c1))"

subsection \<open>Freshness\<close>

text \<open>\<^verbatim>\<open>recentlyEvaluated\<close>: the time of the last cycle of this instance, unless it is too old.\<close>

definition recentlyEvaluated :: "int \<Rightarrow> string \<Rightarrow> int \<Rightarrow> Evaluator \<Rightarrow> Time option" where
  "recentlyEvaluated period pid nowNs ev =
     (case ev_status ev pid of
        None \<Rightarrow> None
      | Some st \<Rightarrow> if es_lastEvaluated st = 0 \<or> nowNs - es_at st > 2 * period then None else Some (es_lastEvaluated st))"

definition lastError :: "string \<Rightarrow> Evaluator \<Rightarrow> string" where
  "lastError pid ev = (case ev_status ev pid of None \<Rightarrow> [] | Some st \<Rightarrow> es_err st)"

record StoreCache =
  sc_lastEvaluated :: Time
  sc_lastEvaluatedAt :: int

definition lastEvaluatedTTL :: int where "lastEvaluatedTTL = 5 * 10 ^ 9"

definition max_time :: "pointRow list \<Rightarrow> Time" where
  "max_time ps = fold max (map pr_t ps) 0"

text \<open>The end of the rules among some points, or of the points when there are no rules.\<close>

definition last_attempt :: "failures \<Rightarrow> (pointRow \<Rightarrow> bool) \<Rightarrow> CH \<Rightarrow> Time option \<times> CH" where
  "last_attempt fails P c =
     (let (ok, c1) = ch_do fails (\<lambda>c. c) c; ps = filter P (ch_points c);
          t = max_time (filter (\<lambda>p. has_prefix (pr_query p) marker_prefix) ps)
      in if \<not> ok then (None, c1)
         else if t \<noteq> 0 then (Some t, c1)
         else (let (ok2, c2) = ch_do fails (\<lambda>c. c) c1 in (if ok2 then Some (max_time ps) else None, c2)))"

definition LastEvaluated :: "failures \<Rightarrow> int \<Rightarrow> Time \<Rightarrow> StoreCache \<Rightarrow> CH \<Rightarrow> Time option \<times> StoreCache \<times> CH" where
  "LastEvaluated fails nowNs chNow sc c =
     (if nowNs - sc_lastEvaluatedAt sc < lastEvaluatedTTL then (Some (sc_lastEvaluated sc), sc, c)
      else
        (case last_attempt fails (\<lambda>p. pr_t p > chNow - Day) c of
           (None, c1) \<Rightarrow> (None, sc, c1)
         | (Some t, c1) \<Rightarrow>
             (case (if t \<noteq> 0 then (Some t, c1) else last_attempt fails (\<lambda>_. True) c1) of
                (None, c2) \<Rightarrow> (None, sc, c2)
              | (Some t, c2) \<Rightarrow> (Some t, \<lparr>sc_lastEvaluated = t, sc_lastEvaluatedAt = nowNs\<rparr>, c2))))"

text \<open>\<^verbatim>\<open>Client.GetTo\<close>; \<open>store\<close> tells whether the client has a store (or the error of making one).\<close>

definition GetTo :: "failures \<Rightarrow> int \<Rightarrow> string option \<Rightarrow> string \<Rightarrow> int \<Rightarrow> Time \<Rightarrow> Evaluator \<Rightarrow> StoreCache \<Rightarrow> CH \<Rightarrow> Time option \<times> StoreCache \<times> CH" where
  "GetTo fails period store pid nowNs chNow ev sc c =
     (case recentlyEvaluated period pid nowNs ev of
        Some t \<Rightarrow> (Some t, sc, c)
      | None \<Rightarrow> (case store of Some e \<Rightarrow> (None, sc, c) | None \<Rightarrow> LastEvaluated fails nowNs chNow sc c))"

record WorldStatus =
  ws_Error :: string
  ws_LagMax :: Duration
  ws_LagAvg :: Duration

definition GetStatus :: "failures \<Rightarrow> int \<Rightarrow> string option \<Rightarrow> string \<Rightarrow> int \<Rightarrow> Time \<Rightarrow> Time \<Rightarrow> Evaluator \<Rightarrow> StoreCache \<Rightarrow> CH
    \<Rightarrow> WorldStatus option \<times> StoreCache \<times> CH" where
  "GetStatus fails period store pid nowNs chNow now ev sc c =
     (case GetTo fails period store pid nowNs chNow ev sc c of
        (None, sc1, c1) \<Rightarrow> (None, sc1, c1)
      | (Some to, sc1, c1) \<Rightarrow>
          (let d = (if to = 0 then Backfill else now - to)
           in (Some \<lparr>ws_Error = lastError pid ev, ws_LagMax = d, ws_LagAvg = d\<rparr>, sc1, c1)))"

end
