(* ===== verification/WorldStore.thy ===== *)
theory WorldStore
  imports WorldEvaluator
begin

text \<open>
  Reading the stored results (\<^verbatim>\<open>world/store.go\<close>). A statement is modelled by the rows it answers, except
  for the filter on queries, whose text is made here. ClickHouse's float64 sums and averages are arguments.
\<close>

subsection \<open>The text of the filter\<close>

fun sql_escape :: "string \<Rightarrow> string" where
  "sql_escape [] = []"
| "sql_escape (c # cs) =
     (if c = CHR 0x5C then CHR 0x5C # CHR 0x5C # sql_escape cs
      else if c = CHR 0x27 then CHR 0x5C # CHR 0x27 # sql_escape cs
      else c # sql_escape cs)"

definition sql_quote :: "string \<Rightarrow> string" where
  "sql_quote s = CHR 0x27 # sql_escape s @ [CHR 0x27]"

definition queryFilter :: "string list \<Rightarrow> string" where
  "queryFilter queries =
     (if queries = [] then [] else '' AND Query IN ('' @ strings_Join (map sql_quote queries) '', '' @ '')'')"

definition seriesSQL :: "string list \<Rightarrow> string" where
  "seriesSQL queries =
     ''SELECT Query, SeriesHash, Labels FROM world_series_distributed FINAL'' @
     (if queries = [] then [] else '' WHERE true'' @ queryFilter queries)"

subsection \<open>The answers of the statements\<close>

text \<open>The rows the filter selects; no names: all of them.\<close>

definition selected :: "string list \<Rightarrow> string \<Rightarrow> bool" where
  "selected queries q \<longleftrightarrow> queries = [] \<or> q \<in> set queries"

text \<open>\<^verbatim>\<open>FINAL\<close> on a table that replaces rows by \<^verbatim>\<open>LastSeen\<close>: the newest row of each series.\<close>

definition same_series :: "seriesRow \<Rightarrow> seriesRow \<Rightarrow> bool" where
  "same_series r s \<longleftrightarrow> sr_query r = sr_query s \<and> sr_hash r = sr_hash s"

definition final_add :: "seriesRow \<Rightarrow> seriesRow list \<Rightarrow> seriesRow list" where
  "final_add r rows =
     (if list_ex (\<lambda>s. same_series r s \<and> sr_lastSeen s > sr_lastSeen r) rows then rows
      else filter (\<lambda>s. \<not> same_series r s) rows @ [r])"

definition final_series :: "seriesRow list \<Rightarrow> seriesRow list" where
  "final_series rows = fold final_add rows []"

definition series_answer :: "string list \<Rightarrow> CH \<Rightarrow> seriesRow list" where
  "series_answer queries c = filter (\<lambda>r. selected queries (sr_query r)) (final_series (ch_series c))"

record answerRow =
  aw_query :: string
  aw_hash :: Hash
  aw_T :: Time
  aw_L :: f32
  aw_A :: f32
  aw_S :: f32
  aw_M :: f32

record Arithmetic =
  ca_sum :: "f32 list list \<Rightarrow> f32"
  ca_avg :: "f32 list list \<Rightarrow> f32"

definition startOf :: "Duration \<Rightarrow> Time \<Rightarrow> Time" where
  "startOf width t = t - t mod width"

definition in_window :: "Duration \<Rightarrow> Time \<Rightarrow> Time \<Rightarrow> Time \<Rightarrow> bool" where
  "in_window part lo to t \<longleftrightarrow> startOf part lo \<le> startOf part t \<and> startOf part t \<le> startOf part to \<and> lo \<le> t \<and> t \<le> to"

definition raw_rows :: "string list \<Rightarrow> Time \<Rightarrow> Time \<Rightarrow> CH \<Rightarrow> answerRow list" where
  "raw_rows queries lo to c =
     map (\<lambda>p. \<lparr>aw_query = pr_query p, aw_hash = pr_hash p, aw_T = pr_t p, aw_L = pr_v p, aw_A = pr_v p, aw_S = pr_v p, aw_M = pr_v p\<rparr>)
       (filter (\<lambda>p. in_window Hour lo to (pr_t p) \<and> selected queries (pr_query p)) (ch_points c))"

definition bucket_rows :: "Arithmetic \<Rightarrow> string list \<Rightarrow> Time \<Rightarrow> Time \<Rightarrow> Duration \<Rightarrow> CH \<Rightarrow> answerRow list" where
  "bucket_rows ar queries lo to step c =
     map (\<lambda>((q, h, T), g).
            \<lparr>aw_query = q, aw_hash = h, aw_T = T, aw_L = snd (argMax (map (\<lambda>p. (pr_t p, pr_v p)) g)),
             aw_A = ca_avg ar [map pr_v g], aw_S = ca_sum ar [map pr_v g], aw_M = max_value (map pr_v g)\<rparr>)
       (groups (\<lambda>p. (pr_query p, pr_hash p, bucket step (pr_t p)))
          (filter (\<lambda>p. in_window Hour lo to (pr_t p) \<and> selected queries (pr_query p)) (ch_points c)))"

definition rollup_rows :: "Arithmetic \<Rightarrow> string list \<Rightarrow> Time \<Rightarrow> Time \<Rightarrow> Duration \<Rightarrow> rollupRow list \<Rightarrow> answerRow list" where
  "rollup_rows ar queries lo to step rows =
     map (\<lambda>((q, h, T), g).
            \<lparr>aw_query = q, aw_hash = h, aw_T = T, aw_L = snd (argMax (map rr_last g)),
             aw_A = ca_avg ar (map rr_values g), aw_S = ca_sum ar (map rr_values g), aw_M = max_value (map rr_max g)\<rparr>)
       (groups (\<lambda>r. (rr_query r, rr_hash r, bucket step (rr_t r)))
          (filter (\<lambda>r. in_window Day lo to (rr_t r) \<and> selected queries (rr_query r)) rows))"

text \<open>\<^verbatim>\<open>pointsSQL\<close>: the points as they are stored, or buckets of the points or of a rollup.\<close>

definition points_answer :: "Arithmetic \<Rightarrow> Time \<Rightarrow> Time \<Rightarrow> Duration \<Rightarrow> string list \<Rightarrow> CH \<Rightarrow> answerRow list" where
  "points_answer ar f to step queries c =
     (let lo = (if step \<noteq> ResultsStep then f + (- step + 1) else f)
      in if step = ResultsStep then raw_rows queries lo to c
         else if step \<ge> Hour \<and> step smod Hour = 0 then rollup_rows ar queries lo to step (ch_1h c)
         else if step \<ge> 5 * Minute \<and> step smod (5 * Minute) = 0 then rollup_rows ar queries lo to step (ch_5m c)
         else bucket_rows ar queries lo to step c)"

subsection \<open>Reading a window\<close>

record window =
  wi_from :: Time
  wi_to :: Time
  wi_step :: Duration

text \<open>The parallel slices of a stored series, as the list of the rows they were appended from.\<close>

record storedSeries =
  ss_labels :: Labels
  ss_hash :: Hash
  ss_rows :: "answerRow list"

definition maxFilteredQueries :: nat where "maxFilteredQueries = 50"

text \<open>\<^verbatim>\<open>Store.read\<close>; \<open>queries\<close> are the keys of a map, and the result is \<open>None\<close> on an error.\<close>

definition read_window :: "failures \<Rightarrow> Arithmetic \<Rightarrow> window \<Rightarrow> string list \<Rightarrow> CH \<Rightarrow> (string \<times> storedSeries) list option \<times> CH" where
  "read_window fails ar w queries c =
     (let names = (if length queries \<le> maxFilteredQueries then sort_Strings queries else []);
          (ok1, c1) = ch_do fails (\<lambda>c. c) c
      in if \<not> ok1 then (None, c1)
         else
           (let (ok2, c2) = ch_do fails (\<lambda>c. c) c1; rows = points_answer ar (wi_from w) (wi_to w) (wi_step w) names c
            in if \<not> ok2 then (None, c2)
               else (Some (map (\<lambda>r. (sr_query r,
                                 \<lparr>ss_labels = sr_labels r, ss_hash = sr_hash r,
                                  ss_rows = filter (\<lambda>a. aw_query a = sr_query r \<and> aw_hash a = sr_hash r) rows\<rparr>))
                            (series_answer names c)), c2)))"

subsection \<open>The constructor's series\<close>

datatype aggregate = aggLast | aggAvg | aggSum | aggMax

text \<open>The fill functions of \<^verbatim>\<open>timeseries\<close>, which are compared by identity; nil is \<open>None\<close>.\<close>

datatype FillFunc = FillFunc_Any | FillFunc_Avg | FillFunc_Sum | FillFunc_Max

definition aggregateFor :: "FillFunc option \<Rightarrow> aggregate" where
  "aggregateFor f =
     (case f of Some FillFunc_Avg \<Rightarrow> aggAvg | Some FillFunc_Sum \<Rightarrow> aggSum | Some FillFunc_Max \<Rightarrow> aggMax | _ \<Rightarrow> aggLast)"

definition pick :: "aggregate \<Rightarrow> answerRow \<Rightarrow> f32" where
  "pick agg a = (case agg of aggLast \<Rightarrow> aw_L a | aggAvg \<Rightarrow> aw_A a | aggSum \<Rightarrow> aw_S a | aggMax \<Rightarrow> aw_M a)"

definition split_label :: "string \<times> string \<Rightarrow> MetricValues \<Rightarrow> MetricValues" where
  "split_label kv mv =
     (let (k, v) = kv
      in if k = LabelMachineId then mv\<lparr>mv_MachineID := v\<rparr>
         else if k = LabelSystemUuid then mv\<lparr>mv_SystemUUID := v\<rparr>
         else if k = LabelContainerId then mv\<lparr>mv_ContainerId := v\<rparr>
         else if k = LabelDestination then mv\<lparr>mv_Destination := v\<rparr>
         else if k = LabelActualDestination then mv\<lparr>mv_ActualDestination := v\<rparr>
         else if k = LabelDestinationIP then mv\<lparr>mv_Destination := v, mv_DestIp := True\<rparr>
         else mv\<lparr>mv_Labels := AList.update k v (mv_Labels mv)\<rparr>)"

definition set_row :: "aggregate \<Rightarrow> answerRow \<Rightarrow> TimeSeries \<Rightarrow> TimeSeries" where
  "set_row agg a s = (if IsNaN (pick agg a) then s else Set s (aw_T a) (pick agg a))"

definition metricValue :: "window \<Rightarrow> aggregate \<Rightarrow> storedSeries \<Rightarrow> MetricValues option" where
  "metricValue w agg ss =
     (let blank = New (wi_from w) (nat ((wi_to w - wi_from w) sdiv wi_step w + 1)) (wi_step w);
          mv = fold split_label (ss_labels ss) (labelled [] (ss_hash ss) None)
      in if list_ex (\<lambda>a. \<not> IsNaN (pick agg a)) (ss_rows ss)
         then Some (mv\<lparr>mv_Values := Some (fold (set_row agg) (ss_rows ss) blank)\<rparr>)
         else None)"

definition metricValues :: "storedSeries list \<Rightarrow> window \<Rightarrow> FillFunc option \<Rightarrow> MetricValues list" where
  "metricValues series w fill = List.map_filter (metricValue w (aggregateFor fill)) series"

record QueryRequest =
  rq_Query :: string
  rq_From :: Time
  rq_To :: Time
  rq_Step :: Duration
  rq_FillFunc :: "FillFunc option"

definition windowOf :: "QueryRequest \<Rightarrow> window" where
  "windowOf rq = \<lparr>wi_from = Time_Truncate (rq_From rq) (rq_Step rq), wi_to = Time_Truncate (rq_To rq) (rq_Step rq), wi_step = rq_Step rq\<rparr>"

text \<open>
  The windows are read in parallel: \<open>ws\<close> is the order in which the reads reach ClickHouse. The result has
  the requests whose window could be read, and whether there was an error.
\<close>

definition queries_of :: "window \<Rightarrow> (string \<times> QueryRequest) list \<Rightarrow> string list" where
  "queries_of w requests = remdups (map (rq_Query \<circ> snd) (filter (\<lambda>r. windowOf (snd r) = w) requests))"

fun read_windows :: "failures \<Rightarrow> Arithmetic \<Rightarrow> (string \<times> QueryRequest) list \<Rightarrow> window list \<Rightarrow> CH
    \<Rightarrow> (window \<times> (string \<times> storedSeries) list option) list \<times> CH" where
  "read_windows fails ar requests [] c = ([], c)"
| "read_windows fails ar requests (w # ws) c =
     (let (r, c1) = read_window fails ar w (queries_of w requests) c; (rs, c2) = read_windows fails ar requests ws c1
      in ((w, r) # rs, c2))"

definition answer_request :: "(window \<times> (string \<times> storedSeries) list option) list \<Rightarrow> string \<times> QueryRequest \<Rightarrow> (string \<times> MetricValues list) option" where
  "answer_request reads rq =
     (let w = windowOf (snd rq)
      in case map_of reads w of
           Some (Some series) \<Rightarrow>
             Some (fst rq, metricValues (map snd (filter (\<lambda>s. fst s = rq_Query (snd rq)) series)) w (rq_FillFunc (snd rq)))
         | _ \<Rightarrow> None)"

definition QueryRanges :: "failures \<Rightarrow> Arithmetic \<Rightarrow> (string \<times> QueryRequest) list \<Rightarrow> window list \<Rightarrow> CH
    \<Rightarrow> ((string \<times> MetricValues list) list \<times> bool) \<times> CH" where
  "QueryRanges fails ar requests ws c =
     (let (reads, c1) = read_windows fails ar requests ws c
      in ((List.map_filter (answer_request reads) requests, list_all (\<lambda>(w, r). r \<noteq> None) reads), c1))"

end
