(* ===== verification/WorldSafety.thy ===== *)
theory WorldSafety
  imports WorldRun WorldStore
begin

text \<open>
  What the evaluator and the store guarantee: every point is written once, whatever fails and in whatever
  order the queries are answered; the labels of a series are written with its points; what is written is
  what is read.
\<close>

subsection \<open>What a task contributes\<close>

definition labels_due :: "string \<Rightarrow> Time \<Rightarrow> seriesCache \<Rightarrow> MetricValues \<Rightarrow> bool" where
  "labels_due q now seen mv = fst (due q (mv_LabelsHash mv) now seen)"

definition series_row :: "string \<Rightarrow> Time \<Rightarrow> MetricValues \<Rightarrow> seriesRow" where
  "series_row q now mv = \<lparr>sr_query = q, sr_hash = mv_LabelsHash mv, sr_labels = labelMap mv, sr_lastSeen = now\<rparr>"

definition mark_seen :: "string \<Rightarrow> Time \<Rightarrow> MetricValues \<Rightarrow> seriesCache \<Rightarrow> seriesCache" where
  "mark_seen q now mv seen = snd (due q (mv_LabelsHash mv) now seen)"

lemma due_other: "h' \<noteq> h \<or> q' \<noteq> q \<Longrightarrow> snd (due q h now seen) (q', h') = seen (q', h')"
  by (auto simp: due_def)

lemma due_cong: "seen (q, h) = seen' (q, h) \<Longrightarrow> fst (due q h now seen) = fst (due q h now seen')"
  by (simp add: due_def)

lemma due_dom: "dom (snd (due q h now seen)) = insert (q, h) (dom seen)"
  by (auto simp: due_def split: if_splits option.splits)

text \<open>The series of an answer that have points are the ones whose labels may be written.\<close>

abbreviation with_points :: "string \<Rightarrow> Time \<Rightarrow> Time \<Rightarrow> MetricValues list \<Rightarrow> MetricValues list" where
  "with_points q nb na mvs \<equiv> filter (\<lambda>mv. new_points q mv nb na \<noteq> []) mvs"

lemma appendSeries_eq:
  "appendSeries q now nb na mv (out, seen) =
     (if new_points q mv nb na = [] then (out, seen)
      else (\<lparr>b_series = b_series out @ (if labels_due q now seen mv then [series_row q now mv] else []),
             b_points = b_points out @ new_points q mv nb na\<rparr>, mark_seen q now mv seen))"
  by (auto simp: appendSeries_def Let_def labels_due_def series_row_def mark_seen_def split: prod.splits)

lemma fold_append_points:
  "b_points (fst (fold (appendSeries q now nb na) mvs bs)) =
     b_points (fst bs) @ concat (map (\<lambda>mv. new_points q mv nb na) mvs)"
  by (induction mvs arbitrary: bs) (auto simp: appendSeries_eq)

lemma fold_append_seen:
  "(q', h) \<notin> (\<lambda>mv. (q, mv_LabelsHash mv)) ` set mvs \<Longrightarrow>
   snd (fold (appendSeries q now nb na) mvs bs) (q', h) = snd bs (q', h)"
  by (induction mvs arbitrary: bs) (auto simp: appendSeries_eq mark_seen_def due_other)

lemma fold_append_series:
  assumes "distinct (map mv_LabelsHash mvs)"
    and "\<And>mv. mv \<in> set mvs \<Longrightarrow> snd bs (q, mv_LabelsHash mv) = seen (q, mv_LabelsHash mv)"
  shows "b_series (fst (fold (appendSeries q now nb na) mvs bs)) =
     b_series (fst bs) @ map (series_row q now) (filter (labels_due q now seen) (with_points q nb na mvs))"
  using assms
proof (induction mvs arbitrary: bs)
  case (Cons mv mvs)
  obtain out s where bs: "bs = (out, s)" by force
  have due: "labels_due q now s mv = labels_due q now seen mv"
    using Cons.prems(2) [of mv] due_cong [of s q "mv_LabelsHash mv" seen now] by (simp add: bs labels_due_def)
  let ?bs = "appendSeries q now nb na mv bs"
  have "snd ?bs (q, mv_LabelsHash m) = seen (q, mv_LabelsHash m)" if "m \<in> set mvs" for m
  proof -
    have "mv_LabelsHash m \<noteq> mv_LabelsHash mv" using that Cons.prems(1) by (auto simp: rev_image_eqI)
    then show ?thesis
      using Cons.prems(2) [of m] that by (auto simp: bs appendSeries_eq mark_seen_def due_other)
  qed
  from Cons.IH [OF _ this] Cons.prems(1)
  show ?case by (auto simp: bs appendSeries_eq due)
qed simp

lemma fold_append_dom:
  "dom (snd (fold (appendSeries q now nb na) mvs bs)) =
     dom (snd bs) \<union> (\<lambda>mv. (q, mv_LabelsHash mv)) ` set (with_points q nb na mvs)"
proof (induction mvs arbitrary: bs)
  case (Cons mv mvs)
  obtain out s where bs: "bs = (out, s)" by force
  show ?case
    using Cons.IH [of "appendSeries q now nb na mv bs"] by (auto simp: bs appendSeries_eq mark_seen_def due_dom)
qed simp

text \<open>A task: its points, and the rows of the labels that are due.\<close>

definition task_mvs :: "Source \<Rightarrow> Time \<Rightarrow> task \<Rightarrow> MetricValues list" where
  "task_mvs src to tsk = (case queryRange src (fst tsk) (snd tsk) to ResultsStep of Inl _ \<Rightarrow> [] | Inr mvs \<Rightarrow> mvs)"

abbreviation task_query :: "task \<Rightarrow> string" where
  "task_query tsk \<equiv> qu_Query (fst tsk)"

definition task_points :: "Source \<Rightarrow> Time \<Rightarrow> task \<Rightarrow> pointRow list" where
  "task_points src to tsk = concat (map (\<lambda>mv. new_points (task_query tsk) mv 0 0) (task_mvs src to tsk))"

definition task_series :: "Source \<Rightarrow> Time \<Rightarrow> seriesCache \<Rightarrow> task \<Rightarrow> seriesRow list" where
  "task_series src to seen tsk =
     map (series_row (task_query tsk) to)
       (filter (labels_due (task_query tsk) to seen) (with_points (task_query tsk) 0 0 (task_mvs src to tsk)))"

abbreviation answer_task :: "Source \<Rightarrow> Time \<Rightarrow> task \<Rightarrow> batch \<times> seriesCache \<Rightarrow> batch \<times> seriesCache" where
  "answer_task src to tsk \<equiv> fold (appendSeries (task_query tsk) to 0 0) (task_mvs src to tsk)"

lemma run_task_fst: "fst (run_task src to tsk st) = answer_task src to tsk (fst st)"
  by (auto simp: run_task_def task_mvs_def split: prod.splits sum.splits)

lemma run_tasks_fst: "fst (fold (run_task src to) ts st) = fold (answer_task src to) ts (fst st)"
  by (induction ts arbitrary: st) (auto simp: run_task_fst)

lemma distinct_task_mvs: "distinct (map mv_LabelsHash (task_mvs src to tsk))"
  by (auto simp: task_mvs_def queryRange_def dest: QueryRange_merged(1) split: sum.splits)

lemma tasks_points:
  "b_points (fst (fold (answer_task src to) ts bs)) = b_points (fst bs) @ concat (map (task_points src to) ts)"
  by (induction ts arbitrary: bs) (auto simp: fold_append_points task_points_def)

lemma tasks_series:
  assumes "distinct (map task_query ts)"
    and "\<And>tsk h. tsk \<in> set ts \<Longrightarrow> snd bs (task_query tsk, h) = seen (task_query tsk, h)"
  shows "b_series (fst (fold (answer_task src to) ts bs)) = b_series (fst bs) @ concat (map (task_series src to seen) ts)"
  using assms
proof (induction ts arbitrary: bs)
  case (Cons tsk ts)
  let ?bs = "answer_task src to tsk bs"
  have "snd ?bs (task_query t, h) = seen (task_query t, h)" if "t \<in> set ts" for t h
  proof -
    have "task_query t \<noteq> task_query tsk" using that Cons.prems(1) by (auto simp: rev_image_eqI)
    then have "snd ?bs (task_query t, h) = snd bs (task_query t, h)" by (intro fold_append_seen) auto
    then show ?thesis using that Cons.prems(2) by simp
  qed
  with Cons.prems have "b_series (fst (fold (answer_task src to) ts ?bs)) = b_series (fst ?bs) @ concat (map (task_series src to seen) ts)"
    by (intro Cons.IH) auto
  then show ?case
    using Cons.prems(2) [of tsk] fold_append_series [OF distinct_task_mvs, where bs = bs and q = "task_query tsk" and seen = seen]
    by (simp add: task_series_def [of src to seen tsk])
qed simp

lemma tasks_dom:
  "dom (snd (fold (answer_task src to) ts bs)) =
     dom (snd bs) \<union> {(pr_query p, pr_hash p) |p. p \<in> set (concat (map (task_points src to) ts))}"
proof (induction ts arbitrary: bs)
  case (Cons tsk ts)
  have row: "pr_query p = q \<and> pr_hash p = mv_LabelsHash mv" if "p \<in> set (new_points q mv nb na)" for p q mv nb na
    using that by (auto simp: new_points_def)
  have "(\<lambda>mv. (task_query tsk, mv_LabelsHash mv)) ` set (with_points (task_query tsk) 0 0 (task_mvs src to tsk)) =
      {(pr_query p, pr_hash p) |p. p \<in> set (task_points src to tsk)}"
    unfolding task_points_def using row by (auto simp: image_iff) (metis list.set_intros(1) neq_Nil_conv)
  then show ?case using Cons.IH [of "answer_task src to tsk bs"] by (auto simp: fold_append_dom)
qed simp

subsection \<open>The plan\<close>

lemma plan_tasks:
  assumes "plan src names backfill ls to fin qs = (ts, n)"
  shows "distinct (map task_query ts)"
    and "(q, f) \<in> set ts \<Longrightarrow> q \<in> set qs \<and> qu_Query q \<notin> fin \<and> f = missing_from backfill ls to (qu_Query q) \<and> f \<le> to"
proof -
  have "distinct (map task_query ts) \<and>
     (\<forall>(q, f)\<in>set ts. q \<in> set qs \<and> qu_Query q \<notin> fin \<and> f = missing_from backfill ls to (qu_Query q) \<and> f \<le> to)"
    using assms
  proof (induction qs arbitrary: fin ts n)
    case (Cons q qs)
    show ?case
    proof (cases "qu_Query q = [] \<or> qu_Query q \<in> fin")
      case True
      then show ?thesis using Cons by fastforce
    next
      case False
      obtain ts' n' where r: "plan src names backfill ls to (insert (qu_Query q) fin) qs = (ts', n')" by force
      have "ts = ts' \<or> ts = (q, missing_from backfill ls to (qu_Query q)) # ts' \<and> missing_from backfill ls to (qu_Query q) \<le> to"
        using Cons.prems False r by (auto simp: Let_def split: sum.splits option.splits if_splits)
      then show ?thesis using Cons.IH [OF r] False by fastforce
    qed
  qed simp
  then show "distinct (map task_query ts)"
    and "(q, f) \<in> set ts \<Longrightarrow> q \<in> set qs \<and> qu_Query q \<notin> fin \<and> f = missing_from backfill ls to (qu_Query q) \<and> f \<le> to"
    by auto
qed

subsection \<open>Fresh points\<close>

definition point_key :: "pointRow \<Rightarrow> string \<times> Hash \<times> Time" where
  "point_key p = (pr_query p, pr_hash p, pr_t p)"

text \<open>The points are on the grid of the results, and none is stored twice.\<close>

definition points_ok :: "pointRow list \<Rightarrow> bool" where
  "points_ok ps \<longleftrightarrow> distinct (map point_key ps) \<and> list_all (\<lambda>p. ResultsStep dvd pr_t p) ps"

lemma ResultsStep_15: "ResultsStep = 15"
  by (simp add: ResultsStep_def duration_defs)

lemma distinct_keys_concat:
  assumes "distinct (map g xs)"
    and "\<And>x. x \<in> set xs \<Longrightarrow> distinct (map key (L x))"
    and "\<And>x p. x \<in> set xs \<Longrightarrow> p \<in> set (L x) \<Longrightarrow> tag (key p) = g x"
  shows "distinct (map key (concat (map L xs)))"
  using assms
proof (induction xs)
  case (Cons x xs)
  have "key p \<noteq> key p'" if "p \<in> set (L x)" "y \<in> set xs" "p' \<in> set (L y)" for p y p'
  proof
    assume "key p = key p'"
    then have "g x = g y" using Cons.prems(3) [of x p] Cons.prems(3) [of y p'] that by simp
    then show False using Cons.prems(1) that(2) by (auto simp: rev_image_eqI)
  qed
  then show ?case using Cons by fastforce
qed simp

lemma new_points_row: "p \<in> set (new_points q mv nb na) \<Longrightarrow> pr_query p = q \<and> pr_hash p = mv_LabelsHash mv \<and> pr_v p \<noteq> NaN"
  by (auto simp: new_points_def)

lemma new_points_time:
  assumes "mv_Values mv = Some s" "p \<in> set (new_points q mv nb na)"
  shows "\<exists>i<length (ts_data s). pr_t p = ts_from s + int i * ts_step s" and "nb \<le> pr_t p" and "na \<noteq> 0 \<longrightarrow> pr_t p \<le> na"
  using assms by (auto simp: new_points_def samples_def)

lemma new_points_distinct:
  assumes "\<And>s. mv_Values mv = Some s \<Longrightarrow> 0 < ts_step s"
  shows "distinct (map point_key (new_points q mv nb na))"
proof (cases "mv_Values mv")
  case (Some s)
  have "distinct (map fst (samples s))"
    using assms [OF Some] by (auto simp: samples_def distinct_map inj_on_def comp_def)
  then have "distinct (map fst (filter P (samples s)))" for P by (rule distinct_map_filter)
  then show ?thesis
    using Some by (auto simp: new_points_def distinct_map point_key_def inj_on_def comp_def)
qed (simp add: new_points_def)

lemma last_of_None: "last_of ps since q = None \<Longrightarrow> p \<in> set ps \<Longrightarrow> pr_query p = q \<Longrightarrow> pr_t p < since"
  by (auto simp: last_of_def Let_def filter_empty_conv split: if_splits)

lemma last_of_Some:
  assumes "last_of ps since q = Some l"
  shows "\<exists>p\<in>set ps. pr_query p = q \<and> pr_t p = l \<and> since \<le> l" and "p \<in> set ps \<Longrightarrow> pr_query p = q \<Longrightarrow> pr_t p \<le> l"
proof -
  let ?ts = "map pr_t (filter (\<lambda>p. pr_query p = q \<and> pr_t p \<ge> since) ps)"
  have ne: "?ts \<noteq> []" and f: "l = fold max (tl ?ts) (hd ?ts)"
    using assms by (simp_all add: last_of_def Let_def split: if_splits)
  have l: "l = Lattices_Big.Max (set ?ts)"
    unfolding f Max.set_eq_fold [symmetric] list.collapse [OF ne] ..
  have "l \<in> set ?ts" unfolding l using Max_in [of "set ?ts"] ne by (simp only: set_empty finite_set simp_thms)
  then show w: "\<exists>p\<in>set ps. pr_query p = q \<and> pr_t p = l \<and> since \<le> l" by auto
  show "pr_t p \<le> l" if "p \<in> set ps" "pr_query p = q"
  proof (cases "since \<le> pr_t p")
    case True
    then have "pr_t p \<in> set ?ts" using that by auto
    then show ?thesis unfolding l by (intro Max_ge) auto
  next
    case False
    then show ?thesis using w by auto
  qed
qed

lemma Truncate_step: "0 \<le> t \<Longrightarrow> ResultsStep dvd t \<Longrightarrow> Time_Truncate t ResultsStep = t"
  by (simp add: Time_Truncate_nonneg ResultsStep_15)

lemma missing_from_fresh:
  assumes ok: "points_ok ps" and p: "p \<in> set ps" "pr_query p = q"
    and since: "since + ResultsStep \<le> to - backfill" "0 \<le> since"
  shows "pr_t p < Time_Truncate (missing_from backfill (last_of ps since) to q) ResultsStep"
proof -
  have low: "t < Time_Truncate (to - backfill) ResultsStep" if "t + ResultsStep \<le> to - backfill" for t
    using that since Time_Truncate_gt [of "to - backfill" ResultsStep] by (simp add: ResultsStep_15)
  show ?thesis
  proof (cases "last_of ps since q")
    case None
    then show ?thesis using last_of_None [OF None p] low [of "pr_t p"] since by (simp add: missing_from_def)
  next
    case (Some l)
    have l: "pr_t p \<le> l" "0 \<le> l" "ResultsStep dvd l"
      using last_of_Some [OF Some] p ok since by (auto simp: points_ok_def list_all_iff)
    then show ?thesis
      using Some low [of "pr_t p"] Truncate_step [of "l + ResultsStep"] by (auto simp: missing_from_def ResultsStep_15)
  qed
qed

lemma points_ok_append:
  assumes "points_ok ps" "distinct (map point_key new)" "\<And>p. p \<in> set new \<Longrightarrow> ResultsStep dvd pr_t p"
    and "\<And>p p'. p \<in> set ps \<Longrightarrow> p' \<in> set new \<Longrightarrow> pr_query p = pr_query p' \<Longrightarrow> pr_t p < pr_t p'"
  shows "points_ok (ps @ new)"
  using assms by (auto simp: points_ok_def list_all_iff point_key_def) (metis less_irrefl)

lemma task_mvs_grid:
  assumes "mv \<in> set (task_mvs src to (q, f))"
  obtains s where "mv_Values mv = Some s" "ts_from s = Time_Truncate f ResultsStep" "ts_step s = ResultsStep"
proof (cases "queryRange src q f to ResultsStep")
  case (Inr mvs)
  then show ?thesis
    using assms that QueryRange_merged(2) [OF Inr [unfolded queryRange_def], of mv]
    by (auto simp: task_mvs_def on_grid_def New_def NewWithData_def)
qed (use assms in \<open>simp add: task_mvs_def\<close>)

lemma task_points_facts:
  assumes "0 \<le> f" "p \<in> set (task_points src to (q, f))"
  shows "pr_query p = qu_Query q \<and> Time_Truncate f ResultsStep \<le> pr_t p \<and> ResultsStep dvd pr_t p"
proof -
  obtain mv where mv: "mv \<in> set (task_mvs src to (q, f))" "p \<in> set (new_points (qu_Query q) mv 0 0)"
    using assms(2) by (auto simp: task_points_def)
  obtain s where s: "mv_Values mv = Some s" "ts_from s = Time_Truncate f ResultsStep" "ts_step s = ResultsStep"
    by (rule task_mvs_grid [OF mv(1)])
  obtain i where "pr_t p = Time_Truncate f ResultsStep + int i * ResultsStep"
    using new_points_time(1) [OF s(1) mv(2)] s by auto
  then show ?thesis
    using assms(1) new_points_row [OF mv(2)] Time_Truncate_dvd [of f ResultsStep] by (simp add: ResultsStep_15)
qed

lemma task_points_distinct: "distinct (map point_key (task_points src to tsk))"
  unfolding task_points_def
proof (rule distinct_keys_concat [where g = mv_LabelsHash and tag = "\<lambda>(q, h, t). h"])
  show "distinct (map mv_LabelsHash (task_mvs src to tsk))" by (rule distinct_task_mvs)
  fix mv assume mv: "mv \<in> set (task_mvs src to tsk)"
  have "0 < ts_step s" if "mv_Values mv = Some s" for s
    by (rule task_mvs_grid [of mv src to "fst tsk" "snd tsk"]) (use mv that in \<open>simp_all add: ResultsStep_15\<close>)
  then show "distinct (map point_key (new_points (task_query tsk) mv 0 0))" by (rule new_points_distinct)
  show "(case point_key p of (q, h, t) \<Rightarrow> h) = mv_LabelsHash mv" if "p \<in> set (new_points (task_query tsk) mv 0 0)" for p
    using new_points_row [OF that] by (simp add: point_key_def)
qed

lemma tasks_points_distinct:
  assumes "distinct (map task_query ts)" "\<And>q f. (q, f) \<in> set ts \<Longrightarrow> 0 \<le> f"
  shows "distinct (map point_key (concat (map (task_points src to) ts)))"
proof (rule distinct_keys_concat [where g = task_query and tag = fst, OF assms(1) task_points_distinct])
  show "fst (point_key p) = task_query tsk" if "tsk \<in> set ts" "p \<in> set (task_points src to tsk)" for tsk p
    using that assms(2) [of "fst tsk" "snd tsk"] task_points_facts [of "snd tsk" p src to "fst tsk"] by (simp add: point_key_def)
qed

subsection \<open>A cycle\<close>

lemma write_batch_tables:
  assumes "write_batch fails b c = (ok, c')"
  shows "ok \<Longrightarrow> ch_points c' = ch_points c @ b_points b \<and> ch_series c' = ch_series c @ b_series b"
    and "\<not> ok \<Longrightarrow> ch_points c' = ch_points c \<and> (ch_series c' = ch_series c \<or> ch_series c' = ch_series c @ b_series b)"
  using assms by (auto simp: write_batch_def ch_do_def insert_points_def Let_def split: if_splits)

text \<open>The tasks of a cycle, and what it stores.\<close>

definition permutes_tasks :: "(task list \<Rightarrow> task list) \<Rightarrow> bool" where
  "permutes_tasks order \<longleftrightarrow> (\<forall>ts. mset (order ts) = mset ts)"

lemma permutes_distinct: "permutes_tasks order \<Longrightarrow> distinct (map f (order ts)) = distinct (map f ts)"
  unfolding permutes_tasks_def by (metis mset_eq_imp_distinct_iff mset_map)

lemma permutes_set: "permutes_tasks order \<Longrightarrow> set (order ts) = set ts"
  unfolding permutes_tasks_def by (metis set_mset_mset)

lemma cycle_cases:
  assumes "cycle fails src order queries now backfill ls seen c = ((res, err), seen', c')"
  obtains (names) e where "so_names src = Inl e" "err = Some (''metric names: '' @ e)" "seen' = seen" "c' = c" "re_To res = window_end now"
  | (stored) names ts n out where "so_names src = Inr names" "plan src names backfill ls (window_end now) {} queries = (ts, n)"
      "fold (answer_task src (window_end now)) (order ts) (empty_batch, seen) = (out, seen')"
      "if b_points out = [] then c' = c \<and> err = None else write_batch fails out c = (err = None, c')"
      "re_To res = window_end now"
proof (cases "so_names src")
  case (Inl e)
  then show ?thesis using assms names by (auto simp: cycle_def Let_def)
next
  case (Inr nms)
  obtain ts n where p: "plan src nms backfill ls (window_end now) {} queries = (ts, n)" by force
  obtain out s e1 where r: "fold (run_task src (window_end now)) (order ts) ((empty_batch, seen), None) = ((out, s), e1)"
    by (metis prod.exhaust)
  then have f: "fold (answer_task src (window_end now)) (order ts) (empty_batch, seen) = (out, s)"
    using run_tasks_fst [of src "window_end now" "order ts" "((empty_batch, seen), None)"] by simp
  show ?thesis
    by (rule stored [OF Inr p, of out])
       (use assms Inr p r f in \<open>auto simp: cycle_def Let_def split: prod.splits if_splits\<close>)
qed

lemma cycle_points_ok:
  assumes ok: "points_ok (ch_points c)" and perm: "permutes_tasks order"
    and since: "0 \<le> since" "since + ResultsStep \<le> window_end now - backfill"
    and run: "cycle fails src order queries now backfill (last_of (ch_points c) since) seen c = (r, seen', c')"
  shows "\<exists>new. ch_points c' = ch_points c @ new \<and> points_ok (ch_points c') \<and> pr_query ` set new \<subseteq> qu_Query ` set queries"
proof -
  obtain res err where "r = (res, err)" by force
  then show ?thesis
  proof (cases rule: cycle_cases [OF run [unfolded \<open>r = (res, err)\<close>]])
    case (2 nms ts n out)
    let ?to = "window_end now" let ?ts = "order ts"
    have tasks: "distinct (map task_query ?ts)" "\<And>q f. (q, f) \<in> set ?ts \<Longrightarrow>
        q \<in> set queries \<and> f = missing_from backfill (last_of (ch_points c) since) ?to (qu_Query q) \<and> f \<le> ?to"
      using plan_tasks [OF 2(2)] permutes_distinct [OF perm] permutes_set [OF perm] by auto
    have nonneg: "0 \<le> missing_from backfill (last_of (ch_points c) since) ?to q" for q
      using since last_of_Some(1) [of "ch_points c" since q] by (force simp: missing_from_def ResultsStep_15 split: option.splits)
    let ?new = "concat (map (task_points src ?to) ?ts)"
    have new: "b_points out = ?new" using tasks_points [where src = src and to = ?to and ts = ?ts and bs = "(empty_batch, seen)"] 2(3) by (simp add: empty_batch_def)
    have facts: "\<exists>q f. (q, f) \<in> set ?ts \<and> pr_query p = qu_Query q \<and> Time_Truncate f ResultsStep \<le> pr_t p \<and> ResultsStep dvd pr_t p"
      if p: "p \<in> set ?new" for p
    proof -
      obtain q f where qf: "(q, f) \<in> set ?ts" "p \<in> set (task_points src ?to (q, f))" using p by auto
      then have "0 \<le> f" using tasks(2) nonneg by metis
      from task_points_facts [OF this qf(2)] qf(1) show ?thesis by blast
    qed
    have "points_ok (ch_points c @ ?new)"
    proof (rule points_ok_append [OF ok tasks_points_distinct [OF tasks(1)]])
      show "0 \<le> f" if "(q, f) \<in> set ?ts" for q f using tasks(2) [OF that] nonneg by metis
      show "ResultsStep dvd pr_t p" if "p \<in> set ?new" for p using facts [OF that] by blast
      show "pr_t p < pr_t p'" if pp: "p \<in> set (ch_points c)" "p' \<in> set ?new" "pr_query p = pr_query p'" for p p'
      proof -
        obtain q f where qf: "(q, f) \<in> set ?ts" "pr_query p' = qu_Query q" "Time_Truncate f ResultsStep \<le> pr_t p'"
          using facts [OF pp(2)] by blast
        then show ?thesis
          using missing_from_fresh [OF ok pp(1) _ since(2,1), of "qu_Query q"] tasks(2) [OF qf(1)] pp(3) by auto
      qed
    qed
    moreover have "pr_query ` set ?new \<subseteq> qu_Query ` set queries" using facts tasks(2) by fastforce
    moreover have "ch_points c' = ch_points c \<or> ch_points c' = ch_points c @ ?new"
      using 2(4) new write_batch_tables [of fails out c "err = None" c'] by (auto split: if_splits)
    ultimately show ?thesis using ok by auto
  qed (use ok in auto)
qed

subsection \<open>The recording rules\<close>

text \<open>
  What the constructor's rules keep to: their names are the keys of a map and are not the name of a marker;
  the answers of a rule have different labels and are on the grid of the results.
\<close>

definition rules_ok :: "'w RuleSet \<Rightarrow> bool" where
  "rules_ok ru \<longleftrightarrow> distinct (map fst (ru_rules ru)) \<and> (\<forall>(name, rule)\<in>set (ru_rules ru). \<not> has_prefix name marker_prefix \<and>
     (\<forall>w. distinct (map mv_LabelsHash (rule w)) \<and>
        (\<forall>mv\<in>set (rule w). \<forall>s. mv_Values mv = Some s \<longrightarrow> ts_step s = ResultsStep \<and> ResultsStep dvd ts_from s)))"

definition not_before :: "(string \<Rightarrow> Time option) \<Rightarrow> Time \<Rightarrow> string \<Rightarrow> Time" where
  "not_before ls chunkFrom name =
     (case ls name of None \<Rightarrow> chunkFrom | Some l \<Rightarrow> if l + ResultsStep > chunkFrom then l + ResultsStep else chunkFrom)"

definition rule_mvs :: "'w RuleSet \<Rightarrow> 'w \<Rightarrow> string \<Rightarrow> MetricValues list" where
  "rule_mvs ru w name = (case map_of (ru_rules ru) name of None \<Rightarrow> [] | Some rule \<Rightarrow> rule w)"

definition rule_points :: "'w RuleSet \<Rightarrow> 'w \<Rightarrow> (string \<Rightarrow> Time option) \<Rightarrow> Time \<Rightarrow> Time \<Rightarrow> string \<Rightarrow> pointRow list" where
  "rule_points ru w ls chunkFrom chunkTo name =
     concat (map (\<lambda>mv. new_points name mv (not_before ls chunkFrom name) chunkTo) (rule_mvs ru w name))"

lemma rule_rows_eq:
  "rule_rows ru w ls f t name bs = fold (appendSeries name t (not_before ls f name) t) (rule_mvs ru w name) bs"
  by (auto simp: rule_rows_def rule_mvs_def not_before_def Let_def split: option.splits)

lemma rules_points:
  "b_points (fst (fold (rule_rows ru w ls f t) names bs)) = b_points (fst bs) @ concat (map (rule_points ru w ls f t) names)"
  by (induction names arbitrary: bs) (auto simp: rule_rows_eq fold_append_points rule_points_def)

lemma rule_mvs_ok:
  assumes "rules_ok ru"
  shows "distinct (map mv_LabelsHash (rule_mvs ru w name))"
    and "mv \<in> set (rule_mvs ru w name) \<Longrightarrow> mv_Values mv = Some s \<Longrightarrow> ts_step s = ResultsStep \<and> ResultsStep dvd ts_from s"
  using assms by (auto simp: rules_ok_def rule_mvs_def dest!: map_of_SomeD split: option.splits)

lemma rule_points_facts:
  assumes ok: "rules_ok ru" and p: "p \<in> set (rule_points ru w ls f t name)" and "t \<noteq> 0"
  shows "pr_query p = name \<and> ResultsStep dvd pr_t p \<and> f \<le> pr_t p \<and> pr_t p \<le> t \<and> (\<forall>l. ls name = Some l \<longrightarrow> l < pr_t p)"
proof -
  obtain mv where mv: "mv \<in> set (rule_mvs ru w name)" "p \<in> set (new_points name mv (not_before ls f name) t)"
    using p by (auto simp: rule_points_def)
  then obtain s where s: "mv_Values mv = Some s" by (cases "mv_Values mv") (auto simp: new_points_def)
  have "ResultsStep dvd pr_t p"
    using new_points_time(1) [OF s mv(2)] rule_mvs_ok(2) [OF ok mv(1) s] by auto
  then show ?thesis
    using new_points_time(2,3) [OF s mv(2)] new_points_row [OF mv(2)] assms(3)
    by (auto simp: not_before_def ResultsStep_15 split: option.splits if_splits)
qed

lemma rules_points_distinct:
  assumes "rules_ok ru" "distinct names" "t \<noteq> 0"
  shows "distinct (map point_key (concat (map (rule_points ru w ls f t) names)))"
proof (rule distinct_keys_concat [where g = "\<lambda>n. n" and tag = fst])
  show "distinct (map (\<lambda>n. n) names)" using assms(2) by simp
  show "fst (point_key p) = n" if "p \<in> set (rule_points ru w ls f t n)" for n p
    using rule_points_facts [OF assms(1) that assms(3)] by (simp add: point_key_def)
  show "distinct (map point_key (rule_points ru w ls f t n))" for n
    unfolding rule_points_def
  proof (rule distinct_keys_concat [where g = mv_LabelsHash and tag = "\<lambda>(q, h, t). h", OF rule_mvs_ok(1) [OF assms(1)]])
    show "distinct (map point_key (new_points n mv nb na))" if "mv \<in> set (rule_mvs ru w n)" for mv nb na
      using rule_mvs_ok(2) [OF assms(1) that] by (intro new_points_distinct) (auto simp: ResultsStep_15)
    show "(case point_key p of (q, h, t) \<Rightarrow> h) = mv_LabelsHash mv" if "p \<in> set (new_points n mv nb na)" for p mv nb na
      using new_points_row [OF that] by (simp add: point_key_def)
  qed
qed

text \<open>The points of the rules are before a chunk, or not after those that were stored when the cycle began.\<close>

definition rules_fresh :: "string list \<Rightarrow> string \<Rightarrow> (string \<Rightarrow> Time option) \<Rightarrow> Time \<Rightarrow> pointRow list \<Rightarrow> bool" where
  "rules_fresh names marker ls f ps \<longleftrightarrow>
     (\<forall>p\<in>set ps. (pr_query p \<in> set names \<longrightarrow> pr_t p < f \<or> (\<exists>l. ls (pr_query p) = Some l \<and> pr_t p \<le> l)) \<and>
        (pr_query p = marker \<longrightarrow> pr_t p < f))"

lemma chunk_end_facts:
  assumes "f \<le> to" "ResultsStep dvd f" "ResultsStep dvd to"
  shows "f \<le> chunk_end to f \<and> chunk_end to f < f + ruleChunk \<and> ResultsStep dvd chunk_end to f"
  using assms by (auto simp: chunk_end_def Let_def ruleChunk_def ResultsStep_15 duration_defs)

lemma run_chunk_ok:
  assumes ru: "rules_ok ru" "distinct names" "marker \<notin> set names"
    and f: "0 < f" "f \<le> to" "ResultsStep dvd f" "ResultsStep dvd to"
    and ok: "points_ok (ch_points c)" "rules_fresh names marker ls f (ch_points c)"
    and run: "run_chunk fails ru marker ls names evaluatedTo to f seen c = (r, seen', c')"
  shows "points_ok (ch_points c') \<and> rules_fresh names marker ls (f + ruleChunk) (ch_points c')"
proof -
  let ?t = "chunk_end to f"
  have t: "f \<le> ?t" "?t < f + ruleChunk" "ResultsStep dvd ?t" "?t \<noteq> 0" using chunk_end_facts [OF f(2-4)] f(1) by auto
  have keep: "rules_fresh names marker ls (f + ruleChunk) (ch_points c)"
    using ok(2) by (force simp: rules_fresh_def ruleChunk_def duration_defs)
  show ?thesis
  proof (cases "ru_load ru c (f - ruleHistory) (if ?t + ruleLookahead * ResultsStep > evaluatedTo then evaluatedTo else ?t + ruleLookahead * ResultsStep)")
    case (Inl e)
    then show ?thesis using run ok(1) keep by (auto simp: run_chunk_def Let_def)
  next
    case (Inr w)
    obtain out s where o: "fold (rule_rows ru w ls f ?t) names (empty_batch, seen) = (out, s)" by force
    let ?new = "concat (map (rule_points ru w ls f ?t) names)"
    have pts: "b_points out = ?new" using rules_points [of ru w ls f ?t names "(empty_batch, seen)"] o by (simp add: empty_batch_def)
    obtain b where b: "write_batch fails (out\<lparr>b_points := b_points out @ [marker_row marker ?t]\<rparr>) c = (b, c')"
      using run Inr o by (auto simp: run_chunk_def Let_def split: prod.splits)
    have facts: "pr_query p \<in> set names \<and> ResultsStep dvd pr_t p \<and> f \<le> pr_t p \<and> pr_t p \<le> ?t \<and> (\<forall>l. ls (pr_query p) = Some l \<longrightarrow> l < pr_t p)"
      if "p \<in> set ?new" for p
      using that rule_points_facts [OF ru(1) _ t(4)] by fastforce
    have mk: "pr_query (marker_row marker ?t) = marker" "pr_t (marker_row marker ?t) = ?t" by (simp_all add: marker_row_def)
    have "points_ok (ch_points c @ ?new @ [marker_row marker ?t])"
    proof (rule points_ok_append [OF ok(1)])
      show "distinct (map point_key (?new @ [marker_row marker ?t]))"
        using rules_points_distinct [OF ru(1,2) t(4), of w ls f] facts ru(3) by (auto simp: point_key_def mk)
      show "ResultsStep dvd pr_t p" if "p \<in> set (?new @ [marker_row marker ?t])" for p
        using that facts t(3) mk by auto
      show "pr_t p < pr_t p'" if "p \<in> set (ch_points c)" "p' \<in> set (?new @ [marker_row marker ?t])" "pr_query p = pr_query p'" for p p'
        using that facts [of p'] ok(2) t(1) mk by (fastforce simp: rules_fresh_def)
    qed
    moreover have "rules_fresh names marker ls (f + ruleChunk) (ch_points c @ ?new @ [marker_row marker ?t])"
      using keep facts t ru(3) mk by (fastforce simp: rules_fresh_def)
    ultimately show ?thesis
      using write_batch_tables [OF b] ok(1) keep pts by (cases b) auto
  qed
qed

lemma run_chunks_ok:
  assumes "rules_ok ru" "distinct names" "marker \<notin> set names" "ResultsStep dvd to"
    and "0 < f" "ResultsStep dvd f" "points_ok (ch_points c)" "rules_fresh names marker ls f (ch_points c)"
    and "run_chunks fails ru marker ls names evaluatedTo to f res seen c = (r, seen', c')"
  shows "points_ok (ch_points c')"
  using assms
proof (induction fails ru marker ls names evaluatedTo to f res seen c arbitrary: r seen' c' rule: run_chunks.induct)
  case (1 fails ru marker ls names evaluatedTo to f res seen c)
  show ?case
  proof (cases "f > to")
    case True
    then show ?thesis using "1.prems"(7,9) by (simp add: run_chunks.simps)
  next
    case False
    obtain x seen1 c1 where x: "run_chunk fails ru marker ls names evaluatedTo to f seen c = (x, seen1, c1)" by (metis prod.exhaust)
    have ok: "points_ok (ch_points c1)" "rules_fresh names marker ls (f + ruleChunk) (ch_points c1)"
      using run_chunk_ok [OF "1.prems"(1-3,5) _ "1.prems"(6,4,7,8) x] False by auto
    show ?thesis
    proof (cases x)
      case (Inl e)
      then show ?thesis using "1.prems"(9) False x ok by (simp add: run_chunks.simps)
    next
      case (Inr np)
      obtain ns n where np: "np = (ns, n)" by force
      have "0 < f + ruleChunk" "ResultsStep dvd f + ruleChunk"
        using "1.prems"(5,6) by (auto simp: ruleChunk_def ResultsStep_15 duration_defs)
      then show ?thesis
        using "1.IH" [OF False x [symmetric] Inr np [symmetric] refl "1.prems"(1-4) _ _ ok]
          "1.prems"(9) [unfolded run_chunks.simps [of fails ru marker ls names evaluatedTo to f]] False x Inr np
        by simp
    qed
  qed
qed

lemma rules_fresh_start:
  assumes ok: "points_ok ps" and new: "\<forall>p\<in>set new. pr_query p \<notin> set names \<and> pr_query p \<noteq> marker"
    and since: "0 \<le> since" "since + ResultsStep \<le> to - backfill"
    and f: "f = Time_Truncate (case last_of ps since marker of None \<Rightarrow> to - backfill | Some l \<Rightarrow> l + ResultsStep) ResultsStep"
  shows "since < f" and "ResultsStep dvd f" and "rules_fresh names marker (last_of ps since) f (ps @ new)"
proof -
  have low: "since < f \<and> ResultsStep dvd f \<and> (\<forall>l. last_of ps since marker = Some l \<longrightarrow> l < f)"
  proof (cases "last_of ps since marker")
    case None
    then show ?thesis
      using since Time_Truncate_gt [of "to - backfill" ResultsStep] Time_Truncate_dvd [of "to - backfill" ResultsStep]
      by (simp add: f ResultsStep_15)
  next
    case (Some l)
    have "0 \<le> l" "ResultsStep dvd l" "since \<le> l"
      using last_of_Some(1) [OF Some] ok since by (auto simp: points_ok_def list_all_iff)
    then show ?thesis using Some Truncate_step [of "l + ResultsStep"] by (simp add: f ResultsStep_15)
  qed
  then show "since < f" "ResultsStep dvd f" by auto
  have "pr_t p < f \<or> (\<exists>l. last_of ps since (pr_query p) = Some l \<and> pr_t p \<le> l)" if "p \<in> set ps" for p
    using that low last_of_None [of ps since "pr_query p" p] last_of_Some(2) [of ps since "pr_query p" _ p]
    by (cases "last_of ps since (pr_query p)") auto
  then show "rules_fresh names marker (last_of ps since) f (ps @ new)"
    using new low by (fastforce simp: rules_fresh_def)
qed

definition marker_of :: "'w Inputs \<Rightarrow> string" where
  "marker_of inp = rulesMarker (in_md5hex inp) (sort_Strings (map fst (ru_rules (in_rules inp))))"

text \<open>What the program passes to a cycle: a schedule of the tasks, its rules, and queries that are neither rules nor markers.\<close>

definition inputs_ok :: "'w Inputs \<Rightarrow> bool" where
  "inputs_ok inp \<longleftrightarrow> permutes_tasks (in_order inp) \<and> rules_ok (in_rules inp) \<and>
     (\<forall>qs q. in_queries inp = Inr qs \<longrightarrow> q \<in> set qs \<longrightarrow>
        qu_Query q \<notin> fst ` set (ru_rules (in_rules inp)) \<and> \<not> has_prefix (qu_Query q) marker_prefix)"

lemma has_prefix_append [simp]: "has_prefix (p @ s) p"
  by (simp add: has_prefix_def)

lemma recordingRules_ok:
  assumes ru: "rules_ok ru" and ok: "points_ok ps" "ch_points c = ps @ new" "points_ok (ch_points c)"
    and new: "\<And>p. p \<in> set new \<Longrightarrow> pr_query p \<notin> fst ` set (ru_rules ru) \<and> \<not> has_prefix (pr_query p) marker_prefix"
    and since: "0 \<le> since" "since + 3 * ResultsStep \<le> evaluatedTo - backfill" "ResultsStep dvd evaluatedTo"
    and run: "recordingRules fails md5hex ru backfill evaluatedTo (last_of ps since) res seen c = (r, seen', c')"
  shows "points_ok (ch_points c')"
proof -
  let ?names = "sort_Strings (map fst (ru_rules ru))" let ?m = "rulesMarker md5hex ?names"
  let ?to = "evaluatedTo - ruleLookahead * ResultsStep"
  define f where f: "f = Time_Truncate (case last_of ps since ?m of None \<Rightarrow> ?to - backfill | Some l \<Rightarrow> l + ResultsStep) ResultsStep"
  show ?thesis
  proof (cases "?names = [] \<or> f > ?to")
    case True
    then show ?thesis using run ok(3) by (auto simp: recordingRules_def Let_def f split: if_splits)
  next
    case False
    have m: "has_prefix ?m marker_prefix" by (simp add: rulesMarker_def)
    have names: "distinct ?names" "?m \<notin> set ?names"
      using ru m by (auto simp: rules_ok_def intro: distinct_sort_Strings)
    have n: "\<forall>p\<in>set new. pr_query p \<notin> set ?names \<and> pr_query p \<noteq> ?m"
    proof
      fix p assume "p \<in> set new"
      from new [OF this] m show "pr_query p \<notin> set ?names \<and> pr_query p \<noteq> ?m" by auto
    qed
    have s: "since + ResultsStep \<le> ?to - backfill" using since by (simp add: ruleLookahead_def ResultsStep_15)
    have fresh: "0 < f" "ResultsStep dvd f" "rules_fresh ?names ?m (last_of ps since) f (ch_points c)"
      using rules_fresh_start [OF ok(1) n since(1) s f] since(1) ok(2) by simp_all
    have dv: "ResultsStep dvd ?to" using since(3) by (simp add: ruleLookahead_def ResultsStep_15)
    have "run_chunks fails ru ?m (last_of ps since) ?names evaluatedTo ?to f (res\<lparr>re_To := ?to\<rparr>) seen c = (r, seen', c')"
      using run False by (auto simp: recordingRules_def Let_def f split: if_splits)
    then show ?thesis by (rule run_chunks_ok [OF ru names dv fresh(1,2) ok(3) fresh(3)])
  qed
qed

lemma EvaluateProject_points_ok:
  assumes inp: "inputs_ok inp" and t: "0 \<le> backfill" "backfill + Hour \<le> now" and ok: "points_ok (ch_points c)"
    and run: "EvaluateProject inp backfill pid now ev c = (r, ev', c')"
  shows "points_ok (ch_points c')"
proof -
  let ?since = "now - backfill - Hour"
  have w: "now - 45 < window_end now" "ResultsStep dvd window_end now"
    using t Time_Truncate_gt [of "now - 30" 15] Time_Truncate_dvd [of "now - 30" 15]
    by (auto simp: window_end_def lag_def ResultsStep_15 duration_defs)
  have s: "0 \<le> ?since" "?since + ResultsStep \<le> window_end now - backfill" "?since + 3 * ResultsStep \<le> window_end now - backfill"
    using t w by (auto simp: ResultsStep_15 duration_defs)
  show ?thesis
  proof (cases "\<exists>seen ev1 qs c1 ls. project_state inp pid ev = (Inr seen, ev1) \<and> in_queries inp = Inr qs \<and>
      lastPerQuery (in_fails inp) ?since c = (Some ls, c1)")
    case False
    have "ch_points (snd (lastPerQuery fails since c)) = ch_points c" for fails since
      by (auto simp: lastPerQuery_def ch_do_def Let_def split: prod.splits)
    then show ?thesis
      using run False ok by (auto simp: EvaluateProject_def split: prod.splits sum.splits option.splits) (metis snd_conv)+
  next
    case True
    then obtain seen ev1 qs c1 ls where st: "project_state inp pid ev = (Inr seen, ev1)" "in_queries inp = Inr qs"
        "lastPerQuery (in_fails inp) ?since c = (Some ls, c1)" by blast
    have ls: "ls = last_of (ch_points c1) ?since" and c1: "ch_points c1 = ch_points c"
      using st(3) by (auto simp: lastPerQuery_def ch_do_def Let_def split: if_splits)
    obtain res err seen1 c2 where cy: "cycle (in_fails inp) (in_source inp) (in_order inp) qs now backfill ls seen c1 = ((res, err), seen1, c2)"
      by (metis prod.exhaust)
    obtain new where new: "ch_points c2 = ch_points c1 @ new" "points_ok (ch_points c2)" "pr_query ` set new \<subseteq> qu_Query ` set qs"
      using cycle_points_ok [OF ok [folded c1] _ s(1,2) cy [unfolded ls]] inp by (auto simp: inputs_ok_def)
    have to: "re_To res = window_end now" by (rule cycle_cases [OF cy]) auto
    show ?thesis
    proof (cases err)
      case (Some e)
      then show ?thesis using run st cy new(2) by (auto simp: EvaluateProject_def)
    next
      case None
      obtain r2 seen2 c3 where rr: "recordingRules (in_fails inp) (in_md5hex inp) (in_rules inp) backfill (re_To res) ls res seen1 c2 = (r2, seen2, c3)"
        by (metis prod.exhaust)
      have nq: "pr_query p \<notin> fst ` set (ru_rules (in_rules inp)) \<and> \<not> has_prefix (pr_query p) marker_prefix" if p: "p \<in> set new" for p
      proof -
        obtain q where "q \<in> set qs" "pr_query p = qu_Query q" using p new(3) by blast
        then show ?thesis using inp st(2) unfolding inputs_ok_def by metis
      qed
      have "points_ok (ch_points c3)"
        using recordingRules_ok [OF _ ok [folded c1] new(1,2) nq s(1,3) w(2) rr [unfolded ls to]] inp by (simp add: inputs_ok_def)
      moreover have "c' = c3"
        using run by (cases "fst r2") (simp_all add: EvaluateProject_def st cy None rr case_prod_beta Let_def)
      ultimately show ?thesis by simp
    qed
  qed
qed

subsection \<open>Every point is stored once\<close>

text \<open>The runs of the evaluator, with any of the inputs that a predicate allows.\<close>

inductive world_step :: "('w Inputs \<Rightarrow> bool) \<Rightarrow> Evaluator \<times> CH \<Rightarrow> Evaluator \<times> CH \<Rightarrow> bool" for allowed where
  run: "allowed inp \<Longrightarrow> 0 \<le> backfill \<Longrightarrow> backfill + Hour \<le> now \<Longrightarrow>
    world_step allowed (ev, c) (runProject inp backfill pid now startNs endNs ev c)"

inductive_cases world_stepE: "world_step allowed s s'"

lemma runProject_tables: "snd (runProject inp backfill pid now s e ev c) = snd (snd (EvaluateProject inp backfill pid now ev c))"
  by (simp add: runProject_def Let_def case_prod_beta)

lemma world_step_points_ok:
  "world_step inputs_ok s s' \<Longrightarrow> points_ok (ch_points (snd s)) \<Longrightarrow> points_ok (ch_points (snd s'))"
  by (erule world_stepE) (metis EvaluateProject_points_ok prod.exhaust_sel runProject_tables snd_conv)

lemma world_steps_points_ok:
  "(world_step inputs_ok)\<^sup>*\<^sup>* s s' \<Longrightarrow> points_ok (ch_points (snd s)) \<Longrightarrow> points_ok (ch_points (snd s'))"
  by (induction rule: rtranclp_induct) (auto intro: world_step_points_ok)

definition empty_ch :: CH where
  "empty_ch = \<lparr>ch_series = [], ch_points = [], ch_5m = [], ch_1h = [], ch_stmts = 0\<rparr>"

definition NewEvaluator :: Evaluator where
  "NewEvaluator = \<lparr>ev_projects = (\<lambda>_. None), ev_status = (\<lambda>_. None), ev_updates = None\<rparr>"

text \<open>A concrete environment: one metric, answered with the value 1 at every step, and one rule.\<close>

definition demo_answer :: server where
  "demo_answer q f t step = Inr [\<lparr>rs_tags = [(''__name__'', q), (''job'', ''a'')], rs_samples = [(f, Fin 1), (t, Fin 2)]\<rparr>]"

definition demo_source :: Source where
  "demo_source = \<lparr>so_names = Inr {''up''}, so_selectors = (\<lambda>q. Inr (Some [q])), so_signature = (\<lambda>ls. of_nat (length ls)),
     so_server = demo_answer\<rparr>"

definition demo_rule_mvs :: "Time \<Rightarrow> MetricValues list" where
  "demo_rule_mvs t = [labelled [(''app'', ''x'')] 7 (Some (NewWithData (Time_Truncate (max 0 t) ResultsStep) ResultsStep [Fin 5, Fin 6]))]"

definition demo_rules :: "Time RuleSet" where
  "demo_rules = \<lparr>ru_rules = [(''rr_application'', demo_rule_mvs)], ru_load = (\<lambda>c f t. Inr (f + ruleHistory))\<rparr>"

definition demo_run :: "failures \<Rightarrow> Time Inputs" where
  "demo_run fails = \<lparr>in_fails = fails, in_connect = None, in_queries = Inr [\<lparr>qu_Query = ''up'', qu_Labels = Some [''job'']\<rparr>],
     in_source = demo_source, in_order = (\<lambda>ts. ts), in_rules = demo_rules, in_md5hex = (\<lambda>s. s)\<rparr>"

lemma demo_run_ok: "inputs_ok (demo_run fails)"
proof -
  have "ResultsStep dvd Time_Truncate (max 0 t) ResultsStep" for t
    by (rule Time_Truncate_dvd) (simp_all add: ResultsStep_15)
  then have "rules_ok demo_rules"
    by (auto simp: rules_ok_def demo_rules_def demo_rule_mvs_def labelled_def NewWithData_def has_prefix_def marker_prefix_def)
  then show ?thesis
    by (auto simp: inputs_ok_def demo_run_def permutes_tasks_def demo_rules_def has_prefix_def marker_prefix_def)
qed

text \<open>
  C26. No point of a series is stored twice: in every state that runs of the evaluator reach from an empty
  store, whatever statements fail and in whatever order the queries are answered, a series of a query has
  at most one point per time, and the times are on the 15 second grid.
\<close>

theorem points_stored_once:
  assumes "(world_step inputs_ok)\<^sup>*\<^sup>* (NewEvaluator, empty_ch) (ev, c)"
  shows "distinct (map point_key (ch_points c)) \<and> list_all (\<lambda>p. ResultsStep dvd pr_t p) (ch_points c)"
  using world_steps_points_ok [OF assms] by (simp add: points_ok_def empty_ch_def)

theorem points_stored_once_witness:
  "distinct (map point_key (ch_points (snd (runProject (demo_run (\<lambda>_. False)) 60 ''p1'' 4000 0 1 NewEvaluator empty_ch))))"
proof -
  let ?s = "runProject (demo_run (\<lambda>_. False)) 60 ''p1'' 4000 0 1 NewEvaluator empty_ch"
  have "world_step (inputs_ok :: Time Inputs \<Rightarrow> bool) (NewEvaluator, empty_ch) ?s"
    by (rule world_step.run [where allowed = inputs_ok, OF demo_run_ok]) (simp_all add: duration_defs)
  then have "(world_step (inputs_ok :: Time Inputs \<Rightarrow> bool))\<^sup>*\<^sup>* (NewEvaluator, empty_ch) (fst ?s, snd ?s)" by simp
  from points_stored_once [OF this] show ?thesis by simp
qed

end
