(* ===== verification/WorldLabels.thy ===== *)
theory WorldLabels
  imports WorldSafety
begin

text \<open>
  The labels of stored series: they are read back as they were written, and they are written before the
  first point that needs them, unless the recording rules fail.
\<close>

subsection \<open>Splitting labels\<close>

definition special_labels :: "string set" where
  "special_labels = {LabelMachineId, LabelSystemUuid, LabelContainerId, LabelDestination, LabelActualDestination, LabelDestinationIP}"

lemma map_of_set_label: "map_of (set_label k v ls) = (if v \<noteq> [] then (map_of ls)(k \<mapsto> v) else map_of ls)"
  by (simp add: set_label_def update_conv')

lemma distinct_set_label: "distinct (map fst ls) \<Longrightarrow> distinct (map fst (set_label k v ls))"
  by (simp add: set_label_def distinct_update)

lemma distinct_labelMap: "distinct (map fst (mv_Labels mv)) \<Longrightarrow> distinct (map fst (labelMap mv))"
  by (simp add: labelMap_def distinct_set_label)

lemma map_of_labelMap:
  "map_of (labelMap mv) k =
     (if k = LabelActualDestination \<and> mv_ActualDestination mv \<noteq> [] then Some (mv_ActualDestination mv)
      else if k = (if mv_DestIp mv then LabelDestinationIP else LabelDestination) \<and> mv_Destination mv \<noteq> [] then Some (mv_Destination mv)
      else if k = LabelContainerId \<and> mv_ContainerId mv \<noteq> [] then Some (mv_ContainerId mv)
      else if k = LabelSystemUuid \<and> mv_SystemUUID mv \<noteq> [] then Some (mv_SystemUUID mv)
      else if k = LabelMachineId \<and> mv_MachineID mv \<noteq> [] then Some (mv_MachineID mv)
      else map_of (mv_Labels mv) k)"
  by (auto simp: labelMap_def map_of_set_label)

definition or_else :: "'a \<Rightarrow> 'a option \<Rightarrow> 'a" where
  "or_else d v = (case v of None \<Rightarrow> d | Some x \<Rightarrow> x)"

lemma or_else_simps [simp]: "or_else d None = d" "or_else d (Some x) = x"
  by (simp_all add: or_else_def)

lemma label_neq [simp]:
  "LabelMachineId \<noteq> LabelSystemUuid" "LabelMachineId \<noteq> LabelContainerId" "LabelMachineId \<noteq> LabelDestination" "LabelMachineId \<noteq> LabelActualDestination" "LabelMachineId \<noteq> LabelDestinationIP"
  "LabelSystemUuid \<noteq> LabelMachineId" "LabelSystemUuid \<noteq> LabelContainerId" "LabelSystemUuid \<noteq> LabelDestination" "LabelSystemUuid \<noteq> LabelActualDestination" "LabelSystemUuid \<noteq> LabelDestinationIP"
  "LabelContainerId \<noteq> LabelMachineId" "LabelContainerId \<noteq> LabelSystemUuid" "LabelContainerId \<noteq> LabelDestination" "LabelContainerId \<noteq> LabelActualDestination" "LabelContainerId \<noteq> LabelDestinationIP"
  "LabelDestination \<noteq> LabelMachineId" "LabelDestination \<noteq> LabelSystemUuid" "LabelDestination \<noteq> LabelContainerId" "LabelDestination \<noteq> LabelActualDestination" "LabelDestination \<noteq> LabelDestinationIP"
  "LabelActualDestination \<noteq> LabelMachineId" "LabelActualDestination \<noteq> LabelSystemUuid" "LabelActualDestination \<noteq> LabelContainerId" "LabelActualDestination \<noteq> LabelDestination" "LabelActualDestination \<noteq> LabelDestinationIP"
  "LabelDestinationIP \<noteq> LabelMachineId" "LabelDestinationIP \<noteq> LabelSystemUuid" "LabelDestinationIP \<noteq> LabelContainerId" "LabelDestinationIP \<noteq> LabelDestination" "LabelDestinationIP \<noteq> LabelActualDestination"
  by (simp_all add: label_defs)

lemma special_labels_mem [simp]:
  "LabelMachineId \<in> special_labels" "LabelSystemUuid \<in> special_labels" "LabelContainerId \<in> special_labels" "LabelDestination \<in> special_labels" "LabelActualDestination \<in> special_labels" "LabelDestinationIP \<in> special_labels"
  by (simp_all add: special_labels_def)

text \<open>The seven cases of a label.\<close>

lemma split_label_cases:
  fixes k v :: string
  obtains "k = LabelMachineId" "split_label (k, v) m = m\<lparr>mv_MachineID := v\<rparr>"
  | "k = LabelSystemUuid" "split_label (k, v) m = m\<lparr>mv_SystemUUID := v\<rparr>"
  | "k = LabelContainerId" "split_label (k, v) m = m\<lparr>mv_ContainerId := v\<rparr>"
  | "k = LabelDestination" "split_label (k, v) m = m\<lparr>mv_Destination := v\<rparr>"
  | "k = LabelActualDestination" "split_label (k, v) m = m\<lparr>mv_ActualDestination := v\<rparr>"
  | "k = LabelDestinationIP" "split_label (k, v) m = m\<lparr>mv_Destination := v, mv_DestIp := True\<rparr>"
  | "k \<notin> special_labels" "LabelMachineId \<noteq> k" "LabelSystemUuid \<noteq> k" "LabelContainerId \<noteq> k" "LabelDestination \<noteq> k" "LabelActualDestination \<noteq> k" "LabelDestinationIP \<noteq> k"
      "split_label (k, v) m = m\<lparr>mv_Labels := AList.update k v (mv_Labels m)\<rparr>"
proof -
  consider "k = LabelMachineId" | "k = LabelSystemUuid" | "k = LabelContainerId" | "k = LabelDestination" | "k = LabelActualDestination" | "k = LabelDestinationIP" | "k \<notin> special_labels"
    unfolding special_labels_def by blast
  then show ?thesis
  proof cases
    case 1
    then show ?thesis using that(1) by (simp add: split_label_def)
  next
    case 2
    then show ?thesis using that(2) by (simp add: split_label_def)
  next
    case 3
    then show ?thesis using that(3) by (simp add: split_label_def)
  next
    case 4
    then show ?thesis using that(4) by (simp add: split_label_def)
  next
    case 5
    then show ?thesis using that(5) by (simp add: split_label_def)
  next
    case 6
    then show ?thesis using that(6) by (simp add: split_label_def)
  next
    case 7
    then have "\<And>l. l \<in> special_labels \<Longrightarrow> l \<noteq> k" by blast
    then show ?thesis using 7 that(7) by (simp add: split_label_def special_labels_def)
  qed
qed

lemma fold_split_fields:
  assumes "distinct (map fst ls)"
  shows "mv_MachineID (fold split_label ls m) = or_else (mv_MachineID m) (map_of ls LabelMachineId) \<and>
    mv_SystemUUID (fold split_label ls m) = or_else (mv_SystemUUID m) (map_of ls LabelSystemUuid) \<and>
    mv_ContainerId (fold split_label ls m) = or_else (mv_ContainerId m) (map_of ls LabelContainerId) \<and>
    mv_ActualDestination (fold split_label ls m) = or_else (mv_ActualDestination m) (map_of ls LabelActualDestination) \<and>
    mv_DestIp (fold split_label ls m) = (mv_DestIp m \<or> map_of ls LabelDestinationIP \<noteq> None)"
  using assms
proof (induction ls arbitrary: m)
  case (Cons kv ls)
  have no: "map_of ls (fst kv) = None" using Cons.prems by (simp add: map_of_eq_None_iff)
  obtain k v where kv: "kv = (k, v)" by force
  show ?case
    using Cons.IH [of "split_label kv m"] Cons.prems no unfolding kv
    by (cases k v m rule: split_label_cases) simp_all
qed simp

lemma fold_split_labels:
  assumes "distinct (map fst ls)"
  shows "map_of (mv_Labels (fold split_label ls m)) key =
      (if key \<in> special_labels \<or> map_of ls key = None then map_of (mv_Labels m) key else map_of ls key)"
  using assms
proof (induction ls arbitrary: m)
  case (Cons kv ls)
  have no: "map_of ls (fst kv) = None" using Cons.prems by (simp add: map_of_eq_None_iff)
  obtain k v where kv: "kv = (k, v)" by force
  show ?case
    using Cons.IH [of "split_label kv m"] Cons.prems no unfolding kv
    by (cases k v m rule: split_label_cases) (auto simp: update_conv')
qed simp

lemma fold_split_destination:
  assumes "distinct (map fst ls)" "map_of ls LabelDestination = None \<or> map_of ls LabelDestinationIP = None"
  shows "mv_Destination (fold split_label ls m) =
    or_else (or_else (mv_Destination m) (map_of ls LabelDestination)) (map_of ls LabelDestinationIP)"
  using assms
proof (induction ls arbitrary: m)
  case (Cons kv ls)
  have no: "map_of ls (fst kv) = None" using Cons.prems by (simp add: map_of_eq_None_iff)
  obtain k v where kv: "kv = (k, v)" by force
  show ?case
    using Cons.IH [of "split_label kv m"] Cons.prems no unfolding kv
    by (cases k v m rule: split_label_cases) simp_all
qed simp

text \<open>
  C28. Labels survive a round trip through the store: in whatever order the stored map is iterated, the
  series that is read has the labels that were written, with the machine, the container and the destination
  split out again. The labels have no empty value (the client drops them), and only one kind of destination.
\<close>

theorem labels_read_back:
  assumes "distinct (map fst (mv_Labels mv))" and "[] \<notin> snd ` set (mv_Labels mv)"
    and "map_of (labelMap mv) LabelDestination = None \<or> map_of (labelMap mv) LabelDestinationIP = None"
    and "distinct (map fst ls)" "set ls = set (labelMap mv)"
  shows "map_of (labelMap (fold split_label ls (labelled [] h None))) = map_of (labelMap mv) \<and>
    special_labels \<inter> dom (map_of (mv_Labels (fold split_label ls (labelled [] h None)))) = {}"
proof -
  let ?r = "fold split_label ls (labelled [] h None)"
  have M: "map_of ls = map_of (labelMap mv)"
    using assms(4,5) distinct_labelMap [OF assms(1)] by (simp add: map_of_inject_set)
  have "map_of (mv_Labels mv) k \<noteq> Some []" for k using assms(2) map_of_SomeD by force
  then have ne: "map_of ls k \<noteq> Some []" for k unfolding M map_of_labelMap by auto
  have f: "mv_MachineID ?r = or_else [] (map_of ls LabelMachineId)" "mv_SystemUUID ?r = or_else [] (map_of ls LabelSystemUuid)"
      "mv_ContainerId ?r = or_else [] (map_of ls LabelContainerId)"
      "mv_ActualDestination ?r = or_else [] (map_of ls LabelActualDestination)"
      "mv_DestIp ?r = (map_of ls LabelDestinationIP \<noteq> None)"
      "mv_Destination ?r = or_else (or_else [] (map_of ls LabelDestination)) (map_of ls LabelDestinationIP)"
    using fold_split_fields [OF assms(4), of "labelled [] h None"]
      fold_split_destination [OF assms(4) assms(3) [folded M], of "labelled [] h None"] by (simp_all add: labelled_def)
  have l: "map_of (mv_Labels ?r) k = (if k \<in> special_labels then None else map_of ls k)" for k
    using fold_split_labels [OF assms(4), of "labelled [] h None" k] by (auto simp: labelled_def)
  have "map_of (labelMap ?r) k = map_of ls k" for k
  proof -
    consider "k = LabelMachineId" | "k = LabelSystemUuid" | "k = LabelContainerId" | "k = LabelDestination" | "k = LabelActualDestination" | "k = LabelDestinationIP" | "k \<notin> special_labels"
      unfolding special_labels_def by blast
    then show ?thesis
    proof cases
      case 4
      then show ?thesis
        using ne [of LabelDestination] ne [of LabelDestinationIP] assms(3) [folded M]
        by (cases "map_of ls LabelDestination"; cases "map_of ls LabelDestinationIP") (simp_all add: map_of_labelMap f l)
    next
      case 6
      then show ?thesis
        using ne [of LabelDestination] ne [of LabelDestinationIP] assms(3) [folded M]
        by (cases "map_of ls LabelDestination"; cases "map_of ls LabelDestinationIP") (simp_all add: map_of_labelMap f l)
    next
      case 7
      then have "\<And>x. x \<in> special_labels \<Longrightarrow> k \<noteq> x" by blast
      then show ?thesis using 7 by (simp add: map_of_labelMap l special_labels_def)
    qed (use ne [of k] in \<open>(cases "map_of ls k"; simp add: map_of_labelMap f l)+\<close>)
  qed
  moreover have "special_labels \<inter> dom (map_of (mv_Labels ?r)) = {}"
    using l by (auto simp: dom_def)
  ultimately show ?thesis using M by auto
qed

theorem labels_read_back_witness:
  "map_of (labelMap (fold split_label [(LabelDestinationIP, ''10.0.0.1:80''), (''app'', ''a'')] (labelled [] 1 None))) =
     map_of (labelMap ((labelled [(''app'', ''a'')] 1 None)\<lparr>mv_Destination := ''10.0.0.1:80'', mv_DestIp := True\<rparr>)) \<and>
   special_labels \<inter> dom (map_of (mv_Labels (fold split_label [(LabelDestinationIP, ''10.0.0.1:80''), (''app'', ''a'')] (labelled [] 1 None)))) = {}"
proof (rule labels_read_back)
  let ?mv = "(labelled [(''app'', ''a'')] 1 None)\<lparr>mv_Destination := ''10.0.0.1:80'', mv_DestIp := True\<rparr>"
  have m: "labelMap ?mv = [(''app'', ''a''), (LabelDestinationIP, ''10.0.0.1:80'')]"
    by (simp add: labelMap_def labelled_def set_label_def label_defs)
  show "map_of (labelMap ?mv) LabelDestination = None \<or> map_of (labelMap ?mv) LabelDestinationIP = None"
    unfolding m by (simp add: label_defs)
  show "set [(LabelDestinationIP, ''10.0.0.1:80''), (''app'', ''a'')] = set (labelMap ?mv)" unfolding m by auto
qed (simp_all add: labelled_def label_defs)

subsection \<open>Labels before points\<close>

definition has_labels :: "seriesRow list \<Rightarrow> string \<times> Hash \<Rightarrow> bool" where
  "has_labels rows k \<longleftrightarrow> list_ex (\<lambda>r. (sr_query r, sr_hash r) = k) rows"

lemma has_labels_append [simp]: "has_labels (xs @ ys) k \<longleftrightarrow> has_labels xs k \<or> has_labels ys k"
  by (auto simp: has_labels_def)

text \<open>The points that are read have labels, and the cache knows only series whose labels are stored.\<close>

definition points_labelled :: "CH \<Rightarrow> bool" where
  "points_labelled c \<longleftrightarrow> (\<forall>p\<in>set (ch_points c). \<not> has_prefix (pr_query p) marker_prefix \<longrightarrow> has_labels (ch_series c) (pr_query p, pr_hash p))"

definition cache_stored :: "seriesCache \<Rightarrow> CH \<Rightarrow> bool" where
  "cache_stored seen c \<longleftrightarrow> (\<forall>k\<in>dom seen. has_labels (ch_series c) k)"

text \<open>A batch with the cache that goes with it, made from the cache \<open>S\<close>.\<close>

definition batch_labelled :: "seriesCache \<Rightarrow> batch \<times> seriesCache \<Rightarrow> bool" where
  "batch_labelled S bs \<longleftrightarrow> (\<forall>k\<in>dom (snd bs). k \<in> dom S \<or> has_labels (b_series (fst bs)) k) \<and>
     (\<forall>p\<in>set (b_points (fst bs)). (pr_query p, pr_hash p) \<in> dom (snd bs))"

lemma batch_labelled_append: "batch_labelled S bs \<Longrightarrow> batch_labelled S (appendSeries q now nb na mv bs)"
proof -
  assume b: "batch_labelled S bs"
  obtain out seen where bs: "bs = (out, seen)" by force
  show ?thesis
  proof (cases "new_points q mv nb na = []")
    case False
    have key: "(pr_query p, pr_hash p) = (q, mv_LabelsHash mv)" if "p \<in> set (new_points q mv nb na)" for p
      using new_points_row [OF that] by simp
    have "labels_due q now seen mv \<or> (q, mv_LabelsHash mv) \<in> dom seen"
      by (auto simp: labels_due_def due_def split: option.splits)
    then show ?thesis
      using b False key
      by (auto simp: bs appendSeries_eq batch_labelled_def mark_seen_def due_dom has_labels_def series_row_def)
  qed (use b in \<open>simp add: bs appendSeries_eq\<close>)
qed

lemma batch_labelled_fold: "batch_labelled S bs \<Longrightarrow> batch_labelled S (fold (appendSeries q now nb na) mvs bs)"
  by (rule fold_ok [where P = "batch_labelled S"]) (auto intro: batch_labelled_append)

lemma batch_labelled_tasks: "batch_labelled S bs \<Longrightarrow> batch_labelled S (fold (answer_task src to) ts bs)"
  by (rule fold_ok [where P = "batch_labelled S"]) (auto intro: batch_labelled_fold)

lemma batch_labelled_rules: "batch_labelled S bs \<Longrightarrow> batch_labelled S (fold (rule_rows ru w ls f t) names bs)"
  by (rule fold_ok [where P = "batch_labelled S"]) (auto simp: rule_rows_eq intro: batch_labelled_fold)

lemma batch_labelled_start: "batch_labelled S (empty_batch, S)"
  by (simp add: batch_labelled_def empty_batch_def)

lemma write_labelled:
  assumes "points_labelled c" "cache_stored S c" "batch_labelled S (out, seen)"
    and "write_batch fails b c = (ok, c')" "b_series b = b_series out" "b_points b = b_points out @ marks"
    and "\<forall>m\<in>set marks. has_prefix (pr_query m) marker_prefix"
  shows "points_labelled c' \<and> (if ok then cache_stored seen c' else cache_stored S c')"
proof (cases ok)
  case True
  have t: "ch_series c' = ch_series c @ b_series out" "ch_points c' = ch_points c @ b_points out @ marks"
    using write_batch_tables(1) [OF assms(4) True] assms(5,6) by auto
  have "cache_stored seen c'"
    using assms(2,3) unfolding cache_stored_def batch_labelled_def t(1) by simp blast
  moreover have "points_labelled c'"
    using assms(1,3,7) \<open>cache_stored seen c'\<close> unfolding points_labelled_def t cache_stored_def batch_labelled_def by auto
  ultimately show ?thesis using True by simp
next
  case False
  then show ?thesis
    using write_batch_tables(2) [OF assms(4) False] assms(1,2) by (auto simp: points_labelled_def cache_stored_def)
qed

lemma cycle_labelled:
  assumes "points_labelled c" "cache_stored seen c"
    and run: "cycle fails src order queries now backfill ls seen c = ((res, err), seen', c')"
  shows "points_labelled c' \<and> (err = None \<longrightarrow> cache_stored seen' c')"
proof (cases rule: cycle_cases [OF run])
  case (2 names ts n out)
  have b: "batch_labelled seen (out, seen')" 
    unfolding 2(3) [symmetric] by (rule batch_labelled_tasks [OF batch_labelled_start])
  show ?thesis
  proof (cases "b_points out = []")
    case True
    have "concat (map (task_points src (window_end now)) (order ts)) = []"
      using tasks_points [where src = src and to = "window_end now" and ts = "order ts" and bs = "(empty_batch, seen)"] 2(3) True
      by (simp only: fst_conv empty_batch_def batch.simps append_Nil)
    then have "dom seen' = dom seen"
      using tasks_dom [where src = src and to = "window_end now" and ts = "order ts" and bs = "(empty_batch, seen)"] 2(3)
      by (simp only: snd_conv) simp
    then show ?thesis using assms(1,2) 2(4) True by (simp add: cache_stored_def)
  next
    case False
    then have "write_batch fails out c = (err = None, c')" using 2(4) by simp
    from write_labelled [OF assms(1,2) b this, of "[]"] show ?thesis by (auto split: if_splits)
  qed
qed (use assms in auto)

lemma run_chunk_labelled:
  assumes "points_labelled c" "cache_stored seen c" "has_prefix marker marker_prefix"
    and run: "run_chunk fails ru marker ls names evaluatedTo to f seen c = (r, seen', c')"
  shows "points_labelled c' \<and> (isl r \<or> cache_stored seen' c')"
proof (cases "ru_load ru c (f - ruleHistory) (if chunk_end to f + ruleLookahead * ResultsStep > evaluatedTo then evaluatedTo else chunk_end to f + ruleLookahead * ResultsStep)")
  case (Inl e)
  then show ?thesis using run assms(1) by (auto simp: run_chunk_def Let_def)
next
  case (Inr w)
  let ?t = "chunk_end to f"
  obtain out s where o: "fold (rule_rows ru w ls f ?t) names (empty_batch, seen) = (out, s)" by force
  obtain b where b: "write_batch fails (out\<lparr>b_points := b_points out @ [marker_row marker ?t]\<rparr>) c = (b, c')" "s = seen'" "isl r = (\<not> b)"
    using run Inr o by (auto simp: run_chunk_def Let_def split: prod.splits if_splits)
  have "batch_labelled seen (out, s)" 
    unfolding o [symmetric] by (rule batch_labelled_rules [OF batch_labelled_start])
  from write_labelled [OF assms(1,2) this b(1), of "[marker_row marker ?t]"] assms(3) b(2,3)
  show ?thesis by (auto simp: marker_row_def split: if_splits)
qed

lemma run_chunks_labelled:
  assumes "points_labelled c" "cache_stored seen c" "has_prefix marker marker_prefix"
    and "run_chunks fails ru marker ls names evaluatedTo to f res seen c = ((err, res'), seen', c')"
  shows "points_labelled c' \<and> (err = None \<longrightarrow> cache_stored seen' c')"
  using assms
proof (induction fails ru marker ls names evaluatedTo to f res seen c rule: run_chunks.induct)
  case (1 fails ru marker ls names evaluatedTo to f res seen c)
  note unf = "1.prems"(4) [unfolded run_chunks.simps [of fails ru marker ls names evaluatedTo to f]]
  show ?case
  proof (cases "f > to")
    case True
    then show ?thesis using "1.prems"(1,2) unf by auto
  next
    case False
    obtain x seen1 c1 where x: "run_chunk fails ru marker ls names evaluatedTo to f seen c = (x, seen1, c1)" by (metis prod.exhaust)
    note l = run_chunk_labelled [OF "1.prems"(1-3) x]
    show ?thesis
    proof (cases x)
      case (Inl e)
      then show ?thesis using l unf False x by auto
    next
      case (Inr np)
      obtain ns n where np: "np = (ns, n)" by force
      show ?thesis
        using "1.IH" [OF False x [symmetric] Inr np [symmetric] refl _ _ "1.prems"(3)] l unf False x Inr np by simp
    qed
  qed
qed

lemma recordingRules_labelled:
  assumes "points_labelled c" "cache_stored seen c"
    and "recordingRules fails md5hex ru backfill evaluatedTo ls res seen c = ((err, res'), seen', c')"
  shows "points_labelled c' \<and> (err = None \<longrightarrow> cache_stored seen' c')"
proof -
  have "has_prefix (rulesMarker md5hex (sort_Strings (map fst (ru_rules ru)))) marker_prefix" by (simp add: rulesMarker_def)
  note chunks = run_chunks_labelled [OF assms(1,2) this]
  show ?thesis using assms chunks by (simp add: recordingRules_def Let_def split: if_splits)
qed

lemma EvaluateProject_cases:
  assumes "EvaluateProject inp backfill pid now ev c = ((res, err), ev', c')"
  obtains (early) "ch_points c' = ch_points c" "ch_series c' = ch_series c" "err \<noteq> None" "re_To res = 0"
      "ev_projects ev' pid = ev_projects ev pid \<or> ev_projects ev' pid = None \<or> ev_projects ev' pid = Some newSeriesCache"
      "isl (fst (project_state inp pid ev)) \<or> isl (in_queries inp) \<or> fst (lastPerQuery (in_fails inp) (now - backfill - Hour) c) = None"
  | (cycle_failed) seen ev1 qs ls c1 seen1 e where "project_state inp pid ev = (Inr seen, ev1)" "ch_points c1 = ch_points c" "ch_series c1 = ch_series c"
      "cycle (in_fails inp) (in_source inp) (in_order inp) qs now backfill ls seen c1 = ((res, Some e), seen1, c')"
      "err = Some e" "ev_projects ev' pid = None"
  | (evaluated) seen ev1 qs ls c1 res1 seen1 c2 rerr seen2 where "project_state inp pid ev = (Inr seen, ev1)"
      "ch_points c1 = ch_points c" "ch_series c1 = ch_series c"
      "cycle (in_fails inp) (in_source inp) (in_order inp) qs now backfill ls seen c1 = ((res1, None), seen1, c2)"
      "recordingRules (in_fails inp) (in_md5hex inp) (in_rules inp) backfill (re_To res1) ls res1 seen1 c2 = ((rerr, res), seen2, c')"
      "err = (case rerr of Some e \<Rightarrow> Some (''recording rules: '' @ e) | None \<Rightarrow> re_FirstError res)" "ev_projects ev' pid = Some seen2"
proof -
  obtain r0 ev1 where p: "project_state inp pid ev = (r0, ev1)" by force
  show ?thesis
  proof (cases r0)
    case (Inl e)
    then show ?thesis using assms p early by (auto simp: EvaluateProject_def no_result_def project_state_def split: option.splits)
  next
    case (Inr seen)
    have pr: "ev_projects ev1 pid = ev_projects ev pid \<or> ev_projects ev1 pid = Some newSeriesCache"
      using p by (auto simp: project_state_def split: option.splits)
    obtain l c1 where l: "lastPerQuery (in_fails inp) (now - backfill - Hour) c = (l, c1)" by force
    have c1: "ch_points c1 = ch_points c" "ch_series c1 = ch_series c"
      using l by (auto simp: lastPerQuery_def ch_do_def Let_def split: if_splits)
    show ?thesis
    proof (cases "in_queries inp")
      case (Inl e)
      then show ?thesis using assms p Inr pr early by (auto simp: EvaluateProject_def no_result_def)
    next
      case q: (Inr qs)
      show ?thesis
      proof (cases l)
        case None
        then show ?thesis
          using assms p Inr q l c1 early by (auto simp: EvaluateProject_def no_result_def drop_project_def)
      next
        case (Some ls)
        obtain r1 e1 seen1 c2 where cy:
            "cycle (in_fails inp) (in_source inp) (in_order inp) qs now backfill ls seen c1 = ((r1, e1), seen1, c2)"
          by (metis prod.exhaust)
        show ?thesis
        proof (cases e1)
          case e: (Some e)
          then show ?thesis
            using assms p Inr q l Some cy c1 cycle_failed by (auto simp: EvaluateProject_def drop_project_def)
        next
          case None
          obtain rerr r2 seen2 c3 where rr:
              "recordingRules (in_fails inp) (in_md5hex inp) (in_rules inp) backfill (re_To r1) ls r1 seen1 c2 = ((rerr, r2), seen2, c3)"
            by (metis prod.exhaust)
          have r: "r2 = res" "c3 = c'" "ev_projects ev' pid = Some seen2"
              "err = (case rerr of Some e \<Rightarrow> Some (''recording rules: '' @ e) | None \<Rightarrow> re_FirstError res)"
            using assms p Inr q l Some cy None rr by (auto simp: EvaluateProject_def Let_def split: option.splits)
          show ?thesis
            by (rule evaluated [OF p [unfolded Inr] c1 cy [unfolded None] rr [unfolded r(1,2)] r(4,3)])
        qed
      qed
    qed
  qed
qed

text \<open>The invariant of a project: its cache is a part of what is stored.\<close>

definition project_labelled :: "string \<Rightarrow> Evaluator \<Rightarrow> CH \<Rightarrow> bool" where
  "project_labelled pid ev c \<longleftrightarrow> points_labelled c \<and> (\<forall>seen. ev_projects ev pid = Some seen \<longrightarrow> cache_stored seen c)"

lemma cache_stored_new [simp]: "cache_stored newSeriesCache c"
  by (simp add: cache_stored_def newSeriesCache_def)

lemma labelled_cong:
  assumes "ch_points c' = ch_points c" "ch_series c' = ch_series c"
  shows "points_labelled c' = points_labelled c" and "cache_stored seen c' = cache_stored seen c"
  using assms by (simp_all add: points_labelled_def cache_stored_def)

lemma project_state_stored:
  "project_labelled pid ev c \<Longrightarrow> project_state inp pid ev = (Inr seen, ev1) \<Longrightarrow> cache_stored seen c"
  by (auto simp: project_state_def project_labelled_def split: option.splits)

lemma EvaluateProject_labelled:
  assumes inv: "project_labelled pid ev c"
    and run: "EvaluateProject inp backfill pid now ev c = ((res, err), ev', c')"
    and rules: "\<And>e. err \<noteq> Some (''recording rules: '' @ e)"
  shows "project_labelled pid ev' c'"
proof (cases rule: EvaluateProject_cases [OF run])
  case early: 1
  then show ?thesis using inv labelled_cong [OF early(1,2)] by (auto simp: project_labelled_def)
next
  case (2 seen ev1 qs ls c1 seen1 e)
  have "points_labelled c1" "cache_stored seen c1"
    using inv project_state_stored [OF inv 2(1)] labelled_cong [OF 2(2,3)] by (auto simp: project_labelled_def)
  from cycle_labelled [OF this 2(4)] 2(6) show ?thesis by (simp add: project_labelled_def)
next
  case (3 seen ev1 qs ls c1 res1 seen1 c2 rerr seen2)
  have "points_labelled c1" "cache_stored seen c1"
    using inv project_state_stored [OF inv 3(1)] labelled_cong [OF 3(2,3)] by (auto simp: project_labelled_def)
  with cycle_labelled [OF this 3(4)] have "points_labelled c2" "cache_stored seen1 c2" by auto
  from recordingRules_labelled [OF this 3(5)] 3(6,7) rules show ?thesis
    by (cases rerr) (auto simp: project_labelled_def)
qed

subsection \<open>A run without failures\<close>

lemma write_batch_reliable: "write_batch (\<lambda>_. False) b c = (True, c') \<longleftrightarrow> snd (write_batch (\<lambda>_. False) b c) = c'"
  by (auto simp: write_batch_def ch_do_def Let_def)

lemma write_batch_ok: "fst (write_batch (\<lambda>_. False) b c)"
  by (simp add: write_batch_def ch_do_def Let_def)

definition loads :: "'w RuleSet \<Rightarrow> bool" where
  "loads ru \<longleftrightarrow> (\<forall>c f t. \<not> isl (ru_load ru c f t))"

lemma run_chunk_reliable:
  assumes "loads ru"
  obtains w seen1 c1 out where "run_chunk (\<lambda>_. False) ru marker ls names evaluatedTo to f seen c = (Inr (length (b_series out), length (b_points out)), seen1, c1)"
    and "fold (rule_rows ru w ls f (chunk_end to f)) names (empty_batch, seen) = (out, seen1)"
    and "ru_load ru c (f - ruleHistory) (min (chunk_end to f + ruleLookahead * ResultsStep) evaluatedTo) = Inr w"
    and "ch_points c1 = ch_points c @ b_points out @ [marker_row marker (chunk_end to f)]"
proof -
  let ?t = "chunk_end to f"
  let ?wt = "if ?t + ruleLookahead * ResultsStep > evaluatedTo then evaluatedTo else ?t + ruleLookahead * ResultsStep"
  have wt: "?wt = min (?t + ruleLookahead * ResultsStep) evaluatedTo" by (simp add: min_def)
  obtain w where w: "ru_load ru c (f - ruleHistory) ?wt = Inr w"
    using assms unfolding loads_def by (metis sum.disc(1) sum.exhaust)
  obtain out seen1 where o: "fold (rule_rows ru w ls f ?t) names (empty_batch, seen) = (out, seen1)" by force
  obtain c1 where wr: "write_batch (\<lambda>_. False) (out\<lparr>b_points := b_points out @ [marker_row marker ?t]\<rparr>) c = (True, c1)"
    using write_batch_ok by (metis prod.collapse)
  show ?thesis
    by (rule that [OF _ o, of c1]) (use w w [unfolded wt] o wr write_batch_tables(1) [OF wr] in \<open>simp_all add: run_chunk_def Let_def\<close>)
qed

lemma run_chunks_reliable:
  assumes "loads ru" "run_chunks (\<lambda>_. False) ru marker ls names evaluatedTo to f res seen c = ((err, res'), seen', c')"
  shows "err = None \<and> re_FirstError res' = re_FirstError res \<and> re_To res' = re_To res"
  using assms
proof (induction "\<lambda>_ :: nat. False" ru marker ls names evaluatedTo to f res seen c rule: run_chunks.induct)
  case (1 ru marker ls names evaluatedTo to f res seen c)
  note unf = "1.prems"(2) [unfolded run_chunks.simps [of "\<lambda>_. False" ru marker ls names evaluatedTo to f]]
  show ?case
  proof (cases "f > to")
    case False
    obtain seen1 c1 ns n where x: "run_chunk (\<lambda>_. False) ru marker ls names evaluatedTo to f seen c = (Inr (ns, n), seen1, c1)"
      using run_chunk_reliable [OF "1.prems"(1)] by metis
    show ?thesis
      using "1.hyps" [OF False x [symmetric] refl refl refl "1.prems"(1)] unf False x by simp
  qed (use unf in simp)
qed

lemma recordingRules_reliable:
  assumes "loads ru" "recordingRules (\<lambda>_. False) md5hex ru backfill evaluatedTo ls res seen c = ((err, res'), seen', c')"
  shows "err = None \<and> re_FirstError res' = re_FirstError res"
  using assms(2) run_chunks_reliable [OF assms(1)]
  by (auto simp: recordingRules_def Let_def split: if_splits)

lemma run_tasks_no_error:
  assumes "\<And>q f t s. \<not> isl (so_server src q f t s)"
  shows "snd (fold (run_task src to) ts st) = snd st"
proof -
  have "\<not> isl (queryRange src q f to ResultsStep)" for q f
    using assms by (auto simp: queryRange_def QueryRange_def Let_def isl_def split: sum.splits)
  then have "snd (run_task src to tsk st) = snd st" for tsk st
    by (auto simp: run_task_def isl_def split: prod.splits sum.splits)
  then show ?thesis by (induction ts arbitrary: st) auto
qed

lemma cycle_no_error:
  assumes "\<And>q f t s. \<not> isl (so_server src q f t s)" "\<not> isl (so_names src)"
    and "cycle (\<lambda>_. False) src order queries now backfill ls seen c = ((res, err), seen', c')"
  shows "err = None \<and> re_FirstError res = None"
proof -
  obtain names where n: "so_names src = Inr names" using assms(2) by (cases "so_names src") auto
  obtain ts k where p: "plan src names backfill ls (window_end now) {} queries = (ts, k)" by force
  obtain out s e where f: "fold (run_task src (window_end now)) (order ts) ((empty_batch, seen), None) = ((out, s), e)" by (metis prod.exhaust)
  have "e = None" using run_tasks_no_error [OF assms(1), where ts = "order ts" and st = "((empty_batch, seen), None)"] f by (metis snd_conv)
  moreover have "fst (write_batch (\<lambda>_. False) out c)" by (rule write_batch_ok)
  ultimately show ?thesis using assms(3) n p f by (auto simp: cycle_def Let_def split: if_splits prod.splits)
qed

lemma demo_run_no_error:
  assumes "EvaluateProject (demo_run (\<lambda>_. False)) backfill pid now ev c = ((res, err), ev', c')"
  shows "err = None"
proof (cases rule: EvaluateProject_cases [OF assms])
  case 1
  then show ?thesis by (auto simp: project_state_def demo_run_def lastPerQuery_def ch_do_def Let_def split: option.splits)
next
  case (2 seen ev1 qs ls c1 seen1 e)
  then have cy: "cycle (\<lambda>_. False) demo_source (\<lambda>ts. ts) qs now backfill ls seen c1 = ((res, Some e), seen1, c')"
    by (simp add: demo_run_def)
  from cycle_no_error [OF _ _ cy] show ?thesis by (simp add: demo_source_def demo_answer_def)
next
  case (3 seen ev1 qs ls c1 res1 seen1 c2 rerr seen2)
  then have cy: "cycle (\<lambda>_. False) demo_source (\<lambda>ts. ts) qs now backfill ls seen c1 = ((res1, None), seen1, c2)"
    and rr: "recordingRules (\<lambda>_. False) (\<lambda>s. s) demo_rules backfill (re_To res1) ls res1 seen1 c2 = ((rerr, res), seen2, c')"
    by (simp_all add: demo_run_def)
  have "re_FirstError res1 = None" using cycle_no_error [OF _ _ cy] by (simp add: demo_source_def demo_answer_def)
  moreover have "loads demo_rules" by (simp add: loads_def demo_rules_def)
  ultimately show ?thesis using recordingRules_reliable [OF _ rr] 3(6) by simp
qed

subsection \<open>Properties\<close>

text \<open>
  C27. Labels are stored before the points that need them: if, before a run of the evaluator, every stored
  point has its labels and the cache remembers only series whose labels are stored, then so it is after the
  run, whatever statements fail, as long as the recording rules are computed.
\<close>

theorem labels_before_points:
  assumes "project_labelled pid ev c"
    and "EvaluateProject inp backfill pid now ev c = ((res, err), ev', c')"
    and "\<forall>e. err \<noteq> Some (''recording rules: '' @ e)"
  shows "project_labelled pid ev' c'"
  using EvaluateProject_labelled [OF assms(1,2)] assms(3) by blast

theorem labels_before_points_witness:
  "points_labelled (snd (snd (EvaluateProject (demo_run (\<lambda>_. False)) 60 ''p1'' 4000 NewEvaluator empty_ch)))"
proof -
  obtain res err ev' c' where r: "EvaluateProject (demo_run (\<lambda>_. False)) 60 ''p1'' 4000 NewEvaluator empty_ch = ((res, err), ev', c')"
    by (metis prod.exhaust)
  have "project_labelled ''p1'' NewEvaluator empty_ch"
    by (simp add: project_labelled_def points_labelled_def NewEvaluator_def empty_ch_def)
  from labels_before_points [OF this r] demo_run_no_error [OF r] r show ?thesis by (simp add: project_labelled_def)
qed

end
