(* ===== verification/WorldProperties.thy ===== *)
theory WorldProperties
  imports WorldLabels
begin

text \<open>
  Further properties of the evaluator: the schedule of the concurrent queries does not matter, the rules
  are computed up to the end of the results, and what happens to the status and to the labels on failures.
\<close>

subsection \<open>The schedule\<close>

text \<open>A batch that differs from another only in the order of its rows.\<close>

definition same_rows :: "CH \<Rightarrow> CH \<Rightarrow> bool" where
  "same_rows c c' \<longleftrightarrow> mset (ch_points c) = mset (ch_points c') \<and> mset (ch_series c) = mset (ch_series c')"

lemma mset_concat_perm: "mset xs = mset ys \<Longrightarrow> mset (concat (map f xs)) = mset (concat (map f ys))"
  by (metis mset_concat mset_map sum_mset_sum_list)

lemma tasks_out:
  assumes "distinct (map task_query ts)"
    and "fold (answer_task src to) ts (empty_batch, seen) = (out, seen')"
  shows "b_points out = concat (map (task_points src to) ts)" and "b_series out = concat (map (task_series src to seen) ts)"
  using tasks_points [where src = src and to = to and ts = ts and bs = "(empty_batch, seen)"]
    tasks_series [OF assms(1), where bs = "(empty_batch, seen)" and seen = seen and src = src and to = to] assms(2)
  by (simp_all add: empty_batch_def)

lemma write_batch_same_rows:
  assumes "mset (b_points b) = mset (b_points b')" "mset (b_series b) = mset (b_series b')"
    and "write_batch fails b c = (ok, c1)" "write_batch fails b' c = (ok', c2)"
  shows "same_rows c1 c2 \<and> ok = ok'"
proof -
  have "b_series b = [] \<longleftrightarrow> b_series b' = []" using assms(2) by (metis mset_zero_iff)
  then show ?thesis
    using assms by (auto simp: write_batch_def ch_do_def insert_points_def Let_def same_rows_def split: if_splits)
qed

lemma cycle_same_rows:
  assumes perm: "permutes_tasks order" "permutes_tasks order'"
    and run: "cycle fails src order queries now backfill ls seen c = ((res, err), seen1, c1)"
      "cycle fails src order' queries now backfill ls seen c = ((res', err'), seen2, c2)"
  shows "same_rows c1 c2 \<and> (err = None \<longleftrightarrow> err' = None)"
proof (cases rule: cycle_cases [OF run(1)])
  case (1 e)
  then show ?thesis using run(2) by (auto simp: cycle_def Let_def same_rows_def)
next
  case (2 nms ts n out)
  show ?thesis
  proof (cases rule: cycle_cases [OF run(2)])
    case (2 nms' ts' n' out')
    note A = \<open>so_names src = Inr nms\<close> \<open>plan src nms backfill ls (window_end now) {} queries = (ts, n)\<close>
    have eq: "nms' = nms" "ts' = ts" using 2(1,2) A by auto
    have d: "distinct (map task_query (order ts))" "distinct (map task_query (order' ts))"
      using plan_tasks(1) [OF A(2)] permutes_distinct perm by auto
    have m: "mset (order ts) = mset (order' ts)" using perm by (simp add: permutes_tasks_def)
    have out: "mset (b_points out) = mset (b_points out')" "mset (b_series out) = mset (b_series out')"
      using tasks_out [OF d(1) \<open>fold (answer_task src (window_end now)) (order ts) (empty_batch, seen) = (out, seen1)\<close>]
        tasks_out [OF d(2) 2(3) [unfolded eq(2)]] mset_concat_perm [OF m] by auto
    then have "b_points out = [] \<longleftrightarrow> b_points out' = []" by (metis mset_zero_iff)
    then show ?thesis
      using 2(4) \<open>if b_points out = [] then c1 = c \<and> err = None else write_batch fails out c = (err = None, c1)\<close>
        write_batch_same_rows [OF out] by (auto simp: same_rows_def split: if_splits)
  qed (use 2(1) in simp)
qed

text \<open>
  C31. The order in which the concurrent queries of a cycle are answered does not matter: for every two
  schedules the tables hold the same rows after the cycle, and the cycle fails for both or for none.
\<close>

theorem cycle_schedule_independent:
  assumes "permutes_tasks order" "permutes_tasks order'"
  shows "same_rows (snd (snd (cycle fails src order queries now backfill ls seen c)))
           (snd (snd (cycle fails src order' queries now backfill ls seen c))) \<and>
    (snd (fst (cycle fails src order queries now backfill ls seen c)) = None \<longleftrightarrow>
     snd (fst (cycle fails src order' queries now backfill ls seen c)) = None)"
  using cycle_same_rows [OF assms] by (metis prod.collapse)

theorem cycle_schedule_independent_witness:
  "same_rows (snd (snd (cycle (\<lambda>_. False) demo_source (\<lambda>ts. ts) [\<lparr>qu_Query = ''up'', qu_Labels = None\<rparr>, \<lparr>qu_Query = ''down'', qu_Labels = None\<rparr>] 4000 60 (\<lambda>_. None) newSeriesCache empty_ch)))
     (snd (snd (cycle (\<lambda>_. False) demo_source rev [\<lparr>qu_Query = ''up'', qu_Labels = None\<rparr>, \<lparr>qu_Query = ''down'', qu_Labels = None\<rparr>] 4000 60 (\<lambda>_. None) newSeriesCache empty_ch)))"
  using cycle_schedule_independent [of "\<lambda>ts. ts" rev] by (simp add: permutes_tasks_def)

subsection \<open>How far the rules are computed\<close>

text \<open>
  What the results of a rule in a world are at one step: a row for every metric that has a sample there
  which is not NaN. A rule continues after its last stored step, so up to that step nothing is added.
\<close>

definition results_at :: "string \<Rightarrow> MetricValues list \<Rightarrow> Time \<Rightarrow> pointRow set" where
  "results_at name mvs t = {p. pr_query p = name \<and> pr_t p = t \<and> pr_v p \<noteq> NaN \<and>
     (\<exists>mv\<in>set mvs. \<exists>s i. pr_hash p = mv_LabelsHash mv \<and> mv_Values mv = Some s \<and> i < length (ts_data s) \<and>
        t = ts_from s + int i * ts_step s \<and> pr_v p = ts_data s ! i)}"

definition rows_at :: "string \<Rightarrow> Time \<Rightarrow> pointRow list \<Rightarrow> pointRow set" where
  "rows_at name t ps = {p \<in> set ps. pr_query p = name \<and> pr_t p = t}"

definition continued :: "Time option \<Rightarrow> Time \<Rightarrow> bool" where
  "continued last_step t \<longleftrightarrow> (case last_step of None \<Rightarrow> True | Some l \<Rightarrow> l + ResultsStep \<le> t)"

text \<open>
  The rules are computed at a step \<open>t\<close>: it lies in one of the chunks of an hour that follow each other from
  the first step, and the marker of the chunk is stored, at its last step; the world of the chunk is loaded
  with ten minutes of history and two steps ahead, when the tables have the rows of all earlier steps and
  none of a later one is added; and the rows of every rule at \<open>t\<close> are those that were there and the results
  of the rule in that world, no other and none missing.
\<close>

definition computed_at :: "'w RuleSet \<Rightarrow> string \<Rightarrow> (string \<Rightarrow> Time option) \<Rightarrow> Time \<Rightarrow> Time \<Rightarrow> Time \<Rightarrow> CH \<Rightarrow> CH \<Rightarrow> Time \<Rightarrow> bool" where
  "computed_at ru marker ls evaluatedTo to first c c' t \<longleftrightarrow> (\<exists>k f T c0 w earlier later.
     f = first + int k * Hour \<and> T = min (f + Hour - ResultsStep) to \<and> f \<le> t \<and> t \<le> T \<and>
     marker_row marker T \<in> set later \<and>
     ch_points c0 = ch_points c @ earlier \<and> (\<forall>p\<in>set earlier. pr_t p < f) \<and>
     ch_points c' = ch_points c0 @ later \<and> (\<forall>p\<in>set later. f \<le> pr_t p) \<and>
     ru_load ru c0 (f - 10 * Minute) (min (T + 2 * ResultsStep) evaluatedTo) = Inr w \<and>
     (\<forall>name rule. map_of (ru_rules ru) name = Some rule \<longrightarrow>
        rows_at name t (ch_points c') =
        rows_at name t (ch_points c) \<union> (if continued (ls name) t then results_at name (rule w) t else {})))"

lemma rows_at_append [simp]: "rows_at n t (ps @ qs) = rows_at n t ps \<union> rows_at n t qs"
  by (auto simp: rows_at_def)

lemma rows_at_none: "(\<And>p. p \<in> set ps \<Longrightarrow> pr_query p = n \<Longrightarrow> pr_t p \<noteq> t) \<Longrightarrow> rows_at n t ps = {}"
  by (auto simp: rows_at_def)

lemma new_points_iff:
  "p \<in> set (new_points q mv nb na) \<longleftrightarrow> pr_query p = q \<and> pr_hash p = mv_LabelsHash mv \<and> pr_v p \<noteq> NaN \<and>
     nb \<le> pr_t p \<and> (na \<noteq> 0 \<longrightarrow> pr_t p \<le> na) \<and>
     (\<exists>s i. mv_Values mv = Some s \<and> i < length (ts_data s) \<and> pr_t p = ts_from s + int i * ts_step s \<and> pr_v p = ts_data s ! i)"
proof (cases "mv_Values mv")
  case (Some s)
  then show ?thesis
    by (cases p) (auto simp: new_points_def samples_def image_iff not_less)
qed (simp add: new_points_def)

lemma rule_points_at:
  assumes "map_of (ru_rules ru) n = Some rule" "f \<le> t" "t \<le> T"
  shows "rows_at n t (rule_points ru w ls f T n) = (if continued (ls n) t then results_at n (rule w) t else {})"
proof -
  have "not_before ls f n \<le> t \<longleftrightarrow> continued (ls n) t"
    using assms(2) by (auto simp: not_before_def continued_def split: option.splits)
  then show ?thesis
    using assms(1,3) by (auto simp: rows_at_def results_at_def rule_points_def rule_mvs_def new_points_iff)
qed

lemma rule_points_row: "p \<in> set (rule_points ru w ls f T n) \<Longrightarrow> pr_query p = n \<and> f \<le> pr_t p \<and> (T \<noteq> 0 \<longrightarrow> pr_t p \<le> T)"
  by (auto simp: rule_points_def new_points_iff not_before_def split: option.splits if_splits)

lemma chunk_points_at:
  assumes "map_of (ru_rules ru) n = Some rule" "n \<in> set names" "f \<le> t" "t \<le> T"
  shows "rows_at n t (concat (map (rule_points ru w ls f T) names)) = (if continued (ls n) t then results_at n (rule w) t else {})"
proof -
  have "pr_query p = m" if "p \<in> set (rule_points ru w ls f T m)" for p m using rule_points_row [OF that] by simp
  then have "rows_at n t (concat (map (rule_points ru w ls f T) names)) = rows_at n t (rule_points ru w ls f T n)"
    using assms(2) unfolding rows_at_def set_concat set_map by blast
  then show ?thesis using rule_points_at [OF assms(1,3,4)] by simp
qed

lemma computed_at_later:
  assumes "computed_at ru marker ls evaluatedTo to (f + ruleChunk) c1 c' t"
    and "ch_points c1 = ch_points c @ new" "\<forall>p\<in>set new. pr_t p < f + ruleChunk" "f + ruleChunk \<le> t"
  shows "computed_at ru marker ls evaluatedTo to f c c' t"
proof -
  from assms(1) obtain k f' T c0 w earlier later where *: "f' = f + ruleChunk + int k * Hour" "T = min (f' + Hour - ResultsStep) to" "f' \<le> t" "t \<le> T"
    "marker_row marker T \<in> set later" "ch_points c0 = ch_points c1 @ earlier" "\<forall>p\<in>set earlier. pr_t p < f'"
    "ch_points c' = ch_points c0 @ later" "\<forall>p\<in>set later. f' \<le> pr_t p"
    "ru_load ru c0 (f' - 10 * Minute) (min (T + 2 * ResultsStep) evaluatedTo) = Inr w"
    "\<forall>name rule. map_of (ru_rules ru) name = Some rule \<longrightarrow> rows_at name t (ch_points c') =
        rows_at name t (ch_points c1) \<union> (if continued (ls name) t then results_at name (rule w) t else {})"
    unfolding computed_at_def by blast
  have f': "f' = f + int (Suc k) * Hour" "f + ruleChunk \<le> f'" using *(1) by (simp_all add: ruleChunk_def duration_defs)
  have "rows_at name t new = {}" for name using assms(3,4) by (intro rows_at_none) fastforce
  then have "rows_at name t (ch_points c1) = rows_at name t (ch_points c)" for name using assms(2) by simp
  moreover have "ch_points c0 = ch_points c @ (new @ earlier)" "\<forall>p\<in>set (new @ earlier). pr_t p < f'"
    using *(6,7) assms(2,3) f'(2) by auto
  ultimately show ?thesis unfolding computed_at_def using f'(1) *(2-5,8-11) by metis
qed

lemma run_chunks_rows:
  assumes "loads ru" "ResultsStep dvd f" "ResultsStep dvd to" "0 \<le> f" "0 < to" "set names = fst ` set (ru_rules ru)" "marker \<notin> set names"
    and "run_chunks (\<lambda>_. False) ru marker ls names evaluatedTo to f res seen c = (r, seen', c')"
  shows "(\<exists>later. ch_points c' = ch_points c @ later \<and> (\<forall>p\<in>set later. f \<le> pr_t p)) \<and>
    (\<forall>t. f \<le> t \<longrightarrow> t \<le> to \<longrightarrow> ResultsStep dvd t \<longrightarrow> computed_at ru marker ls evaluatedTo to f c c' t)"
  using assms
proof (induction "\<lambda>_ :: nat. False" ru marker ls names evaluatedTo to f res seen c rule: run_chunks.induct)
  case (1 ru marker ls names evaluatedTo to f res seen c)
  note unf = "1.prems"(8) [unfolded run_chunks.simps [of "\<lambda>_. False" ru marker ls names evaluatedTo to f]]
  show ?case
  proof (cases "f > to")
    case False
    let ?T = "chunk_end to f"
    obtain w seen1 c1 and out :: batch where x: "run_chunk (\<lambda>_. False) ru marker ls names evaluatedTo to f seen c =
          (Inr (length (b_series out), length (b_points out)), seen1, c1)"
        and out: "fold (rule_rows ru w ls f ?T) names (empty_batch, seen) = (out, seen1)"
        and w: "ru_load ru c (f - ruleHistory) (min (?T + ruleLookahead * ResultsStep) evaluatedTo) = Inr w"
        and c1: "ch_points c1 = ch_points c @ b_points out @ [marker_row marker ?T]"
      by (rule run_chunk_reliable [OF "1.prems"(1), of marker ls names evaluatedTo to f seen c])
    have pts: "b_points out = concat (map (rule_points ru w ls f ?T) names)"
      using rules_points [of ru w ls f ?T names "(empty_batch, seen)"] out by (simp add: empty_batch_def)
    have T: "f \<le> ?T" "?T < f + ruleChunk" "?T \<le> to" "?T \<noteq> 0"
      using False "1.prems"(4,5) by (auto simp: chunk_end_def Let_def ruleChunk_def ResultsStep_15 duration_defs)
    have chunk: "?T = min (f + Hour - ResultsStep) to" by (simp add: chunk_end_def Let_def ruleChunk_def min_def not_le)
    have new: "f \<le> pr_t p" "pr_t p < f + ruleChunk" if "p \<in> set (b_points out @ [marker_row marker ?T])" for p
      using that T rule_points_row [of p ru w ls f ?T] by (fastforce simp: pts marker_row_def)+
    have step: "ResultsStep dvd f + ruleChunk" "0 \<le> f + ruleChunk"
      using "1.prems"(2,4) by (simp_all add: ruleChunk_def ResultsStep_15 duration_defs)
    obtain later where later: "ch_points c' = ch_points c1 @ later" "\<forall>p\<in>set later. f + ruleChunk \<le> pr_t p"
      and IH: "\<And>t. f + ruleChunk \<le> t \<Longrightarrow> t \<le> to \<Longrightarrow> ResultsStep dvd t \<Longrightarrow> computed_at ru marker ls evaluatedTo to (f + ruleChunk) c1 c' t"
      using "1.hyps" [OF False x [symmetric] refl refl refl "1.prems"(1) step(1) "1.prems"(3) step(2) "1.prems"(5-7)] unf False x by auto
    have later': "\<forall>p\<in>set later. f \<le> pr_t p" using later(2) by (auto simp: ruleChunk_def duration_defs)
    have "computed_at ru marker ls evaluatedTo to f c c' t" if t: "f \<le> t" "t \<le> to" "ResultsStep dvd t" for t
    proof (cases "f + ruleChunk \<le> t")
      case True
      from IH [OF this t(2,3)] show ?thesis by (rule computed_at_later [OF _ c1 _ True]) (use new(2) in auto)
    next
      case False
      then have tT: "t \<le> ?T"
        using t "1.prems"(2) zdvd_imp_le [of 15 "f + 3600 - t"]
        by (auto simp: chunk_end_def Let_def ruleChunk_def ResultsStep_15 duration_defs)
      have "rows_at n t (ch_points c') = rows_at n t (ch_points c) \<union> (if continued (ls n) t then results_at n (rule w) t else {})"
        if n: "map_of (ru_rules ru) n = Some rule" for n rule
      proof -
        have "n \<in> set names" using map_of_SomeD [OF n] "1.prems"(6) by force
        moreover have "rows_at n t (marker_row marker ?T # later) = {}"
          using later(2) False "1.prems"(7) \<open>n \<in> set names\<close> by (intro rows_at_none) (auto simp: marker_row_def)
        ultimately show ?thesis using chunk_points_at [OF n _ t(1) tT] by (simp add: later(1) c1 pts)
      qed
      then show ?thesis
        unfolding computed_at_def using t(1) tT w c1 later' new(1) chunk
        by (intro exI [of _ "0 :: nat"] exI [of _ f] exI [of _ ?T] exI [of _ c] exI [of _ w] exI [of _ "[]"]
              exI [of _ "b_points out @ marker_row marker ?T # later"])
          (auto simp: later(1) ruleHistory_def ruleLookahead_def)
    qed
    moreover have "\<forall>p\<in>set (b_points out @ marker_row marker ?T # later). f \<le> pr_t p"
      using new(1) later' by auto
    ultimately show ?thesis using later(1) c1 by auto
  qed (use unf in auto)
qed

text \<open>Where the computation starts: after the last marker, or where the backfill does.\<close>

definition first_step :: "Time option \<Rightarrow> Time \<Rightarrow> Duration \<Rightarrow> Time" where
  "first_step last_marker to backfill =
     (case last_marker of None \<Rightarrow> Time_Truncate (to - backfill) ResultsStep | Some l \<Rightarrow> l + ResultsStep)"

lemma recordingRules_rows:
  defines "marker \<equiv> \<lambda>ru md5hex. rulesMarker md5hex (sort_Strings (map fst (ru_rules ru)))"
  assumes ru: "loads ru" "ru_rules ru \<noteq> []" "marker ru md5hex \<notin> fst ` set (ru_rules ru)"
    and t0: "0 \<le> backfill" "backfill + 3 * ResultsStep \<le> evaluatedTo" "ResultsStep dvd evaluatedTo"
    and ls: "\<And>l. ls (marker ru md5hex) = Some l \<Longrightarrow> 0 \<le> l \<and> ResultsStep dvd l"
    and run: "recordingRules (\<lambda>_. False) md5hex ru backfill evaluatedTo ls res seen c = ((err, res'), seen', c')"
  shows "err = None \<and> re_To res' = evaluatedTo - 2 * ResultsStep \<and>
    (\<forall>t. ResultsStep dvd t \<longrightarrow> first_step (ls (marker ru md5hex)) (re_To res') backfill \<le> t \<longrightarrow> t \<le> re_To res' \<longrightarrow>
       computed_at ru (marker ru md5hex) ls evaluatedTo (re_To res') (first_step (ls (marker ru md5hex)) (re_To res') backfill) c c' t)"
proof -
  let ?names = "sort_Strings (map fst (ru_rules ru))" let ?m = "marker ru md5hex"
  let ?to = "evaluatedTo - ruleLookahead * ResultsStep"
  define f where "f = first_step (ls ?m) ?to backfill"
  have ne: "?names \<noteq> []" using ru(2) set_sort_Strings [of "map fst (ru_rules ru)"] by (metis map_is_Nil_conv set_empty)
  have to: "re_To res' = ?to" "err = None"
    using run ne run_chunks_reliable [OF ru(1)] by (auto simp: recordingRules_def Let_def split: if_splits)
  have dv: "ResultsStep dvd ?to" "0 < ?to" using t0 by (simp_all add: ruleLookahead_def ResultsStep_15)
  have nn: "0 \<le> (case ls ?m of None \<Rightarrow> ?to - backfill | Some l \<Rightarrow> l + ResultsStep)"
    using t0 ls by (auto simp: ruleLookahead_def ResultsStep_15 split: option.splits)
  have f: "Time_Truncate (case ls ?m of None \<Rightarrow> ?to - backfill | Some l \<Rightarrow> l + ResultsStep) ResultsStep = f"
    using ls by (auto simp: f_def first_step_def Time_Truncate_nonneg ResultsStep_15 split: option.splits)
  have fdv: "ResultsStep dvd f" "0 \<le> f"
    using Time_Truncate_dvd [OF nn, of ResultsStep] Time_Truncate_ge [OF _ _ _ nn, of ResultsStep] unfolding f by (simp_all add: ResultsStep_15)
  have "computed_at ru ?m ls evaluatedTo ?to f c c' t" if t: "ResultsStep dvd t" "f \<le> t" "t \<le> ?to" for t
  proof -
    have rc: "run_chunks (\<lambda>_. False) ru ?m ls ?names evaluatedTo ?to f (res\<lparr>re_To := ?to\<rparr>) seen c = ((err, res'), seen', c')"
      using run ne t(2,3) by (simp add: recordingRules_def Let_def f [unfolded marker_def] marker_def)
    show ?thesis
      using run_chunks_rows [OF ru(1) fdv(1) dv(1) fdv(2) dv(2) _ _ rc] t ru(3) by simp
  qed
  then show ?thesis using to by (simp add: f_def ruleLookahead_def)
qed

text \<open>
  C32. The recording rules are computed up to the end of the results that pages use. When no statement fails
  and every world loads, the end of the queries is on the grid of the results and at least three steps after
  the backfill, and the last marker is on the grid and is not the name of a rule, the loop over the chunks
  ends without an error, the reported end is two steps before the end of the queries, and at every step from
  the last marker (or from the beginning of the backfill, when there is none) to that end the tables have
  exactly the rows that the rules give for the world of its chunk, beside those that were there, and the
  marker of the chunk: a rule with stored rows is continued after the last of them.
\<close>

theorem rules_computed_up_to:
  assumes "loads ru" "ru_rules ru \<noteq> []" "rulesMarker md5hex (sort_Strings (map fst (ru_rules ru))) \<notin> fst ` set (ru_rules ru)"
    and "0 \<le> backfill" "backfill + 3 * ResultsStep \<le> evaluatedTo" "ResultsStep dvd evaluatedTo"
    and "\<forall>l. ls (rulesMarker md5hex (sort_Strings (map fst (ru_rules ru)))) = Some l \<longrightarrow> 0 \<le> l \<and> ResultsStep dvd l"
    and "recordingRules (\<lambda>_. False) md5hex ru backfill evaluatedTo ls res seen c = ((err, res'), seen', c')"
  shows "err = None \<and> re_To res' = evaluatedTo - 2 * ResultsStep \<and>
    (let marker = rulesMarker md5hex (sort_Strings (map fst (ru_rules ru))); first = first_step (ls marker) (re_To res') backfill
     in \<forall>t. ResultsStep dvd t \<longrightarrow> first \<le> t \<longrightarrow> t \<le> re_To res' \<longrightarrow> computed_at ru marker ls evaluatedTo (re_To res') first c c' t)"
  using recordingRules_rows [OF assms(1-6) _ assms(8)] assms(7) unfolding Let_def by blast

theorem rules_computed_up_to_witness:
  "rows_at ''rr_application'' 3885 (ch_points (snd (snd (recordingRules (\<lambda>_. False) (\<lambda>s. s) demo_rules 60 3960 (\<lambda>_. None) no_result newSeriesCache empty_ch)))) =
     {\<lparr>pr_query = ''rr_application'', pr_hash = 7, pr_t = 3885, pr_v = Fin 6\<rparr>}"
proof -
  obtain err res' seen' c' where r: "recordingRules (\<lambda>_. False) (\<lambda>s. s) demo_rules 60 3960 (\<lambda>_. None) no_result newSeriesCache empty_ch = ((err, res'), seen', c')"
    by (metis prod.exhaust)
  have "loads demo_rules" by (simp add: loads_def demo_rules_def)
  note c32 = rules_computed_up_to [OF this _ _ _ _ _ _ r]
  have to: "re_To res' = 3930" using c32 by (simp add: demo_rules_def ResultsStep_15 sort_Strings_def rulesMarker_def marker_prefix_def)
  have "computed_at demo_rules (rulesMarker (\<lambda>s. s) (sort_Strings (map fst (ru_rules demo_rules)))) (\<lambda>_. None) 3960 3930 3870 empty_ch c' 3885"
    using c32 unfolding to
    by (simp add: demo_rules_def ResultsStep_15 sort_Strings_def rulesMarker_def marker_prefix_def first_step_def Time_Truncate_nonneg Let_def)
  then obtain k where k: "3870 + int k * Hour \<le> 3885"
      "rows_at ''rr_application'' 3885 (ch_points c') = rows_at ''rr_application'' 3885 [] \<union> results_at ''rr_application'' (demo_rule_mvs (3870 + int k * Hour)) 3885"
    unfolding computed_at_def by (force simp: demo_rules_def ruleHistory_def empty_ch_def continued_def)
  have "k = 0" using k(1) by (simp add: duration_defs)
  then have w: "rows_at ''rr_application'' 3885 (ch_points c') = results_at ''rr_application'' (demo_rule_mvs 3870) 3885"
    using k(2) by (simp add: rows_at_def)
  have "results_at ''rr_application'' (demo_rule_mvs 3870) 3885 = {\<lparr>pr_query = ''rr_application'', pr_hash = 7, pr_t = 3885, pr_v = Fin 6\<rparr>}"
    by (auto simp: results_at_def demo_rule_mvs_def labelled_def NewWithData_def Time_Truncate_nonneg ResultsStep_15 nth_Cons' intro: pointRow.equality)
  then show ?thesis using w r by simp
qed

subsection \<open>Failures\<close>

text \<open>
  C33. A cycle that fails because the metric names cannot be read stores nothing, but the status of the
  project claims its results: pages are told that the results reach to the end of the window of the cycle.
\<close>

theorem failed_cycle_claims_results:
  assumes "project_state inp pid ev = (Inr seen, ev1)" "in_queries inp = Inr qs" "\<not> in_fails inp (ch_stmts c)"
    and "so_names (in_source inp) = Inl e" "window_end now \<noteq> 0" "0 \<le> period"
  shows "ch_points (snd (runProject inp backfill pid now startNs endNs ev c)) = ch_points c \<and>
    recentlyEvaluated period pid endNs (fst (runProject inp backfill pid now startNs endNs ev c)) = Some (window_end now)"
proof -
  have l: "lastPerQuery (in_fails inp) (now - backfill - Hour) c =
      (Some (last_of (ch_points c) (now - backfill - Hour)), c\<lparr>ch_stmts := Suc (ch_stmts c)\<rparr>)"
    using assms(3) by (simp add: lastPerQuery_def ch_do_def Let_def)
  have "EvaluateProject inp backfill pid now ev c =
      ((\<lparr>re_To = window_end now, re_Queries = 0, re_Skipped = 0, re_Series = 0, re_Points = 0, re_FirstError = None\<rparr>,
        Some (''metric names: '' @ e)), drop_project pid ev1, c\<lparr>ch_stmts := Suc (ch_stmts c)\<rparr>)"
    using assms(1,2,4) l by (simp add: EvaluateProject_def cycle_def Let_def)
  then show ?thesis using assms(5,6) by (simp add: runProject_def Let_def recentlyEvaluated_def)
qed

theorem failed_cycle_claims_results_witness:
  "recentlyEvaluated 15 ''p1'' 1 (fst (runProject ((demo_run (\<lambda>_. False))\<lparr>in_source := demo_source\<lparr>so_names := Inl ''timeout''\<rparr>\<rparr>)
     60 ''p1'' 4000 0 1 NewEvaluator empty_ch)) = Some 3960"
proof -
  let ?inp = "(demo_run (\<lambda>_. False))\<lparr>in_source := demo_source\<lparr>so_names := Inl ''timeout''\<rparr>\<rparr>"
  have "project_state ?inp ''p1'' NewEvaluator =
      (Inr newSeriesCache, NewEvaluator\<lparr>ev_projects := (ev_projects NewEvaluator)(''p1'' \<mapsto> newSeriesCache)\<rparr>)"
    by (simp add: project_state_def NewEvaluator_def demo_run_def)
  moreover have "window_end 4000 = 3960" by code_simp
  ultimately show ?thesis
    using failed_cycle_claims_results [of ?inp "''p1''" NewEvaluator newSeriesCache _ _ empty_ch "''timeout''" 4000 15]
    by (simp add: demo_run_def)
qed

lemma append_seen_cases: "snd (appendSeries q now nb na mv bs) k \<in> {snd bs k, Some now}"
  by (cases bs) (auto simp: appendSeries_eq mark_seen_def due_def)

lemma fold_append_seen_cases: "snd (fold (appendSeries q now nb na) mvs bs) k \<in> {snd bs k, Some now}"
proof (induction mvs arbitrary: bs)
  case (Cons mv mvs)
  show ?case
    using append_seen_cases [of q now nb na mv bs k] Cons.IH [of "appendSeries q now nb na mv bs"]
    by (simp only: fold.simps comp_apply insert_iff empty_iff) metis
qed simp

lemma fold_rules_seen_cases: "snd (fold (rule_rows ru w ls f t) names bs) k \<in> {snd bs k, Some t}"
proof (induction names arbitrary: bs)
  case (Cons n names)
  show ?case
    using fold_append_seen_cases [of n t "not_before ls f n" t "rule_mvs ru w n" bs k, folded rule_rows_eq]
      Cons.IH [of "rule_rows ru w ls f t n bs"]
    by (simp only: fold.simps comp_apply insert_iff empty_iff) metis
qed simp

text \<open>
  When the insert of the labels fails while recording rules are computed, the cache remembers the
  labels of the new series as written: for the next ten minutes they are not due, although they are not
  stored.
\<close>

theorem rule_labels_lost:
  assumes "ru_load ru c (f - ruleHistory)
      (if chunk_end to f + ruleLookahead * ResultsStep > evaluatedTo then evaluatedTo else chunk_end to f + ruleLookahead * ResultsStep) = Inr w"
    and "fails (ch_stmts c)"
    and "name \<in> set names" "p \<in> set (rule_points ru w ls f (chunk_end to f) name)"
    and "seen (pr_query p, pr_hash p) = None" "\<not> has_labels (ch_series c) (pr_query p, pr_hash p)"
    and "run_chunk fails ru marker ls names evaluatedTo to f seen c = (r, seen', c')"
    and "t < chunk_end to f + seriesRefresh"
  shows "\<not> has_labels (ch_series c') (pr_query p, pr_hash p) \<and> \<not> fst (due (pr_query p) (pr_hash p) t seen')"
proof -
  let ?T = "chunk_end to f" let ?k = "(pr_query p, pr_hash p)"
  obtain out s where o: "fold (rule_rows ru w ls f ?T) names (empty_batch, seen) = (out, s)" by force
  have b: "batch_labelled seen (out, s)"
    unfolding o [symmetric] by (rule batch_labelled_rules [OF batch_labelled_start])
  have "p \<in> set (b_points out)"
    using rules_points [of ru w ls f ?T names "(empty_batch, seen)"] o assms(3,4) by (auto simp: empty_batch_def)
  then have k1: "?k \<in> dom s" using b by (simp add: batch_labelled_def)
  have "?k \<notin> dom seen" using assms(5) by auto
  then have k: "?k \<in> dom s" "has_labels (b_series out) ?k" using b k1 unfolding batch_labelled_def fst_conv snd_conv by blast+
  have "s ?k = Some ?T"
    using fold_rules_seen_cases [of ru w ls f ?T names "(empty_batch, seen)" ?k] o k(1) assms(5) by auto
  moreover have "b_series out \<noteq> []" using k(2) by (auto simp: has_labels_def)
  ultimately show ?thesis
    using assms(1,2,6-8) o by (auto simp: run_chunk_def write_batch_def ch_do_def Let_def due_def)
qed

end
