(* ===== verification/WorldReads.thy ===== *)
theory WorldReads
  imports WorldProperties
begin

text \<open>
  What a page reads: invariants of the tables, the answers of the rollups are those of the points, and a
  stored point is read back.
\<close>

subsection \<open>Invariants of the tables\<close>

text \<open>
  The tables change only by batches whose points are defined. The contract of an invariant that such a
  write keeps, and what it gives for the runs of the evaluator.
\<close>

definition defined_points :: "pointRow list \<Rightarrow> bool" where
  "defined_points ps \<longleftrightarrow> list_all (\<lambda>p. pr_v p \<noteq> NaN) ps"

locale table_invariant =
  fixes I :: "CH \<Rightarrow> bool"
  assumes stmts: "I (c\<lparr>ch_stmts := n\<rparr>) \<longleftrightarrow> I c"
    and series: "I c \<Longrightarrow> I (c\<lparr>ch_series := rows\<rparr>)"
    and points: "I c \<Longrightarrow> defined_points ps \<Longrightarrow> I (insert_points ps c)"
begin

lemma write_keeps: "I c \<Longrightarrow> defined_points (b_points b) \<Longrightarrow> I (snd (write_batch fails b c))"
  using stmts series points by (auto simp: write_batch_def ch_do_def Let_def)

lemma cycle_keeps:
  assumes "I c" and run: "cycle fails src order queries now backfill ls seen c = ((res, err), seen', c')"
  shows "I c'"
proof (cases rule: cycle_cases [OF run])
  case (2 names ts n out)
  have "pr_v p \<noteq> NaN" if "p \<in> set (task_points src (window_end now) tsk)" for p tsk
    using that new_points_row by (auto simp: task_points_def)
  then have "defined_points (b_points out)"
    using tasks_points [where src = src and to = "window_end now" and ts = "order ts" and bs = "(empty_batch, seen)"] 2(3)
    by (auto simp: defined_points_def list_all_iff empty_batch_def)
  then show ?thesis using 2(4) assms(1) write_keeps [OF assms(1), of out fails] by (auto split: if_splits)
qed (use assms in simp)

lemma run_chunk_keeps:
  assumes "I c" and run: "run_chunk fails ru marker ls names evaluatedTo to f seen c = (r, seen', c')"
  shows "I c'"
proof (cases "ru_load ru c (f - ruleHistory) (if chunk_end to f + ruleLookahead * ResultsStep > evaluatedTo then evaluatedTo else chunk_end to f + ruleLookahead * ResultsStep)")
  case (Inl e)
  then show ?thesis using run assms(1) by (auto simp: run_chunk_def Let_def)
next
  case (Inr w)
  obtain out s where o: "fold (rule_rows ru w ls f (chunk_end to f)) names (empty_batch, seen) = (out, s)" by force
  have "pr_v p \<noteq> NaN" if "p \<in> set (rule_points ru w ls f (chunk_end to f) n)" for p n
    using that new_points_row by (auto simp: rule_points_def)
  then have "defined_points (b_points out)"
    using rules_points [of ru w ls f "chunk_end to f" names "(empty_batch, seen)"] o
    by (auto simp: defined_points_def list_all_iff empty_batch_def)
  then have "I (snd (write_batch fails (out\<lparr>b_points := b_points out @ [marker_row marker (chunk_end to f)]\<rparr>) c))"
    using write_keeps [OF assms(1)] by (simp add: defined_points_def marker_row_def)
  then show ?thesis using run Inr o by (auto simp: run_chunk_def Let_def split: prod.splits)
qed

lemma run_chunks_keeps:
  assumes "I c" "run_chunks fails ru marker ls names evaluatedTo to f res seen c = (r, seen', c')"
  shows "I c'"
  using assms
proof (induction fails ru marker ls names evaluatedTo to f res seen c rule: run_chunks.induct)
  case (1 fails ru marker ls names evaluatedTo to f res seen c)
  note unf = "1.prems"(2) [unfolded run_chunks.simps [of fails ru marker ls names evaluatedTo to f]]
  show ?case
  proof (cases "f > to")
    case False
    obtain x seen1 c1 where x: "run_chunk fails ru marker ls names evaluatedTo to f seen c = (x, seen1, c1)" by (metis prod.exhaust)
    note k = run_chunk_keeps [OF "1.prems"(1) x]
    show ?thesis
    proof (cases x)
      case (Inr np)
      obtain ns n where np: "np = (ns, n)" by force
      show ?thesis using "1.IH" [OF False x [symmetric] Inr np [symmetric] refl k] unf False x Inr np by simp
    qed (use k unf False x in auto)
  qed (use "1.prems"(1) unf in auto)
qed

lemma recordingRules_keeps:
  assumes "I c" "recordingRules fails md5hex ru backfill evaluatedTo ls res seen c = (r, seen', c')"
  shows "I c'"
  using assms run_chunks_keeps [OF assms(1)] by (simp add: recordingRules_def Let_def split: if_splits)

lemma EvaluateProject_keeps:
  assumes "I c" shows "I (snd (snd (EvaluateProject inp backfill pid now ev c)))"
proof -
  have l: "lastPerQuery fails since c = (x, c1) \<Longrightarrow> I c1" for fails since x c1
    using assms stmts by (auto simp: lastPerQuery_def ch_do_def Let_def split: if_splits)
  obtain r0 ev1 where p: "project_state inp pid ev = (r0, ev1)" by force
  obtain x c1 where x: "lastPerQuery (in_fails inp) (now - backfill - Hour) c = (x, c1)" by force
  note k = l [OF x]
  show ?thesis
  proof (cases "isl r0 \<or> isl (in_queries inp) \<or> x = None")
    case True
    then show ?thesis using assms p x k by (auto simp: EvaluateProject_def split: sum.splits option.splits)
  next
    case False
    then obtain seen qs ls where ok: "r0 = Inr seen" "in_queries inp = Inr qs" "x = Some ls"
      by (metis not_None_eq obj_sumE isl_def)
    obtain res err seen1 c2 where cy: "cycle (in_fails inp) (in_source inp) (in_order inp) qs now backfill ls seen c1 = ((res, err), seen1, c2)"
      by (metis prod.exhaust)
    obtain err' res1 seen2 c3 where rr: "recordingRules (in_fails inp) (in_md5hex inp) (in_rules inp) backfill (re_To res) ls res seen1 c2 = ((err', res1), seen2, c3)"
      by (metis prod.exhaust)
    have c2: "I c2" by (rule cycle_keeps [OF k cy])
    have "I c3" by (rule recordingRules_keeps [OF c2 rr])
    then show ?thesis
      using p x ok cy rr c2 by (cases err; cases err') (simp_all add: EvaluateProject_def Let_def)
  qed
qed

lemma reachable_keeps:
  "(world_step allowed)\<^sup>*\<^sup>* s s' \<Longrightarrow> I (snd s) \<Longrightarrow> I (snd s')"
proof (induction rule: rtranclp_induct)
  case (step s' s'')
  then show ?case using EvaluateProject_keeps by (elim world_stepE) (auto simp: runProject_tables)
qed

end

text \<open>The rollups are the views of the batches that the points were inserted in.\<close>

definition rollups_ok :: "CH \<Rightarrow> bool" where
  "rollups_ok c \<longleftrightarrow> (\<exists>bs. ch_points c = concat bs \<and> ch_5m c = concat (map (rollup_view (5 * Minute)) bs) \<and>
     ch_1h c = concat (map (rollup_view Hour) bs))"

interpretation rollups: table_invariant rollups_ok
proof
  show "rollups_ok (insert_points ps c)" if r: "rollups_ok c" for c ps
  proof -
    obtain bs where "ch_points c = concat bs" "ch_5m c = concat (map (rollup_view (5 * Minute)) bs)" "ch_1h c = concat (map (rollup_view Hour) bs)"
      using r by (auto simp: rollups_ok_def)
    then show ?thesis unfolding rollups_ok_def by (intro exI [of _ "bs @ [ps]"]) (simp add: insert_points_def)
  qed
qed (auto simp: rollups_ok_def)

interpretation defined: table_invariant "\<lambda>c. defined_points (ch_points c)"
  by unfold_locales (auto simp: insert_points_def defined_points_def)

subsection \<open>Rollups\<close>

lemma bucket_props:
  assumes "0 < w" shows "w dvd bucket w t" "t \<le> bucket w t" "bucket w t < t + w"
proof -
  have "(t - 1) div w * w + (t - 1) mod w = t - 1" by simp
  moreover have "0 \<le> (t - 1) mod w" "(t - 1) mod w < w" using assms by simp_all
  ultimately show "t \<le> bucket w t" "bucket w t < t + w" unfolding bucket_def by linarith+
  show "w dvd bucket w t" by (simp add: bucket_def)
qed

lemma bucket_le_iff:
  assumes "0 < w" "w dvd m" shows "bucket w t \<le> m \<longleftrightarrow> t \<le> m"
proof
  assume "t \<le> m"
  then have "bucket w t < m + w" using bucket_props(3) [OF assms(1), of t] by linarith
  moreover have "w dvd bucket w t - m" using bucket_props(1) [OF assms(1)] assms(2) by (rule dvd_diff)
  ultimately show "bucket w t \<le> m" using zdvd_not_zless [of "bucket w t - m" w] assms(1) by fastforce
qed (use bucket_props(2) [OF assms(1), of t] in linarith)

lemma bucket_unique:
  assumes "0 < w" "w dvd m" "t \<le> m" "m < t + w" shows "bucket w t = m"
proof (rule antisym)
  show "bucket w t \<le> m" using assms bucket_le_iff by blast
  have "t + w \<le> bucket w t + w" using bucket_props(2) [OF assms(1), of t] by simp
  then have "bucket w m \<le> bucket w t" if "m \<le> bucket w t" using that bucket_le_iff [OF assms(1) bucket_props(1) [OF assms(1)]] by blast
  moreover have "w dvd m - bucket w t" using bucket_props(1) [OF assms(1)] assms(2) by (simp add: dvd_diff)
  ultimately show "m \<le> bucket w t"
    using zdvd_not_zless [of "m - bucket w t" w] assms bucket_props(2) [OF assms(1), of t] by fastforce
qed

lemma bucket_bucket:
  assumes "0 < w" "0 < step" "w dvd step" shows "bucket step (bucket w t) = bucket step t"
proof (rule bucket_unique [OF assms(2) bucket_props(1) [OF assms(2)]])
  let ?B = "bucket step t"
  have d: "w dvd ?B" "w dvd ?B - step" using assms(3) bucket_props(1) [OF assms(2), of t] by (auto intro: dvd_trans dvd_diff)
  show "bucket w t \<le> ?B" using bucket_le_iff [OF assms(1) d(1)] bucket_props(2) [OF assms(2)] by blast
  have "\<not> t \<le> ?B - step" using bucket_props(3) [OF assms(2), of t] by linarith
  then show "?B < bucket w t + step" using bucket_le_iff [OF assms(1) d(2), of t] by linarith
qed

lemma in_window_iff:
  assumes "0 < part" shows "in_window part lo to t \<longleftrightarrow> lo \<le> t \<and> t \<le> to"
proof -
  have "startOf part x = x div part * part" for x by (simp add: startOf_def minus_mod_eq_div_mult)
  then show ?thesis using assms by (auto simp: in_window_def zdiv_mono1)
qed

lemma in_window_days [simp]: "in_window Hour lo to t \<longleftrightarrow> lo \<le> t \<and> t \<le> to" "in_window Day lo to t \<longleftrightarrow> lo \<le> t \<and> t \<le> to"
  by (simp_all add: in_window_iff duration_defs)

lemma argMax_props:
  assumes "ps \<noteq> []" shows "argMax ps \<in> set ps" "\<forall>p\<in>set ps. fst p \<le> fst (argMax ps)"
proof -
  have "fold (\<lambda>p m. if fst p > fst m then p else m) xs m \<in> insert m (set xs) \<and>
      (\<forall>p\<in>insert m (set xs). fst p \<le> fst (fold (\<lambda>p m. if fst p > fst m then p else m) xs m))" for xs :: "(Time \<times> f32) list" and m
  proof (induction xs arbitrary: m)
    case (Cons x xs)
    show ?case using Cons.IH [of "if fst x > fst m then x else m"] by (auto split: if_splits)
  qed simp
  from this [where xs = "tl ps" and m = "hd ps"] assms show "argMax ps \<in> set ps" "\<forall>p\<in>set ps. fst p \<le> fst (argMax ps)"
    by (cases ps; simp add: argMax_def)+
qed

lemma max_value_props:
  assumes "vs \<noteq> []" "list_all (\<lambda>v. v \<noteq> NaN) vs" shows "max_value vs \<in> set vs" "\<forall>v\<in>set vs. f32_le v (max_value vs)"
proof -
  have "m \<noteq> NaN \<Longrightarrow> list_all (\<lambda>v. v \<noteq> NaN) xs \<Longrightarrow> fold (\<lambda>v m. if f32_gt v m then v else m) xs m \<in> insert m (set xs) \<and>
      (\<forall>p\<in>insert m (set xs). f32_le p (fold (\<lambda>v m. if f32_gt v m then v else m) xs m))" for xs m
  proof (induction xs arbitrary: m)
    case (Cons x xs)
    then show ?case using Cons.IH [of "if f32_gt x m then x else m"]
      by (auto simp: f32_not_lt intro: f32_le_trans f32_lt_le)
  qed simp
  from this [where xs = "tl vs" and m = "hd vs"] assms show "max_value vs \<in> set vs" "\<forall>v\<in>set vs. f32_le v (max_value vs)"
    by (cases vs; simp add: max_value_def)+
qed

lemma groups_iff: "(k, g) \<in> set (groups key xs) \<longleftrightarrow> k \<in> key ` set xs \<and> g = filter (\<lambda>x. key x = k) xs"
  by (auto simp: groups_def)

text \<open>The rows of a rollup: each stands for the points of one batch in one bucket.\<close>

definition covers :: "Duration \<Rightarrow> rollupRow \<Rightarrow> pointRow list \<Rightarrow> bool" where
  "covers w r g \<longleftrightarrow> g \<noteq> [] \<and> list_all (\<lambda>p. pr_query p = rr_query r \<and> pr_hash p = rr_hash r \<and> bucket w (pr_t p) = rr_t r) g \<and>
     rr_last r = argMax (map (\<lambda>p. (pr_t p, pr_v p)) g) \<and> rr_max r = max_value (map pr_v g)"

lemma rollup_view_covers:
  assumes "r \<in> set (rollup_view w b)" obtains g where "covers w r g" "set g \<subseteq> set b"
proof -
  let ?k = "(rr_query r, rr_hash r, rr_t r)" let ?g = "filter (\<lambda>p. (pr_query p, pr_hash p, bucket w (pr_t p)) = ?k) b"
  from assms have "covers w r ?g" by (auto simp: rollup_view_def groups_iff covers_def filter_empty_conv list_all_iff)
  then show thesis using that by fastforce
qed

lemma rollup_view_covered:
  assumes "p \<in> set b"
  obtains r g where "r \<in> set (rollup_view w b)" "covers w r g" "p \<in> set g" "set g \<subseteq> set b"
proof -
  let ?key = "\<lambda>p. (pr_query p, pr_hash p, bucket w (pr_t p))"
  let ?g = "filter (\<lambda>x. ?key x = ?key p) b"
  let ?r = "\<lparr>rr_query = pr_query p, rr_hash = pr_hash p, rr_t = bucket w (pr_t p), rr_last = argMax (map (\<lambda>p. (pr_t p, pr_v p)) ?g),
     rr_values = map pr_v ?g, rr_max = max_value (map pr_v ?g)\<rparr>"
  have "(?key p, ?g) \<in> set (groups ?key b)" using assms by (simp add: groups_iff)
  then have "?r \<in> set (rollup_view w b)" unfolding rollup_view_def by force
  moreover have "covers w ?r ?g" using assms by (auto simp: covers_def list_all_iff filter_empty_conv)
  ultimately show thesis using that [of ?r ?g] assms by auto
qed

text \<open>
  The maxima of a set of points are those of any rows that cover it.
\<close>

lemma covered_maxima:
  assumes P: "P \<noteq> []" "defined_points P"
    and uniq: "\<forall>p\<in>set P. \<forall>p'\<in>set P. pr_t p = pr_t p' \<longrightarrow> p = p'"
    and R: "\<forall>r\<in>set R. \<exists>g. covers w r g \<and> set g \<subseteq> set P" "\<forall>p\<in>set P. \<exists>r\<in>set R. \<exists>g. covers w r g \<and> p \<in> set g \<and> set g \<subseteq> set P"
  shows "argMax (map rr_last R) = argMax (map (\<lambda>p. (pr_t p, pr_v p)) P)" and "f32_eq (max_value (map rr_max R)) (max_value (map pr_v P))"
proof -
  have ne: "R \<noteq> []" using P(1) R(2) by (cases P) auto
  have cov: "\<exists>p\<in>set P. rr_last r = (pr_t p, pr_v p)" "\<exists>p\<in>set P. rr_max r = pr_v p"
      "\<forall>p\<in>set g. pr_t p \<le> fst (rr_last r) \<and> f32_le (pr_v p) (rr_max r)" if "covers w r g" "set g \<subseteq> set P" for r g
  proof -
    have g: "g \<noteq> []" "list_all (\<lambda>v. v \<noteq> NaN) (map pr_v g)" using that P(2) by (auto simp: covers_def defined_points_def list_all_iff)
    note a = argMax_props [of "map (\<lambda>p. (pr_t p, pr_v p)) g"] and m = max_value_props [OF _ g(2)]
    show "\<exists>p\<in>set P. rr_last r = (pr_t p, pr_v p)" using a(1) g(1) that by (auto simp: covers_def)
    show "\<exists>p\<in>set P. rr_max r = pr_v p" using m(1) g(1) that by (auto simp: covers_def)
    show "\<forall>p\<in>set g. pr_t p \<le> fst (rr_last r) \<and> f32_le (pr_v p) (rr_max r)" using a(2) m(2) g(1) that by (auto simp: covers_def)
  qed
  let ?a = "argMax (map rr_last R)" let ?b = "argMax (map (\<lambda>p. (pr_t p, pr_v p)) P)"
  note A = argMax_props [of "map rr_last R"] and B = argMax_props [of "map (\<lambda>p. (pr_t p, pr_v p)) P"]
  obtain p where p: "p \<in> set P" "?a = (pr_t p, pr_v p)" using A(1) ne R(1) cov(1) by fastforce
  obtain q where q: "q \<in> set P" "?b = (pr_t q, pr_v q)" using B(1) P(1) by auto
  obtain r where r: "r \<in> set R" "pr_t q \<le> fst (rr_last r)" using R(2) q(1) cov(3) by blast
  have "pr_t q \<le> pr_t p" using A(2) ne r p(2) by (metis (no_types, lifting) fst_conv imageI list.set_map map_is_Nil_conv order_trans)
  moreover have "pr_t p \<le> pr_t q" using B(2) P(1) p(1) q(2) by auto
  ultimately have "p = q" using uniq p(1) q(1) by auto
  then show "?a = ?b" using p(2) q(2) by simp
  let ?m = "max_value (map rr_max R)" let ?n = "max_value (map pr_v P)"
  have nn: "list_all (\<lambda>v. v \<noteq> NaN) (map rr_max R)" using R(1) cov(2) P(2) by (fastforce simp: list_all_iff defined_points_def)
  have nP: "list_all (\<lambda>v. v \<noteq> NaN) (map pr_v P)" using P(2) by (simp add: defined_points_def list_all_iff)
  note M = max_value_props [OF _ nn] and N = max_value_props [OF _ nP]
  have "f32_le ?m ?n" using M(1) N(2) ne P(1) R(1) cov(2) by fastforce
  moreover obtain q where q: "q \<in> set P" "?n = pr_v q" using N(1) P(1) by auto
  obtain r where r: "r \<in> set R" "f32_le (pr_v q) (rr_max r)" using R(2) q(1) cov(3) by blast
  have "f32_le ?n ?m" using M(2) ne r q(2) by (auto intro: f32_le_trans)
  ultimately show "f32_eq ?m ?n" by (simp add: f32_eq_def)
qed

subsection \<open>Answers of the rollups\<close>

definition aw_key :: "answerRow \<Rightarrow> string \<times> Hash \<times> Time" where
  "aw_key a = (aw_query a, aw_hash a, aw_T a)"

text \<open>Two answers have the same rows up to their order, with equal values in the four columns.\<close>

definition same_answers :: "answerRow list \<Rightarrow> answerRow list \<Rightarrow> bool" where
  "same_answers as bs \<longleftrightarrow> distinct (map aw_key as) \<and> distinct (map aw_key bs) \<and> aw_key ` set as = aw_key ` set bs \<and>
     (\<forall>a\<in>set as. \<forall>b\<in>set bs. aw_key a = aw_key b \<longrightarrow>
        aw_L a = aw_L b \<and> aw_A a = aw_A b \<and> aw_S a = aw_S b \<and> f32_eq (aw_M a) (aw_M b))"

text \<open>
  Sums and averages that depend only on the values they are taken of, not on how these are split into partial
  sums: ClickHouse's up to the rounding of its \<^verbatim>\<open>float64\<close>.
\<close>

definition exact_sums :: "Arithmetic \<Rightarrow> bool" where
  "exact_sums ar \<longleftrightarrow> (\<forall>xss yss. mset (concat xss) = mset (concat yss) \<longrightarrow> ca_sum ar xss = ca_sum ar yss \<and> ca_avg ar xss = ca_avg ar yss)"

lemma exact_sumsD:
  "exact_sums ar \<Longrightarrow> mset (concat xss) = mset ys \<Longrightarrow> ca_sum ar xss = ca_sum ar [ys] \<and> ca_avg ar xss = ca_avg ar [ys]"
  unfolding exact_sums_def by (metis append_Nil2 concat.simps)

text \<open>The groups of some keys hold the elements of these keys, each once.\<close>

lemma mset_split_key:
  assumes "distinct ks"
  shows "mset (concat (map (\<lambda>k. filter (\<lambda>x. key x = k) xs) ks)) = mset (filter (\<lambda>x. key x \<in> set ks) xs)"
  using assms
proof (induction ks)
  case (Cons k ks)
  have "mset (filter (\<lambda>x. key x = k) ys) + mset (filter (\<lambda>x. key x \<in> set ks) ys) = mset (filter (\<lambda>x. key x \<in> set (k # ks)) ys)" for ys
    using Cons.prems by (induction ys) auto
  then show ?case using Cons by simp
qed simp

lemma groups_values: "mset (concat (map snd (filter (\<lambda>x. F (fst x)) (groups key xs)))) = mset (filter (\<lambda>x. F (key x)) xs)"
proof -
  have "map snd (filter (\<lambda>x. F (fst x)) (groups key xs)) = map (\<lambda>k. filter (\<lambda>x. key x = k) xs) (filter F (remdups (map key xs)))"
    by (simp add: groups_def filter_map comp_def)
  then have "mset (concat (map snd (filter (\<lambda>x. F (fst x)) (groups key xs)))) = mset (filter (\<lambda>x. key x \<in> set (filter F (remdups (map key xs)))) xs)"
    using mset_split_key [of "filter F (remdups (map key xs))" key xs] by simp
  also have "filter (\<lambda>x. key x \<in> set (filter F (remdups (map key xs)))) xs = filter (\<lambda>x. F (key x)) xs"
    by (rule filter_cong) auto
  finally show ?thesis .
qed

definition rr_key :: "rollupRow \<Rightarrow> string \<times> Hash \<times> Time" where
  "rr_key r = (rr_query r, rr_hash r, rr_t r)"

lemma rollup_values:
  "mset (concat (map rr_values (filter (\<lambda>r. F (rr_key r)) (concat (map (rollup_view w) bs))))) =
   mset (map pr_v (filter (\<lambda>p. F (pr_query p, pr_hash p, bucket w (pr_t p))) (concat bs)))"
proof (induction bs)
  case (Cons b bs)
  let ?key = "\<lambda>p. (pr_query p, pr_hash p, bucket w (pr_t p))"
  have "map rr_values (filter (\<lambda>r. F (rr_key r)) (rollup_view w b)) = map (map pr_v \<circ> snd) (filter (\<lambda>x. F (fst x)) (groups ?key b))"
    by (simp add: rollup_view_def filter_map comp_def case_prod_beta rr_key_def)
  then have "mset (concat (map rr_values (filter (\<lambda>r. F (rr_key r)) (rollup_view w b)))) =
      image_mset pr_v (mset (concat (map snd (filter (\<lambda>x. F (fst x)) (groups ?key b)))))"
    by (simp add: map_concat flip: mset_map map_map)
  then show ?case using Cons.IH by (simp only: groups_values) simp
qed simp

lemma groups_keys: "map fst (groups key xs) = remdups (map key xs)"
  by (simp add: groups_def comp_def)

lemma bucket_rows_keys:
  "map aw_key (bucket_rows ar queries lo to step c) =
     remdups (map (\<lambda>p. (pr_query p, pr_hash p, bucket step (pr_t p)))
       (filter (\<lambda>p. in_window Hour lo to (pr_t p) \<and> selected queries (pr_query p)) (ch_points c)))"
  by (simp add: bucket_rows_def groups_def comp_def aw_key_def case_prod_beta) 

lemma rollup_rows_keys:
  "map aw_key (rollup_rows ar queries lo to step rows) =
     remdups (map (\<lambda>r. (rr_query r, rr_hash r, bucket step (rr_t r)))
       (filter (\<lambda>r. in_window Day lo to (rr_t r) \<and> selected queries (rr_query r)) rows))"
  by (simp add: rollup_rows_def groups_def comp_def aw_key_def case_prod_beta)

lemma bucket_row_in:
  assumes "b \<in> set (bucket_rows ar queries lo to step c)"
  defines "P \<equiv> filter (\<lambda>p. lo \<le> pr_t p \<and> pr_t p \<le> to \<and> selected queries (pr_query p) \<and>
      (pr_query p, pr_hash p, bucket step (pr_t p)) = aw_key b) (ch_points c)"
  shows "P \<noteq> [] \<and> aw_L b = snd (argMax (map (\<lambda>p. (pr_t p, pr_v p)) P)) \<and> aw_M b = max_value (map pr_v P) \<and>
    aw_A b = ca_avg ar [map pr_v P] \<and> aw_S b = ca_sum ar [map pr_v P]"
  using assms(1) unfolding P_def
  by (auto simp: bucket_rows_def groups_iff aw_key_def filter_empty_conv conj_ac)

lemma rollup_row_in:
  assumes "a \<in> set (rollup_rows ar queries lo to step rows)"
  defines "R \<equiv> filter (\<lambda>r. lo \<le> rr_t r \<and> rr_t r \<le> to \<and> selected queries (rr_query r) \<and>
      (rr_query r, rr_hash r, bucket step (rr_t r)) = aw_key a) rows"
  shows "aw_L a = snd (argMax (map rr_last R)) \<and> aw_M a = max_value (map rr_max R) \<and>
    aw_A a = ca_avg ar (map rr_values R) \<and> aw_S a = ca_sum ar (map rr_values R)"
  using assms(1) unfolding R_def
  by (auto simp: rollup_rows_def groups_iff aw_key_def conj_ac)

lemma rollup_same_answers:
  assumes w: "0 < w" "w dvd step" "0 < step" "step dvd f" "step dvd to"
    and rows: "rows = concat (map (rollup_view w) bs)" "ch_points c = concat bs"
    and ok: "defined_points (ch_points c)" "points_ok (ch_points c)" and ar: "exact_sums ar"
  shows "same_answers (rollup_rows ar queries (f - step + 1) to step rows) (bucket_rows ar queries (f - step + 1) to step c)"
proof -
  let ?lo = "f - step + 1"
  let ?in = "\<lambda>p. ?lo \<le> pr_t p \<and> pr_t p \<le> to \<and> selected queries (pr_query p)"
  let ?rin = "\<lambda>r. ?lo \<le> rr_t r \<and> rr_t r \<le> to \<and> selected queries (rr_query r)"
  let ?key = "\<lambda>p. (pr_query p, pr_hash p, bucket step (pr_t p))" let ?rkey = "\<lambda>r. (rr_query r, rr_hash r, bucket step (rr_t r))"
  have dv: "w dvd to" "w dvd f - step" using w by (auto intro: dvd_trans dvd_diff)
  have cov: "\<forall>p\<in>set g. ?in p = ?rin r \<and> ?key p = ?rkey r" if "covers w r g" for r g
  proof
    fix p assume "p \<in> set g"
    then have p: "pr_query p = rr_query r" "pr_hash p = rr_hash r" "rr_t r = bucket w (pr_t p)" using that by (auto simp: covers_def list_all_iff)
    have "bucket w (pr_t p) \<le> f - step \<longleftrightarrow> pr_t p \<le> f - step" "bucket w (pr_t p) \<le> to \<longleftrightarrow> pr_t p \<le> to"
      using bucket_le_iff [OF w(1)] dv by blast+
    then show "?in p = ?rin r \<and> ?key p = ?rkey r" using p bucket_bucket [OF w(1,3,2)] by auto
  qed
  have down: "\<exists>g. covers w r g \<and> set g \<subseteq> set (ch_points c)" if r: "r \<in> set rows" for r
  proof -
    obtain b where b: "b \<in> set bs" "r \<in> set (rollup_view w b)" using r rows(1) by auto
    obtain g where "covers w r g" "set g \<subseteq> set b" using rollup_view_covers [OF b(2)] by blast
    then show ?thesis using b(1) rows(2) by (intro exI [of _ g]) auto
  qed
  have up: "\<exists>r\<in>set rows. \<exists>g. covers w r g \<and> p \<in> set g \<and> set g \<subseteq> set (ch_points c)" if p: "p \<in> set (ch_points c)" for p
  proof -
    obtain b where b: "b \<in> set bs" "p \<in> set b" using p rows(2) by auto
    obtain r g where "r \<in> set (rollup_view w b)" "covers w r g" "p \<in> set g" "set g \<subseteq> set b" using rollup_view_covered [OF b(2)] by blast
    then show ?thesis using b(1) rows by (intro bexI [of _ r] exI [of _ g]) auto
  qed
  have keys: "?rkey ` {r \<in> set rows. ?rin r} = ?key ` {p \<in> set (ch_points c). ?in p}"
  proof (intro equalityI subsetI)
    fix k assume "k \<in> ?rkey ` {r \<in> set rows. ?rin r}"
    then obtain r where r: "r \<in> set rows" "?rin r" "k = ?rkey r" by auto
    obtain g where g: "covers w r g" "set g \<subseteq> set (ch_points c)" using down [OF r(1)] by blast
    have "g \<noteq> []" using g(1) by (simp add: covers_def)
    then obtain p where "p \<in> set g" by (cases g) auto
    then show "k \<in> ?key ` {p \<in> set (ch_points c). ?in p}" using cov [OF g(1)] g(2) r by (intro image_eqI [of _ _ p]) auto
  next
    fix k assume "k \<in> ?key ` {p \<in> set (ch_points c). ?in p}"
    then obtain p where p: "p \<in> set (ch_points c)" "?in p" "k = ?key p" by auto
    obtain r g where r: "r \<in> set rows" "covers w r g" "p \<in> set g" using up [OF p(1)] by blast
    then show "k \<in> ?rkey ` {r \<in> set rows. ?rin r}" using cov [OF r(2)] p(2,3) by (intro image_eqI [of _ _ r]) auto
  qed
  have columns: "aw_L a = aw_L b \<and> aw_A a = aw_A b \<and> aw_S a = aw_S b \<and> f32_eq (aw_M a) (aw_M b)"
    if a: "a \<in> set (rollup_rows ar queries ?lo to step rows)" and b: "b \<in> set (bucket_rows ar queries ?lo to step c)" and k: "aw_key a = aw_key b" for a b
  proof -
    define P where "P = filter (\<lambda>p. ?lo \<le> pr_t p \<and> pr_t p \<le> to \<and> selected queries (pr_query p) \<and> ?key p = aw_key b) (ch_points c)"
    define R where "R = filter (\<lambda>r. ?lo \<le> rr_t r \<and> rr_t r \<le> to \<and> selected queries (rr_query r) \<and> ?rkey r = aw_key b) rows"
    note B = bucket_row_in [OF b, folded P_def] and A = rollup_row_in [OF a, unfolded k, folded R_def]
    have "defined_points P" using ok(1) by (auto simp: P_def defined_points_def list_all_iff)
    moreover have "\<forall>p\<in>set P. \<forall>p'\<in>set P. pr_t p = pr_t p' \<longrightarrow> p = p'"
      using ok(2) by (auto simp: P_def points_ok_def point_key_def distinct_map aw_key_def inj_on_def)
    moreover have "\<forall>r\<in>set R. \<exists>g. covers w r g \<and> set g \<subseteq> set P"
      using down cov unfolding R_def P_def by (fastforce simp: subset_iff)
    moreover have "\<forall>p\<in>set P. \<exists>r\<in>set R. \<exists>g. covers w r g \<and> p \<in> set g \<and> set g \<subseteq> set P"
    proof
      fix p assume p: "p \<in> set P"
      obtain r g where r: "r \<in> set rows" "covers w r g" "p \<in> set g" "set g \<subseteq> set (ch_points c)" using up [of p] p by (auto simp: P_def)
      have "r \<in> set R" using p r(1) cov [OF r(2)] r(3) by (auto simp: R_def P_def)
      moreover have "set g \<subseteq> set P" using r(4) \<open>r \<in> set R\<close> cov [OF r(2)] by (auto simp: R_def P_def)
      ultimately show "\<exists>r\<in>set R. \<exists>g. covers w r g \<and> p \<in> set g \<and> set g \<subseteq> set P" using r by blast
    qed
    ultimately have "aw_L a = aw_L b" "f32_eq (aw_M a) (aw_M b)" using covered_maxima [of P R w] A B by simp_all
    moreover have "mset (concat (map rr_values R)) = mset (map pr_v P)"
    proof -
      let ?F = "\<lambda>(q, h, t). ?lo \<le> t \<and> t \<le> to \<and> selected queries q \<and> (q, h, bucket step t) = aw_key b"
      have "bucket w t \<le> f - step \<longleftrightarrow> t \<le> f - step" "bucket w t \<le> to \<longleftrightarrow> t \<le> to" for t
        using bucket_le_iff [OF w(1)] dv by blast+
      then have "?lo \<le> bucket w t \<longleftrightarrow> ?lo \<le> t" "bucket w t \<le> to \<longleftrightarrow> t \<le> to" for t
        by (metis add_le_cancel_right zless_imp_add1_zle not_le add1_zle_eq)+
      then show ?thesis using rollup_values [of ?F w bs]
        by (simp add: R_def P_def rows rr_key_def bucket_bucket [OF w(1,3,2)])
    qed
    then have "aw_A a = aw_A b \<and> aw_S a = aw_S b" using exact_sumsD [OF ar, of "map rr_values R" "map pr_v P"] A B by simp
    ultimately show ?thesis by simp
  qed
  have "aw_key ` set (rollup_rows ar queries ?lo to step rows) = ?rkey ` {r \<in> set rows. ?rin r}"
    "aw_key ` set (bucket_rows ar queries ?lo to step c) = ?key ` {p \<in> set (ch_points c). ?in p}"
    by (simp_all flip: set_map add: bucket_rows_keys rollup_rows_keys) (auto simp: image_iff)
  then show ?thesis using keys columns by (simp add: same_answers_def bucket_rows_keys rollup_rows_keys)
qed

text \<open>
  C29. A page with a step of a multiple of five minutes, from and to a multiple of the step, reads the rollups
  instead of the points. The answer is the same: in every state that runs of the evaluator reach, the rows have
  the series and times that grouping the points themselves gives, with the same last value, average and sum and
  an equal maximum; sums and averages are those of exact arithmetic. The first bucket is whole: it reaches back
  before the start of the window by a step (the comment of \<^verbatim>\<open>pointsSQL\<close> says otherwise).
\<close>

theorem rollups_answer_as_points:
  assumes "(world_step inputs_ok)\<^sup>*\<^sup>* (NewEvaluator, empty_ch) (ev, c)" "exact_sums ar"
    and "0 < step" "5 * Minute dvd step" "step dvd f" "step dvd to"
  shows "same_answers (points_answer ar f to step queries c) (bucket_rows ar queries (f - step + 1) to step c)"
proof -
  have ok: "points_ok (ch_points c)" "defined_points (ch_points c)" "rollups_ok c"
    using world_steps_points_ok [OF assms(1)] defined.reachable_keeps [OF assms(1)] rollups.reachable_keeps [OF assms(1)]
    by (simp_all add: points_ok_def empty_ch_def defined_points_def rollups_ok_def exI [of _ "[]"])
  obtain bs where bs: "ch_points c = concat bs" "ch_5m c = concat (map (rollup_view (5 * Minute)) bs)" "ch_1h c = concat (map (rollup_view Hour) bs)"
    using ok(3) by (auto simp: rollups_ok_def)
  have ge: "5 * Minute \<le> step" using assms(3,4) by (rule zdvd_imp_le [rotated])
  then have ne: "step \<noteq> ResultsStep" by (simp add: ResultsStep_15 duration_defs)
  have m: "step smod (5 * Minute) = 0" "step smod Hour = 0 \<longleftrightarrow> Hour dvd step"
    using assms(3,4) by (simp_all add: smod_nonneg duration_defs dvd_eq_mod_eq_0)
  have lo: "f + (1 - step) = f - step + 1" by simp
  show ?thesis
  proof (cases "step \<ge> Hour \<and> step smod Hour = 0")
    case True
    then show ?thesis using ne m rollup_same_answers [OF _ _ assms(3,5,6) bs(3,1) ok(2,1) assms(2)]
      by (simp add: lo points_answer_def Let_def duration_defs)
  next
    case False
    then show ?thesis using ne ge m rollup_same_answers [OF _ _ assms(3,5,6) bs(2,1) ok(2,1) assms(2)] assms(4)
      by (auto simp: lo points_answer_def Let_def duration_defs)
  qed
qed

text \<open>Exact sums and averages of the finite values.\<close>

definition exact_arithmetic :: Arithmetic where
  "exact_arithmetic = \<lparr>ca_sum = (\<lambda>vs. Fin (sum_list (map rat_of (concat vs)))),
     ca_avg = (\<lambda>vs. Fin (sum_list (map rat_of (concat vs)) / of_nat (length (concat vs))))\<rparr>"

lemma exact_arithmetic_ok: "exact_sums exact_arithmetic"
  unfolding exact_sums_def
proof (intro allI impI)
  fix xss yss :: "f32 list list"
  assume m: "mset (concat xss) = mset (concat yss)"
  have "sum_list (map rat_of (concat xss)) = sum_list (map rat_of (concat yss))"
    using arg_cong [OF m, of "\<lambda>M. sum_mset (image_mset rat_of M)"] by (simp only: sum_mset_sum_list flip: mset_map)
  moreover have "length (concat xss) = length (concat yss)" using m by (metis size_mset)
  ultimately show "ca_sum exact_arithmetic xss = ca_sum exact_arithmetic yss \<and> ca_avg exact_arithmetic xss = ca_avg exact_arithmetic yss"
    by (simp add: exact_arithmetic_def)
qed

theorem rollups_answer_as_points_witness:
  "same_answers (points_answer exact_arithmetic 3600 3900 300 [] (snd (runProject (demo_run (\<lambda>_. False)) 60 ''p1'' 4000 0 1 NewEvaluator empty_ch)))
     (bucket_rows exact_arithmetic [] (3600 - 300 + 1) 3900 300 (snd (runProject (demo_run (\<lambda>_. False)) 60 ''p1'' 4000 0 1 NewEvaluator empty_ch)))"
proof -
  let ?s = "runProject (demo_run (\<lambda>_. False)) 60 ''p1'' 4000 0 1 NewEvaluator empty_ch"
  have "world_step (inputs_ok :: Time Inputs \<Rightarrow> bool) (NewEvaluator, empty_ch) ?s"
    by (rule world_step.run [where allowed = inputs_ok, OF demo_run_ok]) (simp_all add: duration_defs)
  then have "(world_step (inputs_ok :: Time Inputs \<Rightarrow> bool))\<^sup>*\<^sup>* (NewEvaluator, empty_ch) (fst ?s, snd ?s)" by simp
  from rollups_answer_as_points [OF this exact_arithmetic_ok, of 300 3600 3900] show ?thesis by (simp add: duration_defs)
qed

subsection \<open>Reading a point back\<close>

definition in_sample :: "TimeSeries \<Rightarrow> nat \<Rightarrow> Time \<Rightarrow> bool" where
  "in_sample s i t \<longleftrightarrow> ts_from s + int i * ts_step s \<le> t \<and> t < ts_from s + (int i + 1) * ts_step s"

lemma set_row_sample:
  assumes "aligned s" "0 \<le> aw_T a" "i < length (ts_data s)"
  shows "aligned (set_row agg a s) \<and> ts_from (set_row agg a s) = ts_from s \<and> ts_step (set_row agg a s) = ts_step s \<and>
    length (ts_data (set_row agg a s)) = length (ts_data s) \<and>
    ts_data (set_row agg a s) ! i = (if in_sample s i (aw_T a) \<and> pick agg a \<noteq> NaN then pick agg a else ts_data s ! i)"
  using Set_samples [OF assms] assms(1) by (auto simp: set_row_def in_sample_def aligned_def)

lemma fold_set_row_sample:
  assumes "aligned s" "list_all (\<lambda>a. 0 \<le> aw_T a) rows" "i < length (ts_data s)"
    and "list_all (\<lambda>a. in_sample s i (aw_T a) \<longrightarrow> pick agg a = v) rows" "v \<noteq> NaN"
  shows "ts_data (fold (set_row agg) rows s) ! i = (if list_ex (\<lambda>a. in_sample s i (aw_T a)) rows then v else ts_data s ! i)"
  using assms
proof (induction rows arbitrary: s)
  case (Cons a rows)
  let ?s = "set_row agg a s"
  have r: "aligned ?s" "ts_from ?s = ts_from s" "ts_step ?s = ts_step s" "length (ts_data ?s) = length (ts_data s)"
      "ts_data ?s ! i = (if in_sample s i (aw_T a) \<and> pick agg a \<noteq> NaN then pick agg a else ts_data s ! i)"
    using set_row_sample [OF Cons.prems(1) _ Cons.prems(3), of a agg] Cons.prems(2) by auto
  have same: "in_sample ?s i t = in_sample s i t" for t using r(2,3) by (simp add: in_sample_def)
  show ?case using Cons.IH [OF r(1)] Cons.prems r(4,5) by (auto simp: same)
qed simp

lemma final_series_keeps: "has_labels rows k \<Longrightarrow> has_labels (final_series rows) k"
proof -
  have add: "has_labels (final_add r xs) k \<longleftrightarrow> has_labels xs k \<or> (sr_query r, sr_hash r) = k" for r xs
    by (auto simp: final_add_def has_labels_def list_ex_iff same_series_def)
  have "has_labels (fold final_add rows xs) k \<longleftrightarrow> has_labels rows k \<or> has_labels xs k" for xs
  proof (induction rows arbitrary: xs)
    case (Cons r rows)
    have "has_labels (r # rows) k \<longleftrightarrow> (sr_query r, sr_hash r) = k \<or> has_labels rows k" by (simp add: has_labels_def)
    then show ?case using Cons.IH [of "final_add r xs"] add [of r xs] by auto
  qed (simp add: has_labels_def)
  then show "has_labels rows k \<Longrightarrow> has_labels (final_series rows) k" by (simp add: final_series_def)
qed

lemma pick_raw: "a \<in> set (raw_rows queries lo to c) \<Longrightarrow>
    \<exists>p\<in>set (ch_points c). aw_query a = pr_query p \<and> aw_hash a = pr_hash p \<and> aw_T a = pr_t p \<and> pick agg a = pr_v p \<and> lo \<le> pr_t p \<and> pr_t p \<le> to"
  by (auto simp: raw_rows_def pick_def split: aggregate.splits)

lemma metricValue_sample:
  assumes ok: "points_ok (ch_points c)" "defined_points (ch_points c)"
    and w: "wi_step w = ResultsStep" "0 \<le> wi_from w" "ResultsStep dvd wi_from w" "wi_from w \<le> pr_t p" "pr_t p \<le> wi_to w"
    and p: "p \<in> set (ch_points c)" "selected names (pr_query p)"
    and rows: "ss_rows ss = filter (\<lambda>a. aw_query a = pr_query p \<and> aw_hash a = pr_hash p) (points_answer ar (wi_from w) (wi_to w) (wi_step w) names c)"
  shows "\<exists>mv s. metricValue w agg ss = Some mv \<and> mv_LabelsHash mv = ss_hash ss \<and> mv_Values mv = Some s \<and>
    ts_data s ! nat ((pr_t p - wi_from w) div ResultsStep) = pr_v p"
proof -
  let ?n = "nat ((wi_to w - wi_from w) sdiv wi_step w + 1)" let ?i = "nat ((pr_t p - wi_from w) div ResultsStep)"
  let ?blank = "New (wi_from w) ?n (wi_step w)"
  let ?a = "\<lparr>aw_query = pr_query p, aw_hash = pr_hash p, aw_T = pr_t p, aw_L = pr_v p, aw_A = pr_v p, aw_S = pr_v p, aw_M = pr_v p\<rparr>"
  have raw: "ss_rows ss = filter (\<lambda>a. aw_query a = pr_query p \<and> aw_hash a = pr_hash p) (raw_rows names (wi_from w) (wi_to w) c)"
    using rows w(1) by (simp add: points_answer_def Let_def)
  have a: "?a \<in> set (ss_rows ss)" "pick agg ?a = pr_v p" using p w(4,5) raw by (auto simp: raw_rows_def pick_def split: aggregate.splits)
  have nn: "pr_v p \<noteq> NaN" using ok(2) p(1) by (auto simp: defined_points_def list_all_iff)
  have dv: "15 dvd pr_t p - wi_from w" using ok(1) p(1) w(3) by (auto simp: points_ok_def list_all_iff ResultsStep_15)
  then have i: "wi_from w + int ?i * 15 = pr_t p" using w(4) by (auto simp: ResultsStep_15)
  have len: "?i < length (ts_data ?blank)"
    using w zdiv_mono1 [of "pr_t p - wi_from w" "wi_to w - wi_from w" 15] by (simp add: New_def NewWithData_def sdiv_nonneg ResultsStep_15)
  have al: "aligned ?blank" using w(1-3) by (simp add: aligned_def New_def NewWithData_def ResultsStep_15)
  have row: "\<exists>q\<in>set (ch_points c). pr_query q = pr_query p \<and> pr_hash q = pr_hash p \<and> aw_T b = pr_t q \<and> pick agg b = pr_v q \<and> wi_from w \<le> pr_t q"
    if "b \<in> set (ss_rows ss)" for b using that pick_raw [of b names "wi_from w" "wi_to w" c agg] unfolding raw by auto
  have pos: "list_all (\<lambda>b. 0 \<le> aw_T b) (ss_rows ss)" using row w(2) by (fastforce simp: list_all_iff)
  have "pick agg b = pr_v p" if b: "b \<in> set (ss_rows ss)" "in_sample ?blank ?i (aw_T b)" for b
  proof -
    obtain q where q: "q \<in> set (ch_points c)" "pr_query q = pr_query p" "pr_hash q = pr_hash p" "aw_T b = pr_t q" "pick agg b = pr_v q" using row b(1) by blast
    have "pr_t p \<le> pr_t q" "pr_t q < pr_t p + 15" using b(2) q(4) i w(1) by (simp_all add: in_sample_def New_def NewWithData_def ResultsStep_15 algebra_simps)
    moreover have "15 dvd pr_t q - pr_t p" using ok(1) p(1) q(1) by (auto simp: points_ok_def list_all_iff ResultsStep_15)
    ultimately have "pr_t q = pr_t p" using zdvd_not_zless [of "pr_t q - pr_t p" 15] by fastforce
    then show ?thesis using q ok(1) p(1) by (auto simp: points_ok_def distinct_map inj_on_def point_key_def)
  qed
  then have "ts_data (fold (set_row agg) (ss_rows ss) ?blank) ! ?i = (if list_ex (\<lambda>a. in_sample ?blank ?i (aw_T a)) (ss_rows ss) then pr_v p else ts_data ?blank ! ?i)"
    by (intro fold_set_row_sample [OF al pos len]) (use nn in \<open>auto simp: list_all_iff\<close>)
  moreover have "list_ex (\<lambda>a. in_sample ?blank ?i (aw_T a)) (ss_rows ss)"
    unfolding list_ex_iff using i w(1) by (intro bexI [OF _ a(1)]) (simp add: in_sample_def New_def NewWithData_def ResultsStep_15 algebra_simps)
  moreover have "list_ex (\<lambda>a. \<not> IsNaN (pick agg a)) (ss_rows ss)"
    unfolding list_ex_iff using a nn by (intro bexI [OF _ a(1)]) (simp add:)
  moreover have "mv_LabelsHash (fold split_label ls (labelled [] (ss_hash ss) None)) = ss_hash ss" for ls
  proof -
    have "mv_LabelsHash (fold split_label ls m) = mv_LabelsHash m" for m
      by (induction ls arbitrary: m) (auto simp: split_label_def Let_def split: prod.splits)
    then show ?thesis by (simp add: labelled_def)
  qed
  ultimately show ?thesis by (simp add: metricValue_def Let_def)
qed

lemma read_window_ok:
  "read_window (\<lambda>_. False) ar w queries c =
     (let names = (if length queries \<le> maxFilteredQueries then sort_Strings queries else [])
      in (Some (map (\<lambda>r. (sr_query r, \<lparr>ss_labels = sr_labels r, ss_hash = sr_hash r,
            ss_rows = filter (\<lambda>a. aw_query a = sr_query r \<and> aw_hash a = sr_hash r) (points_answer ar (wi_from w) (wi_to w) (wi_step w) names c)\<rparr>))
          (series_answer names c)), c\<lparr>ch_stmts := Suc (Suc (ch_stmts c))\<rparr>))"
  by (simp add: read_window_def ch_do_def Let_def)

lemma answers_stmts [simp]: "points_answer ar f to step names (c\<lparr>ch_stmts := n\<rparr>) = points_answer ar f to step names c"
  "series_answer names (c\<lparr>ch_stmts := n\<rparr>) = series_answer names c"
  by (simp_all add: points_answer_def raw_rows_def bucket_rows_def series_answer_def Let_def)

lemma read_windows_ok:
  "w \<in> set ws \<Longrightarrow> map_of (fst (read_windows (\<lambda>_. False) ar requests ws c)) w = Some (fst (read_window (\<lambda>_. False) ar w (queries_of w requests) c))"
proof (induction ws arbitrary: c)
  case (Cons v ws)
  let ?c = "c\<lparr>ch_stmts := Suc (Suc (ch_stmts c))\<rparr>"
  have st: "snd (read_window (\<lambda>_. False) ar v qs c) = ?c" "fst (read_window (\<lambda>_. False) ar w qs ?c) = fst (read_window (\<lambda>_. False) ar w qs c)" for qs
    by (simp_all add: read_window_ok Let_def)
  show ?case using Cons.prems Cons.IH [of ?c] by (auto simp: case_prod_beta Let_def st)
qed simp

lemma set_map_filter_iff: "y \<in> set (List.map_filter f xs) \<longleftrightarrow> (\<exists>x\<in>set xs. f x = Some y)"
  by (induction xs) (auto simp: map_filter_simps split: option.splits)

lemma answered_request:
  assumes "rq \<in> set requests" "windowOf (snd rq) \<in> set ws"
  obtains series where "fst (read_window (\<lambda>_. False) ar (windowOf (snd rq)) (queries_of (windowOf (snd rq)) requests) c) = Some series"
    "(fst rq, metricValues (map snd (filter (\<lambda>s. fst s = rq_Query (snd rq)) series)) (windowOf (snd rq)) (rq_FillFunc (snd rq)))
       \<in> set (fst (fst (QueryRanges (\<lambda>_. False) ar requests ws c)))"
proof -
  obtain series where s: "fst (read_window (\<lambda>_. False) ar (windowOf (snd rq)) (queries_of (windowOf (snd rq)) requests) c) = Some series"
    by (simp add: read_window_ok Let_def)
  then have "answer_request (fst (read_windows (\<lambda>_. False) ar requests ws c)) rq =
      Some (fst rq, metricValues (map snd (filter (\<lambda>s. fst s = rq_Query (snd rq)) series)) (windowOf (snd rq)) (rq_FillFunc (snd rq)))"
    using read_windows_ok [OF assms(2)] by (simp add: answer_request_def Let_def)
  then show thesis using that [OF s] assms(1) by (auto simp: QueryRanges_def case_prod_beta set_map_filter_iff)
qed

text \<open>
  C30. What the evaluator stored is what a page reads at the 15 second step: when the reads succeed and the
  labels of the stored points are stored (which a failed write of the recording rules can break), a request at
  this step for a query and a window that holds a stored point answers a series with the hash of the point and
  with its value at the step of its time, whatever the other requests are and in whatever order the windows
  are read.
\<close>

theorem point_read_back:
  assumes "(world_step inputs_ok)\<^sup>*\<^sup>* (NewEvaluator, empty_ch) (ev, c)" "points_labelled c"
    and "p \<in> set (ch_points c)" "\<not> has_prefix (pr_query p) marker_prefix"
    and "rq \<in> set requests" "rq_Query (snd rq) = pr_query p" "rq_Step (snd rq) = ResultsStep" "windowOf (snd rq) \<in> set ws"
    and "0 \<le> rq_From (snd rq)" "rq_From (snd rq) \<le> pr_t p" "pr_t p \<le> rq_To (snd rq)"
  shows "\<exists>mvs mv s. (fst rq, mvs) \<in> set (fst (fst (QueryRanges (\<lambda>_. False) ar requests ws c))) \<and> mv \<in> set mvs \<and>
    mv_LabelsHash mv = pr_hash p \<and> mv_Values mv = Some s \<and>
    ts_data s ! nat ((pr_t p - Time_Truncate (rq_From (snd rq)) ResultsStep) div ResultsStep) = pr_v p"
proof -
  have ok: "points_ok (ch_points c)" "defined_points (ch_points c)"
    using world_steps_points_ok [OF assms(1)] defined.reachable_keeps [OF assms(1)] by (simp_all add: points_ok_def empty_ch_def defined_points_def)
  let ?w = "windowOf (snd rq)" let ?qs = "queries_of ?w requests"
  define names where "names = (if length ?qs \<le> maxFilteredQueries then sort_Strings ?qs else [])"
  have q: "pr_query p \<in> set ?qs" using assms(5,6) by (force simp: queries_of_def)
  then have sel: "selected names (pr_query p)" by (simp add: names_def selected_def)
  have w: "wi_step ?w = ResultsStep" "wi_from ?w = Time_Truncate (rq_From (snd rq)) ResultsStep" "wi_to ?w = Time_Truncate (rq_To (snd rq)) ResultsStep"
    using assms(7) by (simp_all add: windowOf_def)
  have 15: "(0::int) < 15" "ResultsStep dvd pr_t p" using ok(1) assms(3) by (auto simp: points_ok_def list_all_iff)
  have fr: "0 \<le> wi_from ?w" "ResultsStep dvd wi_from ?w" "wi_from ?w \<le> pr_t p"
    unfolding w using assms(9,10) Time_Truncate_le [OF assms(9), of 15] Time_Truncate_dvd [OF assms(9), of 15] Time_Truncate_ge [of 0 15 "rq_From (snd rq)"] by (simp_all add: ResultsStep_15)
  have to: "pr_t p \<le> wi_to ?w"
    unfolding w using assms(9-11) 15 by (intro Time_Truncate_ge) (simp_all add: ResultsStep_15)
  obtain series where s: "fst (read_window (\<lambda>_. False) ar ?w ?qs c) = Some series"
      "(fst rq, metricValues (map snd (filter (\<lambda>s. fst s = rq_Query (snd rq)) series)) ?w (rq_FillFunc (snd rq))) \<in> set (fst (fst (QueryRanges (\<lambda>_. False) ar requests ws c)))"
    using answered_request [OF assms(5,8)] by blast
  have "has_labels (final_series (ch_series c)) (pr_query p, pr_hash p)"
    using assms(2-4) by (intro final_series_keeps) (simp add: points_labelled_def)
  then obtain r where r: "r \<in> set (series_answer names c)" "sr_query r = pr_query p" "sr_hash r = pr_hash p"
    using sel by (auto simp: has_labels_def list_ex_iff series_answer_def)
  define ss where "ss = \<lparr>ss_labels = sr_labels r, ss_hash = sr_hash r,
      ss_rows = filter (\<lambda>a. aw_query a = sr_query r \<and> aw_hash a = sr_hash r) (points_answer ar (wi_from ?w) (wi_to ?w) (wi_step ?w) names c)\<rparr>"
  have ss: "(pr_query p, ss) \<in> set series" using s(1) r(1) unfolding ss_def by (auto simp: read_window_ok Let_def r(2,3) simp flip: names_def intro!: image_eqI [of _ _ r])
  obtain mv s' where m: "metricValue ?w (aggregateFor (rq_FillFunc (snd rq))) ss = Some mv" "mv_LabelsHash mv = pr_hash p" "mv_Values mv = Some s'"
      "ts_data s' ! nat ((pr_t p - wi_from ?w) div ResultsStep) = pr_v p"
    using metricValue_sample [OF ok w(1) fr to assms(3) sel, of ss ar "aggregateFor (rq_FillFunc (snd rq))"] r(2,3) by (auto simp: ss_def)
  have "mv \<in> set (metricValues (map snd (filter (\<lambda>s. fst s = rq_Query (snd rq)) series)) ?w (rq_FillFunc (snd rq)))"
    using ss m(1) assms(6) by (force simp: metricValues_def set_map_filter_iff)
  then show ?thesis using s(2) m(2-4) w(2) by metis
qed

definition quiet_run :: "Time Inputs" where
  "quiet_run = (demo_run (\<lambda>_. False))\<lparr>in_rules := demo_rules\<lparr>ru_rules := []\<rparr>\<rparr>"

lemma quiet_run_ok: "inputs_ok quiet_run"
  by (auto simp: quiet_run_def inputs_ok_def demo_run_def permutes_tasks_def demo_rules_def rules_ok_def has_prefix_def marker_prefix_def)

lemma quiet_run_result:
  obtains res ev' c' where "EvaluateProject quiet_run 60 ''p1'' 4000 NewEvaluator empty_ch = ((res, None), ev', c')"
    "ch_points c' = [\<lparr>pr_query = ''up'', pr_hash = 1, pr_t = 3900, pr_v = Fin 1\<rparr>, \<lparr>pr_query = ''up'', pr_hash = 1, pr_t = 3960, pr_v = Fin 2\<rparr>]"
proof -
  let ?q = "\<lparr>qu_Query = ''up'', qu_Labels = Some [''job'']\<rparr>"
  have w: "window_end 4000 = 3960" by code_simp
  have pl: "plan demo_source {''up''} 60 (\<lambda>_. None) 3960 {} [?q] = ([(?q, 3900)], 0)" by code_simp
  have tp: "task_points demo_source 3960 (?q, 3900) =
     [\<lparr>pr_query = ''up'', pr_hash = 1, pr_t = 3900, pr_v = Fin 1\<rparr>, \<lparr>pr_query = ''up'', pr_hash = 1, pr_t = 3960, pr_v = Fin 2\<rparr>]" by code_simp
  obtain res err seen1 c2 where cy: "cycle (\<lambda>_. False) demo_source (\<lambda>ts. ts) [?q] 4000 60 (\<lambda>_. None) newSeriesCache (empty_ch\<lparr>ch_stmts := 1\<rparr>) = ((res, err), seen1, c2)"
    by (metis prod.exhaust)
  have e: "err = None" "re_FirstError res = None" using cycle_no_error [OF _ _ cy] by (simp_all add: demo_source_def demo_answer_def)
  have "ch_points c2 = task_points demo_source 3960 (?q, 3900)"
  proof (cases rule: cycle_cases [OF cy])
    case (2 nms ts n out)
    then have "ts = [(?q, 3900)]" using w pl by (simp add: demo_source_def)
    then have "b_points out = task_points demo_source 3960 (?q, 3900)"
      using 2(3) tasks_points [where src = demo_source and to = 3960 and ts = ts and bs = "(empty_batch, newSeriesCache)"] w by (simp add: empty_batch_def)
    then show ?thesis using 2(4) tp by (auto simp: write_batch_def ch_do_def Let_def insert_points_def empty_ch_def split: if_splits)
  qed (simp add: demo_source_def)
  moreover have "last_of [] since = (\<lambda>_. None)" for since by (simp add: last_of_def fun_eq_iff)
  then have "EvaluateProject quiet_run 60 ''p1'' 4000 NewEvaluator empty_ch = ((res, None), NewEvaluator\<lparr>ev_projects := (ev_projects NewEvaluator)(''p1'' \<mapsto> seen1)\<rparr>, c2)"
    using cy e by (simp add: EvaluateProject_def quiet_run_def demo_run_def project_state_def NewEvaluator_def
        lastPerQuery_def ch_do_def empty_ch_def Let_def recordingRules_def demo_rules_def sort_Strings_def)
  ultimately show thesis using tp that by simp
qed

lemma quiet_run_points:
  "ch_points (snd (runProject quiet_run 60 ''p1'' 4000 0 1 NewEvaluator empty_ch)) =
     [\<lparr>pr_query = ''up'', pr_hash = 1, pr_t = 3900, pr_v = Fin 1\<rparr>, \<lparr>pr_query = ''up'', pr_hash = 1, pr_t = 3960, pr_v = Fin 2\<rparr>]"
  by (rule quiet_run_result) (simp add: runProject_tables)

lemma quiet_run_labelled: "points_labelled (snd (runProject quiet_run 60 ''p1'' 4000 0 1 NewEvaluator empty_ch))"
proof -
  have "project_labelled ''p1'' NewEvaluator empty_ch"
    by (simp add: project_labelled_def points_labelled_def NewEvaluator_def empty_ch_def)
  note l = EvaluateProject_labelled [OF this]
  obtain res ev' c' where "EvaluateProject quiet_run 60 ''p1'' 4000 NewEvaluator empty_ch = ((res, None), ev', c')"
    by (rule quiet_run_result)
  then show ?thesis using l [where inp = quiet_run and err = None] by (simp add: runProject_tables project_labelled_def)
qed

theorem point_read_back_witness:
  "\<exists>mvs mv s. (''up'', mvs) \<in> set (fst (fst (QueryRanges (\<lambda>_. False) exact_arithmetic
       [(''up'', \<lparr>rq_Query = ''up'', rq_From = 3900, rq_To = 4000, rq_Step = ResultsStep, rq_FillFunc = None\<rparr>)]
       [\<lparr>wi_from = 3900, wi_to = 3990, wi_step = ResultsStep\<rparr>] (snd (runProject quiet_run 60 ''p1'' 4000 0 1 NewEvaluator empty_ch))))) \<and>
     mv \<in> set mvs \<and> mv_LabelsHash mv = 1 \<and> mv_Values mv = Some s \<and> ts_data s ! 4 = Fin 2"
proof -
  let ?s = "runProject quiet_run 60 ''p1'' 4000 0 1 NewEvaluator empty_ch"
  let ?rq = "(''up'', \<lparr>rq_Query = ''up'', rq_From = 3900, rq_To = 4000, rq_Step = ResultsStep, rq_FillFunc = None\<rparr>)"
  have "world_step (inputs_ok :: Time Inputs \<Rightarrow> bool) (NewEvaluator, empty_ch) ?s"
    by (rule world_step.run [where allowed = inputs_ok, OF quiet_run_ok]) (simp_all add: duration_defs)
  then have st: "(world_step (inputs_ok :: Time Inputs \<Rightarrow> bool))\<^sup>*\<^sup>* (NewEvaluator, empty_ch) (fst ?s, snd ?s)" by simp
  have tr: "Time_Truncate 3900 ResultsStep = 3900" "Time_Truncate 4000 ResultsStep = 3990" by code_simp+
  from point_read_back [OF st quiet_run_labelled, of "\<lparr>pr_query = ''up'', pr_hash = 1, pr_t = 3960, pr_v = Fin 2\<rparr>" ?rq "[?rq]" "[\<lparr>wi_from = 3900, wi_to = 3990, wi_step = ResultsStep\<rparr>]" exact_arithmetic]
  show ?thesis by (simp add: quiet_run_points has_prefix_def marker_prefix_def windowOf_def tr) (simp add: ResultsStep_15)
qed

end
