(* ===== verification/Net.thy ===== *)
theory Net
  imports Prelude
begin

text \<open>
  The functions of the packages \<^verbatim>\<open>net\<close> and \<^verbatim>\<open>encoding/hex\<close> that the collector uses: hosts with ports, and the
  parser of IP addresses with the kinds of addresses. An address is its 16 bytes, an IPv4 address mapped into IPv6.
\<close>

subsection \<open>Hosts and ports\<close>

definition JoinHostPort :: "string \<Rightarrow> string \<Rightarrow> string" where
  "JoinHostPort host port =
     (if CHR '':'' \<in> set host then ''['' @ host @ '']:'' @ port else host @ '':'' @ port)"

text \<open>What stands before and after the last occurrence of a character.\<close>

definition split_last :: "char \<Rightarrow> string \<Rightarrow> (string \<times> string) option" where
  "split_last c s =
     (if c \<in> set s
      then (let after = rev (takeWhile (\<lambda>x. x \<noteq> c) (rev s)) in Some (take (length s - length after - 1) s, after))
      else None)"

text \<open>\<^verbatim>\<open>SplitHostPort\<close>; an error is \<open>None\<close>.\<close>

definition SplitHostPort :: "string \<Rightarrow> (string \<times> string) option" where
  "SplitHostPort hostport =
     (case split_last CHR '':'' hostport of
        None \<Rightarrow> None
      | Some (front, port) \<Rightarrow>
          if hd hostport = CHR ''['' then
            (let end = length (takeWhile (\<lambda>x. x \<noteq> CHR '']'') hostport);
                 host = drop 1 (take end hostport)
             in if end = length hostport then None
                else if end + 1 \<noteq> length front then None
                else if CHR ''['' \<in> set (drop 1 hostport) \<or> CHR '']'' \<in> set (drop (end + 1) hostport) then None
                else Some (host, port))
          else if CHR '':'' \<in> set front then None
          else if CHR ''['' \<in> set hostport \<or> CHR '']'' \<in> set hostport then None
          else Some (front, port))"

lemma split_last_append: "c \<notin> set t \<Longrightarrow> split_last c (s @ c # t) = Some (s, t)"
proof -
  assume c: "c \<notin> set t"
  have "takeWhile (\<lambda>x. x \<noteq> c) (rev (s @ c # t)) = rev t"
    using c by (simp add: takeWhile_append)
  then show ?thesis by (simp add: split_last_def)
qed

text \<open>Parts without brackets, and a port without a colon, are joined and split again.\<close>

lemma SplitHostPort_Join:
  assumes "CHR ''['' \<notin> set host" "CHR '']'' \<notin> set host" "CHR ''['' \<notin> set port" "CHR '']'' \<notin> set port" "CHR '':'' \<notin> set port"
  shows "SplitHostPort (JoinHostPort host port) = Some (host, port)"
proof (cases "CHR '':'' \<in> set host")
  case True
  have "split_last CHR '':'' (''['' @ host @ '']:'' @ port) = Some (''['' @ host @ '']'', port)"
    using split_last_append [OF assms(5), of "''['' @ host @ '']''"] by simp
  moreover have "takeWhile (\<lambda>x. x \<noteq> CHR '']'') (''['' @ host @ '']:'' @ port) = CHR ''['' # host"
    using assms(2) by (simp add: takeWhile_append)
  ultimately show ?thesis using assms True by (simp add: JoinHostPort_def SplitHostPort_def Let_def)
next
  case False
  have "split_last CHR '':'' (host @ '':'' @ port) = Some (host, port)" using split_last_append [OF assms(5), of host] by simp
  moreover have "hd (host @ '':'' @ port) \<noteq> CHR ''[''" using assms(1) by (cases host) auto
  ultimately show ?thesis using assms False by (simp add: JoinHostPort_def SplitHostPort_def)
qed

subsection \<open>IP addresses\<close>

definition is_octet :: "string \<Rightarrow> bool" where
  "is_octet s \<longleftrightarrow> s \<noteq> [] \<and> list_all is_digit s \<and> (hd s = CHR ''0'' \<longrightarrow> length s = 1) \<and> digits_value s \<le> 255"

text \<open>Four fields of digits without leading zeros.\<close>

definition parseIPv4 :: "string \<Rightarrow> nat list option" where
  "parseIPv4 s =
     (let fs = strings_Split s CHR ''.'' in if length fs = 4 \<and> list_all is_octet fs then Some (map digits_value fs) else None)"

definition hex_value :: "char \<Rightarrow> nat option" where
  "hex_value c =
     (let n = of_char c :: nat
      in if 48 \<le> n \<and> n \<le> 57 then Some (n - 48)
         else if 97 \<le> n \<and> n \<le> 102 then Some (n - 87)
         else if 65 \<le> n \<and> n \<le> 70 then Some (n - 55)
         else None)"

definition is_hex :: "char \<Rightarrow> bool" where
  "is_hex c \<longleftrightarrow> hex_value c \<noteq> None"

definition hexadecimal :: "string \<Rightarrow> nat" where
  "hexadecimal s = foldl (\<lambda>acc c. acc * 16 + the (hex_value c)) 0 s"

lemma group_shorter:
  "dropWhile P s \<noteq> [] \<Longrightarrow> length (dropWhile P s) - Suc 0 < length s" "dropWhile P s \<noteq> [] \<Longrightarrow> length (dropWhile P s) - Suc (Suc 0) < length s"
  using length_dropWhile_le [of P s] by (cases s; cases "dropWhile P s"; simp)+

text \<open>
  The loop over the groups of an IPv6 address: the bytes so far and where the ellipsis is. The last group may
  be an IPv4 address.
\<close>

function parse_groups :: "string \<Rightarrow> nat list \<Rightarrow> nat option \<Rightarrow> (nat list \<times> nat option) option" where
  "parse_groups s bytes ellipsis =
     (let hex = takeWhile is_hex s; rest = dropWhile is_hex s;
          bytes1 = bytes @ [hexadecimal hex div 256, hexadecimal hex mod 256]
      in if length bytes \<ge> 16 then (if s = [] then Some (bytes, ellipsis) else None)
         else if hex = [] \<or> length hex > 4 then None
         else if rest = [] then Some (bytes1, ellipsis)
         else if hd rest = CHR ''.'' then
           (if ellipsis = None \<and> length bytes \<noteq> 12 then None
            else if length bytes + 4 > 16 then None
            else map_option (\<lambda>fs. (bytes @ fs, ellipsis)) (parseIPv4 s))
         else if hd rest \<noteq> CHR '':'' \<or> tl rest = [] then None
         else if hd (tl rest) \<noteq> CHR '':'' then parse_groups (tl rest) bytes1 ellipsis
         else if ellipsis \<noteq> None then None
         else if tl (tl rest) = [] then Some (bytes1, Some (length bytes1))
         else parse_groups (tl (tl rest)) bytes1 (Some (length bytes1)))"
  by pat_completeness auto
termination
  by (relation "measure (\<lambda>(s, _, _). length s)") (auto simp: group_shorter)

declare parse_groups.simps [simp del]

definition parseIPv6 :: "string \<Rightarrow> nat list option" where
  "parseIPv6 s =
     (let leading = (take 2 s = ''::''); s1 = (if leading then drop 2 s else s)
      in if leading \<and> s1 = [] then Some (replicate 16 0)
         else
           (case parse_groups s1 [] (if leading then Some 0 else None) of
              None \<Rightarrow> None
            | Some (bytes, None) \<Rightarrow> if length bytes = 16 then Some bytes else None
            | Some (bytes, Some e) \<Rightarrow> if length bytes < 16 then Some (take e bytes @ replicate (16 - length bytes) 0 @ drop e bytes) else None))"

text \<open>\<^verbatim>\<open>net.ParseIP\<close>: the first of dot, colon and percent decides; an address with a zone is refused.\<close>

definition ParseIP :: "string \<Rightarrow> nat list option" where
  "ParseIP s =
     (case find (\<lambda>c. c \<in> {CHR ''.'', CHR '':'', CHR ''%''}) s of
        None \<Rightarrow> None
      | Some c \<Rightarrow>
          if c = CHR ''.'' then map_option (\<lambda>b. replicate 10 0 @ [255, 255] @ b) (parseIPv4 s)
          else if c = CHR '':'' then (if CHR ''%'' \<in> set s then None else parseIPv6 s)
          else None)"

definition To4 :: "nat list \<Rightarrow> nat list option" where
  "To4 ip = (if take 12 ip = replicate 10 0 @ [255, 255] then Some (drop 12 ip) else None)"

definition IsLoopback :: "nat list \<Rightarrow> bool" where
  "IsLoopback ip = (case To4 ip of Some b \<Rightarrow> hd b = 127 | None \<Rightarrow> ip = replicate 15 0 @ [1])"

definition IsUnspecified :: "nat list \<Rightarrow> bool" where
  "IsUnspecified ip \<longleftrightarrow> To4 ip = Some [0, 0, 0, 0] \<or> ip = replicate 16 0"

definition IsLinkLocalUnicast :: "nat list \<Rightarrow> bool" where
  "IsLinkLocalUnicast ip =
     (case To4 ip of Some b \<Rightarrow> take 2 b = [169, 254] | None \<Rightarrow> ip ! 0 = 254 \<and> ip ! 1 div 64 = 2)"

subsection \<open>Hexadecimal text\<close>

definition hex_digit :: "nat \<Rightarrow> char" where
  "hex_digit n = char_of (if n < 10 then 48 + n else 87 + n)"

definition EncodeToString :: "string \<Rightarrow> string" where
  "EncodeToString s = concat (map (\<lambda>c. [hex_digit (of_char c div 16), hex_digit (of_char c mod 16)]) s)"

text \<open>\<^verbatim>\<open>strconv.ParseUint(s, 16, 64)\<close>; an error is \<open>None\<close>.\<close>

definition ParseUint16 :: "string \<Rightarrow> nat option" where
  "ParseUint16 s = (if s \<noteq> [] \<and> list_all is_hex s \<and> hexadecimal s < 2 ^ 64 then Some (hexadecimal s) else None)"

end
