(* ===== verification/SpanServers.thy ===== *)
theory SpanServers
  imports Prelude
begin

text \<open>
  Which span of a request the views count (\<^verbatim>\<open>collector/request_counting.go\<close>). A request may be recorded by its
  client and by its server, and there by the node agent and by an SDK. The collector remembers which servers
  record their side. A \<^verbatim>\<open>time.Time\<close> is its distance from the zero time in nanoseconds, so the zero time is 0;
  \<^verbatim>\<open>Time.Sub\<close> saturates after 292 years, which does not change a comparison with an hour.
\<close>

type_synonym instant = int

definition nanoseconds :: "int \<Rightarrow> int" where "nanoseconds seconds = seconds * 1000000000"

definition serverSpanMemory :: int where "serverSpanMemory = nanoseconds 3600"

lemma serverSpanMemory_pos [simp]: "0 < serverSpanMemory"
  by (simp add: serverSpanMemory_def nanoseconds_def)

type_synonym attributes = "string \<rightharpoonup> string"

text \<open>A Go map read at a key that is missing gives the empty string.\<close>

definition attr :: "attributes \<Rightarrow> string \<Rightarrow> string" where
  "attr m k = (case m k of None \<Rightarrow> [] | Some v \<Rightarrow> v)"

definition requestProtocol :: "attributes \<Rightarrow> string" where
  "requestProtocol a =
     (if attr a ''db.system'' \<noteq> [] then attr a ''db.system''
      else if attr a ''rpc.system'' = ''grpc'' \<or> attr a ''rpc.grpc.status_code'' \<noteq> [] then ''grpc''
      else if attr a ''http.method'' \<noteq> [] \<or> attr a ''http.request.method'' \<noteq> [] then ''http''
      else [])"

text \<open>A server and a protocol.\<close>

type_synonym serverProtocol = "string \<times> string"

record serverSpanSources =
  sv_byAgent :: "serverProtocol \<rightharpoonup> instant"
  sv_bySDK :: "serverProtocol \<rightharpoonup> instant"
  sv_lastPrune :: instant

record serverSpanSource =
  src_server :: string
  src_protocol :: string
  src_fromAgent :: bool
  src_lastSeen :: instant

definition newServerSpanSources :: serverSpanSources where
  "newServerSpanSources = \<lparr>sv_byAgent = (\<lambda>_. None), sv_bySDK = (\<lambda>_. None), sv_lastPrune = 0\<rparr>"

definition recent_source :: "(serverProtocol \<rightharpoonup> instant) \<Rightarrow> serverProtocol \<Rightarrow> instant \<Rightarrow> bool" where
  "recent_source sources key now = (case sources key of None \<Rightarrow> False | Some seen \<Rightarrow> now - seen < serverSpanMemory)"

definition forget_sources :: "instant \<Rightarrow> (serverProtocol \<rightharpoonup> instant) \<Rightarrow> (serverProtocol \<rightharpoonup> instant)" where
  "forget_sources now sources = (\<lambda>key. case sources key of None \<Rightarrow> None | Some seen \<Rightarrow> if now - seen \<ge> serverSpanMemory then None else Some seen)"

definition prune_sources :: "instant \<Rightarrow> serverSpanSources \<Rightarrow> serverSpanSources" where
  "prune_sources now s =
     (if now - sv_lastPrune s < serverSpanMemory then s
      else s\<lparr>sv_lastPrune := now, sv_byAgent := forget_sources now (sv_byAgent s), sv_bySDK := forget_sources now (sv_bySDK s)\<rparr>)"

text \<open>\<^verbatim>\<open>counted\<close> after the pruning, and with it.\<close>

definition count_span :: "string \<Rightarrow> bool \<Rightarrow> serverProtocol \<Rightarrow> instant \<Rightarrow> serverSpanSources \<Rightarrow> bool \<times> serverSpanSources" where
  "count_span spanKind fromAgent key now s =
     (if spanKind = ''SPAN_KIND_SERVER'' then
        (if snd key = [] then (True, s)
         else if \<not> fromAgent then (True, s\<lparr>sv_bySDK := (sv_bySDK s)(key \<mapsto> now)\<rparr>)
         else
           (let s1 = s\<lparr>sv_byAgent := (sv_byAgent s)(key \<mapsto> now)\<rparr>
            in (\<not> recent_source (sv_bySDK s1) key now, s1)))
      else if spanKind = ''SPAN_KIND_CLIENT'' then
        (if snd key = [] then (True, s)
         else (\<not> recent_source (sv_byAgent s) key now \<and> \<not> recent_source (sv_bySDK s) key now, s))
      else (True, s))"

definition counted :: "string \<Rightarrow> bool \<Rightarrow> string \<Rightarrow> string \<Rightarrow> instant \<Rightarrow> serverSpanSources \<Rightarrow> bool \<times> serverSpanSources" where
  "counted spanKind fromAgent server protocol now s = count_span spanKind fromAgent (server, protocol) now (prune_sources now s)"

definition keep_later :: "instant \<Rightarrow> serverProtocol \<Rightarrow> (serverProtocol \<rightharpoonup> instant) \<Rightarrow> (serverProtocol \<rightharpoonup> instant)" where
  "keep_later lastSeen key known =
     (if lastSeen > (case known key of None \<Rightarrow> 0 | Some seen \<Rightarrow> seen) then known(key \<mapsto> lastSeen) else known)"

definition remember_source :: "serverSpanSource \<Rightarrow> serverSpanSources \<Rightarrow> serverSpanSources" where
  "remember_source source s =
     (let key = (src_server source, src_protocol source)
      in if src_fromAgent source then s\<lparr>sv_byAgent := keep_later (src_lastSeen source) key (sv_byAgent s)\<rparr>
         else s\<lparr>sv_bySDK := keep_later (src_lastSeen source) key (sv_bySDK s)\<rparr>)"

definition remember_sources :: "serverSpanSource list \<Rightarrow> serverSpanSources \<Rightarrow> serverSpanSources" where
  "remember_sources sources s = fold remember_source sources s"

subsection \<open>Counting by history\<close>

text \<open>
  What the collector does with the sources, in the order in which it takes the lock: it decides on a span,
  or remembers rows read from ClickHouse. A run gives the answers for the spans.
\<close>

datatype source_event =
    Span string bool serverProtocol instant
  | Rows "serverSpanSource list" instant

fun run_event :: "source_event \<Rightarrow> serverSpanSources \<Rightarrow> bool list \<times> serverSpanSources" where
  "run_event (Span k a key now) s = (let (b, s') = counted k a (fst key) (snd key) now s in ([b], s'))"
| "run_event (Rows rows now) s = ([], remember_sources rows s)"

fun run_events :: "source_event list \<Rightarrow> serverSpanSources \<Rightarrow> bool list \<times> serverSpanSources" where
  "run_events [] s = ([], s)"
| "run_events (e # es) s = (let (bs, s1) = run_event e s; (bs', s2) = run_events es s1 in (bs @ bs', s2))"

text \<open>The clock does not go back, and a row is not from the future.\<close>

fun clock_ok :: "instant \<Rightarrow> source_event list \<Rightarrow> bool" where
  "clock_ok t [] = True"
| "clock_ok t (Span k a key now # es) = (t \<le> now \<and> clock_ok now es)"
| "clock_ok t (Rows rows now # es) = (t \<le> now \<and> list_all (\<lambda>r. 0 < src_lastSeen r \<and> src_lastSeen r \<le> now) rows \<and> clock_ok now es)"

text \<open>
  The specification: an event teaches that a server records its side of a protocol, at the node agent or in
  its SDK; a client span counts if nothing of the last hour taught so, a server span of the node agent if
  nothing taught so of the SDK. It speaks of the history only, and forgets nothing.
\<close>

fun taught :: "bool \<Rightarrow> serverProtocol \<Rightarrow> instant \<Rightarrow> source_event \<Rightarrow> bool" where
  "taught agent key now (Span k a key' t) \<longleftrightarrow> k = ''SPAN_KIND_SERVER'' \<and> a = agent \<and> key' = key \<and> snd key \<noteq> [] \<and> now - t < serverSpanMemory"
| "taught agent key now (Rows rows t) \<longleftrightarrow>
     list_ex (\<lambda>r. src_fromAgent r = agent \<and> (src_server r, src_protocol r) = key \<and> now - src_lastSeen r < serverSpanMemory) rows"

fun expected_answer :: "source_event list \<Rightarrow> source_event \<Rightarrow> bool list" where
  "expected_answer past (Span k a key now) =
     [if snd key = [] then True
      else if k = ''SPAN_KIND_SERVER'' then (\<not> a \<or> \<not> list_ex (taught False key now) past)
      else if k = ''SPAN_KIND_CLIENT'' then (\<not> list_ex (taught True key now) past \<and> \<not> list_ex (taught False key now) past)
      else True]"
| "expected_answer past (Rows rows now) = []"

fun expected_answers :: "source_event list \<Rightarrow> source_event list \<Rightarrow> bool list" where
  "expected_answers past [] = []"
| "expected_answers past (e # es) = expected_answer past e @ expected_answers (past @ [e]) es"

text \<open>The sources of one kind know what the history taught, at the time \<open>clock\<close> and later.\<close>

definition knows :: "instant \<Rightarrow> bool \<Rightarrow> source_event list \<Rightarrow> (serverProtocol \<rightharpoonup> instant) \<Rightarrow> bool" where
  "knows clock agent past m \<longleftrightarrow>
     (\<forall>key. (\<forall>seen. m key = Some seen \<longrightarrow> seen \<le> clock) \<and>
        (\<forall>now\<ge>clock. recent_source m key now \<longleftrightarrow> list_ex (taught agent key now) past))"

lemma knowsI:
  "(\<And>key seen. m key = Some seen \<Longrightarrow> seen \<le> clock) \<Longrightarrow>
   (\<And>key now. clock \<le> now \<Longrightarrow> recent_source m key now \<longleftrightarrow> list_ex (taught agent key now) past) \<Longrightarrow> knows clock agent past m"
  unfolding knows_def by blast

lemma knows_bound: "knows clock agent past m \<Longrightarrow> m key = Some seen \<Longrightarrow> seen \<le> clock"
  unfolding knows_def by blast

lemma knows_recent: "knows clock agent past m \<Longrightarrow> clock \<le> now \<Longrightarrow> recent_source m key now \<longleftrightarrow> list_ex (taught agent key now) past"
  unfolding knows_def by blast

lemma knows_later: "knows clock agent past m \<Longrightarrow> clock \<le> clock' \<Longrightarrow> knows clock' agent past m"
  unfolding knows_def by (meson order_trans)

lemma knows_forget: "knows clock agent past m \<Longrightarrow> knows clock agent past (forget_sources clock m)"
proof (rule knowsI)
  assume k: "knows clock agent past m"
  show "seen \<le> clock" if "forget_sources clock m key = Some seen" for key seen
    using that knows_bound [OF k, of key seen] by (auto simp: forget_sources_def split: option.splits if_splits)
  show "recent_source (forget_sources clock m) key now \<longleftrightarrow> list_ex (taught agent key now) past" if "clock \<le> now" for key now
    using that unfolding knows_recent [OF k that, symmetric] by (auto simp: recent_source_def forget_sources_def split: option.splits)
qed

lemma knows_skip: "knows clock agent past m \<Longrightarrow> (\<And>key now. \<not> taught agent key now e) \<Longrightarrow> knows clock agent (past @ [e]) m"
  unfolding knows_def by simp

lemma knows_set:
  assumes k: "knows clock agent past m" and key: "snd key \<noteq> []"
  shows "knows clock agent (past @ [Span ''SPAN_KIND_SERVER'' agent key clock]) (m(key \<mapsto> clock))"
proof (rule knowsI)
  show "seen \<le> clock" if "(m(key \<mapsto> clock)) k = Some seen" for k seen
    using that knows_bound [OF k, of k seen] by (auto split: if_splits)
  fix k' now assume now: "clock \<le> now"
  have "recent_source (m(key \<mapsto> clock)) k' now \<longleftrightarrow> recent_source m k' now \<or> (key = k' \<and> now - clock < serverSpanMemory)"
    by (cases "k' = key"; cases "m key") (use knows_bound [OF k, of key] in \<open>auto simp: recent_source_def\<close>)
  then show "recent_source (m(key \<mapsto> clock)) k' now \<longleftrightarrow> list_ex (taught agent k' now) (past @ [Span ''SPAN_KIND_SERVER'' agent key clock])"
    using knows_recent [OF k now] key by auto
qed

lemma recent_keep_later:
  assumes "0 < l"
  shows "recent_source (keep_later l key m) k now \<longleftrightarrow> recent_source m k now \<or> (k = key \<and> now - l < serverSpanMemory)"
  using assms by (auto simp: recent_source_def keep_later_def split: option.splits)

definition source_of :: "bool \<Rightarrow> serverSpanSources \<Rightarrow> serverProtocol \<rightharpoonup> instant" where
  "source_of agent s = (if agent then sv_byAgent s else sv_bySDK s)"

lemma source_of_remember:
  "source_of agent (remember_source r s) =
     (if src_fromAgent r = agent then keep_later (src_lastSeen r) (src_server r, src_protocol r) (source_of agent s) else source_of agent s)"
  by (auto simp: source_of_def remember_source_def Let_def)

lemma remember_recent:
  "list_all (\<lambda>r. 0 < src_lastSeen r) rows \<Longrightarrow>
   recent_source (source_of agent (remember_sources rows s)) key now \<longleftrightarrow>
     recent_source (source_of agent s) key now \<or> taught agent key now (Rows rows t)"
  unfolding remember_sources_def
  by (induction rows arbitrary: s) (auto simp: source_of_remember recent_keep_later)

lemma remember_bound:
  "list_all (\<lambda>r. src_lastSeen r \<le> now) rows \<Longrightarrow> (\<And>key seen. source_of agent s key = Some seen \<Longrightarrow> seen \<le> now) \<Longrightarrow>
   source_of agent (remember_sources rows s) key = Some seen \<Longrightarrow> seen \<le> now"
  unfolding remember_sources_def
proof (induction rows arbitrary: s)
  case (Cons r rows)
  have "seen' \<le> now" if "source_of agent (remember_source r s) key' = Some seen'" for key' seen'
    using that Cons.prems(1,2) by (auto simp: source_of_remember keep_later_def split: if_splits)
  then show ?case using Cons.IH [of "remember_source r s"] Cons.prems(1,3) by simp
qed simp

lemma knows_rows:
  assumes "knows clock agent past (source_of agent s)" "clock \<le> now" "list_all (\<lambda>r. 0 < src_lastSeen r \<and> src_lastSeen r \<le> now) rows"
  shows "knows now agent (past @ [Rows rows now]) (source_of agent (remember_sources rows s))"
proof -
  have k: "knows now agent past (source_of agent s)" by (rule knows_later [OF assms(1,2)])
  have r: "list_all (\<lambda>r. 0 < src_lastSeen r) rows" "list_all (\<lambda>r. src_lastSeen r \<le> now) rows" using assms(3) by (auto simp: list_all_iff)
  show ?thesis
  proof (rule knowsI)
    show "seen \<le> now" if "source_of agent (remember_sources rows s) key = Some seen" for key seen
      by (rule remember_bound [OF r(2) _ that]) (rule knows_bound [OF k])
    show "recent_source (source_of agent (remember_sources rows s)) key now' \<longleftrightarrow> list_ex (taught agent key now') (past @ [Rows rows now])"
      if "now \<le> now'" for key now'
      using knows_recent [OF k that] remember_recent [OF r(1), of agent s key now' now] by (simp del: taught.simps)
  qed
qed

definition history_inv :: "instant \<Rightarrow> source_event list \<Rightarrow> serverSpanSources \<Rightarrow> bool" where
  "history_inv clock past s \<longleftrightarrow> knows clock True past (source_of True s) \<and> knows clock False past (source_of False s)"

lemma history_prune: "history_inv clock past s \<Longrightarrow> history_inv clock past (prune_sources clock s)"
  by (auto simp: history_inv_def prune_sources_def source_of_def knows_forget)

lemma history_count:
  assumes "history_inv now past s"
  shows "[fst (count_span k a key now s)] = expected_answer past (Span k a key now) \<and> history_inv now (past @ [Span k a key now]) (snd (count_span k a key now s))"
proof (cases "k = ''SPAN_KIND_SERVER'' \<and> snd key \<noteq> []")
  case True
  then have t: "\<not> taught (\<not> a) key' now' (Span k a key now)" for key' now' by simp
  have "fst (count_span k a key now s) = (\<not> a \<or> \<not> recent_source (source_of False s) key now)"
    using True by (auto simp: count_span_def source_of_def Let_def)
  moreover have "source_of a (snd (count_span k a key now s)) = (source_of a s)(key \<mapsto> now)" "source_of (\<not> a) (snd (count_span k a key now s)) = source_of (\<not> a) s"
    using True by (auto simp: count_span_def source_of_def Let_def)
  moreover have "knows now a (past @ [Span k a key now]) ((source_of a s)(key \<mapsto> now))"
      "knows now (\<not> a) (past @ [Span k a key now]) (source_of (\<not> a) s)"
    using assms True knows_set [of now a past "source_of a s" key] knows_skip [of now "\<not> a" past "source_of (\<not> a) s" "Span k a key now", OF _ t]
    by (cases a; simp add: history_inv_def del: taught.simps)+
  moreover have "recent_source (source_of False s) key now \<longleftrightarrow> list_ex (taught False key now) past"
    by (rule knows_recent [where clock = now]) (use assms in \<open>simp_all add: history_inv_def\<close>)
  ultimately show ?thesis using True by (cases a) (simp_all add: history_inv_def del: taught.simps)
next
  case False
  then have t: "\<not> taught agent key' now' (Span k a key now)" for agent key' now' by auto
  have "snd (count_span k a key now s) = s" using False by (auto simp: count_span_def)
  moreover have "fst (count_span k a key now s) \<longleftrightarrow> snd key = [] \<or> k \<noteq> ''SPAN_KIND_CLIENT'' \<or>
      \<not> recent_source (source_of True s) key now \<and> \<not> recent_source (source_of False s) key now"
    using False by (auto simp: count_span_def source_of_def)
  ultimately show ?thesis using assms False t by (auto simp: history_inv_def knows_skip knows_recent simp del: taught.simps)
qed

lemma run_history:
  assumes "history_inv t past s" "clock_ok t es"
  shows "fst (run_events es s) = expected_answers past es"
  using assms
proof (induction es arbitrary: t past s)
  case (Cons e es)
  show ?case
  proof (cases e)
    case (Span k a key now)
    then have t: "t \<le> now" "clock_ok now es" using Cons.prems(2) by auto
    have "history_inv now past s" using Cons.prems(1) t(1) knows_later by (auto simp: history_inv_def)
    from history_count [OF history_prune [OF this], of k a key]
    show ?thesis using Cons.IH [OF _ t(2)] Span
      by (simp add: counted_def case_prod_beta Let_def del: expected_answer.simps)
  next
    case (Rows rows now)
    have "t \<le> now" "list_all (\<lambda>r. 0 < src_lastSeen r \<and> src_lastSeen r \<le> now) rows" using Cons.prems(2) Rows by auto
    from Cons.prems(1) knows_rows [OF _ this, of True past s] knows_rows [OF _ this, of False past s]
    have "history_inv now (past @ [e]) (remember_sources rows s)" using Rows by (simp add: history_inv_def)
    then show ?thesis using Cons.IH [of now] Cons.prems(2) Rows by (simp add: case_prod_beta Let_def)
  qed
qed simp

text \<open>
  C15. Each request is counted by the rules, whatever spans and rows come in whatever order: a server span of
  an SDK counts; one of the node agent counts unless an SDK told of the same server and protocol within the
  last hour; a client span counts unless the server told of its side within the last hour. Forgetting old
  servers does not change this, so a request recorded by a known server is counted once, and no request is
  left uncounted unless its server was heard of within the hour.
\<close>

theorem spans_counted_by_history:
  assumes "clock_ok t es"
  shows "fst (run_events es newServerSpanSources) = expected_answers [] es"
  by (rule run_history [OF _ assms]) (simp add: history_inv_def knows_def source_of_def newServerSpanSources_def recent_source_def)

theorem spans_counted_by_history_witness:
  "fst (run_events [Span ''SPAN_KIND_CLIENT'' True (''s'', ''http'') 5, Span ''SPAN_KIND_SERVER'' True (''s'', ''http'') 6,
      Span ''SPAN_KIND_CLIENT'' True (''s'', ''http'') 7, Span ''SPAN_KIND_CLIENT'' True (''s'', ''http'') (6 + serverSpanMemory)] newServerSpanSources)
   = [True, True, False, True]"
  by (subst spans_counted_by_history [of 0]) (simp_all add: serverSpanMemory_def nanoseconds_def)

end
