(* ===== verification/Directory.thy ===== *)
theory Directory
  imports Net SpanServers Applications TimeSeries Utils "HOL-Library.AList"
begin

text \<open>
  The application directory of the collector (\<^verbatim>\<open>collector/applications.go\<close>), which names the applications on
  the two sides of a span, with \<^verbatim>\<open>GuessService\<close> of \<^verbatim>\<open>model/container.go\<close>. The applications of the world, the
  listens of an instance and the owners of addresses are Go maps: lists in the order of their iteration.
  \<^verbatim>\<open>url.Parse\<close> is an argument: the host of a text, \<open>None\<close> for an error.
\<close>

subsection \<open>What the directory is built from\<close>

record Listen =
  li_IP :: string
  li_Port :: string
  li_Proxied :: bool

record DirectoryPod =
  wp_Phase :: string
  wp_IP :: string
  wp_LifeSpan :: "TimeSeries option"

text \<open>An instance with the version of the agent of its node, if it has one.\<close>

record DirectoryInstance =
  wi_Name :: string
  wi_Pod :: "DirectoryPod option"
  wi_AgentVersion :: "string option"
  wi_TcpListens :: "(Listen \<times> bool) list"
  wi_Containers :: "string list"

record KubernetesService =
  ks_Name :: string
  ks_Namespace :: string
  ks_ClusterIP :: string

record DirectoryApp =
  wa_Id :: ApplicationId
  wa_Instances :: "DirectoryInstance list"
  wa_KubernetesServices :: "KubernetesService list"
  wa_TracingService :: "string option"

text \<open>Nodes have interfaces, and these have addresses.\<close>

record DirectoryWorld =
  xw_Applications :: "(ApplicationId \<times> DirectoryApp) list"
  xw_Nodes :: "string list list list"

definition Pod_IsObsolete :: "DirectoryPod \<Rightarrow> bool" where
  "Pod_IsObsolete p \<longleftrightarrow> wp_Phase p = []"

definition applicationName :: "ApplicationId \<Rightarrow> string" where
  "applicationName i =
     (if Namespace i = [] \<or> Namespace i = ''_'' \<or> Kind i = ApplicationKindExternalService then Name i
      else Namespace i @ ''/'' @ Name i)"

subsection \<open>Owners of addresses\<close>

record addressOwner =
  ow_application :: string
  ow_alive :: bool
  ow_lastSeen :: Time
  ow_traced :: bool

definition replaces :: "addressOwner \<Rightarrow> addressOwner \<Rightarrow> bool" where
  "replaces owner other = (if ow_alive owner \<noteq> ow_alive other then ow_alive owner else ow_lastSeen owner > ow_lastSeen other)"

type_synonym owners = "(string \<times> addressOwner) list"

definition own :: "string \<Rightarrow> addressOwner \<Rightarrow> owners \<Rightarrow> owners" where
  "own address owner os =
     (case map_of os address of
        None \<Rightarrow> AList.update address owner os
      | Some cur \<Rightarrow> if replaces owner cur then AList.update address owner os else os)"

record directory_build =
  bd_ip :: owners
  bd_listen :: owners
  bd_container :: "string \<rightharpoonup> string"
  bd_pod :: "string \<rightharpoonup> string"
  bd_service :: "string \<rightharpoonup> string"
  bd_tracing :: "string \<rightharpoonup> string"

definition empty_build :: directory_build where
  "empty_build = \<lparr>bd_ip = [], bd_listen = [], bd_container = (\<lambda>_. None), bd_pod = (\<lambda>_. None), bd_service = (\<lambda>_. None), bd_tracing = (\<lambda>_. None)\<rparr>"

definition pod_owner :: "string \<Rightarrow> DirectoryInstance \<Rightarrow> DirectoryPod \<Rightarrow> addressOwner" where
  "pod_owner name i p = \<lparr>ow_application = name, ow_alive = (\<not> Pod_IsObsolete p), ow_lastSeen = fst (LastNotNull (wp_LifeSpan p)),
     ow_traced = (case wi_AgentVersion i of None \<Rightarrow> False | Some v \<Rightarrow> v \<noteq> [])\<rparr>"

definition add_pod :: "ApplicationId \<Rightarrow> DirectoryInstance \<Rightarrow> directory_build \<Rightarrow> directory_build" where
  "add_pod appId i b =
     (case wi_Pod i of
        None \<Rightarrow> b
      | Some p \<Rightarrow>
          (let name = applicationName appId; b1 = (if wp_IP p \<noteq> [] then b\<lparr>bd_ip := own (wp_IP p) (pod_owner name i p) (bd_ip b)\<rparr> else b)
           in b1\<lparr>bd_pod := (bd_pod b1)(Namespace appId @ ''/'' @ wi_Name i \<mapsto> name)\<rparr>))"

definition listen_owner :: "string \<Rightarrow> bool \<Rightarrow> addressOwner" where
  "listen_owner name active = \<lparr>ow_application = name, ow_alive = active, ow_lastSeen = 0, ow_traced = False\<rparr>"

definition add_listen :: "string \<Rightarrow> Listen \<times> bool \<Rightarrow> directory_build \<Rightarrow> directory_build" where
  "add_listen name l b =
     (let owner = listen_owner name (snd l)
      in if li_Port (fst l) = ''0'' then b\<lparr>bd_ip := own (li_IP (fst l)) owner (bd_ip b)\<rparr>
         else b\<lparr>bd_listen := own (JoinHostPort (li_IP (fst l)) (li_Port (fst l))) owner (bd_listen b)\<rparr>)"

definition add_instance :: "ApplicationId \<Rightarrow> DirectoryInstance \<Rightarrow> directory_build \<Rightarrow> directory_build" where
  "add_instance appId i b =
     (let name = applicationName appId;
          b1 = fold (add_listen name) (wi_TcpListens i) (add_pod appId i b)
      in fold (\<lambda>c b. b\<lparr>bd_container := (bd_container b)(c \<mapsto> name)\<rparr>) (wi_Containers i) b1)"

definition add_service :: "string \<Rightarrow> KubernetesService \<Rightarrow> directory_build \<Rightarrow> directory_build" where
  "add_service name s b =
     (let b1 = b\<lparr>bd_service := (bd_service b)(ks_Name s @ ''.'' @ ks_Namespace s \<mapsto> name)\<rparr>
      in if ks_ClusterIP s \<noteq> [] then b1\<lparr>bd_service := (bd_service b1)(ks_ClusterIP s \<mapsto> name)\<rparr> else b1)"

definition add_app :: "ApplicationId \<times> DirectoryApp \<Rightarrow> directory_build \<Rightarrow> directory_build" where
  "add_app x b =
     (let (appId, app) = x; name = applicationName appId;
          b1 = fold (add_instance appId) (wa_Instances app) b;
          b2 = fold (add_service name) (wa_KubernetesServices app) b1
      in case wa_TracingService app of
           None \<Rightarrow> b2
         | Some s \<Rightarrow> if s \<noteq> [] then b2\<lparr>bd_tracing := (bd_tracing b2)(s \<mapsto> name)\<rparr> else b2)"

subsection \<open>The directory\<close>

record ApplicationDirectory =
  ad_world :: "(ApplicationId \<times> DirectoryApp) list"
  ad_byListen :: "string \<rightharpoonup> string"
  ad_byIp :: "string \<rightharpoonup> string"
  ad_byContainerId :: "string \<rightharpoonup> string"
  ad_byPod :: "string \<rightharpoonup> string"
  ad_byService :: "string \<rightharpoonup> string"
  ad_byTracing :: "string \<rightharpoonup> string"
  ad_guessed :: "string \<rightharpoonup> string"
  ad_tracedClients :: "string list"
  ad_nodeIps :: "string set"

definition owner_names :: "owners \<Rightarrow> string \<rightharpoonup> string" where
  "owner_names os = map_of (map (\<lambda>(a, o'). (a, ow_application o')) os)"

definition NewApplicationDirectory :: "DirectoryWorld \<Rightarrow> ApplicationDirectory" where
  "NewApplicationDirectory w =
     (let b = fold add_app (xw_Applications w) empty_build
      in \<lparr>ad_world = xw_Applications w, ad_byListen = owner_names (bd_listen b), ad_byIp = owner_names (bd_ip b),
          ad_byContainerId = bd_container b, ad_byPod = bd_pod b, ad_byService = bd_service b, ad_byTracing = bd_tracing b,
          ad_guessed = (\<lambda>_. None), ad_tracedClients = sort_Strings (map fst (filter (\<lambda>(_, o'). ow_traced o') (bd_ip b))),
          ad_nodeIps = set (concat (concat (xw_Nodes w)))\<rparr>)"

subsection \<open>Guessing an application by the name of a service\<close>

definition has_suffix :: "string \<Rightarrow> string \<Rightarrow> bool" where
  "has_suffix s t \<longleftrightarrow> length t \<le> length s \<and> drop (length s - length t) s = t"

definition service_matches :: "ApplicationId \<Rightarrow> string \<Rightarrow> bool" where
  "service_matches appId s \<longleftrightarrow>
     (let parts = strings_Split s CHR ''/''
      in length parts = 4 \<and> parts ! 1 = ''k8s'' \<and> parts ! 2 = Namespace appId \<and> parts ! 3 = Name appId \<or>
         length parts = 4 \<and> parts ! 1 = ''k8s-cronjob'' \<and> parts ! 2 = Namespace appId \<and> parts ! 3 = Name appId \<or>
         length parts = 3 \<and> parts ! 1 = ''system.slice'' \<and> parts ! 2 = Name appId @ ''.service'' \<or>
         has_suffix s (Name appId) \<or> has_suffix (Name appId) s)"

definition guessService :: "string list \<Rightarrow> ApplicationId \<Rightarrow> string" where
  "guessService services appId =
     (case find (\<lambda>s. s = Name appId) services of
        Some s \<Rightarrow> s
      | None \<Rightarrow> (case find (service_matches appId) services of None \<Rightarrow> [] | Some s \<Rightarrow> s))"

definition GuessService :: "string list \<Rightarrow> (ApplicationId \<times> DirectoryApp) list \<Rightarrow> ApplicationId \<Rightarrow> string" where
  "GuessService services apps appId =
     (let service = guessService services appId
      in if service = [] then []
         else if list_ex (\<lambda>(i, _). i \<noteq> appId \<and> guessService services i = service) apps then []
         else service)"

definition fresh_guess :: "(ApplicationId \<times> DirectoryApp) list \<Rightarrow> string \<Rightarrow> string" where
  "fresh_guess apps serviceName =
     (case find (\<lambda>(_, app). GuessService [serviceName] apps (wa_Id app) = serviceName) apps of
        None \<Rightarrow> []
      | Some (_, app) \<Rightarrow> applicationName (wa_Id app))"

definition guessApplication :: "ApplicationDirectory \<Rightarrow> string \<Rightarrow> string \<times> ApplicationDirectory" where
  "guessApplication d serviceName =
     (if serviceName = [] \<or> has_prefix serviceName ''/'' then ([], d)
      else
        (case ad_guessed d serviceName of
           Some name \<Rightarrow> (name, d)
         | None \<Rightarrow>
             (let name = fresh_guess (ad_world d) serviceName
              in (name, d\<lparr>ad_guessed := (ad_guessed d)(serviceName \<mapsto> name)\<rparr>))))"

subsection \<open>The two sides of a span\<close>

definition agent_name :: "string \<Rightarrow> string \<Rightarrow> string option" where
  "agent_name prefix serviceName =
     (if has_prefix serviceName prefix then
        (let name = drop (length prefix) serviceName; parts = strings_Split name CHR ''/''
         in if length parts = 2 then Some name
            else if length parts = 3 \<and> prefix = ''/k8s/'' then Some (parts ! 0 @ ''/'' @ parts ! 1)
            else None)
      else None)"

definition unknownApplicationName :: "string \<Rightarrow> attributes \<Rightarrow> string" where
  "unknownApplicationName serviceName resource =
     (case agent_name ''/k8s/'' serviceName of
        Some n \<Rightarrow> n
      | None \<Rightarrow>
          (case agent_name ''/k8s-cronjob/'' serviceName of
             Some n \<Rightarrow> n
           | None \<Rightarrow>
               (let namespace = attr resource ''k8s.namespace.name''
                in if namespace \<noteq> [] \<and> serviceName \<noteq> [] \<and> \<not> has_prefix serviceName ''/'' then namespace @ ''/'' @ serviceName
                   else serviceName)))"

definition resource_pod :: "ApplicationDirectory \<Rightarrow> attributes \<Rightarrow> string option" where
  "resource_pod d resource =
     (let namespace = attr resource ''k8s.namespace.name'';
          pods = filter (\<lambda>p. p \<noteq> [] \<and> ad_byPod d (namespace @ ''/'' @ p) \<noteq> None) [attr resource ''k8s.pod.name'', attr resource ''host.name'']
      in if namespace = [] then None else case pods of [] \<Rightarrow> None | p # _ \<Rightarrow> ad_byPod d (namespace @ ''/'' @ p))"

text \<open>A directory may be missing, before the first world is loaded.\<close>

definition ownApplication :: "ApplicationDirectory option \<Rightarrow> string \<Rightarrow> attributes \<Rightarrow> string \<times> ApplicationDirectory option" where
  "ownApplication dir serviceName resource =
     (case dir of
        None \<Rightarrow> (unknownApplicationName serviceName resource, None)
      | Some d \<Rightarrow>
          (case ad_byContainerId d (attr resource ''container.id'') of
             Some name \<Rightarrow> (name, dir)
           | None \<Rightarrow>
               (case resource_pod d resource of
                  Some name \<Rightarrow> (name, dir)
                | None \<Rightarrow>
                    (case ad_byTracing d serviceName of
                       Some name \<Rightarrow> (name, dir)
                     | None \<Rightarrow>
                         (let (name, d1) = guessApplication d serviceName
                          in (if name \<noteq> [] then name else unknownApplicationName serviceName resource, Some d1))))))"

definition service_name :: "string \<Rightarrow> string \<Rightarrow> string" where
  "service_name host namespace =
     (let parts = strings_Split host CHR ''.'' in if length parts > 1 then parts ! 0 @ ''.'' @ parts ! 1 else host @ ''.'' @ namespace)"

definition host_of :: "string \<Rightarrow> string" where
  "host_of address = (case SplitHostPort address of None \<Rightarrow> address | Some (host, _) \<Rightarrow> host)"

definition peerApplication :: "ApplicationDirectory option \<Rightarrow> string \<Rightarrow> string \<Rightarrow> string" where
  "peerApplication dir address namespace =
     (case dir of
        None \<Rightarrow> address
      | Some d \<Rightarrow>
          if address = [] then address
          else
            (let host = host_of address
             in case ad_byListen d address of
                  Some name \<Rightarrow> name
                | None \<Rightarrow>
                    (case ad_byIp d host of
                       Some name \<Rightarrow> name
                     | None \<Rightarrow>
                         (case ad_byService d host of
                            Some name \<Rightarrow> name
                          | None \<Rightarrow>
                              if ParseIP host = None
                              then (case ad_byService d (service_name host namespace) of Some name \<Rightarrow> name | None \<Rightarrow> address)
                              else address))))"

text \<open>The first of some keys that is set.\<close>

fun first_set :: "attributes \<Rightarrow> string list \<Rightarrow> string" where
  "first_set m [] = []"
| "first_set m (k # ks) = (if attr m k \<noteq> [] then attr m k else first_set m ks)"

fun first_host :: "(string \<Rightarrow> string option) \<Rightarrow> attributes \<Rightarrow> string list \<Rightarrow> string" where
  "first_host url_host m [] = []"
| "first_host url_host m (k # ks) =
     (case url_host (attr m k) of
        Some h \<Rightarrow> if h \<noteq> [] then h else first_host url_host m ks
      | None \<Rightarrow> first_host url_host m ks)"

definition address_of_keys :: "attributes \<Rightarrow> string \<Rightarrow> string \<Rightarrow> string" where
  "address_of_keys m hostKey portKey =
     (let host = attr m hostKey; port = attr m portKey
      in if host = [] then [] else if port \<noteq> [] then JoinHostPort host port else host)"

definition serverAddress :: "(string \<Rightarrow> string option) \<Rightarrow> attributes \<Rightarrow> string" where
  "serverAddress url_host m =
     (if attr m ''server.address'' \<noteq> [] then address_of_keys m ''server.address'' ''server.port''
      else if attr m ''net.peer.name'' \<noteq> [] then address_of_keys m ''net.peer.name'' ''net.peer.port''
      else first_host url_host m [''http.url'', ''url.full''])"

definition clientAddress :: "attributes \<Rightarrow> string" where
  "clientAddress m = first_set m [''client.address'', ''net.sock.peer.addr'', ''net.peer.ip'', ''http.client_ip'']"

definition SpanApplications :: "(string \<Rightarrow> string option) \<Rightarrow> ApplicationDirectory option \<Rightarrow> string \<Rightarrow> string \<Rightarrow> attributes \<Rightarrow> attributes
    \<Rightarrow> (string \<times> string) \<times> ApplicationDirectory option" where
  "SpanApplications url_host dir serviceName spanKind resource m =
     (let (own', dir1) = ownApplication dir serviceName resource; namespace = attr resource ''k8s.namespace.name''
      in if spanKind = ''SPAN_KIND_SERVER'' \<or> spanKind = ''SPAN_KIND_CONSUMER''
         then ((peerApplication dir1 (clientAddress m) namespace, own'), dir1)
         else if spanKind = ''SPAN_KIND_CLIENT'' \<or> spanKind = ''SPAN_KIND_PRODUCER''
         then ((own', peerApplication dir1 (serverAddress url_host m) namespace), dir1)
         else (([], own'), dir1))"

end
