(* ===== verification/DirectorySafety.thy ===== *)
theory DirectorySafety
  imports Directory
begin

text \<open>
  Theorems on the application directory: which application an address names, and that the answers depend
  neither on the order in which Go iterates over the applications nor on the spans named before.
\<close>

subsection \<open>Owners\<close>

lemma replaces_irrefl [simp]: "\<not> replaces x x"
  by (simp add: replaces_def)

lemma replaces_not: "\<not> replaces z y \<Longrightarrow> replaces x y \<Longrightarrow> \<not> replaces z x"
  by (auto simp: replaces_def split: if_splits)

text \<open>The owners of each address are among the candidates, and no candidate replaces them.\<close>

definition best_owners :: "owners \<Rightarrow> owners \<Rightarrow> bool" where
  "best_owners candidates os \<longleftrightarrow>
     (\<forall>a. case map_of os a of
            None \<Rightarrow> a \<notin> fst ` set candidates
          | Some best \<Rightarrow> (a, best) \<in> set candidates \<and> list_all (\<lambda>(_, x). \<not> replaces x best) (filter (\<lambda>(b, _). b = a) candidates))"

lemma best_owners_own:
  assumes "best_owners cs os" shows "best_owners (cs @ [(a, x)]) (own a x os)"
  unfolding best_owners_def
proof
  fix b
  have b: "case map_of os b of None \<Rightarrow> b \<notin> fst ` set cs
      | Some best \<Rightarrow> (b, best) \<in> set cs \<and> list_all (\<lambda>(_, x). \<not> replaces x best) (filter (\<lambda>(c, _). c = b) cs)"
    using assms by (simp add: best_owners_def)
  show "case map_of (own a x os) b of None \<Rightarrow> b \<notin> fst ` set (cs @ [(a, x)])
      | Some best \<Rightarrow> (b, best) \<in> set (cs @ [(a, x)]) \<and> list_all (\<lambda>(_, x). \<not> replaces x best) (filter (\<lambda>(c, _). c = b) (cs @ [(a, x)]))"
  proof (cases "b = a")
    case False
    then have "map_of (own a x os) b = map_of os b" by (auto simp: own_def update_conv' split: option.splits)
    then show ?thesis using b False by (auto split: option.splits)
  next
    case True
    show ?thesis
    proof (cases "map_of os a")
      case None
      then have "\<forall>p\<in>set cs. fst p \<noteq> a" using b True by force
      then have "filter (\<lambda>(c, _). c = a) cs = []" by (auto simp: filter_empty_conv)
      then show ?thesis using True None by (simp add: own_def update_conv')
    next
      case (Some cur)
      then have c: "(a, cur) \<in> set cs" "list_all (\<lambda>(_, x). \<not> replaces x cur) (filter (\<lambda>(c, _). c = a) cs)" using b True by auto
      show ?thesis
      proof (cases "replaces x cur")
        case True
        have "list_all (\<lambda>(_, z). \<not> replaces z x) (filter (\<lambda>(c, _). c = a) cs)"
          by (rule list.pred_mono_strong [OF c(2)]) (auto dest: replaces_not [OF _ True])
        then show ?thesis using True Some \<open>b = a\<close> by (simp add: own_def update_conv')
      next
        case False
        then show ?thesis using Some \<open>b = a\<close> c by (simp add: own_def)
      qed
    qed
  qed
qed

lemma best_owners_fold:
  "best_owners cs os \<Longrightarrow> best_owners (cs @ xs) (fold (\<lambda>(a, x). own a x) xs os)"
proof (induction xs arbitrary: cs os)
  case (Cons p xs)
  obtain a x where p: "p = (a, x)" by force
  from Cons.IH [OF best_owners_own [OF Cons.prems, of a x]] show ?case by (simp add: p)
qed simp

text \<open>The candidates of a world: the pods with their IPs, and the listens on the port 0.\<close>

definition instance_ip_owners :: "ApplicationId \<Rightarrow> DirectoryInstance \<Rightarrow> owners" where
  "instance_ip_owners appId i =
     (case wi_Pod i of None \<Rightarrow> [] | Some p \<Rightarrow> if wp_IP p \<noteq> [] then [(wp_IP p, pod_owner (applicationName appId) i p)] else []) @
     map (\<lambda>l. (li_IP (fst l), listen_owner (applicationName appId) (snd l))) (filter (\<lambda>l. li_Port (fst l) = ''0'') (wi_TcpListens i))"

definition ip_owners :: "DirectoryWorld \<Rightarrow> owners" where
  "ip_owners w = concat (map (\<lambda>x. concat (map (instance_ip_owners (fst x)) (wa_Instances (snd x)))) (xw_Applications w))"

definition listen_owners :: "DirectoryWorld \<Rightarrow> owners" where
  "listen_owners w = concat (map (\<lambda>x. concat (map (\<lambda>inst.
     map (\<lambda>l. (JoinHostPort (li_IP (fst l)) (li_Port (fst l)), listen_owner (applicationName (fst x)) (snd l)))
       (filter (\<lambda>l. li_Port (fst l) \<noteq> ''0'') (wi_TcpListens inst))) (wa_Instances (snd x)))) (xw_Applications w))"

lemma bd_fold_same: "(\<And>x b. h (g x b) = h b) \<Longrightarrow> h (fold g xs b) = h b"
  by (induction xs arbitrary: b) auto

lemma bd_fold: "(\<And>x b. h (g x b) = fold f (k x) (h b)) \<Longrightarrow> h (fold g xs b) = fold f (concat (map k xs)) (h b)"
  by (induction xs arbitrary: b) auto

lemma bd_listens:
  "bd_ip (fold (add_listen name) ls b) = fold (\<lambda>(a, x). own a x) (map (\<lambda>l. (li_IP (fst l), listen_owner name (snd l))) (filter (\<lambda>l. li_Port (fst l) = ''0'') ls)) (bd_ip b)"
  "bd_listen (fold (add_listen name) ls b) = fold (\<lambda>(a, x). own a x) (map (\<lambda>l. (JoinHostPort (li_IP (fst l)) (li_Port (fst l)), listen_owner name (snd l)))
       (filter (\<lambda>l. li_Port (fst l) \<noteq> ''0'') ls)) (bd_listen b)"
  by (induction ls arbitrary: b) (simp_all add: add_listen_def Let_def)

lemma bd_instance:
  "bd_ip (add_instance appId i b) = fold (\<lambda>(a, x). own a x) (instance_ip_owners appId i) (bd_ip b)"
  "bd_listen (add_instance appId i b) = fold (\<lambda>(a, x). own a x) (map (\<lambda>l. (JoinHostPort (li_IP (fst l)) (li_Port (fst l)), listen_owner (applicationName appId) (snd l)))
       (filter (\<lambda>l. li_Port (fst l) \<noteq> ''0'') (wi_TcpListens i))) (bd_listen b)"
proof -
  have c: "bd_ip (fold (\<lambda>c b. b\<lparr>bd_container := (bd_container b)(c \<mapsto> n)\<rparr>) cs b) = bd_ip b"
    "bd_listen (fold (\<lambda>c b. b\<lparr>bd_container := (bd_container b)(c \<mapsto> n)\<rparr>) cs b) = bd_listen b" for n cs and b :: directory_build
    by (induction cs arbitrary: b) simp_all
  have p: "bd_ip (add_pod appId i b) = fold (\<lambda>(a, x). own a x)
      (case wi_Pod i of None \<Rightarrow> [] | Some p \<Rightarrow> if wp_IP p \<noteq> [] then [(wp_IP p, pod_owner (applicationName appId) i p)] else []) (bd_ip b)"
    "bd_listen (add_pod appId i b) = bd_listen b"
    by (simp_all add: add_pod_def Let_def split: option.splits)
  show "bd_ip (add_instance appId i b) = fold (\<lambda>(a, x). own a x) (instance_ip_owners appId i) (bd_ip b)"
    by (simp only: add_instance_def Let_def c bd_listens p instance_ip_owners_def fold_append comp_apply)
  show "bd_listen (add_instance appId i b) = fold (\<lambda>(a, x). own a x) (map (\<lambda>l. (JoinHostPort (li_IP (fst l)) (li_Port (fst l)), listen_owner (applicationName appId) (snd l)))
       (filter (\<lambda>l. li_Port (fst l) \<noteq> ''0'') (wi_TcpListens i))) (bd_listen b)"
    by (simp only: add_instance_def Let_def c bd_listens p)
qed

lemma bd_service_same: "bd_ip (add_service n s b) = bd_ip b" "bd_listen (add_service n s b) = bd_listen b"
  by (simp_all add: add_service_def Let_def)

lemma bd_app:
  "bd_ip (add_app x b) = fold (\<lambda>(a, x). own a x) (concat (map (instance_ip_owners (fst x)) (wa_Instances (snd x)))) (bd_ip b)"
  "bd_listen (add_app x b) = fold (\<lambda>(a, x). own a x) (concat (map (\<lambda>inst.
     map (\<lambda>l. (JoinHostPort (li_IP (fst l)) (li_Port (fst l)), listen_owner (applicationName (fst x)) (snd l)))
       (filter (\<lambda>l. li_Port (fst l) \<noteq> ''0'') (wi_TcpListens inst))) (wa_Instances (snd x)))) (bd_listen b)"
  by (simp_all add: add_app_def Let_def case_prod_beta bd_fold_same bd_service_same bd_fold [where h = bd_ip, OF bd_instance(1)] bd_fold [where h = bd_listen, OF bd_instance(2)] split: option.splits)

lemma build_owners:
  "bd_ip (fold add_app (xw_Applications w) empty_build) = fold (\<lambda>(a, x). own a x) (ip_owners w) []"
  "bd_listen (fold add_app (xw_Applications w) empty_build) = fold (\<lambda>(a, x). own a x) (listen_owners w) []"
  by (simp_all add: ip_owners_def listen_owners_def bd_fold [where h = bd_ip, OF bd_app(1)] bd_fold [where h = bd_listen, OF bd_app(2)] empty_build_def case_prod_beta)

lemma owner_names_Some: "owner_names os a = map_option ow_application (map_of os a)"
  by (simp add: owner_names_def map_of_map [symmetric] comp_def) (metis map_of_map comp_apply)

text \<open>
  The specification: who claims an address in a world (the address, the application, whether the claim is
  alive and when it was last seen), stated without the directory's own notion of an owner.
\<close>

type_synonym claim = "string \<times> string \<times> bool \<times> Time"

definition pod_claims :: "ApplicationId \<Rightarrow> DirectoryInstance \<Rightarrow> claim list" where
  "pod_claims i inst =
     (case wi_Pod inst of
        None \<Rightarrow> []
      | Some p \<Rightarrow> if wp_IP p = [] then [] else [(wp_IP p, applicationName i, wp_Phase p \<noteq> [], fst (LastNotNull (wp_LifeSpan p)))])"

definition listen_claims :: "bool \<Rightarrow> ApplicationId \<Rightarrow> DirectoryInstance \<Rightarrow> claim list" where
  "listen_claims any_port i inst =
     map (\<lambda>(l, active). (if any_port then li_IP l else JoinHostPort (li_IP l) (li_Port l), applicationName i, active, 0))
       (filter (\<lambda>l. (li_Port (fst l) = ''0'') = any_port) (wi_TcpListens inst))"

definition all_claims :: "(ApplicationId \<Rightarrow> DirectoryInstance \<Rightarrow> claim list) \<Rightarrow> DirectoryWorld \<Rightarrow> claim list" where
  "all_claims f w = concat (map (\<lambda>(i, app). concat (map (f i) (wa_Instances app))) (xw_Applications w))"

definition ip_claims :: "DirectoryWorld \<Rightarrow> claim list" where
  "ip_claims = all_claims (\<lambda>i inst. pod_claims i inst @ listen_claims True i inst)"

definition address_claims :: "DirectoryWorld \<Rightarrow> claim list" where
  "address_claims = all_claims (listen_claims False)"

text \<open>
  A name is right for an address when the application has a claim that no other claim of the address beats:
  none is alive when it is not, and none that is alive exactly when it is was seen later. No name is right
  when nobody claims the address.
\<close>

definition unbeaten :: "claim list \<Rightarrow> string \<Rightarrow> bool \<Rightarrow> Time \<Rightarrow> bool" where
  "unbeaten claims a alive seen \<longleftrightarrow>
     list_all (\<lambda>(c, _, alive', seen'). c \<noteq> a \<or> (if alive' = alive then seen' \<le> seen else alive)) claims"

definition names_best :: "claim list \<Rightarrow> (string \<rightharpoonup> string) \<Rightarrow> string \<Rightarrow> bool" where
  "names_best claims names a =
     (case names a of
        None \<Rightarrow> a \<notin> fst ` set claims
      | Some name \<Rightarrow> list_ex (\<lambda>(b, n, alive, seen). b = a \<and> n = name \<and> unbeaten claims a alive seen) claims)"

definition claim_of :: "string \<times> addressOwner \<Rightarrow> claim" where
  "claim_of x = (fst x, ow_application (snd x), ow_alive (snd x), ow_lastSeen (snd x))"

lemma ip_claims_owners: "ip_claims w = map claim_of (ip_owners w)"
  by (auto simp: ip_claims_def all_claims_def ip_owners_def instance_ip_owners_def pod_claims_def listen_claims_def claim_of_def
      pod_owner_def listen_owner_def Pod_IsObsolete_def map_concat comp_def case_prod_beta split: option.splits
      intro!: arg_cong [where f = concat] map_cong)

lemma address_claims_owners: "address_claims w = map claim_of (listen_owners w)"
  by (auto simp: address_claims_def all_claims_def listen_owners_def listen_claims_def claim_of_def
      listen_owner_def map_concat comp_def case_prod_beta intro!: arg_cong [where f = concat] map_cong)

lemma not_replaces: "\<not> replaces x best \<longleftrightarrow> (if ow_alive x = ow_alive best then ow_lastSeen x \<le> ow_lastSeen best else ow_alive best)"
  by (auto simp: replaces_def)

lemma best_names:
  assumes "best_owners cs os"
  shows "names_best (map claim_of cs) (owner_names os) a"
proof (cases "map_of os a")
  case None
  then have "a \<notin> fst ` set cs" using spec [OF assms [unfolded best_owners_def], of a] by simp
  then show ?thesis using None by (force simp: names_best_def owner_names_Some claim_of_def)
next
  case (Some best)
  then have b: "(a, best) \<in> set cs" "\<forall>(b, x)\<in>set cs. b = a \<longrightarrow> \<not> replaces x best"
    using spec [OF assms [unfolded best_owners_def], of a] by (auto simp: list_all_iff)
  have "unbeaten (map claim_of cs) a (ow_alive best) (ow_lastSeen best)"
    using b(2) unfolding not_replaces by (auto simp: unbeaten_def list_all_iff claim_of_def)
  then show ?thesis
    using Some b(1) by (auto simp: names_best_def owner_names_Some list_ex_iff claim_of_def intro!: bexI [of _ "(a, best)"])
qed

text \<open>
  C16. The directory names exactly the IPs and the listened addresses that somebody claims in the world, each
  after an application whose claim is the best one, whatever the order of the maps: alive if any claim of the
  address is, and among the claims that are as alive the one seen last. A pod claims its IP and is alive while
  it is not obsolete; a listen on port 0 claims its IP, another one its address, and is alive while it is active.
\<close>

theorem directory_names_owner:
  "names_best (ip_claims w) (ad_byIp (NewApplicationDirectory w)) ip \<and>
   names_best (address_claims w) (ad_byListen (NewApplicationDirectory w)) address"
proof -
  have "best_owners [] []" by (simp add: best_owners_def)
  from best_owners_fold [OF this] show ?thesis
    by (simp add: NewApplicationDirectory_def Let_def build_owners best_names ip_claims_owners address_claims_owners)
qed

subsection \<open>Answers do not depend on order or history\<close>

definition keyed_by_id :: "(ApplicationId \<times> DirectoryApp) list \<Rightarrow> bool" where
  "keyed_by_id apps \<longleftrightarrow> list_all (\<lambda>(i, app). wa_Id app = i) apps"

lemma guess_unique:
  assumes "keyed_by_id apps" "s \<noteq> []" "x \<in> set apps" "y \<in> set apps"
    and "GuessService [s] apps (wa_Id (snd x)) = s" "GuessService [s] apps (wa_Id (snd y)) = s"
  shows "wa_Id (snd x) = wa_Id (snd y)"
proof (rule ccontr)
  assume "wa_Id (snd x) \<noteq> wa_Id (snd y)"
  moreover have "fst y = wa_Id (snd y)" using assms(1,4) by (auto simp: keyed_by_id_def list_all_iff)
  moreover have "guessService [s] (wa_Id (snd x)) = s" "guessService [s] (wa_Id (snd y)) = s"
    using assms(2,5,6) by (auto simp: GuessService_def Let_def split: if_splits)
  ultimately have "GuessService [s] apps (wa_Id (snd x)) = []"
    using assms(2,4) by (auto simp: GuessService_def Let_def list_ex_iff intro!: bexI [of _ y])
  then show False using assms(2,5) by simp
qed

lemma GuessService_perm: "set apps' = set apps \<Longrightarrow> GuessService s apps' i = GuessService s apps i"
  by (simp add: GuessService_def list_ex_iff Let_def)

lemma find_mem: "find P xs = Some x \<Longrightarrow> x \<in> set xs \<and> P x"
  by (auto simp: find_Some_iff)

lemma fresh_guess_perm:
  assumes "keyed_by_id apps" "set apps' = set apps" "s \<noteq> []"
  shows "fresh_guess apps' s = fresh_guess apps s"
proof -
  let ?P = "\<lambda>(i, app). GuessService [s] apps (wa_Id app) = s"
  have eq: "fresh_guess apps' s = (case find ?P apps' of None \<Rightarrow> [] | Some (_, app) \<Rightarrow> applicationName (wa_Id app))"
    by (simp add: fresh_guess_def GuessService_perm [OF assms(2)])
  show ?thesis
  proof (cases "find ?P apps")
    case None
    then have "find ?P apps' = None" using assms(2) by (auto simp: find_None_iff)
    then show ?thesis using None eq by (simp add: fresh_guess_def)
  next
    case (Some x)
    then have x: "x \<in> set apps" "?P x" using find_mem [of ?P apps x] by auto
    then have "find ?P apps' \<noteq> None" using assms(2) by (auto simp: find_None_iff)
    then obtain y where y: "find ?P apps' = Some y" by blast
    then have "y \<in> set apps" "?P y" using find_mem [OF y] assms(2) by auto
    then have "wa_Id (snd x) = wa_Id (snd y)"
      using guess_unique [OF assms(1,3) x(1), of y] x(2) by (simp add: case_prod_beta)
    then show ?thesis using Some y eq by (simp add: fresh_guess_def case_prod_beta)
  qed
qed

text \<open>A span as the directory sees it, and the answers for spans named one after another.\<close>

type_synonym span_query = "string \<times> string \<times> attributes \<times> attributes"

fun name_spans :: "(string \<Rightarrow> string option) \<Rightarrow> ApplicationDirectory option \<Rightarrow> span_query list \<Rightarrow> (string \<times> string) list" where
  "name_spans url_host dir [] = []"
| "name_spans url_host dir ((serviceName, kind, resource, m) # qs) =
     (let (names, dir1) = SpanApplications url_host dir serviceName kind resource m in names # name_spans url_host dir1 qs)"

definition cache_ok :: "ApplicationDirectory \<Rightarrow> bool" where
  "cache_ok d \<longleftrightarrow> (\<forall>s n. ad_guessed d s = Some n \<longrightarrow> s \<noteq> [] \<and> n = fresh_guess (ad_world d) s)"

text \<open>Directories that differ in the order of the applications and in what was guessed before.\<close>

definition same_directory :: "ApplicationDirectory \<Rightarrow> ApplicationDirectory \<Rightarrow> bool" where
  "same_directory d d' \<longleftrightarrow> set (ad_world d') = set (ad_world d) \<and> keyed_by_id (ad_world d) \<and> cache_ok d \<and> cache_ok d' \<and>
     d'\<lparr>ad_world := [], ad_guessed := (\<lambda>_. None)\<rparr> = d\<lparr>ad_world := [], ad_guessed := (\<lambda>_. None)\<rparr>"

lemma same_directory_fields:
  assumes "same_directory d d'"
  shows "ad_byListen d' = ad_byListen d" "ad_byIp d' = ad_byIp d" "ad_byContainerId d' = ad_byContainerId d" "ad_byPod d' = ad_byPod d"
    "ad_byService d' = ad_byService d" "ad_byTracing d' = ad_byTracing d"
  using assms by (cases d; cases d'; simp add: same_directory_def)+

lemma guess_same:
  assumes "same_directory d d'"
  shows "fst (guessApplication d' s) = fst (guessApplication d s) \<and> same_directory (snd (guessApplication d s)) d' \<and>
    same_directory d (snd (guessApplication d' s))"
proof -
  have k: "keyed_by_id (ad_world d)" "set (ad_world d') = set (ad_world d)" "cache_ok d" "cache_ok d'" using assms by (auto simp: same_directory_def)
  show ?thesis
  proof (cases "s = [] \<or> has_prefix s ''/''")
    case True
    then show ?thesis using assms by (simp add: guessApplication_def)
  next
    case False
    then have s: "s \<noteq> []" by simp
    have f: "fresh_guess (ad_world d') s = fresh_guess (ad_world d) s" using k(1,2) s by (rule fresh_guess_perm)
    have a: "fst (guessApplication e s) = fresh_guess (ad_world e) s \<and> cache_ok (snd (guessApplication e s)) \<and> ad_world (snd (guessApplication e s)) = ad_world e \<and>
        (snd (guessApplication e s))\<lparr>ad_world := [], ad_guessed := (\<lambda>_. None)\<rparr> = e\<lparr>ad_world := [], ad_guessed := (\<lambda>_. None)\<rparr>" if "cache_ok e" for e
      using that False s by (auto simp: guessApplication_def cache_ok_def Let_def split: option.splits)
    show ?thesis using a [OF k(3)] a [OF k(4)] f assms by (simp add: same_directory_def)
  qed
qed

lemma guess_same_both: "same_directory d d' \<Longrightarrow> same_directory (snd (guessApplication d s)) (snd (guessApplication d' s))"
  using guess_same by blast

lemma own_same:
  assumes "same_directory d d'"
  shows "\<exists>n e e'. ownApplication (Some d) s r = (n, Some e) \<and> ownApplication (Some d') s r = (n, Some e') \<and> same_directory e e'"
proof -
  have "resource_pod d' r = resource_pod d r" by (simp only: resource_pod_def same_directory_fields [OF assms])
  moreover obtain n e where g: "guessApplication d s = (n, e)" by force
  moreover obtain e' where g': "guessApplication d' s = (n, e')" using guess_same [OF assms, of s] g by (cases "guessApplication d' s") simp
  moreover have "same_directory e e'" using guess_same_both [OF assms, of s] g g' by simp
  ultimately show ?thesis using same_directory_fields [OF assms] assms
    by (auto simp: ownApplication_def split: option.splits)
qed

lemma peer_same: "same_directory d d' \<Longrightarrow> peerApplication (Some d') a n = peerApplication (Some d) a n"
  by (simp only: peerApplication_def same_directory_fields option.case)

lemma span_dir: "snd (SpanApplications h (Some d) s k r m) = Some d \<or> snd (SpanApplications h (Some d) s k r m) = Some (snd (guessApplication d s))"
proof -
  have "snd (SpanApplications h (Some d) s k r m) = snd (ownApplication (Some d) s r)"
    by (simp add: SpanApplications_def Let_def case_prod_beta)
  then show ?thesis by (auto simp: ownApplication_def case_prod_beta Let_def split: option.splits)
qed

lemma span_same:
  assumes "same_directory d d'"
  shows "\<exists>ns e e'. SpanApplications h (Some d) s k r m = (ns, Some e) \<and> SpanApplications h (Some d') s k r m = (ns, Some e') \<and> same_directory e e'"
proof -
  obtain n e e' where o: "ownApplication (Some d) s r = (n, Some e)" "ownApplication (Some d') s r = (n, Some e')" "same_directory e e'"
    using own_same [OF assms] by blast
  then show ?thesis using peer_same [OF o(3)] by (auto simp: SpanApplications_def Let_def)
qed

lemma name_spans_same: "same_directory d d' \<Longrightarrow> name_spans h (Some d) qs = name_spans h (Some d') qs"
proof (induction qs arbitrary: d d')
  case (Cons q qs)
  obtain s k r m where q: "q = (s, k, r, m)" by (metis prod.exhaust)
  obtain ns e e' where "SpanApplications h (Some d) s k r m = (ns, Some e)" "SpanApplications h (Some d') s k r m = (ns, Some e')" "same_directory e e'"
    using span_same [OF Cons.prems] by blast
  then show ?case using Cons.IH q by simp
qed simp

lemma name_spans_map: "cache_ok d \<Longrightarrow> keyed_by_id (ad_world d) \<Longrightarrow>
   name_spans h (Some d) qs = map (\<lambda>q. hd (name_spans h (Some d) [q])) qs"
proof -
  have self: "same_directory d d" if "cache_ok d" "keyed_by_id (ad_world d)" for d using that by (simp add: same_directory_def)
  have "name_spans h (Some e) qs = map (\<lambda>q. hd (name_spans h (Some d) [q])) qs" if "same_directory d e" for d e
    using that
  proof (induction qs arbitrary: e)
    case (Cons q qs)
    obtain s k r m where q: "q = (s, k, r, m)" by (metis prod.exhaust)
    obtain ns e1 e2 where o: "SpanApplications h (Some d) s k r m = (ns, Some e1)" "SpanApplications h (Some e) s k r m = (ns, Some e2)" "same_directory e1 e2"
      using span_same [OF Cons.prems] by blast
    have "same_directory d e2"
    proof -
      have "ad_world e2 = ad_world e \<and> cache_ok e2 \<and> e2\<lparr>ad_world := [], ad_guessed := (\<lambda>_. None)\<rparr> = e\<lparr>ad_world := [], ad_guessed := (\<lambda>_. None)\<rparr>"
      proof (cases "e2 = e")
        case False
        then have "e2 = snd (guessApplication e s)"
          using o(2) span_dir [of h e s k r m] by simp
        moreover have "same_directory e e" using Cons.prems unfolding same_directory_def keyed_by_id_def list_all_iff by auto
        then have "same_directory e (snd (guessApplication e s))" using guess_same by blast
        moreover have "ad_world (snd (guessApplication e s)) = ad_world e" by (simp add: guessApplication_def Let_def split: option.splits)
        ultimately show ?thesis unfolding same_directory_def by simp
      qed (use Cons.prems in \<open>simp add: same_directory_def\<close>)
      then show ?thesis using Cons.prems by (simp add: same_directory_def)
    qed
    then show ?case using Cons.IH o q by simp
  qed simp
  then show "cache_ok d \<Longrightarrow> keyed_by_id (ad_world d) \<Longrightarrow> ?thesis" using self by blast
qed

text \<open>
  C17. Every span is named as it would be alone: the names do not depend on the spans named before it, though
  the directory remembers what it guessed, nor on the order in which Go iterates over the applications.
\<close>

theorem span_names_stable:
  assumes "keyed_by_id (xw_Applications w)" "set apps = set (xw_Applications w)"
  shows "name_spans url_host (Some (NewApplicationDirectory w)) qs =
    map (\<lambda>q. hd (name_spans url_host (Some (NewApplicationDirectory w\<lparr>ad_world := apps\<rparr>)) [q])) qs"
proof -
  let ?d = "NewApplicationDirectory w"
  have f: "ad_world ?d = xw_Applications w" "ad_guessed ?d = (\<lambda>_. None)" by (simp_all add: NewApplicationDirectory_def Let_def)
  have "same_directory ?d (?d\<lparr>ad_world := apps\<rparr>)"
    using assms f by (cases ?d) (auto simp: same_directory_def cache_ok_def)
  moreover have "cache_ok ?d" "keyed_by_id (ad_world ?d)" using assms f by (simp_all add: cache_ok_def)
  ultimately show ?thesis
    using name_spans_map [of ?d url_host qs] name_spans_same [of ?d "?d\<lparr>ad_world := apps\<rparr>" url_host] by simp
qed

definition demo_directory_app :: "string \<Rightarrow> ApplicationId \<times> DirectoryApp" where
  "demo_directory_app name =
     (let i = \<lparr>ClusterId = ''c'', Namespace = ''ns'', Kind = ''Deployment'', Name = name\<rparr>
      in (i, \<lparr>wa_Id = i, wa_Instances = [], wa_KubernetesServices = [], wa_TracingService = None\<rparr>))"

definition demo_directory_world :: DirectoryWorld where
  "demo_directory_world = \<lparr>xw_Applications = [demo_directory_app ''cart'', demo_directory_app ''front''], xw_Nodes = []\<rparr>"

theorem span_names_stable_witness:
  "name_spans (\<lambda>_. None) (Some (NewApplicationDirectory demo_directory_world))
     [(''front'', ''SPAN_KIND_SERVER'', (\<lambda>_. None), (\<lambda>_. None)), (''front'', ''SPAN_KIND_CLIENT'', (\<lambda>_. None), (\<lambda>_. None))] =
   [([], ''ns/front''), (''ns/front'', [])]"
  by (subst span_names_stable [of _ "rev (xw_Applications demo_directory_world)"])
     (simp_all add: demo_directory_world_def demo_directory_app_def keyed_by_id_def, code_simp+)

end
