(* ===== verification/BatchContract.thy ===== *)
theory BatchContract
  imports Main
begin

text \<open>
  The contract of a batch of telemetry (\<^verbatim>\<open>collector/\<close>): it holds rows, hands them to ClickHouse in statements,
  and is closed. A row is never lost inside the collector nor handed over twice; whether the statement succeeds
  is another matter. The world of a batch is the log of its statements, each with its outcome.
\<close>

type_synonym 's statement_log = "('s \<times> bool) list"

text \<open>The n-th statement fails when \<open>fails n\<close>; its outcome is only logged.\<close>

definition exec_log :: "(nat \<Rightarrow> bool) \<Rightarrow> 's \<Rightarrow> 's statement_log \<Rightarrow> 's statement_log" where
  "exec_log fails s w = w @ [(s, \<not> fails (length w))]"

definition handed_rows :: "('s \<Rightarrow> 'r list) \<Rightarrow> 's statement_log \<Rightarrow> 'r list" where
  "handed_rows rows w = concat (map (rows \<circ> fst) w)"

definition stored_rows :: "('s \<Rightarrow> 'r list) \<Rightarrow> 's statement_log \<Rightarrow> 'r list" where
  "stored_rows rows w = concat (map (rows \<circ> fst) (filter snd w))"

lemma handed_rows_simps [simp]: "handed_rows rows [] = []" "handed_rows rows (exec_log fails s w) = handed_rows rows w @ rows s"
  by (simp_all add: handed_rows_def exec_log_def)

lemma stored_rows_simps [simp]: "stored_rows rows [] = []"
  "stored_rows rows (exec_log fails s w) = stored_rows rows w @ (if fails (length w) then [] else rows s)"
  by (simp_all add: stored_rows_def exec_log_def)

lemma stored_all: "list_all snd w \<Longrightarrow> stored_rows rows w = handed_rows rows w"
  by (induction w) (auto simp: stored_rows_def handed_rows_def)

lemma exec_log_ok: "list_all snd w \<Longrightarrow> fails = (\<lambda>_. False) \<Longrightarrow> list_all snd (exec_log fails s w)"
  by (simp add: exec_log_def)

locale telemetry_batch =
  fixes inv :: "'b \<Rightarrow> bool"
    and held :: "'b \<Rightarrow> 'r list"
    and handed :: "'w \<Rightarrow> 'r list"
    and step :: "'o \<Rightarrow> 'b \<times> 'w \<Rightarrow> 'b \<times> 'w"
    and rows_of :: "'o \<Rightarrow> 'r list"
    and accepts :: "'o \<Rightarrow> bool"
    and flush :: "'b \<times> 'w \<Rightarrow> 'b \<times> 'w"
  assumes step_inv: "inv (fst st) \<Longrightarrow> accepts x \<Longrightarrow> inv (fst (step x st))"
    and step_rows: "inv (fst st) \<Longrightarrow> accepts x \<Longrightarrow>
      handed (snd (step x st)) @ held (fst (step x st)) = handed (snd st) @ held (fst st) @ rows_of x"
    and flush_rows: "inv (fst st) \<Longrightarrow> handed (snd (flush st)) = handed (snd st) @ held (fst st)"
    and flush_held: "inv (fst st) \<Longrightarrow> held (fst (flush st)) = []"
begin

lemma run_inv: "list_all accepts xs \<Longrightarrow> inv (fst st) \<Longrightarrow> inv (fst (fold step xs st))"
  by (induction xs arbitrary: st) (simp_all add: step_inv)

lemma run_rows:
  "list_all accepts xs \<Longrightarrow> inv (fst st) \<Longrightarrow>
   handed (snd (fold step xs st)) @ held (fst (fold step xs st)) = handed (snd st) @ held (fst st) @ concat (map rows_of xs)"
proof (induction xs arbitrary: st)
  case (Cons x xs)
  have "handed (snd (step x st)) @ held (fst (step x st)) @ concat (map rows_of xs) = handed (snd st) @ held (fst st) @ rows_of x @ concat (map rows_of xs)"
    using step_rows [of st x] Cons.prems by (simp flip: append_assoc)
  then show ?case using Cons.IH [of "step x st"] Cons.prems step_inv by simp
qed simp

lemma closed_rows:
  assumes "list_all accepts xs" "inv b" "held b = []" "handed w = []"
  shows "handed (snd (fold step xs (b, w))) @ held (fst (fold step xs (b, w))) = concat (map rows_of xs)"
    and "handed (snd (flush (fold step xs (b, w)))) = concat (map rows_of xs)"
    and "held (fst (flush (fold step xs (b, w)))) = []"
  using run_rows [OF assms(1), of "(b, w)"] run_inv [OF assms(1), of "(b, w)"] assms(2-4) by (simp_all add: flush_rows flush_held)

end

end
