(* ===== verification/RecentAddresses.thy ===== *)
theory RecentAddresses
  imports Directory
begin

text \<open>
  The addresses of the pods that the world does not know yet (\<^verbatim>\<open>collector/recent_addresses.go\<close>), learned from
  the spans of their node agents and read from ClickHouse. Go maps are lists in the order of their iteration.
  The collector reads the clock when it prunes: it is the argument \<open>clock\<close>.
\<close>

definition recentAddressMemory :: int where "recentAddressMemory = nanoseconds 600"

record recentAddress =
  rc_application :: string
  rc_seen :: instant

record recentAddresses =
  ra_byListen :: "(string \<times> recentAddress) list"
  ra_byIp :: "(string \<times> recentAddress) list"
  ra_lastPrune :: instant

record recentAddressRow =
  rr_address :: string
  rr_application :: string
  rr_lastSeen :: instant

definition newRecentAddresses :: recentAddresses where
  "newRecentAddresses = \<lparr>ra_byListen = [], ra_byIp = [], ra_lastPrune = 0\<rparr>"

definition forget_addresses :: "instant \<Rightarrow> (string \<times> recentAddress) list \<Rightarrow> (string \<times> recentAddress) list" where
  "forget_addresses now xs = filter (\<lambda>(_, known). \<not> now - rc_seen known \<ge> recentAddressMemory) xs"

definition prune_addresses :: "instant \<Rightarrow> recentAddresses \<Rightarrow> recentAddresses" where
  "prune_addresses now a =
     (if now - ra_lastPrune a < recentAddressMemory then a
      else a\<lparr>ra_lastPrune := now, ra_byListen := forget_addresses now (ra_byListen a), ra_byIp := forget_addresses now (ra_byIp a)\<rparr>)"

definition pod_application :: "string \<Rightarrow> bool" where
  "pod_application application \<longleftrightarrow> \<not> has_prefix application ''/'' \<and> CHR ''/'' \<in> set application"

definition networkIp :: "string \<Rightarrow> bool" where
  "networkIp ip = (case ParseIP ip of None \<Rightarrow> False | Some p \<Rightarrow> \<not> IsLoopback p \<and> \<not> IsUnspecified p \<and> \<not> IsLinkLocalUnicast p)"

definition set_known :: "recentAddress \<Rightarrow> string \<Rightarrow> (string \<times> recentAddress) list \<Rightarrow> (string \<times> recentAddress) list" where
  "set_known known key xs =
     (case map_of xs key of
        None \<Rightarrow> AList.update key known xs
      | Some cur \<Rightarrow> if rc_seen known > rc_seen cur then AList.update key known xs else xs)"

definition record_address :: "instant \<Rightarrow> ApplicationDirectory option \<Rightarrow> string \<Rightarrow> string \<Rightarrow> instant \<Rightarrow> recentAddresses \<Rightarrow> recentAddresses" where
  "record_address clock dir address application seen a =
     (let ip = host_of address; known = \<lparr>rc_application = application, rc_seen = seen\<rparr>
      in if \<not> pod_application application then a
         else if \<not> networkIp ip then a
         else
           (let a1 = prune_addresses clock a;
                a2 = (if SplitHostPort address \<noteq> None then a1\<lparr>ra_byListen := set_known known address (ra_byListen a1)\<rparr> else a1)
            in case dir of
                 None \<Rightarrow> a2
               | Some d \<Rightarrow> if ip \<notin> ad_nodeIps d then a2\<lparr>ra_byIp := set_known known ip (ra_byIp a2)\<rparr> else a2))"

definition learn :: "instant \<Rightarrow> ApplicationDirectory option \<Rightarrow> string \<Rightarrow> string \<Rightarrow> attributes \<Rightarrow> instant \<Rightarrow> recentAddresses \<Rightarrow> recentAddresses" where
  "learn clock dir spanKind application m now a =
     (if spanKind = ''SPAN_KIND_SERVER'' then
        (let ip = attr m ''server.address''; port = attr m ''server.port''
         in if ip \<noteq> [] \<and> port \<noteq> [] then record_address clock dir (JoinHostPort ip port) application now a else a)
      else if spanKind = ''SPAN_KIND_CLIENT'' then
        (let ip = attr m ''network.local.address'' in if ip \<noteq> [] then record_address clock dir ip application now a else a)
      else a)"

definition remember_addresses :: "instant \<Rightarrow> ApplicationDirectory option \<Rightarrow> recentAddressRow list \<Rightarrow> recentAddresses \<Rightarrow> recentAddresses" where
  "remember_addresses clock dir rows a = fold (\<lambda>r. record_address clock dir (rr_address r) (rr_application r) (rr_lastSeen r)) rows a"

definition lookup_address :: "recentAddresses \<Rightarrow> string \<Rightarrow> instant \<Rightarrow> string option" where
  "lookup_address a address now =
     (case (case map_of (ra_byListen a) address of Some known \<Rightarrow> Some known | None \<Rightarrow> map_of (ra_byIp a) (host_of address)) of
        None \<Rightarrow> None
      | Some known \<Rightarrow> if now - rc_seen known \<ge> recentAddressMemory then None else Some (rc_application known))"

definition clients :: "recentAddresses \<Rightarrow> instant \<Rightarrow> string list" where
  "clients a now = map fst (filter (\<lambda>(_, known). now - rc_seen known < recentAddressMemory) (ra_byIp a))"

subsection \<open>An address names the pod that was seen there\<close>

text \<open>What is told of an address, by a span or a row, with the directory and the clock of that moment.\<close>

record told =
  to_clock :: instant
  to_directory :: "ApplicationDirectory option"
  to_address :: string
  to_application :: string
  to_seen :: instant

definition tell :: "told \<Rightarrow> recentAddresses \<Rightarrow> recentAddresses" where
  "tell t = record_address (to_clock t) (to_directory t) (to_address t) (to_application t) (to_seen t)"

text \<open>An answer is justified by what was told of the address itself, or of the IP when it is not a node's.\<close>

definition justifies :: "bool \<Rightarrow> string \<Rightarrow> recentAddress \<Rightarrow> told \<Rightarrow> bool" where
  "justifies listen key known t \<longleftrightarrow>
     to_application t = rc_application known \<and> to_seen t = rc_seen known \<and> pod_application (to_application t) \<and> networkIp (host_of (to_address t)) \<and>
     (if listen then to_address t = key
      else host_of (to_address t) = key \<and> (case to_directory t of None \<Rightarrow> False | Some d \<Rightarrow> key \<notin> ad_nodeIps d))"

definition known_ok :: "told list \<Rightarrow> recentAddresses \<Rightarrow> bool" where
  "known_ok past a \<longleftrightarrow> list_all (\<lambda>(k, known). list_ex (justifies True k known) past) (ra_byListen a) \<and>
     list_all (\<lambda>(k, known). list_ex (justifies False k known) past) (ra_byIp a)"

lemma in_AList_update: "x \<in> set (AList.update k v al) \<Longrightarrow> x = (k, v) \<or> x \<in> set al"
  by (induction al) (auto split: if_splits)

lemma set_known_all: "list_all P xs \<Longrightarrow> P (k, v) \<Longrightarrow> list_all P (set_known v k xs)"
  by (auto simp: set_known_def list_all_iff dest: in_AList_update split: option.splits)

lemma known_ok_more: "known_ok past a \<Longrightarrow> known_ok (past @ [t]) a"
  by (auto simp: known_ok_def list_all_iff)

lemma known_ok_prune: "known_ok past a \<Longrightarrow> known_ok past (prune_addresses now a)"
  by (auto simp: known_ok_def prune_addresses_def forget_addresses_def list_all_iff)

lemma known_ok_tell:
  assumes "known_ok past a" shows "known_ok (past @ [t]) (tell t a)"
proof -
  let ?k = "\<lparr>rc_application = to_application t, rc_seen = to_seen t\<rparr>"
  let ?P = "\<lambda>b (k, known). list_ex (justifies b k known) (past @ [t])"
  have ok: "list_all (?P True) (ra_byListen (prune_addresses c a))" "list_all (?P False) (ra_byIp (prune_addresses c a))" "known_ok (past @ [t]) a" for c
    using known_ok_more [OF known_ok_prune [OF assms]] known_ok_more [OF assms] by (simp_all add: known_ok_def)
  show ?thesis
  proof (cases "pod_application (to_application t) \<and> networkIp (host_of (to_address t))")
    case True
    then have "?P True (to_address t, ?k)" by (simp add: justifies_def)
    moreover have "?P False (host_of (to_address t), ?k)" if "to_directory t = Some d" "host_of (to_address t) \<notin> ad_nodeIps d" for d
      using that True by (simp add: justifies_def)
    ultimately show ?thesis
      using True ok(1,2) set_known_all [of "?P True", OF ok(1)] set_known_all [of "?P False", OF ok(2)]
      by (simp add: tell_def record_address_def Let_def known_ok_def split: option.splits)
  next
    case False
    then have "tell t a = a" by (auto simp: tell_def record_address_def Let_def)
    then show ?thesis using ok(3) by simp
  qed
qed

lemma known_ok_fold: "known_ok past a \<Longrightarrow> known_ok (past @ ts) (fold tell ts a)"
proof (induction ts arbitrary: past a)
  case (Cons t ts)
  from Cons.IH [OF known_ok_tell [OF Cons.prems, of t]] show ?case by simp
qed simp

text \<open>
  C18. An address names a pod that was seen there: after whatever spans and rows, the application that a look-up
  answers was told of this very address, or of its IP at a moment when the directory knew that the IP is not
  a node's; it was seen there within the last ten minutes, it is an application of a namespace, and the IP
  is neither a loopback nor a link-local one.
\<close>

theorem addresses_name_pods:
  "case lookup_address (fold tell ts newRecentAddresses) address now of
     None \<Rightarrow> True
   | Some app \<Rightarrow> list_ex (\<lambda>t. to_application t = app \<and> now - to_seen t < recentAddressMemory \<and>
       (justifies True address \<lparr>rc_application = app, rc_seen = to_seen t\<rparr> t \<or> justifies False (host_of address) \<lparr>rc_application = app, rc_seen = to_seen t\<rparr> t)) ts"
proof -
  have ok: "known_ok ts (fold tell ts newRecentAddresses)"
    using known_ok_fold [of "[]" newRecentAddresses ts] by (simp add: known_ok_def newRecentAddresses_def)
  have j: "justifies b k known t \<Longrightarrow> justifies b k \<lparr>rc_application = rc_application known, rc_seen = to_seen t\<rparr> t \<and>
      to_application t = rc_application known \<and> to_seen t = rc_seen known" for b k known t
    unfolding justifies_def by auto
  show ?thesis
  proof (cases "lookup_address (fold tell ts newRecentAddresses) address now")
    case (Some app)
    then obtain known where k: "\<not> now - rc_seen known \<ge> recentAddressMemory" "rc_application known = app"
        "map_of (ra_byListen (fold tell ts newRecentAddresses)) address = Some known \<or> map_of (ra_byIp (fold tell ts newRecentAddresses)) (host_of address) = Some known"
      by (auto simp: lookup_address_def split: option.splits if_splits)
    then have "(address, known) \<in> set (ra_byListen (fold tell ts newRecentAddresses)) \<or> (host_of address, known) \<in> set (ra_byIp (fold tell ts newRecentAddresses))"
      by (auto dest: map_of_SomeD)
    then have "list_ex (justifies True address known) ts \<or> list_ex (justifies False (host_of address) known) ts"
      using ok by (auto simp: known_ok_def list_all_iff)
    then show ?thesis using k(1,2) j Some by (simp add: list_ex_iff not_le) metis
  qed simp
qed

end
