(* ===== verification/TracesBatch.thy ===== *)
theory TracesBatch
  imports RecentAddresses "HOL-Library.Word"
begin

text \<open>
  The batch of spans of a project (\<^verbatim>\<open>collector/traces.go\<close>): spans are added, held until the batch knows what it
  needs, named and counted, and written to ClickHouse after the bodies they refer to. The columns of the batch
  are lists: \<open>tb_rows\<close> holds the columns that \<^verbatim>\<open>Add\<close> fills, and the three columns that \<^verbatim>\<open>write\<close> fills stand
  beside it. What a batch takes from outside is the record \<open>TraceEnv\<close>: the n-th reading of the clock, whether
  the n-th statement fails, the n-th answer of the application directory, and the functions of other packages
  (the hash of a body, the text of a number, JSON, the host of a URL).
\<close>

subsection \<open>Spans of OpenTelemetry\<close>

type_synonym hash = "64 word"

text \<open>A double keeps its value; its text, like JSON, is an argument. \<open>VOther\<close> holds the name of another type.\<close>

datatype AnyValue = VString string | VBool bool | VInt int | VDouble f32 | VBytes string | VArray "AnyValue list"
  | VKvlist "(string \<times> AnyValue) list" | VOther string

type_synonym key_values = "(string \<times> AnyValue) list"

record Encoders =
  en_FormatFloat :: "f32 \<Rightarrow> string"
  en_json_strings :: "string list \<Rightarrow> string"
  en_json_map :: "(string \<rightharpoonup> string) \<Rightarrow> string"
  en_xxhash :: "string \<Rightarrow> hash"
  en_url_host :: "string \<Rightarrow> string option"

definition double_text :: "Encoders \<Rightarrow> f32 \<Rightarrow> string" where
  "double_text en v = (if v = NaN then ''NaN'' else if v = PInf then ''+Inf'' else if v = NInf then ''-Inf'' else en_FormatFloat en v)"

fun valueToString :: "Encoders \<Rightarrow> AnyValue \<Rightarrow> string" where
  "valueToString en (VString s) = s"
| "valueToString en (VBool b) = (if b then ''true'' else ''false'')"
| "valueToString en (VInt i) = Itoa i"
| "valueToString en (VDouble v) = double_text en v"
| "valueToString en (VBytes s) = s"
| "valueToString en (VArray vs) = en_json_strings en (map (valueToString en) vs)"
| "valueToString en (VKvlist kvs) = en_json_map en (map_of (rev (map (\<lambda>kv. (fst kv, valueToString en (snd kv))) kvs)))"
| "valueToString en (VOther t) = ''unknown attribute value type: '' @ t"

definition attributesToMap :: "Encoders \<Rightarrow> key_values \<Rightarrow> attributes" where
  "attributesToMap en kvs = fold (\<lambda>(k, v) m. m(k \<mapsto> valueToString en v)) kvs (\<lambda>_. None)"

record OtlpEvent =
  oe_TimeUnixNano :: "64 word"
  oe_Name :: string
  oe_Attributes :: key_values

record OtlpLink =
  ol_TraceId :: string
  ol_SpanId :: string
  ol_TraceState :: string
  ol_Attributes :: key_values

record OtlpSpan =
  os_TraceId :: string
  os_SpanId :: string
  os_ParentSpanId :: string
  os_TraceState :: string
  os_Name :: string
  os_Kind :: string
  os_StartTimeUnixNano :: "64 word"
  os_EndTimeUnixNano :: "64 word"
  os_Attributes :: key_values
  os_StatusCode :: string
  os_StatusMessage :: string
  os_Events :: "OtlpEvent list"
  os_Links :: "OtlpLink list"

record ScopeSpans =
  sc_Name :: string
  sc_Version :: string
  sc_Spans :: "OtlpSpan list"

record ResourceSpans =
  rs_Attributes :: key_values
  rs_ScopeSpans :: "ScopeSpans list"

type_synonym ExportTraceServiceRequest = "ResourceSpans list"

subsection \<open>Columns of a span\<close>

definition attrHTTPRequestBody :: string where "attrHTTPRequestBody = ''http.request.body''"
definition attrHTTPResponseBody :: string where "attrHTTPResponseBody = ''http.response.body''"
definition maxSpanBodyBytes :: int where "maxSpanBodyBytes = 16 * 1024"
definition bodyRewriteInterval :: int where "bodyRewriteInterval = nanoseconds 3600"
definition maxBodiesWritten :: int where "maxBodiesWritten = 100000"
definition maxHeldBatches :: nat where "maxHeldBatches = 10"
definition nodeAgentScope :: string where "nodeAgentScope = ''coroot-node-agent''"
definition attrRequestKey :: string where "attrRequestKey = ''coroot.request.key''"
definition serverSpanSourcesMaxHold :: int where "serverSpanSourcesMaxHold = nanoseconds 30"
definition AttributeServiceName :: string where "AttributeServiceName = ''service.name''"
definition AttributeOtelScopeName :: string where "AttributeOtelScopeName = ''otel.scope.name''"
definition AttributeOtelScopeVersion :: string where "AttributeOtelScopeVersion = ''otel.scope.version''"

text \<open>\<^verbatim>\<open>extractRequestKey\<close>: the key and the attributes without it.\<close>

definition extractRequestKey :: "attributes \<Rightarrow> 64 word \<times> attributes" where
  "extractRequestKey m =
     (case m attrRequestKey of
        None \<Rightarrow> (0, m)
      | Some v \<Rightarrow> ((case ParseUint16 v of None \<Rightarrow> 0 | Some k \<Rightarrow> of_nat k), m(attrRequestKey := None)))"

definition bodyHash :: "Encoders \<Rightarrow> string \<Rightarrow> hash" where
  "bodyHash en body = (if body = [] then 0 else en_xxhash en body)"

definition capBody :: "string \<Rightarrow> string" where
  "capBody s = (if int (length s) > maxSpanBodyBytes then take (nat maxSpanBodyBytes) s else s)"

definition extractBodies :: "attributes \<Rightarrow> (string \<times> string) \<times> attributes" where
  "extractBodies m =
     ((capBody (attr m attrHTTPRequestBody), capBody (attr m attrHTTPResponseBody)), m(attrHTTPRequestBody := None, attrHTTPResponseBody := None))"

record SpanRow =
  sr_Timestamp :: int
  sr_TraceId :: string
  sr_SpanId :: string
  sr_ParentSpanId :: string
  sr_TraceState :: string
  sr_SpanName :: string
  sr_SpanKind :: string
  sr_ServiceName :: string
  sr_Protocol :: string
  sr_RequestKey :: "64 word"
  sr_ResourceAttributes :: attributes
  sr_SpanAttributes :: attributes
  sr_Duration :: int
  sr_StatusCode :: string
  sr_StatusMessage :: string
  sr_RequestBodyHash :: hash
  sr_ResponseBodyHash :: hash
  sr_Events :: "(int \<times> string \<times> attributes) list"
  sr_Links :: "(string \<times> string \<times> string \<times> attributes) list"

record pendingSpan =
  ps_serviceName :: string
  ps_spanKind :: string
  ps_fromAgent :: bool
  ps_protocol :: string
  ps_resource :: attributes
  ps_span :: attributes

text \<open>What \<^verbatim>\<open>Add\<close> makes of a span: its row, what is pending, and the two bodies.\<close>

definition scope_attributes :: "ScopeSpans \<Rightarrow> attributes \<Rightarrow> attributes" where
  "scope_attributes ss m =
     (let m1 = (if sc_Name ss \<noteq> [] then m(AttributeOtelScopeName \<mapsto> sc_Name ss) else m)
      in if sc_Version ss \<noteq> [] then m1(AttributeOtelScopeVersion \<mapsto> sc_Version ss) else m1)"

definition span_columns :: "Encoders \<Rightarrow> attributes \<Rightarrow> ScopeSpans \<Rightarrow> OtlpSpan \<Rightarrow> SpanRow \<times> pendingSpan \<times> string \<times> string" where
  "span_columns en resource ss s =
     (let ((req, resp), m1) = extractBodies (attributesToMap en (os_Attributes s));
          (requestKey, m2) = extractRequestKey m1;
          m = scope_attributes ss m2;
          serviceName = attr resource AttributeServiceName;
          protocol = requestProtocol m
      in (\<lparr>sr_Timestamp = sint (os_StartTimeUnixNano s), sr_TraceId = EncodeToString (os_TraceId s), sr_SpanId = EncodeToString (os_SpanId s),
           sr_ParentSpanId = EncodeToString (os_ParentSpanId s), sr_TraceState = os_TraceState s, sr_SpanName = os_Name s, sr_SpanKind = os_Kind s,
           sr_ServiceName = serviceName, sr_Protocol = protocol, sr_RequestKey = requestKey, sr_ResourceAttributes = resource, sr_SpanAttributes = m,
           sr_Duration = sint (os_EndTimeUnixNano s - os_StartTimeUnixNano s), sr_StatusCode = os_StatusCode s, sr_StatusMessage = os_StatusMessage s,
           sr_RequestBodyHash = bodyHash en req, sr_ResponseBodyHash = bodyHash en resp,
           sr_Events = map (\<lambda>ev. (sint (oe_TimeUnixNano ev), oe_Name ev, attributesToMap en (oe_Attributes ev))) (os_Events s),
           sr_Links = map (\<lambda>l. (EncodeToString (ol_TraceId l), EncodeToString (ol_SpanId l), ol_TraceState l, attributesToMap en (ol_Attributes l))) (os_Links s)\<rparr>,
          \<lparr>ps_serviceName = serviceName, ps_spanKind = os_Kind s, ps_fromAgent = (sc_Name ss = nodeAgentScope), ps_protocol = protocol,
           ps_resource = resource, ps_span = m\<rparr>, req, resp))"

definition request_columns :: "Encoders \<Rightarrow> ExportTraceServiceRequest \<Rightarrow> (SpanRow \<times> pendingSpan \<times> string \<times> string) list" where
  "request_columns en req =
     concat (map (\<lambda>rs. concat (map (\<lambda>ss. map (span_columns en (attributesToMap en (rs_Attributes rs)) ss) (sc_Spans ss)) (rs_ScopeSpans rs))) req)"

subsection \<open>The batch\<close>

record TracesBatch =
  tb_limit :: nat
  tb_rows :: "SpanRow list"
  tb_Client :: "string list"
  tb_Server :: "string list"
  tb_Counted :: "nat list"
  tb_bodies :: "(hash \<times> string) list"
  tb_bodiesWrittenAt :: "(hash \<times> instant) list"
  tb_pending :: "pendingSpan list"
  tb_servers :: serverSpanSources
  tb_serversLoaded :: bool
  tb_addresses :: recentAddresses
  tb_addressesLoaded :: bool
  tb_createdAt :: instant

text \<open>
  ClickHouse, how often the batch has used the outside, and, for the properties only, the columns handed to
  ClickHouse statement by statement.
\<close>

type_synonym span_columns = "SpanRow list \<times> string list \<times> string list \<times> nat list"

record TraceWorld =
  tw_bodies :: "(hash \<times> string \<times> instant) list"
  tw_spans :: "(SpanRow \<times> string \<times> string \<times> nat) list"
  tw_clock :: nat
  tw_statements :: nat
  tw_directories :: nat
  tw_handed :: "span_columns list"

record TraceEnv =
  te_encoders :: Encoders
  te_clock :: "nat \<Rightarrow> instant"
  te_fails :: "nat \<Rightarrow> bool"
  te_directory :: "nat \<Rightarrow> ApplicationDirectory option \<times> bool"

definition clock_now :: "TraceEnv \<Rightarrow> TraceWorld \<Rightarrow> instant \<times> TraceWorld" where
  "clock_now e w = (te_clock e (tw_clock w), w\<lparr>tw_clock := Suc (tw_clock w)\<rparr>)"

definition ask_directory :: "TraceEnv \<Rightarrow> TraceWorld \<Rightarrow> (ApplicationDirectory option \<times> bool) \<times> TraceWorld" where
  "ask_directory e w = (te_directory e (tw_directories w), w\<lparr>tw_directories := Suc (tw_directories w)\<rparr>)"

text \<open>A statement that fails changes nothing.\<close>

definition trace_exec :: "TraceEnv \<Rightarrow> (TraceWorld \<Rightarrow> TraceWorld) \<Rightarrow> TraceWorld \<Rightarrow> bool \<times> TraceWorld" where
  "trace_exec e f w =
     (let w1 = w\<lparr>tw_statements := Suc (tw_statements w)\<rparr> in if te_fails e (tw_statements w) then (False, w1) else (True, f w1))"

definition newTracesBatch :: "nat \<Rightarrow> bool \<Rightarrow> TraceEnv \<Rightarrow> TraceWorld \<Rightarrow> TracesBatch \<times> TraceWorld" where
  "newTracesBatch limit reads e w =
     (let (now, w1) = clock_now e w
      in (\<lparr>tb_limit = limit, tb_rows = [], tb_Client = [], tb_Server = [], tb_Counted = [], tb_bodies = [], tb_bodiesWrittenAt = [], tb_pending = [],
           tb_servers = newServerSpanSources, tb_serversLoaded = (\<not> reads), tb_addresses = newRecentAddresses, tb_addressesLoaded = (\<not> reads),
           tb_createdAt = now\<rparr>, w1))"

text \<open>Reading from ClickHouse what the spans of every replica taught, once it succeeded.\<close>

definition servers_read :: "serverSpanSource list \<Rightarrow> TracesBatch \<Rightarrow> TracesBatch" where
  "servers_read rows b = b\<lparr>tb_servers := remember_sources rows (tb_servers b), tb_serversLoaded := True\<rparr>"

definition addresses_read :: "TraceEnv \<Rightarrow> recentAddressRow list \<Rightarrow> TracesBatch \<times> TraceWorld \<Rightarrow> TracesBatch \<times> TraceWorld" where
  "addresses_read e rows st =
     (let (b, w) = st; ((dir, _), w1) = ask_directory e w; (now, w2) = clock_now e w1
      in (b\<lparr>tb_addresses := remember_addresses now dir rows (tb_addresses b), tb_addressesLoaded := True\<rparr>, w2))"

definition readsDone :: "TracesBatch \<Rightarrow> bool" where
  "readsDone b \<longleftrightarrow> tb_serversLoaded b \<and> tb_addressesLoaded b"

text \<open>\<^verbatim>\<open>addBody\<close>; the hash it returns is \<open>bodyHash\<close>.\<close>

definition addBody :: "TraceEnv \<Rightarrow> string \<Rightarrow> TracesBatch \<times> TraceWorld \<Rightarrow> TracesBatch \<times> TraceWorld" where
  "addBody e body st =
     (let (b, w) = st; h = bodyHash (te_encoders e) body; keep = b\<lparr>tb_bodies := AList.update h body (tb_bodies b)\<rparr>
      in if h = 0 then st
         else
           (case map_of (tb_bodiesWrittenAt b) h of
              None \<Rightarrow> (keep, w)
            | Some writtenAt \<Rightarrow> (let (now, w1) = clock_now e w in if now - writtenAt < bodyRewriteInterval then (b, w1) else (keep, w1))))"

definition add_span :: "TraceEnv \<Rightarrow> SpanRow \<times> pendingSpan \<times> string \<times> string \<Rightarrow> TracesBatch \<times> TraceWorld \<Rightarrow> TracesBatch \<times> TraceWorld" where
  "add_span e x st =
     (let (row, p, req, resp) = x; (b, w) = st
      in addBody e resp (addBody e req (b\<lparr>tb_rows := tb_rows b @ [row], tb_pending := tb_pending b @ [p]\<rparr>, w)))"

definition saveBodies :: "TraceEnv \<Rightarrow> TracesBatch \<times> TraceWorld \<Rightarrow> TracesBatch \<times> TraceWorld" where
  "saveBodies e st =
     (let (b, w) = st
      in if tb_bodies b = [] then st
         else
           (let (now, w1) = clock_now e w;
                (ok, w2) = trace_exec e (\<lambda>w. w\<lparr>tw_bodies := tw_bodies w @ map (\<lambda>(h, body). (h, body, now)) (tb_bodies b)\<rparr>) w1;
                written = (if int (length (tb_bodiesWrittenAt b)) + int (length (tb_bodies b)) > maxBodiesWritten then [] else tb_bodiesWrittenAt b)
            in if \<not> ok then (b\<lparr>tb_bodies := []\<rparr>, w2)
               else (b\<lparr>tb_bodiesWrittenAt := fold (\<lambda>(h, _). AList.update h now) (tb_bodies b) written, tb_bodies := []\<rparr>, w2)))"

definition learnAddresses :: "instant \<Rightarrow> ApplicationDirectory option \<Rightarrow> pendingSpan \<Rightarrow> string \<Rightarrow> string \<Rightarrow> instant \<Rightarrow> recentAddresses \<Rightarrow> recentAddresses" where
  "learnAddresses clock dir p client server now a =
     (if \<not> ps_fromAgent p then a
      else if ps_spanKind p = ''SPAN_KIND_SERVER'' then learn clock dir (ps_spanKind p) server (ps_span p) now a
      else if ps_spanKind p = ''SPAN_KIND_CLIENT'' then learn clock dir (ps_spanKind p) client (ps_span p) now a
      else a)"

definition peer_name :: "recentAddresses \<Rightarrow> string \<Rightarrow> string \<Rightarrow> instant \<Rightarrow> string" where
  "peer_name a address name now =
     (if address \<noteq> [] \<and> name = address then (case lookup_address a address now of Some n \<Rightarrow> n | None \<Rightarrow> name) else name)"

definition namePeers :: "Encoders \<Rightarrow> recentAddresses \<Rightarrow> pendingSpan \<Rightarrow> string \<Rightarrow> string \<Rightarrow> instant \<Rightarrow> string \<times> string" where
  "namePeers en a p client server now =
     (if ps_spanKind p = ''SPAN_KIND_SERVER'' \<or> ps_spanKind p = ''SPAN_KIND_CONSUMER'' then (peer_name a (clientAddress (ps_span p)) client now, server)
      else if ps_spanKind p = ''SPAN_KIND_CLIENT'' \<or> ps_spanKind p = ''SPAN_KIND_PRODUCER''
      then (client, peer_name a (serverAddress (en_url_host en) (ps_span p)) server now)
      else (client, server))"

text \<open>The first loop of \<^verbatim>\<open>write\<close> names the applications and learns the addresses; the second names the peers and counts.\<close>

definition name_span :: "TraceEnv \<Rightarrow> instant \<Rightarrow> pendingSpan \<Rightarrow> (string \<times> string) list \<times> ApplicationDirectory option \<times> recentAddresses \<times> TraceWorld
    \<Rightarrow> (string \<times> string) list \<times> ApplicationDirectory option \<times> recentAddresses \<times> TraceWorld" where
  "name_span e now p st =
     (let (names, dir, a, w) = st;
          ((client, server), dir1) = SpanApplications (en_url_host (te_encoders e)) dir (ps_serviceName p) (ps_spanKind p) (ps_resource p) (ps_span p);
          (clock, w1) = clock_now e w
      in (names @ [(client, server)], dir1, learnAddresses clock dir1 p client server now a, w1))"

definition count_pending :: "TraceEnv \<Rightarrow> instant \<Rightarrow> pendingSpan \<times> string \<times> string \<Rightarrow> TracesBatch \<Rightarrow> TracesBatch" where
  "count_pending e now x b =
     (let (p, c, s) = x;
          (client, server) = namePeers (te_encoders e) (tb_addresses b) p c s now;
          (yes, servers) = counted (ps_spanKind p) (ps_fromAgent p) server (ps_protocol p) now (tb_servers b)
      in b\<lparr>tb_Client := tb_Client b @ [client], tb_Server := tb_Server b @ [server],
           tb_Counted := tb_Counted b @ [if yes then 1 else 0], tb_servers := servers\<rparr>)"

text \<open>Columns of different lengths are refused.\<close>

definition insert_spans :: "span_columns \<Rightarrow> TraceWorld \<Rightarrow> TraceWorld" where
  "insert_spans cols w = (let (rows, cs, ss, ks) = cols in w\<lparr>tw_spans := tw_spans w @ zip rows (zip cs (zip ss ks))\<rparr>)"

definition aligned_columns :: "span_columns \<Rightarrow> bool" where
  "aligned_columns cols \<longleftrightarrow> (let (rows, cs, ss, ks) = cols in length cs = length rows \<and> length ss = length rows \<and> length ks = length rows)"

definition exec_spans :: "TraceEnv \<Rightarrow> span_columns \<Rightarrow> TraceWorld \<Rightarrow> TraceWorld" where
  "exec_spans e cols w =
     (let w1 = w\<lparr>tw_handed := tw_handed w @ [cols]\<rparr> in snd (trace_exec e (\<lambda>w. if aligned_columns cols then insert_spans cols w else w) w1))"

definition write_spans :: "TraceEnv \<Rightarrow> TracesBatch \<times> TraceWorld \<Rightarrow> TracesBatch \<times> TraceWorld" where
  "write_spans e st =
     (let (b, w) = st
      in if tb_rows b = [] then st
         else
           (let ((dir, _), w1) = ask_directory e w;
                (now, w2) = clock_now e w1;
                (names, _, a, w3) = fold (name_span e now) (tb_pending b) ([], dir, tb_addresses b, w2);
                b1 = fold (count_pending e now) (zip (tb_pending b) names) (b\<lparr>tb_addresses := a\<rparr>);
                (b2, w4) = saveBodies e (b1\<lparr>tb_pending := []\<rparr>, w3)
            in (b2\<lparr>tb_rows := [], tb_Client := [], tb_Server := [], tb_Counted := []\<rparr>,
                exec_spans e (tb_rows b2, tb_Client b2, tb_Server b2, tb_Counted b2) w4)))"

definition holds :: "TracesBatch \<Rightarrow> bool \<Rightarrow> instant \<Rightarrow> bool" where
  "holds b directoryReady now \<longleftrightarrow>
     \<not> (readsDone b \<and> directoryReady) \<and> now - tb_createdAt b < serverSpanSourcesMaxHold \<and> length (tb_rows b) < maxHeldBatches * tb_limit b"

definition save :: "TraceEnv \<Rightarrow> TracesBatch \<times> TraceWorld \<Rightarrow> TracesBatch \<times> TraceWorld" where
  "save e st =
     (let (b, w) = st; ((_, directoryReady), w1) = ask_directory e w; (now, w2) = clock_now e w1
      in if holds b directoryReady now then (b, w2) else write_spans e (b, w2))"

definition Add :: "TraceEnv \<Rightarrow> ExportTraceServiceRequest \<Rightarrow> TracesBatch \<times> TraceWorld \<Rightarrow> TracesBatch \<times> TraceWorld" where
  "Add e req st =
     (let st1 = fold (add_span e) (request_columns (te_encoders e) req) st
      in if length (tb_rows (fst st1)) < tb_limit (fst st1) then st1 else save e st1)"

text \<open>\<^verbatim>\<open>Close\<close> after its waiting.\<close>

definition Close :: "TraceEnv \<Rightarrow> TracesBatch \<times> TraceWorld \<Rightarrow> TracesBatch \<times> TraceWorld" where
  "Close e st = write_spans e st"

definition RecentClients :: "TraceEnv \<Rightarrow> TracesBatch \<times> TraceWorld \<Rightarrow> string list \<times> TraceWorld" where
  "RecentClients e st = (let (b, w) = st; (now, w1) = clock_now e w in (clients (tb_addresses b) now, w1))"

end
