(* ===== verification/TelemetryBatches.thy ===== *)
theory TelemetryBatches
  imports BatchContract TracesBatch
begin

text \<open>
  The batches of logs, metrics and profiles (\<^verbatim>\<open>collector/logs.go\<close>, \<^verbatim>\<open>collector/metrics.go\<close>,
  \<^verbatim>\<open>collector/profiles.go\<close>). All columns of a batch grow together, so a batch is a list of rows. The tick of
  the clock and the end of a batch save it; the sums of the samples of metrics are kept beside the rows.
\<close>

subsection \<open>Logs\<close>

record OtlpLog =
  ol_TimeUnixNano :: "64 word"
  ol_LogTraceId :: string
  ol_LogSpanId :: string
  ol_Flags :: "32 word"
  ol_SeverityText :: string
  ol_SeverityNumber :: int
  ol_Body :: "AnyValue option"
  ol_LogAttributes :: key_values

record ScopeLogs =
  sl_Name :: string
  sl_Version :: string
  sl_LogRecords :: "OtlpLog list"

record ResourceLogs =
  rl_Attributes :: key_values
  rl_ScopeLogs :: "ScopeLogs list"

type_synonym ExportLogsServiceRequest = "ResourceLogs list"

record LogRow =
  lr_Timestamp :: int
  lr_TraceId :: string
  lr_SpanId :: string
  lr_TraceFlags :: "32 word"
  lr_SeverityText :: string
  lr_SeverityNumber :: int
  lr_ServiceName :: string
  lr_ResourceAttributes :: attributes
  lr_LogAttributes :: attributes
  lr_Body :: string

text \<open>\<^verbatim>\<open>GetBody().GetStringValue()\<close>: empty for a missing body and for one that is not a text.\<close>

definition body_text :: "AnyValue option \<Rightarrow> string" where
  "body_text v = (case v of Some (VString s) \<Rightarrow> s | _ \<Rightarrow> [])"

definition log_attributes :: "Encoders \<Rightarrow> ScopeLogs \<Rightarrow> OtlpLog \<Rightarrow> attributes" where
  "log_attributes en sl l =
     (let m = attributesToMap en (ol_LogAttributes l);
          m1 = (if sl_Name sl \<noteq> [] then m(AttributeOtelScopeName \<mapsto> sl_Name sl) else m)
      in if sl_Version sl \<noteq> [] then m1(AttributeOtelScopeVersion \<mapsto> sl_Version sl) else m1)"

definition log_row :: "Encoders \<Rightarrow> attributes \<Rightarrow> ScopeLogs \<Rightarrow> OtlpLog \<Rightarrow> LogRow" where
  "log_row en resource sl l =
     \<lparr>lr_Timestamp = sint (ol_TimeUnixNano l), lr_TraceId = EncodeToString (ol_LogTraceId l), lr_SpanId = EncodeToString (ol_LogSpanId l),
      lr_TraceFlags = ol_Flags l, lr_SeverityText = ol_SeverityText l, lr_SeverityNumber = ol_SeverityNumber l,
      lr_ServiceName = attr resource AttributeServiceName, lr_ResourceAttributes = resource, lr_LogAttributes = log_attributes en sl l,
      lr_Body = body_text (ol_Body l)\<rparr>"

text \<open>A time beyond the 63 bits of a Go time is skipped.\<close>

definition log_rows :: "Encoders \<Rightarrow> ExportLogsServiceRequest \<Rightarrow> LogRow list" where
  "log_rows en req =
     concat (map (\<lambda>rl. let resource = attributesToMap en (rl_Attributes rl)
       in concat (map (\<lambda>sl. map (log_row en resource sl) (filter (\<lambda>l. \<not> sint (ol_TimeUnixNano l) < 0) (sl_LogRecords sl))) (rl_ScopeLogs rl))) req)"

record LogsBatch =
  lb_limit :: nat
  lb_rows :: "LogRow list"

definition NewLogsBatch :: "nat \<Rightarrow> LogsBatch" where
  "NewLogsBatch limit = \<lparr>lb_limit = limit, lb_rows = []\<rparr>"

definition save_logs :: "(nat \<Rightarrow> bool) \<Rightarrow> LogsBatch \<times> LogRow list statement_log \<Rightarrow> LogsBatch \<times> LogRow list statement_log" where
  "save_logs fails st =
     (let (b, w) = st in if lb_rows b = [] then st else (b\<lparr>lb_rows := []\<rparr>, exec_log fails (lb_rows b) w))"

definition add_logs :: "(nat \<Rightarrow> bool) \<Rightarrow> Encoders \<Rightarrow> ExportLogsServiceRequest \<Rightarrow> LogsBatch \<times> LogRow list statement_log
    \<Rightarrow> LogsBatch \<times> LogRow list statement_log" where
  "add_logs fails en req st =
     (let (b, w) = st; b1 = b\<lparr>lb_rows := lb_rows b @ log_rows en req\<rparr>
      in if length (lb_rows b1) < lb_limit b1 then (b1, w) else save_logs fails (b1, w))"

definition close_logs :: "(nat \<Rightarrow> bool) \<Rightarrow> LogsBatch \<times> LogRow list statement_log \<Rightarrow> LogsBatch \<times> LogRow list statement_log" where
  "close_logs fails st = save_logs fails st"

subsection \<open>Metrics\<close>

text \<open>A sample has its time in milliseconds and the bits of its value.\<close>

record PromSeries =
  pr_Labels :: "(string \<times> string) list"
  pr_Samples :: "(int \<times> 64 word) list"

record PromMetadata =
  pm_Family :: string
  pm_Type :: string
  pm_Unit :: string
  pm_Help :: string

record WriteRequest =
  wr_Timeseries :: "PromSeries list"
  wr_Metadata :: "PromMetadata list"

record SeriesRow =
  sw_name :: string
  sw_tags :: attributes
  sw_ts :: "int list"
  sw_vs :: "64 word list"

datatype metrics_statement = InsertSamples "SeriesRow list" | InsertMetadata "PromMetadata list"

fun sample_rows :: "metrics_statement \<Rightarrow> SeriesRow list" where
  "sample_rows (InsertSamples xs) = xs"
| "sample_rows (InsertMetadata ms) = []"

fun metadata_rows :: "metrics_statement \<Rightarrow> PromMetadata list" where
  "metadata_rows (InsertSamples xs) = []"
| "metadata_rows (InsertMetadata ms) = ms"

definition MetricNameLabel :: string where "MetricNameLabel = ''__name__''"

definition label_step :: "string \<times> string \<Rightarrow> string \<times> attributes \<Rightarrow> string \<times> attributes" where
  "label_step l st =
     (let (name, tags) = st
      in if fst l = MetricNameLabel then (snd l, tags) else if snd l = [] then st else (name, tags(fst l \<mapsto> snd l)))"

definition series_row :: "PromSeries \<Rightarrow> SeriesRow" where
  "series_row s =
     (let (name, tags) = fold label_step (pr_Labels s) ([], \<lambda>_. None)
      in \<lparr>sw_name = name, sw_tags = tags, sw_ts = map fst (pr_Samples s), sw_vs = map snd (pr_Samples s)\<rparr>)"

definition series_rows :: "WriteRequest \<Rightarrow> SeriesRow list" where
  "series_rows req = map series_row (filter (\<lambda>s. pr_Samples s \<noteq> []) (wr_Timeseries req))"

record MetricsBatch =
  mb_limit :: nat
  mb_rows :: nat
  mb_series :: "SeriesRow list"
  mb_metadata :: "PromMetadata list"

definition NewMetricsBatch :: "nat \<Rightarrow> MetricsBatch" where
  "NewMetricsBatch limit = \<lparr>mb_limit = limit, mb_rows = 0, mb_series = [], mb_metadata = []\<rparr>"

definition save_samples :: "(nat \<Rightarrow> bool) \<Rightarrow> MetricsBatch \<times> metrics_statement statement_log \<Rightarrow> MetricsBatch \<times> metrics_statement statement_log" where
  "save_samples fails st =
     (let (b, w) = st
      in if mb_rows b > 0 then (b\<lparr>mb_series := [], mb_rows := 0\<rparr>, exec_log fails (InsertSamples (mb_series b)) w) else st)"

definition save_metadata :: "(nat \<Rightarrow> bool) \<Rightarrow> MetricsBatch \<times> metrics_statement statement_log \<Rightarrow> MetricsBatch \<times> metrics_statement statement_log" where
  "save_metadata fails st =
     (let (b, w) = st
      in if mb_metadata b \<noteq> [] then (b\<lparr>mb_metadata := []\<rparr>, exec_log fails (InsertMetadata (mb_metadata b)) w) else st)"

definition save_metrics :: "(nat \<Rightarrow> bool) \<Rightarrow> MetricsBatch \<times> metrics_statement statement_log \<Rightarrow> MetricsBatch \<times> metrics_statement statement_log" where
  "save_metrics fails st = save_metadata fails (save_samples fails st)"

definition add_metrics :: "(nat \<Rightarrow> bool) \<Rightarrow> WriteRequest \<Rightarrow> MetricsBatch \<times> metrics_statement statement_log
    \<Rightarrow> MetricsBatch \<times> metrics_statement statement_log" where
  "add_metrics fails req st =
     (let (b, w) = st;
          b1 = b\<lparr>mb_metadata := mb_metadata b @ wr_Metadata req\<rparr>;
          b2 = b1\<lparr>mb_series := mb_series b1 @ series_rows req,
                  mb_rows := mb_rows b1 + sum_list (map (length \<circ> pr_Samples) (wr_Timeseries req))\<rparr>
      in if mb_rows b2 < mb_limit b2 then (b2, w) else save_metrics fails (b2, w))"

definition close_metrics :: "(nat \<Rightarrow> bool) \<Rightarrow> MetricsBatch \<times> metrics_statement statement_log \<Rightarrow> MetricsBatch \<times> metrics_statement statement_log" where
  "close_metrics fails st = save_metrics fails st"

subsection \<open>Profiles\<close>

record ProfileFunction =
  pf_Name :: string
  pf_Filename :: string

record ProfileLine =
  pl_Function :: "ProfileFunction option"
  pl_Line :: int

text \<open>A location is a list of lines.\<close>

record ProfileSample =
  px_Location :: "ProfileLine list list"
  px_Value :: "64 word list"

record Profile =
  pp_SampleType :: "string list"
  pp_Sample :: "ProfileSample list"
  pp_TimeNanos :: "64 word"
  pp_DurationNanos :: "64 word"

record ProfileRow =
  pw_ServiceName :: string
  pw_Type :: string
  pw_Start :: int
  pw_End :: int
  pw_Labels :: attributes
  pw_Value :: "64 word"
  pw_StackHash :: "64 word"
  pw_Stack :: "string list"

text \<open>FNV-1a with 64 bits, written to piece by piece as \<^verbatim>\<open>hash/fnv\<close> does.\<close>

definition fnv_byte :: "char \<Rightarrow> 64 word \<Rightarrow> 64 word" where
  "fnv_byte c h = (xor h (of_char c)) * 1099511628211"

definition fnv_write :: "string \<Rightarrow> 64 word \<Rightarrow> 64 word" where
  "fnv_write s h = fold fnv_byte s h"

definition StackHash :: "string list \<Rightarrow> 64 word" where
  "StackHash s = fold fnv_write s 14695981039346656037"

definition line_text :: "ProfileLine \<Rightarrow> string list" where
  "line_text l = (case pl_Function l of None \<Rightarrow> [] | Some f \<Rightarrow> [pf_Name f @ '' '' @ pf_Filename f @ '':'' @ Itoa (pl_Line l)])"

definition sample_stack :: "ProfileSample \<Rightarrow> string list" where
  "sample_stack s = concat (map (\<lambda>location. concat (map line_text location)) (px_Location s))"

text \<open>The values of a sample are read by the index of its type: an index out of range is a panic.\<close>

definition profile_row :: "string \<Rightarrow> attributes \<Rightarrow> Profile \<Rightarrow> nat \<Rightarrow> string \<Rightarrow> ProfileSample \<Rightarrow> ProfileRow" where
  "profile_row serviceName labels p i type s =
     \<lparr>pw_ServiceName = serviceName, pw_Type = type, pw_Start = sint (pp_TimeNanos p) + sint (- pp_DurationNanos p), pw_End = sint (pp_TimeNanos p),
      pw_Labels = labels, pw_Value = px_Value s ! i, pw_StackHash = StackHash (sample_stack s), pw_Stack = sample_stack s\<rparr>"

definition profile_rows :: "string \<Rightarrow> attributes \<Rightarrow> Profile \<Rightarrow> ProfileRow list option" where
  "profile_rows serviceName labels p =
     (if list_ex (\<lambda>(i, type). type \<noteq> [] \<and> list_ex (\<lambda>s. length (px_Value s) \<le> i) (pp_Sample p)) (enumerate 0 (pp_SampleType p)) then None
      else Some (concat (map (\<lambda>(i, type). if type = [] then [] else map (profile_row serviceName labels p i type) (pp_Sample p))
        (enumerate 0 (pp_SampleType p)))))"

datatype profiles_statement = InsertStacks "(string \<times> 64 word \<times> int \<times> string list) list"
  | InsertProfileSamples "(string \<times> string \<times> int \<times> int \<times> attributes \<times> 64 word \<times> 64 word) list"

definition stack_columns :: "ProfileRow \<Rightarrow> string \<times> 64 word \<times> int \<times> string list" where
  "stack_columns r = (pw_ServiceName r, pw_StackHash r, pw_End r, pw_Stack r)"

definition sample_columns :: "ProfileRow \<Rightarrow> string \<times> string \<times> int \<times> int \<times> attributes \<times> 64 word \<times> 64 word" where
  "sample_columns r = (pw_ServiceName r, pw_Type r, pw_Start r, pw_End r, pw_Labels r, pw_StackHash r, pw_Value r)"

fun stack_rows :: "profiles_statement \<Rightarrow> (string \<times> 64 word \<times> int \<times> string list) list" where
  "stack_rows (InsertStacks xs) = xs"
| "stack_rows (InsertProfileSamples xs) = []"

fun profile_sample_rows :: "profiles_statement \<Rightarrow> (string \<times> string \<times> int \<times> int \<times> attributes \<times> 64 word \<times> 64 word) list" where
  "profile_sample_rows (InsertStacks xs) = []"
| "profile_sample_rows (InsertProfileSamples xs) = xs"

record ProfilesBatch =
  pb_limit :: nat
  pb_rows :: "ProfileRow list"

definition NewProfilesBatch :: "nat \<Rightarrow> ProfilesBatch" where
  "NewProfilesBatch limit = \<lparr>pb_limit = limit, pb_rows = []\<rparr>"

definition save_profiles :: "(nat \<Rightarrow> bool) \<Rightarrow> ProfilesBatch \<times> profiles_statement statement_log \<Rightarrow> ProfilesBatch \<times> profiles_statement statement_log" where
  "save_profiles fails st =
     (let (b, w) = st
      in if pb_rows b = [] then st
         else (b\<lparr>pb_rows := []\<rparr>, exec_log fails (InsertProfileSamples (map sample_columns (pb_rows b)))
                 (exec_log fails (InsertStacks (map stack_columns (pb_rows b))) w)))"

definition add_profile :: "(nat \<Rightarrow> bool) \<Rightarrow> string \<Rightarrow> attributes \<Rightarrow> Profile \<Rightarrow> ProfilesBatch \<times> profiles_statement statement_log
    \<Rightarrow> (ProfilesBatch \<times> profiles_statement statement_log) option" where
  "add_profile fails serviceName labels p st =
     (case profile_rows serviceName labels p of
        None \<Rightarrow> None
      | Some rows \<Rightarrow>
          (let (b, w) = st; b1 = b\<lparr>pb_rows := pb_rows b @ rows\<rparr>
           in Some (if length (pb_rows b1) < pb_limit b1 then (b1, w) else save_profiles fails (b1, w))))"

definition close_profiles :: "(nat \<Rightarrow> bool) \<Rightarrow> ProfilesBatch \<times> profiles_statement statement_log \<Rightarrow> ProfilesBatch \<times> profiles_statement statement_log" where
  "close_profiles fails st = save_profiles fails st"

text \<open>The query of the request: the service and the labels, parameters with several values being skipped.\<close>

definition profile_query :: "(string \<times> string list) list \<Rightarrow> (string \<times> attributes) option" where
  "profile_query query =
     (let (serviceName, labels) =
        fold (\<lambda>(k, vs) (serviceName, labels).
          if length vs \<noteq> 1 then (serviceName, labels)
          else if k = ''service.name'' then (hd vs, labels) else (serviceName, labels(k \<mapsto> hd vs))) query ([], \<lambda>_. None)
      in if serviceName = [] then None else Some (serviceName, labels))"

end
