(* ===== verification/TracesSafety.thy ===== *)
theory TracesSafety
  imports TracesBatch
begin

text \<open>
  Theorems on the batch of spans, for whatever requests, ticks and reads come in whatever order: every span is
  handed to ClickHouse once, in order and with its own columns; the batch is bounded; and the bodies are stored
  before the spans that refer to them.
\<close>

datatype trace_op = Request ExportTraceServiceRequest | Tick | ServersRead "serverSpanSource list" | AddressesRead "recentAddressRow list" | Closing

fun run_op :: "TraceEnv \<Rightarrow> trace_op \<Rightarrow> TracesBatch \<times> TraceWorld \<Rightarrow> TracesBatch \<times> TraceWorld" where
  "run_op e (Request req) st = Add e req st"
| "run_op e Tick st = save e st"
| "run_op e (ServersRead rows) st = (servers_read rows (fst st), snd st)"
| "run_op e (AddressesRead rows) st = addresses_read e rows st"
| "run_op e Closing st = Close e st"

definition run_ops :: "TraceEnv \<Rightarrow> trace_op list \<Rightarrow> TracesBatch \<times> TraceWorld \<Rightarrow> TracesBatch \<times> TraceWorld" where
  "run_ops e ops st = fold (run_op e) ops st"

text \<open>The rows that an operation adds.\<close>

fun added :: "Encoders \<Rightarrow> trace_op \<Rightarrow> SpanRow list" where
  "added en (Request req) = map fst (request_columns en req)"
| "added en _ = []"

definition no_traces :: TraceWorld where
  "no_traces = \<lparr>tw_bodies = [], tw_spans = [], tw_clock = 0, tw_statements = 0, tw_directories = 0, tw_handed = []\<rparr>"

subsection \<open>What the parts of a write keep\<close>

lemma clock_now_simps [simp]: "snd (clock_now e w) = w\<lparr>tw_clock := Suc (tw_clock w)\<rparr>"
  by (simp add: clock_now_def)

lemma ask_directory_simps [simp]: "snd (ask_directory e w) = w\<lparr>tw_directories := Suc (tw_directories w)\<rparr>"
  by (simp add: ask_directory_def)

text \<open>Worlds that differ in the clock and in the questions to the directory only.\<close>

definition same_store :: "TraceWorld \<Rightarrow> TraceWorld \<Rightarrow> bool" where
  "same_store w w' \<longleftrightarrow> tw_bodies w' = tw_bodies w \<and> tw_spans w' = tw_spans w \<and> tw_handed w' = tw_handed w"

lemma same_store_simps [simp]: "same_store w w" "same_store w (w'\<lparr>tw_clock := n\<rparr>) = same_store w w'"
  "same_store w (w'\<lparr>tw_directories := n\<rparr>) = same_store w w'" "same_store w (w'\<lparr>tw_statements := n\<rparr>) = same_store w w'"
  by (simp_all add: same_store_def)

lemma same_store_trans: "same_store w w' \<Longrightarrow> same_store w' w'' \<Longrightarrow> same_store w w''"
  by (simp add: same_store_def)

lemma same_batch: "\<exists>bs. b = b\<lparr>tb_bodies := bs\<rparr>"
  by (rule exI [of _ "tb_bodies b"]) simp

lemma addBody_keeps:
  assumes "addBody e body (b, w) = (b', w')"
  shows "same_store w w' \<and> (\<exists>bs. b' = b\<lparr>tb_bodies := bs\<rparr>)"
  using assms same_batch by (auto simp: addBody_def clock_now_def Let_def split: if_splits option.splits)

lemma add_span_keeps:
  assumes "add_span e x (b, w) = (b', w')"
  shows "same_store w w' \<and> (\<exists>bs. b' = b\<lparr>tb_rows := tb_rows b @ [fst x], tb_pending := tb_pending b @ [fst (snd x)], tb_bodies := bs\<rparr>)"
proof -
  obtain row p req resp where x: "x = (row, p, req, resp)" by (metis prod.exhaust)
  obtain b1 w1 where 1: "addBody e req (b\<lparr>tb_rows := tb_rows b @ [row], tb_pending := tb_pending b @ [p]\<rparr>, w) = (b1, w1)" by force
  then have 2: "addBody e resp (b1, w1) = (b', w')" using assms x by (simp add: add_span_def)
  from addBody_keeps [OF 1] addBody_keeps [OF 2] show ?thesis using x same_store_trans by auto
qed

lemma add_spans_keep:
  assumes "fold (add_span e) xs (b, w) = (b', w')"
  shows "same_store w w' \<and> (\<exists>bs. b' = b\<lparr>tb_rows := tb_rows b @ map fst xs, tb_pending := tb_pending b @ map (fst \<circ> snd) xs, tb_bodies := bs\<rparr>)"
  using assms
proof (induction xs arbitrary: b w)
  case (Cons x xs)
  obtain b1 w1 where 1: "add_span e x (b, w) = (b1, w1)" by force
  then have "fold (add_span e) xs (b1, w1) = (b', w')" using Cons.prems by simp
  from Cons.IH [OF this] add_span_keeps [OF 1] same_store_trans show ?case by auto
qed (use same_batch in auto)

lemma name_spans_keep:
  "fold (name_span e now) ps (ns, dir, a, w) = (ns', dir', a', w') \<Longrightarrow> same_store w w' \<and> length ns' = length ns + length ps"
proof (induction ps arbitrary: ns dir a w)
  case (Cons p ps)
  obtain c s dir1 where "SpanApplications (en_url_host (te_encoders e)) dir (ps_serviceName p) (ps_spanKind p) (ps_resource p) (ps_span p) = ((c, s), dir1)"
    by (metis prod.exhaust)
  then have "name_span e now p (ns, dir, a, w) = (ns @ [(c, s)], dir1, learnAddresses (te_clock e (tw_clock w)) dir1 p c s now a, w\<lparr>tw_clock := Suc (tw_clock w)\<rparr>)"
    by (simp add: name_span_def clock_now_def)
  then have "fold (name_span e now) ps (ns @ [(c, s)], dir1, learnAddresses (te_clock e (tw_clock w)) dir1 p c s now a, w\<lparr>tw_clock := Suc (tw_clock w)\<rparr>) = (ns', dir', a', w')"
    using Cons.prems by simp
  from Cons.IH [OF this] show ?case by (simp add: same_store_def)
qed simp

text \<open>What counting leaves as it is.\<close>

lemma count_pending_keeps:
  assumes "fold (count_pending e now) xs b = b'"
  shows "tb_rows b' = tb_rows b \<and> tb_bodies b' = tb_bodies b \<and> tb_bodiesWrittenAt b' = tb_bodiesWrittenAt b \<and> tb_limit b' = tb_limit b \<and>
    length (tb_Client b') = length (tb_Client b) + length xs \<and> length (tb_Server b') = length (tb_Server b) + length xs \<and>
    length (tb_Counted b') = length (tb_Counted b) + length xs"
  using assms
proof (induction xs arbitrary: b)
  case (Cons x xs)
  from Cons.IH [of "count_pending e now x b"] Cons.prems show ?case
    by (auto simp: count_pending_def case_prod_beta Let_def)
qed simp

lemma saveBodies_keeps:
  assumes "saveBodies e (b, w) = (b', w')"
  shows "tw_spans w' = tw_spans w \<and> tw_handed w' = tw_handed w \<and> tb_rows b' = tb_rows b \<and> tb_Client b' = tb_Client b \<and> tb_Server b' = tb_Server b \<and>
    tb_Counted b' = tb_Counted b \<and> tb_pending b' = tb_pending b \<and> tb_limit b' = tb_limit b"
  using assms by (auto simp: saveBodies_def trace_exec_def clock_now_def Let_def split: if_splits)

lemma exec_spans_handed: "tw_handed (exec_spans e cols w) = tw_handed w @ [cols]"
  by (cases cols) (simp add: exec_spans_def trace_exec_def insert_spans_def Let_def)

subsection \<open>Columns\<close>

text \<open>The span that waits for its names is the one of the row.\<close>

definition waits_for :: "SpanRow \<Rightarrow> pendingSpan \<Rightarrow> bool" where
  "waits_for row p \<longleftrightarrow> ps_serviceName p = sr_ServiceName row \<and> ps_spanKind p = sr_SpanKind row \<and> ps_protocol p = sr_Protocol row \<and>
     ps_resource p = sr_ResourceAttributes row \<and> ps_span p = sr_SpanAttributes row"

definition batch_ok :: "SpanRow list \<Rightarrow> TracesBatch \<times> TraceWorld \<Rightarrow> bool" where
  "batch_ok rows st \<longleftrightarrow>
     (let (b, w) = st
      in tb_Client b = [] \<and> tb_Server b = [] \<and> tb_Counted b = [] \<and> list_all2 waits_for (tb_rows b) (tb_pending b) \<and>
         list_all aligned_columns (tw_handed w) \<and> concat (map fst (tw_handed w)) @ tb_rows b = rows)"

lemma span_columns_wait: "waits_for (fst (span_columns en r ss s)) (fst (snd (span_columns en r ss s)))"
  by (simp add: span_columns_def waits_for_def Let_def case_prod_beta)

lemma request_columns_wait: "x \<in> set (request_columns en req) \<Longrightarrow> waits_for (fst x) (fst (snd x))"
  by (auto simp: request_columns_def span_columns_wait simp del: span_columns_def)

text \<open>A write hands all columns over, aligned, and leaves an empty batch.\<close>

lemma write_spans_ok:
  assumes ok: "batch_ok rows st"
  shows "batch_ok rows (write_spans e st) \<and> tb_rows (fst (write_spans e st)) = [] \<and> tb_limit (fst (write_spans e st)) = tb_limit (fst st)"
proof -
  obtain b w where st: "st = (b, w)" by force
  show ?thesis
  proof (cases "tb_rows b = []")
    case True
    then show ?thesis using ok st by (simp add: write_spans_def)
  next
    case False
    obtain dir r w1 where 1: "ask_directory e w = ((dir, r), w1)" by (metis prod.exhaust)
    obtain now w2 where 2: "clock_now e w1 = (now, w2)" by force
    obtain names dir' a w3 where 3: "fold (name_span e now) (tb_pending b) ([], dir, tb_addresses b, w2) = (names, dir', a, w3)" by (metis prod.exhaust)
    define b1 where "b1 = fold (count_pending e now) (zip (tb_pending b) names) (b\<lparr>tb_addresses := a\<rparr>)"
    obtain b2 w4 where 4: "saveBodies e (b1\<lparr>tb_pending := []\<rparr>, w3) = (b2, w4)" by force
    have w12: "same_store w w2" using 1 2 by (auto simp: ask_directory_def clock_now_def same_store_def)
    note n = name_spans_keep [OF 3] and c = count_pending_keeps [OF b1_def [symmetric]] and s = saveBodies_keeps [OF 4]
    have b: "tb_Client b = []" "tb_Server b = []" "tb_Counted b = []" "length (tb_pending b) = length (tb_rows b)"
        "list_all aligned_columns (tw_handed w)" "concat (map fst (tw_handed w)) @ tb_rows b = rows"
      using ok st by (auto simp: batch_ok_def dest: list_all2_lengthD)
    let ?cols = "(tb_rows b2, tb_Client b2, tb_Server b2, tb_Counted b2)"
    have eq: "write_spans e st = (b2\<lparr>tb_rows := [], tb_Client := [], tb_Server := [], tb_Counted := []\<rparr>, exec_spans e ?cols w4)"
      using False st 1 2 3 4 by (simp add: write_spans_def b1_def)
    have "aligned_columns ?cols" using s c n b by (simp add: aligned_columns_def)
    moreover have "tw_handed w4 = tw_handed w" using s n w12 by (simp add: same_store_def)
    ultimately show ?thesis using eq s c b st by (simp add: batch_ok_def exec_spans_handed)
  qed
qed

lemma save_ok:
  assumes "batch_ok rows st"
  shows "batch_ok rows (save e st) \<and> tb_limit (fst (save e st)) = tb_limit (fst st) \<and>
    (tb_rows (fst (save e st)) = [] \<or> tb_rows (fst (save e st)) = tb_rows (fst st) \<and> length (tb_rows (fst st)) < maxHeldBatches * tb_limit (fst st))"
proof -
  obtain b w where st: "st = (b, w)" by force
  obtain d ready w1 where 1: "ask_directory e w = ((d, ready), w1)" by (metis prod.exhaust)
  obtain now w2 where 2: "clock_now e w1 = (now, w2)" by force
  have "batch_ok rows (b, w2)" using assms st 1 2 by (auto simp: batch_ok_def ask_directory_def clock_now_def)
  from write_spans_ok [OF this] show ?thesis
    using \<open>batch_ok rows (b, w2)\<close> st 1 2 by (auto simp: save_def holds_def)
qed

lemma Add_ok:
  assumes "batch_ok rows st"
  shows "batch_ok (rows @ added (te_encoders e) (Request req)) (Add e req st) \<and> tb_limit (fst (Add e req st)) = tb_limit (fst st) \<and>
    (tb_rows (fst (Add e req st)) = [] \<or> length (tb_rows (fst (Add e req st))) < maxHeldBatches * tb_limit (fst st))"
proof -
  obtain b w where st: "st = (b, w)" by force
  obtain b1 w1 where 1: "fold (add_span e) (request_columns (te_encoders e) req) (b, w) = (b1, w1)" by force
  note k = add_spans_keep [OF 1]
  have "list_all2 waits_for (map fst (request_columns (te_encoders e) req)) (map (fst \<circ> snd) (request_columns (te_encoders e) req))"
    by (simp add: list.rel_map list_all2_same request_columns_wait)
  then have ok: "batch_ok (rows @ added (te_encoders e) (Request req)) (b1, w1)" and lim: "tb_limit b1 = tb_limit b"
    using assms k st by (auto simp: batch_ok_def same_store_def intro: list_all2_appendI)
  have "tb_limit b \<le> maxHeldBatches * tb_limit b" by (simp add: maxHeldBatches_def)
  then show ?thesis using save_ok [OF ok, of e] ok lim 1 st by (auto simp: Add_def Let_def intro: order.strict_trans2)
qed

definition held_bound :: "TracesBatch \<Rightarrow> bool" where
  "held_bound b \<longleftrightarrow> tb_rows b = [] \<or> length (tb_rows b) < maxHeldBatches * tb_limit b"

lemma run_op_ok:
  assumes "batch_ok rows st" "held_bound (fst st)"
  shows "batch_ok (rows @ added (te_encoders e) op) (run_op e op st) \<and> held_bound (fst (run_op e op st)) \<and>
    tb_limit (fst (run_op e op st)) = tb_limit (fst st)"
proof (cases op)
  case (Request req)
  then show ?thesis using Add_ok [OF assms(1), of e req] by (simp add: held_bound_def del: added.simps)
next
  case Tick
  then show ?thesis using save_ok [OF assms(1), of e] by (auto simp: held_bound_def)
next
  case (ServersRead rows)
  then show ?thesis using assms by (cases st) (simp add: batch_ok_def servers_read_def held_bound_def)
next
  case (AddressesRead rows)
  then show ?thesis using assms
    by (cases st) (simp add: batch_ok_def addresses_read_def held_bound_def ask_directory_def clock_now_def case_prod_beta)
next
  case Closing
  then show ?thesis using write_spans_ok [OF assms(1), of e] by (simp add: held_bound_def Close_def)
qed

lemma run_ops_ok:
  assumes "batch_ok rows st" "held_bound (fst st)"
  shows "batch_ok (rows @ concat (map (added (te_encoders e)) ops)) (run_ops e ops st) \<and> held_bound (fst (run_ops e ops st)) \<and>
    tb_limit (fst (run_ops e ops st)) = tb_limit (fst st)"
  using assms
proof (induction ops arbitrary: rows st)
  case (Cons op ops)
  from run_op_ok [OF Cons.prems, of e op] Cons.IH [of "rows @ added (te_encoders e) op" "run_op e op st"] show ?case
    by (simp add: run_ops_def)
qed (simp add: run_ops_def)

lemma new_batch_ok: "batch_ok [] (newTracesBatch limit reads e no_traces)" "held_bound (fst (newTracesBatch limit reads e no_traces))"
  "tb_limit (fst (newTracesBatch limit reads e no_traces)) = limit"
  by (simp_all add: newTracesBatch_def clock_now_def batch_ok_def held_bound_def no_traces_def)

text \<open>
  C13. Every span is handed over once: after any requests, ticks and reads, the rows handed to ClickHouse,
  followed by those that the batch still holds, are the rows of all spans received, in their order; every
  statement has columns of equal length; and closing the batch hands over what it holds. Statements may fail.
\<close>

theorem spans_handed_once:
  "(let (b, w) = run_ops e ops (newTracesBatch limit reads e no_traces)
    in concat (map fst (tw_handed w)) @ tb_rows b = concat (map (added (te_encoders e)) ops) \<and> list_all aligned_columns (tw_handed w) \<and>
       concat (map fst (tw_handed (snd (Close e (b, w))))) = concat (map (added (te_encoders e)) ops))"
proof -
  let ?st = "run_ops e ops (newTracesBatch limit reads e no_traces)"
  have ok: "batch_ok (concat (map (added (te_encoders e)) ops)) ?st" using run_ops_ok [OF new_batch_ok(1) [of limit reads e] new_batch_ok(2) [of limit reads e], of e ops] by simp
  from write_spans_ok [OF ok, of e] ok show ?thesis by (auto simp: batch_ok_def Close_def split: prod.splits)
qed

text \<open>
  C14. A batch is bounded: whatever comes, it never holds ten times its limit of spans or more, and a tick 30
  seconds or more after it was made leaves nothing held.
\<close>

theorem held_spans_bounded:
  "(let (b, w) = run_ops e ops (newTracesBatch limit reads e no_traces); (b', w') = run_op e Tick (b, w)
    in (tb_rows b = [] \<or> length (tb_rows b) < 10 * limit) \<and>
       (tb_rows b' = [] \<or> te_clock e (tw_clock w) - tb_createdAt b < nanoseconds 30))"
proof -
  obtain b w where st: "run_ops e ops (newTracesBatch limit reads e no_traces) = (b, w)" by force
  have ok: "batch_ok (concat (map (added (te_encoders e)) ops)) (b, w)" and h: "held_bound b" "tb_limit b = limit"
    using run_ops_ok [OF new_batch_ok(1) [of limit reads e] new_batch_ok(2) [of limit reads e], of e ops] new_batch_ok(3) [of limit reads e] st by simp_all
  obtain b' w' where t: "run_op e Tick (b, w) = (b', w')" by force
  have "tb_rows b' = []" if "\<not> te_clock e (tw_clock w) - tb_createdAt b < nanoseconds 30"
  proof -
    have "(b', w') = write_spans e (b, w\<lparr>tw_directories := Suc (tw_directories w), tw_clock := Suc (tw_clock w)\<rparr>)"
      using t that by (auto simp: save_def holds_def serverSpanSourcesMaxHold_def ask_directory_def clock_now_def case_prod_beta)
    moreover have "batch_ok (concat (map (added (te_encoders e)) ops)) (b, w\<lparr>tw_directories := Suc (tw_directories w), tw_clock := Suc (tw_clock w)\<rparr>)"
      using ok by (simp add: batch_ok_def)
    ultimately show ?thesis using write_spans_ok by (metis fst_conv)
  qed
  then show ?thesis using st t h by (auto simp: held_bound_def maxHeldBatches_def)
qed

subsection \<open>Bodies before spans\<close>

definition body_stored :: "Encoders \<Rightarrow> TraceWorld \<Rightarrow> hash \<Rightarrow> bool" where
  "body_stored en w h \<longleftrightarrow> h = 0 \<or> list_ex (\<lambda>(h', body, _). h' = h \<and> bodyHash en body = h) (tw_bodies w)"

definition refers :: "Encoders \<Rightarrow> TracesBatch \<times> TraceWorld \<Rightarrow> hash \<Rightarrow> bool" where
  "refers en st h \<longleftrightarrow> body_stored en (snd st) h \<or> h \<in> fst ` set (tb_bodies (fst st))"

definition row_bodies :: "(hash \<Rightarrow> bool) \<Rightarrow> SpanRow \<Rightarrow> bool" where
  "row_bodies P row \<longleftrightarrow> P (sr_RequestBodyHash row) \<and> P (sr_ResponseBodyHash row)"

text \<open>What is remembered as written is stored, and what is kept has its hash.\<close>

definition hashes_ok :: "Encoders \<Rightarrow> TracesBatch \<times> TraceWorld \<Rightarrow> bool" where
  "hashes_ok en st \<longleftrightarrow> list_all (\<lambda>(h, _). body_stored en (snd st) h) (tb_bodiesWrittenAt (fst st)) \<and>
     list_all (\<lambda>(h, body). bodyHash en body = h) (tb_bodies (fst st))"

definition bodies_ok :: "Encoders \<Rightarrow> TracesBatch \<times> TraceWorld \<Rightarrow> bool" where
  "bodies_ok en st \<longleftrightarrow> hashes_ok en st \<and> list_all (row_bodies (refers en st)) (tb_rows (fst st)) \<and>
     list_all (\<lambda>(row, _). row_bodies (body_stored en (snd st)) row) (tw_spans (snd st))"

lemma body_stored_same: "tw_bodies w' = tw_bodies w \<Longrightarrow> body_stored en w' = body_stored en w"
  by (simp add: fun_eq_iff body_stored_def)

lemma in_update_keys: "h \<in> fst ` set (AList.update k v al) \<longleftrightarrow> h = k \<or> h \<in> fst ` set al"
  by (induction al) (auto split: if_splits)

lemma addBody_hashes:
  assumes "hashes_ok (te_encoders e) st" "addBody e body st = st'"
  shows "hashes_ok (te_encoders e) st' \<and> refers (te_encoders e) st' (bodyHash (te_encoders e) body) \<and>
    (\<forall>h. refers (te_encoders e) st h \<longrightarrow> refers (te_encoders e) st' h) \<and> tw_spans (snd st') = tw_spans (snd st) \<and> tw_bodies (snd st') = tw_bodies (snd st) \<and>
    tb_rows (fst st') = tb_rows (fst st)"
proof -
  let ?en = "te_encoders e" let ?h = "bodyHash ?en body"
  obtain b w where st: "st = (b, w)" by force
  have put: "hashes_ok ?en (b\<lparr>tb_bodies := AList.update ?h body (tb_bodies b)\<rparr>, w')" if "tw_bodies w' = tw_bodies w" for w'
    using assms(1) st body_stored_same [OF that] by (auto simp: hashes_ok_def list_all_iff dest!: in_AList_update)
  have same: "hashes_ok ?en (b, w\<lparr>tw_clock := n\<rparr>)" for n using assms(1) st body_stored_same [of "w\<lparr>tw_clock := n\<rparr>" w] by (simp add: hashes_ok_def)
  have known: "body_stored ?en w ?h" if "map_of (tb_bodiesWrittenAt b) ?h = Some v" for v
    using assms(1) st map_of_SomeD [OF that] by (auto simp: hashes_ok_def list_all_iff)
  define K where "K = fst ` set (tb_bodies b)"
  have dom: "h \<in> fst ` set (AList.update ?h body (tb_bodies b)) \<longleftrightarrow> h = ?h \<or> h \<in> K" for h
    unfolding K_def by (rule in_update_keys)
  consider "?h = 0" | "?h \<noteq> 0" "map_of (tb_bodiesWrittenAt b) ?h = None"
    | v where "?h \<noteq> 0" "map_of (tb_bodiesWrittenAt b) ?h = Some v" by (cases "map_of (tb_bodiesWrittenAt b) ?h") auto
  then show ?thesis
  proof cases
    case 1
    then show ?thesis using assms st by (auto simp: addBody_def refers_def body_stored_def)
  next
    case 2
    then show ?thesis using assms(2) st put [of w] dom by (auto simp: addBody_def Let_def refers_def simp flip: K_def)
  next
    case 3
    then show ?thesis using assms(2) st put [of "w\<lparr>tw_clock := Suc (tw_clock w)\<rparr>"] dom known same body_stored_same [of "w\<lparr>tw_clock := Suc (tw_clock w)\<rparr>" w]
      by (auto simp: addBody_def Let_def refers_def clock_now_def simp flip: K_def split: if_splits)
  qed
qed

text \<open>The hashes of a row are those of the bodies that come with it.\<close>

definition columns_hashed :: "Encoders \<Rightarrow> SpanRow \<times> pendingSpan \<times> string \<times> string \<Rightarrow> bool" where
  "columns_hashed en x \<longleftrightarrow> (case x of (row, _, req, resp) \<Rightarrow> sr_RequestBodyHash row = bodyHash en req \<and> sr_ResponseBodyHash row = bodyHash en resp)"

lemma request_columns_hashed: "list_all (columns_hashed en) (request_columns en req)"
  by (auto simp: request_columns_def list_all_iff columns_hashed_def span_columns_def Let_def case_prod_beta)

lemma row_bodies_mono: "row_bodies P row \<Longrightarrow> (\<And>h. P h \<Longrightarrow> Q h) \<Longrightarrow> row_bodies Q row"
  by (simp add: row_bodies_def)

lemma rows_mono: "list_all (row_bodies P) rows \<Longrightarrow> (\<And>h. P h \<Longrightarrow> Q h) \<Longrightarrow> list_all (row_bodies Q) rows"
  by (auto simp: list_all_iff row_bodies_def)

lemma add_span_bodies:
  assumes "bodies_ok (te_encoders e) st" "columns_hashed (te_encoders e) x"
  shows "bodies_ok (te_encoders e) (add_span e x st)"
proof -
  let ?en = "te_encoders e"
  obtain b w where st: "st = (b, w)" by force
  obtain row p req resp where x: "x = (row, p, req, resp)" by (metis prod.exhaust)
  let ?st0 = "(b\<lparr>tb_rows := tb_rows b @ [row], tb_pending := tb_pending b @ [p]\<rparr>, w)"
  define st1 where "st1 = addBody e req ?st0"
  define st2 where "st2 = addBody e resp st1"
  have 0: "hashes_ok ?en ?st0" "\<And>h. refers ?en st h \<Longrightarrow> refers ?en ?st0 h" using assms(1) st by (simp_all add: bodies_ok_def hashes_ok_def refers_def)
  note 1 = addBody_hashes [OF 0(1) st1_def [symmetric]]
  note 2 = addBody_hashes [OF conjunct1 [OF 1] st2_def [symmetric]]
  have "row_bodies (refers ?en st2) row" using 1 2 assms(2) x by (simp add: row_bodies_def columns_hashed_def)
  moreover have "list_all (row_bodies (refers ?en st2)) (tb_rows b)"
    by (rule rows_mono [of "refers ?en st"]) (use assms(1) st 0(2) 1 2 in \<open>simp_all add: bodies_ok_def\<close>)
  moreover have "body_stored ?en (snd st2) = body_stored ?en w" using 1 2 by (intro body_stored_same) simp
  ultimately have "bodies_ok ?en st2" using 1 2 assms(1) st by (simp add: bodies_ok_def)
  then show ?thesis using st x by (simp add: add_span_def st1_def st2_def)
qed

lemma add_spans_bodies: "list_all (columns_hashed (te_encoders e)) xs \<Longrightarrow> bodies_ok (te_encoders e) st \<Longrightarrow> bodies_ok (te_encoders e) (fold (add_span e) xs st)"
  by (induction xs arbitrary: st) (simp_all add: add_span_bodies)

lemma written_update: "x \<in> set (fold (\<lambda>(h, _). AList.update h now) bodies xs) \<Longrightarrow> x \<in> set xs \<or> fst x \<in> fst ` set bodies"
proof (induction bodies arbitrary: xs)
  case (Cons y bodies)
  from Cons.IH [of "AList.update (fst y) now xs"] Cons.prems in_AList_update [of x "fst y" now xs] show ?case by (auto simp: case_prod_beta)
qed simp

text \<open>When the statement succeeds, everything that a row refers to is stored.\<close>

lemma saveBodies_stores:
  assumes "hashes_ok (te_encoders e) (b, w)" "te_fails e = (\<lambda>_. False)" "saveBodies e (b, w) = (b', w')"
  shows "hashes_ok (te_encoders e) (b', w') \<and> (\<forall>h. refers (te_encoders e) (b, w) h \<longrightarrow> body_stored (te_encoders e) w' h)"
proof (cases "tb_bodies b = []")
  case True
  then show ?thesis using assms by (simp add: saveBodies_def refers_def)
next
  case False
  let ?en = "te_encoders e" let ?now = "te_clock e (tw_clock w)"
  let ?w' = "w\<lparr>tw_clock := Suc (tw_clock w), tw_statements := Suc (tw_statements w), tw_bodies := tw_bodies w @ map (\<lambda>(h, body). (h, body, ?now)) (tb_bodies b)\<rparr>"
  let ?old = "if int (length (tb_bodiesWrittenAt b)) + int (length (tb_bodies b)) > maxBodiesWritten then [] else tb_bodiesWrittenAt b"
  have eq: "w' = ?w'" "b' = b\<lparr>tb_bodiesWrittenAt := fold (\<lambda>(h, _). AList.update h ?now) (tb_bodies b) ?old, tb_bodies := []\<rparr>"
    using assms(2,3) False by (auto simp: saveBodies_def trace_exec_def clock_now_def Let_def)
  have mono: "body_stored ?en w' h" if "body_stored ?en w h" for h using that by (auto simp: eq(1) body_stored_def)
  have new: "body_stored ?en w' h" if "h \<in> fst ` set (tb_bodies b)" for h
    using that assms(1) by (force simp: eq(1) body_stored_def hashes_ok_def list_all_iff list_ex_iff)
  have "body_stored ?en w' (fst x)" if "x \<in> set (tb_bodiesWrittenAt b')" for x
    using written_update [of x ?now "tb_bodies b" ?old] that assms(1) mono new
    by (auto simp: eq(2) hashes_ok_def list_all_iff split: if_splits)
  then show ?thesis using mono new eq(2) by (auto simp: hashes_ok_def list_all_iff refers_def)
qed

lemma hashes_same: "hashes_ok en (b, w) \<Longrightarrow> tb_bodiesWrittenAt b' = tb_bodiesWrittenAt b \<Longrightarrow> tb_bodies b' = tb_bodies b \<Longrightarrow> tw_bodies w' = tw_bodies w \<Longrightarrow> hashes_ok en (b', w')"
  using body_stored_same [of w' w en] by (simp add: hashes_ok_def)

lemma bodies_same:
  "bodies_ok en (b, w) \<Longrightarrow> tb_bodiesWrittenAt b' = tb_bodiesWrittenAt b \<Longrightarrow> tb_bodies b' = tb_bodies b \<Longrightarrow> tb_rows b' = tb_rows b \<Longrightarrow> same_store w w' \<Longrightarrow> bodies_ok en (b', w')"
proof -
  assume a: "bodies_ok en (b, w)" "tb_bodiesWrittenAt b' = tb_bodiesWrittenAt b" "tb_bodies b' = tb_bodies b" "tb_rows b' = tb_rows b" "same_store w w'"
  have s: "body_stored en w' = body_stored en w" using a(5) by (intro body_stored_same) (simp add: same_store_def)
  have "refers en (b', w') = refers en (b, w)" using a(3) s by (simp add: fun_eq_iff refers_def)
  then show ?thesis using a s hashes_same [of en b w b' w'] by (simp add: bodies_ok_def same_store_def)
qed

lemma write_spans_bodies:
  assumes ok: "bodies_ok (te_encoders e) st" and f: "te_fails e = (\<lambda>_. False)"
  shows "bodies_ok (te_encoders e) (write_spans e st)"
proof -
  let ?en = "te_encoders e"
  obtain b w where st: "st = (b, w)" by force
  show ?thesis
  proof (cases "tb_rows b = []")
    case True
    then show ?thesis using ok st by (simp add: write_spans_def)
  next
    case False
    obtain dir r w1 where 1: "ask_directory e w = ((dir, r), w1)" by (metis prod.exhaust)
    obtain now w2 where 2: "clock_now e w1 = (now, w2)" by force
    obtain names dir' a w3 where 3: "fold (name_span e now) (tb_pending b) ([], dir, tb_addresses b, w2) = (names, dir', a, w3)" by (metis prod.exhaust)
    define b1 where "b1 = fold (count_pending e now) (zip (tb_pending b) names) (b\<lparr>tb_addresses := a\<rparr>)"
    obtain b2 w4 where 4: "saveBodies e (b1\<lparr>tb_pending := []\<rparr>, w3) = (b2, w4)" by force
    have "same_store w w2" using 1 2 by (auto simp: ask_directory_def clock_now_def same_store_def)
    then have w3: "same_store w w3" using name_spans_keep [OF 3] same_store_trans by blast
    note c = count_pending_keeps [OF b1_def [symmetric]] and s = saveBodies_keeps [OF 4]
    have ok3: "bodies_ok ?en (b1\<lparr>tb_pending := []\<rparr>, w3)"
      by (rule bodies_same [of _ b w]) (use ok st c w3 in simp_all)
    then have stored: "hashes_ok ?en (b2, w4)" "\<forall>h. refers ?en (b1\<lparr>tb_pending := []\<rparr>, w3) h \<longrightarrow> body_stored ?en w4 h"
      using saveBodies_stores [OF _ f 4] by (auto simp: bodies_ok_def)
    have rows: "list_all (row_bodies (body_stored ?en w4)) (tb_rows b2)"
      by (rule rows_mono [of "refers ?en (b1\<lparr>tb_pending := []\<rparr>, w3)"]) (use ok3 stored(2) s in \<open>simp_all add: bodies_ok_def\<close>)
    have old: "list_all (\<lambda>(row, _). row_bodies (body_stored ?en w4) row) (tw_spans w4)"
      using ok3 stored(2) s unfolding bodies_ok_def list_all_iff refers_def by (fastforce intro: row_bodies_mono)
    let ?cols = "(tb_rows b2, tb_Client b2, tb_Server b2, tb_Counted b2)"
    have eq: "write_spans e st = (b2\<lparr>tb_rows := [], tb_Client := [], tb_Server := [], tb_Counted := []\<rparr>, exec_spans e ?cols w4)"
      using False st 1 2 3 4 by (simp add: write_spans_def b1_def)
    have b5: "tw_bodies (exec_spans e ?cols w4) = tw_bodies w4"
      by (simp add: exec_spans_def trace_exec_def insert_spans_def Let_def)
    have sp: "set (tw_spans (exec_spans e ?cols w4)) \<subseteq> set (tw_spans w4) \<union> {x. fst x \<in> set (tb_rows b2)}"
      by (auto simp: exec_spans_def trace_exec_def insert_spans_def Let_def dest: set_zip_leftD)
    have "list_all (\<lambda>(row, _). row_bodies (body_stored ?en w4) row) (tw_spans (exec_spans e ?cols w4))"
      using sp rows old by (fastforce simp: list_all_iff)
    then show ?thesis using eq hashes_same [OF stored(1), of "b2\<lparr>tb_rows := [], tb_Client := [], tb_Server := [], tb_Counted := []\<rparr>" "exec_spans e ?cols w4"] b5
        body_stored_same [OF b5] by (simp add: bodies_ok_def)
  qed
qed

lemma save_bodies_ok:
  assumes "bodies_ok (te_encoders e) st" "te_fails e = (\<lambda>_. False)"
  shows "bodies_ok (te_encoders e) (save e st)"
proof -
  obtain b w where st: "st = (b, w)" by force
  obtain d ready w1 where 1: "ask_directory e w = ((d, ready), w1)" by (metis prod.exhaust)
  obtain now w2 where 2: "clock_now e w1 = (now, w2)" by force
  have same: "same_store w w2" using 1 2 by (auto simp: ask_directory_def clock_now_def same_store_def)
  have ok: "bodies_ok (te_encoders e) (b, w2)"
    by (rule bodies_same [of _ b w]) (use assms(1) st same in simp_all)
  show ?thesis using st 1 2 ok write_spans_bodies [OF ok assms(2)] by (simp add: save_def)
qed

lemma run_op_bodies:
  assumes "bodies_ok (te_encoders e) st" "te_fails e = (\<lambda>_. False)"
  shows "bodies_ok (te_encoders e) (run_op e op st)"
proof (cases op)
  case (Request req)
  have "bodies_ok (te_encoders e) (fold (add_span e) (request_columns (te_encoders e) req) st)"
    by (rule add_spans_bodies [OF request_columns_hashed assms(1)])
  then show ?thesis using Request save_bodies_ok assms(2) by (simp add: Add_def Let_def)
next
  case Tick
  then show ?thesis using save_bodies_ok [OF assms] by simp
next
  case (ServersRead rows)
  obtain b w where st: "st = (b, w)" by force
  show ?thesis using assms(1) ServersRead st by (auto simp: servers_read_def intro: bodies_same)
next
  case (AddressesRead rows)
  obtain b w where st: "st = (b, w)" by force
  show ?thesis using assms(1) AddressesRead st by (auto simp: addresses_read_def ask_directory_def clock_now_def case_prod_beta intro: bodies_same)
next
  case Closing
  then show ?thesis using write_spans_bodies [OF assms] by (simp add: Close_def)
qed

text \<open>
  C12. Bodies come before spans: as long as no statement fails, every span that is stored refers to bodies that
  are stored, under the hash of the body, though a body written within the last hour is not written again and
  the memory of what was written is dropped when it grows too large.
\<close>

theorem bodies_before_spans:
  assumes "te_fails e = (\<lambda>_. False)"
  shows "list_all (\<lambda>(row, _). row_bodies (body_stored (te_encoders e) (snd (run_ops e ops (newTracesBatch limit reads e no_traces)))) row)
    (tw_spans (snd (run_ops e ops (newTracesBatch limit reads e no_traces))))"
proof -
  have "bodies_ok (te_encoders e) (run_ops e ops st)" if "bodies_ok (te_encoders e) st" for st
    using that by (induction ops arbitrary: st) (simp_all add: run_ops_def run_op_bodies [OF _ assms])
  moreover have "bodies_ok (te_encoders e) (newTracesBatch limit reads e no_traces)"
    by (simp add: newTracesBatch_def clock_now_def bodies_ok_def hashes_ok_def no_traces_def)
  ultimately show ?thesis unfolding bodies_ok_def by blast
qed

definition sample_encoders :: Encoders where
  "sample_encoders = \<lparr>en_FormatFloat = (\<lambda>_. ''0''), en_json_strings = concat, en_json_map = (\<lambda>_. []), en_xxhash = (\<lambda>s. of_nat (length s)),
    en_url_host = (\<lambda>_. None)\<rparr>"

definition sample_env :: TraceEnv where
  "sample_env = \<lparr>te_encoders = sample_encoders, te_clock = int, te_fails = (\<lambda>_. False), te_directory = (\<lambda>_. (None, True))\<rparr>"

definition sample_request :: ExportTraceServiceRequest where
  "sample_request = [\<lparr>rs_Attributes = [(''service.name'', VString ''shop'')],
     rs_ScopeSpans = [\<lparr>sc_Name = ''coroot-node-agent'', sc_Version = [],
       sc_Spans = [\<lparr>os_TraceId = ''t'', os_SpanId = ''s'', os_ParentSpanId = [], os_TraceState = [], os_Name = ''GET'', os_Kind = ''SPAN_KIND_CLIENT'',
         os_StartTimeUnixNano = 10, os_EndTimeUnixNano = 30, os_Attributes = [(''http.request.body'', VString ''hello'')], os_StatusCode = [],
         os_StatusMessage = [], os_Events = [], os_Links = []\<rparr>]\<rparr>]\<rparr>]"

theorem bodies_before_spans_witness:
  "(let w = snd (run_ops sample_env [Request sample_request] (newTracesBatch 1 False sample_env no_traces))
    in list_all (\<lambda>(row, _). row_bodies (body_stored sample_encoders w) row) (tw_spans w) \<and>
       map (sr_RequestBodyHash \<circ> fst) (tw_spans w) = [5] \<and> map (fst \<circ> snd) (tw_bodies w) = [''hello''])"
proof -
  have "te_fails sample_env = (\<lambda>_. False)" by (simp add: sample_env_def)
  from bodies_before_spans [OF this, of "[Request sample_request]" 1 False] have
    "list_all (\<lambda>(row, _). row_bodies (body_stored sample_encoders (snd (run_ops sample_env [Request sample_request] (newTracesBatch 1 False sample_env no_traces)))) row)
       (tw_spans (snd (run_ops sample_env [Request sample_request] (newTracesBatch 1 False sample_env no_traces))))"
    unfolding sample_env_def by simp
  moreover have "map (sr_RequestBodyHash \<circ> fst) (tw_spans (snd (run_ops sample_env [Request sample_request] (newTracesBatch 1 False sample_env no_traces)))) = [5]"
    by code_simp
  moreover have "map (fst \<circ> snd) (tw_bodies (snd (run_ops sample_env [Request sample_request] (newTracesBatch 1 False sample_env no_traces)))) = [''hello'']"
    by code_simp
  ultimately show ?thesis unfolding Let_def by blast
qed

end
