(* ===== verification/TelemetrySafety.thy ===== *)
theory TelemetrySafety
  imports TelemetryBatches TracesSafety
begin

text \<open>
  Theorems on the batches of logs, metrics and profiles, and the interpretations of the contract
  \<open>telemetry_batch\<close> on all four batches of the collector.
\<close>

datatype 'q batch_op = Receive 'q | SaveTick

fun received :: "('q \<Rightarrow> 'r list) \<Rightarrow> 'q batch_op \<Rightarrow> 'r list" where
  "received rows (Receive req) = rows req"
| "received rows SaveTick = []"

subsection \<open>Logs\<close>

fun logs_step :: "(nat \<Rightarrow> bool) \<Rightarrow> Encoders \<Rightarrow> ExportLogsServiceRequest batch_op \<Rightarrow> LogsBatch \<times> LogRow list statement_log
    \<Rightarrow> LogsBatch \<times> LogRow list statement_log" where
  "logs_step fails en (Receive req) st = add_logs fails en req st"
| "logs_step fails en SaveTick st = save_logs fails st"

lemma save_logs_rows: "handed_rows id (snd (save_logs fails st)) = handed_rows id (snd st) @ lb_rows (fst st)"
  by (cases st) (simp add: save_logs_def)

lemma save_logs_empty: "lb_rows (fst (save_logs fails st)) = []" "lb_limit (fst (save_logs fails st)) = lb_limit (fst st)"
  by (cases st; simp add: save_logs_def)+

definition logs_bounded :: "nat \<Rightarrow> LogsBatch \<Rightarrow> bool" where
  "logs_bounded limit b \<longleftrightarrow> lb_limit b = limit \<and> (lb_rows b = [] \<or> length (lb_rows b) < limit)"

interpretation logs: telemetry_batch "logs_bounded limit" lb_rows "handed_rows id" "logs_step fails en" "received (log_rows en)" "\<lambda>_. True" "close_logs fails"
proof (unfold_locales, goal_cases)
  case (1 st x)
  then show ?case by (cases x; cases st) (auto simp: add_logs_def save_logs_def logs_bounded_def Let_def)
next
  case (2 st x)
  then show ?case by (cases x; cases st) (simp_all add: add_logs_def Let_def save_logs_rows save_logs_empty)
qed (simp_all add: close_logs_def save_logs_rows save_logs_empty)

subsection \<open>Metrics\<close>

fun metrics_step :: "(nat \<Rightarrow> bool) \<Rightarrow> WriteRequest batch_op \<Rightarrow> MetricsBatch \<times> metrics_statement statement_log
    \<Rightarrow> MetricsBatch \<times> metrics_statement statement_log" where
  "metrics_step fails (Receive req) st = add_metrics fails req st"
| "metrics_step fails SaveTick st = save_metrics fails st"

text \<open>The number of samples is that of the rows, and no row is empty.\<close>

definition metrics_ok :: "MetricsBatch \<Rightarrow> bool" where
  "metrics_ok b \<longleftrightarrow> mb_rows b = sum_list (map (length \<circ> sw_ts) (mb_series b)) \<and> list_all (\<lambda>r. sw_ts r \<noteq> []) (mb_series b)"

lemma metrics_ok_none: "metrics_ok b \<Longrightarrow> mb_rows b = 0 \<longleftrightarrow> mb_series b = []"
  by (cases "mb_series b") (auto simp: metrics_ok_def)

lemma series_row_ts [simp]: "sw_ts (series_row s) = map fst (pr_Samples s)"
  by (simp add: series_row_def case_prod_beta Let_def)

lemma series_rows_ok: "sum_list (map (length \<circ> sw_ts) (series_rows req)) = sum_list (map (length \<circ> pr_Samples) (wr_Timeseries req)) \<and>
  list_all (\<lambda>r. sw_ts r \<noteq> []) (series_rows req)"
proof
  have "sum_list (map (length \<circ> sw_ts) (map series_row (filter (\<lambda>s. pr_Samples s \<noteq> []) ss))) = sum_list (map (length \<circ> pr_Samples) ss)" for ss
    by (induction ss) auto
  then show "sum_list (map (length \<circ> sw_ts) (series_rows req)) = sum_list (map (length \<circ> pr_Samples) (wr_Timeseries req))" unfolding series_rows_def .
qed (simp add: series_rows_def list_all_iff)

lemma save_metrics_eq:
  assumes "metrics_ok b" "save_metrics fails (b, w) = (b', w')"
  shows "metrics_ok b' \<and> mb_series b' = [] \<and> mb_metadata b' = [] \<and> mb_limit b' = mb_limit b \<and> mb_rows b' = 0 \<and>
    handed_rows sample_rows w' = handed_rows sample_rows w @ mb_series b \<and> handed_rows metadata_rows w' = handed_rows metadata_rows w @ mb_metadata b"
  using assms metrics_ok_none [OF assms(1)]
  by (auto simp: save_metrics_def save_samples_def save_metadata_def metrics_ok_def split: if_splits)

lemma metrics_step_eq:
  assumes ok: "metrics_ok b" and st: "metrics_step fails x (b, w) = (b', w')"
  shows "metrics_ok b' \<and> mb_limit b' = mb_limit b \<and> (mb_rows b < mb_limit b \<or> mb_rows b = 0 \<longrightarrow> mb_rows b' < mb_limit b' \<or> mb_rows b' = 0) \<and>
    handed_rows sample_rows w' @ mb_series b' = handed_rows sample_rows w @ mb_series b @ received series_rows x \<and>
    handed_rows metadata_rows w' @ mb_metadata b' = handed_rows metadata_rows w @ mb_metadata b @ received wr_Metadata x"
proof (cases x)
  case (Receive req)
  define b2 where "b2 = b\<lparr>mb_metadata := mb_metadata b @ wr_Metadata req, mb_series := mb_series b @ series_rows req,
    mb_rows := mb_rows b + sum_list (map (length \<circ> pr_Samples) (wr_Timeseries req))\<rparr>"
  have ok2: "metrics_ok b2" using ok series_rows_ok [of req] by (simp add: b2_def metrics_ok_def)
  have "metrics_step fails x (b, w) = (if mb_rows b2 < mb_limit b2 then (b2, w) else save_metrics fails (b2, w))"
    by (simp add: Receive add_metrics_def b2_def Let_def)
  then have "(b', w') = (if mb_rows b2 < mb_limit b2 then (b2, w) else save_metrics fails (b2, w))" using st by simp
  then show ?thesis using save_metrics_eq [OF ok2, of fails w b' w'] ok2 Receive by (auto simp: b2_def split: if_splits)
next
  case SaveTick
  then show ?thesis using save_metrics_eq [OF ok, of fails w b' w'] st by auto
qed

definition metrics_bounded :: "nat \<Rightarrow> MetricsBatch \<Rightarrow> bool" where
  "metrics_bounded limit b \<longleftrightarrow> metrics_ok b \<and> mb_limit b = limit \<and> (mb_rows b = 0 \<or> mb_rows b < limit)"

lemma metrics_step_bounded: "metrics_bounded limit (fst st) \<Longrightarrow> metrics_bounded limit (fst (metrics_step fails x st))"
  using metrics_step_eq [of "fst st" fails x "snd st" "fst (metrics_step fails x st)" "snd (metrics_step fails x st)"]
  by (auto simp: metrics_bounded_def)

lemma metrics_step_rows:
  "metrics_bounded limit (fst st) \<Longrightarrow>
   handed_rows sample_rows (snd (metrics_step fails x st)) @ mb_series (fst (metrics_step fails x st)) =
     handed_rows sample_rows (snd st) @ mb_series (fst st) @ received series_rows x"
  "metrics_bounded limit (fst st) \<Longrightarrow>
   handed_rows metadata_rows (snd (metrics_step fails x st)) @ mb_metadata (fst (metrics_step fails x st)) =
     handed_rows metadata_rows (snd st) @ mb_metadata (fst st) @ received wr_Metadata x"
  using metrics_step_eq [of "fst st" fails x "snd st" "fst (metrics_step fails x st)" "snd (metrics_step fails x st)"]
  by (simp_all add: metrics_bounded_def)

lemma close_metrics_rows:
  "metrics_bounded limit (fst st) \<Longrightarrow>
   handed_rows sample_rows (snd (close_metrics fails st)) = handed_rows sample_rows (snd st) @ mb_series (fst st) \<and> mb_series (fst (close_metrics fails st)) = [] \<and>
   handed_rows metadata_rows (snd (close_metrics fails st)) = handed_rows metadata_rows (snd st) @ mb_metadata (fst st) \<and> mb_metadata (fst (close_metrics fails st)) = []"
  using save_metrics_eq [of "fst st" fails "snd st" "fst (save_metrics fails st)" "snd (save_metrics fails st)"]
  by (simp add: metrics_bounded_def close_metrics_def)

interpretation metric_samples: telemetry_batch "metrics_bounded limit" mb_series "handed_rows sample_rows" "metrics_step fails"
  "received series_rows" "\<lambda>_. True" "close_metrics fails"
  by unfold_locales (simp_all add: metrics_step_bounded metrics_step_rows close_metrics_rows)

interpretation metric_metadata: telemetry_batch "metrics_bounded limit" mb_metadata "handed_rows metadata_rows" "metrics_step fails"
  "received wr_Metadata" "\<lambda>_. True" "close_metrics fails"
  by unfold_locales (simp_all add: metrics_step_bounded metrics_step_rows close_metrics_rows)

subsection \<open>What is stored of logs and metrics\<close>

lemma sint_64: "sint (t :: 64 word) = (if unat t < 2 ^ 63 then int (unat t) else int (unat t) - 2 ^ 64)"
proof -
  have u: "int (unat t) = uint t" "uint t < 2 ^ 64" "0 \<le> uint t" using uint_lt2p [of t] by simp_all
  have "sint t = (uint t + 2 ^ 63) mod 2 ^ 64 - 2 ^ 63"
    by (simp add: sint_uint signed_take_bit_eq_take_bit_shift take_bit_eq_mod)
  moreover have "(uint t + 2 ^ 63) mod 2 ^ 64 = (if uint t < 2 ^ 63 then uint t + 2 ^ 63 else uint t - 2 ^ 63)"
  proof (cases "uint t < 2 ^ 63")
    case False
    then have "(uint t + 2 ^ 63) mod 2 ^ 64 = (uint t + 2 ^ 63 - 2 ^ 64) mod 2 ^ 64" using u by (intro mod_pos_geq) simp_all
    then show ?thesis using False u by simp
  qed (use u in simp)
  moreover have "unat t < 2 ^ 63 \<longleftrightarrow> uint t < 2 ^ 63" unfolding unat_eq_nat_uint nat_less_iff [OF u(3)] by simp
  ultimately show ?thesis using u by simp
qed

text \<open>
  The specification of what is stored: one row for every log record whose time is below \<open>2 ^ 63\<close>, in the
  order of the requests, with the columns said one by one.
\<close>

definition log_records :: "ExportLogsServiceRequest \<Rightarrow> (ResourceLogs \<times> ScopeLogs \<times> OtlpLog) list" where
  "log_records req = concat (map (\<lambda>rl. concat (map (\<lambda>sl. map (\<lambda>l. (rl, sl, l)) (sl_LogRecords sl)) (rl_ScopeLogs rl))) req)"

definition storable_log :: "ResourceLogs \<times> ScopeLogs \<times> OtlpLog \<Rightarrow> bool" where
  "storable_log x = (case x of (_, _, l) \<Rightarrow> unat (ol_TimeUnixNano l) < 2 ^ 63)"

definition logged_as :: "Encoders \<Rightarrow> ResourceLogs \<times> ScopeLogs \<times> OtlpLog \<Rightarrow> LogRow \<Rightarrow> bool" where
  "logged_as en x r = (case x of (rl, sl, l) \<Rightarrow>
     lr_Timestamp r = int (unat (ol_TimeUnixNano l)) \<and> lr_TraceId r = EncodeToString (ol_LogTraceId l) \<and>
     lr_SpanId r = EncodeToString (ol_LogSpanId l) \<and> lr_TraceFlags r = ol_Flags l \<and>
     lr_SeverityText r = ol_SeverityText l \<and> lr_SeverityNumber r = ol_SeverityNumber l \<and>
     lr_ResourceAttributes r = attributesToMap en (rl_Attributes rl) \<and>
     lr_ServiceName r = (case attributesToMap en (rl_Attributes rl) ''service.name'' of None \<Rightarrow> [] | Some s \<Rightarrow> s) \<and>
     lr_LogAttributes r = (\<lambda>k.
       if k = ''otel.scope.version'' \<and> sl_Version sl \<noteq> [] then Some (sl_Version sl)
       else if k = ''otel.scope.name'' \<and> sl_Name sl \<noteq> [] then Some (sl_Name sl)
       else attributesToMap en (ol_LogAttributes l) k) \<and>
     lr_Body r = (case ol_Body l of Some (VString s) \<Rightarrow> s | _ \<Rightarrow> []))"

definition stored_log :: "Encoders \<Rightarrow> ResourceLogs \<times> ScopeLogs \<times> OtlpLog \<Rightarrow> LogRow" where
  "stored_log en x = (case x of (rl, sl, l) \<Rightarrow> log_row en (attributesToMap en (rl_Attributes rl)) sl l)"

lemma log_rows_records: "log_rows en req = map (stored_log en) (filter storable_log (log_records req))"
proof -
  have "\<not> sint (ol_TimeUnixNano l) < 0 \<longleftrightarrow> storable_log (rl, sl, l)" for l rl sl
    using uint_lt2p [of "ol_TimeUnixNano l"] by (auto simp: storable_log_def sint_64)
  then show ?thesis
    by (simp add: log_rows_def log_records_def Let_def filter_concat map_concat comp_def stored_log_def filter_map)
qed

lemma stored_log_logged: "storable_log x \<Longrightarrow> logged_as en x (stored_log en x)"
  by (auto simp: storable_log_def logged_as_def stored_log_def log_row_def sint_64 body_text_def SpanServers.attr_def AttributeServiceName_def
      log_attributes_def Let_def AttributeOtelScopeName_def AttributeOtelScopeVersion_def split: prod.splits AnyValue.splits option.splits)

lemma logged_rows:
  assumes "rows = concat (map (received (log_rows en)) xs)"
  shows "list_all2 (logged_as en) (filter storable_log (concat (map (received log_records) xs))) rows"
proof -
  have "received (log_rows en) = (\<lambda>x. map (stored_log en) (filter storable_log (received log_records x)))"
  proof
    show "received (log_rows en) x = map (stored_log en) (filter storable_log (received log_records x))" for x
      by (cases x) (simp_all add: log_rows_records)
  qed
  then have "rows = map (stored_log en) (filter storable_log (concat (map (received log_records) xs)))"
    unfolding assms by (simp add: filter_concat map_concat comp_def)
  then show ?thesis by (auto simp: list_all2_conv_all_nth intro!: stored_log_logged dest: nth_mem)
qed

text \<open>A series is stored under its last name, with the labels that have a value, and with its samples.\<close>

definition series_as :: "PromSeries \<Rightarrow> SeriesRow \<Rightarrow> bool" where
  "series_as s r \<longleftrightarrow>
     sw_name r = (case map_of (rev (pr_Labels s)) ''__name__'' of None \<Rightarrow> [] | Some n \<Rightarrow> n) \<and>
     sw_tags r = map_of (rev (filter (\<lambda>(k, v). k \<noteq> ''__name__'' \<and> v \<noteq> []) (pr_Labels s))) \<and>
     zip (sw_ts r) (sw_vs r) = pr_Samples s \<and> length (sw_ts r) = length (sw_vs r)"

lemma label_fold:
  "fold label_step ls (n, m) = (case map_of (rev ls) ''__name__'' of None \<Rightarrow> n | Some n' \<Rightarrow> n',
     m ++ map_of (rev (filter (\<lambda>(k, v). k \<noteq> ''__name__'' \<and> v \<noteq> []) ls)))"
  by (induction ls arbitrary: n m)
     (auto simp: label_step_def MetricNameLabel_def map_add_def fun_eq_iff split: option.splits)

lemma series_rows_as:
  assumes "rows = concat (map (received series_rows) ys)"
  shows "list_all2 series_as (filter (\<lambda>s. pr_Samples s \<noteq> []) (concat (map (received wr_Timeseries) ys))) rows"
proof -
  have row: "series_as s (series_row s)" for s
    by (simp add: series_as_def series_row_def label_fold zip_map_fst_snd)
  have "received series_rows = (\<lambda>x. map series_row (filter (\<lambda>s. pr_Samples s \<noteq> []) (received wr_Timeseries x)))"
  proof
    show "received series_rows x = map series_row (filter (\<lambda>s. pr_Samples s \<noteq> []) (received wr_Timeseries x))" for x
      by (cases x) (simp_all add: series_rows_def)
  qed
  then have "rows = map series_row (filter (\<lambda>s. pr_Samples s \<noteq> []) (concat (map (received wr_Timeseries) ys)))"
    unfolding assms by (simp add: filter_concat map_concat comp_def)
  then show ?thesis by (simp add: list_all2_map2 list_all2_refl row)
qed

text \<open>
  C24. No log record and no metric is lost or repeated in the collector: after any requests and ticks, the rows
  handed to ClickHouse followed by those held are, in order, one row for every log record whose time is below
  \<open>2 ^ 63\<close> (the others are skipped), one for every series that has samples, and one for every metadata entry
  of the requests, each with the columns of its request; closing hands over the rest. The logs held stay below
  the limit of their batch, and so do the samples held; the metadata held is not counted.
\<close>

theorem logs_and_metrics_handed_once:
  "(let st = fold (logs_step fails en) xs (NewLogsBatch limit, []); mt = fold (metrics_step fails) ys (NewMetricsBatch limit, []);
        logs = filter storable_log (concat (map (received log_records) xs));
        series = filter (\<lambda>s. pr_Samples s \<noteq> []) (concat (map (received wr_Timeseries) ys));
        metadata = concat (map (received wr_Metadata) ys)
    in list_all2 (logged_as en) logs (handed_rows id (snd st) @ lb_rows (fst st)) \<and>
       list_all2 (logged_as en) logs (handed_rows id (snd (close_logs fails st))) \<and>
       (lb_rows (fst st) = [] \<or> length (lb_rows (fst st)) < limit) \<and>
       list_all2 series_as series (handed_rows sample_rows (snd mt) @ mb_series (fst mt)) \<and>
       list_all2 series_as series (handed_rows sample_rows (snd (close_metrics fails mt))) \<and>
       handed_rows metadata_rows (snd mt) @ mb_metadata (fst mt) = metadata \<and>
       handed_rows metadata_rows (snd (close_metrics fails mt)) = metadata \<and>
       (mb_series (fst mt) = [] \<or> sum_list (map (length \<circ> sw_ts) (mb_series (fst mt))) < limit))"
proof -
  let ?b = "NewLogsBatch limit" and ?m = "NewMetricsBatch limit"
  have t: "list_all (\<lambda>_. True) zs" for zs :: "'z list" by (simp add: list_all_iff)
  have b: "logs_bounded limit ?b" "lb_rows ?b = []" by (simp_all add: NewLogsBatch_def logs_bounded_def)
  have m: "metrics_bounded limit ?m" "mb_series ?m = []" "mb_metadata ?m = []" by (simp_all add: NewMetricsBatch_def metrics_bounded_def metrics_ok_def)
  have lb: "logs_bounded limit (fst (fold (logs_step fails en) xs (?b, [])))" using logs.run_inv [OF t, of limit "(?b, [])"] b(1) by simp
  have mb: "metrics_bounded limit (fst (fold (metrics_step fails) ys (?m, [])))" using metric_samples.run_inv [OF t, of limit "(?m, [])"] m(1) by simp
  note l = logs.closed_rows [OF t b, of "[]" fails en xs, simplified handed_rows_simps, OF refl]
    and s = metric_samples.closed_rows [OF t m(1,2), of "[]" fails ys, simplified handed_rows_simps, OF refl]
    and d = metric_metadata.closed_rows [OF t m(1,3), of "[]" fails ys, simplified handed_rows_simps, OF refl]
  show ?thesis unfolding Let_def
    using logged_rows [OF l(1)] logged_rows [OF l(2)] series_rows_as [OF s(1)] series_rows_as [OF s(2)] d(1,2) lb mb
      metrics_ok_none [of "fst (fold (metrics_step fails) ys (?m, []))"]
    by (auto simp: logs_bounded_def metrics_bounded_def metrics_ok_def)
qed

subsection \<open>Profiles\<close>

text \<open>A parsed profile has a value for every type of every sample.\<close>

definition profile_ok :: "Profile \<Rightarrow> bool" where
  "profile_ok p \<longleftrightarrow> list_all (\<lambda>s. length (px_Value s) = length (pp_SampleType p)) (pp_Sample p)"

type_synonym profile_request = "string \<times> attributes \<times> Profile"

text \<open>A request that panics has no next state: it is not accepted.\<close>

fun profiles_step :: "(nat \<Rightarrow> bool) \<Rightarrow> profile_request batch_op \<Rightarrow> ProfilesBatch \<times> profiles_statement statement_log
    \<Rightarrow> ProfilesBatch \<times> profiles_statement statement_log" where
  "profiles_step fails (Receive (serviceName, labels, p)) st = (case add_profile fails serviceName labels p st of Some st' \<Rightarrow> st' | None \<Rightarrow> st)"
| "profiles_step fails SaveTick st = save_profiles fails st"

fun profiles_accept :: "profile_request batch_op \<Rightarrow> bool" where
  "profiles_accept (Receive (serviceName, labels, p)) = profile_ok p"
| "profiles_accept SaveTick = True"

definition request_rows :: "profile_request \<Rightarrow> ProfileRow list" where
  "request_rows r = (case r of (serviceName, labels, p) \<Rightarrow>
     (case profile_rows serviceName labels p of None \<Rightarrow> [] | Some rows \<Rightarrow> rows))"

definition sample_request :: "profile_request \<Rightarrow> (string \<times> string \<times> int \<times> int \<times> attributes \<times> 64 word \<times> 64 word) list" where
  "sample_request r = map sample_columns (request_rows r)"

lemma profile_never_panics: "profile_ok p \<Longrightarrow> profile_rows serviceName labels p \<noteq> None"
  by (auto simp: profile_rows_def profile_ok_def list_all_iff list_ex_iff in_set_enumerate_eq)

definition profiles_bounded :: "nat \<Rightarrow> ProfilesBatch \<Rightarrow> bool" where
  "profiles_bounded limit b \<longleftrightarrow> pb_limit b = limit \<and> (pb_rows b = [] \<or> length (pb_rows b) < limit)"

definition held_samples :: "ProfilesBatch \<Rightarrow> (string \<times> string \<times> int \<times> int \<times> attributes \<times> 64 word \<times> 64 word) list" where
  "held_samples b = map sample_columns (pb_rows b)"

lemma save_profiles_rows:
  "handed_rows profile_sample_rows (snd (save_profiles fails st)) = handed_rows profile_sample_rows (snd st) @ held_samples (fst st)"
  "held_samples (fst (save_profiles fails st)) = []" "pb_limit (fst (save_profiles fails st)) = pb_limit (fst st)"
  "pb_rows (fst (save_profiles fails st)) = []"
  by (cases st; simp add: save_profiles_def held_samples_def)+

lemma save_profiles_batch: "save_profiles fails st = (b', w') \<Longrightarrow> pb_limit b' = pb_limit (fst st) \<and> pb_rows b' = []"
  using save_profiles_rows(3,4) [of fails st] by simp

lemma profiles_step_bounded: "profiles_bounded limit (fst st) \<Longrightarrow> profiles_bounded limit (fst (profiles_step fails x st))"
  by (induction fails x st rule: profiles_step.induct)
     (auto simp: profiles_bounded_def add_profile_def Let_def case_prod_beta save_profiles_rows dest!: save_profiles_batch split: option.splits)

lemma profiles_step_rows:
  "profiles_accept x \<Longrightarrow> handed_rows profile_sample_rows (snd (profiles_step fails x st)) @ held_samples (fst (profiles_step fails x st)) =
     handed_rows profile_sample_rows (snd st) @ held_samples (fst st) @ received sample_request x"
  by (induction fails x st rule: profiles_step.induct)
     (auto simp: add_profile_def Let_def save_profiles_rows held_samples_def sample_request_def request_rows_def case_prod_beta dest: profile_never_panics
       split: option.splits)

interpretation profiles: telemetry_batch "profiles_bounded limit" held_samples "handed_rows profile_sample_rows" "profiles_step fails"
  "received sample_request" profiles_accept "close_profiles fails"
  by unfold_locales (simp_all add: profiles_step_bounded profiles_step_rows save_profiles_rows close_profiles_def)

text \<open>While no statement fails, the stack of every stored sample is stored.\<close>

definition stack_stored :: "profiles_statement statement_log \<Rightarrow> string \<Rightarrow> 64 word \<Rightarrow> bool" where
  "stack_stored w serviceName h \<longleftrightarrow>
     list_ex (\<lambda>(service, h', _, stack). service = serviceName \<and> h' = h \<and> StackHash stack = h) (stored_rows stack_rows w)"

definition stacks_ok :: "ProfilesBatch \<times> profiles_statement statement_log \<Rightarrow> bool" where
  "stacks_ok st \<longleftrightarrow> list_all (\<lambda>r. pw_StackHash r = StackHash (pw_Stack r)) (pb_rows (fst st)) \<and> list_all snd (snd st) \<and>
     list_all (\<lambda>(service, _, _, _, _, h, _). stack_stored (snd st) service h) (stored_rows profile_sample_rows (snd st))"

lemma request_rows_hashed: "list_all (\<lambda>r. pw_StackHash r = StackHash (pw_Stack r)) (request_rows x)"
  by (auto simp: request_rows_def profile_rows_def list_all_iff profile_row_def split: prod.splits option.splits if_splits)

lemma stack_stored_mono: "stack_stored w service h \<Longrightarrow> stack_stored (exec_log fails s w) service h"
  by (simp add: stack_stored_def)

lemma stack_stored_new:
  assumes "fails = (\<lambda>_. False)" "r \<in> set rows" "pw_StackHash r = StackHash (pw_Stack r)"
  shows "stack_stored (exec_log fails (InsertStacks (map stack_columns rows)) w) (pw_ServiceName r) (pw_StackHash r)"
  using assms by (auto simp: stack_stored_def list_ex_iff stack_columns_def)

lemma save_profiles_stacks:
  assumes ok: "stacks_ok st" and f: "fails = (\<lambda>_. False)"
  shows "stacks_ok (save_profiles fails st)"
proof (cases "pb_rows (fst st) = []")
  case True
  then show ?thesis using ok by (cases st) (simp add: save_profiles_def)
next
  case False
  let ?rows = "pb_rows (fst st)"
  define w1 where "w1 = exec_log fails (InsertStacks (map stack_columns ?rows)) (snd st)"
  define w2 where "w2 = exec_log fails (InsertProfileSamples (map sample_columns ?rows)) w1"
  have eq: "save_profiles fails st = ((fst st)\<lparr>pb_rows := []\<rparr>, w2)" using False by (cases st) (simp add: save_profiles_def w1_def w2_def)
  have old: "stack_stored w2 service h" if "stack_stored (snd st) service h" for service h
    unfolding w1_def w2_def by (rule stack_stored_mono [OF stack_stored_mono [OF that]])
  have new: "stack_stored w2 (pw_ServiceName r) (pw_StackHash r)" if "r \<in> set ?rows" for r
    unfolding w1_def w2_def by (rule stack_stored_mono [OF stack_stored_new [OF f that]]) (use ok that in \<open>auto simp: stacks_ok_def list_all_iff\<close>)
  have "stored_rows profile_sample_rows w2 = stored_rows profile_sample_rows (snd st) @ map sample_columns ?rows" using f by (simp add: w1_def w2_def)
  moreover have "list_all snd w2" unfolding w1_def w2_def by (intro exec_log_ok f) (use ok in \<open>simp add: stacks_ok_def\<close>)
  ultimately show ?thesis using ok old new by (fastforce simp: eq stacks_ok_def list_all_iff sample_columns_def)
qed

lemma profiles_step_stacks:
  assumes "stacks_ok st" "fails = (\<lambda>_. False)"
  shows "stacks_ok (profiles_step fails x st)"
proof (cases x)
  case (Receive r)
  obtain b w where st: "st = (b, w)" by force
  obtain serviceName labels p where r: "r = (serviceName, labels, p)" by (metis prod.exhaust)
  show ?thesis
  proof (cases "profile_rows serviceName labels p")
    case None
    then show ?thesis using assms Receive r by (simp add: add_profile_def)
  next
    case (Some rows)
    have "stacks_ok (b\<lparr>pb_rows := pb_rows b @ rows\<rparr>, w)"
      using assms(1) st Some r request_rows_hashed [of r] by (simp add: stacks_ok_def request_rows_def)
    then show ?thesis using Some Receive r st save_profiles_stacks [OF _ assms(2)] by (simp add: add_profile_def Let_def)
  qed
next
  case SaveTick
  then show ?thesis using save_profiles_stacks [OF assms] by simp
qed

text \<open>
  The specification of the samples of a request: for every type that has a name and every sample of the
  profile its service, type, times, labels, the hash of its stack and its value of that type.
\<close>

fun profile_points :: "profile_request \<Rightarrow> (string \<times> string \<times> int \<times> int \<times> attributes \<times> 64 word \<times> 64 word) list" where
  "profile_points (serviceName, labels, p) =
     concat (map (\<lambda>i. map (\<lambda>s. (serviceName, pp_SampleType p ! i, sint (pp_TimeNanos p) + sint (- pp_DurationNanos p), sint (pp_TimeNanos p),
         labels, StackHash (sample_stack s), px_Value s ! i)) (pp_Sample p))
       (filter (\<lambda>i. pp_SampleType p ! i \<noteq> []) [0..<length (pp_SampleType p)]))"

lemma concat_if_filter: "concat (map (\<lambda>x. if P x then [] else f x) xs) = concat (map f (filter (\<lambda>x. \<not> P x) xs))"
  by (induction xs) auto

lemma sample_request_points: "profile_ok (snd (snd r)) \<Longrightarrow> sample_request r = profile_points r"
proof -
  assume ok: "profile_ok (snd (snd r))"
  obtain n l p where r: "r = (n, l, p)" by (metis prod.exhaust)
  have e: "enumerate 0 ts = map (\<lambda>i. (i, ts ! i)) [0..<length ts]" for ts :: "string list"
    by (rule nth_equalityI) (simp_all add: nth_enumerate_eq)
  obtain rows where rows: "profile_rows n l p = Some rows" using profile_never_panics ok r by fastforce
  then have "rows = concat (map (\<lambda>i. if pp_SampleType p ! i = [] then [] else map (profile_row n l p i (pp_SampleType p ! i)) (pp_Sample p))
      [0..<length (pp_SampleType p)])"
    by (simp add: profile_rows_def e comp_def split: if_splits)
  then show ?thesis
    using rows by (simp add: r sample_request_def request_rows_def concat_if_filter map_concat comp_def sample_columns_def profile_row_def)
qed

text \<open>
  C25. Profiles are stored with their stacks: when every received profile has a value for each of its types and
  as long as no statement fails, closing the batch has stored the samples of all profiles received, in order and
  once, and for every stored sample a stack of its service whose hash is the hash of the sample; no request
  panics. (When the statement of the stacks fails, the code still inserts the samples.)
\<close>

theorem profiles_stored_with_stacks:
  assumes "list_all profiles_accept xs" "fails = (\<lambda>_. False)"
  shows "(let w = snd (close_profiles fails (fold (profiles_step fails) xs (NewProfilesBatch limit, [])))
    in stored_rows profile_sample_rows w = concat (map (received profile_points) xs) \<and>
       list_all (\<lambda>(service, _, _, _, _, h, _). stack_stored w service h) (stored_rows profile_sample_rows w))"
proof -
  let ?st = "fold (profiles_step fails) xs (NewProfilesBatch limit, [])"
  have b: "profiles_bounded limit (NewProfilesBatch limit)" "held_samples (NewProfilesBatch limit) = []"
    by (simp_all add: NewProfilesBatch_def profiles_bounded_def held_samples_def)
  have run: "stacks_ok (fold (profiles_step fails) xs st)" if "stacks_ok st" for st
    using that by (induction xs arbitrary: st) (simp_all add: profiles_step_stacks [OF _ assms(2)])
  have "stacks_ok (NewProfilesBatch limit, [])" by (simp add: stacks_ok_def NewProfilesBatch_def)
  then have ok: "stacks_ok (close_profiles fails ?st)" unfolding close_profiles_def by (intro save_profiles_stacks [OF _ assms(2)] run)
  then have "stored_rows profile_sample_rows (snd (close_profiles fails ?st)) = handed_rows profile_sample_rows (snd (close_profiles fails ?st))"
    by (intro stored_all) (simp add: stacks_ok_def)
  moreover have "map (received sample_request) xs = map (received profile_points) xs"
  proof (rule map_cong)
    fix x assume "x \<in> set xs"
    then have "profiles_accept x" using assms(1) by (simp add: list_all_iff)
    then show "received sample_request x = received profile_points x"
      by (induction x rule: profiles_accept.induct) (simp_all add: sample_request_points)
  qed simp
  ultimately show ?thesis using profiles.closed_rows(2) [OF assms(1) b, of "[]" fails] ok by (simp add: stacks_ok_def Let_def)
qed

definition sample_profile :: Profile where
  "sample_profile = \<lparr>pp_SampleType = [''cpu'', []], pp_Sample = [\<lparr>px_Location = [[\<lparr>pl_Function = Some \<lparr>pf_Name = ''f'', pf_Filename = ''a.go''\<rparr>, pl_Line = 7\<rparr>]],
     px_Value = [3, 4]\<rparr>], pp_TimeNanos = 100, pp_DurationNanos = 40\<rparr>"

theorem profiles_stored_with_stacks_witness:
  "(let w = snd (close_profiles (\<lambda>_. False) (fold (profiles_step (\<lambda>_. False)) [Receive (''shop'', \<lambda>_. None, sample_profile)] (NewProfilesBatch 10, [])))
    in list_all (\<lambda>(service, _, _, _, _, h, _). stack_stored w service h) (stored_rows profile_sample_rows w)) \<and>
   map (snd \<circ> snd \<circ> snd) (stored_rows stack_rows (snd (close_profiles (\<lambda>_. False)
     (fold (profiles_step (\<lambda>_. False)) [Receive (''shop'', \<lambda>_. None, sample_profile)] (NewProfilesBatch 10, []))))) = [[''f a.go:7'']]"
proof
  have "list_all profiles_accept [Receive (''shop'', \<lambda>_. None, sample_profile)]" by (simp add: sample_profile_def profile_ok_def)
  from profiles_stored_with_stacks [OF this refl, of 10]
  show "let w = snd (close_profiles (\<lambda>_. False) (fold (profiles_step (\<lambda>_. False)) [Receive (''shop'', \<lambda>_. None, sample_profile)] (NewProfilesBatch 10, [])))
    in list_all (\<lambda>(service, _, _, _, _, h, _). stack_stored w service h) (stored_rows profile_sample_rows w)" unfolding Let_def by blast
qed code_simp

end
