(* ===== verification/Collector.thy ===== *)
theory Collector
  imports Categories RecentAddresses
begin

text \<open>
  The projects of the collector (\<^verbatim>\<open>collector/collector.go\<close>, \<^verbatim>\<open>collector/migration.go\<close>,
  \<^verbatim>\<open>collector/application_directories.go\<close>, \<^verbatim>\<open>collector/traced_clients.go\<close>): which project a key belongs to, the
  connections to the ClickHouse of each project, the migration of its tables, and its application directory.
  A client is the settings it was connected with. Maps that are iterated are association lists. What is outside
  (connections, statements, migrations) succeeds or fails by arguments, and the tables that exist and the statements
  executed are kept in \<open>ClickhouseWorld\<close>.
\<close>

subsection \<open>Settings\<close>

record ClickhouseConfig =
  cc_Global :: bool
  cc_Protocol :: string
  cc_Addr :: string
  cc_Auth :: "string \<times> string"
  cc_Database :: string
  cc_InitialDatabase :: string
  cc_TlsEnable :: bool
  cc_TlsSkipVerify :: bool
  cc_TlsCAFile :: string

record CollectorProject =
  cp_Id :: ProjectId
  cp_Name :: string
  cp_ApiKeys :: "(string \<times> string) list"
  cp_Clickhouse :: "ClickhouseConfig option"

definition ClickHouseConfig :: "ClickhouseConfig option \<Rightarrow> CollectorProject \<Rightarrow> ClickhouseConfig option" where
  "ClickHouseConfig global p =
     (case cp_Clickhouse p of
        Some c \<Rightarrow> Some c
      | None \<Rightarrow> (case global of Some g \<Rightarrow> Some (g\<lparr>cc_Database := ''coroot_'' @ cp_Id p\<rparr>) | None \<Rightarrow> None))"

text \<open>JSON omits the initial database; two texts are equal when the other fields are.\<close>

definition config_json :: "ClickhouseConfig \<Rightarrow> ClickhouseConfig" where
  "config_json c = c\<lparr>cc_InitialDatabase := []\<rparr>"

definition project_config :: "ClickhouseConfig option \<Rightarrow> CollectorProject \<Rightarrow> ClickhouseConfig option" where
  "project_config global p = map_option config_json (ClickHouseConfig global p)"

subsection \<open>State\<close>

record Collector =
  co_projects :: "(ProjectId \<times> CollectorProject) list"
  co_clickhouseConfigs :: "ProjectId \<rightharpoonup> ClickhouseConfig option"
  co_migrationDone :: "ProjectId set"
  co_clickhouseClients :: "ProjectId \<rightharpoonup> ClickhouseConfig"
  co_clickhouseReaders :: "ProjectId \<rightharpoonup> ClickhouseConfig"

record ClickhouseWorld =
  cw_migrated :: "(ProjectId \<times> ClickhouseConfig) list"
  cw_written :: "(ProjectId \<times> ClickhouseConfig) list"

definition new_collector :: Collector where
  "new_collector = \<lparr>co_projects = [], co_clickhouseConfigs = (\<lambda>_. None), co_migrationDone = {}, co_clickhouseClients = (\<lambda>_. None),
     co_clickhouseReaders = (\<lambda>_. None)\<rparr>"

definition deleteClickhouseClient :: "ProjectId \<Rightarrow> Collector \<Rightarrow> Collector" where
  "deleteClickhouseClient i c =
     c\<lparr>co_clickhouseClients := (co_clickhouseClients c)(i := None), co_clickhouseReaders := (co_clickhouseReaders c)(i := None)\<rparr>"

definition set_project :: "ClickhouseConfig option \<Rightarrow> CollectorProject \<Rightarrow> ProjectId list \<times> Collector \<Rightarrow> ProjectId list \<times> Collector" where
  "set_project global p st =
     (let (changed, c) = st;
          config = project_config global p;
          changed1 = (case co_clickhouseConfigs c (cp_Id p) of Some previous \<Rightarrow> if previous \<noteq> config then changed @ [cp_Id p] else changed | None \<Rightarrow> changed)
      in (changed1, c\<lparr>co_projects := AList.update (cp_Id p) p (co_projects c), co_clickhouseConfigs := (co_clickhouseConfigs c)(cp_Id p \<mapsto> config)\<rparr>))"

definition forget_changed :: "ProjectId \<Rightarrow> Collector \<Rightarrow> Collector" where
  "forget_changed i c = (let c1 = deleteClickhouseClient i c in c1\<lparr>co_migrationDone := co_migrationDone c1 - {i}\<rparr>)"

definition setProjects :: "ClickhouseConfig option \<Rightarrow> CollectorProject list \<Rightarrow> Collector \<Rightarrow> Collector" where
  "setProjects global projects c =
     (let (changed, c1) = fold (set_project global) projects ([], c\<lparr>co_projects := []\<rparr>) in fold forget_changed changed c1)"

text \<open>The answer of the database, \<open>None\<close> for an error.\<close>

definition updateProjects :: "ClickhouseConfig option \<Rightarrow> CollectorProject list option \<Rightarrow> Collector \<Rightarrow> Collector" where
  "updateProjects global answer c = (case answer of None \<Rightarrow> c | Some projects \<Rightarrow> setProjects global projects c)"

definition loadedProject :: "ProjectId \<Rightarrow> Collector \<Rightarrow> CollectorProject option" where
  "loadedProject i c = map_of (co_projects c) i"

subsection \<open>The project of a key\<close>

definition emptyApiKey :: string where "emptyApiKey = replicate 32 CHR ''0''"

definition has_key :: "string \<Rightarrow> CollectorProject \<Rightarrow> bool" where
  "has_key k p \<longleftrightarrow> list_ex (\<lambda>a. fst a = k) (cp_ApiKeys p)"

definition default_project :: "Collector \<Rightarrow> CollectorProject option" where
  "default_project c =
     (if length (co_projects c) = 1 then Some (snd (hd (co_projects c)))
      else map_option snd (find (\<lambda>(_, p). cp_Name p = ''default'') (co_projects c)))"

datatype project_error = ErrProjectNotFound | ErrSaveFailed

text \<open>A project without keys is given the empty one; it is kept in memory even when it cannot be saved.\<close>

definition getProject :: "bool \<Rightarrow> string \<Rightarrow> Collector \<Rightarrow> (project_error + CollectorProject) \<times> Collector" where
  "getProject saves apiKey c =
     (let key = (if apiKey = [] then emptyApiKey else apiKey)
      in case find (\<lambda>(_, p). has_key key p) (co_projects c) of
           Some (_, p) \<Rightarrow> (Inr p, c)
         | None \<Rightarrow>
             if apiKey \<noteq> [] then (Inl ErrProjectNotFound, c)
             else
               (case default_project c of
                  None \<Rightarrow> (Inl ErrProjectNotFound, c)
                | Some p \<Rightarrow>
                    (let p1 = p\<lparr>cp_ApiKeys := cp_ApiKeys p @ [(key, ''Default project access (no API key required)'')]\<rparr>;
                         c1 = c\<lparr>co_projects := AList.update (cp_Id p) p1 (co_projects c)\<rparr>
                     in (if saves then Inr p1 else Inl ErrSaveFailed, c1))))"

subsection \<open>Connections\<close>

datatype do_error = ProjectGone | TablesNotReady | ErrClickhouseNotConfigured | ConnectionFailed | StatementFailed

definition getClickhouseReader :: "ClickhouseConfig option \<Rightarrow> bool \<Rightarrow> ProjectId \<Rightarrow> Collector \<Rightarrow> (do_error + ClickhouseConfig) \<times> Collector" where
  "getClickhouseReader global connects i c =
     (case loadedProject i c of
        None \<Rightarrow> (Inl ProjectGone, c)
      | Some p \<Rightarrow>
          if cp_Id p \<notin> co_migrationDone c then (Inl TablesNotReady, c)
          else
            (case co_clickhouseReaders c (cp_Id p) of
               Some r \<Rightarrow> (Inr r, c)
             | None \<Rightarrow>
                 (case ClickHouseConfig global p of
                    None \<Rightarrow> (Inl ErrClickhouseNotConfigured, c)
                  | Some conf \<Rightarrow>
                      if connects then (Inr conf, c\<lparr>co_clickhouseReaders := (co_clickhouseReaders c)(cp_Id p \<mapsto> conf)\<rparr>)
                      else (Inl ConnectionFailed, c))))"

definition getClickhouseClient :: "ClickhouseConfig option \<Rightarrow> bool \<Rightarrow> CollectorProject \<Rightarrow> Collector \<Rightarrow> (do_error + ClickhouseConfig) \<times> Collector" where
  "getClickhouseClient global connects p c =
     (case co_clickhouseClients c (cp_Id p) of
        Some cl \<Rightarrow> (Inr cl, c)
      | None \<Rightarrow>
          (case ClickHouseConfig global p of
             None \<Rightarrow> (Inl ErrClickhouseNotConfigured, c)
           | Some conf \<Rightarrow>
               if connects then (Inr conf, c\<lparr>co_clickhouseClients := (co_clickhouseClients c)(cp_Id p \<mapsto> conf)\<rparr>)
               else (Inl ConnectionFailed, c)))"

definition clickhouseDo :: "ClickhouseConfig option \<Rightarrow> bool \<Rightarrow> bool \<Rightarrow> ProjectId \<Rightarrow> Collector \<times> ClickhouseWorld
    \<Rightarrow> do_error option \<times> Collector \<times> ClickhouseWorld" where
  "clickhouseDo global connects succeeds i st =
     (let (c, w) = st
      in case loadedProject i c of
           None \<Rightarrow> (Some ProjectGone, c, w)
         | Some p \<Rightarrow>
             if cp_Id p \<notin> co_migrationDone c then (Some TablesNotReady, c, w)
             else
               (case getClickhouseClient global connects p c of
                  (Inl e, c1) \<Rightarrow> (Some e, c1, w)
                | (Inr cl, c1) \<Rightarrow>
                    if succeeds then (None, c1, w\<lparr>cw_written := cw_written w @ [(cp_Id p, cl)]\<rparr>)
                    else (Some StatementFailed, deleteClickhouseClient (cp_Id p) c1, w)))"

subsection \<open>Migration\<close>

definition ProtocolCoroot :: string where "ProtocolCoroot = ''coroot''"

record MigrationFailures =
  mf_initial :: bool
  mf_createDB :: bool
  mf_connect :: bool
  mf_migrate :: bool

text \<open>Whether it returns an error, with the collector and the world after it.\<close>

definition migrateProject :: "ClickhouseConfig option \<Rightarrow> MigrationFailures \<Rightarrow> CollectorProject \<Rightarrow> Collector \<times> ClickhouseWorld
    \<Rightarrow> bool \<times> Collector \<times> ClickhouseWorld" where
  "migrateProject global f p st =
     (let (c, w) = st
      in case ClickHouseConfig global p of
           None \<Rightarrow> (False, st)
         | Some conf \<Rightarrow>
             if cc_Protocol conf = ProtocolCoroot then (False, st)
             else if cc_Global conf \<and> (mf_initial f \<or> mf_createDB f) then (True, st)
             else if mf_connect f \<or> mf_migrate f then (True, st)
             else (False, c\<lparr>co_migrationDone := insert (cp_Id p) (co_migrationDone c)\<rparr>, w\<lparr>cw_migrated := cw_migrated w @ [(cp_Id p, config_json conf)]\<rparr>))"

text \<open>One round of the loop of \<^verbatim>\<open>migrateProjects\<close>, for a project of the list that the pass started with.\<close>

definition migrate_next :: "ClickhouseConfig option \<Rightarrow> MigrationFailures \<Rightarrow> CollectorProject \<Rightarrow> Collector \<times> ClickhouseWorld \<Rightarrow> Collector \<times> ClickhouseWorld" where
  "migrate_next global f p st = (if cp_Id p \<in> co_migrationDone (fst st) then st else snd (migrateProject global f p st))"

definition MigrateClickhouseDatabase :: "ClickhouseConfig option \<Rightarrow> CollectorProject list option \<Rightarrow> MigrationFailures \<Rightarrow> CollectorProject
    \<Rightarrow> Collector \<times> ClickhouseWorld \<Rightarrow> bool \<times> Collector \<times> ClickhouseWorld" where
  "MigrateClickhouseDatabase global answer f p st =
     (if global = None then (False, st) else migrateProject global f p (updateProjects global answer (fst st), snd st))"

definition UpdateClickhouseClient :: "ClickhouseConfig option \<Rightarrow> CollectorProject list option \<Rightarrow> MigrationFailures \<Rightarrow> CollectorProject
    \<Rightarrow> Collector \<times> ClickhouseWorld \<Rightarrow> bool \<times> Collector \<times> ClickhouseWorld" where
  "UpdateClickhouseClient global answer f p st =
     migrateProject global f p (deleteClickhouseClient (cp_Id p) (updateProjects global answer (fst st)), snd st)"

subsection \<open>Application directories\<close>

definition applicationDirectoryRefresh :: int where "applicationDirectoryRefresh = nanoseconds 30"
definition applicationDirectoryRetry :: int where "applicationDirectoryRetry = nanoseconds 5"

record projectApplicationDirectory =
  pa_directory :: "ApplicationDirectory option"
  pa_loadedAt :: instant
  pa_loading :: bool
  pa_firstBuildOver :: bool

definition new_entry :: projectApplicationDirectory where
  "new_entry = \<lparr>pa_directory = None, pa_loadedAt = 0, pa_loading = False, pa_firstBuildOver = False\<rparr>"

text \<open>For a project that is loaded: the answer, the entry, and whether a build starts.\<close>

definition getApplicationDirectory :: "instant \<Rightarrow> projectApplicationDirectory \<Rightarrow> (ApplicationDirectory option \<times> bool) \<times> projectApplicationDirectory \<times> bool" where
  "getApplicationDirectory now entry =
     (let refresh = (case pa_directory entry of None \<Rightarrow> applicationDirectoryRetry | Some _ \<Rightarrow> applicationDirectoryRefresh)
      in if \<not> pa_loading entry \<and> now - pa_loadedAt entry > refresh
         then ((pa_directory entry, pa_firstBuildOver entry), entry\<lparr>pa_loading := True\<rparr>, True)
         else ((pa_directory entry, pa_firstBuildOver entry), entry, False))"

text \<open>The end of a build, which may have built nothing.\<close>

definition refreshApplicationDirectory :: "instant \<Rightarrow> ApplicationDirectory option \<Rightarrow> projectApplicationDirectory \<Rightarrow> projectApplicationDirectory" where
  "refreshApplicationDirectory now built entry =
     entry\<lparr>pa_loading := False, pa_loadedAt := now, pa_firstBuildOver := True,
       pa_directory := (case built of None \<Rightarrow> pa_directory entry | Some d \<Rightarrow> Some d)\<rparr>"

text \<open>\<^verbatim>\<open>TracedClients\<close>: whether the world is known, and the addresses of both sources, sorted, each once.\<close>

definition TracedClients :: "ApplicationDirectory option \<Rightarrow> string list \<Rightarrow> bool \<times> string list" where
  "TracedClients dir recent =
     (case dir of None \<Rightarrow> (False, []) | Some d \<Rightarrow> (True, sort_Strings (remdups (ad_tracedClients d @ recent))))"

end
