(* ===== verification/CollectorSafety.thy ===== *)
theory CollectorSafety
  imports Collector
begin

text \<open>
  Theorems on the projects of the collector: a statement reaches the ClickHouse of the settings of its project,
  after its tables, unless the settings change while a pass of the migration is under way; and which project a key
  selects.
\<close>

text \<open>
  What happens to the collector: the projects are loaded, a pass of the migration starts or goes on with its next
  project, a statement is executed, and the API creates the database of a new project or is given new settings of
  one. Both load the projects first; \<open>None\<close> is an error of the database.
\<close>

datatype collector_event =
    Projects "CollectorProject list"
  | PassStarts
  | MigrateNext MigrationFailures
  | Writes ProjectId bool bool
  | NewDatabase "CollectorProject list option" MigrationFailures CollectorProject
  | NewSettings "CollectorProject list option" MigrationFailures CollectorProject

type_synonym collector_state = "Collector \<times> ClickhouseWorld \<times> CollectorProject list"

text \<open>The loop of the migration takes the projects once and goes through them; anything may happen in between.\<close>

fun collector_step :: "ClickhouseConfig option \<Rightarrow> collector_event \<Rightarrow> collector_state \<Rightarrow> collector_state" where
  "collector_step global (Projects ps) (c, w, rest) = (setProjects global ps c, w, rest)"
| "collector_step global PassStarts (c, w, rest) = (c, w, if rest = [] then map snd (co_projects c) else rest)"
| "collector_step global (MigrateNext f) (c, w, []) = (c, w, [])"
| "collector_step global (MigrateNext f) (c, w, p # rest) = (let (c1, w1) = migrate_next global f p (c, w) in (c1, w1, rest))"
| "collector_step global (Writes i connects succeeds) (c, w, rest) = (let (_, c1, w1) = clickhouseDo global connects succeeds i (c, w) in (c1, w1, rest))"
| "collector_step global (NewDatabase answer f p) (c, w, rest) = (let (_, c1, w1) = MigrateClickhouseDatabase global answer f p (c, w) in (c1, w1, rest))"
| "collector_step global (NewSettings answer f p) (c, w, rest) = (let (_, c1, w1) = UpdateClickhouseClient global answer f p (c, w) in (c1, w1, rest))"

definition collector_start :: collector_state where
  "collector_start = (new_collector, \<lparr>cw_migrated = [], cw_written = []\<rparr>, [])"

definition collector_run :: "ClickhouseConfig option \<Rightarrow> collector_event list \<Rightarrow> collector_state" where
  "collector_run global es = fold (collector_step global) es collector_start"

text \<open>
  The condition on loading: no project that a pass has still to take is loaded with other settings, and the API
  loads the project that it is given.
\<close>

definition same_settings :: "ClickhouseConfig option \<Rightarrow> CollectorProject list \<Rightarrow> CollectorProject \<Rightarrow> bool" where
  "same_settings global ps q \<longleftrightarrow> list_all (\<lambda>p. cp_Id p = cp_Id q \<longrightarrow> project_config global p = project_config global q) ps"

definition loads :: "ClickhouseConfig option \<Rightarrow> CollectorProject list option \<Rightarrow> CollectorProject \<Rightarrow> CollectorProject list \<Rightarrow> bool" where
  "loads global answer p rest \<longleftrightarrow>
     (case answer of None \<Rightarrow> False | Some ps \<Rightarrow> distinct (map cp_Id ps) \<and> p \<in> set ps \<and> list_all (same_settings global ps) rest)"

definition calm :: "ClickhouseConfig option \<Rightarrow> collector_event \<Rightarrow> collector_state \<Rightarrow> bool" where
  "calm global e st \<longleftrightarrow>
     (case e of
        Projects ps \<Rightarrow> list_all (same_settings global ps) (snd (snd st))
      | NewDatabase answer f p \<Rightarrow> loads global answer p (snd (snd st))
      | NewSettings answer f p \<Rightarrow> loads global answer p (snd (snd st))
      | _ \<Rightarrow> True)"

fun settled :: "ClickhouseConfig option \<Rightarrow> collector_event list \<Rightarrow> collector_state \<Rightarrow> bool" where
  "settled global [] st = True"
| "settled global (e # es) st = (calm global e st \<and> settled global es (collector_step global e st))"

subsection \<open>Settings, clients and tables agree\<close>

definition coll_ok :: "ClickhouseConfig option \<Rightarrow> Collector \<Rightarrow> ClickhouseWorld \<Rightarrow> bool" where
  "coll_ok global c w \<longleftrightarrow>
     distinct (map fst (co_projects c)) \<and> (\<forall>i p. map_of (co_projects c) i = Some p \<longrightarrow> cp_Id p = i \<and> co_clickhouseConfigs c i = Some (project_config global p)) \<and>
     (\<forall>i. i \<in> co_migrationDone c \<longrightarrow> (\<exists>conf. co_clickhouseConfigs c i = Some (Some conf) \<and> (i, conf) \<in> set (cw_migrated w))) \<and>
     (\<forall>i conf. co_clickhouseClients c i = Some conf \<longrightarrow> co_clickhouseConfigs c i = Some (Some (config_json conf)))"

text \<open>While projects are loaded, those whose settings changed still have their old client and migration.\<close>

definition loading_ok :: "ClickhouseConfig option \<Rightarrow> ProjectId list \<Rightarrow> Collector \<Rightarrow> ClickhouseWorld \<Rightarrow> bool" where
  "loading_ok global changed c w \<longleftrightarrow>
     distinct (map fst (co_projects c)) \<and> (\<forall>i p. map_of (co_projects c) i = Some p \<longrightarrow> cp_Id p = i \<and> co_clickhouseConfigs c i = Some (project_config global p)) \<and>
     (\<forall>i. i \<in> co_migrationDone c \<longrightarrow> i \<notin> set changed \<longrightarrow> (\<exists>conf. co_clickhouseConfigs c i = Some (Some conf) \<and> (i, conf) \<in> set (cw_migrated w))) \<and>
     (\<forall>i conf. co_clickhouseClients c i = Some conf \<longrightarrow> i \<notin> set changed \<longrightarrow> co_clickhouseConfigs c i = Some (Some (config_json conf)))"

lemma loading_ok_Nil [simp]: "loading_ok global [] c w = coll_ok global c w"
  by (simp add: loading_ok_def coll_ok_def)

lemma loading_okI:
  assumes "distinct (map fst (co_projects c))" "\<And>i p. map_of (co_projects c) i = Some p \<Longrightarrow> cp_Id p = i \<and> co_clickhouseConfigs c i = Some (project_config global p)"
    "\<And>i. i \<in> co_migrationDone c \<Longrightarrow> i \<notin> set changed \<Longrightarrow> \<exists>conf. co_clickhouseConfigs c i = Some (Some conf) \<and> (i, conf) \<in> set (cw_migrated w)"
    "\<And>i conf. co_clickhouseClients c i = Some conf \<Longrightarrow> i \<notin> set changed \<Longrightarrow> co_clickhouseConfigs c i = Some (Some (config_json conf))"
  shows "loading_ok global changed c w"
  using assms unfolding loading_ok_def by blast

lemma loading_parts:
  assumes "loading_ok global changed c w"
  shows loading_distinct: "distinct (map fst (co_projects c))"
    and loading_projects: "map_of (co_projects c) i = Some p \<Longrightarrow> cp_Id p = i \<and> co_clickhouseConfigs c i = Some (project_config global p)"
    and loading_done: "i \<in> co_migrationDone c \<Longrightarrow> i \<notin> set changed \<Longrightarrow> \<exists>conf. co_clickhouseConfigs c i = Some (Some conf) \<and> (i, conf) \<in> set (cw_migrated w)"
    and loading_clients: "co_clickhouseClients c i = Some conf \<Longrightarrow> i \<notin> set changed \<Longrightarrow> co_clickhouseConfigs c i = Some (Some (config_json conf))"
  using assms unfolding loading_ok_def by blast+

lemma set_project_ok:
  assumes ok: "loading_ok global changed c w" and s: "set_project global p (changed, c) = (changed', c')"
  shows "loading_ok global changed' c' w"
proof -
  have c': "c' = c\<lparr>co_projects := AList.update (cp_Id p) p (co_projects c), co_clickhouseConfigs := (co_clickhouseConfigs c)(cp_Id p \<mapsto> project_config global p)\<rparr>"
    and sub: "i \<notin> set changed' \<Longrightarrow> i \<notin> set changed" for i
    using s by (auto simp: set_project_def Let_def split: option.splits if_splits)
  have same: "co_clickhouseConfigs c' i = Some v" if "i \<notin> set changed'" "co_clickhouseConfigs c i = Some v" for i v
    using s that by (auto simp: set_project_def Let_def split: option.splits if_splits)
  show ?thesis
  proof (rule loading_okI)
    show "distinct (map fst (co_projects c'))" using loading_distinct [OF ok] by (simp add: c' distinct_update)
  next
    fix i q
    assume "map_of (co_projects c') i = Some q"
    then have "i = cp_Id p \<and> q = p \<or> i \<noteq> cp_Id p \<and> map_of (co_projects c) i = Some q" by (simp add: c' update_conv' split: if_splits)
    then show "cp_Id q = i \<and> co_clickhouseConfigs c' i = Some (project_config global q)"
      using loading_projects [OF ok, of i q] c' by auto
  next
    fix i
    assume "i \<in> co_migrationDone c'" "i \<notin> set changed'"
    then obtain conf where "co_clickhouseConfigs c i = Some (Some conf)" "(i, conf) \<in> set (cw_migrated w)"
      using loading_done [OF ok, of i] sub c' by auto
    then show "\<exists>conf. co_clickhouseConfigs c' i = Some (Some conf) \<and> (i, conf) \<in> set (cw_migrated w)"
      using same [OF \<open>i \<notin> set changed'\<close>] by blast
  next
    fix i conf
    assume "co_clickhouseClients c' i = Some conf" "i \<notin> set changed'"
    then show "co_clickhouseConfigs c' i = Some (Some (config_json conf))"
      using loading_clients [OF ok, of i conf] sub same c' by auto
  qed
qed

lemma set_projects_ok:
  "loading_ok global changed c w \<Longrightarrow> fold (set_project global) ps (changed, c) = (changed', c') \<Longrightarrow> loading_ok global changed' c' w"
proof (induction ps arbitrary: changed c)
  case (Cons p ps)
  obtain changed1 c1 where 1: "set_project global p (changed, c) = (changed1, c1)" by force
  from Cons.IH [OF set_project_ok [OF Cons.prems(1) 1]] Cons.prems(2) 1 show ?case by simp
qed simp

lemma forget_changed_ok:
  assumes ok: "loading_ok global (i # changed) c w"
  shows "loading_ok global changed (forget_changed i c) w"
proof (rule loading_okI)
  fix j
  assume "j \<in> co_migrationDone (forget_changed i c)" "j \<notin> set changed"
  then show "\<exists>conf. co_clickhouseConfigs (forget_changed i c) j = Some (Some conf) \<and> (j, conf) \<in> set (cw_migrated w)"
    using loading_done [OF ok, of j] by (simp add: forget_changed_def deleteClickhouseClient_def Let_def)
next
  fix j conf
  assume "co_clickhouseClients (forget_changed i c) j = Some conf" "j \<notin> set changed"
  then show "co_clickhouseConfigs (forget_changed i c) j = Some (Some (config_json conf))"
    using loading_clients [OF ok, of j conf] by (simp add: forget_changed_def deleteClickhouseClient_def Let_def split: if_splits)
qed (use loading_distinct [OF ok] loading_projects [OF ok] in \<open>simp_all add: forget_changed_def deleteClickhouseClient_def Let_def\<close>)

lemma forget_all_ok: "loading_ok global changed c w \<Longrightarrow> coll_ok global (fold forget_changed changed c) w"
  by (induction changed arbitrary: c) (simp_all add: forget_changed_ok)

lemma setProjects_ok:
  assumes "coll_ok global c w"
  shows "coll_ok global (setProjects global ps c) w"
proof -
  obtain changed c1 where 1: "fold (set_project global) ps ([], c\<lparr>co_projects := []\<rparr>) = (changed, c1)" by force
  have "loading_ok global [] (c\<lparr>co_projects := []\<rparr>) w" using assms by (simp add: coll_ok_def)
  from forget_all_ok [OF set_projects_ok [OF this 1]] show ?thesis using 1 by (simp add: setProjects_def)
qed

text \<open>Loading a project with the settings it has keeps its migration, and every project loaded gets its settings.\<close>

lemma set_projects_keep:
  "list_all (\<lambda>p. cp_Id p = i \<longrightarrow> project_config global p = conf) ps \<Longrightarrow> co_clickhouseConfigs c i = Some conf \<Longrightarrow> i \<notin> set changed \<Longrightarrow>
   fold (set_project global) ps (changed, c) = (changed', c') \<Longrightarrow>
   co_clickhouseConfigs c' i = Some conf \<and> i \<notin> set changed'"
proof (induction ps arbitrary: changed c)
  case (Cons p ps)
  obtain changed1 c1 where 1: "set_project global p (changed, c) = (changed1, c1)" by force
  have "co_clickhouseConfigs c1 i = Some conf \<and> i \<notin> set changed1"
    using 1 Cons.prems(1-3) by (auto simp: set_project_def Let_def split: option.splits if_splits)
  then show ?case using Cons.IH [of c1 changed1] Cons.prems(1,4) 1 by simp
qed simp

lemma set_projects_done: "co_migrationDone (snd (fold (set_project global) ps st)) = co_migrationDone (snd st)"
  by (induction ps arbitrary: st) (simp_all add: set_project_def case_prod_beta Let_def)

lemma set_projects_config:
  "distinct (map cp_Id ps) \<Longrightarrow> p \<in> set ps \<Longrightarrow> co_clickhouseConfigs (snd (fold (set_project global) ps st)) (cp_Id p) = Some (project_config global p)"
proof (induction ps arbitrary: st)
  case (Cons q ps)
  show ?case
  proof (cases "p = q")
    case True
    have other: "cp_Id x \<noteq> cp_Id q" if "x \<in> set ps" for x
      using Cons.prems(1) imageI [OF that, of cp_Id] by (metis distinct.simps(2) list.map(2) set_map)
    have "co_clickhouseConfigs (snd (fold (set_project global) xs st')) (cp_Id q) = co_clickhouseConfigs (snd st') (cp_Id q)"
      if "set xs \<subseteq> set ps" for xs st'
      using that by (induction xs arbitrary: st') (auto simp: set_project_def case_prod_beta Let_def dest: other)
    moreover have "co_clickhouseConfigs (snd (set_project global q st)) (cp_Id q) = Some (project_config global q)"
      by (simp add: set_project_def case_prod_beta Let_def)
    ultimately show ?thesis using True by simp
  qed (use Cons in simp)
qed simp

lemma forget_all_fields:
  "co_clickhouseConfigs (fold forget_changed xs c) = co_clickhouseConfigs c"
  "co_migrationDone (fold forget_changed xs c) = co_migrationDone c - set xs"
  by (induction xs arbitrary: c) (auto simp: forget_changed_def deleteClickhouseClient_def Let_def)

lemma setProjects_keep:
  assumes "list_all (\<lambda>p. cp_Id p = i \<longrightarrow> project_config global p = conf) ps" "co_clickhouseConfigs c i = Some conf"
  shows "co_clickhouseConfigs (setProjects global ps c) i = Some conf" "i \<in> co_migrationDone (setProjects global ps c) \<longleftrightarrow> i \<in> co_migrationDone c"
proof -
  obtain changed c1 where f: "fold (set_project global) ps ([], c\<lparr>co_projects := []\<rparr>) = (changed, c1)" by force
  have "co_clickhouseConfigs c1 i = Some conf \<and> i \<notin> set changed" using set_projects_keep [OF assms(1) _ _ f] assms(2) by simp
  moreover have "co_migrationDone c1 = co_migrationDone c" using set_projects_done [of global ps "([], c\<lparr>co_projects := []\<rparr>)"] f by simp
  ultimately show "co_clickhouseConfigs (setProjects global ps c) i = Some conf" "i \<in> co_migrationDone (setProjects global ps c) \<longleftrightarrow> i \<in> co_migrationDone c"
    using f by (simp_all add: setProjects_def forget_all_fields)
qed

lemma setProjects_config:
  assumes "distinct (map cp_Id ps)" "p \<in> set ps"
  shows "co_clickhouseConfigs (setProjects global ps c) (cp_Id p) = Some (project_config global p)"
proof -
  obtain changed c1 where f: "fold (set_project global) ps ([], c\<lparr>co_projects := []\<rparr>) = (changed, c1)" by force
  then show ?thesis using set_projects_config [OF assms, of global "([], c\<lparr>co_projects := []\<rparr>)"] by (simp add: setProjects_def forget_all_fields)
qed

lemma coll_ok_parts:
  assumes "coll_ok global c w"
  shows "map_of (co_projects c) i = Some p \<Longrightarrow> cp_Id p = i \<and> co_clickhouseConfigs c i = Some (project_config global p)"
    and "i \<in> co_migrationDone c \<Longrightarrow> \<exists>conf. co_clickhouseConfigs c i = Some (Some conf) \<and> (i, conf) \<in> set (cw_migrated w)"
    and "co_clickhouseClients c i = Some conf \<Longrightarrow> co_clickhouseConfigs c i = Some (Some (config_json conf))"
    and "distinct (map fst (co_projects c))"
  using assms loading_projects [of global "[]" c w] loading_done [of global "[]" c w] loading_clients [of global "[]" c w]
    loading_distinct [of global "[]" c w] by auto

lemma coll_okI:
  assumes "distinct (map fst (co_projects c))" "\<And>i p. map_of (co_projects c) i = Some p \<Longrightarrow> cp_Id p = i \<and> co_clickhouseConfigs c i = Some (project_config global p)"
    "\<And>i. i \<in> co_migrationDone c \<Longrightarrow> \<exists>conf. co_clickhouseConfigs c i = Some (Some conf) \<and> (i, conf) \<in> set (cw_migrated w)"
    "\<And>i conf. co_clickhouseClients c i = Some conf \<Longrightarrow> co_clickhouseConfigs c i = Some (Some (config_json conf))"
  shows "coll_ok global c w"
  using loading_okI [of c global "[]" w] assms by simp

lemma migrate_ok:
  assumes ok: "coll_ok global c w" and p: "co_clickhouseConfigs c (cp_Id p) = Some (project_config global p)"
    and m: "migrateProject global f p (c, w) = (err, c', w')"
  shows "coll_ok global c' w' \<and> co_clickhouseConfigs c' = co_clickhouseConfigs c"
proof (cases "c' = c \<and> w' = w")
  case True
  then show ?thesis using ok by simp
next
  case False
  then obtain conf where conf: "ClickHouseConfig global p = Some conf" "c' = c\<lparr>co_migrationDone := insert (cp_Id p) (co_migrationDone c)\<rparr>"
      "w' = w\<lparr>cw_migrated := cw_migrated w @ [(cp_Id p, config_json conf)]\<rparr>"
    using m by (auto simp: migrateProject_def split: option.splits if_splits)
  have "coll_ok global c' w'"
  proof (rule coll_okI)
    fix i
    assume "i \<in> co_migrationDone c'"
    then show "\<exists>conf. co_clickhouseConfigs c' i = Some (Some conf) \<and> (i, conf) \<in> set (cw_migrated w')"
      using coll_ok_parts(2) [OF ok, of i] p conf by (auto simp: project_config_def)
  qed (use coll_ok_parts(1,3,4) [OF ok] conf(2) in simp_all)
  then show ?thesis using conf(2) by simp
qed

text \<open>What a statement does: it goes to the ClickHouse of the settings, and its tables are there.\<close>

definition well_directed :: "ClickhouseConfig option \<Rightarrow> ProjectId \<Rightarrow> Collector \<Rightarrow> ClickhouseWorld \<Rightarrow> ClickhouseWorld \<Rightarrow> bool" where
  "well_directed global i c w w' \<longleftrightarrow>
     (\<exists>p conf. loadedProject i c = Some p \<and> project_config global p = Some (config_json conf) \<and>
        (i, config_json conf) \<in> set (cw_migrated w) \<and> cw_written w' = cw_written w @ [(i, conf)])"

lemma do_ok:
  assumes ok: "coll_ok global c w" and d: "clickhouseDo global connects succeeds i (c, w) = (r, c', w')"
  shows "coll_ok global c' w' \<and> co_clickhouseConfigs c' = co_clickhouseConfigs c \<and> (r = None \<longrightarrow> well_directed global i c w w')"
proof (cases "\<exists>p. loadedProject i c = Some p \<and> i \<in> co_migrationDone c")
  case False
  then have "c' = c \<and> w' = w \<and> r \<noteq> None"
    using d coll_ok_parts(1) [OF ok] by (auto simp: clickhouseDo_def loadedProject_def split: option.splits)
  then show ?thesis using ok by auto
next
  case True
  then obtain p where p: "map_of (co_projects c) i = Some p" "i \<in> co_migrationDone c" by (auto simp: loadedProject_def)
  note k = coll_ok_parts(1) [OF ok p(1)]
  obtain conf0 where tables: "co_clickhouseConfigs c i = Some (Some conf0)" "(i, conf0) \<in> set (cw_migrated w)" using coll_ok_parts(2) [OF ok p(2)] by auto
  obtain e c1 where g: "getClickhouseClient global connects p c = (e, c1)" by force
  have client: "coll_ok global c1 w \<and> co_clickhouseConfigs c1 = co_clickhouseConfigs c \<and> (\<forall>cl. e = Inr cl \<longrightarrow> Some (config_json cl) = project_config global p)"
  proof (cases "co_clickhouseClients c (cp_Id p)")
    case None
    show ?thesis
    proof (cases "ClickHouseConfig global p")
      case (Some conf)
      show ?thesis
      proof (cases connects)
        case True
        have c1: "e = Inr conf" "c1 = c\<lparr>co_clickhouseClients := (co_clickhouseClients c)(cp_Id p \<mapsto> conf)\<rparr>"
          using g None Some True by (simp_all add: getClickhouseClient_def)
        have "coll_ok global c1 w"
          by (rule coll_okI) (use coll_ok_parts [OF ok] k Some in \<open>auto simp: c1 project_config_def split: if_splits\<close>)
        then show ?thesis using c1 Some by (simp add: project_config_def)
      qed (use g None Some ok in \<open>auto simp: getClickhouseClient_def\<close>)
    qed (use g None ok in \<open>auto simp: getClickhouseClient_def\<close>)
  next
    case (Some cl)
    then have "e = Inr cl" "c1 = c" using g by (simp_all add: getClickhouseClient_def)
    then show ?thesis using ok k coll_ok_parts(3) [OF ok Some] by simp
  qed
  have del: "coll_ok global (deleteClickhouseClient i c1) w"
    by (rule coll_okI) (use coll_ok_parts [OF conjunct1 [OF client]] in \<open>simp_all add: deleteClickhouseClient_def split: if_splits\<close>)
  show ?thesis
  proof (cases e)
    case (Inl err)
    then show ?thesis using d p k g client by (auto simp: clickhouseDo_def loadedProject_def)
  next
    case (Inr cl)
    have cl: "project_config global p = Some (config_json cl)" using client Inr by simp
    moreover have "Some conf0 = project_config global p" using k tables(1) by simp
    ultimately have conf0: "conf0 = config_json cl" by simp
    show ?thesis
    proof (cases succeeds)
      case True
      then have eq: "r = None" "c' = c1" "w' = w\<lparr>cw_written := cw_written w @ [(i, cl)]\<rparr>" using d p k g Inr by (simp_all add: clickhouseDo_def loadedProject_def)
      have "coll_ok global c' w'" by (rule coll_okI) (use coll_ok_parts [OF conjunct1 [OF client]] in \<open>simp_all add: eq\<close>)
      moreover have "well_directed global i c w w'" unfolding well_directed_def
        by (intro exI [of _ p] exI [of _ cl]) (use p cl conf0 tables(2) in \<open>simp add: eq loadedProject_def\<close>)
      ultimately show ?thesis using eq client by simp
    next
      case False
      then have "r = Some StatementFailed" "c' = deleteClickhouseClient i c1" "w' = w" using d p k g Inr by (simp_all add: clickhouseDo_def loadedProject_def)
      then show ?thesis using del client by (simp add: deleteClickhouseClient_def)
    qed
  qed
qed

definition state_ok :: "ClickhouseConfig option \<Rightarrow> collector_state \<Rightarrow> bool" where
  "state_ok global st \<longleftrightarrow>
     (case st of (c, w, rest) \<Rightarrow> coll_ok global c w \<and> list_all (\<lambda>p. co_clickhouseConfigs c (cp_Id p) = Some (project_config global p)) rest)"

lemma delete_client_ok: "coll_ok global c w \<Longrightarrow> coll_ok global (deleteClickhouseClient i c) w"
  by (rule coll_okI) (auto simp: deleteClickhouseClient_def dest: coll_ok_parts split: if_splits)

lemma rest_keep:
  assumes "list_all (\<lambda>p. co_clickhouseConfigs c (cp_Id p) = Some (project_config global p)) rest" "list_all (same_settings global ps) rest"
  shows "list_all (\<lambda>p. co_clickhouseConfigs (setProjects global ps c) (cp_Id p) = Some (project_config global p)) rest"
  using assms setProjects_keep(1) unfolding list_all_iff same_settings_def by blast

text \<open>What the API does once the projects are loaded.\<close>

lemma api_migrates_ok:
  assumes "coll_ok global c w" "list_all (\<lambda>p. co_clickhouseConfigs c (cp_Id p) = Some (project_config global p)) rest"
    and "distinct (map cp_Id ps)" "p \<in> set ps" "list_all (same_settings global ps) rest"
    and "c1 = setProjects global ps c \<or> c1 = deleteClickhouseClient i (setProjects global ps c)"
    and "migrateProject global f p (c1, w) = (err, c', w')"
  shows "state_ok global (c', w', rest)"
proof -
  have c1: "coll_ok global c1 w" "co_clickhouseConfigs c1 = co_clickhouseConfigs (setProjects global ps c)"
    using setProjects_ok [OF assms(1)] delete_client_ok assms(6) by (auto simp: deleteClickhouseClient_def)
  then have "co_clickhouseConfigs c1 (cp_Id p) = Some (project_config global p)" using setProjects_config [OF assms(3,4)] by simp
  from migrate_ok [OF c1(1) this assms(7)] show ?thesis
    using rest_keep [OF assms(2,5)] c1(2) by (simp add: state_ok_def)
qed

lemma collector_step_ok:
  assumes "state_ok global st" "calm global e st"
  shows "state_ok global (collector_step global e st)"
proof -
  obtain c w rest where st: "st = (c, w, rest)" by (metis prod.exhaust)
  have ok: "coll_ok global c w" and rest: "list_all (\<lambda>p. co_clickhouseConfigs c (cp_Id p) = Some (project_config global p)) rest"
    using assms(1) st by (simp_all add: state_ok_def)
  show ?thesis
  proof (cases e)
    case (Projects ps)
    then show ?thesis using assms(2) st setProjects_ok [OF ok] rest_keep [OF rest] by (simp add: state_ok_def calm_def)
  next
    case PassStarts
    have "co_clickhouseConfigs c (cp_Id p) = Some (project_config global p)" if "(i, p) \<in> set (co_projects c)" for i p
      using coll_ok_parts(1,4) [OF ok] that by (metis map_of_is_SomeI)
    then show ?thesis using PassStarts st ok rest by (auto simp: state_ok_def list_all_iff)
  next
    case (MigrateNext f)
    show ?thesis
    proof (cases rest)
      case (Cons p ps)
      obtain err c1 w1 where m: "migrateProject global f p (c, w) = (err, c1, w1)" by (metis prod.exhaust)
      show ?thesis using MigrateNext Cons st ok rest m migrate_ok [OF ok _ m] by (simp add: state_ok_def migrate_next_def)
    qed (use MigrateNext st assms(1) in simp)
  next
    case (Writes i connects succeeds)
    obtain r c1 w1 where d: "clickhouseDo global connects succeeds i (c, w) = (r, c1, w1)" by (metis prod.exhaust)
    show ?thesis using Writes st rest d do_ok [OF ok d] by (simp add: state_ok_def)
  next
    case (NewDatabase answer f p)
    then obtain ps where ps: "answer = Some ps" "distinct (map cp_Id ps)" "p \<in> set ps" "list_all (same_settings global ps) rest"
      using assms(2) st by (auto simp: calm_def loads_def split: option.splits)
    obtain err c1 w1 where m: "migrateProject global f p (setProjects global ps c, w) = (err, c1, w1)" by (metis prod.exhaust)
    show ?thesis
      using api_migrates_ok [OF ok rest ps(2-4) _ m] NewDatabase st ps(1) m assms(1)
      by (cases global) (simp_all add: MigrateClickhouseDatabase_def updateProjects_def)
  next
    case (NewSettings answer f p)
    then obtain ps where ps: "answer = Some ps" "distinct (map cp_Id ps)" "p \<in> set ps" "list_all (same_settings global ps) rest"
      using assms(2) st by (auto simp: calm_def loads_def split: option.splits)
    obtain err c1 w1 where m: "migrateProject global f p (deleteClickhouseClient (cp_Id p) (setProjects global ps c), w) = (err, c1, w1)"
      by (metis prod.exhaust)
    show ?thesis
      using api_migrates_ok [OF ok rest ps(2-4) _ m, of "cp_Id p"] NewSettings st ps(1) m
      by (simp add: UpdateClickhouseClient_def updateProjects_def)
  qed
qed

lemma settled_ok: "settled global es st \<Longrightarrow> state_ok global st \<Longrightarrow> state_ok global (fold (collector_step global) es st)"
  by (induction es arbitrary: st) (simp_all add: collector_step_ok)

lemma start_ok: "state_ok global collector_start"
  by (simp add: state_ok_def collector_start_def coll_ok_def new_collector_def)

text \<open>
  C22. Tables come before statements: after every run of the collector, with the migrations of the loop and those of the
  API, in which no project that a pass of the migration has still to take is loaded with other settings and the
  API finds the project that it is given, a statement that succeeds goes to the ClickHouse of the settings of
  its project, where the tables were created, whatever connections, migrations and statements failed.
\<close>

theorem tables_before_statements:
  assumes "settled global es collector_start" "collector_run global es = (c, w, rest)"
    "clickhouseDo global connects succeeds i (c, w) = (None, c', w')"
  shows "well_directed global i c w w'"
proof -
  have "state_ok global (c, w, rest)" using settled_ok [OF assms(1) start_ok] assms(2) by (simp add: collector_run_def)
  then have "coll_ok global c w" by (simp add: state_ok_def)
  from do_ok [OF this assms(3)] show ?thesis by simp
qed

definition no_migration_failures :: MigrationFailures where
  "no_migration_failures = \<lparr>mf_initial = False, mf_createDB = False, mf_connect = False, mf_migrate = False\<rparr>"

definition sample_conf :: "string \<Rightarrow> ClickhouseConfig" where
  "sample_conf addr = \<lparr>cc_Global = False, cc_Protocol = ''native'', cc_Addr = addr, cc_Auth = (''u'', ''p''), cc_Database = ''db'', cc_InitialDatabase = [],
     cc_TlsEnable = False, cc_TlsSkipVerify = False, cc_TlsCAFile = []\<rparr>"

definition sample_project :: "string \<Rightarrow> CollectorProject" where
  "sample_project addr = \<lparr>cp_Id = ''p1'', cp_Name = ''shop'', cp_ApiKeys = [(''k'', [])], cp_Clickhouse = Some (sample_conf addr)\<rparr>"

lemmas collector_eval = Let_def collector_run_def collector_start_def new_collector_def setProjects_def set_project_def forget_changed_def deleteClickhouseClient_def
  project_config_def ClickHouseConfig_def config_json_def migrate_next_def migrateProject_def clickhouseDo_def getClickhouseClient_def loadedProject_def
  no_migration_failures_def sample_conf_def sample_project_def ProtocolCoroot_def

theorem tables_before_statements_witness:
  "well_directed None ''p1'' (fst (collector_run None [Projects [sample_project ''a''], PassStarts, MigrateNext no_migration_failures]))
     \<lparr>cw_migrated = [(''p1'', sample_conf ''a'')], cw_written = []\<rparr> \<lparr>cw_migrated = [(''p1'', sample_conf ''a'')], cw_written = [(''p1'', sample_conf ''a'')]\<rparr>"
proof -
  obtain c w rest where run: "collector_run None [Projects [sample_project ''a''], PassStarts, MigrateNext no_migration_failures] = (c, w, rest)" by (metis prod.exhaust)
  then have w: "w = \<lparr>cw_migrated = [(''p1'', sample_conf ''a'')], cw_written = []\<rparr>" by (simp add: collector_eval)
  have "\<exists>c'. clickhouseDo None True True ''p1'' (c, w) = (None, c', \<lparr>cw_migrated = [(''p1'', sample_conf ''a'')], cw_written = [(''p1'', sample_conf ''a'')]\<rparr>)"
    using run by (auto simp: collector_eval)
  then obtain c' where d: "clickhouseDo None True True ''p1'' (c, w) = (None, c', \<lparr>cw_migrated = [(''p1'', sample_conf ''a'')], cw_written = [(''p1'', sample_conf ''a'')]\<rparr>)" ..
  have "settled None [Projects [sample_project ''a''], PassStarts, MigrateNext no_migration_failures] collector_start"
    by (simp add: collector_eval calm_def)
  from tables_before_statements [OF this run d] show ?thesis using run w by simp
qed

subsection \<open>Settings that change during a pass\<close>

text \<open>
  What goes on after it on this replica: passes, statements, loading the project with the same settings, and the
  API for other projects. The API is given the new settings of the project on another replica.
\<close>

definition goes_on :: "ClickhouseConfig option \<Rightarrow> CollectorProject \<Rightarrow> collector_event \<Rightarrow> bool" where
  "goes_on global p e =
     (case e of
        Projects ps \<Rightarrow> same_settings global ps p
      | NewDatabase answer f q \<Rightarrow> cp_Id q \<noteq> cp_Id p \<and> (case answer of None \<Rightarrow> True | Some ps \<Rightarrow> same_settings global ps p)
      | NewSettings answer f q \<Rightarrow> cp_Id q \<noteq> cp_Id p \<and> (case answer of None \<Rightarrow> True | Some ps \<Rightarrow> same_settings global ps p)
      | _ \<Rightarrow> True)"

definition stale :: "ClickhouseConfig option \<Rightarrow> CollectorProject \<Rightarrow> collector_state \<Rightarrow> bool" where
  "stale global p st \<longleftrightarrow>
     (case st of (c, w, rest) \<Rightarrow> cp_Id p \<in> co_migrationDone c \<and> co_clickhouseConfigs c (cp_Id p) = Some (project_config global p) \<and>
        list_all (\<lambda>(i, conf). i = cp_Id p \<longrightarrow> Some conf \<noteq> project_config global p) (cw_migrated w))"

lemma stale_load:
  assumes "stale global p (c, w, rest)" "same_settings global ps p"
  shows "stale global p (setProjects global ps c, w, rest)"
  using assms setProjects_keep [of "cp_Id p" global "project_config global p" ps c] by (simp add: stale_def same_settings_def)

lemma stale_migrate:
  assumes "stale global p (c, w, rest)" "cp_Id q \<noteq> cp_Id p" "migrateProject global f q (c, w) = (err, c', w')"
  shows "stale global p (c', w', rest)"
  using assms by (auto simp: stale_def migrateProject_def split: option.splits if_splits)

lemma stale_delete: "stale global p (c, w, rest) \<Longrightarrow> stale global p (deleteClickhouseClient i c, w, rest)"
  by (simp add: stale_def deleteClickhouseClient_def)

lemma stale_step:
  assumes "stale global p st" "goes_on global p e"
  shows "stale global p (collector_step global e st)"
proof -
  obtain c w rest where st: "st = (c, w, rest)" by (metis prod.exhaust)
  have load: "stale global p (updateProjects global answer c, w, rest)"
    if "case answer of None \<Rightarrow> True | Some ps \<Rightarrow> same_settings global ps p" for answer
    using that assms(1) st stale_load by (cases answer) (simp_all add: updateProjects_def)
  show ?thesis
  proof (cases e)
    case (Projects ps)
    then show ?thesis using assms st stale_load by (simp add: goes_on_def)
  next
    case PassStarts
    then show ?thesis using assms st by (simp add: stale_def)
  next
    case (MigrateNext f)
    then show ?thesis using assms st
      by (cases rest) (auto simp: stale_def migrate_next_def migrateProject_def case_prod_beta split: option.splits)
  next
    case (Writes i connects succeeds)
    then show ?thesis using assms st
      by (auto simp: stale_def clickhouseDo_def getClickhouseClient_def deleteClickhouseClient_def case_prod_beta split: option.splits sum.splits)
  next
    case (NewDatabase answer f q)
    then have q: "cp_Id q \<noteq> cp_Id p" "stale global p (updateProjects global answer c, w, rest)" using assms(2) load by (simp_all add: goes_on_def)
    obtain err c1 w1 where m: "migrateProject global f q (updateProjects global answer c, w) = (err, c1, w1)" by (metis prod.exhaust)
    show ?thesis using stale_migrate [OF q(2,1) m] NewDatabase st m assms(1) by (cases global) (simp_all add: MigrateClickhouseDatabase_def)
  next
    case (NewSettings answer f q)
    then have q: "cp_Id q \<noteq> cp_Id p" "stale global p (deleteClickhouseClient (cp_Id q) (updateProjects global answer c), w, rest)"
      using assms(2) load stale_delete by (simp_all add: goes_on_def)
    obtain err c1 w1 where m: "migrateProject global f q (deleteClickhouseClient (cp_Id q) (updateProjects global answer c), w) = (err, c1, w1)"
      by (metis prod.exhaust)
    show ?thesis using stale_migrate [OF q(2,1) m] NewSettings st m by (simp add: UpdateClickhouseClient_def)
  qed
qed

text \<open>
  C23. Settings that change on another replica while a pass goes on: if this replica loads another ClickHouse of a
  project after its pass has taken the projects and before the project's turn, and the old ClickHouse can be
  migrated, then the project counts as migrated, and its tables are not created by this replica in the new
  ClickHouse as long as its settings stay and the API of this replica is not given the project; whatever else
  goes on. (The replica whose API was given the new settings migrates the new ClickHouse itself.)
\<close>

theorem change_during_pass:
  assumes "cp_Id p' = cp_Id p" "cp_Clickhouse p = Some conf" "cp_Clickhouse p' = Some conf'" "config_json conf \<noteq> config_json conf'"
    "\<not> cc_Global conf" "cc_Protocol conf \<noteq> ProtocolCoroot" "list_all (goes_on global p') es"
  shows "stale global p' (collector_run global ([Projects [p], PassStarts, Projects [p'], MigrateNext no_migration_failures] @ es))"
proof -
  have "stale global p' (collector_run global [Projects [p], PassStarts, Projects [p'], MigrateNext no_migration_failures])"
    using assms(1-6) unfolding collector_run_def
    by (simp add: stale_def collector_start_def new_collector_def setProjects_def set_project_def forget_changed_def
        deleteClickhouseClient_def project_config_def ClickHouseConfig_def migrate_next_def migrateProject_def no_migration_failures_def Let_def)
  moreover have "list_all (goes_on global p') es \<Longrightarrow> stale global p' st \<Longrightarrow> stale global p' (fold (collector_step global) es st)" for st
    by (induction es arbitrary: st) (simp_all add: stale_step)
  ultimately show ?thesis using assms(7) by (simp add: collector_run_def)
qed

theorem change_during_pass_witness:
  "stale None (sample_project ''b'') (collector_run None [Projects [sample_project ''a''], PassStarts, Projects [sample_project ''b''],
     MigrateNext no_migration_failures, PassStarts, MigrateNext no_migration_failures, Writes ''p1'' True False])"
proof -
  have "config_json (sample_conf ''a'') \<noteq> config_json (sample_conf ''b'')" by (simp add: config_json_def sample_conf_def)
  from change_during_pass [OF _ _ _ this, of "sample_project ''b''" "sample_project ''a''" None "[PassStarts, MigrateNext no_migration_failures, Writes ''p1'' True False]"]
  show ?thesis by (simp add: sample_project_def sample_conf_def ProtocolCoroot_def goes_on_def)
qed

subsection \<open>The project of a key\<close>

text \<open>
  C103. A key selects its project: the project that a request reaches has the key of the request, a request with a key that
  no project has is refused, and only a request without a key may change a project, by giving it the
  empty key.
\<close>

theorem key_selects_project:
  "(case fst (getProject saves k c) of
      Inr p \<Rightarrow> has_key (if k = [] then emptyApiKey else k) p
    | Inl e \<Rightarrow> list_all (\<lambda>(i, p). \<not> has_key (if k = [] then emptyApiKey else k) p) (co_projects c)) \<and>
   (if k = [] then True else snd (getProject saves k c) = c)"
proof -
  define key where "key = (if k = [] then emptyApiKey else k)"
  have same: "if k = [] then True else snd (getProject saves k c) = c" by (simp add: getProject_def case_prod_beta split: option.splits)
  have "case fst (getProject saves k c) of Inr p \<Rightarrow> has_key key p | Inl e \<Rightarrow> list_all (\<lambda>(i, p). \<not> has_key key p) (co_projects c)"
  proof (cases "find (\<lambda>(_, p). has_key key p) (co_projects c)")
    case None
    then have none: "list_all (\<lambda>(i, p). \<not> has_key key p) (co_projects c)" by (auto simp: find_None_iff list_all_iff)
    have "has_key key (p\<lparr>cp_ApiKeys := cp_ApiKeys p @ [(key, d)]\<rparr>)" for p d by (simp add: has_key_def)
    then show ?thesis using None none by (cases "default_project c") (simp_all add: getProject_def Let_def flip: key_def)
  next
    case (Some x)
    then have "has_key key (snd x)" by (auto simp: find_Some_iff)
    then show ?thesis using Some by (cases x) (simp add: getProject_def Let_def flip: key_def)
  qed
  then show ?thesis using same unfolding key_def by blast
qed

end
