(* ===== verification/PrimaryLock.thy ===== *)
theory PrimaryLock
  imports Main
begin

text \<open>
  The primary lock (\<^verbatim>\<open>db/lock.go\<close>): of the replicas that share the database, the one whose session holds the
  advisory lock runs the watchers. Replicas and sessions are numbers. Postgres is modelled by what is documented
  of an advisory lock: a session that tries takes it unless another live session holds it, and it is released when the
  session ends. A connection that is closed after an error ends its session, since the driver does not reuse it.
\<close>

type_synonym session = nat
type_synonym replica = nat

record LockWorld =
  lk_next :: session
  lk_alive :: "session set"
  lk_holder :: "session option"
  lk_primaryLockConn :: "replica \<Rightarrow> session option"

text \<open>What fails during a call: the check of the connection, opening one, the query for the lock.\<close>

record CallFailures =
  cf_check :: bool
  cf_conn :: bool
  cf_query :: bool

definition no_call_failures :: CallFailures where
  "no_call_failures = \<lparr>cf_check = False, cf_conn = False, cf_query = False\<rparr>"

definition end_session :: "session \<Rightarrow> LockWorld \<Rightarrow> LockWorld" where
  "end_session s w = w\<lparr>lk_alive := lk_alive w - {s}, lk_holder := (if lk_holder w = Some s then None else lk_holder w)\<rparr>"

definition open_session :: "LockWorld \<Rightarrow> session \<times> LockWorld" where
  "open_session w = (lk_next w, w\<lparr>lk_next := Suc (lk_next w), lk_alive := insert (lk_next w) (lk_alive w)\<rparr>)"

definition try_lock :: "CallFailures \<Rightarrow> replica \<Rightarrow> LockWorld \<Rightarrow> bool \<times> LockWorld" where
  "try_lock f r w =
     (if cf_conn f then (False, w)
      else
        (let (s, w1) = open_session w
         in if cf_query f then (False, end_session s w1)
            else if lk_holder w1 \<noteq> None then (False, end_session s w1)
            else (True, w1\<lparr>lk_holder := Some s, lk_primaryLockConn := (lk_primaryLockConn w1)(r := Some s)\<rparr>)))"

definition GetPrimaryLock :: "CallFailures \<Rightarrow> replica \<Rightarrow> LockWorld \<Rightarrow> bool \<times> LockWorld" where
  "GetPrimaryLock f r w =
     (case lk_primaryLockConn w r of
        None \<Rightarrow> try_lock f r w
      | Some s \<Rightarrow>
          if s \<in> lk_alive w \<and> \<not> cf_check f then (True, w)
          else
            (let w1 = end_session s w
             in try_lock f r (w1\<lparr>lk_primaryLockConn := (lk_primaryLockConn w1)(r := None)\<rparr>)))"

subsection \<open>One primary\<close>

text \<open>Replicas call in any order, and the session of a primary may end at any moment.\<close>

datatype lock_event = Asks replica CallFailures | Dies replica

datatype lock_answer = Answer replica bool | Lost replica

fun lock_step :: "lock_event \<Rightarrow> LockWorld \<Rightarrow> lock_answer \<times> LockWorld" where
  "lock_step (Asks r f) w = (let (yes, w1) = GetPrimaryLock f r w in (Answer r yes, w1))"
| "lock_step (Dies r) w = (Lost r, case lk_primaryLockConn w r of None \<Rightarrow> w | Some s \<Rightarrow> end_session s w)"

fun lock_run :: "lock_event list \<Rightarrow> LockWorld \<Rightarrow> lock_answer list \<times> LockWorld" where
  "lock_run [] w = ([], w)"
| "lock_run (e # es) w = (let (a, w1) = lock_step e w; (as', w2) = lock_run es w1 in (a # as', w2))"

definition lock_start :: LockWorld where
  "lock_start = \<lparr>lk_next = 0, lk_alive = {}, lk_holder = None, lk_primaryLockConn = (\<lambda>_. None)\<rparr>"

text \<open>
  The specification: a replica is told that it is the primary only while no other is, until the other loses its
  session or is told that it is not.
\<close>

fun exclusive :: "replica option \<Rightarrow> lock_answer list \<Rightarrow> bool" where
  "exclusive cur [] = True"
| "exclusive cur (Answer r yes # as) =
     (if yes then (cur = None \<or> cur = Some r) \<and> exclusive (Some r) as else exclusive (if cur = Some r then None else cur) as)"
| "exclusive cur (Lost r # as) = exclusive (if cur = Some r then None else cur) as"

text \<open>The sessions of the replicas are theirs, and the lock is held by the session of a primary, which lives.\<close>

definition lock_ok :: "LockWorld \<Rightarrow> bool" where
  "lock_ok w \<longleftrightarrow>
     (\<forall>s. s \<in> lk_alive w \<longrightarrow> s < lk_next w) \<and> (\<forall>r s. lk_primaryLockConn w r = Some s \<longrightarrow> s < lk_next w) \<and>
     (\<forall>r s. lk_primaryLockConn w r = Some s \<longrightarrow> s \<in> lk_alive w \<longrightarrow> lk_holder w = Some s) \<and> (\<forall>s. lk_holder w = Some s \<longrightarrow> s \<in> lk_alive w) \<and>
     (\<forall>r r' s. lk_primaryLockConn w r = Some s \<longrightarrow> lk_primaryLockConn w r' = Some s \<longrightarrow> r = r') \<and>
     (\<forall>s. lk_holder w = Some s \<longrightarrow> (\<exists>r. lk_primaryLockConn w r = Some s))"

lemma lock_okI:
  assumes "\<And>s. s \<in> lk_alive w \<Longrightarrow> s < lk_next w" "\<And>r s. lk_primaryLockConn w r = Some s \<Longrightarrow> s < lk_next w"
    "\<And>r s. lk_primaryLockConn w r = Some s \<Longrightarrow> s \<in> lk_alive w \<Longrightarrow> lk_holder w = Some s" "\<And>s. lk_holder w = Some s \<Longrightarrow> s \<in> lk_alive w"
    "\<And>r r' s. lk_primaryLockConn w r = Some s \<Longrightarrow> lk_primaryLockConn w r' = Some s \<Longrightarrow> r = r'"
    "\<And>s. lk_holder w = Some s \<Longrightarrow> \<exists>r. lk_primaryLockConn w r = Some s"
  shows "lock_ok w"
  unfolding lock_ok_def using assms by blast

lemma lock_parts:
  assumes "lock_ok w"
  shows alive_below: "s \<in> lk_alive w \<Longrightarrow> s < lk_next w"
    and conn_below: "lk_primaryLockConn w r = Some s \<Longrightarrow> s < lk_next w"
    and conn_holds: "lk_primaryLockConn w r = Some s \<Longrightarrow> s \<in> lk_alive w \<Longrightarrow> lk_holder w = Some s"
    and holder_alive: "lk_holder w = Some s \<Longrightarrow> s \<in> lk_alive w"
    and conn_unique: "lk_primaryLockConn w r = Some s \<Longrightarrow> lk_primaryLockConn w r' = Some s \<Longrightarrow> r = r'"
    and holder_conn: "lk_holder w = Some s \<Longrightarrow> \<exists>r. lk_primaryLockConn w r = Some s"
  using assms unfolding lock_ok_def by blast+

definition primary :: "LockWorld \<Rightarrow> replica \<Rightarrow> bool" where
  "primary w r \<longleftrightarrow> lk_holder w \<noteq> None \<and> lk_primaryLockConn w r = lk_holder w"

lemma primary_unique: "lock_ok w \<Longrightarrow> primary w r \<Longrightarrow> primary w r' \<Longrightarrow> r = r'"
  unfolding primary_def using conn_unique by (metis option.exhaust)

lemma lock_ok_start: "lock_ok lock_start" "\<not> primary lock_start r"
  by (simp_all add: lock_ok_def lock_start_def primary_def)

lemma end_session_simps [simp]: "lk_next (end_session s w) = lk_next w" "lk_alive (end_session s w) = lk_alive w - {s}"
  "lk_holder (end_session s w) = (if lk_holder w = Some s then None else lk_holder w)" "lk_primaryLockConn (end_session s w) = lk_primaryLockConn w"
  by (simp_all add: end_session_def)

lemma lock_ok_end:
  assumes "lock_ok w"
  shows "lock_ok (end_session s w)"
proof (rule lock_okI)
  show "lk_holder (end_session s w) = Some s'" if "lk_primaryLockConn (end_session s w) r = Some s'" "s' \<in> lk_alive (end_session s w)" for r s'
    using conn_holds [OF assms, of r s'] that by simp
  show "s' \<in> lk_alive (end_session s w)" if "lk_holder (end_session s w) = Some s'" for s'
    using holder_alive [OF assms, of s'] that by (simp split: if_splits)
  show "\<exists>r. lk_primaryLockConn (end_session s w) r = Some s'" if "lk_holder (end_session s w) = Some s'" for s'
    using holder_conn [OF assms, of s'] that by (simp split: if_splits)
  show "r = r'" if "lk_primaryLockConn (end_session s w) r = Some s'" "lk_primaryLockConn (end_session s w) r' = Some s'" for r r' s'
    using conn_unique [OF assms] that by simp
qed (use alive_below [OF assms] conn_below [OF assms] in simp_all)

lemma primary_end:
  assumes "lock_ok w" "lk_primaryLockConn w r = Some s"
  shows "primary (end_session s w) r' \<longleftrightarrow> r' \<noteq> r \<and> primary w r'"
proof (cases "lk_primaryLockConn w r' = Some s")
  case True
  then have "r' = r" using conn_unique [OF assms(1) True assms(2)] by simp
  then show ?thesis using assms(2) by (simp add: primary_def)
next
  case False
  then show ?thesis using assms(2) by (auto simp: primary_def)
qed

lemma primary_alive: "lock_ok w \<Longrightarrow> lk_primaryLockConn w r = Some s \<Longrightarrow> primary w r \<longleftrightarrow> s \<in> lk_alive w"
  unfolding primary_def using conn_holds holder_alive by (metis option.distinct(1))

lemma primary_none: "lk_primaryLockConn w r = None \<Longrightarrow> \<not> primary w r"
  by (auto simp: primary_def)

text \<open>A connection that is lost is forgotten.\<close>

lemma lock_ok_forget:
  assumes ok: "lock_ok w" and p: "\<not> primary w r"
  shows "lock_ok (w\<lparr>lk_primaryLockConn := (lk_primaryLockConn w)(r := None)\<rparr>)"
proof (rule lock_okI)
  show "\<exists>r'. lk_primaryLockConn (w\<lparr>lk_primaryLockConn := (lk_primaryLockConn w)(r := None)\<rparr>) r' = Some s"
    if h: "lk_holder (w\<lparr>lk_primaryLockConn := (lk_primaryLockConn w)(r := None)\<rparr>) = Some s" for s
  proof -
    from h obtain r' where r': "lk_primaryLockConn w r' = Some s" using holder_conn [OF ok, of s] by auto
    then have "r' \<noteq> r" using h p by (auto simp: primary_def)
    then show ?thesis using r' by (intro exI [of _ r']) simp
  qed
  fix r1 r2 s
  assume "lk_primaryLockConn (w\<lparr>lk_primaryLockConn := (lk_primaryLockConn w)(r := None)\<rparr>) r1 = Some s"
    "lk_primaryLockConn (w\<lparr>lk_primaryLockConn := (lk_primaryLockConn w)(r := None)\<rparr>) r2 = Some s"
  then show "r1 = r2" using conn_unique [OF ok, of r1 s r2] by (simp split: if_splits)
qed (auto dest: alive_below [OF ok] conn_below [OF ok] conn_holds [OF ok] holder_alive [OF ok] split: if_splits)

lemma primary_forget: "\<not> primary w r \<Longrightarrow> primary (w\<lparr>lk_primaryLockConn := (lk_primaryLockConn w)(r := None)\<rparr>) r' = primary w r'"
  by (auto simp: primary_def)

lemma lock_ok_open: "lock_ok w \<Longrightarrow> lk_primaryLockConn w r \<noteq> Some (lk_next w)" "lock_ok w \<Longrightarrow> lk_holder w \<noteq> Some (lk_next w)"
  using conn_below [of w r] alive_below [of w] holder_alive [of w] by blast+

text \<open>An attempt, by a replica without a connection.\<close>

definition same_locks :: "LockWorld \<Rightarrow> LockWorld \<Rightarrow> bool" where
  "same_locks w w' \<longleftrightarrow> lk_holder w' = lk_holder w \<and> lk_primaryLockConn w' = lk_primaryLockConn w"

lemma open_end_ok:
  assumes "lock_ok w"
  shows "lock_ok (end_session (lk_next w) (snd (open_session w)))" "same_locks w (end_session (lk_next w) (snd (open_session w)))"
  using assms lock_ok_open(2) [OF assms] unfolding same_locks_def open_session_def
  by (auto intro!: lock_okI dest: alive_below conn_below conn_holds holder_alive conn_unique holder_conn)

definition take_lock :: "replica \<Rightarrow> LockWorld \<Rightarrow> LockWorld" where
  "take_lock r w = (snd (open_session w))\<lparr>lk_holder := Some (lk_next w), lk_primaryLockConn := (lk_primaryLockConn w)(r := Some (lk_next w))\<rparr>"

lemma take_lock_simps [simp]: "lk_next (take_lock r w) = Suc (lk_next w)" "lk_alive (take_lock r w) = insert (lk_next w) (lk_alive w)"
  "lk_holder (take_lock r w) = Some (lk_next w)" "lk_primaryLockConn (take_lock r w) = (lk_primaryLockConn w)(r := Some (lk_next w))"
  by (simp_all add: take_lock_def open_session_def)

lemma take_ok:
  assumes ok: "lock_ok w" and none: "lk_holder w = None"
  shows "lock_ok (take_lock r w)"
proof (rule lock_okI)
  show "s < lk_next (take_lock r w)" if "s \<in> lk_alive (take_lock r w)" for s
    using that alive_below [OF ok, of s] by auto
  show "s < lk_next (take_lock r w)" if "lk_primaryLockConn (take_lock r w) r' = Some s" for r' s
    using that conn_below [OF ok, of r' s] by (simp split: if_splits)
  show "lk_holder (take_lock r w) = Some s" if "lk_primaryLockConn (take_lock r w) r' = Some s" "s \<in> lk_alive (take_lock r w)" for r' s
    using that conn_holds [OF ok, of r' s] none by (auto split: if_splits)
  show "r1 = r2" if "lk_primaryLockConn (take_lock r w) r1 = Some s" "lk_primaryLockConn (take_lock r w) r2 = Some s" for r1 r2 s
    using that conn_unique [OF ok, of r1 s r2] lock_ok_open(1) [OF ok, of r1] lock_ok_open(1) [OF ok, of r2] by (auto split: if_splits)
  show "\<exists>r'. lk_primaryLockConn (take_lock r w) r' = Some s" if "lk_holder (take_lock r w) = Some s" for s
    using that by (intro exI [of _ r]) simp
qed simp

lemma primary_take: "lock_ok w \<Longrightarrow> lk_holder w = None \<Longrightarrow> primary (take_lock r w) r' \<longleftrightarrow> r' = r"
  using lock_ok_open(1) [of w r'] by (auto simp: primary_def)

lemma try_lock_eq:
  assumes "lock_ok w"
  shows "try_lock f r w =
    (if cf_conn f then (False, w)
     else if cf_query f \<or> lk_holder w \<noteq> None then (False, end_session (lk_next w) (snd (open_session w)))
     else (True, take_lock r w))"
  by (simp add: try_lock_def open_session_def take_lock_def Let_def)

lemma same_primary: "same_locks w w' \<Longrightarrow> primary w' r = primary w r"
  by (simp add: primary_def same_locks_def)

lemma try_lock_ok:
  assumes ok: "lock_ok w" and t: "try_lock f r w = (yes, w')" and none: "\<not> primary w r"
  shows "lock_ok w' \<and> (yes \<longleftrightarrow> primary w' r) \<and> (yes \<longrightarrow> (\<forall>r'. \<not> primary w r')) \<and> (\<forall>r'. r' \<noteq> r \<longrightarrow> primary w' r' = primary w r') \<and>
    (f = no_call_failures \<longrightarrow> yes = (\<forall>r'. \<not> primary w r'))"
proof -
  have no: "lk_holder w = None \<longleftrightarrow> (\<forall>r'. \<not> primary w r')"
    using holder_conn [OF ok] unfolding primary_def by (metis option.exhaust)
  note t' = t [unfolded try_lock_eq [OF ok]]
  show ?thesis
  proof (cases "cf_conn f")
    case True
    then have "yes = False" "w' = w" using t' by simp_all
    then show ?thesis using ok none True by (auto simp: no_call_failures_def)
  next
    case conn: False
    show ?thesis
    proof (cases "cf_query f \<or> lk_holder w \<noteq> None")
      case True
      then have "yes = False" "w' = end_session (lk_next w) (snd (open_session w))" using t' conn by simp_all
      then show ?thesis
        using none open_end_ok(1) [OF ok] same_primary [OF open_end_ok(2) [OF ok]] no True by (auto simp: no_call_failures_def)
    next
      case False
      then have "yes = True" "w' = take_lock r w" "lk_holder w = None" using t' conn by simp_all
      then show ?thesis using take_ok [OF ok] primary_take [OF ok] no by simp
    qed
  qed
qed

text \<open>A call answers whether the replica is the primary then, and changes nothing for the others.\<close>

lemma GetPrimaryLock_ok:
  assumes ok: "lock_ok w" and g: "GetPrimaryLock f r w = (yes, w')"
  shows "lock_ok w' \<and> (yes \<longleftrightarrow> primary w' r) \<and> (yes \<longrightarrow> (\<forall>r'. r' \<noteq> r \<longrightarrow> \<not> primary w r')) \<and> (\<forall>r'. r' \<noteq> r \<longrightarrow> primary w' r' = primary w r') \<and>
    (f = no_call_failures \<longrightarrow> yes = (\<forall>r'. r' \<noteq> r \<longrightarrow> \<not> primary w r'))"
proof (cases "lk_primaryLockConn w r")
  case None
  then have "\<not> primary w r" by (rule primary_none)
  then show ?thesis using try_lock_ok [OF ok _ \<open>\<not> primary w r\<close>, of f yes w'] g None by (auto simp: GetPrimaryLock_def)
next
  case (Some s)
  show ?thesis
  proof (cases "s \<in> lk_alive w \<and> \<not> cf_check f")
    case True
    then have "yes" "w' = w" "primary w r" using g Some primary_alive [OF ok Some] by (simp_all add: GetPrimaryLock_def)
    then show ?thesis using ok primary_unique [OF ok] by auto
  next
    case False
    define w1 where "w1 = end_session s w"
    define w2 where "w2 = w1\<lparr>lk_primaryLockConn := (lk_primaryLockConn w1)(r := None)\<rparr>"
    have p1: "primary w1 r' \<longleftrightarrow> r' \<noteq> r \<and> primary w r'" for r' unfolding w1_def by (rule primary_end [OF ok Some])
    have ok2: "lock_ok w2" unfolding w2_def by (rule lock_ok_forget) (use lock_ok_end [OF ok] p1 in \<open>simp_all add: w1_def\<close>)
    have p2: "primary w2 r' \<longleftrightarrow> r' \<noteq> r \<and> primary w r'" for r' unfolding w2_def using primary_forget [of w1 r r'] p1 by simp
    have "try_lock f r w2 = (yes, w')" using g Some False by (simp add: GetPrimaryLock_def Let_def w2_def w1_def split: if_splits)
    from try_lock_ok [OF ok2 this] show ?thesis using p2 by auto
  qed
qed

lemma lock_run_exclusive:
  assumes "lock_ok w" "\<And>r. primary w r \<longleftrightarrow> cur = Some r"
  shows "exclusive cur (fst (lock_run es w)) \<and> lock_ok (snd (lock_run es w))"
  using assms
proof (induction es arbitrary: w cur)
  case (Cons e es)
  obtain a w1 where 1: "lock_step e w = (a, w1)" by force
  show ?case
  proof (cases e)
    case (Asks r f)
    then obtain yes where g: "GetPrimaryLock f r w = (yes, w1)" "a = Answer r yes" using 1 by (auto split: prod.splits)
    note k = GetPrimaryLock_ok [OF Cons.prems(1) g(1)]
    have p: "primary w1 r' \<longleftrightarrow> (if yes then Some r else if cur = Some r then None else cur) = Some r'" for r'
      using k Cons.prems(2) primary_unique [of w1 r r'] by (cases "r' = r") auto
    have "yes \<Longrightarrow> cur = None \<or> cur = Some r" using k Cons.prems(2) by (cases cur) auto
    then show ?thesis using Cons.IH [OF conjunct1 [OF k] p] 1 g(2) by (auto simp: case_prod_beta)
  next
    case (Dies r)
    have ok1: "lock_ok w1" using 1 Dies Cons.prems(1) lock_ok_end by (auto split: option.splits)
    have p: "primary w1 r' \<longleftrightarrow> (if cur = Some r then None else cur) = Some r'" for r'
    proof (cases "lk_primaryLockConn w r")
      case None
      then show ?thesis using 1 Dies Cons.prems(2) [of r'] Cons.prems(2) [of r] primary_none [OF None] by auto
    next
      case (Some s)
      then show ?thesis using 1 Dies primary_end [OF Cons.prems(1) Some, of r'] Cons.prems(2) [of r'] by auto
    qed
    then show ?thesis using Cons.IH [OF ok1 p] 1 Dies by (auto simp: case_prod_beta)
  qed
qed simp

lemma free_for: "lock_ok w \<Longrightarrow> (\<forall>r'. r' \<noteq> r \<longrightarrow> \<not> primary w r') \<longleftrightarrow> lk_holder w \<in> {None, lk_primaryLockConn w r}"
proof -
  assume ok: "lock_ok w"
  show ?thesis
  proof (cases "lk_holder w")
    case None
    then show ?thesis by (simp add: primary_def)
  next
    case (Some s)
    then obtain r0 where r0: "lk_primaryLockConn w r0 = Some s" using holder_conn [OF ok] by blast
    have e: "lk_primaryLockConn w r' = Some s \<longleftrightarrow> r' = r0" for r' using r0 conn_unique [OF ok r0, of r'] by blast
    have "(\<forall>r'. r' \<noteq> r \<longrightarrow> \<not> primary w r') \<longleftrightarrow> r0 = r" using Some e by (auto simp: primary_def)
    moreover have "Some s = lk_primaryLockConn w r \<longleftrightarrow> r0 = r" using e [of r] by auto
    ultimately show ?thesis using Some by simp
  qed
qed

text \<open>
  C19. There is one primary: whatever replicas ask, whatever fails and whichever sessions end, a replica is told that
  it is the primary only while no other is; and when nothing fails, a call answers yes exactly if the lock is
  free or held by the replica's own session.
\<close>

theorem one_primary:
  "exclusive None (fst (lock_run es lock_start)) \<and>
   (let w = snd (lock_run es lock_start) in fst (GetPrimaryLock no_call_failures r w) = (lk_holder w \<in> {None, lk_primaryLockConn w r}))"
proof -
  let ?w = "snd (lock_run es lock_start)"
  have ok: "exclusive None (fst (lock_run es lock_start)) \<and> lock_ok ?w" by (rule lock_run_exclusive) (simp_all add: lock_ok_start)
  obtain yes w' where g: "GetPrimaryLock no_call_failures r ?w = (yes, w')" by force
  have "yes = (\<forall>r'. r' \<noteq> r \<longrightarrow> \<not> primary ?w r')" using GetPrimaryLock_ok [OF conjunct2 [OF ok] g] by blast
  then show ?thesis unfolding Let_def using ok g free_for [of ?w r] by simp
qed

end
