(* ===== verification/WatcherLoop.thy ===== *)
theory WatcherLoop
  imports PrimaryLock TimeSeries
begin

text \<open>
  The watcher loop (\<^verbatim>\<open>watchers/watchers.go\<close>): a goroutine receives the updates of projects and puts them into a
  channel, each project at most once; another takes a project from the channel, and, on the primary replica,
  loads its world for the last hour of its results and runs the watchers.
\<close>

subsection \<open>The queue of updates\<close>

text \<open>
  The two goroutines share the set of pending projects and the channel. The second one takes a project from the
  channel, then removes it from the pending ones, then handles it; the first may work in between.
\<close>

datatype 'p phase = Waiting | Taken 'p | Handling 'p

record 'p Loop =
  lo_chan :: "'p list"
  lo_pending :: "'p set"
  lo_phase :: "'p phase"
  lo_handled :: "'p list"

definition chan_capacity :: nat where "chan_capacity = 1000"

definition receive_update :: "'p \<Rightarrow> 'p Loop \<Rightarrow> 'p Loop" where
  "receive_update p l =
     (if p \<in> lo_pending l then l
      else if length (lo_chan l) < chan_capacity then l\<lparr>lo_pending := insert p (lo_pending l), lo_chan := lo_chan l @ [p]\<rparr>
      else l\<lparr>lo_pending := lo_pending l - {p}\<rparr>)"

text \<open>A step of one of the goroutines; only the primary handles what it takes.\<close>

inductive loop_step :: "'p set \<Rightarrow> 'p Loop \<Rightarrow> 'p Loop \<Rightarrow> bool" for P where
  update: "p \<in> P \<Longrightarrow> loop_step P l (receive_update p l)"
| take: "lo_phase l = Waiting \<Longrightarrow> lo_chan l = p # ps \<Longrightarrow> loop_step P l (l\<lparr>lo_chan := ps, lo_phase := Taken p\<rparr>)"
| remove: "lo_phase l = Taken p \<Longrightarrow> loop_step P l (l\<lparr>lo_pending := lo_pending l - {p}, lo_phase := Handling p\<rparr>)"
| skip: "lo_phase l = Handling p \<Longrightarrow> loop_step P l (l\<lparr>lo_phase := Waiting\<rparr>)"
| handle: "lo_phase l = Handling p \<Longrightarrow> loop_step P l (l\<lparr>lo_phase := Waiting, lo_handled := lo_handled l @ [p]\<rparr>)"

definition loop_start :: "'p Loop" where
  "loop_start = \<lparr>lo_chan = [], lo_pending = {}, lo_phase = Waiting, lo_handled = []\<rparr>"

inductive loop_reach :: "'p set \<Rightarrow> 'p Loop \<Rightarrow> bool" for P where
  start: "loop_reach P loop_start"
| step: "loop_reach P l \<Longrightarrow> loop_step P l l' \<Longrightarrow> loop_reach P l'"

definition taken :: "'p phase \<Rightarrow> 'p set" where
  "taken ph = (case ph of Taken p \<Rightarrow> {p} | _ \<Rightarrow> {})"

lemma taken_simps [simp]: "taken Waiting = {}" "taken (Taken p) = {p}" "taken (Handling p) = {}"
  by (simp_all add: taken_def)

text \<open>Pending are exactly the projects in the channel and the one just taken, and none twice.\<close>

definition loop_ok :: "'p set \<Rightarrow> 'p Loop \<Rightarrow> bool" where
  "loop_ok P l \<longleftrightarrow> distinct (lo_chan l) \<and> lo_pending l = set (lo_chan l) \<union> taken (lo_phase l) \<and> set (lo_chan l) \<inter> taken (lo_phase l) = {} \<and>
     set (lo_chan l) \<subseteq> P"

lemma loop_step_ok: "loop_step P l l' \<Longrightarrow> loop_ok P l \<Longrightarrow> loop_ok P l'"
  by (induction rule: loop_step.induct) (auto simp: loop_ok_def receive_update_def)

lemma loop_reach_ok: "loop_reach P l \<Longrightarrow> loop_ok P l"
  by (induction rule: loop_reach.induct) (simp_all add: loop_step_ok, simp add: loop_ok_def loop_start_def)

text \<open>
  C20. No update is lost: in every reachable state, if there are at most 1000 projects, an update of a project leaves it in the
  channel or just taken from it, so that its world is loaded after the update; and a project is never in the channel twice.
\<close>

theorem updates_not_lost:
  assumes "loop_reach P l" "finite P" "card P \<le> 1000" "p \<in> P"
  shows "distinct (lo_chan (receive_update p l)) \<and> (p \<in> set (lo_chan (receive_update p l)) \<or> lo_phase (receive_update p l) = Taken p)"
proof -
  have ok: "loop_ok P l" by (rule loop_reach_ok [OF assms(1)])
  have ok': "loop_ok P (receive_update p l)" by (rule loop_step_ok [OF loop_step.update [OF assms(4)] ok])
  have "length (lo_chan l) < chan_capacity" if "p \<notin> lo_pending l"
  proof -
    have "set (lo_chan l) \<subset> P" using that ok assms(4) by (auto simp: loop_ok_def)
    then have "card (set (lo_chan l)) < card P" using assms(2) by (rule psubset_card_mono [rotated])
    then show ?thesis using ok assms(3) by (simp add: loop_ok_def chan_capacity_def distinct_card)
  qed
  then have "p \<in> lo_pending (receive_update p l)" by (simp add: receive_update_def)
  then show ?thesis using ok' by (auto simp: loop_ok_def taken_def split: phase.splits)
qed

theorem updates_not_lost_witness:
  "lo_chan (receive_update 1 (loop_start\<lparr>lo_chan := [2], lo_pending := {2::nat}\<rparr>)) = [2, 1] \<and>
   1 \<in> set (lo_chan (receive_update 1 (loop_start\<lparr>lo_chan := [2], lo_pending := {2::nat}\<rparr>)))"
proof -
  have "loop_reach {1, 2} (receive_update (2::nat) loop_start)" by (rule loop_reach.step [OF loop_reach.start loop_step.update]) simp
  then have "loop_reach {1, 2} (loop_start\<lparr>lo_chan := [2], lo_pending := {2::nat}\<rparr>)"
    by (simp add: receive_update_def loop_start_def chan_capacity_def)
  from updates_not_lost [OF this, of 1] show ?thesis by (simp add: receive_update_def loop_start_def chan_capacity_def)
qed

subsection \<open>The window of the world\<close>

record LoopProject =
  lp_Id :: string
  lp_MemberProjects :: "string list"

text \<open>The end of the results of a project, \<open>None\<close> for an error; a time of 0 is no results.\<close>

definition member_step :: "Time \<Rightarrow> (Time \<times> Time) \<Rightarrow> (Time \<times> Time) option" where
  "member_step resultsTo w =
     (let (from, to) = w
      in if resultsTo = 0 \<or> resultsTo < from then None
         else if to = 0 \<or> resultsTo < to then Some (resultsTo - Hour, resultsTo)
         else Some (from, to))"

fun members_window :: "(string \<Rightarrow> string option) \<Rightarrow> (string \<Rightarrow> Time option) \<Rightarrow> string list \<Rightarrow> Time \<times> Time \<Rightarrow> (Time \<times> Time) option" where
  "members_window project_id get_to [] w = Some w"
| "members_window project_id get_to (mp # mps) w =
     (case project_id mp of
        None \<Rightarrow> None
      | Some i \<Rightarrow>
          (case get_to i of
             None \<Rightarrow> None
           | Some t \<Rightarrow> (case member_step t w of None \<Rightarrow> None | Some w1 \<Rightarrow> members_window project_id get_to mps w1)))"

text \<open>The members of a project of several clusters are named; \<open>project_id\<close> is the answer of \<^verbatim>\<open>GetProjects\<close>, if it came.\<close>

definition update_window :: "(string \<Rightarrow> string option) option \<Rightarrow> (string \<Rightarrow> Time option) \<Rightarrow> LoopProject \<Rightarrow> (Time \<times> Time) option" where
  "update_window projects get_to p =
     (if lp_MemberProjects p = [] then
        (case get_to (lp_Id p) of None \<Rightarrow> None | Some t \<Rightarrow> if t = 0 then None else Some (t - Hour, t))
      else (case projects of None \<Rightarrow> None | Some project_id \<Rightarrow> members_window project_id get_to (lp_MemberProjects p) (0, 0)))"

text \<open>
  What the window of several members is, where each answers \<open>t\<close>: it ends with the earliest results, but a
  member is refused whose results end more than an hour before the earliest of those read before it.
\<close>

fun refused :: "Time \<Rightarrow> Time list \<Rightarrow> bool" where
  "refused m [] = False"
| "refused m (t # ts) = (t = 0 \<or> t < m - Hour \<or> refused (min m t) ts)"

lemma members_window_known:
  assumes "\<And>mp. mp \<in> set mps \<Longrightarrow> project_id mp = Some (i mp) \<and> get_to (i mp) = Some (t mp)" "m \<noteq> 0"
  shows "members_window project_id get_to mps (m - Hour, m) =
    (if refused m (map t mps) then None else (let e = fold min (map t mps) m in Some (e - Hour, e)))"
  using assms
proof (induction mps arbitrary: m)
  case (Cons mp mps)
  have k: "project_id mp = Some (i mp)" "get_to (i mp) = Some (t mp)" using Cons.prems(1) by auto
  show ?case
  proof (cases "t mp = 0 \<or> t mp < m - Hour")
    case True
    then show ?thesis using k by (auto simp: member_step_def)
  next
    case False
    have "member_step (t mp) (m - Hour, m) = Some (min m (t mp) - Hour, min m (t mp))" using False Cons.prems(2) by (auto simp: member_step_def min_def)
    then show ?thesis using Cons.IH [of "min m (t mp)"] Cons.prems False k by (auto simp: min.commute min_def)
  qed
qed simp

text \<open>
  C21. The window of a project of several clusters: when every member is found and answers, the window is the last hour
  before the earliest results; the pass is skipped if a member has no results, or if the results of a member
  end more than an hour before the earliest of those of the members before it.
\<close>

theorem window_of_members:
  assumes "lp_MemberProjects p = mp # mps"
    "list_all (\<lambda>mp. project_id mp = Some (i mp) \<and> get_to (i mp) = Some (t mp)) (mp # mps)"
  shows "update_window (Some project_id) get_to p =
    (if t mp \<le> 0 \<or> refused (t mp) (map t mps) then None else (let e = fold min (map t mps) (t mp) in Some (e - Hour, e)))"
proof -
  have k: "project_id mp = Some (i mp)" "get_to (i mp) = Some (t mp)" using assms(2) by simp_all
  show ?thesis
  proof (cases "t mp \<le> 0")
    case True
    then show ?thesis using assms(1) k by (auto simp: update_window_def member_step_def)
  next
    case False
    have "member_step (t mp) (0, 0) = Some (t mp - Hour, t mp)" using False by (simp add: member_step_def)
    then show ?thesis using members_window_known [of mps project_id i get_to t "t mp"] assms k False by (simp add: update_window_def list_all_iff)
  qed
qed

text \<open>Whether a member that is late stops the pass depends on the order of the members.\<close>

theorem window_of_members_witness:
  "update_window (Some Some) (\<lambda>n. Some (if n = ''late'' then 1000 else 9000)) \<lparr>lp_Id = ''x'', lp_MemberProjects = [''late'', ''fresh'']\<rparr> = Some (1000 - Hour, 1000) \<and>
   update_window (Some Some) (\<lambda>n. Some (if n = ''late'' then 1000 else 9000)) \<lparr>lp_Id = ''x'', lp_MemberProjects = [''fresh'', ''late'']\<rparr> = None"
  using window_of_members [of "\<lparr>lp_Id = ''x'', lp_MemberProjects = [''late'', ''fresh'']\<rparr>" "''late''" "[''fresh'']" Some id
      "\<lambda>n. Some (if n = ''late'' then 1000 else 9000)" "\<lambda>n. if n = ''late'' then 1000 else 9000"]
    window_of_members [of "\<lparr>lp_Id = ''x'', lp_MemberProjects = [''fresh'', ''late'']\<rparr>" "''fresh''" "[''late'']" Some id
      "\<lambda>n. Some (if n = ''late'' then 1000 else 9000)" "\<lambda>n. if n = ''late'' then 1000 else 9000"]
  by (simp add: duration_defs)

end
