(* ===== verification/Spec2Isabelle.thy ===== *)
theory Spec2Isabelle
  imports TimeSeries Rbac Categories RuleProperties AlertSafety IncidentSafety DeploymentSafety WorldReads DirectorySafety TelemetrySafety CollectorSafety WatcherLoop
begin

text \<open>
  Coroot: an observability server. It collects telemetry, builds from it a model of the running
  applications (the \<^verbatim>\<open>World\<close>), audits that model, and watches it: the watchers turn failing
  checks, log patterns, PromQL expressions and Kubernetes events into alerts and violated service level
  objectives into incidents, keep both in an SQL database and notify people through Slack, Teams,
  PagerDuty, Opsgenie and webhooks.

  \<^bold>\<open>Theories.\<close>
  \<^item> \<^verbatim>\<open>Prelude\<close>: Go's truncating division, the functions of the packages \<^verbatim>\<open>strings\<close>,
    \<^verbatim>\<open>strconv\<close> and \<^verbatim>\<open>sort\<close> that the sources use, stable sorting, and tables as lists of rows.
  \<^item> \<^verbatim>\<open>Float32\<close>: the values of \<^verbatim>\<open>float32\<close> with round-to-nearest-even arithmetic and Go's comparisons.
  \<^item> \<^verbatim>\<open>TimeSeries\<close>: \<^verbatim>\<open>timeseries/\<close> (times, durations, series, iterators, fills, reducers, aggregates).
    Two locales give the laws of the reducers: \<open>nan_selector\<close> and \<open>nan_extremum\<close>.
  \<^item> \<^verbatim>\<open>Utils\<close>: \<^verbatim>\<open>utils/\<close> (globs with a port of \<^verbatim>\<open>filepath.Match\<close>, string sets, truncation).
  \<^item> \<^verbatim>\<open>Applications\<close>: \<^verbatim>\<open>model/application_id.go\<close>, \<^verbatim>\<open>status.go\<close>, \<^verbatim>\<open>severity.go\<close>, \<^verbatim>\<open>application_category.go\<close>.
  \<^item> \<^verbatim>\<open>Rbac\<close>: \<^verbatim>\<open>rbac/\<close> and \<^verbatim>\<open>IsAllowed\<close> of \<^verbatim>\<open>api/auth.go\<close>.
  \<^item> \<^verbatim>\<open>Categories\<close>: \<^verbatim>\<open>db/application_categories.go\<close> and the integrations of \<^verbatim>\<open>db/integrations.go\<close>.
  \<^item> \<^verbatim>\<open>AlertModel\<close>: the records of \<^verbatim>\<open>model/\<close> that the watchers work on.
  \<^item> \<^verbatim>\<open>Format\<close>, \<^verbatim>\<open>Checks\<close>, \<^verbatim>\<open>BuiltinRules\<close>, \<^verbatim>\<open>RuleProperties\<close>: the text of numbers (\<^verbatim>\<open>utils/format.go\<close>), the table
    of checks with their messages, statuses and configured thresholds (\<^verbatim>\<open>model/check.go\<close>), and the table of
    built-in alerting rules (\<^verbatim>\<open>model/alerting_rule.go\<close>).
  \<^item> \<^verbatim>\<open>Database\<close>: the tables, the environment (clock, random ids, failing statements, third-party
    functions) and the execution of one SQL statement.
  \<^item> \<^verbatim>\<open>AlertStore\<close>: \<^verbatim>\<open>db/alert.go\<close>, with the invariant \<open>alerts_ok\<close> and the locale \<open>alert_table_op\<close> of the
    operations that open nothing.
  \<^item> \<^verbatim>\<open>SendPass\<close>: the contract of a sending pass as the locales \<open>send_pass\<close> and \<open>framed_send_pass\<close>.
  \<^item> \<^verbatim>\<open>AlertNotifier\<close>: \<^verbatim>\<open>db/alert_notification.go\<close>, \<^verbatim>\<open>notifications/alerts.go\<close>, and \<^verbatim>\<open>getClient\<close>; it
    interprets both contracts.
  \<^item> \<^verbatim>\<open>AlertWatcher\<close>: \<^verbatim>\<open>watchers/alerts.go\<close>, one definition per function and per loop body.
  \<^item> \<^verbatim>\<open>AlertInvariant\<close>: what every operation keeps of the table of alerts (\<open>alerts_ok K\<close>: one unresolved alert per
    fingerprint for the rules of a set \<open>K\<close>, those on checks and PromQL; rules on log patterns and Kubernetes
    events run beside them and may break it for themselves), and the step relation of watcher, notifier and users.
  \<^item> \<^verbatim>\<open>AlertSafety\<close>: the theorems on the watcher.
  \<^item> \<^verbatim>\<open>IncidentStore\<close>, \<^verbatim>\<open>IncidentNotifier\<close>: \<^verbatim>\<open>db/incident.go\<close> and \<^verbatim>\<open>notifications/incidents.go\<close>; the
    notifier interprets the contract of a sending pass again.
  \<^item> \<^verbatim>\<open>IncidentWatcher\<close>: \<^verbatim>\<open>watchers/incidents.go\<close> (burn rates, a pass of the watcher) and, from
    \<^verbatim>\<open>api/rca.go\<close>, the callback that stores the root cause analysis of an incident.
  \<^item> \<^verbatim>\<open>IncidentSafety\<close>: the theorems on incidents, and the step relation of watcher, analysis and resends.
    The locales \<open>incident_table_op\<close> and \<open>incident_column_op\<close> are the contracts of the operations that
    open no incident and of those that leave open and resolved rows as they are.
  \<^item> \<^verbatim>\<open>MemoryLeak\<close>: \<^verbatim>\<open>MemoryGrowthPct\<close> of \<^verbatim>\<open>auditor/memory.go\<close>, with the arithmetic of \<^verbatim>\<open>float64\<close>.
  \<^item> \<^verbatim>\<open>DeploymentModel\<close>, \<^verbatim>\<open>DeploymentStore\<close>, \<^verbatim>\<open>DeploymentWatcher\<close>: \<^verbatim>\<open>model/application_deployment.go\<close>,
    \<^verbatim>\<open>db/deployments.go\<close> and \<^verbatim>\<open>watchers/deployments.go\<close> (rollouts from the life spans of replica sets, snapshots
    of metrics, summaries and messages).
  \<^item> \<^verbatim>\<open>DeploymentSafety\<close>: the theorems on deployments. The locale \<open>message_channel\<close> is the contract of a channel,
    interpreted on Slack, Teams and the webhook.
  \<^item> \<^verbatim>\<open>Promql\<close>: \<^verbatim>\<open>model/labels.go\<close> and the range queries of \<^verbatim>\<open>promql/client.go\<close>.
  \<^item> \<^verbatim>\<open>WorldEvaluator\<close>, \<^verbatim>\<open>WorldRun\<close>: the evaluator of \<^verbatim>\<open>world/\<close>, which evaluates the constructor's queries
    every 15 seconds and stores the results in ClickHouse: the tables with their rollups, a cycle over the
    queries, the recording rules in chunks of an hour, the status of a project.
  \<^item> \<^verbatim>\<open>WorldStore\<close>: \<^verbatim>\<open>world/store.go\<close>, reading a window of the stored results back.
  \<^item> \<^verbatim>\<open>WorldSafety\<close>, \<^verbatim>\<open>WorldLabels\<close>: the theorems on what the evaluator writes: every point once, labels first.
  \<^item> \<^verbatim>\<open>WorldProperties\<close>: schedules of the concurrent queries, progress of the recording rules, failures.
  \<^item> \<^verbatim>\<open>Net\<close>, \<^verbatim>\<open>SpanServers\<close>, \<^verbatim>\<open>Directory\<close>, \<^verbatim>\<open>RecentAddresses\<close>: the parts that name and count the spans the collector
    receives: the functions of package \<^verbatim>\<open>net\<close> that it uses, \<^verbatim>\<open>collector/request_counting.go\<close>,
    \<^verbatim>\<open>collector/applications.go\<close> and \<^verbatim>\<open>collector/recent_addresses.go\<close>, with the theorems on counting and addresses.
  \<^item> \<^verbatim>\<open>DirectorySafety\<close>: the owner of an address, and that the cache of guessed names is not seen.
  \<^item> \<^verbatim>\<open>TracesBatch\<close>, \<^verbatim>\<open>TracesSafety\<close>: \<^verbatim>\<open>collector/traces.go\<close>, the batch of spans of a project with the bodies of
    their requests, and the theorems on what it hands to ClickHouse.
  \<^item> \<^verbatim>\<open>BatchContract\<close>, \<^verbatim>\<open>TelemetryBatches\<close>, \<^verbatim>\<open>TelemetrySafety\<close>: the batches of \<^verbatim>\<open>collector/logs.go\<close>,
    \<^verbatim>\<open>collector/metrics.go\<close> and \<^verbatim>\<open>collector/profiles.go\<close>. The locale \<open>telemetry_batch\<close> is the contract of a batch;
    it is interpreted on logs, on the samples and the metadata of metrics, and on profiles.
  \<^item> \<^verbatim>\<open>Collector\<close>, \<^verbatim>\<open>CollectorSafety\<close>: \<^verbatim>\<open>collector/collector.go\<close>, \<^verbatim>\<open>collector/migration.go\<close>,
    \<^verbatim>\<open>collector/application_directories.go\<close> and \<^verbatim>\<open>collector/traced_clients.go\<close>: the project of a key, and the connections
    and tables of the ClickHouse of each project, with the events of the collector as steps, the API's among them
    (settings checked and saved: \<^verbatim>\<open>MigrateClickhouseDatabase\<close>, \<^verbatim>\<open>UpdateClickhouseClient\<close>).
  \<^item> \<^verbatim>\<open>PrimaryLock\<close>, \<^verbatim>\<open>WatcherLoop\<close>: \<^verbatim>\<open>db/lock.go\<close>, by which the replicas agree on a primary, and
    \<^verbatim>\<open>watchers/watchers.go\<close>: the queue of updates of its two goroutines, and the window that a pass loads.
  \<^item> \<^verbatim>\<open>WorldReads\<close>: what a page reads. The locale \<open>table_invariant\<close> is the contract of an invariant of the
    tables; it is interpreted on the rollups and on the values of the points.

  \<^bold>\<open>Conventions.\<close> A Go string is a list of bytes. A nil pointer is \<open>None\<close>; a call that may return an
  error is a sum; a run-time panic is \<open>None\<close>. A Go map whose iteration is visible is an association list
  in the order of iteration, and the theorems hold for every such list; a map that is only looked up is a
  HOL map. Times and durations are integers with Go's division (\<open>sdiv\<close>, \<open>smod\<close>). The state of the
  program is passed explicitly: the watcher's maps and the database. Every SQL statement may fail; a
  failed statement changes nothing; JSON columns hold the decoded value; \<^verbatim>\<open>ORDER BY\<close> is a stable sort
  of the rows in the order of insertion. What is outside the repository (SHA-256, \<^verbatim>\<open>text/template\<close>,
  the PromQL parser, the notification services, random ids, the clock) is a field of the record \<open>Env\<close>,
  and the theorems quantify over it. An index that the code computes and
  does not check itself is read through an option (\<open>None\<close>: the panic) where a property speaks of it. The trace of sent messages is recorded beside the state so that
  properties can speak of it; no operation reads it, except that the n-th answer of a service may
  depend on n.

  \<^bold>\<open>What is shown.\<close> Series: fills, iterators and reducers against their pointwise specification. Ids
  and settings: round trips, consistency. Access control: exactly what each built-in role may do.
  Alerts: the invariant of the table in every reachable state of watcher, notifier and users, in which users
  suppress unresolved alerts only (suppressing a resolved one breaks it, \<open>suppression_duplicates\<close>); when a
  check creates and resolves alerts; that exactly the alerts a rule does not keep are resolved; order and
  failure handling of notifications, with the window of an hour for retries. Incidents: at most one open incident per application in every
  reachable state; that incidents follow the objectives; that exactly the incidents of vanished applications are
  resolved at the end of a pass; that the resolution closes everything PagerDuty and Opsgenie have open. Deployments: the rollouts found are
  in order and found again by later passes, the windows of their metrics do not overlap, and each channel
  gets the messages of a deployment in order and once, as long as their states are saved. Results of the world: every
  point is stored once, for every schedule of the concurrent queries and every failure; labels are stored
  before points and read back as written; the rollups give the answers of the points (with exact sums for the
  averages and sums); the recording rules have their rows at every step up to the reported end. Spans: every span received is handed to ClickHouse once, after the
  bodies it refers to; which span of a request counts depends on the last hour of the history only; an address
  is named after its best owner, or after a pod that was seen there within ten minutes. Logs, metrics and profiles:
  handed over once, logs and samples bounded, profiles with their stacks. Connections: a statement goes to the
  ClickHouse of the settings of its project after its tables, unless the settings were loaded between the
  start of a pass of the migration and the project's turn. Replicas: one primary at a time; no update of a project is lost.

  \<^bold>\<open>Termination and fuel.\<close> No definition has fuel. The recursions that are not structural (iterators,
  fills, glob matching) have termination proofs.

  \<^bold>\<open>Not modelled.\<close> The construction of the world from metrics and the auditor, whose results are inputs
  of the watchers; HTTP handlers and views; ClickHouse and Prometheus clients; the notification clients'
  payloads; goroutines, tickers and channels, whose steps are the operations above; logging.
\<close>

end
